(* ===== verification/Prelude.thy ===== *)
theory Prelude
  imports Main "HOL-Library.Word"
begin

text \<open>
  Shared vocabulary of the development: the theorem collections, JavaScript values and
  errors, strings, decimal digit strings, and insertion-ordered objects.

  Conventions. A JavaScript string is the list of the bytes of its UTF-8 encoding (type
  \<^typ>\<open>string\<close>), so that a source literal is a HOL literal. Whitespace and letter case are
  those of ASCII: the few non-ASCII characters that \<open>trim\<close>, \<open>\s\<close>, \<open>toLowerCase\<close> and
  \<open>toUpperCase\<close> also treat are outside the model. \<open>undefined\<close> is the value \<open>JUndef\<close> or the
  option value \<open>None\<close>; a thrown value is the left side of a sum.
\<close>

named_theorems digit_simps \<open>facts about digit strings and the numbers they denote\<close>
named_theorems js_eval \<open>equations that evaluate the model on concrete arguments\<close>
named_theorems obj_simps \<open>lookup laws of insertion-ordered objects\<close>

section \<open>Errors and the result type\<close>

datatype js_error =
    RangeError
  | SyntaxError
  | JsError string
  | SdkError string string

type_synonym 'a result = "js_error + 'a"

definition bind_result :: "'a result \<Rightarrow> ('a \<Rightarrow> 'b result) \<Rightarrow> 'b result" where
  "bind_result r f = (case r of Inl e \<Rightarrow> Inl e | Inr x \<Rightarrow> f x)"

lemma bind_result_simps [simp]:
  "bind_result (Inl e) f = Inl e"
  "bind_result (Inr x) f = f x"
  by (simp_all add: bind_result_def)

lemma bind_result_Inr_iff:
  "bind_result r f = Inr y \<longleftrightarrow> (\<exists>x. r = Inr x \<and> f x = Inr y)"
  by (cases r) simp_all

lemma bind_result_Inl_iff:
  "bind_result r f = Inl e \<longleftrightarrow> r = Inl e \<or> (\<exists>x. r = Inr x \<and> f x = Inl e)"
  by (cases r) auto

section \<open>Characters\<close>

definition code :: "char \<Rightarrow> nat" where
  "code c = of_char c"

definition is_digit :: "char \<Rightarrow> bool" where
  "is_digit c \<longleftrightarrow> 48 \<le> code c \<and> code c \<le> 57"

definition is_ws :: "char \<Rightarrow> bool" where
  "is_ws c \<longleftrightarrow> code c = 32 \<or> (9 \<le> code c \<and> code c \<le> 13)"

definition lower_char :: "char \<Rightarrow> char" where
  "lower_char c = (if 65 \<le> code c \<and> code c \<le> 90 then char_of (code c + 32) else c)"

definition upper_char :: "char \<Rightarrow> char" where
  "upper_char c = (if 97 \<le> code c \<and> code c \<le> 122 then char_of (code c - 32) else c)"

lemma code_char_of: "n < 256 \<Longrightarrow> code (char_of n) = n"
  by (simp add: code_def)

lemma code_inj: "code a = code b \<longleftrightarrow> a = b"
  by (simp add: code_def)

lemma lower_char_idem [simp]: "lower_char (lower_char c) = lower_char c"
  by (simp add: lower_char_def code_char_of)

lemma digit_not_ws: "is_digit c \<Longrightarrow> \<not> is_ws c"
  by (simp add: is_digit_def is_ws_def)

lemma not_ws_punct [simp]:
  "\<not> is_ws (CHR ''.'')" "\<not> is_ws (CHR ''-'')" "is_ws (CHR '' '')"
  by (simp_all add: is_ws_def code_def)

section \<open>Strings\<close>

definition toLowerCase :: "string \<Rightarrow> string" where
  "toLowerCase s = map lower_char s"

definition toUpperCase :: "string \<Rightarrow> string" where
  "toUpperCase s = map upper_char s"

definition trim :: "string \<Rightarrow> string" where
  "trim s = rev (dropWhile is_ws (rev (dropWhile is_ws s)))"

text \<open>\<open>split\<close> at a one-character separator: never the empty list.\<close>

fun split_on :: "char \<Rightarrow> string \<Rightarrow> string list" where
  "split_on c [] = [[]]"
| "split_on c (x # xs) =
     (if x = c then [] # split_on c xs
      else (case split_on c xs of [] \<Rightarrow> [[x]] | y # ys \<Rightarrow> (x # y) # ys))"

text \<open>\<open>split(/\s+/)\<close>: a maximal run of whitespace is one separator.\<close>

fun split_ws :: "string \<Rightarrow> string list" where
  "split_ws [] = [[]]"
| "split_ws (x # xs) =
     (if is_ws x then
        (if xs \<noteq> [] \<and> is_ws (hd xs) then split_ws xs else [] # split_ws xs)
      else (case split_ws xs of [] \<Rightarrow> [[x]] | y # ys \<Rightarrow> (x # y) # ys))"

fun startsWith :: "string \<Rightarrow> string \<Rightarrow> bool" where
  "startsWith s [] = True"
| "startsWith [] (p # ps) = False"
| "startsWith (x # xs) (p # ps) = (x = p \<and> startsWith xs ps)"

fun str_includes :: "string \<Rightarrow> string \<Rightarrow> bool" where
  "str_includes [] p = (p = [])"
| "str_includes (x # xs) p = (startsWith (x # xs) p \<or> str_includes xs p)"

text \<open>\<open>slice(-n)\<close>, the last \<open>n\<close> characters (all of them when there are fewer).\<close>

definition slice_last :: "nat \<Rightarrow> string \<Rightarrow> string" where
  "slice_last n s = drop (length s - n) s"

text \<open>\<open>replace(/c+$/, '')\<close>: drop the trailing run of one character.\<close>

definition strip_trailing :: "char \<Rightarrow> string \<Rightarrow> string" where
  "strip_trailing c s = rev (dropWhile (\<lambda>x. x = c) (rev s))"

definition join :: "string \<Rightarrow> string list \<Rightarrow> string" where
  "join sep xs = (case xs of [] \<Rightarrow> [] | y # ys \<Rightarrow> y @ concat (map (\<lambda>z. sep @ z) ys))"

definition padStart :: "nat \<Rightarrow> char \<Rightarrow> string \<Rightarrow> string" where
  "padStart n c s = replicate (n - length s) c @ s"

definition padEnd :: "nat \<Rightarrow> char \<Rightarrow> string \<Rightarrow> string" where
  "padEnd n c s = s @ replicate (n - length s) c"

text \<open>\<open>'${s}'\<close> and \<open>"${s}"\<close> in a template.\<close>

definition quoted :: "string \<Rightarrow> string" where
  "quoted s = CHR 0x27 # s @ [CHR 0x27]"

definition dquoted :: "string \<Rightarrow> string" where
  "dquoted s = CHR 0x22 # s @ [CHR 0x22]"

text \<open>The em dash of the messages is three bytes.\<close>

definition em_dash :: string where
  "em_dash = [CHR 0xE2, CHR 0x80, CHR 0x94]"

lemma toLowerCase_idem [simp]: "toLowerCase (toLowerCase s) = toLowerCase s"
  by (simp add: toLowerCase_def)

lemma split_on_not_Nil [simp]: "split_on c s \<noteq> []"
  by (cases s) (auto split: list.splits)

lemma split_on_absent: "c \<notin> set s \<Longrightarrow> split_on c s = [s]"
  by (induction s) auto

lemma split_on_append: "c \<notin> set s \<Longrightarrow> split_on c (s @ c # t) = s # split_on c t"
  by (induction s) auto

lemma split_ws_absent: "\<forall>x \<in> set s. \<not> is_ws x \<Longrightarrow> split_ws s = [s]"
  by (induction s) auto

lemma split_ws_word:
  assumes "\<forall>x \<in> set s. \<not> is_ws x" and "is_ws c" and "t = [] \<or> \<not> is_ws (hd t)"
  shows "split_ws (s @ c # t) = s # split_ws t"
  using assms by (induction s) auto

lemma split_ws_not_Nil [simp]: "split_ws s \<noteq> []"
  by (induction s rule: split_ws.induct) (auto split: list.splits)

lemma split_ws_sep_hd: "is_ws c \<Longrightarrow> hd (split_ws (c # t)) = []"
  by (induction t arbitrary: c) auto

lemma split_ws_hd:
  assumes "s \<noteq> []" and "\<forall>x \<in> set s. \<not> is_ws x" and "is_ws c"
  shows "hd (split_ws (s @ c # t)) = s"
  using assms(1,2)
proof (induction s)
  case (Cons x s)
  obtain y ys where y: "split_ws (s @ c # t) = y # ys"
    using split_ws_not_Nil by (metis neq_Nil_conv)
  have "y = s"
  proof (cases "s = []")
    case True
    with y show ?thesis using split_ws_sep_hd [OF assms(3), of t] by simp
  next
    case False
    with Cons y show ?thesis by simp
  qed
  with Cons.prems y show ?case by simp
qed simp

lemma startsWith_iff: "startsWith s p \<longleftrightarrow> (\<exists>t. s = p @ t)"
  by (induction s p rule: startsWith.induct) auto

lemma startsWith_append [simp]: "startsWith (p @ t) p"
  by (auto simp: startsWith_iff)

lemma dropWhile_noop: "xs = [] \<or> \<not> P (hd xs) \<Longrightarrow> dropWhile P xs = xs"
  by (cases xs) auto

lemma trim_noop:
  assumes "s = [] \<or> (\<not> is_ws (hd s) \<and> \<not> is_ws (last s))"
  shows "trim s = s"
proof -
  have "dropWhile is_ws s = s" using assms by (auto intro: dropWhile_noop)
  moreover have "dropWhile is_ws (rev s) = rev s"
    using assms by (auto intro!: dropWhile_noop simp: hd_rev)
  ultimately show ?thesis by (simp add: trim_def)
qed

lemma trim_no_ws: "\<forall>x \<in> set s. \<not> is_ws x \<Longrightarrow> trim s = s"
  by (rule trim_noop) (cases "s = []"; simp)

lemma strip_trailing_append_neq:
  "x \<noteq> c \<Longrightarrow> strip_trailing c (s @ [x]) = s @ [x]"
  by (simp add: strip_trailing_def)

lemma strip_trailing_snoc [simp]: "strip_trailing c (s @ [c]) = strip_trailing c s"
  by (simp add: strip_trailing_def)

lemma strip_trailing_Nil [simp]: "strip_trailing c [] = []"
  by (simp add: strip_trailing_def)

lemma strip_trailing_decomp:
  "\<exists>k. s = strip_trailing c s @ replicate k c"
proof (induction s rule: rev_induct)
  case Nil
  show ?case by simp
next
  case (snoc x s)
  show ?case
  proof (cases "x = c")
    case True
    from snoc.IH obtain k where "s = strip_trailing c s @ replicate k c" ..
    then have "s @ [x] = strip_trailing c (s @ [x]) @ replicate (Suc k) c"
      using True by (metis append.assoc replicate_append_same replicate_Suc strip_trailing_snoc)
    then show ?thesis by blast
  next
    case False
    then have "s @ [x] = strip_trailing c (s @ [x]) @ replicate 0 c"
      by (simp add: strip_trailing_append_neq)
    then show ?thesis by blast
  qed
qed

lemma set_strip_trailing: "set (strip_trailing c s) \<subseteq> set s"
  by (auto simp: strip_trailing_def dest: set_dropWhileD)

lemma strip_trailing_last: "strip_trailing c s = [] \<or> last (strip_trailing c s) \<noteq> c"
proof (induction s rule: rev_induct)
  case Nil
  show ?case by simp
next
  case (snoc x s)
  then show ?case by (cases "x = c") (simp_all add: strip_trailing_append_neq)
qed

lemma length_strip_trailing_le: "length (strip_trailing c s) \<le> length s"
  by (metis length_append le_add1 strip_trailing_decomp)

section \<open>Digit strings and numbers\<close>

definition digit_val :: "char \<Rightarrow> nat" where
  "digit_val c = code c - 48"

definition digit_char :: "nat \<Rightarrow> char" where
  "digit_char d = char_of (48 + d)"

text \<open>\<open>BigInt(s)\<close> of a string of decimal digits.\<close>

definition nat_of_digits :: "string \<Rightarrow> nat" where
  "nat_of_digits s = foldl (\<lambda>n c. 10 * n + digit_val c) 0 s"

text \<open>\<open>toString()\<close> of a non-negative \<open>bigint\<close>, and of any.\<close>

fun nat_str :: "nat \<Rightarrow> string" where
  "nat_str n = (if n < 10 then [digit_char n] else nat_str (n div 10) @ [digit_char (n mod 10)])"

declare nat_str.simps [simp del]

definition int_str :: "int \<Rightarrow> string" where
  "int_str i = (if i < 0 then ''-'' @ nat_str (nat (- i)) else nat_str (nat i))"

abbreviation digits :: "string \<Rightarrow> bool" where
  "digits s \<equiv> (\<forall>c \<in> set s. is_digit c)"

lemma is_digit_digit_char: "d < 10 \<Longrightarrow> is_digit (digit_char d)"
  by (simp add: is_digit_def digit_char_def code_char_of)

lemma digit_val_char: "d < 10 \<Longrightarrow> digit_val (digit_char d) = d"
  by (simp add: digit_val_def digit_char_def code_char_of)

lemma digit_char_0: "digit_char 0 = CHR ''0''"
proof -
  have "code (digit_char 0) = code (CHR ''0'')"
    by (simp add: digit_char_def code_def)
  then show ?thesis by (simp only: code_inj)
qed

lemma digit_val_less: "is_digit c \<Longrightarrow> digit_val c < 10"
  unfolding is_digit_def digit_val_def by arith

lemma digit_val_0: "digit_val (CHR ''0'') = 0"
  by (simp add: digit_val_def code_def)

lemma digit_val_eq_0: "is_digit c \<Longrightarrow> digit_val c = 0 \<longleftrightarrow> c = CHR ''0''"
proof -
  assume "is_digit c"
  then have "digit_val c = 0 \<longleftrightarrow> code c = code (CHR ''0'')"
    by (auto simp: digit_val_def is_digit_def code_def)
  then show ?thesis by (simp add: code_inj)
qed

lemma is_digit_0 [simp]: "is_digit (CHR ''0'')"
  by (simp add: is_digit_def code_def)

lemma not_digit_dot [simp]: "\<not> is_digit (CHR ''.'')" "\<not> is_digit (CHR ''-'')"
  by (simp_all add: is_digit_def code_def)

lemma foldl_digits:
  "foldl (\<lambda>n c. 10 * n + digit_val c) a s = a * 10 ^ length s + nat_of_digits s"
proof (induction s arbitrary: a)
  case Nil
  show ?case by (simp add: nat_of_digits_def)
next
  case (Cons c s)
  have "nat_of_digits (c # s) = digit_val c * 10 ^ length s + nat_of_digits s"
    unfolding nat_of_digits_def using Cons.IH [of "digit_val c"]
    by (simp add: nat_of_digits_def)
  then show ?case using Cons.IH [of "10 * a + digit_val c"] by (simp add: algebra_simps)
qed

lemma nat_of_digits_Nil [digit_simps]: "nat_of_digits [] = 0"
  by (simp add: nat_of_digits_def)

lemma nat_of_digits_Cons [digit_simps]:
  "nat_of_digits (c # s) = digit_val c * 10 ^ length s + nat_of_digits s"
  unfolding nat_of_digits_def using foldl_digits [of "digit_val c" s]
  by (simp add: nat_of_digits_def)

lemma nat_of_digits_append [digit_simps]:
  "nat_of_digits (s @ t) = nat_of_digits s * 10 ^ length t + nat_of_digits t"
  by (induction s) (simp_all add: digit_simps algebra_simps power_add)

lemma nat_of_digits_replicate_0 [digit_simps]: "nat_of_digits (replicate k (CHR ''0'')) = 0"
  by (induction k) (simp_all add: digit_simps digit_val_0)

lemma nat_of_digits_dropWhile_0 [digit_simps]:
  "nat_of_digits (dropWhile (\<lambda>c. c = CHR ''0'') s) = nat_of_digits s"
  by (induction s) (simp_all add: digit_simps digit_val_0)

lemma nat_of_digits_bound: "digits s \<Longrightarrow> nat_of_digits s < 10 ^ length s"
proof (induction s)
  case Nil
  show ?case by (simp add: digit_simps)
next
  case (Cons c s)
  then have "nat_of_digits s < 10 ^ length s" and "digit_val c \<le> 9"
    using digit_val_less [of c] by auto
  then have "digit_val c * 10 ^ length s + nat_of_digits s < 9 * 10 ^ length s + 10 ^ length s"
    by (meson add_le_less_mono mult_le_mono1)
  then show ?case by (simp add: digit_simps)
qed

lemma nat_str_digits: "digits (nat_str n)"
proof (induction n rule: nat_str.induct)
  case (1 n)
  then show ?case by (subst nat_str.simps) (auto simp: is_digit_digit_char)
qed

lemma nat_str_not_Nil [simp]: "nat_str n \<noteq> []"
  by (subst nat_str.simps) simp

lemma nat_of_digits_nat_str [digit_simps]: "nat_of_digits (nat_str n) = n"
proof (induction n rule: nat_str.induct)
  case (1 n)
  then show ?case by (subst nat_str.simps) (simp add: digit_simps digit_val_char)
qed

lemma nat_str_hd: "n \<noteq> 0 \<Longrightarrow> hd (nat_str n) \<noteq> CHR ''0''"
proof (induction n rule: nat_str.induct)
  case (1 n)
  show ?case
  proof (cases "n < 10")
    case True
    then have "digit_val (digit_char n) \<noteq> digit_val (CHR ''0'')"
      using "1.prems" by (simp add: digit_val_char digit_val_0)
    then have "digit_char n \<noteq> CHR ''0''" by metis
    then show ?thesis using True by (subst nat_str.simps) simp
  next
    case False
    then have "hd (nat_str (n div 10)) \<noteq> CHR ''0''" using "1.IH" by simp
    then show ?thesis using False by (subst nat_str.simps) simp
  qed
qed

lemma length_nat_str_le: "n < 10 ^ d \<Longrightarrow> 0 < d \<Longrightarrow> length (nat_str n) \<le> d"
proof (induction n arbitrary: d rule: nat_str.induct)
  case (1 n)
  show ?case
  proof (cases "n < 10")
    case True
    then show ?thesis using "1.prems" by (subst nat_str.simps) simp
  next
    case False
    with "1.prems" obtain e where d: "d = Suc e" and "0 < e"
      by (cases d; cases "d - 1"; auto)
    moreover have "n div 10 < 10 ^ e" using "1.prems" d by (simp add: div_less_iff_less_mult)
    ultimately have "length (nat_str (n div 10)) \<le> e" using "1.IH" False by blast
    then show ?thesis using False d by (subst nat_str.simps) simp
  qed
qed

text \<open>A digit string without a leading zero is the rendering of its number.\<close>

lemma nat_str_snoc:
  "n \<noteq> 0 \<Longrightarrow> d < 10 \<Longrightarrow> nat_str (10 * n + d) = nat_str n @ [digit_char d]"
  by (subst nat_str.simps) simp

lemma digit_char_val: "is_digit c \<Longrightarrow> digit_char (digit_val c) = c"
  by (simp add: is_digit_def digit_char_def digit_val_def code_def)

lemma nat_str_nat_of_digits:
  assumes "digits s" and "s \<noteq> []" and "hd s \<noteq> CHR ''0''"
  shows "nat_str (nat_of_digits s) = s"
  using assms
proof (induction s rule: rev_induct)
  case Nil
  then show ?case by simp
next
  case (snoc c s)
  then have dc: "digit_val c < 10" "digit_char (digit_val c) = c"
    by (auto simp: digit_val_less digit_char_val)
  show ?case
  proof (cases "s = []")
    case True
    then show ?thesis using dc by (subst nat_str.simps) (simp add: digit_simps)
  next
    case False
    then have IH: "nat_str (nat_of_digits s) = s" using snoc by simp
    moreover have "nat_of_digits s \<noteq> 0"
    proof
      assume "nat_of_digits s = 0"
      then have "s = [digit_char 0]" using IH by (simp add: nat_str.simps)
      moreover have "digit_char 0 = CHR ''0''" by (rule digit_char_0)
      ultimately show False using snoc.prems by simp
    qed
    ultimately show ?thesis using dc
      using nat_str_snoc [of "nat_of_digits s" "digit_val c"]
      by (simp add: digit_simps mult.commute)
  qed
qed

section \<open>JavaScript values and insertion-ordered objects\<close>

datatype jval =
    JUndef
  | JNull
  | JBool bool
  | JNum int
  | JStr string

type_synonym 'v obj = "(string \<times> 'v) list"

definition get :: "'v obj \<Rightarrow> string \<Rightarrow> 'v option" where
  "get ob k = map_of ob k"

text \<open>\<open>ob[k] = v\<close>: an existing key keeps its place, a new one goes to the end.\<close>

fun put :: "'v obj \<Rightarrow> string \<Rightarrow> 'v \<Rightarrow> 'v obj" where
  "put [] k v = [(k, v)]"
| "put ((k', v') # ob) k v = (if k' = k then (k, v) # ob else (k', v') # put ob k v)"

text \<open>The spread \<open>{...a, ...b}\<close>.\<close>

definition spread :: "'v obj \<Rightarrow> 'v obj \<Rightarrow> 'v obj" where
  "spread a b = foldl (\<lambda>ob (k, v). put ob k v) a b"

text \<open>\<open>params['k']\<close>: an absent property reads as \<open>undefined\<close>.\<close>

definition prop_of :: "jval obj \<Rightarrow> string \<Rightarrow> jval" where
  "prop_of ob k = (case get ob k of None \<Rightarrow> JUndef | Some v \<Rightarrow> v)"

definition truthy :: "jval \<Rightarrow> bool" where
  "truthy v = (case v of JUndef \<Rightarrow> False | JNull \<Rightarrow> False | JBool b \<Rightarrow> b
     | JNum n \<Rightarrow> n \<noteq> 0 | JStr s \<Rightarrow> s \<noteq> [])"

text \<open>\<open>xs[i] ?? null\<close> and \<open>String(v)\<close> in a template.\<close>

definition nth_or_null :: "string list \<Rightarrow> nat \<Rightarrow> jval" where
  "nth_or_null xs i = (if i < length xs then JStr (xs ! i) else JNull)"

definition nth_or_undef :: "string list \<Rightarrow> nat \<Rightarrow> jval" where
  "nth_or_undef xs i = (if i < length xs then JStr (xs ! i) else JUndef)"

definition js_String :: "jval \<Rightarrow> string" where
  "js_String v = (case v of JUndef \<Rightarrow> ''undefined'' | JNull \<Rightarrow> ''null''
     | JBool b \<Rightarrow> (if b then ''true'' else ''false'') | JNum n \<Rightarrow> int_str n | JStr s \<Rightarrow> s)"

lemma get_put [obj_simps]: "get (put ob k v) k' = (if k' = k then Some v else get ob k')"
  by (induction ob k v rule: put.induct) (auto simp: get_def)

lemma get_Nil [obj_simps]: "get [] k = None"
  by (simp add: get_def)

lemma get_Cons [obj_simps]: "get ((k, v) # ob) k' = (if k' = k then Some v else get ob k')"
  by (simp add: get_def)

lemma keys_put: "fst ` set (put ob k v) = insert k (fst ` set ob)"
  by (induction ob k v rule: put.induct) auto

lemma distinct_put: "distinct (map fst ob) \<Longrightarrow> distinct (map fst (put ob k v))"
  by (induction ob k v rule: put.induct) (auto simp: keys_put)

lemma get_spread [obj_simps]:
  "distinct (map fst b) \<Longrightarrow>
   get (spread a b) k = (case get b k of None \<Rightarrow> get a k | Some v \<Rightarrow> Some v)"
proof (induction b arbitrary: a)
  case Nil
  show ?case by (simp add: spread_def get_def)
next
  case (Cons kv b)
  obtain k' v where kv: "kv = (k', v)" by force
  have "get (spread a (kv # b)) k = get (spread (put a k' v) b) k"
    by (simp add: spread_def kv)
  also have "\<dots> = (case get b k of None \<Rightarrow> get (put a k' v) k | Some v \<Rightarrow> Some v)"
    using Cons by simp
  finally have "get (spread a (kv # b)) k = \<dots>" .
  moreover have "get b k' = None"
    using Cons.prems kv by (simp add: get_def map_of_eq_None_iff)
  ultimately show ?case
    by (cases "k = k'") (auto simp: kv obj_simps split: option.split)
qed

lemma get_Some_in: "get ob k = Some v \<Longrightarrow> (k, v) \<in> set ob"
  by (simp add: get_def map_of_SomeD)

section \<open>Evaluation on concrete arguments\<close>

lemma digit_char_eval [js_eval]:
  "digit_char 0 = CHR ''0''" "digit_char (Suc 0) = CHR ''1''" "digit_char 1 = CHR ''1''"
  "digit_char 2 = CHR ''2''" "digit_char 3 = CHR ''3''" "digit_char 4 = CHR ''4''"
  "digit_char 5 = CHR ''5''" "digit_char 6 = CHR ''6''" "digit_char 7 = CHR ''7''"
  "digit_char 8 = CHR ''8''" "digit_char 9 = CHR ''9''"
  by (simp_all add: digit_char_def flip: code_inj) (simp_all add: code_def)

lemma replicate_eval [js_eval]: "replicate (numeral k) x = x # replicate (pred_numeral k) x"
  by (simp add: numeral_eq_Suc)

lemma take_drop_eval [js_eval]:
  "take (numeral k) (x # xs) = x # take (pred_numeral k) xs"
  "drop (numeral k) (x # xs) = drop (pred_numeral k) xs"
  by (simp_all add: numeral_eq_Suc)

lemmas [js_eval] =
  code_def is_digit_def is_ws_def lower_char_def upper_char_def toLowerCase_def
  toUpperCase_def trim_def slice_last_def strip_trailing_def join_def padStart_def
  padEnd_def quoted_def dquoted_def digit_val_def nat_of_digits_def nat_str.simps
  int_str_def get_def spread_def prop_of_def truthy_def nth_or_null_def nth_or_undef_def
  js_String_def Let_def

end
