(* ===== verification/Bytes.thy ===== *)
theory Bytes
  imports Prelude
begin

text \<open>
  Node.js buffers, as the instruction decoders read them: a \<open>Buffer\<close> is a list of bytes, a
  numeric read past its end throws a \<open>RangeError\<close>, an index past its end reads \<open>undefined\<close>,
  \<open>subarray\<close> clamps, and \<open>toString('utf-8')\<close> is the WHATWG decoder with replacement
  characters. The second part states the encodings that the readers invert.
\<close>

type_synonym byte = "8 word"
type_synonym buffer = "byte list"

section \<open>Reads\<close>

text \<open>\<open>data[i]\<close>: \<open>None\<close> is \<open>undefined\<close>.\<close>

definition byte_at :: "buffer \<Rightarrow> nat \<Rightarrow> nat option" where
  "byte_at b i = (if i < length b then Some (unat (b ! i)) else None)"

fun le_value :: "buffer \<Rightarrow> nat" where
  "le_value [] = 0"
| "le_value (x # xs) = unat x + 256 * le_value xs"

definition read_le :: "nat \<Rightarrow> buffer \<Rightarrow> nat \<Rightarrow> nat result" where
  "read_le n b off = (if off + n \<le> length b then Inr (le_value (take n (drop off b))) else Inl RangeError)"

definition readUInt32LE :: "buffer \<Rightarrow> nat \<Rightarrow> nat result" where
  "readUInt32LE b off = read_le 4 b off"

definition readBigUInt64LE :: "buffer \<Rightarrow> nat \<Rightarrow> nat result" where
  "readBigUInt64LE b off = read_le 8 b off"

definition readBigInt64LE :: "buffer \<Rightarrow> nat \<Rightarrow> int result" where
  "readBigInt64LE b off =
     bind_result (read_le 8 b off) (\<lambda>n. Inr (if n < 2 ^ 63 then int n else int n - 2 ^ 64))"

definition subarray :: "buffer \<Rightarrow> nat \<Rightarrow> nat \<Rightarrow> buffer" where
  "subarray b i j = take (j - i) (drop i b)"

section \<open>UTF-8\<close>

text \<open>
  \<open>toString('utf-8')\<close> keeps every well-formed sequence and puts U+FFFD (bytes EF BF BD) for each
  maximal ill-formed subpart. \<open>utf8_len\<close> is the number of bytes the decoder consumes at the head
  of its input and whether they are well formed: the range of the second byte depends on the
  first one, later bytes are continuation bytes.
\<close>

definition cont_byte :: "byte \<Rightarrow> bool" where
  "cont_byte x \<longleftrightarrow> 128 \<le> x \<and> x \<le> 191"

definition second_ok :: "byte \<Rightarrow> byte \<Rightarrow> bool" where
  "second_ok a x \<longleftrightarrow>
     (if a = 0xE0 then 0xA0 \<le> x \<and> x \<le> 0xBF
      else if a = 0xED then 0x80 \<le> x \<and> x \<le> 0x9F
      else if a = 0xF0 then 0x90 \<le> x \<and> x \<le> 0xBF
      else if a = 0xF4 then 0x80 \<le> x \<and> x \<le> 0x8F
      else cont_byte x)"

definition utf8_need :: "byte \<Rightarrow> nat" where
  "utf8_need a =
     (if a < 128 then 1
      else if 0xC2 \<le> a \<and> a \<le> 0xDF then 2
      else if 0xE0 \<le> a \<and> a \<le> 0xEF then 3
      else if 0xF0 \<le> a \<and> a \<le> 0xF4 then 4
      else 0)"

definition utf8_len :: "byte \<Rightarrow> buffer \<Rightarrow> nat \<times> bool" where
  "utf8_len a xs =
     (let n = utf8_need a in
      if n = 1 then (1, True)
      else if n = 0 then (1, False)
      else if xs = [] \<or> \<not> second_ok a (hd xs) then (1, False)
      else
        let k = 1 + length (takeWhile cont_byte (take (n - 2) (tl xs)))
        in (1 + k, 1 + k = n))"

function utf8_sanitize :: "buffer \<Rightarrow> buffer" where
  "utf8_sanitize [] = []"
| "utf8_sanitize (a # xs) =
     (let (n, ok) = utf8_len a xs
      in (if ok then take n (a # xs) else [0xEF, 0xBF, 0xBD]) @ utf8_sanitize (drop (n - 1) xs))"
  by pat_completeness auto
termination
  by (relation "measure length") auto

definition byte_char :: "byte \<Rightarrow> char" where
  "byte_char x = char_of (unat x)"

definition char_byte :: "char \<Rightarrow> byte" where
  "char_byte c = of_nat (of_char c)"

definition toString_utf8 :: "buffer \<Rightarrow> string" where
  "toString_utf8 b = map byte_char (utf8_sanitize b)"

definition utf8_bytes :: "string \<Rightarrow> buffer" where
  "utf8_bytes s = map char_byte s"

text \<open>\<open>toString('hex')\<close>.\<close>

definition hex_digit :: "nat \<Rightarrow> char" where
  "hex_digit n = (if n < 10 then char_of (48 + n) else char_of (87 + n))"

definition toString_hex :: "buffer \<Rightarrow> string" where
  "toString_hex b = concat (map (\<lambda>x. [hex_digit (unat x div 16), hex_digit (unat x mod 16)]) b)"

section \<open>The encodings the readers invert\<close>

fun le_bytes :: "nat \<Rightarrow> nat \<Rightarrow> buffer" where
  "le_bytes 0 v = []"
| "le_bytes (Suc n) v = of_nat (v mod 256) # le_bytes n (v div 256)"

definition enc_u64 :: "nat \<Rightarrow> buffer" where
  "enc_u64 v = le_bytes 8 v"

definition enc_i64 :: "int \<Rightarrow> buffer" where
  "enc_i64 v = le_bytes 8 (nat (v mod 2 ^ 64))"

definition enc_string :: "string \<Rightarrow> buffer" where
  "enc_string s = le_bytes 4 (length s) @ utf8_bytes s"

definition ascii :: "string \<Rightarrow> bool" where
  "ascii s \<longleftrightarrow> list_all (\<lambda>c. code c < 128) s"

lemma length_le_bytes [simp]: "length (le_bytes n v) = n"
  by (induction n arbitrary: v) simp_all

lemma le_value_bytes: "le_value (le_bytes n v) = v mod 256 ^ n"
proof (induction n arbitrary: v)
  case (Suc n)
  have "unat (of_nat (v mod 256) :: byte) = v mod 256" by (simp add: unat_of_nat)
  then have "le_value (le_bytes (Suc n) v) = v mod 256 + 256 * (v div 256 mod 256 ^ n)"
    using Suc by simp
  also have "\<dots> = v mod (256 * 256 ^ n)" by (simp add: mod_mult2_eq)
  finally show ?case by simp
qed simp

lemma le_value_less: "le_value b < 256 ^ length b"
proof (induction b)
  case (Cons x b)
  have "unat x < 256" by (rule order_less_le_trans [OF unsigned_less]) simp
  with Cons show ?case by simp
qed simp

lemma read_le_prefix:
  "off = length pre \<Longrightarrow> v < 256 ^ n \<Longrightarrow> read_le n (pre @ le_bytes n v @ post) off = Inr v"
  by (simp add: read_le_def le_value_bytes)

lemma read_le_less: "read_le n b off = Inr v \<Longrightarrow> v < 256 ^ n"
  using le_value_less [of "take n (drop off b)"]
  by (auto simp: read_le_def min_absorb2 split: if_splits)

lemma read_le_error: "length b < off + n \<Longrightarrow> read_le n b off = Inl RangeError"
  by (simp add: read_le_def)

lemma read_le_ok: "off + n \<le> length b \<Longrightarrow> \<exists>v < 256 ^ n. read_le n b off = Inr v"
  using read_le_less [of n b off] by (auto simp: read_le_def)

lemma byte_char_inverse: "byte_char (char_byte c) = c"
proof -
  have "unat (of_nat (of_char c) :: byte) = of_char c" by (simp add: unat_of_nat)
  then show ?thesis by (simp add: byte_char_def char_byte_def)
qed

lemma utf8_sanitize_ascii: "list_all (\<lambda>x. x < 128) b \<Longrightarrow> utf8_sanitize b = b"
proof (induction b)
  case (Cons a xs)
  then have "utf8_len a xs = (1, True)" by (simp add: utf8_len_def utf8_need_def)
  with Cons show ?case by simp
qed simp

lemma toString_utf8_ascii: "ascii s \<Longrightarrow> toString_utf8 (utf8_bytes s) = s"
proof -
  assume "ascii s"
  then have "list_all (\<lambda>x. x < 128) (utf8_bytes s)"
    by (auto simp: ascii_def utf8_bytes_def char_byte_def code_def list_all_iff word_less_nat_alt unat_of_nat)
  then show ?thesis
    by (simp add: toString_utf8_def utf8_sanitize_ascii utf8_bytes_def byte_char_inverse o_def)
qed

end
