(* ===== verification/Amounts.thy ===== *)
theory Amounts
  imports Complex_Main Prelude
begin

text \<open>
  Decimal amounts: \<^verbatim>\<open>packages/sdk/src/amount-utils.ts\<close> (the SDK's exact decimals over
  \<open>bigint\<close>) and \<^verbatim>\<open>apps/backend/src/services/chains/solana/amount.ts\<close> (the backend's
  conversion to base units). The abstract specification is the rational number a decimal
  string or a parsed decimal denotes; the lemmas show that parsing, comparing, formatting and
  converting compute on those rationals exactly.
\<close>

section \<open>Decimals of the SDK\<close>

record decimal =
  dec_int :: int
  dec_scale :: nat

text \<open>The regular expressions \<open>^\d+(?:\.\d+)?$\<close> and \<open>^-?\d+(?:\.\d+)?$\<close>.\<close>

definition unsigned_decimal_re :: "string \<Rightarrow> bool" where
  "unsigned_decimal_re s =
     (let w = takeWhile is_digit s; r = dropWhile is_digit s
      in w \<noteq> [] \<and> (case r of [] \<Rightarrow> True
           | c # f \<Rightarrow> c = CHR ''.'' \<and> f \<noteq> [] \<and> list_all is_digit f))"

definition DECIMAL_RE :: "string \<Rightarrow> bool" where
  "DECIMAL_RE s = unsigned_decimal_re (if startsWith s ''-'' then tl s else s)"

definition stripLeadingZeros :: "string \<Rightarrow> string" where
  "stripLeadingZeros v =
     (let stripped = dropWhile (\<lambda>c. c = CHR ''0'') v
      in if stripped = [] then ''0'' else stripped)"

definition stripTrailingZeros :: "string \<Rightarrow> string" where
  "stripTrailingZeros v = strip_trailing (CHR ''0'') v"

text \<open>The argument is \<open>String(value)\<close>: a string as it is, a number in its rendering.\<close>

definition parseDecimal :: "string \<Rightarrow> decimal option" where
  "parseDecimal v =
     (let input = trim v in
      if \<not> DECIMAL_RE input then None
      else
        let negative = startsWith input ''-'';
            unsigned = (if negative then tl input else input);
            parts = split_on (CHR ''.'') unsigned;
            wholeRaw = hd parts;
            fractionRaw = (case tl parts of [] \<Rightarrow> [] | f # _ \<Rightarrow> f);
            whole = stripLeadingZeros wholeRaw;
            fraction = stripTrailingZeros fractionRaw;
            ds = whole @ fraction;
            i = int (nat_of_digits (if ds = [] then ''0'' else ds)) * (if negative then -1 else 1)
        in Some \<lparr>dec_int = i, dec_scale = length fraction\<rparr>)"

definition scaleDecimal :: "decimal \<Rightarrow> nat \<Rightarrow> int result" where
  "scaleDecimal v targetScale =
     (if targetScale < dec_scale v then Inl (JsError ''targetScale must be >= current scale'')
      else Inr (dec_int v * 10 ^ (targetScale - dec_scale v)))"

definition compareDecimals :: "decimal \<Rightarrow> decimal \<Rightarrow> int result" where
  "compareDecimals a b =
     (let scale = max (dec_scale a) (dec_scale b) in
      bind_result (scaleDecimal a scale) (\<lambda>aInt.
      bind_result (scaleDecimal b scale) (\<lambda>bInt.
        Inr (if aInt = bInt then 0 else if aInt > bInt then 1 else -1))))"

definition abs_bigint :: "int \<Rightarrow> int" where
  "abs_bigint v = (if v < 0 then - v else v)"

definition withinRelativeTolerance :: "decimal \<Rightarrow> decimal \<Rightarrow> decimal \<Rightarrow> bool result" where
  "withinRelativeTolerance expected actual tolerance =
     (if dec_int tolerance < 0 then Inr False
      else
        let valueScale = max (dec_scale expected) (dec_scale actual) in
        bind_result (scaleDecimal expected valueScale) (\<lambda>expectedInt.
        bind_result (scaleDecimal actual valueScale) (\<lambda>actualInt.
          if expectedInt = 0 then Inr (actualInt = 0)
          else
            let diff = abs_bigint (actualInt - expectedInt);
                tolDen = 10 ^ dec_scale tolerance;
                lhs = diff * tolDen;
                rhs = abs_bigint expectedInt * dec_int tolerance
            in Inr (lhs \<le> rhs))))"

definition formatUnits :: "int \<Rightarrow> int \<Rightarrow> string" where
  "formatUnits amount decimals =
     (if decimals \<le> 0 then int_str amount
      else
        let negative = amount < 0;
            absAmount = (if negative then - amount else amount);
            base = 10 ^ nat decimals;
            whole = absAmount div base;
            fraction = absAmount mod base;
            sign = (if negative then ''-'' else [])
        in if fraction = 0 then sign @ int_str whole
           else sign @ int_str whole @ ''.'' @
             strip_trailing (CHR ''0'') (padStart (nat decimals) (CHR ''0'') (int_str fraction)))"

definition extractAmountFromHuman :: "string option \<Rightarrow> string option" where
  "extractAmountFromHuman amountHuman =
     (case amountHuman of
        None \<Rightarrow> None
      | Some h \<Rightarrow>
          if h = [] then None
          else let amount = hd (split_ws (trim h))
               in if amount = [] \<or> \<not> DECIMAL_RE amount then None else Some amount)"

section \<open>Base units of the backend\<close>

text \<open>
  A constraint of an intent: a plain value or bounds, each scalar a string or a number (a
  number is carried as its \<open>String\<close> rendering).
\<close>

datatype scalar = SStr string | SNum string

fun scalar_text :: "scalar \<Rightarrow> string" where
  "scalar_text (SStr s) = s"
| "scalar_text (SNum s) = s"

record bounds =
  gte :: "scalar option"
  lte :: "scalar option"
  gt :: "scalar option"
  lt :: "scalar option"

datatype amount_constraint = Plain scalar | Bounded bounds

text \<open>\<open>None\<close> is an absent field: like every value that is no string, it is rejected.\<close>

definition requireExactAmount :: "amount_constraint option \<Rightarrow> string result" where
  "requireExactAmount amount =
     (case amount of
        Some (Plain (SStr s)) \<Rightarrow>
          let trimmed = trim s
          in if \<not> unsigned_decimal_re trimmed
             then Inl (JsError (''Invalid amount: '' @ quoted s @ ''. Expected a positive decimal string.''))
             else Inr trimmed
      | _ \<Rightarrow> Inl (JsError
          ''Amount constraints are not supported for build. Provide an exact amount string.''))"

text \<open>\<open>replace(/^0+(?=\d)/, '')\<close>: drop leading zeros, but keep one digit.\<close>

definition strip_leading_zeros_keep :: "string \<Rightarrow> string" where
  "strip_leading_zeros_keep s =
     (let t = dropWhile (\<lambda>c. c = CHR ''0'') s
      in if t = [] \<and> s \<noteq> [] then ''0'' else t)"

definition toBaseUnits :: "string \<Rightarrow> nat \<Rightarrow> int result" where
  "toBaseUnits amount decimals =
     (if \<not> unsigned_decimal_re amount
      then Inl (JsError (''Invalid decimal amount: '' @ quoted amount))
      else
        let parts = split_on (CHR ''.'') amount;
            whole = hd parts;
            frac = (case tl parts of [] \<Rightarrow> [] | f # _ \<Rightarrow> f)
        in if length frac > decimals
           then Inl (JsError (''Amount '' @ quoted amount @ '' exceeds token precision ('' @
                  nat_str decimals @ '' decimals)''))
           else
             let normalizedFrac = padEnd decimals (CHR ''0'') frac;
                 raw = strip_leading_zeros_keep (whole @ normalizedFrac)
             in Inr (int (nat_of_digits (if raw = [] then ''0'' else raw))))"

section \<open>Specification: the rational number denoted\<close>

definition dec_value :: "decimal \<Rightarrow> rat" where
  "dec_value d = of_int (dec_int d) / 10 ^ dec_scale d"

text \<open>The shape \<open>w\<close> or \<open>w.f\<close> of an unsigned decimal and its value.\<close>

definition decimal_text :: "string \<Rightarrow> string \<Rightarrow> string" where
  "decimal_text w f = (if f = [] then w else w @ ''.'' @ f)"

definition digits_value :: "string \<Rightarrow> string \<Rightarrow> rat" where
  "digits_value w f = of_nat (nat_of_digits w) + of_nat (nat_of_digits f) / 10 ^ length f"

lemma takeWhile_digits: "digits w \<Longrightarrow> \<not> is_digit c \<Longrightarrow> takeWhile is_digit (w @ c # f) = w"
  by (induction w) auto

lemma dropWhile_digits: "digits w \<Longrightarrow> \<not> is_digit c \<Longrightarrow> dropWhile is_digit (w @ c # f) = c # f"
  by (induction w) auto

lemma unsigned_decimal_re_iff:
  "unsigned_decimal_re s \<longleftrightarrow>
   (\<exists>w f. s = decimal_text w f \<and> w \<noteq> [] \<and> digits w \<and> digits f)" (is "?l \<longleftrightarrow> ?r")
proof
  let ?w = "takeWhile is_digit s" and ?d = "dropWhile is_digit s"
  assume l: ?l
  have w: "digits ?w" by (auto dest: set_takeWhileD)
  have s: "s = ?w @ ?d" by simp
  show ?r
  proof (cases ?d)
    case Nil
    with l w s show ?thesis
      by (intro exI [of _ s] exI [of _ "[]"])
         (auto simp: unsigned_decimal_re_def decimal_text_def Let_def)
  next
    case (Cons c f)
    with l have "c = CHR ''.''" "f \<noteq> []" "digits f" "?w \<noteq> []"
      by (auto simp: unsigned_decimal_re_def Let_def list_all_iff)
    with w s Cons show ?thesis
      by (intro exI [of _ ?w] exI [of _ f]) (simp add: decimal_text_def)
  qed
next
  assume ?r
  then obtain w f where s: "s = decimal_text w f" "w \<noteq> []" "digits w" "digits f" by auto
  show ?l
  proof (cases "f = []")
    case True
    with s have "s = w" and "takeWhile is_digit w = w" and "dropWhile is_digit w = []"
      by (auto simp: decimal_text_def)
    with s show ?thesis by (simp only: unsigned_decimal_re_def Let_def) simp
  next
    case False
    with s have "takeWhile is_digit s = w" "dropWhile is_digit s = CHR ''.'' # f"
      by (auto simp: decimal_text_def takeWhile_digits dropWhile_digits)
    with s False show ?thesis by (simp add: unsigned_decimal_re_def list_all_iff)
  qed
qed

lemma unsigned_decimal_reE:
  assumes "unsigned_decimal_re s"
  obtains w f where "s = decimal_text w f" "w \<noteq> []" "digits w" "digits f"
  using assms by (auto simp: unsigned_decimal_re_iff)

lemma digits_no_dot: "digits w \<Longrightarrow> CHR ''.'' \<notin> set w"
  by auto

lemma split_decimal_text:
  assumes "digits w" "digits f"
  shows "split_on (CHR ''.'') (decimal_text w f) = (if f = [] then [w] else [w, f])"
  using assms by (simp add: decimal_text_def split_on_append split_on_absent digits_no_dot)

lemma decimal_text_no_ws:
  "digits w \<Longrightarrow> digits f \<Longrightarrow> \<forall>c \<in> set (decimal_text w f). \<not> is_ws c"
  by (auto simp: decimal_text_def digit_not_ws)

lemma decimal_text_no_minus:
  "w \<noteq> [] \<Longrightarrow> digits w \<Longrightarrow> \<not> startsWith (decimal_text w f) ''-''"
  by (cases w) (auto simp: decimal_text_def)

lemma nat_of_digits_stripLeadingZeros [digit_simps]:
  "nat_of_digits (stripLeadingZeros w) = nat_of_digits w"
proof (cases "dropWhile (\<lambda>c. c = CHR ''0'') w = []")
  case True
  then have "nat_of_digits w = 0"
    by (metis nat_of_digits_dropWhile_0 nat_of_digits_Nil)
  with True show ?thesis by (simp add: stripLeadingZeros_def digit_simps digit_val_0)
next
  case False
  then have "stripLeadingZeros w = dropWhile (\<lambda>c. c = CHR ''0'') w"
    by (simp only: stripLeadingZeros_def Let_def if_False)
  then show ?thesis by (simp only: nat_of_digits_dropWhile_0)
qed

lemma strip_trailing_zeros_value:
  "of_nat (nat_of_digits (strip_trailing (CHR ''0'') f)) / 10 ^ length (strip_trailing (CHR ''0'') f)
   = (of_nat (nat_of_digits f) / 10 ^ length f :: rat)"
proof -
  obtain k where k: "f = strip_trailing (CHR ''0'') f @ replicate k (CHR ''0'')"
    using strip_trailing_decomp by blast
  let ?t = "strip_trailing (CHR ''0'') f"
  have "nat_of_digits f = nat_of_digits ?t * 10 ^ k"
    by (subst k) (simp add: digit_simps)
  moreover have "length f = length ?t + k"
    by (subst k) simp
  ultimately show ?thesis by (simp add: power_add)
qed

text \<open>What the parser returns on a decimal text, sign and surrounding blanks included.\<close>

lemma parse_core:
  assumes "w \<noteq> []" "digits w" "digits f"
  defines "t \<equiv> strip_trailing (CHR ''0'') f"
  shows "parseDecimal (decimal_text w f) =
      Some \<lparr>dec_int = int (nat_of_digits (stripLeadingZeros w @ t)), dec_scale = length t\<rparr>"
    and "parseDecimal (''-'' @ decimal_text w f) =
      Some \<lparr>dec_int = - int (nat_of_digits (stripLeadingZeros w @ t)), dec_scale = length t\<rparr>"
proof -
  have re: "unsigned_decimal_re (decimal_text w f)"
    using assms by (auto simp: unsigned_decimal_re_iff)
  have tr: "trim (decimal_text w f) = decimal_text w f"
    "trim (''-'' @ decimal_text w f) = ''-'' @ decimal_text w f"
    using decimal_text_no_ws [OF assms(2,3)] by (auto intro!: trim_no_ws)
  have sp: "split_on (CHR ''.'') (decimal_text w f) = (if f = [] then [w] else [w, f])"
    using assms by (simp add: split_decimal_text)
  have ne: "stripLeadingZeros w \<noteq> []" by (simp add: stripLeadingZeros_def Let_def)
  show "parseDecimal (decimal_text w f) =
      Some \<lparr>dec_int = int (nat_of_digits (stripLeadingZeros w @ t)), dec_scale = length t\<rparr>"
    using re decimal_text_no_minus [OF assms(1,2), of f]
    by (simp add: parseDecimal_def tr DECIMAL_RE_def sp stripTrailingZeros_def t_def ne Let_def)
  show "parseDecimal (''-'' @ decimal_text w f) =
      Some \<lparr>dec_int = - int (nat_of_digits (stripLeadingZeros w @ t)), dec_scale = length t\<rparr>"
    using re tr(2)
    by (simp add: parseDecimal_def DECIMAL_RE_def sp stripTrailingZeros_def t_def ne Let_def)
qed

lemma digits_value_strip:
  "(of_nat (nat_of_digits (stripLeadingZeros w @ strip_trailing (CHR ''0'') f)) :: rat)
     / 10 ^ length (strip_trailing (CHR ''0'') f) = digits_value w f"
proof -
  let ?t = "strip_trailing (CHR ''0'') f"
  have "(of_nat (nat_of_digits (stripLeadingZeros w @ ?t)) :: rat) / 10 ^ length ?t
      = of_nat (nat_of_digits w) + of_nat (nat_of_digits ?t) / 10 ^ length ?t"
    by (simp add: digit_simps add_divide_distrib)
  then show ?thesis by (simp add: digits_value_def strip_trailing_zeros_value)
qed

lemma parse_value:
  assumes "w \<noteq> []" "digits w" "digits f"
  shows "\<exists>d. parseDecimal (decimal_text w f) = Some d \<and> dec_value d = digits_value w f"
    and "\<exists>d. parseDecimal (''-'' @ decimal_text w f) = Some d \<and> dec_value d = - digits_value w f"
  using parse_core [OF assms] digits_value_strip [of w f] by (auto simp: dec_value_def)



text \<open>A parsed decimal carries no trailing zero: equal values have equal records.\<close>

definition dec_normal :: "decimal \<Rightarrow> bool" where
  "dec_normal d \<longleftrightarrow> dec_scale d = 0 \<or> dec_int d mod 10 \<noteq> 0"

lemma nat_of_digits_last_mod:
  assumes "s \<noteq> []" and "digits s"
  shows "nat_of_digits s mod 10 = digit_val (last s)"
  using assms digit_val_less
  by (cases s rule: rev_cases) (auto simp: digit_simps mod_add_eq)

lemma normal_core:
  assumes "digits w" and "digits f"
  defines "t \<equiv> strip_trailing (CHR ''0'') f"
  shows "length t = 0 \<or> nat_of_digits (stripLeadingZeros w @ t) mod 10 \<noteq> 0"
proof (cases "t = []")
  case False
  have dt: "digits t" using assms set_strip_trailing [of "CHR ''0''" f] by auto
  have "last t \<noteq> CHR ''0''" using strip_trailing_last [of "CHR ''0''" f] False t_def by auto
  moreover have "is_digit (last t)" using dt False by simp
  ultimately have nz: "digit_val (last t) \<noteq> 0" by (simp add: digit_val_eq_0)
  obtain l where l: "length t = Suc l" using False by (cases t) auto
  have "nat_of_digits (stripLeadingZeros w @ t) = nat_of_digits t + nat_of_digits w * 10 ^ l * 10"
    by (simp add: digit_simps l)
  then have "nat_of_digits (stripLeadingZeros w @ t) mod 10 = nat_of_digits t mod 10"
    by (simp only: mod_mult_self1)
  then show ?thesis using nat_of_digits_last_mod [OF False dt] nz by simp
qed simp

lemma dec_normal_unique:
  assumes "dec_normal a" and "dec_normal b" and "dec_value a = dec_value b"
  shows "a = b"
proof -
  have le: "dec_scale x \<le> dec_scale y"
    if n: "dec_normal x" and v: "dec_value x = dec_value y" for x y
  proof (rule ccontr)
    assume "\<not> dec_scale x \<le> dec_scale y"
    then obtain k where k: "dec_scale x = dec_scale y + Suc k"
      by (metis add_Suc_right less_imp_Suc_add not_le)
    from v have "(of_int (dec_int x) :: rat) = of_int (dec_int y) * 10 ^ Suc k"
      by (simp add: dec_value_def k power_add field_simps)
    then have "dec_int x = dec_int y * 10 ^ Suc k"
      by (metis of_int_eq_iff of_int_mult of_int_numeral of_int_power)
    then have "dec_int x mod 10 = 0" by simp
    with n k show False by (simp add: dec_normal_def)
  qed
  have s: "dec_scale a = dec_scale b"
    using le [OF assms(1,3)] le [OF assms(2) assms(3) [symmetric]] by simp
  with assms(3) have "dec_int a = dec_int b"
    by (simp add: dec_value_def)
  with s show ?thesis by (cases a; cases b) simp
qed


section \<open>Comparison and tolerance\<close>

lemma scaleDecimal_ok:
  "dec_scale v \<le> n \<Longrightarrow> scaleDecimal v n = Inr (dec_int v * 10 ^ (n - dec_scale v))"
  by (simp add: scaleDecimal_def)

lemma scaled_value:
  assumes "dec_scale v \<le> n"
  shows "of_int (dec_int v * 10 ^ (n - dec_scale v)) = dec_value v * 10 ^ n"
proof -
  obtain k where "n = dec_scale v + k" using assms le_Suc_ex by blast
  then show ?thesis by (simp add: dec_value_def power_add field_simps)
qed

lemma abs_bigint_abs [simp]: "abs_bigint v = \<bar>v\<bar>"
  by (simp add: abs_bigint_def)

definition sign_of :: "rat \<Rightarrow> int" where
  "sign_of q = (if q = 0 then 0 else if q > 0 then 1 else -1)"

lemma compareDecimals_sign: "compareDecimals a b = Inr (sign_of (dec_value a - dec_value b))"
proof -
  let ?n = "max (dec_scale a) (dec_scale b)"
  let ?a = "dec_int a * 10 ^ (?n - dec_scale a)" and ?b = "dec_int b * 10 ^ (?n - dec_scale b)"
  have v: "(of_int ?a :: rat) = dec_value a * 10 ^ ?n" "(of_int ?b :: rat) = dec_value b * 10 ^ ?n"
    by (rule scaled_value, simp)+
  have p: "(0 :: rat) < 10 ^ ?n" by simp
  have "?a = ?b \<longleftrightarrow> dec_value a = dec_value b"
    using v p by (metis less_irrefl mult_right_cancel of_int_eq_iff)
  moreover have "?a > ?b \<longleftrightarrow> dec_value a > dec_value b"
    using v p by (metis mult_less_cancel_right_pos of_int_less_iff)
  ultimately show ?thesis
    by (simp add: compareDecimals_def scaleDecimal_ok sign_of_def Let_def)
qed

definition within_spec :: "rat \<Rightarrow> rat \<Rightarrow> rat \<Rightarrow> bool" where
  "within_spec e a tol \<longleftrightarrow> 0 \<le> tol \<and> (if e = 0 then a = 0 else \<bar>a - e\<bar> \<le> tol * \<bar>e\<bar>)"

lemma withinRelativeTolerance_spec:
  "withinRelativeTolerance e a t = Inr (within_spec (dec_value e) (dec_value a) (dec_value t))"
proof (cases "dec_int t < 0")
  case True
  then have "dec_value t < 0" by (simp add: dec_value_def divide_neg_pos)
  with True show ?thesis by (simp add: withinRelativeTolerance_def within_spec_def)
next
  case False
  then have t: "0 \<le> dec_value t" by (simp add: dec_value_def)
  let ?n = "max (dec_scale e) (dec_scale a)"
  let ?e = "dec_int e * 10 ^ (?n - dec_scale e)" and ?a = "dec_int a * 10 ^ (?n - dec_scale a)"
  have v: "(of_int ?e :: rat) = dec_value e * 10 ^ ?n" "(of_int ?a :: rat) = dec_value a * 10 ^ ?n"
    by (rule scaled_value, simp)+
  have p: "(0 :: rat) < 10 ^ ?n" by simp
  have e0: "?e = 0 \<longleftrightarrow> dec_value e = 0" and a0: "?a = 0 \<longleftrightarrow> dec_value a = 0"
    using v p by (metis less_irrefl mult_eq_0_iff of_int_eq_0_iff)+
  have "\<bar>?a - ?e\<bar> * 10 ^ dec_scale t \<le> \<bar>?e\<bar> * dec_int t \<longleftrightarrow>
      (of_int (\<bar>?a - ?e\<bar> * 10 ^ dec_scale t) :: rat) \<le> of_int (\<bar>?e\<bar> * dec_int t)"
    by (rule of_int_le_iff [symmetric])
  also have "\<dots> \<longleftrightarrow> \<bar>dec_value a * 10 ^ ?n - dec_value e * 10 ^ ?n\<bar> * 10 ^ dec_scale t
      \<le> \<bar>dec_value e * 10 ^ ?n\<bar> * of_int (dec_int t)"
    using v by (simp only: of_int_mult of_int_abs of_int_diff of_int_power of_int_numeral)
  also have "\<dots> \<longleftrightarrow> (\<bar>dec_value a - dec_value e\<bar> * 10 ^ dec_scale t) * 10 ^ ?n
      \<le> (\<bar>dec_value e\<bar> * of_int (dec_int t)) * 10 ^ ?n"
    by (simp add: abs_mult mult_ac flip: left_diff_distrib)
  also have "\<dots> \<longleftrightarrow> \<bar>dec_value a - dec_value e\<bar> * 10 ^ dec_scale t \<le> \<bar>dec_value e\<bar> * of_int (dec_int t)"
    using p by (rule mult_le_cancel_right_pos)
  also have "\<dots> \<longleftrightarrow> \<bar>dec_value a - dec_value e\<bar> \<le> dec_value t * \<bar>dec_value e\<bar>"
    by (simp add: dec_value_def field_simps)
  finally show ?thesis using False e0 a0 t
    by (simp add: withinRelativeTolerance_def scaleDecimal_ok within_spec_def Let_def)
qed


section \<open>Formatting and base units\<close>


text \<open>The fraction digits \<^const>\<open>formatUnits\<close> prints before it strips trailing zeros.\<close>

lemma frac_digits:
  assumes "f < 10 ^ d" and "0 < d"
  defines "F \<equiv> padStart d (CHR ''0'') (nat_str f)"
  shows "digits F" and "length F = d" and "nat_of_digits F = f"
  using assms length_nat_str_le [of f d] nat_str_digits [of f]
  by (auto simp: padStart_def digit_simps)

lemma formatUnits_shape:
  fixes n :: int
  assumes "0 < d"
  defines "m \<equiv> nat \<bar>n\<bar>"
  defines "f \<equiv> strip_trailing (CHR ''0'') (padStart d (CHR ''0'') (nat_str (m mod 10 ^ d)))"
  shows "formatUnits n (int d) = (if n < 0 then ''-'' else []) @ decimal_text (nat_str (m div 10 ^ d)) f"
    and "digits f" and "length f \<le> d"
    and "digits_value (nat_str (m div 10 ^ d)) f = of_nat m / 10 ^ d"
proof -
  let ?F = "padStart d (CHR ''0'') (nat_str (m mod 10 ^ d))"
  have F: "digits ?F" "length ?F = d" "nat_of_digits ?F = m mod 10 ^ d"
    using frac_digits [of "m mod 10 ^ d" d] assms(1) by simp_all
  show df: "digits f" using F(1) set_strip_trailing [of "CHR ''0''" ?F] by (auto simp: f_def)
  show "length f \<le> d" using length_strip_trailing_le [of "CHR ''0''" ?F] F(2) by (simp add: f_def)
  have fv: "(of_nat (nat_of_digits f) / 10 ^ length f :: rat) = of_nat (m mod 10 ^ d) / 10 ^ d"
    unfolding f_def using strip_trailing_zeros_value [of ?F] F by simp
  have "(of_nat (m div 10 ^ d) :: rat) + of_nat (m mod 10 ^ d) / 10 ^ d
      = of_nat (m div 10 ^ d * 10 ^ d + m mod 10 ^ d) / 10 ^ d"
    by (simp add: add_divide_distrib del: div_mult_mod_eq)
  also have "\<dots> = of_nat m / 10 ^ d" by (simp only: div_mult_mod_eq)
  finally show "digits_value (nat_str (m div 10 ^ d)) f = of_nat m / 10 ^ d"
    by (simp add: digits_value_def digit_simps fv)
  have f0: "f = [] \<longleftrightarrow> m mod 10 ^ d = 0"
  proof
    assume "f = []"
    then show "m mod 10 ^ d = 0" using fv by (simp add: digit_simps)
  next
    assume "m mod 10 ^ d = 0"
    then have "nat_of_digits f = 0" using fv by simp
    show "f = []"
    proof (rule ccontr)
      assume ne: "f \<noteq> []"
      then have "last f \<noteq> CHR ''0''" using strip_trailing_last [of "CHR ''0''" ?F] by (simp add: f_def)
      then have "digit_val (last f) \<noteq> 0" using df ne by (simp add: digit_val_eq_0)
      then show False using nat_of_digits_last_mod [OF ne df] \<open>nat_of_digits f = 0\<close> by simp
    qed
  qed
  have whole: "nat ((if n < 0 then - n else n) div 10 ^ d) = m div 10 ^ d"
    and frac: "nat ((if n < 0 then - n else n) mod 10 ^ d) = m mod 10 ^ d"
    by (simp_all add: m_def nat_div_distrib nat_mod_distrib nat_power_eq)
  have nn: "\<not> (if n < 0 then - n else n) div 10 ^ d < 0" "\<not> (if n < 0 then - n else n) mod 10 ^ d < 0"
    using pos_mod_sign [of "10 ^ d" "if n < 0 then - n else n"]
    by (simp_all add: pos_imp_zdiv_neg_iff not_less del: pos_mod_sign split: if_splits)
  have fi: "(if n < 0 then - n else n) mod 10 ^ d = 0 \<longleftrightarrow> f = []"
    using frac nn(2) f0 by linarith
  have istr: "int_str ((if n < 0 then - n else n) div 10 ^ d) = nat_str (m div 10 ^ d)"
      "int_str ((if n < 0 then - n else n) mod 10 ^ d) = nat_str (m mod 10 ^ d)"
    unfolding int_str_def using whole frac nn by simp_all
  show "formatUnits n (int d) = (if n < 0 then ''-'' else []) @ decimal_text (nat_str (m div 10 ^ d)) f"
    unfolding formatUnits_def Let_def nat_int
    using assms(1) by (simp only: istr fi) (simp add: decimal_text_def f_def)
qed

lemma formatUnits_value:
  assumes "0 < d"
  shows "\<exists>v. parseDecimal (formatUnits n (int d)) = Some v \<and> dec_value v = of_int n / 10 ^ d"
proof -
  let ?w = "nat_str (nat \<bar>n\<bar> div 10 ^ d)"
    and ?f = "strip_trailing (CHR ''0'') (padStart d (CHR ''0'') (nat_str (nat \<bar>n\<bar> mod 10 ^ d)))"
  note shape = formatUnits_shape [OF assms, of n]
  have v: "digits_value ?w ?f = of_int \<bar>n\<bar> / 10 ^ d" by (simp only: shape(4)) simp
  have w: "?w \<noteq> []" "digits ?w" using nat_str_digits by simp_all
  show ?thesis
  proof (cases "n < 0")
    case True
    then show ?thesis using parse_value(2) [OF w shape(2)] v by (simp add: shape(1))
  next
    case False
    then show ?thesis using parse_value(1) [OF w shape(2)] v by (simp add: shape(1))
  qed
qed

lemma nat_of_digits_strip_leading_zeros_keep:
  "nat_of_digits (strip_leading_zeros_keep s) = nat_of_digits s"
proof (cases "dropWhile (\<lambda>c. c = CHR ''0'') s = [] \<and> s \<noteq> []")
  case True
  then have "nat_of_digits s = 0" by (metis nat_of_digits_dropWhile_0 nat_of_digits_Nil)
  moreover have "strip_leading_zeros_keep s = ''0''"
    unfolding strip_leading_zeros_keep_def Let_def by (rule if_P [OF True])
  ultimately show ?thesis by (simp add: digit_simps digit_val_0)
next
  case False
  then have "strip_leading_zeros_keep s = dropWhile (\<lambda>c. c = CHR ''0'') s"
    unfolding strip_leading_zeros_keep_def Let_def by (rule if_not_P)
  then show ?thesis by (simp only: nat_of_digits_dropWhile_0)
qed

lemma toBaseUnits_text:
  assumes "w \<noteq> []" "digits w" "digits f"
  shows "toBaseUnits (decimal_text w f) d =
    (if length f > d
     then Inl (JsError (''Amount '' @ quoted (decimal_text w f) @ '' exceeds token precision ('' @
            nat_str d @ '' decimals)''))
     else Inr (int (nat_of_digits w * 10 ^ d + nat_of_digits f * 10 ^ (d - length f))))"
proof -
  have re: "unsigned_decimal_re (decimal_text w f)"
    using assms by (auto simp: unsigned_decimal_re_iff)
  note keep = nat_of_digits_strip_leading_zeros_keep
  have k0: "strip_leading_zeros_keep (w @ g) \<noteq> []" for g
    using assms(1) by (auto simp: strip_leading_zeros_keep_def Let_def)
  show ?thesis
    using re k0 by (simp add: toBaseUnits_def split_decimal_text assms keep padEnd_def digit_simps Let_def)
qed

lemma toBaseUnits_value:
  assumes "w \<noteq> []" "digits w" "digits f" "length f \<le> d"
  shows "\<exists>n \<ge> 0. toBaseUnits (decimal_text w f) d = Inr n \<and> of_int n = digits_value w f * 10 ^ d"
proof -
  obtain k where "d = length f + k" using assms(4) le_Suc_ex by blast
  then show ?thesis
    using assms by (simp add: toBaseUnits_text digits_value_def power_add field_simps)
qed


lemma formatUnits_text:
  assumes "0 < d"
  obtains w f where "formatUnits n (int d) = (if n < 0 then ''-'' else []) @ decimal_text w f"
    and "w \<noteq> []" "digits w" "digits f" "length f \<le> d"
    and "digits_value w f = of_nat (nat \<bar>n\<bar>) / 10 ^ d"
  using formatUnits_shape [OF assms, of n] nat_str_digits nat_str_not_Nil by blast

lemma formatUnits_no_ws:
  assumes "0 < d"
  shows "\<forall>c \<in> set (formatUnits n (int d)). \<not> is_ws c"
proof -
  obtain w f where "formatUnits n (int d) = (if n < 0 then ''-'' else []) @ decimal_text w f"
      and d: "digits w" "digits f"
    by (rule formatUnits_text [OF assms])
  then show ?thesis using decimal_text_no_ws [OF d] by auto
qed

lemma formatUnits_re:
  assumes "0 < d"
  shows "DECIMAL_RE (formatUnits n (int d))" and "formatUnits n (int d) \<noteq> []"
proof -
  obtain w f where eq: "formatUnits n (int d) = (if n < 0 then ''-'' else []) @ decimal_text w f"
      and d: "w \<noteq> []" "digits w" "digits f"
    by (rule formatUnits_text [OF assms])
  have "unsigned_decimal_re (decimal_text w f)" using d by (auto simp: unsigned_decimal_re_iff)
  then show "DECIMAL_RE (formatUnits n (int d))"
    using decimal_text_no_minus [OF d(1,2), of f] by (simp add: eq DECIMAL_RE_def)
  show "formatUnits n (int d) \<noteq> []" using d(1) by (simp add: eq decimal_text_def)
qed

lemma formatUnits_base_units:
  assumes "0 \<le> n" and "0 < d"
  shows "toBaseUnits (formatUnits n (int d)) d = Inr n"
proof -
  obtain w f where eq: "formatUnits n (int d) = (if n < 0 then ''-'' else []) @ decimal_text w f"
      and d: "w \<noteq> []" "digits w" "digits f" "length f \<le> d"
      and v: "digits_value w f = of_nat (nat \<bar>n\<bar>) / 10 ^ d"
    by (rule formatUnits_text [OF assms(2)])
  obtain m where m: "toBaseUnits (decimal_text w f) d = Inr m"
      and "of_int m = digits_value w f * 10 ^ d"
    using toBaseUnits_value [OF d] by blast
  then have "(of_int m :: rat) = of_int n" using v assms(1) by simp
  then have "m = n" by (simp only: of_int_eq_iff)
  with m show ?thesis using eq assms(1) by simp
qed

lemma extractAmount_human:
  assumes "0 < d"
  shows "extractAmountFromHuman (Some (formatUnits n (int d) @ '' '' @ symb)) = Some (formatUnits n (int d))"
proof -
  let ?a = "formatUnits n (int d)"
  have ne: "?a \<noteq> []" and re: "DECIMAL_RE ?a" using formatUnits_re [OF assms, of n] by auto
  have nw: "\<forall>c \<in> set ?a. \<not> is_ws c" by (rule formatUnits_no_ws [OF assms])
  have lead: "dropWhile is_ws (?a @ '' '' @ symb) = ?a @ '' '' @ symb"
    using ne nw by (intro dropWhile_noop) simp
  obtain u where u: "trim (?a @ '' '' @ symb) = ?a @ u" and "u = [] \<or> hd u = CHR '' ''"
  proof (cases "\<forall>c \<in> set symb. is_ws c")
    case True
    have "dropWhile is_ws (rev symb @ '' '' @ rev ?a) = dropWhile is_ws ('' '' @ rev ?a)"
      by (rule dropWhile_append2) (simp add: True)
    then have "dropWhile is_ws (rev (?a @ '' '' @ symb)) = dropWhile is_ws (rev ?a)" by simp
    also have "\<dots> = rev ?a" using ne nw by (intro dropWhile_noop) (simp add: hd_rev)
    finally have "trim (?a @ '' '' @ symb) = ?a @ []" using lead by (simp add: trim_def)
    then show ?thesis using that by blast
  next
    case False
    then obtain z where "z \<in> set (rev symb)" and "\<not> is_ws z" by auto
    then have "dropWhile is_ws (rev symb @ '' '' @ rev ?a) = dropWhile is_ws (rev symb) @ '' '' @ rev ?a"
      by (rule dropWhile_append1)
    then have "trim (?a @ '' '' @ symb) = ?a @ '' '' @ rev (dropWhile is_ws (rev symb))"
      using lead by (simp add: trim_def)
    then show ?thesis using that by simp
  qed
  then have "hd (split_ws (trim (?a @ '' '' @ symb))) = ?a"
    using ne nw split_ws_absent [OF nw] split_ws_hd [OF ne nw, of "CHR '' ''"]
    by (cases u) auto
  then show ?thesis using ne re by (simp add: extractAmountFromHuman_def Let_def)
qed


section \<open>Properties\<close>

text \<open>\<^verbatim>\<open>parseDecimal\<close> accepts every optionally signed decimal, blanks around it included, and
  the decimal it returns is exactly the rational number written, in the one record without a
  trailing zero that has this value.\<close>

theorem parseDecimal_exact:
  assumes "w \<noteq> []" and "digits w" and "digits f"
    and "trim s = (if neg then ''-'' else []) @ decimal_text w f"
  shows "\<exists>d. parseDecimal s = Some d \<and> dec_normal d \<and>
     dec_value d = (if neg then -1 else 1) * digits_value w f"
proof -
  have "trim (trim s) = trim s"
    using decimal_text_no_ws [OF assms(2,3)] assms(4) by (intro trim_no_ws) auto
  then have s: "parseDecimal s = parseDecimal (trim s)" by (simp add: parseDecimal_def)
  have n: "length (strip_trailing (CHR ''0'') f) = 0 \<or>
      nat_of_digits (stripLeadingZeros w @ strip_trailing (CHR ''0'') f) mod 10 \<noteq> 0"
    by (rule normal_core [OF assms(2,3)])
  then have m: "length (strip_trailing (CHR ''0'') f) = 0 \<or>
      int (nat_of_digits (stripLeadingZeros w @ strip_trailing (CHR ''0'') f)) mod 10 \<noteq> 0"
    by presburger
  then have "length (strip_trailing (CHR ''0'') f) = 0 \<or>
      - int (nat_of_digits (stripLeadingZeros w @ strip_trailing (CHR ''0'') f)) mod 10 \<noteq> 0"
    by presburger
  with m show ?thesis
    using s assms(4) parse_core [OF assms(1-3)] parse_value [OF assms(1-3)]
    by (cases neg) (auto simp: dec_normal_def)
qed

theorem parseDecimal_exact_witness:
  "\<exists>d. parseDecimal '' -012.3400'' = Some d \<and> dec_normal d \<and>
     dec_value d = (if True then -1 else 1) * digits_value ''012'' ''3400''"
  by (rule parseDecimal_exact) (simp_all add: js_eval decimal_text_def)

text \<open>\<^verbatim>\<open>compareDecimals\<close> never throws and returns the sign of the difference of the two values.\<close>

theorem compareDecimals_exact:
  "compareDecimals a b = Inr (sign_of (dec_value a - dec_value b))"
  by (rule compareDecimals_sign)

text \<open>\<^verbatim>\<open>withinRelativeTolerance\<close> never throws and decides the relative-error bound on the
  exact values: with a non-negative tolerance, \<open>|actual - expected| <= tolerance * |expected|\<close>,
  and only zero is within tolerance of zero.\<close>

theorem withinRelativeTolerance_exact:
  "withinRelativeTolerance e a t = Inr (within_spec (dec_value e) (dec_value a) (dec_value t))"
  by (rule withinRelativeTolerance_spec)

text \<open>Display and build agree: the human amount that the SDK prints for a raw amount
  (\<^verbatim>\<open>formatUnits\<close>, followed by any token symbol) is read back as the same decimal text, denotes
  \<open>n / 10^d\<close>, and the backend's \<^verbatim>\<open>toBaseUnits\<close> converts it back to exactly \<open>n\<close>.\<close>

theorem display_roundtrip:
  assumes "0 \<le> n" and "0 < d"
  shows "extractAmountFromHuman (Some (formatUnits n (int d) @ '' '' @ symb)) = Some (formatUnits n (int d))
    \<and> (\<exists>v. parseDecimal (formatUnits n (int d)) = Some v \<and> dec_value v = of_int n / 10 ^ d)
    \<and> toBaseUnits (formatUnits n (int d)) d = Inr n"
  using extractAmount_human [OF assms(2)] formatUnits_value [OF assms(2)]
    formatUnits_base_units [OF assms] by blast

theorem display_roundtrip_witness:
  "formatUnits 1234500 6 = ''1.2345'' \<and>
   extractAmountFromHuman (Some (formatUnits 1234500 (int 6) @ '' '' @ ''USDC'')) = Some (formatUnits 1234500 (int 6))
   \<and> (\<exists>v. parseDecimal (formatUnits 1234500 (int 6)) = Some v \<and> dec_value v = of_int 1234500 / 10 ^ 6)
   \<and> toBaseUnits (formatUnits 1234500 (int 6)) 6 = Inr 1234500"
proof
  show "formatUnits 1234500 6 = ''1.2345''" by (simp add: formatUnits_def js_eval)
qed (rule display_roundtrip, simp_all)

text \<open>\<^verbatim>\<open>toBaseUnits\<close> succeeds exactly on unsigned decimals with at most \<open>decimals\<close> fraction
  digits, and then returns their value times \<open>10^decimals\<close>, with no rounding.\<close>

theorem toBaseUnits_exact:
  "toBaseUnits s d = Inr n \<longleftrightarrow>
   (\<exists>w f. s = decimal_text w f \<and> w \<noteq> [] \<and> digits w \<and> digits f \<and> length f \<le> d
      \<and> of_int n = digits_value w f * 10 ^ d)"
proof
  assume eq: "toBaseUnits s d = Inr n"
  then have "unsigned_decimal_re s" by (auto simp: toBaseUnits_def split: if_splits)
  then obtain w f where s: "s = decimal_text w f" and d: "w \<noteq> []" "digits w" "digits f"
    by (rule unsigned_decimal_reE)
  with eq have "length f \<le> d" by (auto simp: toBaseUnits_text split: if_splits)
  with toBaseUnits_value [OF d] s d eq
  show "\<exists>w f. s = decimal_text w f \<and> w \<noteq> [] \<and> digits w \<and> digits f \<and> length f \<le> d
      \<and> of_int n = digits_value w f * 10 ^ d" by fastforce
next
  assume "\<exists>w f. s = decimal_text w f \<and> w \<noteq> [] \<and> digits w \<and> digits f \<and> length f \<le> d
      \<and> of_int n = digits_value w f * 10 ^ d"
  then obtain w f where s: "s = decimal_text w f" and d: "w \<noteq> []" "digits w" "digits f" "length f \<le> d"
      and v: "of_int n = digits_value w f * 10 ^ d" by blast
  obtain m where "toBaseUnits s d = Inr m" and "of_int m = digits_value w f * 10 ^ d"
    using toBaseUnits_value [OF d] s by blast
  with v show "toBaseUnits s d = Inr n" by (metis of_int_eq_iff)
qed

text \<open>\<open>1.5\<close> at six decimals; \<open>1.5000000\<close> has one fraction digit too many.\<close>

theorem toBaseUnits_exact_witness:
  "toBaseUnits ''1.5'' 6 = Inr 1500000 \<and> (\<forall>n. toBaseUnits ''1.5000000'' 6 \<noteq> Inr n)"
proof
  show "toBaseUnits ''1.5'' 6 = Inr 1500000"
    unfolding toBaseUnits_exact
    by (intro exI [of _ "''1''"] exI [of _ "''5''"])
       (simp add: decimal_text_def digits_value_def js_eval)
  show "\<forall>n. toBaseUnits ''1.5000000'' 6 \<noteq> Inr n"
    by (simp add: toBaseUnits_def unsigned_decimal_re_def js_eval)
qed

end
