(* ===== verification/Doubles.thy ===== *)
theory Doubles
  imports "HOL-Library.Log_Nat" Amounts
begin

text \<open>
  JavaScript numbers. A \<open>Number\<close> is an IEEE binary64 value: not-a-number, an infinity, or a
  finite value, kept as the exact rational it stands for. Every arithmetic operation is the
  exact rational operation followed by \<open>round64\<close>, round to nearest with ties to even, with the
  subnormal range and overflow to infinity. The sign of zero is not kept: no operation the
  sources use observes it. \<^verbatim>\<open>Number(bigint)\<close>, \<^verbatim>\<open>toString\<close>, \<^verbatim>\<open>toFixed\<close> and \<^verbatim>\<open>parseFloat\<close> follow
  ECMAScript.
\<close>

section \<open>Rounding to binary64\<close>

datatype double = NaN | PInf | NInf | Fin rat

definition round_half_even :: "rat \<Rightarrow> int" where
  "round_half_even x =
     (let f = \<lfloor>x\<rfloor>; r = x - of_int f
      in if r < 1 / 2 \<or> (r = 1 / 2 \<and> even f) then f else f + 1)"

text \<open>\<open>x * 2^s\<close> for an integer \<open>s\<close>.\<close>

definition scale2 :: "int \<Rightarrow> rat \<Rightarrow> rat" where
  "scale2 s x = (if 0 \<le> s then x * 2 ^ nat s else x / 2 ^ nat (- s))"

text \<open>The exponent \<open>e\<close> with \<open>2^e <= x < 2^(e+1)\<close>, for positive \<open>x\<close>.\<close>

definition exponent :: "rat \<Rightarrow> int" where
  "exponent x =
     (let (p, q) = quotient_of x; e = bitlen p - bitlen q
      in if 1 \<le> scale2 (- e) x then e else e - 1)"

definition round_pos :: "rat \<Rightarrow> rat" where
  "round_pos x = (let s = 52 - max (exponent x) (- 1022)
                  in scale2 (- s) (of_int (round_half_even (scale2 s x))))"

definition round64 :: "rat \<Rightarrow> double" where
  "round64 x =
     (if x = 0 then Fin 0
      else if 0 < x then (let y = round_pos x in if y < 2 ^ 1024 then Fin y else PInf)
      else (let y = round_pos (- x) in if y < 2 ^ 1024 then Fin (- y) else NInf))"

section \<open>Operations\<close>

definition num_of_int :: "int \<Rightarrow> double" where
  "num_of_int i = round64 (of_int i)"

definition d_neg :: "double \<Rightarrow> bool" where
  "d_neg x = (case x of NInf \<Rightarrow> True | Fin r \<Rightarrow> r < 0 | _ \<Rightarrow> False)"

definition d_mul :: "double \<Rightarrow> double \<Rightarrow> double" where
  "d_mul x y = (case (x, y) of
      (Fin a, Fin b) \<Rightarrow> round64 (a * b)
    | (NaN, _) \<Rightarrow> NaN
    | (_, NaN) \<Rightarrow> NaN
    | _ \<Rightarrow> if x = Fin 0 \<or> y = Fin 0 then NaN else if d_neg x = d_neg y then PInf else NInf)"

text \<open>Division by a zero yields an infinity of the dividend's sign (zeros are unsigned here).\<close>

definition d_div :: "double \<Rightarrow> double \<Rightarrow> double" where
  "d_div x y = (case (x, y) of
      (Fin a, Fin b) \<Rightarrow>
        if b = 0 then (if a = 0 then NaN else if a < 0 then NInf else PInf) else round64 (a / b)
    | (Fin a, PInf) \<Rightarrow> Fin 0
    | (Fin a, NInf) \<Rightarrow> Fin 0
    | (PInf, Fin b) \<Rightarrow> if b < 0 then NInf else PInf
    | (NInf, Fin b) \<Rightarrow> if b < 0 then PInf else NInf
    | _ \<Rightarrow> NaN)"

definition d_add :: "double \<Rightarrow> double \<Rightarrow> double" where
  "d_add x y = (case (x, y) of
      (Fin a, Fin b) \<Rightarrow> round64 (a + b)
    | (NaN, _) \<Rightarrow> NaN
    | (_, NaN) \<Rightarrow> NaN
    | (Fin a, z) \<Rightarrow> z
    | (PInf, NInf) \<Rightarrow> NaN
    | (NInf, PInf) \<Rightarrow> NaN
    | (z, _) \<Rightarrow> z)"

definition d_sub :: "double \<Rightarrow> double \<Rightarrow> double" where
  "d_sub x y = (case (x, y) of
      (Fin a, Fin b) \<Rightarrow> round64 (a - b)
    | (NaN, _) \<Rightarrow> NaN
    | (_, NaN) \<Rightarrow> NaN
    | (Fin a, PInf) \<Rightarrow> NInf
    | (Fin a, NInf) \<Rightarrow> PInf
    | (PInf, PInf) \<Rightarrow> NaN
    | (NInf, NInf) \<Rightarrow> NaN
    | (PInf, _) \<Rightarrow> PInf
    | (NInf, _) \<Rightarrow> NInf)"

text \<open>\<open><\<close> and \<open><=\<close>: false as soon as an operand is NaN.\<close>

definition d_less :: "double \<Rightarrow> double \<Rightarrow> bool" where
  "d_less x y = (case (x, y) of
      (NaN, _) \<Rightarrow> False
    | (_, NaN) \<Rightarrow> False
    | (Fin a, Fin b) \<Rightarrow> a < b
    | (NInf, b) \<Rightarrow> b \<noteq> NInf
    | (a, PInf) \<Rightarrow> a \<noteq> PInf
    | _ \<Rightarrow> False)"

definition d_le :: "double \<Rightarrow> double \<Rightarrow> bool" where
  "d_le x y = (d_less x y \<or> (x = y \<and> x \<noteq> NaN))"

definition d_isFinite :: "double \<Rightarrow> bool" where
  "d_isFinite x = (case x of Fin _ \<Rightarrow> True | _ \<Rightarrow> False)"

definition d_truthy :: "double \<Rightarrow> bool" where
  "d_truthy x = (x \<noteq> NaN \<and> x \<noteq> Fin 0)"

text \<open>\<open>toFixed(d)\<close> of a finite value below \<open>10^21\<close>, \<open>d > 0\<close>: the nearest multiple of \<open>10^-d\<close>,
  the larger one of two.\<close>

definition toFixed :: "nat \<Rightarrow> rat \<Rightarrow> string" where
  "toFixed d x =
     (let n = nat \<lfloor>\<bar>x\<bar> * 10 ^ d + 1 / 2\<rfloor>
      in (if x < 0 then ''-'' else []) @ nat_str (n div 10 ^ d) @ ''.'' @
         padStart d (CHR ''0'') (nat_str (n mod 10 ^ d)))"

text \<open>\<open>replace(/\.?0+$/, '')\<close>: the trailing zeros, and the point before them.\<close>

definition strip_dot_zeros :: "string \<Rightarrow> string" where
  "strip_dot_zeros s =
     (let t = strip_trailing (CHR ''0'') s
      in if t = s then s
         else if t \<noteq> [] \<and> last t = CHR ''.'' then butlast t else t)"

section \<open>parseFloat\<close>

text \<open>The longest prefix, after leading blanks, that is a decimal literal.\<close>

definition take_digits :: "string \<Rightarrow> string \<times> string" where
  "take_digits s = (takeWhile is_digit s, dropWhile is_digit s)"

text \<open>An exponent part \<open>e[+-]?\d+\<close> at the head of the rest; 0 when there is none.\<close>

definition parse_exponent :: "string \<Rightarrow> int" where
  "parse_exponent s =
     (case s of
        [] \<Rightarrow> 0
      | c # r \<Rightarrow>
          if c = CHR ''e'' \<or> c = CHR ''E'' then
            (let (neg, ds) = (case r of [] \<Rightarrow> (False, [])
                 | d # r' \<Rightarrow> if d = CHR ''-'' then (True, r')
                             else if d = CHR ''+'' then (False, r') else (False, r));
                 (e, _) = take_digits ds
             in if neg then - int (nat_of_digits e) else int (nat_of_digits e))
          else 0)"

definition scale10 :: "int \<Rightarrow> rat \<Rightarrow> rat" where
  "scale10 s x = (if 0 \<le> s then x * 10 ^ nat s else x / 10 ^ nat (- s))"

definition parse_unsigned_float :: "string \<Rightarrow> rat option" where
  "parse_unsigned_float s =
     (let (w, r) = take_digits s;
          (f, r') = (case r of [] \<Rightarrow> ([], [])
             | c # t \<Rightarrow> if c = CHR ''.'' then take_digits t else ([], r))
      in if w = [] \<and> f = [] then None
         else Some (scale10 (parse_exponent r') (digits_value w f)))"

definition parseFloat :: "string \<Rightarrow> double" where
  "parseFloat s =
     (let t = dropWhile is_ws s;
          (neg, u) = (case t of [] \<Rightarrow> (False, [])
             | c # r \<Rightarrow> if c = CHR ''-'' then (True, r)
                         else if c = CHR ''+'' then (False, r) else (False, t))
      in if startsWith u ''Infinity'' then (if neg then NInf else PInf)
         else (case parse_unsigned_float u of
             None \<Rightarrow> NaN
           | Some x \<Rightarrow> round64 (if neg then - x else x)))"

section \<open>\<open>Number.prototype.toString\<close>\<close>

text \<open>The decimal exponent: the \<open>n\<close> with \<open>10^(n-1) <= x < 10^n\<close>, near the one the binary exponent
  suggests.\<close>

definition dec_exponent :: "rat \<Rightarrow> int" where
  "dec_exponent x =
     (let est = exponent x * 30103 div 100000
      in case List.find (\<lambda>n. scale10 (n - 1) 1 \<le> x \<and> x < scale10 n 1) [est - 1, est, est + 1, est + 2] of
           None \<Rightarrow> est | Some n \<Rightarrow> n)"

text \<open>The \<open>k\<close>-digit integers next to \<open>x\<close> (scaled) that read back as \<open>x\<close>, the closer one first.\<close>

definition digits_for :: "rat \<Rightarrow> int \<Rightarrow> nat \<Rightarrow> nat list" where
  "digits_for x n k =
     (let y = scale10 (int k - n) x; s = nat \<lfloor>y\<rfloor>;
          near = (if y - of_nat s \<le> of_nat (s + 1) - y then [s, s + 1] else [s + 1, s])
      in filter (\<lambda>d. round64 (scale10 (n - int k) (of_nat d)) = Fin x) near)"

text \<open>The shortest digits, at most 17, their number and the decimal exponent; a candidate \<open>10^k\<close> is
  one digit and the next exponent.\<close>

definition shortest :: "rat \<Rightarrow> nat \<times> nat \<times> int" where
  "shortest x =
     (let n = dec_exponent x
      in case List.find (\<lambda>k. digits_for x n k \<noteq> []) [1..<18] of
           None \<Rightarrow> (0, 17, n)
         | Some k \<Rightarrow> let d = hd (digits_for x n k) in if d = 10 ^ k then (1, 1, n + 1) else (d, k, n))"

definition positive_string :: "rat \<Rightarrow> string" where
  "positive_string x =
     (let (s, k, n) = shortest x; ds = nat_str s; z = replicate (nat (- n)) (CHR ''0'')
      in if int k \<le> n \<and> n \<le> 21 then ds @ replicate (nat (n - int k)) (CHR ''0'')
         else if 0 < n \<and> n \<le> 21 then take (nat n) ds @ ''.'' @ drop (nat n) ds
         else if - 6 < n \<and> n \<le> 0 then ''0.'' @ z @ ds
         else take 1 ds @ (if k = 1 then [] else ''.'' @ drop 1 ds) @ ''e'' @ (if 0 < n then ''+'' else ''-'') @ nat_str (nat \<bar>n - 1\<bar>))"

definition num_to_string :: "double \<Rightarrow> string" where
  "num_to_string x = (case x of NaN \<Rightarrow> ''NaN'' | PInf \<Rightarrow> ''Infinity'' | NInf \<Rightarrow> ''-Infinity''
     | Fin r \<Rightarrow> if r = 0 then ''0'' else if r < 0 then ''-'' @ positive_string (- r) else positive_string r)"

section \<open>SOL amounts\<close>

text \<open>\<open>(Number(lamports) / 1e9).toFixed(9).replace(/\.?0+$/, '')\<close> of the system decoder. The value
  of a 64-bit \<open>lamports\<close> is finite and below \<open>10^21\<close>.\<close>

definition sol_text :: "int \<Rightarrow> string" where
  "sol_text lamports =
     (case d_div (num_of_int lamports) (Fin (10 ^ 9)) of
        Fin x \<Rightarrow> strip_dot_zeros (toFixed 9 x)
      | NaN \<Rightarrow> ''NaN'' | PInf \<Rightarrow> ''Infinity'' | NInf \<Rightarrow> ''-Infinity'')"


section \<open>Rounding error\<close>

lemma scale2_powi: "scale2 s x = x * 2 powi s"
  unfolding scale2_def power_int_def divide_inverse power_inverse by simp

lemma bitlen_pow:
  assumes "0 < n"
  shows "2 powi (bitlen n - 1) \<le> (of_int n :: rat)" and "(of_int n :: rat) < 2 powi (bitlen n)"
proof -
  have le: "2 ^ nat (bitlen n - 1) \<le> n" and less: "n < 2 ^ nat (bitlen n)"
    using bitlen_bounds [OF assms] by auto
  have b: "1 \<le> bitlen n"
  proof (rule ccontr)
    assume "\<not> 1 \<le> bitlen n"
    then show False using less assms by simp
  qed
  from le less have "(of_int (2 ^ nat (bitlen n - 1)) :: rat) \<le> of_int n"
    and "(of_int n :: rat) < of_int (2 ^ nat (bitlen n))"
    by (simp_all only: of_int_le_iff of_int_less_iff)
  with b show "2 powi (bitlen n - 1) \<le> (of_int n :: rat)" and "(of_int n :: rat) < 2 powi (bitlen n)"
    by (simp_all add: power_int_def)
qed

lemma exponent_le:
  assumes "0 < x"
  shows "2 powi (exponent x) \<le> x"
proof -
  obtain p q where pq: "quotient_of x = (p, q)" by force
  then have q: "0 < q" and x: "x = of_int p / of_int q"
    by (auto intro: quotient_of_denom_pos quotient_of_div)
  then have p: "0 < p" using assms by (simp add: zero_less_divide_iff)
  define e where "e = bitlen p - bitlen q"
  have ex: "exponent x = (if 1 \<le> scale2 (- e) x then e else e - 1)"
    by (simp add: exponent_def pq e_def)
  show ?thesis
  proof (cases "1 \<le> scale2 (- e) x")
    case True
    then have "1 \<le> x / 2 powi e" by (simp only: scale2_powi power_int_minus divide_inverse)
    then have "2 powi e \<le> x" by (simp add: le_divide_eq split: if_splits)
    with True show ?thesis by (simp add: ex)
  next
    case False
    have "2 powi (e - 1) = 2 powi (bitlen p - 1) / (2 powi (bitlen q) :: rat)"
      by (simp add: e_def power_int_diff)
    also have "\<dots> \<le> of_int p / of_int q"
      using bitlen_pow [OF p] bitlen_pow [OF q] q p by (intro frac_le) auto
    finally show ?thesis using False by (simp add: ex flip: x)
  qed
qed

lemma round_half_even_error: "\<bar>of_int (round_half_even x) - x\<bar> \<le> 1 / 2"
proof -
  have "of_int \<lfloor>x\<rfloor> \<le> x" and "x < of_int \<lfloor>x\<rfloor> + 1" using floor_correct [of x] by auto
  then show ?thesis unfolding round_half_even_def Let_def by (simp add: abs_le_iff)
qed

lemma round_half_even_int [simp]: "round_half_even (of_int i) = i"
  by (simp add: round_half_even_def)

lemma round_pos_error:
  assumes "2 powi (-1022) \<le> x"
  shows "\<bar>round_pos x - x\<bar> \<le> x / 2 ^ 53"
proof -
  have x: "0 < x" using assms zero_less_power_int [of "2::rat" "-1022"] by linarith
  define s where "s = 52 - max (exponent x) (- 1022)"
  let ?m = "of_int (round_half_even (scale2 s x)) :: rat"
  have p: "0 < (2 powi s :: rat)" by simp
  have "round_pos x = ?m / 2 powi s"
    by (simp add: round_pos_def scale2_powi power_int_minus divide_inverse flip: s_def)
  moreover have "x = scale2 s x / 2 powi s" using p by (simp add: scale2_powi)
  ultimately have "\<bar>round_pos x - x\<bar> = \<bar>?m - scale2 s x\<bar> / 2 powi s"
    using p by (metis abs_divide abs_of_pos diff_divide_distrib)
  also have "\<dots> \<le> (1 / 2) / 2 powi s"
    using round_half_even_error [of "scale2 s x"] p by (intro divide_right_mono) auto
  also have "\<dots> = 2 powi (max (exponent x) (- 1022)) / 2 ^ 53"
    by (simp add: s_def power_int_diff field_simps)
  also have "\<dots> \<le> x / 2 ^ 53"
    using exponent_le [OF x] assms by (intro divide_right_mono) (auto simp: max_def)
  finally show ?thesis .
qed

lemma round64_pos:
  assumes "2 powi (-1022) \<le> x" and "x < 2 ^ 1000"
  shows "\<exists>y \<ge> 0. round64 x = Fin y \<and> \<bar>y - x\<bar> \<le> x / 2 ^ 53"
proof -
  have x: "0 < x" using assms(1) zero_less_power_int [of "2::rat" "-1022"] by linarith
  note e = round_pos_error [OF assms(1)]
  have "x / 2 ^ 53 \<le> x" using x by (simp add: field_simps)
  then have "0 \<le> round_pos x" and "round_pos x \<le> 2 * x" using e by linarith+
  moreover have "2 * x < 2 ^ 1024"
    using assms(2) by (rule less_trans [OF mult_strict_left_mono]) auto
  ultimately show ?thesis using e x by (simp add: round64_def)
qed

lemma num_of_int_exact:
  assumes "0 \<le> l" and "l < 2 ^ 53"
  shows "num_of_int l = Fin (of_int l)"
proof (cases "l = 0")
  case False
  with assms have x: "0 < (of_int l :: rat)" by simp
  have "(of_int l :: rat) < of_int (2 ^ 53)" using assms(2) by (simp only: of_int_less_iff)
  then have lt: "(2 powi exponent (of_int l) :: rat) < 2 powi 53"
    using exponent_le [OF x] by simp
  have e: "exponent (of_int l) \<le> 52"
  proof (rule ccontr)
    assume "\<not> exponent (of_int l) \<le> 52"
    then have "(2 powi 53 :: rat) \<le> 2 powi exponent (of_int l)"
      by (intro power_int_increasing) auto
    with lt show False by linarith
  qed
  define s where "s = 52 - max (exponent (of_int l)) (- 1022)"
  have s: "0 \<le> s" using e by (simp add: s_def)
  have "scale2 s (of_int l) = of_int (l * 2 ^ nat s)" using s by (simp add: scale2_def)
  then have "round_half_even (scale2 s (of_int l)) = l * 2 ^ nat s"
    by (simp only: round_half_even_int)
  then have "round_pos (of_int l) = scale2 (- s) (of_int (l * 2 ^ nat s))"
    by (simp add: round_pos_def Let_def flip: s_def)
  also have "\<dots> = of_int l"
    using s by (simp add: scale2_def)
  finally have "round_pos (of_int l) = of_int l" .
  moreover have "(of_int l :: rat) < 2 ^ 1024"
    by (rule less_trans [OF \<open>of_int l < of_int (2 ^ 53)\<close>]) simp
  ultimately show ?thesis using x by (simp add: num_of_int_def round64_def)
qed (simp add: num_of_int_def round64_def)


text \<open>Evaluating a rounding: the nearest multiple of the last place.\<close>

lemma round_half_even_near:
  assumes "\<bar>of_int n - x\<bar> < 1 / 2"
  shows "round_half_even x = n"
proof -
  have "of_int (n - 1) < of_int (round_half_even x) + (0::rat)" "of_int (round_half_even x) < (of_int (n + 1) :: rat)"
    using assms round_half_even_error [of x] by (auto simp: abs_if split: if_splits)
  then have "n - 1 < round_half_even x" "round_half_even x < n + 1" by linarith+
  then show ?thesis by simp
qed

lemma round64_near:
  assumes "0 < x" and "exponent x = e" and "- 1022 \<le> e" and "e \<le> 52"
    and "\<bar>of_int n - x * 2 ^ nat (52 - e)\<bar> < 1 / 2" and "n < 2 ^ 53"
  shows "round64 x = Fin (of_int n / 2 ^ nat (52 - e))"
proof -
  have "round_half_even (scale2 (52 - e) x) = n"
    using assms(4,5) by (intro round_half_even_near) (simp add: scale2_def)
  then have r: "round_pos x = of_int n / 2 ^ nat (52 - e)"
    using assms(2-4) by (cases "e = 52") (simp_all add: round_pos_def Let_def max_def scale2_def)
  have "(of_int n :: rat) < of_int (2 ^ 53)" using assms(6) by (simp only: of_int_less_iff)
  then have "(of_int n :: rat) < 2 ^ 53" by simp
  also have "(2 :: rat) ^ 53 \<le> 2 ^ 53 * 2 ^ nat (52 - e)"
    using mult_left_mono [of 1 "2 ^ nat (52 - e)" "2 ^ 53 :: rat"] by simp
  finally have "of_int n / 2 ^ nat (52 - e) < (2 :: rat) ^ 53" by (simp add: divide_less_eq)
  also have "\<dots> < 2 ^ 1024" by (rule power_strict_increasing) auto
  finally show ?thesis using assms(1) by (simp add: round64_def r Let_def)
qed

section \<open>SOL amounts are printed exactly\<close>

lemma strip_trailing_append:
  "strip_trailing c (s @ t) =
   (if strip_trailing c t = [] then strip_trailing c s else s @ strip_trailing c t)"
proof (induction t rule: rev_induct)
  case (snoc x t)
  show ?case
  proof (cases "x = c")
    case True
    then show ?thesis using snoc.IH by (simp flip: append_assoc)
  next
    case False
    then show ?thesis by (simp add: strip_trailing_append_neq flip: append_assoc)
  qed
qed simp

lemma strip_dot_zeros_text:
  assumes "F \<noteq> []" and "digits F"
  shows "strip_dot_zeros (w @ ''.'' @ F) = decimal_text w (strip_trailing (CHR ''0'') F)"
proof -
  let ?s = "w @ ''.'' @ F"
  have dot: "strip_trailing (CHR ''0'') (w @ ''.'') = w @ ''.''"
    by (simp add: strip_trailing_append_neq)
  have st: "strip_trailing (CHR ''0'') ?s =
      (if strip_trailing (CHR ''0'') F = [] then w @ ''.'' else w @ ''.'' @ strip_trailing (CHR ''0'') F)"
    using strip_trailing_append [of "CHR ''0''" "w @ ''.''" F] dot by simp
  show ?thesis
  proof (cases "strip_trailing (CHR ''0'') F = []")
    case True
    then show ?thesis using st assms by (simp add: strip_dot_zeros_def decimal_text_def butlast_append Let_def)
  next
    case False
    show ?thesis
    proof (cases "strip_trailing (CHR ''0'') F = F")
      case True
      then show ?thesis using st assms by (simp add: strip_dot_zeros_def decimal_text_def Let_def)
    next
      case ne: False
      have "last (strip_trailing (CHR ''0'') F) \<in> set F"
        using False set_strip_trailing [of "CHR ''0''" F] last_in_set by blast
      then have "last (strip_trailing (CHR ''0'') F) \<noteq> CHR ''.''" using assms(2) by auto
      then show ?thesis using st False ne assms
        by (simp add: strip_dot_zeros_def decimal_text_def Let_def)
    qed
  qed
qed


lemma toFixed_near:
  assumes "\<bar>y * 10 ^ d - of_int l\<bar> < 1 / 2" and "0 \<le> l" and "0 \<le> y" and "0 < d"
  shows "strip_dot_zeros (toFixed d y) = formatUnits l (int d)"
proof -
  have "\<lfloor>y * 10 ^ d + 1 / 2\<rfloor> = l"
    using assms(1) unfolding abs_less_iff by (intro floor_unique; linarith)
  then have tf: "toFixed d y = nat_str (nat l div 10 ^ d) @ ''.'' @
      padStart d (CHR ''0'') (nat_str (nat l mod 10 ^ d))"
    using assms(3) by (simp add: toFixed_def Let_def)
  note F = frac_digits [of "nat l mod 10 ^ d" d]
  have "padStart d (CHR ''0'') (nat_str (nat l mod 10 ^ d)) \<noteq> []"
    using F(2) assms(4) by auto
  then show ?thesis
    using strip_dot_zeros_text F(1) formatUnits_shape(1) [OF assms(4), of l] assms(2,4)
    by (simp add: tf)
qed

lemma sol_text_formatUnits:
  assumes "0 \<le> l" and "l < 2 ^ 52"
  shows "sol_text l = formatUnits l 9"
proof -
  have n: "num_of_int l = Fin (of_int l)" using assms by (intro num_of_int_exact) auto
  let ?x = "of_int l / 10 ^ 9 :: rat"
  have "(of_int l :: rat) < of_int (2 ^ 52)" using assms(2) by (simp only: of_int_less_iff)
  then have lr: "(of_int l :: rat) < 2 ^ 52" by simp
  obtain y where y: "round64 ?x = Fin y" "0 \<le> y" and e: "\<bar>y - ?x\<bar> \<le> ?x / 2 ^ 53"
  proof (cases "l = 0")
    case True
    then show ?thesis using that [of 0] by (simp add: round64_def)
  next
    case False
    with assms have "1 \<le> l" by simp
    then have "(1 :: rat) \<le> of_int l" by simp
    moreover have "(2 powi (- 1022) :: rat) \<le> 2 powi (-30)" by (rule power_int_increasing) auto
    moreover have "(2 powi (-30) :: rat) \<le> 1 / 10 ^ 9" by (simp add: power_int_minus)
    ultimately have lo: "2 powi (- 1022) \<le> ?x" by simp
    have "?x \<le> of_int l" using \<open>1 \<le> of_int l\<close> by simp
    moreover have "(2 :: rat) ^ 52 < 2 ^ 1000" by simp
    ultimately have "?x < 2 ^ 1000" using lr by linarith
    with round64_pos [OF lo] show ?thesis using that by blast
  qed
  have "\<bar>y * 10 ^ 9 - of_int l\<bar> = \<bar>y - ?x\<bar> * 10 ^ 9"
    by (simp add: abs_if field_simps)
  also have "\<dots> \<le> of_int l / 2 ^ 53" using e by (simp add: field_simps)
  also have "\<dots> < 1 / 2" using lr by simp
  finally have "strip_dot_zeros (toFixed 9 y) = formatUnits l (int 9)"
    using assms(1) y(2) by (intro toFixed_near) auto
  then show ?thesis using y(1) by (simp add: sol_text_def n d_div_def)
qed


text \<open>Below \<open>2^52\<close> lamports (4.5 million SOL) the floating-point rendering of a SOL amount in
  the system decoder is exact: it prints the same text as the integer formatter at nine decimals.\<close>

theorem sol_text_exact:
  assumes "0 \<le> l" and "l < 2 ^ 52"
  shows "sol_text l = formatUnits l 9"
  using assms by (rule sol_text_formatUnits)

theorem sol_text_exact_witness: "sol_text 1500000000 = ''1.5''"
proof -
  have "sol_text 1500000000 = formatUnits 1500000000 9" by (rule sol_text_exact) simp_all
  also have "\<dots> = ''1.5''" by (simp add: formatUnits_def js_eval)
  finally show ?thesis .
qed

end
