(* ===== verification/Borsh.thy ===== *)
theory Borsh
  imports Bytes Doubles
begin

text \<open>
  The Borsh readers of \<^verbatim>\<open>verify/decoders/handshake.ts\<close> and \<^verbatim>\<open>verify/decoders/silkysig.ts\<close>. A
  reader takes a buffer and an offset and returns the value with the offset behind it; a number
  read past the end throws. The locale \<open>borsh_codec\<close> is what a reader promises: from the
  encoding of a value, wherever it stands in a buffer, it reads that value and stops behind it.
  The constructor and \<^verbatim>\<open>toBase58\<close> of web3's \<^verbatim>\<open>PublicKey\<close> are the parameter \<open>pk\<close> (a buffer of
  at most 32 bytes is always accepted).
\<close>

section \<open>Readers\<close>

definition readPubkey :: "(buffer \<Rightarrow> string) \<Rightarrow> buffer \<Rightarrow> nat \<Rightarrow> (string \<times> nat) result" where
  "readPubkey pk buf off = Inr (pk (subarray buf off (off + 32)), off + 32)"

definition readU64 :: "buffer \<Rightarrow> nat \<Rightarrow> (nat \<times> nat) result" where
  "readU64 buf off = bind_result (readBigUInt64LE buf off) (\<lambda>v. Inr (v, off + 8))"

definition readI64 :: "buffer \<Rightarrow> nat \<Rightarrow> (int \<times> nat) result" where
  "readI64 buf off = bind_result (readBigInt64LE buf off) (\<lambda>v. Inr (v, off + 8))"

definition readString :: "buffer \<Rightarrow> nat \<Rightarrow> (string \<times> nat) result" where
  "readString buf off =
     bind_result (readUInt32LE buf off) (\<lambda>len.
       let off' = off + 4
       in Inr (toString_utf8 (subarray buf off' (off' + len)), off' + len))"

text \<open>\<open>buf[offset]\<close> behind the end is \<open>undefined\<close>: nothing is thrown.\<close>

definition readOptionU8 :: "buffer \<Rightarrow> nat \<Rightarrow> (jval \<times> nat) result" where
  "readOptionU8 buf off =
     (if byte_at buf off \<noteq> Some 1 then Inr (JNull, off + 1)
      else Inr (case byte_at buf (off + 1) of None \<Rightarrow> JUndef | Some v \<Rightarrow> JNum (int v), off + 2))"

definition readOptionU64 :: "buffer \<Rightarrow> nat \<Rightarrow> (nat option \<times> nat) result" where
  "readOptionU64 buf off =
     (if byte_at buf off \<noteq> Some 1 then Inr (None, off + 1)
      else bind_result (readBigUInt64LE buf (off + 1)) (\<lambda>v. Inr (Some v, off + 9)))"

section \<open>The contract of a reader\<close>

locale borsh_codec =
  fixes enc :: "'a \<Rightarrow> buffer"
    and rd :: "buffer \<Rightarrow> nat \<Rightarrow> ('b \<times> nat) result"
    and view :: "'a \<Rightarrow> 'b"
    and ok :: "'a \<Rightarrow> bool"
  assumes read_enc: "ok x \<Longrightarrow> rd (pre @ enc x @ post) (length pre) = Inr (view x, length pre + length (enc x))"
begin

lemma read_at:
  assumes "drop off buf = enc x @ post" and "ok x" and "off \<le> length buf"
  shows "rd buf off = Inr (view x, off + length (enc x))"
proof -
  have "buf = take off buf @ enc x @ post" using assms(1) by (metis append_take_drop_id)
  moreover have "length (take off buf) = off" using assms(3) by simp
  ultimately show ?thesis using read_enc [OF assms(2), of "take off buf" post] by metis
qed

lemma rest_at:
  assumes "drop off buf = enc x @ post"
  shows "drop (off + length (enc x)) buf = post"
  using assms by (metis add.commute append_eq_conv_conj drop_drop)

lemma end_at:
  assumes "drop off buf = enc x @ post" and "off \<le> length buf"
  shows "off + length (enc x) \<le> length buf"
  using assms by (metis length_append length_drop le_add1 le_add_diff_inverse nat_add_left_cancel_le)

lemma read_injective:
  assumes "ok x" and "ok y" and "enc x = enc y"
  shows "view x = view y"
  using read_enc [OF assms(1), of "[]" "[]"] read_enc [OF assms(2), of "[]" "[]"] assms(3) by simp

end

text \<open>Two readers in a row read the concatenation of two encodings.\<close>

locale borsh_pair =
  a: borsh_codec enc\<^sub>1 rd\<^sub>1 view\<^sub>1 ok\<^sub>1 + b: borsh_codec enc\<^sub>2 rd\<^sub>2 view\<^sub>2 ok\<^sub>2
  for enc\<^sub>1 :: "'a \<Rightarrow> buffer" and rd\<^sub>1 :: "buffer \<Rightarrow> nat \<Rightarrow> ('b \<times> nat) result" and view\<^sub>1 ok\<^sub>1
    and enc\<^sub>2 :: "'c \<Rightarrow> buffer" and rd\<^sub>2 :: "buffer \<Rightarrow> nat \<Rightarrow> ('d \<times> nat) result" and view\<^sub>2 ok\<^sub>2
begin

sublocale pair: borsh_codec
  "\<lambda>(x, y). enc\<^sub>1 x @ enc\<^sub>2 y"
  "\<lambda>buf off. bind_result (rd\<^sub>1 buf off) (\<lambda>(x, off1). bind_result (rd\<^sub>2 buf off1) (\<lambda>(y, off2). Inr ((x, y), off2)))"
  "\<lambda>(x, y). (view\<^sub>1 x, view\<^sub>2 y)"
  "\<lambda>(x, y). ok\<^sub>1 x \<and> ok\<^sub>2 y"
proof (unfold_locales, clarsimp)
  fix x y and pre post :: buffer
  assume ok: "ok\<^sub>1 x" "ok\<^sub>2 y"
  have "rd\<^sub>1 (pre @ enc\<^sub>1 x @ enc\<^sub>2 y @ post) (length pre) = Inr (view\<^sub>1 x, length pre + length (enc\<^sub>1 x))"
    using a.read_enc [OF ok(1)] .
  moreover have "rd\<^sub>2 (pre @ enc\<^sub>1 x @ enc\<^sub>2 y @ post) (length pre + length (enc\<^sub>1 x))
      = Inr (view\<^sub>2 y, length pre + length (enc\<^sub>1 x) + length (enc\<^sub>2 y))"
    using b.read_enc [OF ok(2), of "pre @ enc\<^sub>1 x" post] by simp
  ultimately show "bind_result (rd\<^sub>1 (pre @ enc\<^sub>1 x @ enc\<^sub>2 y @ post) (length pre))
      (\<lambda>(u, off1). bind_result (rd\<^sub>2 (pre @ enc\<^sub>1 x @ enc\<^sub>2 y @ post) off1) (\<lambda>(w, off2). Inr ((u, w), off2)))
      = Inr ((view\<^sub>1 x, view\<^sub>2 y), length pre + (length (enc\<^sub>1 x) + length (enc\<^sub>2 y)))"
    by simp
qed

end

section \<open>Every reader meets it\<close>

definition utf8_ok :: "string \<Rightarrow> bool" where
  "utf8_ok s \<longleftrightarrow> utf8_sanitize (utf8_bytes s) = utf8_bytes s \<and> length s < 2 ^ 32"

definition enc_option_u64 :: "nat option \<Rightarrow> buffer" where
  "enc_option_u64 v = (case v of None \<Rightarrow> [0] | Some n \<Rightarrow> 1 # enc_u64 n)"

definition enc_option_u8 :: "nat option \<Rightarrow> buffer" where
  "enc_option_u8 v = (case v of None \<Rightarrow> [0] | Some n \<Rightarrow> [1, of_nat n])"

definition option_u8_view :: "nat option \<Rightarrow> jval" where
  "option_u8_view v = (case v of None \<Rightarrow> JNull | Some n \<Rightarrow> JNum (int n))"

lemma subarray_prefix: "subarray (pre @ s @ post) (length pre) (length pre + length s) = s"
  by (simp add: subarray_def)

lemma toString_utf8_ok: "utf8_ok s \<Longrightarrow> toString_utf8 (utf8_bytes s) = s"
  by (simp add: utf8_ok_def toString_utf8_def utf8_bytes_def byte_char_inverse o_def)

lemma byte_at_prefix: "byte_at (pre @ x # post) (length pre) = Some (unat x)"
  by (simp add: byte_at_def)

interpretation pubkey: borsh_codec "\<lambda>k. k" "readPubkey pk" pk "\<lambda>k. length k = 32"
  for pk :: "buffer \<Rightarrow> string"
proof (unfold_locales)
  fix k pre post :: buffer
  assume "length k = 32"
  then have "subarray (pre @ k @ post) (length pre) (length pre + 32) = k"
    using subarray_prefix [of pre k post] by simp
  then show "readPubkey pk (pre @ k @ post) (length pre) = Inr (pk k, length pre + length k)"
    using \<open>length k = 32\<close> by (simp add: readPubkey_def)
qed

interpretation u64: borsh_codec enc_u64 readU64 "\<lambda>v. v" "\<lambda>v. v < 2 ^ 64"
  by unfold_locales (simp add: readU64_def readBigUInt64LE_def enc_u64_def read_le_prefix)

lemma i64_value:
  assumes "- (2 ^ 63) \<le> (v :: int)" and "v < 2 ^ 63"
  shows "(if nat (v mod 2 ^ 64) < 2 ^ 63 then int (nat (v mod 2 ^ 64)) else int (nat (v mod 2 ^ 64)) - 2 ^ 64) = v"
proof (cases "0 \<le> v")
  case True
  then have "v mod 2 ^ 64 = v" using assms by simp
  then show ?thesis using True assms by simp
next
  case False
  have "v mod 2 ^ 64 = (v + 2 ^ 64) mod 2 ^ 64" by simp
  also have "\<dots> = v + 2 ^ 64" using False assms by (intro mod_pos_pos_trivial) simp_all
  finally show ?thesis using False assms by simp
qed

interpretation i64: borsh_codec enc_i64 readI64 "\<lambda>v. v" "\<lambda>v. - (2 ^ 63) \<le> v \<and> v < 2 ^ 63"
proof (unfold_locales)
  fix v :: int and pre post :: buffer
  assume v: "- (2 ^ 63) \<le> v \<and> v < 2 ^ 63"
  have "nat (v mod 2 ^ 64) < 256 ^ 8" by (simp add: nat_less_iff)
  then have "read_le 8 (pre @ enc_i64 v @ post) (length pre) = Inr (nat (v mod 2 ^ 64))"
    unfolding enc_i64_def by (intro read_le_prefix) simp_all
  then show "readI64 (pre @ enc_i64 v @ post) (length pre) = Inr (v, length pre + length (enc_i64 v))"
    using i64_value [of v] v
    by (simp only: readI64_def readBigInt64LE_def bind_result_simps enc_i64_def length_le_bytes)
qed

interpretation str: borsh_codec enc_string readString "\<lambda>s. s" utf8_ok
proof (unfold_locales)
  fix s and pre post :: buffer
  assume s: "utf8_ok s"
  let ?b = "pre @ enc_string s @ post"
  have "readUInt32LE ?b (length pre) = Inr (length s)"
    using s by (simp add: readUInt32LE_def enc_string_def read_le_prefix utf8_ok_def)
  moreover have "subarray ?b (length pre + 4) (length pre + 4 + length s) = utf8_bytes s"
    using subarray_prefix [of "pre @ le_bytes 4 (length s)" "utf8_bytes s" post]
    by (simp add: enc_string_def utf8_bytes_def)
  ultimately show "readString ?b (length pre) = Inr (s, length pre + length (enc_string s))"
    using s toString_utf8_ok [OF s] by (simp add: readString_def Let_def enc_string_def utf8_bytes_def)
qed

interpretation opt_u64: borsh_codec enc_option_u64 readOptionU64 "\<lambda>v. v" "pred_option (\<lambda>n. n < 2 ^ 64)"
proof (unfold_locales)
  fix v :: "nat option" and pre post :: buffer
  assume v: "pred_option (\<lambda>n. n < 2 ^ 64) v"
  show "readOptionU64 (pre @ enc_option_u64 v @ post) (length pre)
      = Inr (v, length pre + length (enc_option_u64 v))"
  proof (cases v)
    case None
    then show ?thesis
      using byte_at_prefix [of pre 0 post] by (simp add: readOptionU64_def enc_option_u64_def)
  next
    case (Some n)
    have "readBigUInt64LE (pre @ 1 # enc_u64 n @ post) (Suc (length pre)) = Inr n"
      unfolding readBigUInt64LE_def enc_u64_def
      using read_le_prefix [of "Suc (length pre)" "pre @ [1]" n 8 post] Some v by simp
    then show ?thesis
      using Some byte_at_prefix [of pre 1 "enc_u64 n @ post"]
      by (simp add: readOptionU64_def enc_option_u64_def enc_u64_def)
  qed
qed

interpretation opt_u8: borsh_codec enc_option_u8 readOptionU8 option_u8_view "pred_option (\<lambda>n. n < 256)"
proof (unfold_locales)
  fix v :: "nat option" and pre post :: buffer
  assume v: "pred_option (\<lambda>n. n < 256) v"
  show "readOptionU8 (pre @ enc_option_u8 v @ post) (length pre)
      = Inr (option_u8_view v, length pre + length (enc_option_u8 v))"
  proof (cases v)
    case None
    then show ?thesis using byte_at_prefix [of pre 0 post]
      by (simp add: readOptionU8_def enc_option_u8_def option_u8_view_def)
  next
    case (Some n)
    have "byte_at (pre @ 1 # of_nat n # post) (Suc (length pre)) = Some n"
      using byte_at_prefix [of "pre @ [1]" "of_nat n" post] Some v by (simp add: unat_of_nat)
    then show ?thesis
      using Some byte_at_prefix [of pre 1 "of_nat n # post"]
      by (simp add: readOptionU8_def enc_option_u8_def option_u8_view_def)
  qed
qed

interpretation key_limit: borsh_pair
  "\<lambda>k. k" "readPubkey pk" pk "\<lambda>k. length k = 32"
  enc_option_u64 readOptionU64 "\<lambda>v. v" "pred_option (\<lambda>n. n < 2 ^ 64)"
  for pk :: "buffer \<Rightarrow> string"
  by unfold_locales

interpretation two_u64: borsh_pair
  enc_u64 readU64 "\<lambda>v. v" "\<lambda>v. v < 2 ^ 64"
  enc_u64 readU64 "\<lambda>v. v" "\<lambda>v. v < 2 ^ 64"
  by unfold_locales

interpretation two_i64: borsh_pair
  enc_i64 readI64 "\<lambda>v. v" "\<lambda>v. - (2 ^ 63) \<le> v \<and> v < 2 ^ 63"
  enc_i64 readI64 "\<lambda>v. v" "\<lambda>v. - (2 ^ 63) \<le> v \<and> v < 2 ^ 63"
  by unfold_locales

end
