(* ===== verification/Decoders.thy ===== *)
theory Decoders
  imports Borsh
begin

text \<open>
  The instruction decoders of \<^verbatim>\<open>packages/sdk/src/verify/decoders/\<close>: system, spl-token, ata,
  compute-budget, memo, jupiter, handshake and silkysig. A decoder maps the bytes and the account
  keys of one instruction to a type and a \<open>params\<close> object (insertion ordered, as the source
  writes it), or to \<open>null\<close> (here \<open>None\<close>). Token metadata (\<open>tokenSymbol\<close>, \<open>tokenDecimals\<close>) and
  web3's \<^verbatim>\<open>new PublicKey(bytes).toBase58()\<close> (\<open>pk\<close>) are arguments, as in the source.
\<close>

record decoded =
  dec_type :: string
  dec_params :: "jval obj"

definition decd :: "string \<Rightarrow> jval obj \<Rightarrow> decoded" where
  "decd t p = \<lparr>dec_type = t, dec_params = p\<rparr>"

lemma decd_simps [simp]: "dec_type (decd t p) = t" "dec_params (decd t p) = p"
  by (simp_all add: decd_def)

text \<open>\<open>accounts[i] ?? null\<close>, and \<open>mint ? f(mint) : d\<close>.\<close>

abbreviation acct :: "string list \<Rightarrow> nat \<Rightarrow> jval" where
  "acct accounts i \<equiv> nth_or_null accounts i"

definition of_mint :: "jval \<Rightarrow> (string \<Rightarrow> 'a) \<Rightarrow> 'a \<Rightarrow> 'a" where
  "of_mint mint f d = (case mint of JStr m \<Rightarrow> if m = [] then d else f m | _ \<Rightarrow> d)"

definition human :: "int \<Rightarrow> int \<Rightarrow> string \<Rightarrow> jval" where
  "human amount decimals symbol = JStr (formatUnits amount decimals @ '' '' @ symbol)"

section \<open>System program\<close>

definition decodeSystem :: "(buffer \<Rightarrow> string) \<Rightarrow> buffer \<Rightarrow> string list \<Rightarrow> decoded option result" where
  "decodeSystem pk data accounts =
     (if length data < 4 then Inr None
      else bind_result (readUInt32LE data 0) (\<lambda>index.
        if index = 2 then
          (if length data < 12 then Inr None
           else bind_result (readBigUInt64LE data 4) (\<lambda>lamports.
             Inr (Some (decd ''transfer''
               [(''from'', acct accounts 0), (''to'', acct accounts 1),
                (''lamports'', JStr (nat_str lamports)), (''sol'', JStr (sol_text (int lamports)))]))))
        else if index = 0 then
          (if length data < 52 then Inr None
           else bind_result (readBigUInt64LE data 4) (\<lambda>lamports.
             bind_result (readBigUInt64LE data 12) (\<lambda>space.
               Inr (Some (decd ''create_account''
                 [(''from'', acct accounts 0), (''newAccount'', acct accounts 1),
                  (''lamports'', JStr (nat_str lamports)), (''sol'', JStr (sol_text (int lamports))),
                  (''space'', JStr (nat_str space)), (''owner'', JStr (pk (subarray data 20 52)))])))))
        else if index = 1 then
          (if length data < 36 then Inr None
           else Inr (Some (decd ''assign''
             [(''account'', acct accounts 0), (''owner'', JStr (pk (subarray data 4 36)))])))
        else if index = 8 then
          (if length data < 12 then Inr None
           else bind_result (readBigUInt64LE data 4) (\<lambda>space.
             Inr (Some (decd ''allocate''
               [(''account'', acct accounts 0), (''space'', JStr (nat_str space))]))))
        else if index = 4 then
          Inr (Some (decd ''advance_nonce_account'' [(''nonce'', acct accounts 0)]))
        else Inr (Some (decd (''unknown_system_ix_'' @ nat_str index) []))))"

section \<open>SPL token program\<close>

definition decodeSplToken :: "buffer \<Rightarrow> string list \<Rightarrow> (string \<Rightarrow> string) \<Rightarrow> decoded option result" where
  "decodeSplToken data accounts tokenSymbol =
     (case byte_at data 0 of
        None \<Rightarrow> Inr None
      | Some index \<Rightarrow>
          if index = 3 then
            (if length data < 9 then Inr None
             else bind_result (readBigUInt64LE data 1) (\<lambda>amount.
               Inr (Some (decd ''transfer''
                 [(''source'', acct accounts 0), (''destination'', acct accounts 1),
                  (''authority'', acct accounts 2), (''amount'', JStr (nat_str amount))]))))
          else if index = 12 then
            (if length data < 10 then Inr None
             else bind_result (readBigUInt64LE data 1) (\<lambda>amount.
               let decimals = unat (data ! 9); mint = acct accounts 1;
                   symbol = of_mint mint tokenSymbol ''unknown'';
                   humanAmount = of_mint mint (\<lambda>_. formatUnits (int amount) (int decimals)) (nat_str amount)
               in Inr (Some (decd ''transfer_checked''
                    [(''source'', acct accounts 0), (''mint'', mint),
                     (''destination'', acct accounts 2), (''authority'', acct accounts 3),
                     (''amount'', JStr (nat_str amount)), (''decimals'', JNum (int decimals)),
                     (''amountHuman'', JStr (humanAmount @ '' '' @ symbol))]))))
          else if index = 7 \<or> index = 14 then
            (if length data < 9 then Inr None
             else bind_result (readBigUInt64LE data 1) (\<lambda>amount.
               Inr (Some (decd (if index = 7 then ''mint_to'' else ''mint_to_checked'')
                 [(''mint'', acct accounts 0), (''destination'', acct accounts 1),
                  (''authority'', acct accounts 2), (''amount'', JStr (nat_str amount))]))))
          else if index = 8 \<or> index = 15 then
            (if length data < 9 then Inr None
             else bind_result (readBigUInt64LE data 1) (\<lambda>amount.
               Inr (Some (decd (if index = 8 then ''burn'' else ''burn_checked'')
                 [(''account'', acct accounts 0), (''mint'', acct accounts 1),
                  (''authority'', acct accounts 2), (''amount'', JStr (nat_str amount))]))))
          else if index = 9 then
            Inr (Some (decd ''close_account''
              [(''account'', acct accounts 0), (''destination'', acct accounts 1), (''authority'', acct accounts 2)]))
          else if index = 1 then
            Inr (Some (decd ''initialize_account''
              [(''account'', acct accounts 0), (''mint'', acct accounts 1), (''owner'', acct accounts 2)]))
          else if index = 17 then Inr (Some (decd ''sync_native'' [(''account'', acct accounts 0)]))
          else if index = 10 then
            Inr (Some (decd ''freeze_account'' [(''account'', acct accounts 0), (''mint'', acct accounts 1)]))
          else if index = 11 then
            Inr (Some (decd ''thaw_account'' [(''account'', acct accounts 0), (''mint'', acct accounts 1)]))
          else Inr (Some (decd (''unknown_spl_ix_'' @ nat_str index) [])))"

section \<open>Associated token account, compute budget, memo, Jupiter\<close>

definition decodeAta :: "buffer \<Rightarrow> string list \<Rightarrow> decoded" where
  "decodeAta data accounts =
     (let index = (case byte_at data 0 of None \<Rightarrow> 0 | Some i \<Rightarrow> i); isIdempotent = (index = 1)
      in decd (if isIdempotent then ''create_idempotent'' else ''create'')
           [(''funder'', acct accounts 0), (''newAta'', acct accounts 1),
            (''wallet'', acct accounts 2), (''mint'', acct accounts 3)])"

definition decodeComputeBudget :: "buffer \<Rightarrow> decoded result" where
  "decodeComputeBudget data =
     (case byte_at data 0 of
        None \<Rightarrow> Inr (decd ''unknown'' [])
      | Some index \<Rightarrow>
          if index = 2 then
            bind_result (if 5 \<le> length data
                         then bind_result (readUInt32LE data 1) (\<lambda>v. Inr (JNum (int v))) else Inr JNull)
              (\<lambda>units. Inr (decd ''set_compute_unit_limit'' [(''units'', units)]))
          else if index = 3 then
            bind_result (if 9 \<le> length data
                         then bind_result (readBigUInt64LE data 1) (\<lambda>v. Inr (JStr (nat_str v))) else Inr JNull)
              (\<lambda>microLamports. Inr (decd ''set_compute_unit_price'' [(''microLamports'', microLamports)]))
          else if index = 1 then
            bind_result (if 5 \<le> length data
                         then bind_result (readUInt32LE data 1) (\<lambda>v. Inr (JNum (int v))) else Inr JNull)
              (\<lambda>bytes. Inr (decd ''request_heap_frame'' [(''bytes'', bytes)]))
          else Inr (decd (''unknown_compute_budget_ix_'' @ nat_str index) []))"

definition decodeMemo :: "buffer \<Rightarrow> decoded" where
  "decodeMemo data = decd ''memo'' [(''text'', JStr (toString_utf8 data))]"

definition KNOWN_TYPES :: "string obj" where
  "KNOWN_TYPES =
     [(''e517cb977ae3ad2a'', ''route''),
      (''c1209b3341d69c81'', ''route_with_token_ledger''),
      (''9279c41c15427612'', ''shared_accounts_route''),
      (''36d7ebfe04130a5b'', ''shared_accounts_route_with_token_ledger''),
      (''b0d169a89a7d453e'', ''exact_out_route''),
      (''a6c1780c5e87f5b2'', ''shared_accounts_exact_out_route'')]"

definition decodeJupiter :: "buffer \<Rightarrow> string list \<Rightarrow> decoded" where
  "decodeJupiter data accounts =
     (let unknown = decd ''unknown_jupiter_instruction''
            [(''note'', JStr (''Unknown Jupiter instruction '' @ em_dash @ '' discriminator not recognized''))]
      in if 8 \<le> length data then
           (case get KNOWN_TYPES (toString_hex (subarray data 0 8)) of
              None \<Rightarrow> unknown
            | Some typeName \<Rightarrow> decd typeName
                [(''sourceTokenAccount'', acct accounts 2), (''destinationTokenAccount'', acct accounts 3),
                 (''note'', JStr (''Jupiter route '' @ em_dash @
                    '' full params not decoded, verify input/output token accounts''))])
         else unknown)"

section \<open>Anchor discriminators\<close>

type_synonym discriminators = "(string \<times> buffer) list"

definition handshake_discriminators :: discriminators where
  "handshake_discriminators =
     [(''create_transfer'', [142, 232, 86, 212, 85, 158, 131, 190]),
      (''claim_transfer'', [202, 178, 58, 190, 230, 234, 229, 17]),
      (''cancel_transfer'', [50, 32, 70, 130, 142, 41, 111, 175]),
      (''decline_transfer'', [157, 102, 22, 26, 29, 72, 206, 181]),
      (''reject_transfer'', [250, 250, 180, 34, 151, 19, 110, 207]),
      (''expire_transfer'', [120, 220, 22, 191, 234, 70, 205, 117]),
      (''destroy_transfer'', [213, 186, 122, 7, 20, 48, 250, 144]),
      (''init_pool'', [116, 233, 199, 204, 115, 159, 171, 36]),
      (''pause_pool'', [160, 15, 12, 189, 160, 0, 243, 245]),
      (''reset_pool'', [108, 172, 93, 91, 146, 8, 155, 112]),
      (''close_pool'', [140, 189, 209, 23, 239, 62, 239, 11]),
      (''withdraw_fees'', [198, 212, 171, 109, 144, 215, 174, 89])]"

definition silkysig_discriminators :: discriminators where
  "silkysig_discriminators =
     [(''create_account'', [99, 20, 130, 119, 196, 235, 131, 149]),
      (''deposit'', [242, 35, 198, 137, 82, 225, 242, 182]),
      (''transfer_from_account'', [9, 168, 230, 150, 118, 31, 189, 73]),
      (''init_drift_user'', [32, 47, 206, 180, 199, 171, 115, 93]),
      (''add_operator'', [149, 142, 187, 68, 33, 250, 87, 105]),
      (''remove_operator'', [84, 183, 126, 251, 137, 150, 214, 134]),
      (''toggle_pause'', [238, 237, 206, 27, 255, 95, 123, 229]),
      (''close_account'', [125, 255, 149, 14, 110, 34, 72, 24])]"

fun first_match :: "discriminators \<Rightarrow> buffer \<Rightarrow> string option" where
  "first_match [] data = None"
| "first_match ((name, disc) # rest) data =
     (if take (length disc) data = disc then Some name else first_match rest data)"

definition matchDiscriminator :: "discriminators \<Rightarrow> buffer \<Rightarrow> string option" where
  "matchDiscriminator discs data = (if length data < 8 then None else first_match discs data)"

section \<open>Handshake escrow program\<close>

text \<open>\<open>Number(v)\<close> of a signed 64-bit value, which is integral, and \<open>v === 0n ? null : Number(v)\<close>.\<close>

definition int_Number :: "int \<Rightarrow> jval" where
  "int_Number v = (case num_of_int v of Fin r \<Rightarrow> JNum \<lfloor>r\<rfloor> | _ \<Rightarrow> JUndef)"

definition time_or_null :: "int \<Rightarrow> jval" where
  "time_or_null v = (if v = 0 then JNull else int_Number v)"

definition str_or_null :: "string \<Rightarrow> jval" where
  "str_or_null s = (if s = [] then JNull else JStr s)"

definition read_create_args ::
    "(buffer \<Rightarrow> string) \<Rightarrow> buffer \<Rightarrow> nat \<Rightarrow> (string \<times> nat \<times> nat \<times> string \<times> int \<times> int) result" where
  "read_create_args pk data off =
     bind_result (readPubkey pk data off) (\<lambda>(recipient, off).
     bind_result (readU64 data off) (\<lambda>(nonce, off).
     bind_result (readU64 data off) (\<lambda>(amount, off).
     bind_result (readString data off) (\<lambda>(memo, off).
     bind_result (readI64 data off) (\<lambda>(claimableAfter, off).
     bind_result (readI64 data off) (\<lambda>(claimableUntil, off).
       Inr (recipient, nonce, amount, memo, claimableAfter, claimableUntil)))))))"

definition decode_create_transfer ::
    "(buffer \<Rightarrow> string) \<Rightarrow> buffer \<Rightarrow> string list \<Rightarrow> (string \<Rightarrow> string) \<Rightarrow> (string \<Rightarrow> nat) \<Rightarrow> decoded" where
  "decode_create_transfer pk data accounts tokenSymbol tokenDecimals =
     (let mint = acct accounts 2;
          symbol = of_mint mint tokenSymbol ''unknown'';
          decimals = of_mint mint tokenDecimals 6
      in case read_create_args pk data 8 of
           Inl e \<Rightarrow> decd ''create_transfer''
             [(''sender'', nth_or_undef accounts 0), (''decodeError'', JStr ''failed to parse args'')]
         | Inr (recipient, nonce, amount, memo, claimableAfter, claimableUntil) \<Rightarrow>
             decd ''create_transfer''
               [(''sender'', acct accounts 0), (''recipient'', JStr recipient), (''pool'', acct accounts 1),
                (''mint'', mint), (''amount'', JStr (nat_str amount)),
                (''amountHuman'', human (int amount) (int decimals) symbol),
                (''memo'', str_or_null memo), (''claimableAfter'', time_or_null claimableAfter),
                (''claimableUntil'', time_or_null claimableUntil), (''nonce'', JStr (nat_str nonce))])"

text \<open>\<open>try { [reason] = readOptionU8(..) } catch {}\<close>.\<close>

definition read_reason :: "buffer \<Rightarrow> nat \<Rightarrow> jval" where
  "read_reason data off = (case readOptionU8 data off of Inl e \<Rightarrow> JNull | Inr (r, _) \<Rightarrow> r)"

definition decodeHandshake ::
    "(buffer \<Rightarrow> string) \<Rightarrow> buffer \<Rightarrow> string list \<Rightarrow> (string \<Rightarrow> string) \<Rightarrow> (string \<Rightarrow> nat) \<Rightarrow> decoded option" where
  "decodeHandshake pk data accounts tokenSymbol tokenDecimals =
     (case matchDiscriminator handshake_discriminators data of
        None \<Rightarrow> None
      | Some name \<Rightarrow> Some (
          if name = ''create_transfer'' then
            decode_create_transfer pk data accounts tokenSymbol tokenDecimals
          else if name = ''claim_transfer'' then
            decd name [(''claimer'', acct accounts 0), (''transferPda'', acct accounts 5), (''sender'', acct accounts 6)]
          else if name = ''cancel_transfer'' then
            decd name [(''sender'', acct accounts 0), (''transferPda'', acct accounts 5)]
          else if name = ''decline_transfer'' then
            decd name [(''recipient'', acct accounts 0), (''transferPda'', acct accounts 5),
                       (''reason'', read_reason data 8)]
          else if name = ''reject_transfer'' then
            decd name [(''operator'', acct accounts 0), (''transferPda'', acct accounts 5),
                       (''reason'', read_reason data 8)]
          else if name = ''expire_transfer'' then
            decd name [(''caller'', acct accounts 0), (''transferPda'', acct accounts 5)]
          else if name = ''init_pool'' then
            decd name [(''operator'', acct accounts 0), (''mint'', acct accounts 1), (''pool'', acct accounts 2)]
          else if name = ''pause_pool'' \<or> name = ''withdraw_fees'' then
            decd name [(''operator'', acct accounts 0), (''pool'', acct accounts 1)]
          else decd name []))"

section \<open>Silkysig account program\<close>

definition decode_deposit ::
    "buffer \<Rightarrow> string list \<Rightarrow> (string \<Rightarrow> string) \<Rightarrow> (string \<Rightarrow> nat) \<Rightarrow> decoded" where
  "decode_deposit data accounts tokenSymbol tokenDecimals =
     (let mint = acct accounts 2;
          symbol = of_mint mint tokenSymbol ''unknown'';
          decimals = of_mint mint tokenDecimals 6
      in case readU64 data 8 of
           Inl e \<Rightarrow> decd ''deposit'' [(''depositor'', nth_or_undef accounts 0)]
         | Inr (amount, _) \<Rightarrow> decd ''deposit''
             [(''depositor'', acct accounts 0), (''silkAccount'', acct accounts 1), (''mint'', mint),
              (''amount'', JStr (nat_str amount)), (''amountHuman'', human (int amount) (int decimals) symbol)])"

definition decode_transfer_from_account ::
    "buffer \<Rightarrow> string list \<Rightarrow> (string \<Rightarrow> string) \<Rightarrow> (string \<Rightarrow> nat) \<Rightarrow> decoded" where
  "decode_transfer_from_account data accounts tokenSymbol tokenDecimals =
     (let mint = acct accounts 2;
          symbol = of_mint mint tokenSymbol ''unknown'';
          decimals = of_mint mint tokenDecimals 6
      in case readU64 data 8 of
           Inl e \<Rightarrow> decd ''transfer_from_account'' [(''signer'', nth_or_undef accounts 0)]
         | Inr (amount, _) \<Rightarrow> decd ''transfer_from_account''
             [(''signer'', acct accounts 0), (''silkAccount'', acct accounts 1), (''mint'', mint),
              (''recipient'', acct accounts 4), (''amount'', JStr (nat_str amount)),
              (''amountHuman'', human (int amount) (int decimals) symbol)])"

definition decode_add_operator :: "(buffer \<Rightarrow> string) \<Rightarrow> buffer \<Rightarrow> string list \<Rightarrow> decoded" where
  "decode_add_operator pk data accounts =
     (case bind_result (readPubkey pk data 8) (\<lambda>(operator, off).
             bind_result (readOptionU64 data off) (\<lambda>(perTxLimit, off). Inr ((operator, perTxLimit), off))) of
        Inl e \<Rightarrow> decd ''add_operator'' [(''owner'', nth_or_undef accounts 0)]
      | Inr ((operator, perTxLimit), _) \<Rightarrow> decd ''add_operator''
          [(''owner'', acct accounts 0), (''silkAccount'', acct accounts 1), (''operator'', JStr operator),
           (''perTxLimit'', case perTxLimit of None \<Rightarrow> JNull | Some l \<Rightarrow> JStr (nat_str l))])"

definition decode_remove_operator :: "(buffer \<Rightarrow> string) \<Rightarrow> buffer \<Rightarrow> string list \<Rightarrow> decoded" where
  "decode_remove_operator pk data accounts =
     (case readPubkey pk data 8 of
        Inl e \<Rightarrow> decd ''remove_operator'' [(''owner'', nth_or_undef accounts 0)]
      | Inr (operator, _) \<Rightarrow> decd ''remove_operator''
          [(''owner'', acct accounts 0), (''silkAccount'', acct accounts 1), (''operator'', JStr operator)])"

definition decodeSilkysig ::
    "(buffer \<Rightarrow> string) \<Rightarrow> buffer \<Rightarrow> string list \<Rightarrow> (string \<Rightarrow> string) \<Rightarrow> (string \<Rightarrow> nat) \<Rightarrow> decoded option" where
  "decodeSilkysig pk data accounts tokenSymbol tokenDecimals =
     (case matchDiscriminator silkysig_discriminators data of
        None \<Rightarrow> None
      | Some name \<Rightarrow> Some (
          if name = ''create_account'' then
            decd name [(''owner'', acct accounts 0), (''mint'', acct accounts 1), (''silkAccount'', acct accounts 2)]
          else if name = ''deposit'' then decode_deposit data accounts tokenSymbol tokenDecimals
          else if name = ''transfer_from_account'' then
            decode_transfer_from_account data accounts tokenSymbol tokenDecimals
          else if name = ''add_operator'' then decode_add_operator pk data accounts
          else if name = ''remove_operator'' then decode_remove_operator pk data accounts
          else if name = ''toggle_pause'' \<or> name = ''close_account'' then
            decd name [(''owner'', acct accounts 0), (''silkAccount'', acct accounts 1)]
          else decd name []))"

section \<open>The contract of a decoder\<close>

text \<open>
  What the callers rely on: a decoder never throws, and the types it emits are among those it
  declares (\<open>emits\<close>).
\<close>

locale instruction_decoder =
  fixes dec :: "buffer \<Rightarrow> string list \<Rightarrow> decoded option result"
    and emits :: "string \<Rightarrow> bool"
  assumes total: "\<exists>r. dec data accounts = Inr r"
    and typed: "dec data accounts = Inr (Some d) \<Longrightarrow> emits (dec_type d)"
begin

lemma never_throws: "dec data accounts \<noteq> Inl e"
  using total [of data accounts] by auto

lemma outcome:
  obtains "dec data accounts = Inr None"
  | d where "dec data accounts = Inr (Some d)" "emits (dec_type d)"
  using total [of data accounts] typed [of data accounts] by (metis option.exhaust)

end

definition not_swap :: "string \<Rightarrow> bool" where
  "not_swap t \<longleftrightarrow> t \<noteq> ''swap''"

lemma readU64_at: "off + 8 \<le> length b \<Longrightarrow> \<exists>v. readBigUInt64LE b off = Inr v \<and> v < 2 ^ 64"
  using read_le_ok [of off 8 b] by (auto simp: readBigUInt64LE_def)

lemma readU32_at: "off + 4 \<le> length b \<Longrightarrow> \<exists>v. readUInt32LE b off = Inr v \<and> v < 2 ^ 32"
  using read_le_ok [of off 4 b] by (auto simp: readUInt32LE_def)

lemma byte_at_0: "byte_at b 0 = (if b = [] then None else Some (unat (hd b)))"
  by (cases b) (simp_all add: byte_at_def)

lemma decodeSystem_total:
  "\<exists>r. decodeSystem pk data accounts = Inr r \<and> (\<forall>d. r = Some d \<longrightarrow> not_swap (dec_type d))"
proof (cases "length data < 4")
  case False
  then obtain i where i: "readUInt32LE data 0 = Inr i" using readU32_at [of 0 data] by auto
  have u: "\<And>off. off + 8 \<le> length data \<Longrightarrow> \<exists>v. readBigUInt64LE data off = Inr v"
    using readU64_at by blast
  show ?thesis
    using False i u [of 4] u [of 12] by (auto simp: decodeSystem_def not_swap_def)
qed (simp add: decodeSystem_def)

lemma decodeSplToken_total:
  "\<exists>r. decodeSplToken data accounts symb = Inr r \<and> (\<forall>d. r = Some d \<longrightarrow> not_swap (dec_type d))"
proof (cases "data = []")
  case False
  then obtain i where i: "byte_at data 0 = Some i" by (simp add: byte_at_0)
  have u: "9 \<le> length data \<Longrightarrow> \<exists>v. readBigUInt64LE data 1 = Inr v"
    using readU64_at [of 1 data] by auto
  show ?thesis
    using i u by (auto simp: decodeSplToken_def not_swap_def Let_def)
qed (simp add: decodeSplToken_def byte_at_0)

lemma decodeComputeBudget_total: "\<exists>d. decodeComputeBudget data = Inr d \<and> not_swap (dec_type d)"
proof (cases "data = []")
  case False
  then obtain i where i: "byte_at data 0 = Some i" by (simp add: byte_at_0)
  have "9 \<le> length data \<Longrightarrow> \<exists>v. readBigUInt64LE data 1 = Inr v"
    and "5 \<le> length data \<Longrightarrow> \<exists>v. readUInt32LE data 1 = Inr v"
    using readU64_at [of 1 data] readU32_at [of 1 data] by auto
  then show ?thesis
    using i by (auto simp: decodeComputeBudget_def not_swap_def)
qed (simp add: decodeComputeBudget_def byte_at_0 not_swap_def)

lemma KNOWN_TYPES_not_swap: "get KNOWN_TYPES h = Some t \<Longrightarrow> not_swap t"
  by (auto simp: KNOWN_TYPES_def obj_simps not_swap_def split: if_splits)

lemma first_match_in: "first_match ds data = Some n \<Longrightarrow> \<exists>disc. (n, disc) \<in> set ds \<and> take (length disc) data = disc"
  by (induction ds data rule: first_match.induct) (auto split: if_splits)

lemma match_in:
  "matchDiscriminator ds data = Some n \<Longrightarrow> \<exists>disc. (n, disc) \<in> set ds \<and> take (length disc) data = disc"
  by (auto simp: matchDiscriminator_def dest: first_match_in split: if_splits)

lemma table_not_swap:
  "n \<in> fst ` set handshake_discriminators \<union> fst ` set silkysig_discriminators \<Longrightarrow> not_swap n"
  by (auto simp: handshake_discriminators_def silkysig_discriminators_def not_swap_def)

lemma special_types [simp]:
  "dec_type (decode_create_transfer pk data accounts symb deci) = ''create_transfer''"
  "dec_type (decode_deposit data accounts symb deci) = ''deposit''"
  "dec_type (decode_transfer_from_account data accounts symb deci) = ''transfer_from_account''"
  "dec_type (decode_add_operator pk data accounts) = ''add_operator''"
  "dec_type (decode_remove_operator pk data accounts) = ''remove_operator''"
  by (auto simp: decode_create_transfer_def decode_deposit_def decode_transfer_from_account_def
      decode_add_operator_def decode_remove_operator_def Let_def split: sum.split)

text \<open>The type of a decoded instruction is the name its discriminator stands for.\<close>

lemma decodeHandshake_type:
  "map_option dec_type (decodeHandshake pk data accounts symb deci)
   = matchDiscriminator handshake_discriminators data"
proof (cases "matchDiscriminator handshake_discriminators data")
  case (Some n)
  then show ?thesis
    by (cases "n = ''create_transfer''") (simp_all add: decodeHandshake_def if_distrib [of dec_type])
qed (simp add: decodeHandshake_def)

lemma decodeSilkysig_type:
  "map_option dec_type (decodeSilkysig pk data accounts symb deci)
   = matchDiscriminator silkysig_discriminators data"
proof (cases "matchDiscriminator silkysig_discriminators data")
  case (Some n)
  consider "n = ''deposit''" | "n = ''transfer_from_account''" | "n = ''add_operator''"
    | "n = ''remove_operator''"
    | "n \<noteq> ''deposit''" "n \<noteq> ''transfer_from_account''" "n \<noteq> ''add_operator''" "n \<noteq> ''remove_operator''"
    by blast
  with Some show ?thesis
    by cases (simp_all add: decodeSilkysig_def if_distrib [of dec_type])
qed (simp add: decodeSilkysig_def)

lemma decodeHandshake_not_swap:
  "decodeHandshake pk data accounts symb deci = Some d \<Longrightarrow> not_swap (dec_type d)"
  using decodeHandshake_type [of pk data accounts symb deci] match_in table_not_swap
  by (metis UnI1 fst_conv image_eqI option.simps(9))

lemma decodeSilkysig_not_swap:
  "decodeSilkysig pk data accounts symb deci = Some d \<Longrightarrow> not_swap (dec_type d)"
  using decodeSilkysig_type [of pk data accounts symb deci] match_in table_not_swap
  by (metis UnI2 fst_conv image_eqI option.simps(9))

interpretation system: instruction_decoder "decodeSystem pk" not_swap for pk
proof unfold_locales
  show "\<exists>r. decodeSystem pk data accounts = Inr r" for data accounts
    using decodeSystem_total by blast
  show "decodeSystem pk data accounts = Inr (Some d) \<Longrightarrow> not_swap (dec_type d)" for data accounts d
    using decodeSystem_total [of pk data accounts] by auto
qed

interpretation spl: instruction_decoder "\<lambda>data accounts. decodeSplToken data accounts symb" not_swap for symb
proof unfold_locales
  show "\<exists>r. decodeSplToken data accounts symb = Inr r" for data accounts
    using decodeSplToken_total by blast
  show "decodeSplToken data accounts symb = Inr (Some d) \<Longrightarrow> not_swap (dec_type d)" for data accounts d
    using decodeSplToken_total [of data accounts symb] by auto
qed

interpretation ata: instruction_decoder "\<lambda>data accounts. Inr (Some (decodeAta data accounts))" not_swap
  by unfold_locales (auto simp: decodeAta_def not_swap_def Let_def)

interpretation budget: instruction_decoder
  "\<lambda>data accounts. bind_result (decodeComputeBudget data) (\<lambda>d. Inr (Some d))" not_swap
proof unfold_locales
  show "\<exists>r. bind_result (decodeComputeBudget data) (\<lambda>d. Inr (Some d)) = Inr r" for data
    using decodeComputeBudget_total [of data] by auto
  show "bind_result (decodeComputeBudget data) (\<lambda>d. Inr (Some d)) = Inr (Some d) \<Longrightarrow> not_swap (dec_type d)"
    for data d
    using decodeComputeBudget_total [of data] by auto
qed

interpretation memo: instruction_decoder "\<lambda>data accounts. Inr (Some (decodeMemo data))" not_swap
  by unfold_locales (auto simp: decodeMemo_def not_swap_def)

interpretation jupiter: instruction_decoder "\<lambda>data accounts. Inr (Some (decodeJupiter data accounts))" not_swap
  by unfold_locales
    (auto simp: decodeJupiter_def not_swap_def Let_def dest: KNOWN_TYPES_not_swap
      split: option.splits if_splits)

interpretation hs: instruction_decoder
  "\<lambda>data accounts. Inr (decodeHandshake pk data accounts symb deci)" not_swap for pk symb deci
  by unfold_locales (use decodeHandshake_not_swap in auto)

interpretation silk: instruction_decoder
  "\<lambda>data accounts. Inr (decodeSilkysig pk data accounts symb deci)" not_swap for pk symb deci
  by unfold_locales (use decodeSilkysig_not_swap in auto)

section \<open>What the decoders read back\<close>

text \<open>The instruction data that the on-chain programs' clients build, and its fields.\<close>

definition disc_of :: "discriminators \<Rightarrow> string \<Rightarrow> buffer" where
  "disc_of ds n = the (map_of ds n)"

definition create_transfer_data ::
    "buffer \<Rightarrow> nat \<Rightarrow> nat \<Rightarrow> string \<Rightarrow> int \<Rightarrow> int \<Rightarrow> buffer" where
  "create_transfer_data recipient nonce amount memo after until =
     disc_of handshake_discriminators ''create_transfer'' @ recipient @ enc_u64 nonce @ enc_u64 amount
     @ enc_string memo @ enc_i64 after @ enc_i64 until"

lemma handshake_table_length:
  "(n, disc) \<in> set handshake_discriminators \<Longrightarrow> length disc = 8"
  by (auto simp: handshake_discriminators_def)

lemma silkysig_table_length:
  "(n, disc) \<in> set silkysig_discriminators \<Longrightarrow> length disc = 8"
  by (auto simp: silkysig_discriminators_def)

lemma tables_distinct:
  "distinct (map snd handshake_discriminators @ map snd silkysig_discriminators)"
  by (simp add: handshake_discriminators_def silkysig_discriminators_def)

lemma first_match_iff:
  assumes "\<forall>(n, disc) \<in> set ds. length disc = 8" and "distinct (map snd ds)"
  shows "first_match ds data = Some n \<longleftrightarrow> (n, take 8 data) \<in> set ds"
  using assms
proof (induction ds data rule: first_match.induct)
  case (2 m disc rest data)
  then show ?case by force
qed simp

lemma match_handshake:
  assumes "8 \<le> length data"
  shows "matchDiscriminator handshake_discriminators data = Some n \<longleftrightarrow> (n, take 8 data) \<in> set handshake_discriminators"
proof -
  have "\<forall>(n, disc) \<in> set handshake_discriminators. length disc = 8" using handshake_table_length by blast
  moreover have "distinct (map snd handshake_discriminators)" using tables_distinct by (simp only: distinct_append)
  ultimately show ?thesis
    using assms by (simp add: matchDiscriminator_def first_match_iff)
qed

lemma match_silkysig:
  assumes "8 \<le> length data"
  shows "matchDiscriminator silkysig_discriminators data = Some n \<longleftrightarrow> (n, take 8 data) \<in> set silkysig_discriminators"
proof -
  have "\<forall>(n, disc) \<in> set silkysig_discriminators. length disc = 8" using silkysig_table_length by blast
  moreover have "distinct (map snd silkysig_discriminators)" using tables_distinct by (simp only: distinct_append)
  ultimately show ?thesis
    using assms by (simp add: matchDiscriminator_def first_match_iff)
qed

lemma match_disc_of:
  "n \<in> fst ` set handshake_discriminators \<Longrightarrow>
   matchDiscriminator handshake_discriminators (disc_of handshake_discriminators n @ rest) = Some n"
  "n \<in> fst ` set silkysig_discriminators \<Longrightarrow>
   matchDiscriminator silkysig_discriminators (disc_of silkysig_discriminators n @ rest) = Some n"
proof -
  assume "n \<in> fst ` set handshake_discriminators"
  then have "(n, disc_of handshake_discriminators n) \<in> set handshake_discriminators"
    by (auto simp: disc_of_def handshake_discriminators_def)
  moreover from handshake_table_length [OF this] have "length (disc_of handshake_discriminators n) = 8" .
  ultimately show "matchDiscriminator handshake_discriminators (disc_of handshake_discriminators n @ rest) = Some n"
    by (simp add: match_handshake)
next
  assume "n \<in> fst ` set silkysig_discriminators"
  then have "(n, disc_of silkysig_discriminators n) \<in> set silkysig_discriminators"
    by (auto simp: disc_of_def silkysig_discriminators_def)
  moreover from silkysig_table_length [OF this] have "length (disc_of silkysig_discriminators n) = 8" .
  ultimately show "matchDiscriminator silkysig_discriminators (disc_of silkysig_discriminators n @ rest) = Some n"
    by (simp add: match_silkysig)
qed

lemma read_create_args_enc:
  assumes "length k = 32" and "nonce < 2 ^ 64" and "amount < 2 ^ 64" and "utf8_ok memo"
    and "- (2 ^ 63) \<le> after" "after < 2 ^ 63" "- (2 ^ 63) \<le> until" "until < 2 ^ 63"
    and len: "length d = 8"
  shows "read_create_args pk
      (d @ k @ enc_u64 nonce @ enc_u64 amount @ enc_string memo @ enc_i64 after @ enc_i64 until @ junk) 8
    = Inr (pk k, nonce, amount, memo, after, until)" (is "read_create_args pk ?b 8 = _")
proof -
  let ?m = "56 + length (enc_string memo)"
  have s: "length (enc_u64 x) = 8" "length (enc_i64 y) = 8" for x y
    by (simp_all add: enc_u64_def enc_i64_def)
  have e0: "8 \<le> length ?b" "40 \<le> length ?b" "48 \<le> length ?b" "56 \<le> length ?b" "?m \<le> length ?b"
      "?m + 8 \<le> length ?b"
    using assms(1) len s by simp_all
  have d0: "drop 8 ?b = k @ enc_u64 nonce @ enc_u64 amount @ enc_string memo @ enc_i64 after @ enc_i64 until @ junk"
    using len by simp
  have d1: "drop 40 ?b = enc_u64 nonce @ enc_u64 amount @ enc_string memo @ enc_i64 after @ enc_i64 until @ junk"
    using pubkey.rest_at [OF d0] assms(1) by simp
  have d2: "drop 48 ?b = enc_u64 amount @ enc_string memo @ enc_i64 after @ enc_i64 until @ junk"
    using u64.rest_at [OF d1] s by simp
  have d3: "drop 56 ?b = enc_string memo @ enc_i64 after @ enc_i64 until @ junk"
    using u64.rest_at [OF d2] s by simp
  have d4: "drop ?m ?b = enc_i64 after @ enc_i64 until @ junk"
    by (rule str.rest_at [OF d3])
  have d5: "drop (?m + 8) ?b = enc_i64 until @ junk"
    using i64.rest_at [OF d4] s by simp
  have r: "readPubkey pk ?b 8 = Inr (pk k, 40)" "readU64 ?b 40 = Inr (nonce, 48)" "readU64 ?b 48 = Inr (amount, 56)"
    "readString ?b 56 = Inr (memo, ?m)" "readI64 ?b ?m = Inr (after, ?m + 8)"
    "readI64 ?b (?m + 8) = Inr (until, ?m + 8 + 8)"
    using pubkey.read_at [OF d0] u64.read_at [OF d1] u64.read_at [OF d2] str.read_at [OF d3]
      i64.read_at [OF d4] i64.read_at [OF d5] assms s e0 by simp_all
  then show ?thesis
    unfolding read_create_args_def by (simp only: bind_result_simps prod.case)
qed

lemma utf8_ok_ascii: "ascii s \<Longrightarrow> length s < 2 ^ 32 \<Longrightarrow> utf8_ok s"
proof -
  assume "ascii s" and "length s < 2 ^ 32"
  then have "list_all (\<lambda>x. x < 128) (utf8_bytes s)"
    by (auto simp: ascii_def utf8_bytes_def char_byte_def code_def list_all_iff word_less_nat_alt unat_of_nat)
  then show ?thesis using \<open>length s < 2 ^ 32\<close> by (simp add: utf8_ok_def utf8_sanitize_ascii)
qed

lemma int_Number_exact: "0 \<le> v \<Longrightarrow> v < 2 ^ 53 \<Longrightarrow> int_Number v = JNum v"
  by (simp add: int_Number_def num_of_int_exact)

lemma time_or_null_exact:
  "0 \<le> v \<Longrightarrow> v < 2 ^ 53 \<Longrightarrow> time_or_null v = (if v = 0 then JNull else JNum v)"
  by (simp add: time_or_null_def int_Number_exact)

lemma length_disc_of:
  "n \<in> fst ` set handshake_discriminators \<Longrightarrow> length (disc_of handshake_discriminators n) = 8"
  "n \<in> fst ` set silkysig_discriminators \<Longrightarrow> length (disc_of silkysig_discriminators n) = 8"
  by (auto simp: disc_of_def handshake_discriminators_def silkysig_discriminators_def)

definition is_create_transfer :: "buffer \<Rightarrow> bool" where
  "is_create_transfer data \<longleftrightarrow> matchDiscriminator handshake_discriminators data = Some ''create_transfer''"

lemma create_transfer_decode:
  assumes "length k = 32" and "nonce < 2 ^ 64" and "amount < 2 ^ 64" and "utf8_ok memo"
    and "0 \<le> after" and "after < 2 ^ 53" and "0 \<le> until" and "until < 2 ^ 53" and "mint \<noteq> []"
  shows "decodeHandshake pk (create_transfer_data k nonce amount memo after until @ junk)
      (sender # pool # mint # rest) tokenSymbol tokenDecimals =
    Some (decd ''create_transfer''
      [(''sender'', JStr sender), (''recipient'', JStr (pk k)), (''pool'', JStr pool),
       (''mint'', JStr mint), (''amount'', JStr (nat_str amount)),
       (''amountHuman'', JStr (formatUnits (int amount) (int (tokenDecimals mint)) @ '' '' @ tokenSymbol mint)),
       (''memo'', if memo = [] then JNull else JStr memo),
       (''claimableAfter'', if after = 0 then JNull else JNum after),
       (''claimableUntil'', if until = 0 then JNull else JNum until),
       (''nonce'', JStr (nat_str nonce))])"
proof -
  have ct: "''create_transfer'' \<in> fst ` set handshake_discriminators"
    by (simp add: handshake_discriminators_def)
  have "read_create_args pk (create_transfer_data k nonce amount memo after until @ junk) 8
      = Inr (pk k, nonce, amount, memo, after, until)"
    using read_create_args_enc [of k nonce amount memo after until
        "disc_of handshake_discriminators ''create_transfer''" pk junk] assms length_disc_of(1) [OF ct]
    by (simp add: create_transfer_data_def)
  moreover have "matchDiscriminator handshake_discriminators
      (create_transfer_data k nonce amount memo after until @ junk) = Some ''create_transfer''"
    using match_disc_of(1) [OF ct] by (simp add: create_transfer_data_def)
  ultimately show ?thesis
    using assms
    by (simp add: decodeHandshake_def decode_create_transfer_def nth_or_null_def of_mint_def human_def
        str_or_null_def time_or_null_exact Let_def)
qed

text \<open>The handshake decoder inverts the Anchor encoding of \<open>create_transfer\<close>: from the
  instruction data of any recipient key, nonce, amount, memo and claim window (trailing bytes
  allowed) it shows exactly these values, the amount both in base units and in display units of
  the mint, absent memo and bounds as \<open>null\<close>.\<close>

theorem create_transfer_roundtrip:
  assumes "length k = 32" and "nonce < 2 ^ 64" and "amount < 2 ^ 64" and "utf8_ok memo"
    and "0 \<le> after" and "after < 2 ^ 53" and "0 \<le> until" and "until < 2 ^ 53" and "mint \<noteq> []"
  shows "decodeHandshake pk (create_transfer_data k nonce amount memo after until @ junk)
      (sender # pool # mint # rest) tokenSymbol tokenDecimals =
    Some (decd ''create_transfer''
      [(''sender'', JStr sender), (''recipient'', JStr (pk k)), (''pool'', JStr pool),
       (''mint'', JStr mint), (''amount'', JStr (nat_str amount)),
       (''amountHuman'', JStr (formatUnits (int amount) (int (tokenDecimals mint)) @ '' '' @ tokenSymbol mint)),
       (''memo'', if memo = [] then JNull else JStr memo),
       (''claimableAfter'', if after = 0 then JNull else JNum after),
       (''claimableUntil'', if until = 0 then JNull else JNum until),
       (''nonce'', JStr (nat_str nonce))])"
  using assms by (rule create_transfer_decode)

theorem create_transfer_roundtrip_witness:
  "decodeHandshake toString_hex
     (create_transfer_data (replicate 32 7) 5 1500000 ''rent'' 0 1700000000 @ [])
     (''S'' # ''P'' # ''M'' # []) (\<lambda>_. ''USDC'') (\<lambda>_. 6) =
   Some (decd ''create_transfer''
      [(''sender'', JStr ''S''), (''recipient'', JStr (toString_hex (replicate 32 7))), (''pool'', JStr ''P''),
       (''mint'', JStr ''M''), (''amount'', JStr ''1500000''), (''amountHuman'', JStr ''1.5 USDC''),
       (''memo'', JStr ''rent''), (''claimableAfter'', JNull), (''claimableUntil'', JNum 1700000000),
       (''nonce'', JStr ''5'')])"
proof -
  have "utf8_ok ''rent''"
    by (intro utf8_ok_ascii) (simp_all add: ascii_def code_def)
  then show ?thesis
    using create_transfer_roundtrip [of "replicate 32 7" 5 1500000 "''rent''" 0 1700000000 "''M''"
        toString_hex "[]" "''S''" "''P''" "[]" "\<lambda>_. ''USDC''" "\<lambda>_. 6"]
    by (simp add: formatUnits_def js_eval)
qed

lemma read_create_args_short:
  "(\<exists>e. read_create_args pk data 8 = Inl e) \<longleftrightarrow>
   length data < 60 \<or> length data < 76 + le_value (take 4 (drop 56 data))"
proof -
  define len where "len = le_value (take 4 (drop 56 data))"
  have "(\<exists>e. read_create_args pk data 8 = Inl e) \<longleftrightarrow>
      length data < 48 \<or> length data < 56 \<or> length data < 60
      \<or> length data < 60 + len + 8 \<or> length data < 60 + len + 8 + 8"
    by (auto simp: read_create_args_def readPubkey_def readU64_def readBigUInt64LE_def readString_def
        readUInt32LE_def readI64_def readBigInt64LE_def read_le_def bind_result_def Let_def not_less len_def
        split: sum.splits if_splits)
  also have "\<dots> \<longleftrightarrow> length data < 60 \<or> length data < 76 + len" by presburger
  finally show ?thesis by (simp only: len_def)
qed

text \<open>A \<open>create_transfer\<close> instruction is reported with \<open>decodeError\<close> exactly when its data ends
  before the fields do: shorter than the 60 bytes up to the memo length, or than the length the
  memo's prefix announces. Nothing else is lost and nothing is thrown.\<close>

theorem create_transfer_truncation:
  assumes "is_create_transfer data"
  shows "(\<exists>d. decodeHandshake pk data accounts tokenSymbol tokenDecimals = Some d \<and>
            dec_type d = ''create_transfer'' \<and>
            (get (dec_params d) ''decodeError'' \<noteq> None \<longleftrightarrow>
               length data < 60 \<or> length data < 76 + le_value (take 4 (drop 56 data))) \<and>
            (get (dec_params d) ''recipient'' = None \<longleftrightarrow>
               length data < 60 \<or> length data < 76 + le_value (take 4 (drop 56 data))))"
proof -
  have d: "decodeHandshake pk data accounts tokenSymbol tokenDecimals
      = Some (decode_create_transfer pk data accounts tokenSymbol tokenDecimals)" (is "_ = Some ?d")
    using assms by (simp add: decodeHandshake_def is_create_transfer_def)
  have "get (dec_params ?d) ''decodeError'' \<noteq> None \<longleftrightarrow> (\<exists>e. read_create_args pk data 8 = Inl e)"
    and "get (dec_params ?d) ''recipient'' = None \<longleftrightarrow> (\<exists>e. read_create_args pk data 8 = Inl e)"
    by (auto simp: decode_create_transfer_def Let_def obj_simps split: sum.split)
  then show ?thesis unfolding read_create_args_short d by simp
qed

theorem create_transfer_truncation_witness:
  "\<exists>d. decodeHandshake toString_hex (disc_of handshake_discriminators ''create_transfer'')
         [''S''] (\<lambda>_. ''USDC'') (\<lambda>_. 6) = Some d \<and> dec_type d = ''create_transfer'' \<and>
       get (dec_params d) ''decodeError'' \<noteq> None \<and> get (dec_params d) ''recipient'' = None"
proof -
  let ?data = "disc_of handshake_discriminators ''create_transfer''"
  have ct: "''create_transfer'' \<in> fst ` set handshake_discriminators"
    by (simp add: handshake_discriminators_def)
  have "is_create_transfer ?data"
    using match_disc_of(1) [OF ct, of "[]"] by (simp add: is_create_transfer_def)
  moreover have "length ?data < 60" using length_disc_of(1) [OF ct] by simp
  ultimately show ?thesis
    using create_transfer_truncation [of ?data toString_hex "[''S'']" "\<lambda>_. ''USDC''" "\<lambda>_. 6"] by auto
qed

definition add_operator_data :: "buffer \<Rightarrow> nat option \<Rightarrow> buffer" where
  "add_operator_data k limit = disc_of silkysig_discriminators ''add_operator'' @ k @ enc_option_u64 limit"

definition amount_data :: "string \<Rightarrow> nat \<Rightarrow> buffer" where
  "amount_data n amount = disc_of silkysig_discriminators n @ enc_u64 amount"

definition system_transfer_data :: "nat \<Rightarrow> buffer" where
  "system_transfer_data lamports = le_bytes 4 2 @ enc_u64 lamports"

lemma silkysig_names:
  "''add_operator'' \<in> fst ` set silkysig_discriminators"
  "''deposit'' \<in> fst ` set silkysig_discriminators"
  "''transfer_from_account'' \<in> fst ` set silkysig_discriminators"
  by (simp_all add: silkysig_discriminators_def)

lemma drop_disc:
  "n \<in> fst ` set silkysig_discriminators \<Longrightarrow> drop 8 (disc_of silkysig_discriminators n @ rest) = rest"
  using length_disc_of(2) [of n] by simp

lemma amount_data_read:
  assumes "n \<in> fst ` set silkysig_discriminators" and "amount < 2 ^ 64"
  shows "readU64 (amount_data n amount @ junk) 8 = Inr (amount, 16)"
proof -
  have "drop 8 (amount_data n amount @ junk) = enc_u64 amount @ junk"
    unfolding amount_data_def append_assoc by (rule drop_disc [OF assms(1)])
  then show ?thesis
    using u64.read_at [of 8 "amount_data n amount @ junk" amount junk] assms length_disc_of(2) [OF assms(1)]
    by (simp add: amount_data_def enc_u64_def)
qed

lemma silkysig_decode:
  assumes "amount < 2 ^ 64" and "length k = 32" and "pred_option (\<lambda>n. n < 2 ^ 64) limit" and "mint \<noteq> []"
  shows "decodeSilkysig pk (amount_data ''deposit'' amount @ junk) (a # silk # mint # rest) symb deci =
      Some (decd ''deposit'' [(''depositor'', JStr a), (''silkAccount'', JStr silk), (''mint'', JStr mint),
        (''amount'', JStr (nat_str amount)),
        (''amountHuman'', JStr (formatUnits (int amount) (int (deci mint)) @ '' '' @ symb mint))])
    \<and> decodeSilkysig pk (amount_data ''transfer_from_account'' amount @ junk)
        (a # silk # mint # ata # recipient # rest) symb deci =
      Some (decd ''transfer_from_account'' [(''signer'', JStr a), (''silkAccount'', JStr silk),
        (''mint'', JStr mint), (''recipient'', JStr recipient), (''amount'', JStr (nat_str amount)),
        (''amountHuman'', JStr (formatUnits (int amount) (int (deci mint)) @ '' '' @ symb mint))])
    \<and> decodeSilkysig pk (add_operator_data k limit @ junk) (a # silk # rest) symb deci =
      Some (decd ''add_operator'' [(''owner'', JStr a), (''silkAccount'', JStr silk), (''operator'', JStr (pk k)),
        (''perTxLimit'', case limit of None \<Rightarrow> JNull | Some l \<Rightarrow> JStr (nat_str l))])"
    (is "?dep \<and> ?tfa \<and> ?add")
proof (intro conjI)
  have m: "matchDiscriminator silkysig_discriminators (amount_data n amount @ junk) = Some n"
    if "n \<in> fst ` set silkysig_discriminators" for n
    using match_disc_of(2) [OF that] by (simp add: amount_data_def)
  show ?dep
    using amount_data_read [OF silkysig_names(2) assms(1)] m [OF silkysig_names(2)] assms(4)
    by (simp add: decodeSilkysig_def decode_deposit_def nth_or_null_def of_mint_def human_def Let_def)
  show ?tfa
    using amount_data_read [OF silkysig_names(3) assms(1)] m [OF silkysig_names(3)] assms(4)
    by (simp add: decodeSilkysig_def decode_transfer_from_account_def nth_or_null_def of_mint_def human_def Let_def)
  let ?b = "add_operator_data k limit @ junk"
  have "drop 8 ?b = (case (k, limit) of (k, l) \<Rightarrow> k @ enc_option_u64 l) @ junk" and "8 \<le> length ?b"
    using drop_disc [OF silkysig_names(1)] length_disc_of(2) [OF silkysig_names(1)]
    by (simp_all add: add_operator_data_def)
  from key_limit.pair.read_at [OF this(1) _ this(2), of pk] assms(2,3)
  have "bind_result (readPubkey pk ?b 8) (\<lambda>(x, off1). bind_result (readOptionU64 ?b off1)
      (\<lambda>(y, off2). Inr ((x, y), off2))) = Inr ((pk k, limit), 8 + length (k @ enc_option_u64 limit))"
    by simp
  moreover have "matchDiscriminator silkysig_discriminators ?b = Some ''add_operator''"
    using match_disc_of(2) [OF silkysig_names(1)] by (simp add: add_operator_data_def)
  ultimately show ?add
    by (simp add: decodeSilkysig_def decode_add_operator_def nth_or_null_def)
qed

text \<open>The silkysig decoder inverts the Anchor encodings of the money-moving instructions: a
  deposit and an operator's transfer show the amount that was encoded, in base units and in the
  mint's display units, with the recipient; adding an operator shows its key and its limit, an
  absent limit as \<open>null\<close>.\<close>

theorem silkysig_roundtrip:
  assumes "amount < 2 ^ 64" and "length k = 32" and "pred_option (\<lambda>n. n < 2 ^ 64) limit" and "mint \<noteq> []"
  shows "decodeSilkysig pk (amount_data ''deposit'' amount @ junk) (a # silk # mint # rest) symb deci =
      Some (decd ''deposit'' [(''depositor'', JStr a), (''silkAccount'', JStr silk), (''mint'', JStr mint),
        (''amount'', JStr (nat_str amount)),
        (''amountHuman'', JStr (formatUnits (int amount) (int (deci mint)) @ '' '' @ symb mint))])
    \<and> decodeSilkysig pk (amount_data ''transfer_from_account'' amount @ junk)
        (a # silk # mint # ata # recipient # rest) symb deci =
      Some (decd ''transfer_from_account'' [(''signer'', JStr a), (''silkAccount'', JStr silk),
        (''mint'', JStr mint), (''recipient'', JStr recipient), (''amount'', JStr (nat_str amount)),
        (''amountHuman'', JStr (formatUnits (int amount) (int (deci mint)) @ '' '' @ symb mint))])
    \<and> decodeSilkysig pk (add_operator_data k limit @ junk) (a # silk # rest) symb deci =
      Some (decd ''add_operator'' [(''owner'', JStr a), (''silkAccount'', JStr silk), (''operator'', JStr (pk k)),
        (''perTxLimit'', case limit of None \<Rightarrow> JNull | Some l \<Rightarrow> JStr (nat_str l))])"
    (is "?dep \<and> ?tfa \<and> ?add")
  using assms by (rule silkysig_decode)

theorem silkysig_roundtrip_witness:
  "decodeSilkysig toString_hex (amount_data ''transfer_from_account'' 2500000 @ [])
     (''A'' # ''B'' # ''M'' # ''T'' # ''R'' # []) (\<lambda>_. ''USDC'') (\<lambda>_. 6) =
   Some (decd ''transfer_from_account'' [(''signer'', JStr ''A''), (''silkAccount'', JStr ''B''),
     (''mint'', JStr ''M''), (''recipient'', JStr ''R''), (''amount'', JStr ''2500000''),
     (''amountHuman'', JStr ''2.5 USDC'')])"
  using silkysig_roundtrip [of 2500000 "replicate 32 1" "Some 7" "''M''" toString_hex "[]" "''A''" "''B''" "[]"
      "\<lambda>_. ''USDC''" "\<lambda>_. 6" "''T''" "''R''"]
  by (simp add: formatUnits_def js_eval)

lemma system_transfer_decode:
  assumes "lamports < 2 ^ 52"
  shows "decodeSystem pk (system_transfer_data lamports @ junk) (a # b # rest) =
    Inr (Some (decd ''transfer'' [(''from'', JStr a), (''to'', JStr b),
      (''lamports'', JStr (nat_str lamports)), (''sol'', JStr (formatUnits (int lamports) 9))]))"
proof -
  have i: "readUInt32LE (system_transfer_data lamports @ junk) 0 = Inr 2"
    using read_le_prefix [of 0 "[]" 2 4 "enc_u64 lamports @ junk"]
    by (simp add: readUInt32LE_def system_transfer_data_def)
  have l: "readBigUInt64LE (system_transfer_data lamports @ junk) 4 = Inr lamports"
    using read_le_prefix [of 4 "le_bytes 4 2" lamports 8 junk] assms
    by (simp add: readBigUInt64LE_def system_transfer_data_def enc_u64_def)
  have "sol_text (int lamports) = formatUnits (int lamports) 9"
    using assms by (intro sol_text_formatUnits) simp_all
  then show ?thesis using i l
    by (simp add: decodeSystem_def nth_or_null_def system_transfer_data_def enc_u64_def)
qed

text \<open>The system decoder inverts the encoding of a SOL transfer: lamports are shown exactly, and
  below \<open>2^52\<close> lamports the SOL amount computed through floating point is the exact decimal.\<close>

theorem system_transfer_roundtrip:
  assumes "lamports < 2 ^ 52"
  shows "decodeSystem pk (system_transfer_data lamports @ junk) (a # b # rest) =
    Inr (Some (decd ''transfer'' [(''from'', JStr a), (''to'', JStr b),
      (''lamports'', JStr (nat_str lamports)), (''sol'', JStr (formatUnits (int lamports) 9))]))"
  using assms by (rule system_transfer_decode)

theorem system_transfer_roundtrip_witness:
  "decodeSystem toString_hex (system_transfer_data 1500000000 @ []) (''A'' # ''B'' # []) =
    Inr (Some (decd ''transfer'' [(''from'', JStr ''A''), (''to'', JStr ''B''),
      (''lamports'', JStr ''1500000000''), (''sol'', JStr ''1.5'')]))"
  using system_transfer_roundtrip [of 1500000000 toString_hex "[]" "''A''" "''B''" "[]"]
  by (simp add: formatUnits_def js_eval)

text \<open>Programs cannot be confused: on data of at least eight bytes the discriminator match is
  exact (the name is in the table with the first eight bytes), a decoded instruction has the
  matched name as its type, and no data decodes both as a handshake and as a silkysig
  instruction.\<close>

theorem discriminators_exact:
  assumes "8 \<le> length data"
  shows "(map_option dec_type (decodeHandshake pk data accounts symb deci) = Some n \<longleftrightarrow>
            (n, take 8 data) \<in> set handshake_discriminators)
    \<and> (map_option dec_type (decodeSilkysig pk data accounts symb deci) = Some n \<longleftrightarrow>
            (n, take 8 data) \<in> set silkysig_discriminators)
    \<and> (decodeHandshake pk data accounts symb deci = None \<or> decodeSilkysig pk data accounts symb deci = None)"
proof (intro conjI)
  show "map_option dec_type (decodeHandshake pk data accounts symb deci) = Some n \<longleftrightarrow>
            (n, take 8 data) \<in> set handshake_discriminators"
    by (simp only: decodeHandshake_type match_handshake [OF assms])
  show "map_option dec_type (decodeSilkysig pk data accounts symb deci) = Some n \<longleftrightarrow>
            (n, take 8 data) \<in> set silkysig_discriminators"
    by (simp only: decodeSilkysig_type match_silkysig [OF assms])
  show "decodeHandshake pk data accounts symb deci = None \<or> decodeSilkysig pk data accounts symb deci = None"
  proof (rule ccontr)
    assume "\<not> ?thesis"
    then obtain n m where "matchDiscriminator handshake_discriminators data = Some n"
      and "matchDiscriminator silkysig_discriminators data = Some m"
      by (metis decodeHandshake_type decodeSilkysig_type not_None_eq option.map_disc_iff)
    then have "take 8 data \<in> snd ` set handshake_discriminators \<inter> snd ` set silkysig_discriminators"
      using match_handshake [OF assms] match_silkysig [OF assms] by force
    then show False using tables_distinct by auto
  qed
qed

theorem discriminators_exact_witness:
  "decodeHandshake toString_hex [202, 178, 58, 190, 230, 234, 229, 17] [] (\<lambda>_. []) (\<lambda>_. 0) \<noteq> None \<and>
   decodeSilkysig toString_hex [202, 178, 58, 190, 230, 234, 229, 17] [] (\<lambda>_. []) (\<lambda>_. 0) = None"
  using discriminators_exact [of "[202, 178, 58, 190, 230, 234, 229, 17]" toString_hex "[]" "\<lambda>_. []" "\<lambda>_. 0"
      "''claim_transfer''"]
  by (auto simp: handshake_discriminators_def)

end
