(* ===== verification/TokenCache.thy ===== *)
theory TokenCache
  imports Bytes
begin

text \<open>
  The bundled registry (\<^verbatim>\<open>verify/registry.ts\<close>), its merge with a caller's overrides
  (\<open>loadRegistry\<close> of \<^verbatim>\<open>verify/index.ts\<close>) and the token metadata cache of \<^verbatim>\<open>verify/rpc.ts\<close>. The
  cache is a JavaScript \<open>Map\<close> from a mint to its metadata or \<open>null\<close>; the RPC connection is a
  function from a key to the account's data (\<open>None\<close> when there is no such account), which may
  throw; \<^verbatim>\<open>new PublicKey(string)\<close> is the parameter \<open>pks\<close>, \<open>None\<close> when it throws.
\<close>

record program_entry =
  pe_name :: string
  pe_decoder :: string

record token_meta =
  tm_symbol :: string
  tm_decimals :: nat

record registry =
  reg_programs :: "program_entry obj"
  reg_tokens :: "token_meta obj"

definition pe :: "string \<Rightarrow> string \<Rightarrow> program_entry" where
  "pe n d = \<lparr>pe_name = n, pe_decoder = d\<rparr>"

definition tm :: "string \<Rightarrow> nat \<Rightarrow> token_meta" where
  "tm s d = \<lparr>tm_symbol = s, tm_decimals = d\<rparr>"

definition SYSTEM_PROGRAM :: string where
  "SYSTEM_PROGRAM = ''11111111111111111111111111111111''"

definition TOKEN_PROGRAM :: string where
  "TOKEN_PROGRAM = ''TokenkegQfeZyiNwAJbNbGKPFXCWuBvf9Ss623VQ5DA''"

definition COMPUTE_BUDGET :: string where
  "COMPUTE_BUDGET = ''ComputeBudget111111111111111111111111111111''"

definition REGISTRY :: registry where
  "REGISTRY = \<lparr>
     reg_programs =
       [(SYSTEM_PROGRAM, pe ''System Program'' ''system''),
        (TOKEN_PROGRAM, pe ''SPL Token'' ''spl-token''),
        (''ATokenGPvbdGVxr1b2hvZbsiqW5xWH25efTNsLJe1bC5'', pe ''Associated Token Account'' ''ata''),
        (COMPUTE_BUDGET, pe ''Compute Budget'' ''compute-budget''),
        (''MemoSq4gqABAXKb96qnH8TysNcWxMyWCqXgDLGmfcHr'', pe ''Memo'' ''memo''),
        (''HANDu9uNdnraNbcueGfXhd3UPu6BXfQroKAsSxFhPXEQ'', pe ''Handshake'' ''handshake''),
        (''SiLKos3MCFggwLsjSeuRiCdcs2MLoJNwq59XwTvEwcS'', pe ''Silkysig'' ''silkysig''),
        (''JUP6LkbZbjS1jKKwapdHNy74zcZ3tLUZoi5QNyVTaV4'', pe ''Jupiter v6'' ''jupiter'')],
     reg_tokens =
       [(''EPjFWdd5AufqSSqeM2qN1xzybapC8G4wEGGkZwyTDt1v'', tm ''USDC'' 6),
        (''So11111111111111111111111111111111111111112'', tm ''SOL'' 9),
        (''Es9vMFrzaCERmJfrF4H2FYD4KCoNkY11McCe8BenwNYB'', tm ''USDT'' 6),
        (''7vfCXTUXx5WJV5JADk17DUJ4ksgau7utNKj4b963voxs'', tm ''ETH (Wormhole)'' 8),
        (''mSoLzYCxHdYgdzU16g5QSh3i5K3z3KZK7ytfqcJm7So'', tm ''mSOL'' 9),
        (''J1toso1uCk3RLmjorhTtrVwY9HJ7X8V9yYac6Y7kGCPn'', tm ''JitoSOL'' 9)]\<rparr>"

text \<open>The \<open>config\<close> override: both parts optional.\<close>

record override =
  ov_programs :: "program_entry obj option"
  ov_tokens :: "token_meta obj option"

definition loadRegistry :: "override option \<Rightarrow> registry" where
  "loadRegistry ov = \<lparr>
     reg_programs = spread (reg_programs REGISTRY)
       (case ov of None \<Rightarrow> [] | Some c \<Rightarrow> (case ov_programs c of None \<Rightarrow> [] | Some p \<Rightarrow> p)),
     reg_tokens = spread (reg_tokens REGISTRY)
       (case ov of None \<Rightarrow> [] | Some c \<Rightarrow> (case ov_tokens c of None \<Rightarrow> [] | Some t \<Rightarrow> t))\<rparr>"

section \<open>The cache\<close>

type_synonym token_cache = "token_meta option obj"
type_synonym connection = "string \<Rightarrow> buffer option result"
type_synonym pk_parse = "string \<Rightarrow> string option"

definition short_mint :: "string \<Rightarrow> string" where
  "short_mint mint = take 4 mint @ ''..'' @ slice_last 4 mint"

definition fetchTokenMeta :: "pk_parse \<Rightarrow> connection \<Rightarrow> string \<Rightarrow> token_meta option" where
  "fetchTokenMeta pks conn mint =
     (case pks mint of
        None \<Rightarrow> None
      | Some key \<Rightarrow> (case conn key of
            Inl e \<Rightarrow> None
          | Inr None \<Rightarrow> None
          | Inr (Some data) \<Rightarrow>
              if length data < 45 then None
              else Some \<lparr>tm_symbol = short_mint mint, tm_decimals = unat (data ! 44)\<rparr>))"

definition createTokenCache :: "token_meta obj \<Rightarrow> token_cache" where
  "createTokenCache registry = foldl (\<lambda>cache (mint, meta). put cache mint (Some meta)) [] registry"

definition cached :: "token_cache \<Rightarrow> string \<Rightarrow> token_meta option" where
  "cached cache mint = (case get cache mint of None \<Rightarrow> None | Some m \<Rightarrow> m)"

definition getSymbol :: "token_cache \<Rightarrow> string \<Rightarrow> string" where
  "getSymbol cache mint = (case cached cache mint of None \<Rightarrow> short_mint mint | Some m \<Rightarrow> tm_symbol m)"

definition getDecimals :: "token_cache \<Rightarrow> string \<Rightarrow> nat" where
  "getDecimals cache mint = (case cached cache mint of None \<Rightarrow> 6 | Some m \<Rightarrow> tm_decimals m)"

text \<open>The requests run concurrently; each writes its own key, so their order is immaterial.\<close>

definition prefetch ::
    "pk_parse \<Rightarrow> connection option \<Rightarrow> token_cache \<Rightarrow> string list \<Rightarrow> token_cache" where
  "prefetch pks connection cache mints =
     (case connection of
        None \<Rightarrow> cache
      | Some conn \<Rightarrow>
          foldl (\<lambda>c mint. put c mint (fetchTokenMeta pks conn mint)) cache
            (filter (\<lambda>m. get cache m = None) mints))"

section \<open>Lookup laws\<close>

lemma get_createTokenCache:
  assumes "distinct (map fst registry)"
  shows "get (createTokenCache registry) m = map_option Some (get registry m)"
proof -
  have "get (foldl (\<lambda>cache (mint, meta). put cache mint (Some meta)) c registry) m
      = (case get registry m of None \<Rightarrow> get c m | Some v \<Rightarrow> Some (Some v))" for c :: token_cache
    using assms
  proof (induction registry arbitrary: c)
    case (Cons kv rest)
    then have "get rest (fst kv) = None" by (simp add: get_def map_of_eq_None_iff)
    with Cons show ?case
      by (cases kv) (auto simp: obj_simps split: option.split)
  qed (simp add: obj_simps)
  from this [of "[]"] show ?thesis by (simp add: createTokenCache_def obj_simps split: option.split)
qed

lemma get_put_all:
  "get (foldl (\<lambda>c x. put c x (f x)) cache xs) m = (if m \<in> set xs then Some (f m) else get cache m)"
  by (induction xs arbitrary: cache) (auto simp: obj_simps)

lemma get_prefetch:
  "get (prefetch pks connection cache mints) m =
     (case connection of
        Some conn \<Rightarrow> if get cache m = None \<and> m \<in> set mints then Some (fetchTokenMeta pks conn m) else get cache m
      | None \<Rightarrow> get cache m)"
  by (auto simp: prefetch_def get_put_all split: option.split)

text \<open>Token metadata: a mint of the (overridden) registry is shown with the registry's symbol and
  decimals whatever the chain answers; any other mint has the decimals of its mint account when
  it was prefetched and that account could be read, and 6 decimals otherwise.\<close>

theorem token_metadata:
  assumes "distinct (map fst tokens)"
  shows "getDecimals (prefetch pks connection (createTokenCache tokens) mints) m =
     (case get tokens m of
        Some meta \<Rightarrow> tm_decimals meta
      | None \<Rightarrow>
          (case connection of
             Some conn \<Rightarrow> if m \<in> set mints then (case fetchTokenMeta pks conn m of
                               Some meta \<Rightarrow> tm_decimals meta | None \<Rightarrow> 6) else 6
           | None \<Rightarrow> 6))
   \<and> getSymbol (prefetch pks connection (createTokenCache tokens) mints) m
      = (case get tokens m of Some meta \<Rightarrow> tm_symbol meta | None \<Rightarrow> short_mint m)"
proof -
  have "fetchTokenMeta pks conn m = Some meta \<Longrightarrow> tm_symbol meta = short_mint m" for conn meta
    by (auto simp: fetchTokenMeta_def split: option.splits sum.splits if_splits)
  then show ?thesis
    using get_createTokenCache [OF assms(1), of m]
    by (auto simp: getDecimals_def getSymbol_def cached_def get_prefetch split: option.split)
qed

lemma REGISTRY_tokens_distinct: "distinct (map fst (reg_tokens REGISTRY))"
  by (simp add: REGISTRY_def)

theorem token_metadata_witness:
  "getDecimals (prefetch Some (Some (\<lambda>_. Inr (Some (replicate 44 0 @ [9]))))
      (createTokenCache (reg_tokens REGISTRY)) [''Mint'']) ''Mint'' = 9"
  using token_metadata [OF REGISTRY_tokens_distinct, where m = "''Mint''" and mints = "[''Mint'']" and pks = Some
      and connection = "Some (\<lambda>_. Inr (Some (replicate 44 0 @ [9])))"]
  by (simp add: fetchTokenMeta_def nth_append obj_simps REGISTRY_def SYSTEM_PROGRAM_def TOKEN_PROGRAM_def COMPUTE_BUDGET_def)

end
