(* ===== verification/Analyze.thy ===== *)
theory Analyze
  imports Decoders TokenCache
begin

text \<open>
  Transaction analysis: \<^verbatim>\<open>verify/index.ts\<close> (deserialisation, dispatch to the decoders, summary,
  \<open>analyzeTransaction\<close>) and \<^verbatim>\<open>verify/flags.ts\<close>. The third-party code is the record \<open>web3\<close>:
  \<open>pk_bytes\<close> renders 32 key bytes, \<open>pk_string\<close> parses and re-renders a key, \<open>versioned\<close> and
  \<open>legacy\<close> are \<^verbatim>\<open>VersionedTransaction.deserialize\<close> and \<^verbatim>\<open>Transaction.from\<close> with
  \<open>compileMessage\<close> on the base64 text (\<open>None\<close>, \<open>Inl\<close>: they throw).
\<close>

datatype severity = Info | Warning | ErrorSev

record risk_flag =
  severity :: severity
  fl_code :: string
  fl_message :: string
  instructionIndex :: "nat option"

record ix_analysis =
  ia_index :: nat
  ia_programId :: string
  ia_programName :: "string option"
  ia_type :: "string option"
  ia_known :: bool
  ia_params :: "jval obj"
  ia_flags :: "risk_flag list"

record tx_analysis =
  ta_feePayer :: string
  ta_instructions :: "ix_analysis list"
  ta_flags :: "risk_flag list"
  ta_summary :: string

record compiled_ix =
  ci_program :: nat
  ci_accounts :: "nat list"
  ci_data :: buffer

record message =
  msg_keys :: "string list"
  msg_instructions :: "compiled_ix list"

record legacy_tx =
  lt_feePayer :: "string option"
  lt_signature0 :: "string option"
  lt_message :: message

record web3 =
  pk_bytes :: "buffer \<Rightarrow> string"
  pk_string :: pk_parse
  versioned :: "string \<Rightarrow> message option"
  legacy :: "string \<Rightarrow> legacy_tx result"

record options =
  op_connection :: "connection option"
  op_config :: "override option"

section \<open>Decoding one instruction\<close>

definition shown :: "decoded option \<Rightarrow> string option \<times> jval obj" where
  "shown r = (case r of None \<Rightarrow> (None, []) | Some d \<Rightarrow> (Some (dec_type d), dec_params d))"

definition run_decoder ::
    "(buffer \<Rightarrow> string) \<Rightarrow> string \<Rightarrow> buffer \<Rightarrow> string list \<Rightarrow> token_cache \<Rightarrow> decoded option result" where
  "run_decoder pk decoder data accounts cache =
     (if decoder = ''system'' then decodeSystem pk data accounts
      else if decoder = ''spl-token'' then decodeSplToken data accounts (getSymbol cache)
      else if decoder = ''ata'' then Inr (Some (decodeAta data accounts))
      else if decoder = ''compute-budget'' then
        bind_result (decodeComputeBudget data) (\<lambda>d. Inr (Some d))
      else if decoder = ''memo'' then Inr (Some (decodeMemo data))
      else if decoder = ''handshake'' then
        Inr (decodeHandshake pk data accounts (getSymbol cache) (getDecimals cache))
      else if decoder = ''silkysig'' then
        Inr (decodeSilkysig pk data accounts (getSymbol cache) (getDecimals cache))
      else if decoder = ''jupiter'' then Inr (Some (decodeJupiter data accounts))
      else Inr None)"

definition decodeInstruction ::
    "(buffer \<Rightarrow> string) \<Rightarrow> string \<Rightarrow> buffer \<Rightarrow> string list \<Rightarrow> token_cache \<Rightarrow> string option \<times> jval obj" where
  "decodeInstruction pk decoder data accounts cache =
     (case run_decoder pk decoder data accounts cache of
        Inl e \<Rightarrow> (None, [(''decodeError'', JStr ''failed to decode instruction data'')])
      | Inr r \<Rightarrow> shown r)"

section \<open>Deserialisation\<close>

record raw_ix =
  ri_programId :: string
  ri_accounts :: "string list"
  ri_data :: buffer

definition key_at :: "string list \<Rightarrow> nat \<Rightarrow> string" where
  "key_at keys i = (if i < length keys then keys ! i else [])"

definition raw_of :: "message \<Rightarrow> raw_ix list" where
  "raw_of m = map (\<lambda>ix. \<lparr>ri_programId = key_at (msg_keys m) (ci_program ix),
     ri_accounts = map (key_at (msg_keys m)) (ci_accounts ix), ri_data = ci_data ix\<rparr>) (msg_instructions m)"

definition deserializeTx :: "web3 \<Rightarrow> string \<Rightarrow> (string \<times> raw_ix list) result" where
  "deserializeTx w tx =
     (case versioned w tx of
        Some m \<Rightarrow> Inr (key_at (msg_keys m) 0, raw_of m)
      | None \<Rightarrow> bind_result (legacy w tx) (\<lambda>t.
          Inr ((case lt_feePayer t of Some p \<Rightarrow> p | None \<Rightarrow>
                 (case lt_signature0 t of Some p \<Rightarrow> p | None \<Rightarrow> [])), raw_of (lt_message t))))"

section \<open>Flags\<close>

definition KNOWN_SAFE_PROGRAMS :: "string list" where
  "KNOWN_SAFE_PROGRAMS =
     [SYSTEM_PROGRAM, TOKEN_PROGRAM,
      ''ATokenGPvbdGVxr1b2hvZbsiqW5xWH25efTNsLJe1bC5'',
      COMPUTE_BUDGET,
      ''MemoSq4gqABAXKb96qnH8TysNcWxMyWCqXgDLGmfcHr'',
      ''HANDu9uNdnraNbcueGfXhd3UPu6BXfQroKAsSxFhPXEQ'',
      ''SiLKos3MCFggwLsjSeuRiCdcs2MLoJNwq59XwTvEwcS'',
      ''JUP6LkbZbjS1jKKwapdHNy74zcZ3tLUZoi5QNyVTaV4'',
      ''SysvarRent111111111111111111111111111111111'',
      ''SysvarC1ock11111111111111111111111111111111'']"

text \<open>A parameter that the source casts to \<open>string | null\<close>: its text, when it is truthy.\<close>

definition text_of :: "jval \<Rightarrow> string option" where
  "text_of v = (case v of JStr s \<Rightarrow> if s = [] then None else Some s | _ \<Rightarrow> None)"

definition flag :: "severity \<Rightarrow> string \<Rightarrow> string \<Rightarrow> nat \<Rightarrow> risk_flag" where
  "flag sev c msg i =
     \<lparr>severity = sev, fl_code = c, fl_message = msg, instructionIndex = Some i\<rparr>"

definition unknown_program_flag :: "ix_analysis \<Rightarrow> risk_flag list" where
  "unknown_program_flag ix =
     (if ia_known ix then []
      else [flag ErrorSev ''UNKNOWN_PROGRAM''
        (''Instruction '' @ nat_str (ia_index ix) @ '' calls unknown program '' @ ia_programId ix
         @ '' '' @ em_dash @ '' this instruction cannot be verified.'') (ia_index ix)])"

definition sol_drain_flag :: "string list \<Rightarrow> ix_analysis \<Rightarrow> risk_flag list" where
  "sol_drain_flag txAddresses ix =
     (if ia_programId ix = SYSTEM_PROGRAM \<and> ia_type ix = Some ''transfer'' then
        (case text_of (prop_of (ia_params ix) ''to'') of
           None \<Rightarrow> []
         | Some to \<Rightarrow>
             if to \<notin> set txAddresses \<and> to \<notin> set KNOWN_SAFE_PROGRAMS
             then [flag ErrorSev ''UNEXPECTED_SOL_DRAIN''
               (''Instruction '' @ nat_str (ia_index ix) @ '' transfers SOL to unrecognized address '' @ to
                @ '' '' @ em_dash @ '' potential drain.'') (ia_index ix)]
             else [])
      else [])"

definition compute_budget_flag :: "ix_analysis \<Rightarrow> risk_flag list" where
  "compute_budget_flag ix =
     (if ia_programId ix = COMPUTE_BUDGET \<and> ia_type ix = Some ''set_compute_unit_price''
      then [flag Info ''LARGE_COMPUTE_BUDGET''
        (''Instruction '' @ nat_str (ia_index ix) @ '' sets a priority fee (''
         @ js_String (prop_of (ia_params ix) ''microLamports'') @ '' microLamports/CU).'') (ia_index ix)]
      else [])"

definition applyGlobalFlags :: "ix_analysis list \<Rightarrow> string \<Rightarrow> string list \<Rightarrow> risk_flag list" where
  "applyGlobalFlags instructions feePayer knownAddresses =
     (let txAddresses = feePayer # knownAddresses @ filter (\<lambda>p. p \<noteq> []) (map ia_programId instructions)
      in concat (map (\<lambda>ix. unknown_program_flag ix @ sol_drain_flag txAddresses ix @ compute_budget_flag ix)
           instructions))"

definition applyTokenTransferFlags :: "ix_analysis list \<Rightarrow> string list \<Rightarrow> risk_flag list" where
  "applyTokenTransferFlags instructions intentAddresses =
     concat (map (\<lambda>ix.
       if ia_programId ix = TOKEN_PROGRAM
          \<and> (ia_type ix = Some ''transfer'' \<or> ia_type ix = Some ''transfer_checked'')
       then (case text_of (prop_of (ia_params ix) ''destination'') of
          None \<Rightarrow> []
        | Some destination \<Rightarrow>
            if intentAddresses \<noteq> [] \<and> destination \<notin> set intentAddresses
            then [flag Warning ''UNEXPECTED_TOKEN_TRANSFER''
              (''Instruction '' @ nat_str (ia_index ix) @ '' transfers tokens to '' @ destination
               @ '', which is not part of the requested intent.'') (ia_index ix)]
            else [])
       else []) instructions)"

section \<open>Summary\<close>

definition shorten :: "jval \<Rightarrow> string" where
  "shorten addr = (case text_of addr of None \<Rightarrow> ''(unknown)''
     | Some a \<Rightarrow> take 4 a @ ''..'' @ slice_last 4 a)"

definition summary_part :: "ix_analysis \<Rightarrow> string list" where
  "summary_part ix =
     (if \<not> ia_known ix then [''calls unknown program '' @ ia_programId ix]
      else
        let p = prop_of (ia_params ix); sys = (ia_programId ix = SYSTEM_PROGRAM) in
        case ia_type ix of
          None \<Rightarrow> (case ia_programName ix of None \<Rightarrow> []
              | Some n \<Rightarrow> if n = [] then [] else [n @ '': null''])
        | Some t \<Rightarrow>
          if t = ''create_transfer'' then
            [''creates Handshake transfer of '' @ js_String (p ''amountHuman'') @ '' from ''
              @ shorten (p ''sender'') @ '' to '' @ shorten (p ''recipient'')]
          else if t = ''claim_transfer'' then
            [''claims Handshake transfer (PDA: '' @ shorten (p ''transferPda'') @ '')'']
          else if t = ''cancel_transfer'' then
            [''cancels Handshake transfer (PDA: '' @ shorten (p ''transferPda'') @ '')'']
          else if t = ''transfer_from_account'' then
            [''transfers '' @ js_String (p ''amountHuman'') @ '' from Silkysig account to '' @ shorten (p ''recipient'')]
          else if t = ''deposit'' then
            [''deposits '' @ js_String (p ''amountHuman'') @ '' into Silkysig account'']
          else if t = ''transfer'' then
            (if sys then [''transfers '' @ js_String (p ''sol'') @ '' SOL from '' @ shorten (p ''from'')
                            @ '' to '' @ shorten (p ''to'')]
             else [''SPL token transfer of '' @ js_String (p ''amount'') @ '' to '' @ shorten (p ''destination'')])
          else if t = ''transfer_checked'' then
            [''SPL token transfer of '' @ js_String (p ''amountHuman'') @ '' to '' @ shorten (p ''destination'')]
          else if t = ''create'' \<or> t = ''create_idempotent'' then
            [''creates associated token account for '' @ shorten (p ''wallet'')]
          else if t = ''create_account'' then
            (if sys then [''creates account '' @ shorten (p ''newAccount'')]
             else [''creates Silkysig account for '' @ shorten (p ''owner'')])
          else if t = ''set_compute_unit_price'' then
            [''sets priority fee ('' @ js_String (p ''microLamports'') @ '' microLamports/CU)'']
          else if t = ''set_compute_unit_limit'' then
            [''sets compute unit limit ('' @ js_String (p ''units'') @ '')'']
          else if t = ''memo'' then [''memo: '' @ dquoted (js_String (p ''text''))]
          else (case ia_programName ix of None \<Rightarrow> []
              | Some n \<Rightarrow> if n = [] then [] else [n @ '': '' @ t]))"

definition buildSummary :: "ix_analysis list \<Rightarrow> risk_flag list \<Rightarrow> string" where
  "buildSummary instructions flags =
     (let parts = concat (map summary_part instructions);
          summary = (if parts \<noteq> [] then ''Transaction '' @ join ''; '' parts @ ''.''
                     else ''Transaction has no recognized instructions.'');
          errors = filter (\<lambda>f. severity f = ErrorSev) flags;
          warnings = filter (\<lambda>f. severity f = Warning) flags
      in if errors \<noteq> [] then summary @ '' ERROR: '' @ join '' '' (map fl_message errors)
         else if warnings \<noteq> [] then summary @ '' WARNING: '' @ join '' '' (map fl_message warnings)
         else summary)"

section \<open>\<open>analyzeTransaction\<close>\<close>

text \<open>\<open>[...new Set(xs)]\<close>: the first occurrences.\<close>

definition uniq :: "string list \<Rightarrow> string list" where
  "uniq xs = rev (foldl (\<lambda>acc x. if x \<in> set acc then acc else x # acc) [] xs)"

definition mint_candidates :: "registry \<Rightarrow> raw_ix list \<Rightarrow> string list" where
  "mint_candidates reg raws =
     filter (\<lambda>a. length a = 44)
       (uniq (concat (map (\<lambda>ix. case get (reg_programs reg) (ri_programId ix) of
            None \<Rightarrow> [] | Some entry \<Rightarrow> take 5 (ri_accounts ix)) raws)))"

definition analyze_ix :: "web3 \<Rightarrow> registry \<Rightarrow> token_cache \<Rightarrow> nat \<Rightarrow> raw_ix \<Rightarrow> ix_analysis" where
  "analyze_ix w reg cache i raw =
     (let entry = get (reg_programs reg) (ri_programId raw);
          (t, params) = (case entry of None \<Rightarrow> (None, [])
             | Some e \<Rightarrow> decodeInstruction (pk_bytes w) (pe_decoder e) (ri_data raw) (ri_accounts raw) cache)
      in \<lparr>ia_index = i, ia_programId = ri_programId raw, ia_programName = map_option pe_name entry,
          ia_type = t, ia_known = (entry \<noteq> None), ia_params = params, ia_flags = []\<rparr>)"

text \<open>\<open>instructions[flag.instructionIndex]?.flags.push(flag)\<close>.\<close>

definition attach_flag :: "ix_analysis list \<Rightarrow> risk_flag \<Rightarrow> ix_analysis list" where
  "attach_flag ixs f =
     (case instructionIndex f of
        None \<Rightarrow> ixs
      | Some i \<Rightarrow> if i < length ixs then ixs[i := (ixs ! i)\<lparr>ia_flags := ia_flags (ixs ! i) @ [f]\<rparr>] else ixs)"

definition analyze_raw ::
    "web3 \<Rightarrow> registry \<Rightarrow> connection option \<Rightarrow> string \<Rightarrow> raw_ix list \<Rightarrow> tx_analysis" where
  "analyze_raw w reg conn feePayer raws =
     (let cache = prefetch (pk_string w) conn (createTokenCache (reg_tokens reg)) (mint_candidates reg raws);
          instructions = map (\<lambda>(i, raw). analyze_ix w reg cache i raw) (enumerate 0 raws);
          knownAddresses = concat (map ri_accounts raws);
          globalFlags = applyGlobalFlags instructions feePayer knownAddresses;
          flagged = foldl attach_flag instructions globalFlags
      in \<lparr>ta_feePayer = feePayer, ta_instructions = flagged, ta_flags = globalFlags,
          ta_summary = buildSummary flagged globalFlags\<rparr>)"

definition analyzeTransaction :: "web3 \<Rightarrow> string \<Rightarrow> options \<Rightarrow> tx_analysis result" where
  "analyzeTransaction w tx opts =
     bind_result (deserializeTx w tx) (\<lambda>(feePayer, raws).
       Inr (analyze_raw w (loadRegistry (op_config opts)) (op_connection opts) feePayer raws))"

section \<open>The dispatch keeps the decoders' contract\<close>

interpretation dispatch: instruction_decoder
  "\<lambda>data accounts. run_decoder pk decoder data accounts cache" not_swap
  for pk decoder cache
proof unfold_locales
  show "\<exists>r. run_decoder pk decoder data accounts cache = Inr r" for data accounts
    using system.total [of pk] spl.total [of data accounts "getSymbol cache"] budget.total [of data]
    by (simp add: run_decoder_def)
  show "run_decoder pk decoder data accounts cache = Inr (Some d) \<Longrightarrow> not_swap (dec_type d)" for data accounts d
    using system.typed [of pk data accounts d] spl.typed [of data accounts "getSymbol cache" d]
      ata.typed [of data accounts d] budget.typed [of data d] memo.typed [of data d]
      jupiter.typed [of data accounts d]
      hs.typed [of pk data accounts "getSymbol cache" "getDecimals cache" d]
      silk.typed [of pk data accounts "getSymbol cache" "getDecimals cache" d]
    by (simp add: run_decoder_def split: if_splits)
qed

lemma decodeInstruction_shown:
  obtains r where "run_decoder pk decoder data accounts cache = Inr r"
    and "decodeInstruction pk decoder data accounts cache = shown r"
  using dispatch.total [of pk decoder data accounts cache] by (auto simp: decodeInstruction_def)

lemma decodeInstruction_not_swap:
  "fst (decodeInstruction pk decoder data accounts cache) \<noteq> Some ''swap''"
proof -
  obtain r where r: "run_decoder pk decoder data accounts cache = Inr r"
    and s: "decodeInstruction pk decoder data accounts cache = shown r"
    by (rule decodeInstruction_shown)
  have "fst (shown r) \<noteq> Some ''swap''"
  proof (cases r)
    case (Some d)
    then show ?thesis using dispatch.typed [of pk decoder data accounts cache d] r
      by (simp add: shown_def not_swap_def)
  qed (simp add: shown_def)
  with s show ?thesis by simp
qed

text \<open>Decoding never fails: whatever decoder a (possibly overridden) registry names, whatever the
  instruction's data and accounts, the dispatch returns the decoder's answer and its \<open>catch\<close>
  branch is dead; the answer is never of type \<open>swap\<close>, although the intent language has such an
  action.\<close>

theorem decodeInstruction_never_fails:
  "\<exists>r. run_decoder pk decoder data accounts cache = Inr r
     \<and> decodeInstruction pk decoder data accounts cache = shown r
     \<and> fst (decodeInstruction pk decoder data accounts cache) \<noteq> Some ''swap''"
  using decodeInstruction_shown decodeInstruction_not_swap by metis

section \<open>Where a transfer's destination comes from\<close>

lemma text_of_acct: "text_of (nth_or_null accounts i) = Some t \<Longrightarrow> t \<in> set accounts"
  by (auto simp: text_of_def nth_or_null_def split: if_splits)

lemma decodeSystem_to:
  assumes "decodeSystem pk data accounts = Inr (Some d)" and "dec_type d = ''transfer''"
  shows "prop_of (dec_params d) ''to'' = nth_or_null accounts 1"
  using assms
  by (auto simp: decodeSystem_def bind_result_Inr_iff prop_of_def obj_simps split: if_splits)

lemma decodeSplToken_to:
  assumes "decodeSplToken data accounts symb = Inr (Some d)" and "dec_type d = ''transfer''"
  shows "prop_of (dec_params d) ''to'' = JUndef"
  using assms
  by (auto simp: decodeSplToken_def bind_result_Inr_iff prop_of_def obj_simps Let_def
      split: if_splits option.splits)

lemma budget_not_transfer: "decodeComputeBudget data = Inr d \<Longrightarrow> dec_type d \<noteq> ''transfer''"
  by (auto simp: decodeComputeBudget_def bind_result_Inr_iff split: if_splits option.splits)

lemma tables_not_transfer:
  "n \<in> fst ` set handshake_discriminators \<union> fst ` set silkysig_discriminators \<Longrightarrow> n \<noteq> ''transfer''"
  by (auto simp: handshake_discriminators_def silkysig_discriminators_def)

lemma KNOWN_TYPES_not_transfer: "get KNOWN_TYPES h = Some t \<Longrightarrow> t \<noteq> ''transfer''"
  by (auto simp: KNOWN_TYPES_def obj_simps split: if_splits)

lemma jupiter_not_transfer: "dec_type (decodeJupiter data accounts) \<noteq> ''transfer''"
  by (auto simp: decodeJupiter_def Let_def dest: KNOWN_TYPES_not_transfer split: option.split)

lemma anchor_not_transfer:
  "decodeHandshake pk data accounts symb deci = Some d \<Longrightarrow> dec_type d \<noteq> ''transfer''"
  "decodeSilkysig pk data accounts symb deci = Some d \<Longrightarrow> dec_type d \<noteq> ''transfer''"
  using decodeHandshake_type [of pk data accounts symb deci] decodeSilkysig_type [of pk data accounts symb deci]
    match_in tables_not_transfer
  by (metis UnI1 fst_conv image_eqI option.simps(9), metis UnI2 fst_conv image_eqI option.simps(9))

lemma run_decoder_cases:
  assumes "run_decoder pk decoder data accounts cache = Inr (Some d)"
  shows "decodeSystem pk data accounts = Inr (Some d)
    \<or> decodeSplToken data accounts (getSymbol cache) = Inr (Some d)
    \<or> d = decodeAta data accounts \<or> decodeComputeBudget data = Inr d \<or> d = decodeMemo data
    \<or> decodeHandshake pk data accounts (getSymbol cache) (getDecimals cache) = Some d
    \<or> decodeSilkysig pk data accounts (getSymbol cache) (getDecimals cache) = Some d
    \<or> d = decodeJupiter data accounts"
  using assms unfolding run_decoder_def
  by (simp only: split: if_split_asm) (simp_all add: bind_result_Inr_iff)

lemma transfer_destination:
  assumes "decodeInstruction pk decoder data accounts cache = (Some ''transfer'', params)"
    and "text_of (prop_of params ''to'') = Some t"
  shows "t \<in> set accounts"
proof -
  obtain r where r: "run_decoder pk decoder data accounts cache = Inr r"
    and s: "decodeInstruction pk decoder data accounts cache = shown r"
    by (rule decodeInstruction_shown)
  then obtain d where d: "r = Some d" "dec_type d = ''transfer''" "dec_params d = params"
    using assms(1) by (auto simp: shown_def split: option.splits)
  from run_decoder_cases [OF r [unfolded d(1)]] consider
      "decodeSystem pk data accounts = Inr (Some d)"
    | "decodeSplToken data accounts (getSymbol cache) = Inr (Some d)"
    | "d = decodeAta data accounts \<or> decodeComputeBudget data = Inr d \<or> d = decodeMemo data
       \<or> decodeHandshake pk data accounts (getSymbol cache) (getDecimals cache) = Some d
       \<or> decodeSilkysig pk data accounts (getSymbol cache) (getDecimals cache) = Some d
       \<or> d = decodeJupiter data accounts"
    by argo
  then show ?thesis
  proof cases
    case 1
    then show ?thesis using decodeSystem_to d assms(2) text_of_acct by metis
  next
    case 2
    then show ?thesis using decodeSplToken_to [OF 2 d(2)] d(3) assms(2) by (simp add: text_of_def)
  next
    case 3
    then have "dec_type d \<noteq> ''transfer''"
      using budget_not_transfer anchor_not_transfer jupiter_not_transfer
      by (elim disjE) (auto simp: decodeAta_def decodeMemo_def Let_def)
    then show ?thesis using d(2) by simp
  qed
qed

section \<open>The shape of an analysis\<close>

lemma attach_flag_nth:
  "i < length ixs \<Longrightarrow> attach_flag ixs f ! i =
     (if instructionIndex f = Some i then (ixs ! i)\<lparr>ia_flags := ia_flags (ixs ! i) @ [f]\<rparr> else ixs ! i)"
  by (auto simp: attach_flag_def nth_list_update split: option.split)

lemma foldl_attach:
  "length (foldl attach_flag ixs fs) = length ixs"
  "i < length ixs \<Longrightarrow> foldl attach_flag ixs fs ! i =
     (ixs ! i)\<lparr>ia_flags := ia_flags (ixs ! i) @ filter (\<lambda>f. instructionIndex f = Some i) fs\<rparr>"
proof (induction fs arbitrary: ixs)
  case Nil
  { case 1 then show ?case by simp }
  { case 2 then show ?case by simp }
next
  case (Cons f fs)
  have l: "length (attach_flag xs f) = length xs" for xs
    by (simp add: attach_flag_def split: option.split)
  { case 1 show ?case using Cons.IH(1) [of "attach_flag ixs f"] l by simp }
  { case 2
    then have "foldl attach_flag ixs (f # fs) ! i = (attach_flag ixs f ! i)\<lparr>ia_flags :=
        ia_flags (attach_flag ixs f ! i) @ filter (\<lambda>f. instructionIndex f = Some i) fs\<rparr>"
      using Cons.IH(2) [of "attach_flag ixs f"] l by simp
    then show ?case using attach_flag_nth [OF 2] by simp }
qed

definition analysis_cache :: "web3 \<Rightarrow> registry \<Rightarrow> connection option \<Rightarrow> raw_ix list \<Rightarrow> token_cache" where
  "analysis_cache w reg conn raws =
     prefetch (pk_string w) conn (createTokenCache (reg_tokens reg)) (mint_candidates reg raws)"

definition analyzed :: "web3 \<Rightarrow> registry \<Rightarrow> connection option \<Rightarrow> raw_ix list \<Rightarrow> ix_analysis list" where
  "analyzed w reg conn raws =
     map (\<lambda>(i, raw). analyze_ix w reg (analysis_cache w reg conn raws) i raw) (enumerate 0 raws)"

lemma length_analyzed [simp]: "length (analyzed w reg conn raws) = length raws"
  by (simp add: analyzed_def)

lemma analyzed_nth:
  "i < length raws \<Longrightarrow>
   analyzed w reg conn raws ! i = analyze_ix w reg (analysis_cache w reg conn raws) i (raws ! i)"
  by (simp add: analyzed_def nth_enumerate_eq)

lemma analyze_raw_simps:
  "ta_feePayer (analyze_raw w reg conn fp raws) = fp"
  "ta_flags (analyze_raw w reg conn fp raws) =
     applyGlobalFlags (analyzed w reg conn raws) fp (concat (map ri_accounts raws))"
  "ta_instructions (analyze_raw w reg conn fp raws) =
     foldl attach_flag (analyzed w reg conn raws)
       (applyGlobalFlags (analyzed w reg conn raws) fp (concat (map ri_accounts raws)))"
  by (simp_all add: analyze_raw_def Let_def analyzed_def analysis_cache_def)

lemma analyze_ix_simps [simp]:
  "ia_index (analyze_ix w reg cache i raw) = i"
  "ia_programId (analyze_ix w reg cache i raw) = ri_programId raw"
  "ia_known (analyze_ix w reg cache i raw) \<longleftrightarrow> get (reg_programs reg) (ri_programId raw) \<noteq> None"
  "ia_flags (analyze_ix w reg cache i raw) = []"
  by (simp_all add: analyze_ix_def Let_def split: prod.split)

lemma analyze_ix_decoded:
  assumes "get (reg_programs reg) (ri_programId raw) = Some e"
  shows "(ia_type (analyze_ix w reg cache i raw), ia_params (analyze_ix w reg cache i raw))
    = decodeInstruction (pk_bytes w) (pe_decoder e) (ri_data raw) (ri_accounts raw) cache"
  using assms by (simp add: analyze_ix_def Let_def split: prod.split)

lemma analyze_ix_unknown:
  assumes "get (reg_programs reg) (ri_programId raw) = None"
  shows "ia_type (analyze_ix w reg cache i raw) = None" "ia_params (analyze_ix w reg cache i raw) = []"
  using assms by (simp_all add: analyze_ix_def Let_def)

text \<open>Every account of the transaction is already in \<open>txAddresses\<close>: the drain rule cannot fire.\<close>

lemma no_sol_drain:
  assumes "set (ri_accounts raw) \<subseteq> set addresses"
  shows "sol_drain_flag addresses (analyze_ix w reg cache i raw) = []"
proof (cases "get (reg_programs reg) (ri_programId raw)")
  case None
  then show ?thesis by (simp add: sol_drain_flag_def analyze_ix_unknown)
next
  case (Some e)
  let ?ix = "analyze_ix w reg cache i raw"
  have "t \<in> set addresses"
    if "ia_type ?ix = Some ''transfer''" "text_of (prop_of (ia_params ?ix) ''to'') = Some t" for t
    using transfer_destination [of "pk_bytes w" "pe_decoder e" "ri_data raw" "ri_accounts raw" cache
        "ia_params ?ix" t] analyze_ix_decoded [OF Some, of w cache i] that assms by auto
  then show ?thesis by (auto simp: sol_drain_flag_def split: option.split)
qed

lemma global_flags_error:
  assumes "f \<in> set (applyGlobalFlags (analyzed w reg conn raws) fp (concat (map ri_accounts raws)))"
    and "severity f = ErrorSev"
  shows "\<exists>i < length raws. get (reg_programs reg) (ri_programId (raws ! i)) = None \<and>
    f \<in> set (unknown_program_flag (analyzed w reg conn raws ! i))"
proof -
  let ?adr = "fp # concat (map ri_accounts raws) @
    filter (\<lambda>p. p \<noteq> []) (map ia_programId (analyzed w reg conn raws))"
  obtain ix where ix: "ix \<in> set (analyzed w reg conn raws)"
    and f: "f \<in> set (unknown_program_flag ix @ sol_drain_flag ?adr ix @ compute_budget_flag ix)"
    using assms(1) by (auto simp: applyGlobalFlags_def Let_def)
  then obtain i where i: "i < length raws" "ix = analyzed w reg conn raws ! i"
    by (auto simp: in_set_conv_nth)
  have "set (ri_accounts (raws ! i)) \<subseteq> set ?adr" using i(1) by auto
  then have "sol_drain_flag ?adr ix = []"
    unfolding i(2) analyzed_nth [OF i(1)] by (rule no_sol_drain)
  moreover have "f \<notin> set (compute_budget_flag ix)"
    using assms(2) by (auto simp: compute_budget_flag_def flag_def)
  ultimately have "f \<in> set (unknown_program_flag ix)" using f by auto
  moreover from this have "\<not> ia_known ix" by (auto simp: unknown_program_flag_def split: if_splits)
  ultimately show ?thesis using i by (auto simp: analyzed_nth)
qed

definition unknown_program_error :: "nat \<Rightarrow> string \<Rightarrow> risk_flag" where
  "unknown_program_error i programId =
     flag ErrorSev ''UNKNOWN_PROGRAM''
       (''Instruction '' @ nat_str i @ '' calls unknown program '' @ programId
         @ '' '' @ em_dash @ '' this instruction cannot be verified.'') i"

lemma analyze_cases:
  assumes "analyzeTransaction w tx opts = Inr a"
  obtains fp raws where "deserializeTx w tx = Inr (fp, raws)"
    and "a = analyze_raw w (loadRegistry (op_config opts)) (op_connection opts) fp raws"
  using assms by (auto simp: analyzeTransaction_def bind_result_Inr_iff)

lemma error_flags_iff:
  assumes "analyzeTransaction w tx opts = Inr a" and "deserializeTx w tx = Inr (fp, raws)"
  shows "f \<in> set (ta_flags a) \<and> severity f = ErrorSev \<longleftrightarrow>
    (\<exists>i < length raws. get (reg_programs (loadRegistry (op_config opts))) (ri_programId (raws ! i)) = None
       \<and> f = unknown_program_error i (ri_programId (raws ! i)))" (is "?l \<longleftrightarrow> ?r")
proof
  let ?reg = "loadRegistry (op_config opts)"
  have a: "a = analyze_raw w ?reg (op_connection opts) fp raws"
    using assms by (auto elim: analyze_cases)
  let ?ixs = "analyzed w ?reg (op_connection opts) raws"
  have flags: "ta_flags a = applyGlobalFlags ?ixs fp (concat (map ri_accounts raws))"
    by (simp add: a analyze_raw_simps)
  {
    assume ?l
    then obtain i where i: "i < length raws" "get (reg_programs ?reg) (ri_programId (raws ! i)) = None"
      and "f \<in> set (unknown_program_flag (?ixs ! i))"
      using global_flags_error [of f w ?reg "op_connection opts" raws fp] by (auto simp: flags)
    then have "f = unknown_program_error i (ri_programId (raws ! i))"
      by (simp add: analyzed_nth unknown_program_flag_def unknown_program_error_def)
    then show ?r using i by blast
  next
    assume ?r
    then obtain i where i: "i < length raws" "get (reg_programs ?reg) (ri_programId (raws ! i)) = None"
      and f: "f = unknown_program_error i (ri_programId (raws ! i))" by blast
    then have "f \<in> set (unknown_program_flag (?ixs ! i))"
      by (simp add: analyzed_nth unknown_program_flag_def unknown_program_error_def)
    moreover have "?ixs ! i \<in> set ?ixs" using i(1) by simp
    ultimately have "f \<in> set (ta_flags a)" by (auto simp: flags applyGlobalFlags_def Let_def)
    then show ?l using f by (simp add: unknown_program_error_def flag_def)
  }
qed

text \<open>The error flags of an analysis are exactly the unknown-program errors, one for every
  instruction whose program is not in the (overridden) registry. In particular the rule
  \<open>UNEXPECTED_SOL_DRAIN\<close> never fires in \<open>analyzeTransaction\<close>: the addresses it compares the
  destination of a SOL transfer with contain every account of every instruction, that
  destination included.\<close>

theorem error_flags_exact:
  assumes "analyzeTransaction w tx opts = Inr a" and "deserializeTx w tx = Inr (fp, raws)"
  shows "f \<in> set (ta_flags a) \<and> severity f = ErrorSev \<longleftrightarrow>
    (\<exists>i < length raws. get (reg_programs (loadRegistry (op_config opts))) (ri_programId (raws ! i)) = None
       \<and> f = unknown_program_error i (ri_programId (raws ! i)))" (is "?l \<longleftrightarrow> ?r")
  using assms by (rule error_flags_iff)

text \<open>A concrete third-party side for the witnesses: every key parses to itself, every base64 text
  deserialises to the given message.\<close>

definition sample_web3 :: "message \<Rightarrow> web3" where
  "sample_web3 m = \<lparr>pk_bytes = toString_hex, pk_string = Some, versioned = (\<lambda>_. Some m),
     legacy = (\<lambda>_. Inl SyntaxError)\<rparr>"

definition no_options :: options where
  "no_options = \<lparr>op_connection = None, op_config = None\<rparr>"

definition one_ix :: "string list \<Rightarrow> string \<Rightarrow> buffer \<Rightarrow> message" where
  "one_ix accounts program data =
     \<lparr>msg_keys = accounts @ [program],
      msg_instructions = [\<lparr>ci_program = length accounts, ci_accounts = [0..<length accounts], ci_data = data\<rparr>]\<rparr>"

lemma loadRegistry_None: "loadRegistry None = REGISTRY"
  by (simp add: loadRegistry_def spread_def)

lemma deserialize_sample:
  "deserializeTx (sample_web3 m) tx = Inr (key_at (msg_keys m) 0, raw_of m)"
  by (simp add: deserializeTx_def sample_web3_def)

lemma raw_of_one_ix:
  "raw_of (one_ix accounts program data) = [\<lparr>ri_programId = program, ri_accounts = accounts, ri_data = data\<rparr>]"
  by (auto simp: raw_of_def one_ix_def key_at_def nth_append intro!: nth_equalityI)

lemma analyze_sample:
  "analyzeTransaction (sample_web3 m) tx no_options =
   Inr (analyze_raw (sample_web3 m) REGISTRY None (key_at (msg_keys m) 0) (raw_of m))"
  by (simp add: analyzeTransaction_def deserialize_sample no_options_def loadRegistry_None)

theorem error_flags_exact_witness:
  "\<exists>a. analyzeTransaction (sample_web3 (one_ix [''A''] ''X'' [])) ''tx'' no_options = Inr a \<and>
     unknown_program_error 0 ''X'' \<in> set (ta_flags a)"
proof -
  let ?m = "one_ix [''A''] ''X'' []"
  obtain a where a: "analyzeTransaction (sample_web3 ?m) ''tx'' no_options = Inr a"
    using analyze_sample by blast
  show ?thesis
    using error_flags_exact [OF a deserialize_sample, of "unknown_program_error 0 ''X''"] a
    by (simp add: raw_of_one_ix no_options_def loadRegistry_None REGISTRY_def SYSTEM_PROGRAM_def
        TOKEN_PROGRAM_def COMPUTE_BUDGET_def obj_simps)
qed

lemma analysis_entries:
  assumes "analyzeTransaction w tx opts = Inr a" and "deserializeTx w tx = Inr (fp, raws)"
  shows "ta_feePayer a = fp \<and> length (ta_instructions a) = length raws \<and>
    (\<forall>i < length raws.
       (let ix = ta_instructions a ! i; raw = raws ! i; reg = loadRegistry (op_config opts)
        in ia_index ix = i \<and> ia_programId ix = ri_programId raw
         \<and> ia_flags ix = filter (\<lambda>f. instructionIndex f = Some i) (ta_flags a)
         \<and> (case get (reg_programs reg) (ri_programId raw) of
              None \<Rightarrow> \<not> ia_known ix \<and> ia_type ix = None \<and> ia_params ix = []
            | Some e \<Rightarrow> ia_known ix \<and> (ia_type ix, ia_params ix) =
                decodeInstruction (pk_bytes w) (pe_decoder e) (ri_data raw) (ri_accounts raw)
                  (analysis_cache w reg (op_connection opts) raws))))"
proof -
  let ?reg = "loadRegistry (op_config opts)"
  have a: "a = analyze_raw w ?reg (op_connection opts) fp raws"
    using assms by (auto elim: analyze_cases)
  have nth: "ta_instructions a ! i = (analyze_ix w ?reg (analysis_cache w ?reg (op_connection opts) raws) i (raws ! i))
      \<lparr>ia_flags := filter (\<lambda>f. instructionIndex f = Some i) (ta_flags a)\<rparr>" if "i < length raws" for i
    using that by (simp add: a analyze_raw_simps foldl_attach(2) analyzed_nth)
  have "ta_feePayer a = fp" "length (ta_instructions a) = length raws"
    by (simp_all add: a analyze_raw_simps foldl_attach(1))
  then show ?thesis
    using analyze_ix_decoded [of ?reg] analyze_ix_unknown [of ?reg]
    by (auto simp: nth Let_def split: option.split)
qed

text \<open>Structure of an analysis: \<open>analyzeTransaction\<close> throws only when both deserialisers do;
  otherwise it has one entry per instruction, in order, numbered by position, marked known
  exactly when the registry has its program, decoded by that program's decoder, and carrying
  exactly the global flags with its number.\<close>

theorem analysis_structure:
  assumes "analyzeTransaction w tx opts = Inr a" and "deserializeTx w tx = Inr (fp, raws)"
  shows "ta_feePayer a = fp \<and> length (ta_instructions a) = length raws \<and>
    (\<forall>i < length raws.
       (let ix = ta_instructions a ! i; raw = raws ! i; reg = loadRegistry (op_config opts)
        in ia_index ix = i \<and> ia_programId ix = ri_programId raw
         \<and> ia_flags ix = filter (\<lambda>f. instructionIndex f = Some i) (ta_flags a)
         \<and> (case get (reg_programs reg) (ri_programId raw) of
              None \<Rightarrow> \<not> ia_known ix \<and> ia_type ix = None \<and> ia_params ix = []
            | Some e \<Rightarrow> ia_known ix \<and> (ia_type ix, ia_params ix) =
                decodeInstruction (pk_bytes w) (pe_decoder e) (ri_data raw) (ri_accounts raw)
                  (analysis_cache w reg (op_connection opts) raws))))"
  using assms by (rule analysis_entries)

theorem analysis_structure_witness:
  "\<exists>a. analyzeTransaction (sample_web3 (one_ix [''A'', ''B''] SYSTEM_PROGRAM (system_transfer_data 1500000000)))
         ''tx'' no_options = Inr a \<and> length (ta_instructions a) = 1"
proof -
  let ?m = "one_ix [''A'', ''B''] SYSTEM_PROGRAM (system_transfer_data 1500000000)"
  obtain a where a: "analyzeTransaction (sample_web3 ?m) ''tx'' no_options = Inr a"
    using analyze_sample by blast
  show ?thesis
    using analysis_structure [OF a deserialize_sample] a by (simp add: raw_of_one_ix)
qed

end
