(* ===== verification/VerifyV1.thy ===== *)
theory VerifyV1
  imports Analyze
begin

text \<open>
  Intent verification, first version: \<open>verifyIntent\<close> of \<^verbatim>\<open>verify/index.ts\<close> with its helpers. It
  analyses the transaction, finds the first instruction of the intent's type and compares its
  decoded parameters with the intent; every disagreement is a discrepancy text. A parameter that
  is missing (not truthy) is not compared.
\<close>

text \<open>\<open>TokenSelector\<close>: at most one of the two should be given; the code checks it.\<close>

record token_selector =
  ts_token :: "string option"
  ts_address :: "string option"

text \<open>The fields, in order: sender, recipient, amount, memo, token; claimer, transferPda; canceller,
  transferPda; owner, recipient, amount, token; owner, amount, token.\<close>

datatype intent =
    CreateTransfer string string string "string option" token_selector
  | ClaimTransfer string string
  | CancelTransfer string string
  | TransferFromAccount string string string token_selector
  | Deposit string string token_selector

fun intent_type :: "intent \<Rightarrow> string" where
  "intent_type (CreateTransfer _ _ _ _ _) = ''create_transfer''"
| "intent_type (ClaimTransfer _ _) = ''claim_transfer''"
| "intent_type (CancelTransfer _ _) = ''cancel_transfer''"
| "intent_type (TransferFromAccount _ _ _ _) = ''transfer_from_account''"
| "intent_type (Deposit _ _ _) = ''deposit''"

record verify_result =
  verified :: bool
  discrepancies :: "string list"
  analysis :: tx_analysis

section \<open>Helpers\<close>

definition AMOUNT_TOLERANCE :: decimal where
  "AMOUNT_TOLERANCE = the (parseDecimal ''0.0001'')"

definition normalize_v1 :: "web3 \<Rightarrow> string \<Rightarrow> string" where
  "normalize_v1 w addr = (case pk_string w addr of None \<Rightarrow> addr | Some a \<Rightarrow> a)"

definition rawAmount :: "jval obj \<Rightarrow> string option" where
  "rawAmount p = (if truthy (prop_of p ''amount'')
     then extractAmountFromHuman (text_of (prop_of p ''amountHuman'')) else None)"

definition humanAmount :: "jval obj \<Rightarrow> string" where
  "humanAmount p = (case prop_of p ''amountHuman'' of
      JStr s \<Rightarrow> s
    | _ \<Rightarrow> (case prop_of p ''amount'' of JStr s \<Rightarrow> s | _ \<Rightarrow> ''unknown''))"

definition amountsMatch :: "string \<Rightarrow> string \<Rightarrow> bool result" where
  "amountsMatch txAmount intentAmount =
     (case (parseDecimal txAmount, parseDecimal intentAmount) of
        (Some a, Some i) \<Rightarrow> withinRelativeTolerance i a AMOUNT_TOLERANCE
      | _ \<Rightarrow> Inr False)"

definition nonempty :: "string option \<Rightarrow> bool" where
  "nonempty s = (case s of None \<Rightarrow> False | Some t \<Rightarrow> t \<noteq> [])"

definition shape_check :: "string \<Rightarrow> string \<Rightarrow> token_selector \<Rightarrow> string list" where
  "shape_check t amt sel =
     (let hasToken = nonempty (ts_token sel); hasTokenAddress = nonempty (ts_address sel)
      in (if (hasToken \<and> hasTokenAddress) \<or> (\<not> hasToken \<and> \<not> hasTokenAddress)
          then [''Intent '' @ t @ '' must provide exactly one of '' @ quoted ''token'' @ '' or ''
                 @ quoted ''tokenAddress'' @ ''.''] else [])
       @ (if parseDecimal amt = None
          then [''Invalid amount for '' @ t @ '': expected numeric string, got '' @ dquoted amt @ ''.''] else []))"

definition validateIntentShape :: "intent \<Rightarrow> string list" where
  "validateIntentShape i =
     (case i of
        CreateTransfer _ _ a _ sel \<Rightarrow> shape_check (intent_type i) a sel
      | TransferFromAccount _ _ a sel \<Rightarrow> shape_check (intent_type i) a sel
      | Deposit _ a sel \<Rightarrow> shape_check (intent_type i) a sel
      | _ \<Rightarrow> [])"

definition extractSymbolFromAmountHuman :: "string option \<Rightarrow> string option" where
  "extractSymbolFromAmountHuman h =
     (case h of
        None \<Rightarrow> None
      | Some s \<Rightarrow> if s = [] then None
          else (let parts = split_ws (trim s) in if length parts < 2 then None else Some (parts ! 1)))"

definition compareTokenSelector :: "web3 \<Rightarrow> token_selector \<Rightarrow> jval obj \<Rightarrow> string list" where
  "compareTokenSelector w sel p =
     (case text_of (prop_of p ''mint'') of
        None \<Rightarrow> []
      | Some mint \<Rightarrow>
          (case ts_address sel of
             None \<Rightarrow> []
           | Some adr \<Rightarrow>
               if adr \<noteq> [] \<and> normalize_v1 w mint \<noteq> normalize_v1 w adr
               then [''Token address mismatch: expected '' @ adr @ '', got '' @ mint] else [])
        @ (case ts_token sel of
             None \<Rightarrow> []
           | Some token \<Rightarrow>
               if token = [] then []
               else (case extractSymbolFromAmountHuman (text_of (prop_of p ''amountHuman'')) of
                  None \<Rightarrow> []
                | Some txSymbol \<Rightarrow>
                    if txSymbol \<noteq> [] \<and> toUpperCase txSymbol \<noteq> toUpperCase token
                    then [''Token symbol mismatch: expected '' @ token @ '', got '' @ txSymbol] else [])))"

text \<open>\<open>if (p[k] && normalize(p[k]) !== normalize(expected)) discrepancies.push(..)\<close>.\<close>

definition address_check :: "web3 \<Rightarrow> string \<Rightarrow> jval \<Rightarrow> string \<Rightarrow> string list" where
  "address_check w what actual expected =
     (case text_of actual of
        None \<Rightarrow> []
      | Some a \<Rightarrow> if normalize_v1 w a \<noteq> normalize_v1 w expected
          then [what @ '' mismatch: expected '' @ expected @ '', got '' @ a] else [])"

definition amount_check :: "jval obj \<Rightarrow> string \<Rightarrow> string list result" where
  "amount_check p expected =
     (case rawAmount p of
        None \<Rightarrow> Inr []
      | Some txAmount \<Rightarrow> bind_result (amountsMatch txAmount expected) (\<lambda>ok.
          Inr (if ok then [] else [''Amount mismatch: expected '' @ expected @ '', got '' @ humanAmount p])))"

definition memo_check :: "jval obj \<Rightarrow> string option \<Rightarrow> string list" where
  "memo_check p expected =
     (case (expected, text_of (prop_of p ''memo'')) of
        (Some e, Some m) \<Rightarrow> if e \<noteq> [] \<and> m \<noteq> e
          then [''Memo mismatch: expected '' @ dquoted e @ '', got '' @ dquoted m] else []
      | _ \<Rightarrow> [])"

section \<open>\<open>verifyIntent\<close>\<close>

definition compare_intent :: "web3 \<Rightarrow> intent \<Rightarrow> jval obj \<Rightarrow> string list result" where
  "compare_intent w i p =
     (case i of
        CreateTransfer s r a m sel \<Rightarrow>
          bind_result (amount_check p a) (\<lambda>amt.
            Inr (address_check w ''Sender'' (prop_of p ''sender'') s
               @ address_check w ''Recipient'' (prop_of p ''recipient'') r
               @ amt @ compareTokenSelector w sel p @ memo_check p m))
      | ClaimTransfer c t \<Rightarrow>
          Inr (address_check w ''Claimer'' (prop_of p ''claimer'') c
             @ address_check w ''Transfer PDA'' (prop_of p ''transferPda'') t)
      | CancelTransfer c t \<Rightarrow>
          Inr (address_check w ''Canceller'' (prop_of p ''sender'') c
             @ address_check w ''Transfer PDA'' (prop_of p ''transferPda'') t)
      | TransferFromAccount owner r a sel \<Rightarrow>
          bind_result (amount_check p a) (\<lambda>amt.
            Inr (address_check w ''Owner'' (prop_of p ''signer'') owner
               @ address_check w ''Recipient'' (prop_of p ''recipient'') r
               @ amt @ compareTokenSelector w sel p))
      | Deposit owner a sel \<Rightarrow>
          bind_result (amount_check p a) (\<lambda>amt.
            Inr (address_check w ''Owner'' (prop_of p ''depositor'') owner
               @ amt @ compareTokenSelector w sel p)))"

definition initial_discrepancies :: "tx_analysis \<Rightarrow> intent \<Rightarrow> string list" where
  "initial_discrepancies an i =
     validateIntentShape i @ map fl_message (filter (\<lambda>f. severity f = ErrorSev) (ta_flags an))"

definition verifyIntent_v1 :: "web3 \<Rightarrow> string \<Rightarrow> intent \<Rightarrow> options \<Rightarrow> verify_result result" where
  "verifyIntent_v1 w tx i opts =
     bind_result (analyzeTransaction w tx opts) (\<lambda>an.
       let ds = initial_discrepancies an i in
       case List.find (\<lambda>ix. ia_type ix = Some (intent_type i)) (ta_instructions an) of
         None \<Rightarrow> Inr \<lparr>verified = False,
             discrepancies = ds @ [''Expected a '' @ intent_type i
               @ '' instruction but none was found in the transaction.''],
             analysis = an\<rparr>
       | Some match \<Rightarrow>
           bind_result (compare_intent w i (ia_params match)) (\<lambda>more.
             Inr \<lparr>verified = (ds @ more = []), discrepancies = ds @ more, analysis = an\<rparr>))"

section \<open>What a verified intent means\<close>

text \<open>
  The specification the comparison implements: addresses are equal after normalisation and the
  amounts agree within 0.01 per cent of the intended one. It speaks about the parameters that are
  present; \<open>agrees\<close> is the conjunction per intent.
\<close>

definition same_address :: "web3 \<Rightarrow> jval \<Rightarrow> string \<Rightarrow> bool" where
  "same_address w actual expected \<longleftrightarrow>
     (\<forall>a. text_of actual = Some a \<longrightarrow> normalize_v1 w a = normalize_v1 w expected)"

definition amount_agrees :: "jval obj \<Rightarrow> string \<Rightarrow> bool" where
  "amount_agrees p expected \<longleftrightarrow>
     (\<forall>t. rawAmount p = Some t \<longrightarrow>
        (\<exists>a e. parseDecimal t = Some a \<and> parseDecimal expected = Some e \<and>
           within_spec (dec_value e) (dec_value a) (1 / 10000)))"

definition token_agrees :: "web3 \<Rightarrow> token_selector \<Rightarrow> jval obj \<Rightarrow> bool" where
  "token_agrees w sel p \<longleftrightarrow>
     (\<forall>mint. text_of (prop_of p ''mint'') = Some mint \<longrightarrow>
        (\<forall>adr. ts_address sel = Some adr \<and> adr \<noteq> [] \<longrightarrow> normalize_v1 w mint = normalize_v1 w adr) \<and>
        (\<forall>token symb. ts_token sel = Some token \<and> token \<noteq> []
             \<and> extractSymbolFromAmountHuman (text_of (prop_of p ''amountHuman'')) = Some symb \<and> symb \<noteq> []
           \<longrightarrow> toUpperCase symb = toUpperCase token))"

definition memo_agrees :: "jval obj \<Rightarrow> string option \<Rightarrow> bool" where
  "memo_agrees p expected \<longleftrightarrow>
     (\<forall>e m. expected = Some e \<and> e \<noteq> [] \<and> text_of (prop_of p ''memo'') = Some m \<longrightarrow> m = e)"

fun agrees :: "web3 \<Rightarrow> intent \<Rightarrow> jval obj \<Rightarrow> bool" where
  "agrees w (CreateTransfer s r a m sel) p \<longleftrightarrow>
     same_address w (prop_of p ''sender'') s \<and> same_address w (prop_of p ''recipient'') r
     \<and> amount_agrees p a \<and> token_agrees w sel p \<and> memo_agrees p m"
| "agrees w (ClaimTransfer c t) p \<longleftrightarrow>
     same_address w (prop_of p ''claimer'') c \<and> same_address w (prop_of p ''transferPda'') t"
| "agrees w (CancelTransfer c t) p \<longleftrightarrow>
     same_address w (prop_of p ''sender'') c \<and> same_address w (prop_of p ''transferPda'') t"
| "agrees w (TransferFromAccount ow r a sel) p \<longleftrightarrow>
     same_address w (prop_of p ''signer'') ow \<and> same_address w (prop_of p ''recipient'') r
     \<and> amount_agrees p a \<and> token_agrees w sel p"
| "agrees w (Deposit ow a sel) p \<longleftrightarrow>
     same_address w (prop_of p ''depositor'') ow \<and> amount_agrees p a \<and> token_agrees w sel p"

definition selector_ok :: "string \<Rightarrow> token_selector \<Rightarrow> bool" where
  "selector_ok a sel \<longleftrightarrow> nonempty (ts_token sel) \<noteq> nonempty (ts_address sel) \<and> parseDecimal a \<noteq> None"

fun well_shaped :: "intent \<Rightarrow> bool" where
  "well_shaped (CreateTransfer s r a m sel) = selector_ok a sel"
| "well_shaped (TransferFromAccount ow r a sel) = selector_ok a sel"
| "well_shaped (Deposit ow a sel) = selector_ok a sel"
| "well_shaped _ = True"

lemma AMOUNT_TOLERANCE_value: "dec_value AMOUNT_TOLERANCE = 1 / 10000"
proof -
  have "parseDecimal ''0.0001'' = Some \<lparr>dec_int = 1, dec_scale = 4\<rparr>"
    by (simp add: parseDecimal_def DECIMAL_RE_def unsigned_decimal_re_def stripLeadingZeros_def
        stripTrailingZeros_def js_eval)
  then show ?thesis by (simp add: AMOUNT_TOLERANCE_def dec_value_def)
qed

lemma address_check_iff: "address_check w what actual e = [] \<longleftrightarrow> same_address w actual e"
  by (simp add: address_check_def same_address_def split: option.split)

lemma amountsMatch_spec:
  "\<exists>b. amountsMatch t e = Inr b \<and> (b \<longleftrightarrow> (\<exists>a i. parseDecimal t = Some a \<and> parseDecimal e = Some i \<and>
      within_spec (dec_value i) (dec_value a) (1 / 10000)))"
  by (simp add: amountsMatch_def withinRelativeTolerance_spec AMOUNT_TOLERANCE_value split: option.split)

lemma amount_check_spec: "\<exists>ds. amount_check p e = Inr ds \<and> (ds = [] \<longleftrightarrow> amount_agrees p e)"
proof (cases "rawAmount p")
  case (Some t)
  then show ?thesis using amountsMatch_spec [of t e]
    by (auto simp: amount_check_def amount_agrees_def)
qed (simp add: amount_check_def amount_agrees_def)

lemma token_check_iff: "compareTokenSelector w sel p = [] \<longleftrightarrow> token_agrees w sel p"
  by (auto simp: compareTokenSelector_def token_agrees_def split: option.splits)

lemma memo_check_iff: "memo_check p m = [] \<longleftrightarrow> memo_agrees p m"
  by (auto simp: memo_check_def memo_agrees_def split: option.split)

lemma compare_intent_spec: "\<exists>ds. compare_intent w i p = Inr ds \<and> (ds = [] \<longleftrightarrow> agrees w i p)"
proof (cases i)
  case (CreateTransfer s r a m sel)
  obtain ds where "amount_check p a = Inr ds" "ds = [] \<longleftrightarrow> amount_agrees p a" using amount_check_spec by blast
  then show ?thesis
    by (auto simp: CreateTransfer compare_intent_def address_check_iff token_check_iff memo_check_iff)
next
  case (TransferFromAccount ow r a sel)
  obtain ds where "amount_check p a = Inr ds" "ds = [] \<longleftrightarrow> amount_agrees p a" using amount_check_spec by blast
  then show ?thesis
    by (auto simp: TransferFromAccount compare_intent_def address_check_iff token_check_iff)
next
  case (Deposit ow a sel)
  obtain ds where "amount_check p a = Inr ds" "ds = [] \<longleftrightarrow> amount_agrees p a" using amount_check_spec by blast
  then show ?thesis
    by (auto simp: Deposit compare_intent_def address_check_iff token_check_iff)
qed (auto simp: compare_intent_def address_check_iff)

lemma shape_iff: "validateIntentShape i = [] \<longleftrightarrow> well_shaped i"
  by (cases i) (auto simp: validateIntentShape_def shape_check_def selector_ok_def Let_def)

definition error_free :: "tx_analysis \<Rightarrow> bool" where
  "error_free an \<longleftrightarrow> (\<forall>f \<in> set (ta_flags an). severity f \<noteq> ErrorSev)"

lemma initial_iff: "initial_discrepancies an i = [] \<longleftrightarrow> well_shaped i \<and> error_free an"
  by (auto simp: initial_discrepancies_def shape_iff error_free_def filter_empty_conv)

definition matched_ix :: "tx_analysis \<Rightarrow> intent \<Rightarrow> ix_analysis option" where
  "matched_ix an i = List.find (\<lambda>ix. ia_type ix = Some (intent_type i)) (ta_instructions an)"

lemma verify_v1_iff:
  assumes "analyzeTransaction w tx opts = Inr an"
  shows "\<exists>r. verifyIntent_v1 w tx i opts = Inr r \<and> analysis r = an \<and>
    (verified r \<longleftrightarrow> well_shaped i \<and> error_free an \<and>
       (\<exists>ix. matched_ix an i = Some ix \<and> agrees w i (ia_params ix))) \<and>
    (verified r \<longleftrightarrow> discrepancies r = [])"
proof (cases "matched_ix an i")
  case None
  then show ?thesis by (simp add: verifyIntent_v1_def assms matched_ix_def Let_def)
next
  case (Some ix)
  obtain ds where "compare_intent w i (ia_params ix) = Inr ds" "ds = [] \<longleftrightarrow> agrees w i (ia_params ix)"
    using compare_intent_spec by blast
  then show ?thesis using Some
    using initial_iff [of an i] by (auto simp: verifyIntent_v1_def assms matched_ix_def Let_def)
qed

text \<open>C9. First-version verification decides its specification: on an analysable transaction it returns
  (never throws), and the verdict is positive exactly when the intent is well shaped (numeric
  amount, exactly one token selector), the analysis has no error flag, and the first instruction
  of the intent's type agrees with it: equal normalised addresses, amount within 0.01 per cent of
  the intended one, same token and memo, for each parameter that was decoded. It is positive
  exactly when there is no discrepancy text.\<close>

theorem verify_v1_decides:
  assumes "analyzeTransaction w tx opts = Inr an"
  shows "\<exists>r. verifyIntent_v1 w tx i opts = Inr r \<and> analysis r = an \<and>
    (verified r \<longleftrightarrow> well_shaped i \<and> error_free an \<and>
       (\<exists>ix. matched_ix an i = Some ix \<and> agrees w i (ia_params ix))) \<and>
    (verified r \<longleftrightarrow> discrepancies r = [])"
  using assms by (rule verify_v1_iff)

text \<open>The transactions of the next properties: one handshake instruction.\<close>

definition handshake_tx ::
    "web3 \<Rightarrow> string \<Rightarrow> options \<Rightarrow> string list \<Rightarrow> buffer \<Rightarrow> bool" where
  "handshake_tx w tx opts accounts data \<longleftrightarrow>
     (case deserializeTx w tx of
        Inl e \<Rightarrow> False
      | Inr (fp, raws) \<Rightarrow> (case raws of
            [raw] \<Rightarrow> ri_accounts raw = accounts \<and> ri_data raw = data \<and>
              (case get (reg_programs (loadRegistry (op_config opts))) (ri_programId raw) of
                 None \<Rightarrow> False | Some e \<Rightarrow> pe_decoder e = ''handshake'')
          | _ \<Rightarrow> False))"

definition decimals_of :: "web3 \<Rightarrow> string \<Rightarrow> options \<Rightarrow> string \<Rightarrow> nat" where
  "decimals_of w tx opts mint =
     (case deserializeTx w tx of
        Inl e \<Rightarrow> 6
      | Inr (fp, raws) \<Rightarrow>
          getDecimals (analysis_cache w (loadRegistry (op_config opts)) (op_connection opts) raws) mint)"

lemma handshake_tx_analysis:
  assumes "handshake_tx w tx opts accounts data"
    and "decodeHandshake (pk_bytes w) data accounts = (\<lambda>symb deci. Some (d symb deci))"
  obtains an symb where "analyzeTransaction w tx opts = Inr an" and "error_free an"
    and "length (ta_instructions an) = 1"
    and "ia_type (ta_instructions an ! 0) = Some (dec_type (d symb (decimals_of w tx opts)))"
    and "ia_params (ta_instructions an ! 0) = dec_params (d symb (decimals_of w tx opts))"
proof -
  obtain fp raw e where de: "deserializeTx w tx = Inr (fp, [raw])"
    and raw: "ri_accounts raw = accounts" "ri_data raw = data"
    and e: "get (reg_programs (loadRegistry (op_config opts))) (ri_programId raw) = Some e"
      "pe_decoder e = ''handshake''"
    using assms(1) by (auto simp: handshake_tx_def split: sum.split_asm prod.split_asm list.split_asm option.split_asm)
  obtain an where an: "analyzeTransaction w tx opts = Inr an"
    using de by (simp add: analyzeTransaction_def)
  let ?cache = "analysis_cache w (loadRegistry (op_config opts)) (op_connection opts) [raw]"
  have dec: "decodeInstruction (pk_bytes w) ''handshake'' data accounts ?cache
      = (Some (dec_type (d (getSymbol ?cache) (getDecimals ?cache))), dec_params (d (getSymbol ?cache) (getDecimals ?cache)))"
    using assms(2) by (simp add: decodeInstruction_def run_decoder_def shown_def fun_eq_iff)
  have deci: "getDecimals ?cache = decimals_of w tx opts"
    by (simp add: fun_eq_iff decimals_of_def de)
  have ef: "error_free an"
    using error_flags_iff [OF an de] e(1) by (auto simp: error_free_def)
  have "length (ta_instructions an) = 1"
    and "ia_type (ta_instructions an ! 0) = Some (dec_type (d (getSymbol ?cache) (decimals_of w tx opts)))"
    and "ia_params (ta_instructions an ! 0) = dec_params (d (getSymbol ?cache) (decimals_of w tx opts))"
    using analysis_entries [OF an de] e raw dec deci by (simp_all add: Let_def)
  with an ef show ?thesis by (rule that)
qed

lemma matched_single:
  assumes "length (ta_instructions an) = 1" and "ia_type (ta_instructions an ! 0) = Some (intent_type i)"
  shows "matched_ix an i = Some (ta_instructions an ! 0)"
  using assms by (cases "ta_instructions an") (auto simp: matched_ix_def)

lemma text_of_JStr: "s \<noteq> [] \<Longrightarrow> text_of (JStr s) = Some s"
  by (simp add: text_of_def)

lemma rawAmount_shown:
  assumes "get p ''amount'' = Some (JStr (nat_str n))"
    and "get p ''amountHuman'' = Some (JStr (formatUnits (int n) (int d) @ '' '' @ symb))" and "0 < d"
  shows "rawAmount p = Some (formatUnits (int n) (int d))"
  using assms extractAmount_human [OF assms(3), of "int n" symb] formatUnits_re(2) [OF assms(3), of "int n"]
  by (simp add: rawAmount_def prop_of_def truthy_def text_of_def)

lemma amount_agrees_shown:
  assumes "rawAmount p = Some (formatUnits (int n) (int d))" and "0 < d" and "parseDecimal a = Some e"
  shows "amount_agrees p a \<longleftrightarrow> within_spec (dec_value e) (of_nat n / 10 ^ d) (1 / 10000)"
  using assms formatUnits_value [OF assms(2), of "int n"] by (auto simp: amount_agrees_def)

definition address_selector :: "string \<Rightarrow> token_selector" where
  "address_selector adr = \<lparr>ts_token = None, ts_address = Some adr\<rparr>"

lemma verify_on_shown:
  assumes "analyzeTransaction w tx opts = Inr an" and "error_free an"
    and "length (ta_instructions an) = 1"
    and "ia_type (ta_instructions an ! 0) = Some (intent_type i)"
  shows "\<exists>r. verifyIntent_v1 w tx i opts = Inr r \<and>
    (verified r \<longleftrightarrow> well_shaped i \<and> agrees w i (ia_params (ta_instructions an ! 0)))"
proof -
  have "matched_ix an i = Some (ta_instructions an ! 0)" using assms(3,4) by (rule matched_single)
  then show ?thesis using verify_v1_iff [OF assms(1), of i] assms(2) by auto
qed

text \<open>C10. End to end, verification of an escrow payment is sound and complete: for a transaction that
  carries one encoded \<open>create_transfer\<close>, an intent with a numeric amount that names the token by
  mint address is verified exactly when the sender, the recipient key and the mint in the
  transaction are the intended ones, the encoded base-unit amount over the mint's decimals is
  within 0.01 per cent of the intended amount, and a memo present on both sides is the same.\<close>

theorem verify_create_transfer_exact:
  assumes tx: "handshake_tx w tx opts (S # P # M # rest) (create_transfer_data k nonce amount memo after until @ junk)"
    and args: "length k = 32" "nonce < 2 ^ 64" "amount < 2 ^ 64" "utf8_ok memo"
      "0 \<le> after" "after < 2 ^ 53" "0 \<le> until" "until < 2 ^ 53"
    and keys: "S \<noteq> []" "M \<noteq> []" "pk_bytes w k \<noteq> []" "0 < decimals_of w tx opts M"
    and a: "parseDecimal a = Some e"
  shows "\<exists>res. verifyIntent_v1 w tx (CreateTransfer s r a m (address_selector adr)) opts = Inr res \<and>
    (verified res \<longleftrightarrow> adr \<noteq> [] \<and> normalize_v1 w S = normalize_v1 w s
       \<and> normalize_v1 w (pk_bytes w k) = normalize_v1 w r \<and> normalize_v1 w M = normalize_v1 w adr
       \<and> within_spec (dec_value e) (of_nat amount / 10 ^ decimals_of w tx opts M) (1 / 10000)
       \<and> (\<forall>e. m = Some e \<and> e \<noteq> [] \<and> memo \<noteq> [] \<longrightarrow> memo = e))"
proof -
  let ?i = "CreateTransfer s r a m (address_selector adr)"
  let ?d = "\<lambda>symb deci. decd ''create_transfer''
      [(''sender'', JStr S), (''recipient'', JStr (pk_bytes w k)), (''pool'', JStr P),
       (''mint'', JStr M), (''amount'', JStr (nat_str amount)),
       (''amountHuman'', JStr (formatUnits (int amount) (int (deci M)) @ '' '' @ symb M)),
       (''memo'', if memo = [] then JNull else JStr memo),
       (''claimableAfter'', if after = 0 then JNull else JNum after),
       (''claimableUntil'', if until = 0 then JNull else JNum until),
       (''nonce'', JStr (nat_str nonce))]"
  have dec: "decodeHandshake (pk_bytes w) (create_transfer_data k nonce amount memo after until @ junk)
      (S # P # M # rest) = (\<lambda>symb deci. Some (?d symb deci))"
    by (intro ext create_transfer_decode args keys)
  obtain an symb where an: "analyzeTransaction w tx opts = Inr an" "error_free an" "length (ta_instructions an) = 1"
    and ty: "ia_type (ta_instructions an ! 0) = Some ''create_transfer''"
    and pa: "ia_params (ta_instructions an ! 0) = dec_params (?d symb (decimals_of w tx opts))"
    by (rule handshake_tx_analysis [OF tx dec]) simp
  let ?p = "ia_params (ta_instructions an ! 0)"
  have p: "prop_of ?p ''sender'' = JStr S" "prop_of ?p ''recipient'' = JStr (pk_bytes w k)"
    "prop_of ?p ''mint'' = JStr M" "prop_of ?p ''memo'' = (if memo = [] then JNull else JStr memo)"
    by (simp_all add: pa prop_of_def obj_simps)
  have "rawAmount ?p = Some (formatUnits (int amount) (int (decimals_of w tx opts M)))"
    by (rule rawAmount_shown [OF _ _ keys(4)]) (simp_all add: pa obj_simps)
  then have am: "amount_agrees ?p a \<longleftrightarrow>
      within_spec (dec_value e) (of_nat amount / 10 ^ decimals_of w tx opts M) (1 / 10000)"
    using keys(4) a by (rule amount_agrees_shown)
  have "same_address w (JStr S) s \<longleftrightarrow> normalize_v1 w S = normalize_v1 w s"
    "same_address w (JStr (pk_bytes w k)) r \<longleftrightarrow> normalize_v1 w (pk_bytes w k) = normalize_v1 w r"
    using keys by (simp_all add: same_address_def text_of_JStr)
  moreover have "token_agrees w (address_selector adr) ?p \<longleftrightarrow> (adr \<noteq> [] \<longrightarrow> normalize_v1 w M = normalize_v1 w adr)"
    using keys by (simp add: token_agrees_def p text_of_JStr address_selector_def)
  moreover have "memo_agrees ?p m \<longleftrightarrow> (\<forall>e. m = Some e \<and> e \<noteq> [] \<and> memo \<noteq> [] \<longrightarrow> memo = e)"
    by (auto simp: memo_agrees_def p text_of_def)
  moreover have "well_shaped ?i \<longleftrightarrow> adr \<noteq> []"
    by (simp add: selector_ok_def nonempty_def address_selector_def a)
  ultimately show ?thesis
    using verify_on_shown [OF an, of ?i] ty am by (auto simp: p)
qed

text \<open>Undecodable data is not rejected: a \<open>create_transfer\<close> instruction whose data ends before its
  arguments do is verified against any intent of that type from the same sender with a numeric
  amount and one token selector, whatever recipient, amount, token and memo it names.\<close>

theorem verify_accepts_undecodable:
  assumes tx: "handshake_tx w tx opts (S # rest) data" and data: "is_create_transfer data" "length data < 60"
    and keys: "S \<noteq> []" and shape: "selector_ok a sel"
  shows "\<exists>res. verifyIntent_v1 w tx (CreateTransfer s r a m sel) opts = Inr res \<and>
    (verified res \<longleftrightarrow> normalize_v1 w S = normalize_v1 w s)"
proof -
  let ?i = "CreateTransfer s r a m sel"
  let ?d = "decd ''create_transfer'' [(''sender'', JStr S), (''decodeError'', JStr ''failed to parse args'')]"
  obtain er where er: "read_create_args (pk_bytes w) data 8 = Inl er"
    using read_create_args_short data(2) by blast
  then have dec: "decodeHandshake (pk_bytes w) data (S # rest) = (\<lambda>symb deci. Some ?d)"
    using data(1) by (intro ext)
      (simp add: decodeHandshake_def is_create_transfer_def decode_create_transfer_def Let_def nth_or_undef_def)
  obtain an where an: "analyzeTransaction w tx opts = Inr an" "error_free an" "length (ta_instructions an) = 1"
    and ty: "ia_type (ta_instructions an ! 0) = Some ''create_transfer''"
    and pa: "ia_params (ta_instructions an ! 0) = dec_params ?d"
    by (rule handshake_tx_analysis [OF tx dec]) simp
  let ?p = "ia_params (ta_instructions an ! 0)"
  have p: "prop_of ?p ''sender'' = JStr S" "prop_of ?p ''recipient'' = JUndef" "prop_of ?p ''amount'' = JUndef"
    "prop_of ?p ''mint'' = JUndef" "prop_of ?p ''memo'' = JUndef"
    by (simp_all add: pa prop_of_def obj_simps)
  have "agrees w ?i ?p \<longleftrightarrow> normalize_v1 w S = normalize_v1 w s"
    using keys by (simp add: p same_address_def amount_agrees_def token_agrees_def memo_agrees_def
        rawAmount_def truthy_def text_of_def)
  then show ?thesis
    using verify_on_shown [OF an, of ?i] ty shape by simp
qed

definition HANDSHAKE_PROGRAM :: string where
  "HANDSHAKE_PROGRAM = ''HANDu9uNdnraNbcueGfXhd3UPu6BXfQroKAsSxFhPXEQ''"

lemma handshake_entry: "get (reg_programs REGISTRY) HANDSHAKE_PROGRAM = Some (pe ''Handshake'' ''handshake'')"
  by (simp add: REGISTRY_def HANDSHAKE_PROGRAM_def SYSTEM_PROGRAM_def TOKEN_PROGRAM_def COMPUTE_BUDGET_def obj_simps)

lemma sample_handshake_tx:
  "handshake_tx (sample_web3 (one_ix accounts HANDSHAKE_PROGRAM data)) tx no_options accounts data"
  by (simp add: handshake_tx_def deserialize_sample raw_of_one_ix no_options_def loadRegistry_None
      handshake_entry pe_def)

lemma sample_decimals: "decimals_of (sample_web3 m) tx no_options ''M'' = 6"
proof -
  have "get (createTokenCache (reg_tokens REGISTRY)) ''M'' = None"
    using get_createTokenCache [OF REGISTRY_tokens_distinct, of "''M''"] by (simp add: REGISTRY_def obj_simps)
  then show ?thesis
    by (simp add: decimals_of_def deserialize_sample no_options_def loadRegistry_None analysis_cache_def
        prefetch_def getDecimals_def cached_def)
qed

lemma toString_hex_Nil: "toString_hex b = [] \<longleftrightarrow> b = []"
  by (cases b) (simp_all add: toString_hex_def)

lemma sample_normalize: "normalize_v1 (sample_web3 m) s = s"
  by (simp add: normalize_v1_def sample_web3_def)

theorem verify_v1_decides_witness:
  "\<exists>an r. analyzeTransaction (sample_web3 (one_ix [''A''] ''X'' [])) ''tx'' no_options = Inr an \<and>
     verifyIntent_v1 (sample_web3 (one_ix [''A''] ''X'' [])) ''tx'' (ClaimTransfer ''A'' ''T'') no_options = Inr r \<and>
     analysis r = an"
proof -
  let ?w = "sample_web3 (one_ix [''A''] ''X'' [])"
  obtain an where "analyzeTransaction ?w ''tx'' no_options = Inr an" using analyze_sample by blast
  with verify_v1_decides [OF this, of "ClaimTransfer ''A'' ''T''"] show ?thesis by blast
qed

theorem verify_create_transfer_exact_witness:
  "\<exists>res. verifyIntent_v1
     (sample_web3 (one_ix [''S'', ''P'', ''M''] HANDSHAKE_PROGRAM
        (create_transfer_data (replicate 32 7) 5 1500000 ''rent'' 0 0 @ [])))
     ''tx'' (CreateTransfer ''S'' (toString_hex (replicate 32 7)) ''1.5'' None (address_selector ''M'')) no_options = Inr res
   \<and> verified res"
proof -
  let ?w = "sample_web3 (one_ix [''S'', ''P'', ''M''] HANDSHAKE_PROGRAM
        (create_transfer_data (replicate 32 7) 5 1500000 ''rent'' 0 0 @ []))"
  have "utf8_ok ''rent''" by (intro utf8_ok_ascii) (simp_all add: ascii_def code_def)
  moreover have "pk_bytes ?w (replicate 32 7) = toString_hex (replicate 32 7)" by (simp add: sample_web3_def)
  moreover have "parseDecimal ''1.5'' = Some \<lparr>dec_int = 15, dec_scale = 1\<rparr>"
    by (simp add: parseDecimal_def DECIMAL_RE_def unsigned_decimal_re_def stripLeadingZeros_def
        stripTrailingZeros_def js_eval)
  moreover have "toString_hex (replicate 32 7) \<noteq> []" by (simp add: toString_hex_Nil)
  moreover have "within_spec (dec_value \<lparr>dec_int = 15, dec_scale = 1\<rparr>) (of_nat 1500000 / 10 ^ 6) (1 / 10000)"
    by (simp add: within_spec_def dec_value_def)
  ultimately show ?thesis
    using verify_create_transfer_exact [OF sample_handshake_tx, where k = "replicate 32 7" and nonce = 5
        and amount = 1500000 and memo = "''rent''" and after = 0 and until = 0 and junk = "[]" and tx = "''tx''"
        and S = "''S''" and P = "''P''" and M = "''M''" and rest = "[]" and a = "''1.5''"
        and e = "\<lparr>dec_int = 15, dec_scale = 1\<rparr>" and s = "''S''" and m = None
        and r = "toString_hex (replicate 32 7)" and adr = "''M''"]
    by (simp add: sample_decimals)
qed

theorem verify_accepts_undecodable_witness:
  "\<exists>res. verifyIntent_v1
     (sample_web3 (one_ix [''S''] HANDSHAKE_PROGRAM (disc_of handshake_discriminators ''create_transfer'')))
     ''tx'' (CreateTransfer ''S'' ''anyone'' ''1000000'' None (address_selector ''M'')) no_options = Inr res
   \<and> verified res"
proof -
  let ?data = "disc_of handshake_discriminators ''create_transfer''"
  have ct: "''create_transfer'' \<in> fst ` set handshake_discriminators"
    by (simp add: handshake_discriminators_def)
  have "is_create_transfer ?data"
    using match_disc_of(1) [OF ct, of "[]"] by (simp add: is_create_transfer_def)
  moreover have "length ?data < 60" using length_disc_of(1) [OF ct] by simp
  moreover have "selector_ok ''1000000'' (address_selector ''M'')"
    by (simp add: selector_ok_def address_selector_def nonempty_def parseDecimal_def DECIMAL_RE_def
        unsigned_decimal_re_def js_eval)
  ultimately show ?thesis
    using verify_accepts_undecodable [OF sample_handshake_tx, where S = "''S''" and rest = "[]" and data = ?data
        and a = "''1000000''" and sel = "address_selector ''M''" and tx = "''tx''" and s = "''S''"
        and r = "''anyone''" and m = None]
    by simp
qed

end
