(* ===== verification/Registries.thy ===== *)
theory Registries
  imports Prelude
begin

text \<open>
  Chains and the three name registries: \<^verbatim>\<open>intent/chains.ts\<close>, \<^verbatim>\<open>intent/program-registry.ts\<close> and
  \<^verbatim>\<open>intent/token-registry.ts\<close> of the SDK, and the backend's
  \<^verbatim>\<open>services/chains/solana/program-registry.ts\<close>. The locale \<open>name_registry\<close> is the contract the
  three share: names and addresses resolve consistently and \<open>crossCheck\<close> decides whether a name
  and an address denote the same entry. Chains are lower-cased before use, as the callers do.
\<close>

section \<open>Chains\<close>

definition EVM_CHAINS :: "string list" where
  "EVM_CHAINS =
     [''ethereum'', ''base'', ''polygon'', ''arbitrum'', ''optimism'', ''avalanche'', ''bsc'', ''gnosis'',
      ''zksync'', ''scroll'', ''linea'', ''mantle'']"

record parsed_chain =
  pc_chain :: string
  pc_network :: string

definition parseChain :: "string \<Rightarrow> parsed_chain" where
  "parseChain chainStr =
     (let lower = toLowerCase chainStr; c = takeWhile (\<lambda>x. x \<noteq> CHR '':'') lower
      in if length c = length lower then \<lparr>pc_chain = lower, pc_network = ''mainnet''\<rparr>
         else \<lparr>pc_chain = c, pc_network = drop (length c + 1) lower\<rparr>)"

definition isEvmChain :: "string \<Rightarrow> bool" where
  "isEvmChain chain \<longleftrightarrow> toLowerCase chain \<in> set EVM_CHAINS"

definition normalizeAddress :: "string \<Rightarrow> string \<Rightarrow> string" where
  "normalizeAddress address chain = (if isEvmChain chain then toLowerCase address else address)"

section \<open>Nested maps\<close>

type_synonym 'e nested = "'e obj obj obj"

definition or_empty :: "'v obj option \<Rightarrow> 'v obj" where
  "or_empty ob = (case ob of None \<Rightarrow> [] | Some x \<Rightarrow> x)"

definition chain_network :: "'e nested \<Rightarrow> string \<Rightarrow> string \<Rightarrow> 'e obj" where
  "chain_network m chain network = or_empty (get (or_empty (get m chain)) network)"

definition merge_networks :: "'e obj obj \<Rightarrow> 'e obj obj \<Rightarrow> 'e obj obj" where
  "merge_networks base networks =
     foldl (\<lambda>r (network, entries). put r network (spread (or_empty (get r network)) entries)) base networks"

definition mergeDeep :: "'e nested \<Rightarrow> 'e nested \<Rightarrow> 'e nested" where
  "mergeDeep base overrides =
     foldl (\<lambda>r (chain, networks).
       case get r chain of
         None \<Rightarrow> put r chain networks
       | Some ns \<Rightarrow> put r chain (merge_networks ns networks)) base overrides"

text \<open>\<open>for (const [name, entry] of Object.entries(entries)) if (..) return ..\<close>.\<close>

fun find_address :: "('e \<Rightarrow> string) \<Rightarrow> string \<Rightarrow> string \<Rightarrow> 'e obj \<Rightarrow> (string \<times> 'e) option" where
  "find_address addr chain a [] = None"
| "find_address addr chain a ((name, e) # rest) =
     (if normalizeAddress (addr e) chain = normalizeAddress a chain then Some (name, e)
      else find_address addr chain a rest)"

section \<open>Programs (SDK)\<close>

type_synonym program_addr = string

definition BUNDLED_PROGRAMS :: "program_addr nested" where
  "BUNDLED_PROGRAMS =
     [(''solana'',
       [(''mainnet'',
         [(''handshake'', ''HANDu9uNdnraNbcueGfXhd3UPu6BXfQroKAsSxFhPXEQ''),
          (''silkysig'', ''SiLKos3MCFggwLsjSeuRiCdcs2MLoJNwq59XwTvEwcS''),
          (''jupiter'', ''JUP6LkbZbjS1jKKwapdHNy74zcZ3tLUZoi5QNyVTaV4'')]),
        (''devnet'',
         [(''handshake'', ''HANDu9uNdnraNbcueGfXhd3UPu6BXfQroKAsSxFhPXEQ''),
          (''silkysig'', ''SiLKos3MCFggwLsjSeuRiCdcs2MLoJNwq59XwTvEwcS'')])])]"

record program_info =
  pi_address :: string
  pi_name :: string

definition createProgramRegistry :: "program_addr nested option \<Rightarrow> program_addr nested" where
  "createProgramRegistry overrides =
     mergeDeep BUNDLED_PROGRAMS (case overrides of None \<Rightarrow> [] | Some x \<Rightarrow> x)"

definition program_resolveName :: "program_addr nested \<Rightarrow> string \<Rightarrow> string \<Rightarrow> string \<Rightarrow> program_info option" where
  "program_resolveName programs chain network name =
     (case get (chain_network programs chain network) name of
        None \<Rightarrow> None
      | Some a \<Rightarrow> Some \<lparr>pi_address = a, pi_name = name\<rparr>)"

definition program_resolveAddress :: "program_addr nested \<Rightarrow> string \<Rightarrow> string \<Rightarrow> string \<Rightarrow> program_info option" where
  "program_resolveAddress programs chain network address =
     (case find_address (\<lambda>a. a) chain address (chain_network programs chain network) of
        None \<Rightarrow> None
      | Some (name, a) \<Rightarrow> Some \<lparr>pi_address = a, pi_name = name\<rparr>)"

definition program_crossCheck :: "program_addr nested \<Rightarrow> string \<Rightarrow> string \<Rightarrow> string \<Rightarrow> string \<Rightarrow> bool" where
  "program_crossCheck programs chain network name address =
     (case program_resolveName programs chain network name of
        None \<Rightarrow> False
      | Some r \<Rightarrow> normalizeAddress (pi_address r) chain = normalizeAddress address chain)"

section \<open>Tokens (SDK)\<close>

record token_addr =
  tk_address :: string
  tk_decimals :: nat

record token_info =
  ti_address :: string
  ti_decimals :: nat
  ti_symbol :: string

definition tk :: "string \<Rightarrow> nat \<Rightarrow> token_addr" where
  "tk a d = \<lparr>tk_address = a, tk_decimals = d\<rparr>"

definition BUNDLED_TOKENS :: "token_addr nested" where
  "BUNDLED_TOKENS =
     [(''solana'',
       [(''mainnet'',
         [(''USDC'', tk ''EPjFWdd5AufqSSqeM2qN1xzybapC8G4wEGGkZwyTDt1v'' 6),
          (''USDT'', tk ''Es9vMFrzaCERmJfrF4H2FYD4KCoNkY11McCe8BenwNYB'' 6),
          (''SOL'', tk ''So11111111111111111111111111111111111111112'' 9)]),
        (''devnet'',
         [(''USDC'', tk ''uSDCYMsmqUKxijtDMwPnkJDnSwXkZ3RFWq6cznL5Lt2'' 6),
          (''USDT'', tk ''USdTT7wzvFCGkabDLMfawUm4QZqFm8qVX69SFjcUtXk'' 6)])]),
      (''ethereum'',
       [(''mainnet'',
         [(''USDC'', tk ''0xA0b86991c6218b36c1d19D4a2e9Eb0cE3606eB48'' 6),
          (''USDT'', tk ''0xdAC17F958D2ee523a2206206994597C13D831ec7'' 6),
          (''WETH'', tk ''0xC02aaA39b223FE8D0A0e5C4F27eAD9083C756Cc2'' 18)]),
        (''sepolia'',
         [(''USDC'', tk ''0x7F65D6637485C6744475d0f9220Dce2695b30C3F'' 6),
          (''USDT'', tk ''0x404171543Fec71E8E9Cdac46cA143bc191482e2A'' 6)])]),
      (''polygon'',
       [(''mainnet'',
         [(''USDC'', tk ''0x3c499c542cEF5E3811e1192ce70d8cC03d5c3359'' 6),
          (''USDT'', tk ''0xc2132D05D31c914a87C6611C10748AEb04B58e8F'' 6)]),
        (''amoy'',
         [(''USDC'', tk ''0xac7AB7E28c295275DA0f66E38e7117EAAD2a10Df'' 6),
          (''USDT'', tk ''0x452e6e4e90E21B64DFAF33205E1726D75820947E'' 6)])]),
      (''base'',
       [(''mainnet'',
         [(''USDC'', tk ''0x833589fCD6eDb6E08f4c7C32D4f71b54bdA02913'' 6),
          (''USDT'', tk ''0xfde4C96c8593536E31F229EA8f37b2ADa2699bb2'' 6)]),
        (''sepolia'',
         [(''USDC'', tk ''0x036CbD53842c5426634e7929541eC2318f3dCF7e'' 6)])])]"

definition createTokenRegistry :: "token_addr nested option \<Rightarrow> token_addr nested" where
  "createTokenRegistry overrides =
     mergeDeep BUNDLED_TOKENS (case overrides of None \<Rightarrow> [] | Some x \<Rightarrow> x)"

definition token_resolveSymbol :: "token_addr nested \<Rightarrow> string \<Rightarrow> string \<Rightarrow> string \<Rightarrow> token_info option" where
  "token_resolveSymbol tokens chain network symbol =
     (case get (chain_network tokens chain network) symbol of
        None \<Rightarrow> None
      | Some e \<Rightarrow> Some \<lparr>ti_address = tk_address e, ti_decimals = tk_decimals e, ti_symbol = symbol\<rparr>)"

definition token_resolveAddress :: "token_addr nested \<Rightarrow> string \<Rightarrow> string \<Rightarrow> string \<Rightarrow> token_info option" where
  "token_resolveAddress tokens chain network address =
     (case find_address tk_address chain address (chain_network tokens chain network) of
        None \<Rightarrow> None
      | Some (symbol, e) \<Rightarrow> Some \<lparr>ti_address = tk_address e, ti_decimals = tk_decimals e, ti_symbol = symbol\<rparr>)"

definition token_crossCheck :: "token_addr nested \<Rightarrow> string \<Rightarrow> string \<Rightarrow> string \<Rightarrow> string \<Rightarrow> bool" where
  "token_crossCheck tokens chain network symbol address =
     (case token_resolveSymbol tokens chain network symbol of
        None \<Rightarrow> False
      | Some r \<Rightarrow> normalizeAddress (ti_address r) chain = normalizeAddress address chain)"

section \<open>Programs (backend)\<close>

definition SOLANA_PROGRAMS :: "program_addr obj obj" where
  "SOLANA_PROGRAMS =
     [(''mainnet'',
       [(''handshake'', ''HANDu9uNdnraNbcueGfXhd3UPu6BXfQroKAsSxFhPXEQ''),
        (''silkysig'', ''SiLKos3MCFggwLsjSeuRiCdcs2MLoJNwq59XwTvEwcS''),
        (''jupiter'', ''JUP6LkbZbjS1jKKwapdHNy74zcZ3tLUZoi5QNyVTaV4'')]),
      (''devnet'',
       [(''handshake'', ''HANDu9uNdnraNbcueGfXhd3UPu6BXfQroKAsSxFhPXEQ''),
        (''silkysig'', ''SiLKos3MCFggwLsjSeuRiCdcs2MLoJNwq59XwTvEwcS'')])]"

definition resolveProgramName :: "string \<Rightarrow> string \<Rightarrow> string \<Rightarrow> program_info option" where
  "resolveProgramName chain network name =
     (if chain \<noteq> ''solana'' then None
      else case get (or_empty (get SOLANA_PROGRAMS network)) name of
        None \<Rightarrow> None
      | Some a \<Rightarrow> Some \<lparr>pi_address = a, pi_name = name\<rparr>)"

definition resolveProgramAddress :: "string \<Rightarrow> string \<Rightarrow> string \<Rightarrow> program_info option" where
  "resolveProgramAddress chain network address =
     (if chain \<noteq> ''solana'' then None
      else case find_address (\<lambda>a. a) chain address (or_empty (get SOLANA_PROGRAMS network)) of
        None \<Rightarrow> None
      | Some (name, a) \<Rightarrow> Some \<lparr>pi_address = a, pi_name = name\<rparr>)"

definition crossCheckProgram :: "string \<Rightarrow> string \<Rightarrow> string \<Rightarrow> string \<Rightarrow> bool" where
  "crossCheckProgram chain network name address =
     (case resolveProgramName chain network name of
        None \<Rightarrow> False
      | Some r \<Rightarrow> normalizeAddress (pi_address r) chain = normalizeAddress address chain)"

section \<open>The contract of a registry\<close>

text \<open>
  A registry has, per chain and network, a finite map from names to addresses (\<open>entries\<close>).
  Names resolve through it, an address resolves to its first holder, and \<open>cross\<close> compares.
\<close>

locale name_registry =
  fixes entries :: "string \<Rightarrow> string \<Rightarrow> (string \<times> string) list"
    and by_name :: "string \<Rightarrow> string \<Rightarrow> string \<Rightarrow> string option"
    and by_address :: "string \<Rightarrow> string \<Rightarrow> string \<Rightarrow> (string \<times> string) option"
    and cross :: "string \<Rightarrow> string \<Rightarrow> string \<Rightarrow> string \<Rightarrow> bool"
  assumes by_name: "by_name c n nm = map_of (entries c n) nm"
    and by_address: "by_address c n a = find_address (\<lambda>x. x) c a (entries c n)"
    and cross: "cross c n nm a \<longleftrightarrow>
      (\<exists>b. by_name c n nm = Some b \<and> normalizeAddress b c = normalizeAddress a c)"
begin

lemma address_holder:
  assumes "by_address c n a = Some (nm, b)"
  shows "(nm, b) \<in> set (entries c n)" and "normalizeAddress b c = normalizeAddress a c"
proof -
  have "find_address (\<lambda>x. x) c a es = Some (nm, b) \<Longrightarrow>
      (nm, b) \<in> set es \<and> normalizeAddress b c = normalizeAddress a c" for es
    by (induction es) (auto split: if_splits)
  then show "(nm, b) \<in> set (entries c n)" and "normalizeAddress b c = normalizeAddress a c"
    using assms by (auto simp: by_address)
qed

lemma address_cross:
  assumes "by_address c n a = Some (nm, b)" and "distinct (map fst (entries c n))"
  shows "cross c n nm a" and "by_name c n nm = Some b"
  using address_holder [OF assms(1)] assms(2) by (auto simp: cross by_name)

lemma cross_address:
  assumes "cross c n nm a"
  shows "\<exists>nm' b. by_address c n a = Some (nm', b)"
proof -
  have "(nm, b) \<in> set es \<Longrightarrow> normalizeAddress b c = normalizeAddress a c \<Longrightarrow>
      \<exists>p. find_address (\<lambda>x. x) c a es = Some p" for b es
    by (induction es) auto
  moreover obtain b where "(nm, b) \<in> set (entries c n)" "normalizeAddress b c = normalizeAddress a c"
    using assms by (auto simp: cross by_name dest: map_of_SomeD)
  ultimately show ?thesis by (auto simp: by_address)
qed

lemma name_of_address:
  assumes "by_name c n nm = Some b" and "distinct (map fst (entries c n))"
    and inj: "\<forall>(x, a) \<in> set (entries c n). \<forall>(y, a') \<in> set (entries c n).
      normalizeAddress a c = normalizeAddress a' c \<longrightarrow> x = y"
  shows "by_address c n b = Some (nm, b)"
proof -
  have mem: "(nm, b) \<in> set (entries c n)" using assms(1) by (simp add: by_name map_of_SomeD)
  have "cross c n nm b" using assms(1) by (simp add: cross)
  then obtain nm' b' where r: "by_address c n b = Some (nm', b')" using cross_address by blast
  then have "nm' = nm" using address_holder [OF r] mem inj by fast
  moreover from this have "b' = b" using address_cross(2) [OF r assms(2)] assms(1) by simp
  ultimately show ?thesis using r by simp
qed

end

section \<open>The three registries meet it\<close>

lemma find_address_map:
  "find_address (\<lambda>x. x) c a (map (\<lambda>(s, e). (s, addr e)) es)
   = map_option (\<lambda>(s, e). (s, addr e)) (find_address addr c a es)"
  by (induction es) auto

lemma map_of_map_addr: "map_of (map (\<lambda>(s, e). (s, addr e)) es) k = map_option addr (map_of es k)"
  by (induction es) auto

abbreviation info_pair :: "program_info \<Rightarrow> string \<times> string" where
  "info_pair r \<equiv> (pi_name r, pi_address r)"

definition solana_entries :: "string \<Rightarrow> string \<Rightarrow> (string \<times> string) list" where
  "solana_entries c n = (if c \<noteq> ''solana'' then [] else or_empty (get SOLANA_PROGRAMS n))"

definition token_entries :: "token_addr nested \<Rightarrow> string \<Rightarrow> string \<Rightarrow> (string \<times> string) list" where
  "token_entries tokens c n = map (\<lambda>(s, e). (s, tk_address e)) (chain_network tokens c n)"

interpretation programs: name_registry "chain_network ps"
  "\<lambda>c n nm. map_option pi_address (program_resolveName ps c n nm)"
  "\<lambda>c n a. map_option info_pair (program_resolveAddress ps c n a)"
  "program_crossCheck ps" for ps
  by unfold_locales
    (auto simp: program_resolveName_def program_resolveAddress_def program_crossCheck_def get_def
      split: option.split)

interpretation tokens: name_registry "token_entries ts"
  "\<lambda>c n nm. map_option ti_address (token_resolveSymbol ts c n nm)"
  "\<lambda>c n a. map_option (\<lambda>r. (ti_symbol r, ti_address r)) (token_resolveAddress ts c n a)"
  "token_crossCheck ts" for ts
  by unfold_locales
    (auto simp: token_resolveSymbol_def token_resolveAddress_def token_crossCheck_def get_def token_entries_def
      map_of_map_addr find_address_map split: option.split)

interpretation backend: name_registry solana_entries
  "\<lambda>c n nm. map_option pi_address (resolveProgramName c n nm)"
  "\<lambda>c n a. map_option info_pair (resolveProgramAddress c n a)"
  crossCheckProgram
  by unfold_locales
    (auto simp: resolveProgramName_def resolveProgramAddress_def crossCheckProgram_def get_def solana_entries_def
      split: option.split)

section \<open>Merging\<close>

definition obj2 :: "'e obj obj \<Rightarrow> bool" where
  "obj2 m \<longleftrightarrow> distinct (map fst m) \<and> (\<forall>(k, v) \<in> set m. distinct (map fst v))"

definition obj3 :: "'e nested \<Rightarrow> bool" where
  "obj3 m \<longleftrightarrow> distinct (map fst m) \<and> (\<forall>(k, v) \<in> set m. obj2 v)"

lemma or_empty_simps [simp]: "or_empty None = []" "or_empty (Some x) = x"
  by (simp_all add: or_empty_def)

lemma get_distinct_inner:
  "obj2 m \<Longrightarrow> distinct (map fst (or_empty (get m k)))"
  by (cases "get m k") (auto simp: obj2_def dest: get_Some_in)

lemma merge_networks_lookup:
  assumes "obj2 networks"
  shows "get (or_empty (get (merge_networks base networks) n)) k =
    (case get (or_empty (get networks n)) k of None \<Rightarrow> get (or_empty (get base n)) k | Some v \<Rightarrow> Some v)"
  using assms
proof (induction networks arbitrary: base)
  case Nil
  show ?case by (simp add: merge_networks_def obj_simps)
next
  case (Cons kv rest)
  obtain m es where kv: "kv = (m, es)" by force
  let ?b = "put base m (spread (or_empty (get base m)) es)"
  have "obj2 rest" and d: "distinct (map fst es)" and fresh: "get rest m = None"
    using Cons.prems kv by (auto simp: obj2_def get_def map_of_eq_None_iff image_iff)
  then have "get (or_empty (get (merge_networks ?b rest) n)) k =
      (case get (or_empty (get rest n)) k of None \<Rightarrow> get (or_empty (get ?b n)) k | Some v \<Rightarrow> Some v)"
    using Cons.IH by blast
  then show ?case using fresh d
    by (cases "n = m") (auto simp: kv merge_networks_def obj_simps split: option.split)
qed

lemma mergeDeep_chain:
  assumes "distinct (map fst overrides)"
  shows "get (mergeDeep base overrides) c =
    (case get overrides c of
       None \<Rightarrow> get base c
     | Some ns \<Rightarrow> Some (case get base c of None \<Rightarrow> ns | Some bs \<Rightarrow> merge_networks bs ns))"
  using assms
proof (induction overrides arbitrary: base)
  case Nil
  show ?case by (simp add: mergeDeep_def obj_simps)
next
  case (Cons kv rest)
  obtain m ns where kv: "kv = (m, ns)" by force
  define b where "b = (case get base m of None \<Rightarrow> put base m ns | Some bs \<Rightarrow> put base m (merge_networks bs ns))"
  have fresh: "get rest m = None"
    using Cons.prems kv by (auto simp: get_def map_of_eq_None_iff image_iff)
  have "get (mergeDeep base (kv # rest)) c = get (mergeDeep b rest) c"
    by (simp add: mergeDeep_def kv b_def)
  also have "\<dots> = (case get rest c of None \<Rightarrow> get b c
      | Some ns \<Rightarrow> Some (case get b c of None \<Rightarrow> ns | Some bs \<Rightarrow> merge_networks bs ns))"
    using Cons by simp
  finally show ?case using fresh
    by (cases "c = m") (auto simp: kv b_def obj_simps split: option.split)
qed

lemma mergeDeep_lookup:
  assumes "obj3 overrides"
  shows "get (chain_network (mergeDeep base overrides) c n) k =
    (case get (chain_network overrides c n) k of
       None \<Rightarrow> get (chain_network base c n) k | Some v \<Rightarrow> Some v)"
proof -
  have "obj2 ns" if "get overrides c = Some ns" for ns
    using assms that by (auto simp: obj3_def dest: get_Some_in)
  then show ?thesis
    using assms by (auto simp: chain_network_def mergeDeep_chain obj3_def merge_networks_lookup obj_simps
        split: option.split)
qed

lemma chain_network_bundled:
  "chain_network BUNDLED_PROGRAMS c n = solana_entries c n"
  by (simp add: chain_network_def BUNDLED_PROGRAMS_def solana_entries_def SOLANA_PROGRAMS_def obj_simps)

lemma createProgramRegistry_None: "createProgramRegistry None = BUNDLED_PROGRAMS"
  by (simp add: createProgramRegistry_def mergeDeep_def)

lemma solana_entries_ok:
  "distinct (map fst (solana_entries c n))"
  "\<forall>(x, a) \<in> set (solana_entries c n). \<forall>(y, a') \<in> set (solana_entries c n).
      normalizeAddress a c = normalizeAddress a' c \<longrightarrow> x = y"
  by (auto simp: solana_entries_def SOLANA_PROGRAMS_def obj_simps normalizeAddress_def isEvmChain_def
      EVM_CHAINS_def toLowerCase_def lower_char_def code_def)

text \<open>Overrides win entry by entry: with an override map, a token symbol and a program name resolve
  to the override's entry when it has one for that chain and network, and to the bundled entry
  otherwise; no other bundled entry is lost.\<close>

theorem registry_overrides:
  assumes "obj3 ov" and "obj3 pov"
  shows "token_resolveSymbol (createTokenRegistry (Some ov)) c n s =
      (case token_resolveSymbol ov c n s of
         None \<Rightarrow> token_resolveSymbol BUNDLED_TOKENS c n s | Some r \<Rightarrow> Some r)
    \<and> program_resolveName (createProgramRegistry (Some pov)) c n s =
      (case program_resolveName pov c n s of
         None \<Rightarrow> program_resolveName BUNDLED_PROGRAMS c n s | Some r \<Rightarrow> Some r)"
  using mergeDeep_lookup [OF assms(1), of BUNDLED_TOKENS c n s]
    mergeDeep_lookup [OF assms(2), of BUNDLED_PROGRAMS c n s]
  by (auto simp: token_resolveSymbol_def createTokenRegistry_def program_resolveName_def
      createProgramRegistry_def split: option.split)

theorem registry_overrides_witness:
  "token_resolveSymbol (createTokenRegistry (Some [(''solana'', [(''mainnet'', [(''USDC'', tk ''X'' 9)])])]))
      ''solana'' ''mainnet'' ''USDC'' = Some \<lparr>ti_address = ''X'', ti_decimals = 9, ti_symbol = ''USDC''\<rparr>"
proof -
  let ?ov = "[(''solana'', [(''mainnet'', [(''USDC'', tk ''X'' 9)])])]"
  have "obj3 ?ov" and p: "obj3 ([] :: program_addr nested)" by (simp_all add: obj3_def obj2_def)
  from registry_overrides [OF this, of "''solana''" "''mainnet''" "''USDC''"] show ?thesis
    by (simp add: token_resolveSymbol_def chain_network_def obj_simps tk_def)
qed

lemma eq_char_of_iff: "c = char_of n \<longleftrightarrow> take_bit 8 n = (of_char c :: nat)"
  by (metis char_of_eq_iff)

lemma chain_network_distinct: "obj3 m \<Longrightarrow> distinct (map fst (chain_network m c n))"
proof -
  assume "obj3 m"
  then have "obj2 a" if "get m c = Some a" for a
    using get_Some_in [OF that] by (fastforce simp: obj3_def)
  then have "obj2 (or_empty (get m c))"
    by (cases "get m c") (simp_all add: obj2_def)
  then show ?thesis by (simp add: chain_network_def get_distinct_inner)
qed

lemma token_entries_distinct: "obj3 ts \<Longrightarrow> distinct (map fst (token_entries ts c n))"
  using chain_network_distinct [of ts c n] by (simp add: token_entries_def split_def o_def)

text \<open>Names and addresses agree in both SDK registries: the entry an address resolves to is the one
  its name resolves to and passes the cross-check with that address (case-insensitively on EVM
  chains only), and whenever a name and an address pass the cross-check the address resolves.\<close>

theorem registries_consistent:
  assumes "obj3 ps" and "obj3 ts"
  shows "(program_resolveAddress ps c n a = Some r \<longrightarrow>
        program_crossCheck ps c n (pi_name r) a \<and> program_resolveName ps c n (pi_name r) = Some r)
    \<and> (program_crossCheck ps c n nm a \<longrightarrow> (\<exists>r. program_resolveAddress ps c n a = Some r))
    \<and> (token_resolveAddress ts c n a = Some t \<longrightarrow>
        token_crossCheck ts c n (ti_symbol t) a
        \<and> map_option ti_address (token_resolveSymbol ts c n (ti_symbol t)) = Some (ti_address t))
    \<and> (token_crossCheck ts c n nm a \<longrightarrow> (\<exists>t. token_resolveAddress ts c n a = Some t))"
proof (intro conjI impI)
  assume r: "program_resolveAddress ps c n a = Some r"
  note p = programs.address_cross [of ps c n a "pi_name r" "pi_address r", OF _ chain_network_distinct [OF assms(1)]]
  show "program_crossCheck ps c n (pi_name r) a" using p(1) r by simp
  have "map_option pi_address (program_resolveName ps c n (pi_name r)) = Some (pi_address r)" using p(2) r by simp
  then show "program_resolveName ps c n (pi_name r) = Some r"
    by (auto simp: program_resolveName_def split: option.splits)
next
  assume t: "token_resolveAddress ts c n a = Some t"
  note q = tokens.address_cross [of ts c n a "ti_symbol t" "ti_address t", OF _ token_entries_distinct [OF assms(2)]]
  show "token_crossCheck ts c n (ti_symbol t) a" using q(1) t by simp
  show "map_option ti_address (token_resolveSymbol ts c n (ti_symbol t)) = Some (ti_address t)" using q(2) t by simp
next
  assume "program_crossCheck ps c n nm a"
  then show "\<exists>r. program_resolveAddress ps c n a = Some r" using programs.cross_address by fastforce
next
  assume "token_crossCheck ts c n nm a"
  then show "\<exists>t. token_resolveAddress ts c n a = Some t" using tokens.cross_address by fastforce
qed

lemma BUNDLED_TOKENS_obj3: "obj3 BUNDLED_TOKENS"
  by (simp add: BUNDLED_TOKENS_def obj3_def obj2_def)

lemma BUNDLED_PROGRAMS_obj3: "obj3 BUNDLED_PROGRAMS"
  by (simp add: BUNDLED_PROGRAMS_def obj3_def obj2_def)

theorem registries_consistent_witness:
  "token_crossCheck BUNDLED_TOKENS ''ethereum'' ''mainnet'' ''USDC'' ''0xa0B86991C6218B36C1D19d4A2E9eB0Ce3606Eb48''
   \<and> (\<exists>t. token_resolveAddress BUNDLED_TOKENS ''ethereum'' ''mainnet'' ''0xa0B86991C6218B36C1D19d4A2E9eB0Ce3606Eb48'' = Some t)"
proof -
  have "token_crossCheck BUNDLED_TOKENS ''ethereum'' ''mainnet'' ''USDC'' ''0xa0B86991C6218B36C1D19d4A2E9eB0Ce3606Eb48''"
    by (simp add: token_crossCheck_def token_resolveSymbol_def chain_network_def BUNDLED_TOKENS_def obj_simps
        tk_def normalizeAddress_def isEvmChain_def EVM_CHAINS_def toLowerCase_def lower_char_def code_def
        char_of_eq_iff eq_char_of_iff)
  with registries_consistent [OF BUNDLED_PROGRAMS_obj3 BUNDLED_TOKENS_obj3] show ?thesis by blast
qed

text \<open>C33. The backend's program registry is the SDK's: on every chain, network, name and address its
  three functions return what the SDK registry without overrides returns, and on the bundled
  entries a name's address resolves back to that name.\<close>

theorem backend_registry_agrees:
  "resolveProgramName c n nm = program_resolveName (createProgramRegistry None) c n nm
   \<and> resolveProgramAddress c n a = program_resolveAddress (createProgramRegistry None) c n a
   \<and> crossCheckProgram c n nm a = program_crossCheck (createProgramRegistry None) c n nm a
   \<and> (resolveProgramName c n nm = Some r \<longrightarrow> resolveProgramAddress c n (pi_address r) = Some r)"
proof -
  have n: "resolveProgramName c n nm = program_resolveName (createProgramRegistry None) c n nm"
    by (simp add: resolveProgramName_def program_resolveName_def createProgramRegistry_None
        chain_network_bundled solana_entries_def obj_simps)
  moreover have "resolveProgramAddress c n a = program_resolveAddress (createProgramRegistry None) c n a"
    by (simp add: resolveProgramAddress_def program_resolveAddress_def createProgramRegistry_None
        chain_network_bundled solana_entries_def)
  moreover have "crossCheckProgram c n nm a = program_crossCheck (createProgramRegistry None) c n nm a"
    by (simp add: crossCheckProgram_def program_crossCheck_def n)
  moreover have "resolveProgramAddress c n (pi_address r) = Some r" if r: "resolveProgramName c n nm = Some r"
  proof -
    have "pi_name r = nm" using r by (auto simp: resolveProgramName_def split: option.splits if_splits)
    moreover have "map_option info_pair (resolveProgramAddress c n (pi_address r)) = Some (nm, pi_address r)"
      using backend.name_of_address [of c n nm "pi_address r", OF _ solana_entries_ok] r by simp
    ultimately show ?thesis
      by (cases "resolveProgramAddress c n (pi_address r)") (auto intro: program_info.equality)
  qed
  ultimately show ?thesis by blast
qed

theorem backend_registry_agrees_witness:
  "resolveProgramName ''solana'' ''devnet'' ''silkysig'' = program_resolveName (createProgramRegistry None) ''solana'' ''devnet'' ''silkysig''"
  using backend_registry_agrees by blast

end
