(* ===== verification/Matcher.thy ===== *)
theory Matcher
  imports Analyze Registries
begin

text \<open>
  Intent matching: \<^verbatim>\<open>intent/constraints.ts\<close>, \<^verbatim>\<open>intent/helpers.ts\<close> and \<^verbatim>\<open>intent/matcher.ts\<close> of the
  SDK. An action is its name with its string fields and its amount constraints (an absent field
  is \<open>undefined\<close>); a constraint is a plain value or bounds (\<open>amount_constraint\<close>). A step that
  compares decimals can in principle throw, so the comparison functions return a \<open>result\<close>; that
  they never do is proved.
\<close>

section \<open>Constraints\<close>

definition DEFAULT_TOLERANCE :: string where
  "DEFAULT_TOLERANCE = ''0.0001''"

definition check_bound :: "decimal \<Rightarrow> scalar option \<Rightarrow> (int \<Rightarrow> bool) \<Rightarrow> bool result" where
  "check_bound actual b violates =
     (case b of
        None \<Rightarrow> Inr True
      | Some s \<Rightarrow> (case parseDecimal (scalar_text s) of
            None \<Rightarrow> Inr False
          | Some d \<Rightarrow> bind_result (compareDecimals actual d) (\<lambda>c. Inr (\<not> violates c))))"

definition and_then :: "bool result \<Rightarrow> bool result \<Rightarrow> bool result" where
  "and_then a b = bind_result a (\<lambda>ok. if ok then b else Inr False)"

definition evaluateConstraint :: "amount_constraint \<Rightarrow> string \<Rightarrow> string \<Rightarrow> bool result" where
  "evaluateConstraint c actual tolerance =
     (case (parseDecimal actual, parseDecimal tolerance) of
        (Some a, Some t) \<Rightarrow>
          (case c of
             Plain s \<Rightarrow> (case parseDecimal (scalar_text s) of
                 None \<Rightarrow> Inr False
               | Some e \<Rightarrow> withinRelativeTolerance e a t)
           | Bounded b \<Rightarrow>
               and_then (check_bound a (gte b) (\<lambda>c. c < 0))
              (and_then (check_bound a (lte b) (\<lambda>c. c > 0))
              (and_then (check_bound a (gt b) (\<lambda>c. c \<le> 0))
                        (check_bound a (lt b) (\<lambda>c. c \<ge> 0)))))
      | _ \<Rightarrow> Inr False)"

section \<open>Actions\<close>

record action_intent =
  ac_action :: string
  ac_text :: "string obj"
  ac_amounts :: "amount_constraint obj"

definition KNOWN_ACTIONS :: "string list" where
  "KNOWN_ACTIONS = [''transfer'', ''swap'', ''stake'', ''lend'', ''borrow'', ''approve'', ''withdraw'']"

definition ANCILLARY_TYPES :: "string list" where
  "ANCILLARY_TYPES =
     [''set_compute_unit_price'', ''set_compute_unit_limit'', ''memo'', ''create'', ''create_idempotent'']"

definition isAncillary :: "ix_analysis \<Rightarrow> bool" where
  "isAncillary ix \<longleftrightarrow> (case ia_type ix of None \<Rightarrow> [] | Some t \<Rightarrow> t) \<in> set ANCILLARY_TYPES"

section \<open>Confidence\<close>

datatype confidence = Full | Partial | Unverified

fun confidenceRank :: "confidence \<Rightarrow> nat" where
  "confidenceRank Full = 2"
| "confidenceRank Partial = 1"
| "confidenceRank Unverified = 0"

instantiation confidence :: linorder
begin

definition less_eq_confidence :: "confidence \<Rightarrow> confidence \<Rightarrow> bool" where
  "less_eq_confidence a b \<longleftrightarrow> confidenceRank a \<le> confidenceRank b"

definition less_confidence :: "confidence \<Rightarrow> confidence \<Rightarrow> bool" where
  "less_confidence a b \<longleftrightarrow> confidenceRank a < confidenceRank b"

instance
proof
  fix x y z :: confidence
  show "x < y \<longleftrightarrow> x \<le> y \<and> \<not> y \<le> x" by (auto simp: less_eq_confidence_def less_confidence_def)
  show "x \<le> x" by (simp add: less_eq_confidence_def)
  show "x \<le> y \<Longrightarrow> y \<le> z \<Longrightarrow> x \<le> z" by (simp add: less_eq_confidence_def)
  show "x \<le> y \<Longrightarrow> y \<le> x \<Longrightarrow> x = y" by (cases x; cases y) (simp_all add: less_eq_confidence_def)
  show "x \<le> y \<or> y \<le> x" by (auto simp: less_eq_confidence_def)
qed

end

section \<open>Rendering a constraint\<close>

text \<open>\<open>JSON.stringify\<close> of a constraint (bounds in the order of their declaration).\<close>

definition json_char :: "char \<Rightarrow> string" where
  "json_char c =
     (if c = CHR 0x22 then [CHR 0x5C, CHR 0x22]
      else if c = CHR 0x5C then [CHR 0x5C, CHR 0x5C]
      else if code c = 8 then [CHR 0x5C, CHR ''b'']
      else if code c = 9 then [CHR 0x5C, CHR ''t'']
      else if code c = 10 then [CHR 0x5C, CHR ''n'']
      else if code c = 12 then [CHR 0x5C, CHR ''f'']
      else if code c = 13 then [CHR 0x5C, CHR ''r'']
      else if code c < 32 then CHR 0x5C # ''u00'' @ [hex_digit (code c div 16), hex_digit (code c mod 16)]
      else [c])"

definition json_string :: "string \<Rightarrow> string" where
  "json_string s = dquoted (concat (map json_char s))"

fun json_scalar :: "scalar \<Rightarrow> string" where
  "json_scalar (SStr s) = json_string s"
| "json_scalar (SNum n) = n"

definition json_bound :: "string \<Rightarrow> scalar option \<Rightarrow> string list" where
  "json_bound k b = (case b of None \<Rightarrow> [] | Some s \<Rightarrow> [dquoted k @ '':'' @ json_scalar s])"

fun json_constraint :: "amount_constraint \<Rightarrow> string" where
  "json_constraint (Plain s) = json_scalar s"
| "json_constraint (Bounded b) =
     ''{'' @ join '','' (json_bound ''gte'' (gte b) @ json_bound ''lte'' (lte b)
                       @ json_bound ''gt'' (gt b) @ json_bound ''lt'' (lt b)) @ ''}''"

section \<open>Comparing the fields of an action\<close>

definition text_field :: "action_intent \<Rightarrow> string \<Rightarrow> string option" where
  "text_field a f = (case get (ac_text a) f of None \<Rightarrow> None | Some s \<Rightarrow> if s = [] then None else Some s)"

definition ADDRESS_FIELDS :: "string list" where
  "ADDRESS_FIELDS = [''from'', ''to'', ''owner'', ''spender'', ''validator'']"

definition AMOUNT_FIELDS :: "string list" where
  "AMOUNT_FIELDS = [''amount'', ''amountIn'', ''amountOut'']"

definition compare_address :: "action_intent \<Rightarrow> jval obj \<Rightarrow> string \<Rightarrow> string \<Rightarrow> string list" where
  "compare_address action params chain field =
     (case (text_field action field, text_of (prop_of params field)) of
        (Some i, Some p) \<Rightarrow>
          if normalizeAddress i chain \<noteq> normalizeAddress p chain
          then [''Field '' @ quoted field @ '' mismatch: expected '' @ i @ '', got '' @ p] else []
      | _ \<Rightarrow> [])"

definition human_key :: "string \<Rightarrow> string" where
  "human_key field = (if field = ''amount'' then ''amountHuman'' else field @ ''Human'')"

definition compare_amount :: "action_intent \<Rightarrow> jval obj \<Rightarrow> string \<Rightarrow> string list result" where
  "compare_amount action params field =
     (case (get (ac_amounts action) field, text_of (prop_of params (human_key field))) of
        (Some c, Some h) \<Rightarrow>
          (case extractAmountFromHuman (Some h) of
             None \<Rightarrow> Inr []
           | Some actual \<Rightarrow>
               bind_result (evaluateConstraint c actual DEFAULT_TOLERANCE) (\<lambda>ok.
                 Inr (if ok then []
                      else [''Field '' @ quoted field @ '' mismatch: expected '' @ json_constraint c @ '', got '' @ h])))
      | _ \<Rightarrow> Inr [])"

definition compare_memo :: "action_intent \<Rightarrow> jval obj \<Rightarrow> string list" where
  "compare_memo action params =
     (case (text_field action ''memo'', text_of (prop_of params ''memo'')) of
        (Some i, Some p) \<Rightarrow>
          if i \<noteq> p then [''Memo mismatch: expected '' @ dquoted i @ '', got '' @ dquoted p] else []
      | _ \<Rightarrow> [])"

fun compare_amounts :: "action_intent \<Rightarrow> jval obj \<Rightarrow> string list \<Rightarrow> string list result" where
  "compare_amounts action params [] = Inr []"
| "compare_amounts action params (f # fs) =
     bind_result (compare_amount action params f) (\<lambda>ds.
       bind_result (compare_amounts action params fs) (\<lambda>more. Inr (ds @ more)))"

definition compareFields :: "action_intent \<Rightarrow> jval obj \<Rightarrow> string \<Rightarrow> string list result" where
  "compareFields action params chain =
     bind_result (compare_amounts action params AMOUNT_FIELDS) (\<lambda>amounts.
       Inr (concat (map (compare_address action params chain) ADDRESS_FIELDS) @ amounts
            @ compare_memo action params))"

section \<open>Matching\<close>

record single_result =
  sr_confidence :: confidence
  sr_discrepancies :: "string list"
  sr_matchedIndex :: "nat option"

record match_result =
  mr_matched :: bool
  mr_confidence :: confidence
  mr_discrepancies :: "string list"

definition find_ix :: "action_intent \<Rightarrow> ix_analysis list \<Rightarrow> nat list \<Rightarrow> ix_analysis option" where
  "find_ix action instructions used =
     List.find (\<lambda>ix. ia_type ix = Some (ac_action action) \<and> ia_index ix \<notin> set used) instructions"

definition program_check :: "string option \<Rightarrow> ix_analysis \<Rightarrow> string list" where
  "program_check expectedProgram ix =
     (case expectedProgram of
        None \<Rightarrow> []
      | Some e \<Rightarrow> if e \<noteq> [] \<and> ia_programId ix \<noteq> e
          then [''Expected program '' @ e @ '' but instruction calls '' @ ia_programId ix] else [])"

definition matchSingleAction ::
    "action_intent \<Rightarrow> ix_analysis list \<Rightarrow> nat list \<Rightarrow> string \<Rightarrow> string option \<Rightarrow> single_result result" where
  "matchSingleAction action instructions used chain expectedProgram =
     (case find_ix action instructions used of
        None \<Rightarrow> Inr \<lparr>sr_confidence = Full,
            sr_discrepancies = [''Expected a '' @ quoted (ac_action action)
              @ '' instruction but none was found in the transaction.''],
            sr_matchedIndex = None\<rparr>
      | Some match \<Rightarrow>
          let ds = program_check expectedProgram match in
          if ac_action action \<notin> set KNOWN_ACTIONS
          then Inr \<lparr>sr_confidence = Unverified, sr_discrepancies = ds, sr_matchedIndex = Some (ia_index match)\<rparr>
          else bind_result (compareFields action (ia_params match) chain) (\<lambda>fs.
            Inr \<lparr>sr_confidence = Full, sr_discrepancies = ds @ fs, sr_matchedIndex = Some (ia_index match)\<rparr>))"

record match_state =
  ms_discrepancies :: "string list"
  ms_lowest :: confidence
  ms_used :: "nat list"

definition match_step ::
    "ix_analysis list \<Rightarrow> string \<Rightarrow> string option \<Rightarrow> match_state \<Rightarrow> action_intent \<Rightarrow> match_state result" where
  "match_step instructions chain expectedProgram st action =
     bind_result (matchSingleAction action instructions (ms_used st) chain expectedProgram) (\<lambda>r.
       Inr \<lparr>ms_discrepancies = ms_discrepancies st @ sr_discrepancies r,
            ms_lowest = (if sr_confidence r < ms_lowest st then sr_confidence r else ms_lowest st),
            ms_used = (case sr_matchedIndex r of None \<Rightarrow> ms_used st | Some i \<Rightarrow> i # ms_used st)\<rparr>)"

fun match_actions ::
    "ix_analysis list \<Rightarrow> string \<Rightarrow> string option \<Rightarrow> match_state \<Rightarrow> action_intent list \<Rightarrow> match_state result" where
  "match_actions instructions chain expectedProgram st [] = Inr st"
| "match_actions instructions chain expectedProgram st (a # as) =
     bind_result (match_step instructions chain expectedProgram st a) (\<lambda>st'.
       match_actions instructions chain expectedProgram st' as)"

definition strict_check :: "ix_analysis list \<Rightarrow> nat list \<Rightarrow> string list" where
  "strict_check instructions used =
     concat (map (\<lambda>ix. if ia_index ix \<notin> set used \<and> \<not> isAncillary ix
       then [''Strict mode: instruction '' @ nat_str (ia_index ix) @ '' (''
         @ (case ia_type ix of None \<Rightarrow> ia_programId ix | Some t \<Rightarrow> t) @ '') is not part of the intent.'']
       else []) instructions)"

definition matchIntent ::
    "action_intent list \<Rightarrow> ix_analysis list \<Rightarrow> risk_flag list \<Rightarrow> string \<Rightarrow> bool \<Rightarrow> string option
       \<Rightarrow> match_result result" where
  "matchIntent actions instructions globalFlags chain strict expectedProgram =
     bind_result (match_actions instructions chain expectedProgram
         \<lparr>ms_discrepancies = map fl_message (filter (\<lambda>f. severity f = ErrorSev) globalFlags),
          ms_lowest = Full, ms_used = []\<rparr> actions) (\<lambda>st.
       let ds = ms_discrepancies st @ (if strict then strict_check instructions (ms_used st) else [])
       in Inr \<lparr>mr_matched = (ds = [] \<and> ms_lowest st \<noteq> Unverified),
               mr_confidence = ms_lowest st, mr_discrepancies = ds\<rparr>)"

section \<open>What a constraint means\<close>

definition meets :: "(rat \<Rightarrow> rat \<Rightarrow> bool) \<Rightarrow> rat \<Rightarrow> scalar option \<Rightarrow> bool" where
  "meets rel x b = (case b of None \<Rightarrow> True
     | Some s \<Rightarrow> (case parseDecimal (scalar_text s) of None \<Rightarrow> False | Some d \<Rightarrow> rel x (dec_value d)))"

fun satisfies :: "amount_constraint \<Rightarrow> rat \<Rightarrow> bool" where
  "satisfies (Plain s) x =
     (case parseDecimal (scalar_text s) of None \<Rightarrow> False | Some e \<Rightarrow> within_spec (dec_value e) x (1 / 10000))"
| "satisfies (Bounded b) x =
     (meets (\<ge>) x (gte b) \<and> meets (\<le>) x (lte b) \<and> meets (>) x (gt b) \<and> meets (<) x (lt b))"

lemma sign_of_cases:
  "sign_of q < 0 \<longleftrightarrow> q < 0" "sign_of q > 0 \<longleftrightarrow> q > 0" "sign_of q \<le> 0 \<longleftrightarrow> q \<le> 0" "sign_of q \<ge> 0 \<longleftrightarrow> q \<ge> 0"
  by (auto simp: sign_of_def)

lemma check_bound_spec:
  "check_bound a b (\<lambda>c. c < 0) = Inr (meets (\<ge>) (dec_value a) b)"
  "check_bound a b (\<lambda>c. c > 0) = Inr (meets (\<le>) (dec_value a) b)"
  "check_bound a b (\<lambda>c. c \<le> 0) = Inr (meets (>) (dec_value a) b)"
  "check_bound a b (\<lambda>c. c \<ge> 0) = Inr (meets (<) (dec_value a) b)"
  by (auto simp: check_bound_def meets_def compareDecimals_sign sign_of_cases not_less not_le split: option.split)

lemma and_then_Inr: "and_then (Inr a) (Inr b) = Inr (a \<and> b)"
  by (simp add: and_then_def)

lemma DEFAULT_TOLERANCE_parsed: "parseDecimal DEFAULT_TOLERANCE = Some \<lparr>dec_int = 1, dec_scale = 4\<rparr>"
  by (simp add: DEFAULT_TOLERANCE_def parseDecimal_def DECIMAL_RE_def unsigned_decimal_re_def stripLeadingZeros_def
      stripTrailingZeros_def js_eval)

lemma default_tolerance_rat: "dec_value \<lparr>dec_int = 1, dec_scale = 4\<rparr> = 1 / 10000"
  by (simp add: dec_value_def)

lemma evaluateConstraint_spec:
  "evaluateConstraint c actual DEFAULT_TOLERANCE =
   Inr (case parseDecimal actual of None \<Rightarrow> False | Some a \<Rightarrow> satisfies c (dec_value a))"
  by (cases c) (auto simp: evaluateConstraint_def withinRelativeTolerance_spec check_bound_spec and_then_Inr
      DEFAULT_TOLERANCE_parsed default_tolerance_rat split: option.split)

text \<open>Constraints are evaluated exactly: an actual amount satisfies a plain value when it is within
  0.01 per cent of it, and bounds when it lies in the rational interval they describe (a bound or
  an actual amount that is no decimal fails, absent bounds are no restriction); nothing is thrown
  and no rounding occurs.\<close>

theorem evaluateConstraint_exact:
  "evaluateConstraint c actual DEFAULT_TOLERANCE =
   Inr (case parseDecimal actual of None \<Rightarrow> False | Some a \<Rightarrow> satisfies c (dec_value a))"
  by (rule evaluateConstraint_spec)

section \<open>What a match means\<close>

text \<open>
  \<open>fields_agree\<close> is the specification of the field comparison. The greedy assignment gives each
  action the first instruction of its type that no earlier action has taken.
\<close>

definition address_agrees :: "action_intent \<Rightarrow> jval obj \<Rightarrow> string \<Rightarrow> string \<Rightarrow> bool" where
  "address_agrees action params chain f \<longleftrightarrow>
     (\<forall>i p. text_field action f = Some i \<and> text_of (prop_of params f) = Some p \<longrightarrow>
        normalizeAddress i chain = normalizeAddress p chain)"

definition shown_amount :: "jval obj \<Rightarrow> string \<Rightarrow> string option" where
  "shown_amount params f = extractAmountFromHuman (text_of (prop_of params (human_key f)))"

definition amount_field_agrees :: "action_intent \<Rightarrow> jval obj \<Rightarrow> string \<Rightarrow> bool" where
  "amount_field_agrees action params f \<longleftrightarrow>
     (\<forall>c t. get (ac_amounts action) f = Some c \<and> shown_amount params f = Some t \<longrightarrow>
        (\<exists>a. parseDecimal t = Some a \<and> satisfies c (dec_value a)))"

definition memo_field_agrees :: "action_intent \<Rightarrow> jval obj \<Rightarrow> bool" where
  "memo_field_agrees action params \<longleftrightarrow>
     (\<forall>i p. text_field action ''memo'' = Some i \<and> text_of (prop_of params ''memo'') = Some p \<longrightarrow> i = p)"

definition fields_agree :: "action_intent \<Rightarrow> jval obj \<Rightarrow> string \<Rightarrow> bool" where
  "fields_agree action params chain \<longleftrightarrow>
     (\<forall>f \<in> set ADDRESS_FIELDS. address_agrees action params chain f)
     \<and> (\<forall>f \<in> set AMOUNT_FIELDS. amount_field_agrees action params f)
     \<and> memo_field_agrees action params"

definition program_agrees :: "string option \<Rightarrow> ix_analysis \<Rightarrow> bool" where
  "program_agrees expected ix \<longleftrightarrow> (\<forall>e. expected = Some e \<and> e \<noteq> [] \<longrightarrow> ia_programId ix = e)"

definition action_agrees :: "action_intent \<Rightarrow> string \<Rightarrow> string option \<Rightarrow> ix_analysis \<Rightarrow> bool" where
  "action_agrees action chain expected ix \<longleftrightarrow>
     ia_type ix = Some (ac_action action) \<and> ac_action action \<in> set KNOWN_ACTIONS
     \<and> program_agrees expected ix \<and> fields_agree action (ia_params ix) chain"

fun greedy :: "action_intent list \<Rightarrow> ix_analysis list \<Rightarrow> nat list \<Rightarrow> ix_analysis option list" where
  "greedy [] ixs used = []"
| "greedy (a # as) ixs used =
     (case find_ix a ixs used of
        None \<Rightarrow> None # greedy as ixs used
      | Some ix \<Rightarrow> Some ix # greedy as ixs (ia_index ix # used))"

lemma compare_address_iff: "compare_address action params chain f = [] \<longleftrightarrow> address_agrees action params chain f"
  by (auto simp: compare_address_def address_agrees_def split: option.split)

lemma extract_None [simp]: "extractAmountFromHuman None = None"
  by (simp add: extractAmountFromHuman_def)

lemma compare_amount_spec:
  "\<exists>ds. compare_amount action params f = Inr ds \<and> (ds = [] \<longleftrightarrow> amount_field_agrees action params f)"
  by (auto simp: compare_amount_def amount_field_agrees_def shown_amount_def evaluateConstraint_spec
      split: option.split)

lemma compare_amounts_spec:
  "\<exists>ds. compare_amounts action params fs = Inr ds \<and> (ds = [] \<longleftrightarrow> (\<forall>f \<in> set fs. amount_field_agrees action params f))"
proof (induction fs)
  case (Cons f fs)
  obtain ds where "compare_amount action params f = Inr ds" "ds = [] \<longleftrightarrow> amount_field_agrees action params f"
    using compare_amount_spec by blast
  with Cons show ?case by auto
qed simp

lemma compare_memo_iff: "compare_memo action params = [] \<longleftrightarrow> memo_field_agrees action params"
  by (auto simp: compare_memo_def memo_field_agrees_def split: option.split)

lemma compareFields_spec:
  "\<exists>ds. compareFields action params chain = Inr ds \<and> (ds = [] \<longleftrightarrow> fields_agree action params chain)"
proof -
  obtain am where "compare_amounts action params AMOUNT_FIELDS = Inr am"
    "am = [] \<longleftrightarrow> (\<forall>f \<in> set AMOUNT_FIELDS. amount_field_agrees action params f)"
    using compare_amounts_spec by blast
  then show ?thesis
    by (auto simp: compareFields_def fields_agree_def compare_address_iff compare_memo_iff)
qed

lemma program_check_iff: "program_check expected ix = [] \<longleftrightarrow> program_agrees expected ix"
  by (auto simp: program_check_def program_agrees_def split: option.split)

lemma find_ix_Some:
  "find_ix a ixs used = Some ix \<Longrightarrow> ix \<in> set ixs \<and> ia_type ix = Some (ac_action a) \<and> ia_index ix \<notin> set used"
  by (auto simp: find_ix_def find_Some_iff)

lemma matchSingle_spec:
  "\<exists>r. matchSingleAction a ixs used chain expected = Inr r \<and>
     sr_matchedIndex r = map_option ia_index (find_ix a ixs used) \<and>
     (sr_discrepancies r = [] \<and> sr_confidence r \<noteq> Unverified \<longleftrightarrow>
        (\<exists>ix. find_ix a ixs used = Some ix \<and> action_agrees a chain expected ix))"
proof (cases "find_ix a ixs used")
  case (Some ix)
  obtain ds where "compareFields a (ia_params ix) chain = Inr ds" "ds = [] \<longleftrightarrow> fields_agree a (ia_params ix) chain"
    using compareFields_spec by blast
  then show ?thesis using Some find_ix_Some [OF Some]
    by (auto simp: matchSingleAction_def Let_def program_check_iff action_agrees_def)
qed (simp add: matchSingleAction_def)

definition pairs_agree ::
    "action_intent list \<Rightarrow> ix_analysis option list \<Rightarrow> string \<Rightarrow> string option \<Rightarrow> bool" where
  "pairs_agree as ms chain expected \<longleftrightarrow>
     list_all2 (\<lambda>a m. \<exists>ix. m = Some ix \<and> action_agrees a chain expected ix) as ms"

lemma lower_confidence:
  "(if c < l then c else l) \<noteq> Unverified \<longleftrightarrow> c \<noteq> Unverified \<and> l \<noteq> (Unverified :: confidence)"
  by (cases c; cases l) (simp_all add: less_confidence_def)

lemma match_actions_spec:
  "\<exists>st'. match_actions ixs chain expected st as = Inr st' \<and>
     (ms_discrepancies st' = [] \<and> ms_lowest st' \<noteq> Unverified \<longleftrightarrow>
        ms_discrepancies st = [] \<and> ms_lowest st \<noteq> Unverified
        \<and> pairs_agree as (greedy as ixs (ms_used st)) chain expected) \<and>
     set (ms_used st') = set (ms_used st) \<union> {ia_index ix |ix. Some ix \<in> set (greedy as ixs (ms_used st))}"
proof (induction as arbitrary: st)
  case Nil
  show ?case by (simp add: pairs_agree_def)
next
  case (Cons a as)
  obtain r where r: "matchSingleAction a ixs (ms_used st) chain expected = Inr r"
    and ri: "sr_matchedIndex r = map_option ia_index (find_ix a ixs (ms_used st))"
    and rok: "sr_discrepancies r = [] \<and> sr_confidence r \<noteq> Unverified \<longleftrightarrow>
        (\<exists>ix. find_ix a ixs (ms_used st) = Some ix \<and> action_agrees a chain expected ix)"
    using matchSingle_spec by blast
  define st1 where "st1 = \<lparr>ms_discrepancies = ms_discrepancies st @ sr_discrepancies r,
            ms_lowest = (if sr_confidence r < ms_lowest st then sr_confidence r else ms_lowest st),
            ms_used = (case sr_matchedIndex r of None \<Rightarrow> ms_used st | Some i \<Rightarrow> i # ms_used st)\<rparr>"
  have step: "match_step ixs chain expected st a = Inr st1"
    by (simp add: match_step_def r st1_def)
  have ok: "ms_discrepancies st1 = [] \<and> ms_lowest st1 \<noteq> Unverified \<longleftrightarrow>
      ms_discrepancies st = [] \<and> ms_lowest st \<noteq> Unverified \<and>
      (\<exists>ix. find_ix a ixs (ms_used st) = Some ix \<and> action_agrees a chain expected ix)"
    using rok lower_confidence [of "sr_confidence r" "ms_lowest st"]
    unfolding st1_def match_state.simps append_is_Nil_conv by blast
  have us1: "ms_used st1 = (case find_ix a ixs (ms_used st) of None \<Rightarrow> ms_used st | Some ix \<Rightarrow> ia_index ix # ms_used st)"
    by (simp add: st1_def ri split: option.split)
  obtain st' where st': "match_actions ixs chain expected st1 as = Inr st'"
    and ok': "ms_discrepancies st' = [] \<and> ms_lowest st' \<noteq> Unverified \<longleftrightarrow>
        ms_discrepancies st1 = [] \<and> ms_lowest st1 \<noteq> Unverified
        \<and> pairs_agree as (greedy as ixs (ms_used st1)) chain expected"
    and us: "set (ms_used st') = set (ms_used st1) \<union> {ia_index ix |ix. Some ix \<in> set (greedy as ixs (ms_used st1))}"
    using Cons.IH by blast
  have "match_actions ixs chain expected st (a # as) = Inr st'"
    by (simp add: step st')
  moreover have "ms_discrepancies st' = [] \<and> ms_lowest st' \<noteq> Unverified \<longleftrightarrow>
      ms_discrepancies st = [] \<and> ms_lowest st \<noteq> Unverified
      \<and> pairs_agree (a # as) (greedy (a # as) ixs (ms_used st)) chain expected"
  proof (cases "find_ix a ixs (ms_used st)")
    case None
    then show ?thesis using ok ok' by (simp add: pairs_agree_def)
  next
    case (Some ix)
    then have "pairs_agree (a # as) (greedy (a # as) ixs (ms_used st)) chain expected \<longleftrightarrow>
        action_agrees a chain expected ix \<and> pairs_agree as (greedy as ixs (ms_used st1)) chain expected"
      by (simp add: pairs_agree_def us1)
    then show ?thesis using ok ok' Some by auto
  qed
  moreover have "set (ms_used st') = set (ms_used st)
      \<union> {ia_index ix |ix. Some ix \<in> set (greedy (a # as) ixs (ms_used st))}"
    unfolding us by (cases "find_ix a ixs (ms_used st)") (auto simp: us1)
  ultimately show ?case by blast
qed

definition all_accounted :: "ix_analysis list \<Rightarrow> ix_analysis option list \<Rightarrow> bool" where
  "all_accounted ixs ms \<longleftrightarrow>
     (\<forall>ix \<in> set ixs. isAncillary ix \<or> (\<exists>m. Some m \<in> set ms \<and> ia_index m = ia_index ix))"

lemma strict_check_iff: "strict_check ixs used = [] \<longleftrightarrow> (\<forall>ix \<in> set ixs. ia_index ix \<in> set used \<or> isAncillary ix)"
  by (auto simp: strict_check_def)

lemma matchIntent_spec:
  "\<exists>r. matchIntent as ixs flags chain strict expected = Inr r \<and>
     (mr_matched r \<longleftrightarrow> (\<forall>f \<in> set flags. severity f \<noteq> ErrorSev)
        \<and> pairs_agree as (greedy as ixs []) chain expected
        \<and> (strict \<longrightarrow> all_accounted ixs (greedy as ixs [])))
     \<and> (mr_matched r \<longrightarrow> mr_discrepancies r = [])"
proof -
  let ?st = "\<lparr>ms_discrepancies = map fl_message (filter (\<lambda>f. severity f = ErrorSev) flags),
          ms_lowest = Full, ms_used = []\<rparr>"
  obtain st' where st': "match_actions ixs chain expected ?st as = Inr st'"
    and ok: "ms_discrepancies st' = [] \<and> ms_lowest st' \<noteq> Unverified \<longleftrightarrow>
        ms_discrepancies ?st = [] \<and> ms_lowest ?st \<noteq> Unverified
        \<and> pairs_agree as (greedy as ixs []) chain expected"
    and us: "set (ms_used st') = {ia_index ix |ix. Some ix \<in> set (greedy as ixs [])}"
    using match_actions_spec [of ixs chain expected ?st as] by auto
  have "ia_index ix \<in> set (ms_used st') \<longleftrightarrow>
      (\<exists>m. Some m \<in> set (greedy as ixs []) \<and> ia_index m = ia_index ix)" for ix
    unfolding us mem_Collect_eq by metis
  then have "all_accounted ixs (greedy as ixs []) \<longleftrightarrow> strict_check ixs (ms_used st') = []"
    unfolding strict_check_iff all_accounted_def by blast
  then show ?thesis
    using ok by (auto simp: matchIntent_def st' Let_def filter_empty_conv)
qed

lemma greedy_fresh: "Some ix \<in> set (greedy as ixs used) \<Longrightarrow> ia_index ix \<notin> set used \<and> ix \<in> set ixs"
proof (induction as arbitrary: used)
  case (Cons a as)
  then show ?case
    using find_ix_Some [of a ixs used] by (cases "find_ix a ixs used") fastforce+
qed simp

lemma greedy_distinct:
  "distinct (map ia_index (map the (filter (\<lambda>m. m \<noteq> None) (greedy as ixs used))))"
proof (induction as arbitrary: used)
  case (Cons a as)
  show ?case
  proof (cases "find_ix a ixs used")
    case (Some ix)
    have "ia_index ix \<noteq> ia_index m" if "Some m \<in> set (greedy as ixs (ia_index ix # used))" for m
      using greedy_fresh [OF that] by auto
    then show ?thesis using Some Cons.IH by force
  qed (use Cons.IH in simp)
qed simp

text \<open>C12. The matcher decides its specification and never throws. It matches exactly when no global flag
  is an error, every action has its own instruction in the greedy assignment (first instruction
  of the action's type not taken by an earlier action) that is a known action, calls the expected
  program and agrees in every address, amount and memo field both sides have, and, in strict mode,
  every other instruction is ancillary. No instruction is counted for two actions.\<close>

theorem matchIntent_decides:
  "(\<exists>r. matchIntent as ixs flags chain strict expected = Inr r \<and>
     (mr_matched r \<longleftrightarrow> (\<forall>f \<in> set flags. severity f \<noteq> ErrorSev)
        \<and> pairs_agree as (greedy as ixs []) chain expected
        \<and> (strict \<longrightarrow> all_accounted ixs (greedy as ixs [])))
     \<and> (mr_matched r \<longrightarrow> mr_discrepancies r = []))
   \<and> distinct (map ia_index (map the (filter (\<lambda>m. m \<noteq> None) (greedy as ixs []))))"
  using matchIntent_spec greedy_distinct by blast

theorem matchIntent_decides_witness:
  "\<exists>r. matchIntent [\<lparr>ac_action = ''transfer'', ac_text = [(''to'', ''R'')], ac_amounts = []\<rparr>]
      [\<lparr>ia_index = 0, ia_programId = ''P'', ia_programName = None, ia_type = Some ''transfer'', ia_known = True,
        ia_params = [(''to'', JStr ''R'')], ia_flags = []\<rparr>] [] ''solana'' True None = Inr r \<and> mr_matched r"
proof -
  let ?a = "\<lparr>ac_action = ''transfer'', ac_text = [(''to'', ''R'')], ac_amounts = []\<rparr>"
  let ?ix = "\<lparr>ia_index = 0, ia_programId = ''P'', ia_programName = None, ia_type = Some ''transfer'',
    ia_known = True, ia_params = [(''to'', JStr ''R'')], ia_flags = []\<rparr> :: ix_analysis"
  have g: "greedy [?a] [?ix] [] = [Some ?ix]" by (simp add: find_ix_def)
  have "fields_agree ?a (ia_params ?ix) ''solana''"
    by (auto simp: fields_agree_def ADDRESS_FIELDS_def AMOUNT_FIELDS_def address_agrees_def
        amount_field_agrees_def memo_field_agrees_def text_field_def prop_of_def text_of_def obj_simps)
  then have "pairs_agree [?a] [Some ?ix] ''solana'' None"
    by (simp add: pairs_agree_def action_agrees_def KNOWN_ACTIONS_def program_agrees_def)
  with matchIntent_decides [of "[?a]" "[?ix]" "[]" "''solana''" True None] show ?thesis
    unfolding g by (auto simp: all_accounted_def)
qed

section \<open>Fields the matcher does not read\<close>

definition with_token :: "string \<Rightarrow> string \<Rightarrow> action_intent \<Rightarrow> action_intent" where
  "with_token address symbol a =
     a\<lparr>ac_text := put (put (ac_text a) ''token'' address) ''tokenSymbol'' symbol\<rparr>"

lemma with_token_simps [simp]:
  "ac_action (with_token t s a) = ac_action a" "ac_amounts (with_token t s a) = ac_amounts a"
  "f \<noteq> ''token'' \<Longrightarrow> f \<noteq> ''tokenSymbol'' \<Longrightarrow> text_field (with_token t s a) f = text_field a f"
  by (simp_all add: with_token_def text_field_def obj_simps)

lemma with_token_find [simp]: "find_ix (with_token t s a) ixs used = find_ix a ixs used"
  by (simp add: find_ix_def)

lemma with_token_compare [simp]:
  "compareFields (with_token t s a) params chain = compareFields a params chain"
proof -
  have "compare_amounts (with_token t s a) params fs = compare_amounts a params fs" for fs
    by (induction fs) (simp_all add: compare_amount_def)
  moreover have "compare_address (with_token t s a) params chain f = compare_address a params chain f"
    if "f \<in> set ADDRESS_FIELDS" for f
    using that by (auto simp: compare_address_def ADDRESS_FIELDS_def)
  ultimately show ?thesis
    by (simp add: compareFields_def compare_memo_def cong: map_cong)
qed

text \<open>The token of an action is never compared: whatever token address and symbol are put into the
  actions of an intent, the match result is the same, although the intent types make the token
  part of every value-moving action.\<close>

theorem matcher_ignores_token:
  "matchIntent (map (with_token address symbol) as) ixs flags chain strict expected
   = matchIntent as ixs flags chain strict expected"
proof -
  have single: "matchSingleAction (with_token address symbol a) ixs used chain expected
      = matchSingleAction a ixs used chain expected" for a used
    by (cases "find_ix a ixs used") (simp_all add: matchSingleAction_def Let_def)
  have "match_step ixs chain expected st (with_token address symbol a) = match_step ixs chain expected st a" for st a
    by (simp add: match_step_def single)
  then have "match_actions ixs chain expected st (map (with_token address symbol) as)
      = match_actions ixs chain expected st as" for st
    by (induction as arbitrary: st) (simp_all add: bind_result_def split: sum.split)
  then show ?thesis by (simp add: matchIntent_def)
qed

end
