(* ===== verification/IntentV2.thy ===== *)
theory IntentV2
  imports Matcher VerifyV1
begin

text \<open>
  Intent verification, second version: \<open>verifyIntent\<close> of \<^verbatim>\<open>intent/index.ts\<close> with the intent types
  (\<^verbatim>\<open>intent/types.ts\<close>) and accessors (\<^verbatim>\<open>intent/helpers.ts\<close>). A single intent carries one action, a
  compound one a list; the chain adapter for Solana renames escrow creations to transfers before
  matching.
\<close>

datatype intent_body = Single action_intent | Compound "action_intent list"

record intent2 =
  in_chain :: string
  in_strict :: "bool option"
  in_signer :: string
  in_feePayer :: "string option"
  in_program :: "string option"
  in_programName :: "string option"
  in_body :: intent_body

record program_ref =
  pr_programName :: "string option"
  pr_program :: "string option"

record execution_ref =
  er_signer :: string
  er_feePayer :: "string option"

definition isSingleIntent :: "intent2 \<Rightarrow> bool" where
  "isSingleIntent i = (case in_body i of Single a \<Rightarrow> True | Compound as \<Rightarrow> False)"

definition isCompoundIntent :: "intent2 \<Rightarrow> bool" where
  "isCompoundIntent i = (case in_body i of Single a \<Rightarrow> False | Compound as \<Rightarrow> True)"

definition getActions :: "intent2 \<Rightarrow> action_intent list" where
  "getActions i = (case in_body i of Single a \<Rightarrow> [a] | Compound as \<Rightarrow> as)"

definition getProgramRef :: "intent2 \<Rightarrow> program_ref" where
  "getProgramRef i = \<lparr>pr_programName = in_programName i, pr_program = in_program i\<rparr>"

definition getExecutionRef :: "intent2 \<Rightarrow> execution_ref" where
  "getExecutionRef i = \<lparr>er_signer = in_signer i, er_feePayer = in_feePayer i\<rparr>"

record verify_result2 =
  v2_matched :: bool
  v2_confidence :: confidence
  v2_discrepancies :: "string list"
  v2_analysis :: tx_analysis

definition no_analysis :: tx_analysis where
  "no_analysis = \<lparr>ta_feePayer = [], ta_instructions = [], ta_flags = [], ta_summary = []\<rparr>"

definition failed :: "confidence \<Rightarrow> string \<Rightarrow> verify_result2" where
  "failed c d = \<lparr>v2_matched = False, v2_confidence = c, v2_discrepancies = [d], v2_analysis = no_analysis\<rparr>"

definition SOLANA_ACTION_MAP :: "string obj" where
  "SOLANA_ACTION_MAP = [(''transfer'', ''create_transfer'')]"

text \<open>\<open>if (ix.params[from]) ix.params[to] = ix.params[from]\<close>.\<close>

definition copy_param :: "string \<Rightarrow> string \<Rightarrow> jval obj \<Rightarrow> jval obj" where
  "copy_param src dst params =
     (if truthy (prop_of params src) then put params dst (prop_of params src) else params)"

definition rename_ix :: "ix_analysis \<Rightarrow> string \<times> string \<Rightarrow> ix_analysis" where
  "rename_ix ix = (\<lambda>(generic, specific).
     if ia_type ix = Some specific
     then ix\<lparr>ia_type := Some generic,
             ia_params := copy_param ''recipient'' ''to'' (copy_param ''sender'' ''from'' (ia_params ix))\<rparr>
     else ix)"

definition adapt_solana :: "tx_analysis \<Rightarrow> tx_analysis" where
  "adapt_solana an = an\<lparr>ta_instructions := map (\<lambda>ix. foldl rename_ix ix SOLANA_ACTION_MAP) (ta_instructions an)\<rparr>"

text \<open>The expected program: \<open>Inl\<close> the discrepancy of a failed cross-check.\<close>

definition truthy_string :: "string option \<Rightarrow> string option" where
  "truthy_string s = (case s of None \<Rightarrow> None | Some t \<Rightarrow> if t = [] then None else Some t)"

definition expected_program :: "string \<Rightarrow> string \<Rightarrow> program_ref \<Rightarrow> string + string option" where
  "expected_program chain network ref =
     (let registry = createProgramRegistry None in
      case (truthy_string (pr_program ref), truthy_string (pr_programName ref)) of
        (Some p, Some n) \<Rightarrow>
          if program_crossCheck registry chain network n p then Inr (Some p)
          else Inl (''Program cross-check failed: name '' @ quoted n @ '' does not match address '' @ quoted p @ ''.'')
      | (Some p, None) \<Rightarrow> Inr (Some p)
      | (None, Some n) \<Rightarrow> Inr (map_option pi_address (program_resolveName registry chain network n))
      | (None, None) \<Rightarrow> Inr None)"

definition verifyIntent :: "web3 \<Rightarrow> string \<Rightarrow> intent2 \<Rightarrow> options \<Rightarrow> verify_result2 result" where
  "verifyIntent w tx i opts =
     (if in_chain i = [] then Inr (failed Unverified (''Intent is missing required '' @ dquoted ''chain'' @ '' field.''))
      else
        let pc = parseChain (in_chain i); chain = pc_chain pc; network = pc_network pc;
            strict = (case in_strict i of None \<Rightarrow> False | Some b \<Rightarrow> b)
        in case expected_program chain network (getProgramRef i) of
             Inl d \<Rightarrow> Inr (failed Full d)
           | Inr expectedProgram \<Rightarrow>
               if chain \<noteq> ''solana''
               then Inr (failed Unverified (''Chain adapter for '' @ quoted chain @ '' is not yet implemented.''))
               else bind_result (analyzeTransaction w tx opts) (\<lambda>an0.
                 let an = adapt_solana an0 in
                 bind_result (matchIntent (getActions i) (ta_instructions an) (ta_flags an) chain strict expectedProgram)
                   (\<lambda>r. Inr \<lparr>v2_matched = mr_matched r, v2_confidence = mr_confidence r,
                            v2_discrepancies = mr_discrepancies r, v2_analysis = an\<rparr>)))"

section \<open>Reduction to the matcher\<close>

text \<open>The adapted analysis: types and parameters renamed, everything else kept.\<close>

lemma adapt_simps [simp]:
  "ta_flags (adapt_solana an) = ta_flags an" "ta_feePayer (adapt_solana an) = ta_feePayer an"
  "length (ta_instructions (adapt_solana an)) = length (ta_instructions an)"
  by (simp_all add: adapt_solana_def)

definition renamed :: "ix_analysis \<Rightarrow> ix_analysis" where
  "renamed ix = rename_ix ix (''transfer'', ''create_transfer'')"

lemma adapt_instructions: "ta_instructions (adapt_solana an) = map renamed (ta_instructions an)"
  by (simp add: adapt_solana_def SOLANA_ACTION_MAP_def renamed_def)

lemma renamed_simps [simp]:
  "ia_index (renamed ix) = ia_index ix" "ia_programId (renamed ix) = ia_programId ix"
  by (auto simp: renamed_def rename_ix_def)

lemma renamed_type:
  "ia_type (renamed ix) = (if ia_type ix = Some ''create_transfer'' then Some ''transfer'' else ia_type ix)"
  by (simp add: renamed_def rename_ix_def)

definition on_solana :: "intent2 \<Rightarrow> bool" where
  "on_solana i \<longleftrightarrow> pc_chain (parseChain (in_chain i)) = ''solana''"

definition strict_of :: "intent2 \<Rightarrow> bool" where
  "strict_of i \<longleftrightarrow> in_strict i = Some True"

definition expected_of :: "intent2 \<Rightarrow> string + string option" where
  "expected_of i = expected_program (pc_chain (parseChain (in_chain i))) (pc_network (parseChain (in_chain i)))
     (getProgramRef i)"

definition matches :: "intent2 \<Rightarrow> tx_analysis \<Rightarrow> string option \<Rightarrow> bool" where
  "matches i an expected \<longleftrightarrow>
     error_free an
     \<and> pairs_agree (getActions i) (greedy (getActions i) (ta_instructions (adapt_solana an)) []) ''solana'' expected
     \<and> (strict_of i \<longrightarrow> all_accounted (ta_instructions (adapt_solana an))
          (greedy (getActions i) (ta_instructions (adapt_solana an)) []))"

lemma on_solana_chain: "on_solana i \<Longrightarrow> in_chain i \<noteq> []"
  by (auto simp: on_solana_def parseChain_def toLowerCase_def)

lemma verifyIntent_spec:
  assumes "analyzeTransaction w tx opts = Inr an"
  shows "\<exists>r. verifyIntent w tx i opts = Inr r \<and>
    (v2_matched r \<longleftrightarrow> on_solana i \<and> (\<exists>e. expected_of i = Inr e \<and> matches i an e)) \<and>
    (v2_matched r \<longrightarrow> v2_discrepancies r = [])"
proof (cases "in_chain i = []")
  case True
  then show ?thesis using on_solana_chain by (auto simp: verifyIntent_def failed_def)
next
  case False
  show ?thesis
  proof (cases "expected_of i")
    case (Inl d)
    then show ?thesis using False by (simp add: verifyIntent_def expected_of_def failed_def)
  next
    case (Inr e)
    show ?thesis
    proof (cases "on_solana i")
      case True
      let ?ixs = "ta_instructions (adapt_solana an)"
      obtain r where r: "matchIntent (getActions i) ?ixs (ta_flags an) ''solana'' (strict_of i) e = Inr r"
        and "mr_matched r \<longleftrightarrow> matches i an e" "mr_matched r \<longrightarrow> mr_discrepancies r = []"
        using matchIntent_spec [of "getActions i" ?ixs "ta_flags an" "''solana''" "strict_of i" e]
        by (auto simp: matches_def error_free_def)
      moreover have "(case in_strict i of None \<Rightarrow> False | Some b \<Rightarrow> b) = strict_of i"
        by (simp add: strict_of_def split: option.split)
      ultimately show ?thesis using True False Inr assms
        by (simp add: verifyIntent_def expected_of_def on_solana_def Let_def)
    next
      case not_sol: False
      then show ?thesis using False Inr
        by (simp add: verifyIntent_def expected_of_def on_solana_def failed_def Let_def)
    qed
  qed
qed

text \<open>C1. Intent verification decides its specification: on an analysable transaction it returns, and
  matches exactly when the chain is Solana, the program reference is consistent, the analysis is
  free of errors, and the actions match the instructions (escrow creations counted as transfers)
  as the matcher's specification says, in strict mode with nothing left over.\<close>

theorem verifyIntent_decides:
  assumes "analyzeTransaction w tx opts = Inr an"
  shows "\<exists>r. verifyIntent w tx i opts = Inr r \<and>
    (v2_matched r \<longleftrightarrow> on_solana i \<and> (\<exists>e. expected_of i = Inr e \<and> matches i an e)) \<and>
    (v2_matched r \<longrightarrow> v2_discrepancies r = [])"
  using assms by (rule verifyIntent_spec)

lemma matched_analysis:
  assumes "verifyIntent w tx i opts = Inr r" and "v2_matched r"
  obtains an e where "analyzeTransaction w tx opts = Inr an" and "matches i an e"
proof (cases "analyzeTransaction w tx opts")
  case (Inl er)
  then show ?thesis
    using assms by (auto simp: verifyIntent_def failed_def Let_def split: if_splits sum.splits)
next
  case (Inr an)
  then show ?thesis using verifyIntent_spec [OF Inr, of i] assms that by auto
qed

lemma no_swap_type:
  assumes "analyzeTransaction w tx opts = Inr an" and "ix \<in> set (ta_instructions an)"
  shows "ia_type ix \<noteq> Some ''swap''"
proof -
  obtain fp raws where de: "deserializeTx w tx = Inr (fp, raws)" using assms(1) by (rule analyze_cases)
  obtain j where j: "j < length (ta_instructions an)" "ix = ta_instructions an ! j"
    using assms(2) by (auto simp: in_set_conv_nth)
  note en = analysis_entries [OF assms(1) de]
  show ?thesis
  proof (cases "get (reg_programs (loadRegistry (op_config opts))) (ri_programId (raws ! j))")
    case None
    then show ?thesis using en j by (auto simp: Let_def)
  next
    case (Some e)
    let ?d = "decodeInstruction (pk_bytes w) (pe_decoder e) (ri_data (raws ! j)) (ri_accounts (raws ! j))
          (analysis_cache w (loadRegistry (op_config opts)) (op_connection opts) raws)"
    have "(ia_type ix, ia_params ix) = ?d" using en j Some by (auto simp: Let_def)
    then have "ia_type ix = fst ?d" by (metis fst_conv)
    moreover have "fst ?d \<noteq> Some ''swap''" by (rule decodeInstruction_not_swap)
    ultimately show ?thesis by simp
  qed
qed

lemma greedy_agree_in:
  assumes "pairs_agree as (greedy as ixs used) chain e" and "a \<in> set as"
  shows "\<exists>ix \<in> set ixs. ia_type ix = Some (ac_action a)"
proof -
  obtain j where j: "j < length as" "a = as ! j" using assms(2) by (auto simp: in_set_conv_nth)
  then obtain ix where ix: "greedy as ixs used ! j = Some ix" "action_agrees a chain e ix"
    using assms(1) by (auto simp: pairs_agree_def list_all2_conv_all_nth)
  moreover have "length (greedy as ixs used) = length as"
    using assms(1) by (simp add: pairs_agree_def list_all2_lengthD)
  ultimately have "Some ix \<in> set (greedy as ixs used)" using j by (metis nth_mem)
  then show ?thesis using greedy_fresh ix(2) by (auto simp: action_agrees_def)
qed

lemma no_swap_match:
  assumes "verifyIntent w tx i opts = Inr r" and "a \<in> set (getActions i)" and "ac_action a = ''swap''"
  shows "\<not> v2_matched r"
proof
  assume "v2_matched r"
  then obtain an e where an: "analyzeTransaction w tx opts = Inr an" and m: "matches i an e"
    using matched_analysis [OF assms(1)] by blast
  then obtain ix where ix: "ix \<in> set (ta_instructions (adapt_solana an))" "ia_type ix = Some ''swap''"
    using greedy_agree_in [of "getActions i" _ "[]" "''solana''" e a] assms(2,3) by (auto simp: matches_def)
  then obtain ix0 where "ix0 \<in> set (ta_instructions an)" "ix = renamed ix0"
    by (auto simp: adapt_instructions)
  then show False
    using no_swap_type [OF an] ix(2) by (auto simp: renamed_type split: if_splits)
qed

text \<open>A swap can never be confirmed: no decoder produces an instruction of type \<open>swap\<close> and the chain
  adapter renames none to it, so an intent with a swap action, single or compound, is not matched
  by any transaction, in particular not by the swap the backend builds for it.\<close>

theorem swap_never_matched:
  assumes "verifyIntent w tx i opts = Inr r" and "a \<in> set (getActions i)" and "ac_action a = ''swap''"
  shows "\<not> v2_matched r"
  using assms by (rule no_swap_match)

definition plain_intent :: "action_intent \<Rightarrow> intent2" where
  "plain_intent a = \<lparr>in_chain = ''solana'', in_strict = None, in_signer = ''S'', in_feePayer = None,
     in_program = None, in_programName = None, in_body = Single a\<rparr>"

lemma parse_solana: "parseChain ''solana'' = \<lparr>pc_chain = ''solana'', pc_network = ''mainnet''\<rparr>"
  by (simp add: parseChain_def js_eval)

lemma plain_intent_ok: "on_solana (plain_intent a)" "expected_of (plain_intent a) = Inr None"
  "getActions (plain_intent a) = [a]" "\<not> strict_of (plain_intent a)"
  by (simp_all add: on_solana_def expected_of_def plain_intent_def parse_solana expected_program_def
      getProgramRef_def truthy_string_def getActions_def strict_of_def Let_def)

theorem verifyIntent_decides_witness:
  "\<exists>an r. analyzeTransaction (sample_web3 (one_ix [''A''] ''X'' [])) ''tx'' no_options = Inr an \<and>
     verifyIntent (sample_web3 (one_ix [''A''] ''X'' [])) ''tx''
       (plain_intent \<lparr>ac_action = ''transfer'', ac_text = [], ac_amounts = []\<rparr>) no_options = Inr r"
proof -
  let ?w = "sample_web3 (one_ix [''A''] ''X'' [])"
  obtain an where "analyzeTransaction ?w ''tx'' no_options = Inr an" using analyze_sample by blast
  with verifyIntent_decides [OF this] show ?thesis by blast
qed

theorem swap_never_matched_witness:
  "\<exists>r. verifyIntent (sample_web3 (one_ix [''A''] ''X'' [])) ''tx''
       (plain_intent \<lparr>ac_action = ''swap'', ac_text = [], ac_amounts = []\<rparr>) no_options = Inr r \<and> \<not> v2_matched r"
proof -
  let ?w = "sample_web3 (one_ix [''A''] ''X'' [])" and ?a = "\<lparr>ac_action = ''swap'', ac_text = [], ac_amounts = []\<rparr>"
  obtain an where "analyzeTransaction ?w ''tx'' no_options = Inr an" using analyze_sample by blast
  then obtain r where "verifyIntent ?w ''tx'' (plain_intent ?a) no_options = Inr r"
    using verifyIntent_spec by blast
  with swap_never_matched [OF this, of ?a] show ?thesis by (simp add: plain_intent_ok)
qed

section \<open>A single transfer against one escrow creation\<close>

lemma solana_address [simp]: "normalizeAddress x ''solana'' = x"
  by (simp add: normalizeAddress_def isEvmChain_def EVM_CHAINS_def js_eval)

lemma single_transfer_match:
  assumes an: "analyzeTransaction w tx opts = Inr an" "error_free an" "length (ta_instructions an) = 1"
    and ty: "ia_type (ta_instructions an ! 0) = Some ''create_transfer''"
    and i: "on_solana i" "expected_of i = Inr None" "getActions i = [a]" "ac_action a = ''transfer''"
  shows "\<exists>res. verifyIntent w tx i opts = Inr res \<and>
    (v2_matched res \<longleftrightarrow> fields_agree a (ia_params (renamed (ta_instructions an ! 0))) ''solana'')"
proof -
  obtain ix where ix: "ta_instructions an = [ix]" using an(3) by (cases "ta_instructions an") auto
  have rt: "ia_type (renamed ix) = Some ''transfer''" using ty ix by (simp add: renamed_type)
  then have f: "find_ix a [renamed ix] [] = Some (renamed ix)" using i(4) by (simp add: find_ix_def)
  have "matches i an None \<longleftrightarrow> fields_agree a (ia_params (renamed ix)) ''solana''"
    using an(2) rt i by (simp add: matches_def adapt_instructions ix f pairs_agree_def action_agrees_def
        KNOWN_ACTIONS_def program_agrees_def all_accounted_def)
  then show ?thesis using verifyIntent_spec [OF an(1), of i] i ix by auto
qed

lemma renamed_params:
  assumes "ia_type ix = Some ''create_transfer''"
  shows "ia_params (renamed ix) = copy_param ''recipient'' ''to'' (copy_param ''sender'' ''from'' (ia_params ix))"
  using assms by (simp add: renamed_def rename_ix_def)

lemma prop_of_copy:
  "prop_of (copy_param src dst p) k = (if k = dst \<and> truthy (prop_of p src) then prop_of p src else prop_of p k)"
  by (simp add: copy_param_def prop_of_def obj_simps)

text \<open>What an intent says about a payment from \<open>S\<close> to \<open>R\<close> of \<open>x\<close> display units with a memo.\<close>

definition payment_agrees :: "action_intent \<Rightarrow> string \<Rightarrow> string \<Rightarrow> rat \<Rightarrow> string \<Rightarrow> bool" where
  "payment_agrees a S R x memo \<longleftrightarrow>
     (\<forall>s. text_field a ''from'' = Some s \<longrightarrow> s = S) \<and> (\<forall>r. text_field a ''to'' = Some r \<longrightarrow> r = R)
     \<and> (\<forall>c. get (ac_amounts a) ''amount'' = Some c \<longrightarrow> satisfies c x)
     \<and> (\<forall>m. text_field a ''memo'' = Some m \<and> memo \<noteq> [] \<longrightarrow> m = memo)"

text \<open>C13. End to end, a transfer intent is matched against an encoded escrow payment exactly when the
  transaction pays what the intent says: its sender and recipient keys are the intended ones, its
  base-unit amount over the mint's decimals satisfies the amount constraint, and a memo on both
  sides is the same.\<close>

theorem transfer_intent_exact:
  assumes tx: "handshake_tx w tx opts (S # P # M # rest) (create_transfer_data k nonce amount memo after until @ junk)"
    and args: "length k = 32" "nonce < 2 ^ 64" "amount < 2 ^ 64" "utf8_ok memo"
      "0 \<le> after" "after < 2 ^ 53" "0 \<le> until" "until < 2 ^ 53"
    and keys: "S \<noteq> []" "M \<noteq> []" "pk_bytes w k \<noteq> []" "0 < decimals_of w tx opts M"
    and i: "on_solana i" "expected_of i = Inr None" "getActions i = [a]" "ac_action a = ''transfer''"
  shows "\<exists>res. verifyIntent w tx i opts = Inr res \<and>
    (v2_matched res \<longleftrightarrow>
       payment_agrees a S (pk_bytes w k) (of_nat amount / 10 ^ decimals_of w tx opts M) memo)"
proof -
  let ?dec = "decimals_of w tx opts M"
  let ?d = "\<lambda>symb deci. decd ''create_transfer''
      [(''sender'', JStr S), (''recipient'', JStr (pk_bytes w k)), (''pool'', JStr P),
       (''mint'', JStr M), (''amount'', JStr (nat_str amount)),
       (''amountHuman'', JStr (formatUnits (int amount) (int (deci M)) @ '' '' @ symb M)),
       (''memo'', if memo = [] then JNull else JStr memo),
       (''claimableAfter'', if after = 0 then JNull else JNum after),
       (''claimableUntil'', if until = 0 then JNull else JNum until),
       (''nonce'', JStr (nat_str nonce))]"
  have dec: "decodeHandshake (pk_bytes w) (create_transfer_data k nonce amount memo after until @ junk)
      (S # P # M # rest) = (\<lambda>symb deci. Some (?d symb deci))"
    by (intro ext create_transfer_decode args keys)
  obtain an symb where an: "analyzeTransaction w tx opts = Inr an" "error_free an" "length (ta_instructions an) = 1"
    and ty: "ia_type (ta_instructions an ! 0) = Some ''create_transfer''"
    and pa: "ia_params (ta_instructions an ! 0) = dec_params (?d symb (decimals_of w tx opts))"
    by (rule handshake_tx_analysis [OF tx dec]) simp
  let ?p = "ia_params (renamed (ta_instructions an ! 0))"
  have p: "prop_of ?p ''from'' = JStr S" "prop_of ?p ''to'' = JStr (pk_bytes w k)"
    "prop_of ?p ''owner'' = JUndef" "prop_of ?p ''spender'' = JUndef" "prop_of ?p ''validator'' = JUndef"
    "prop_of ?p ''amountInHuman'' = JUndef" "prop_of ?p ''amountOutHuman'' = JUndef"
    "prop_of ?p ''amountHuman'' = JStr (formatUnits (int amount) (int ?dec) @ '' '' @ symb M)"
    "prop_of ?p ''memo'' = (if memo = [] then JNull else JStr memo)"
    using keys by (simp_all add: renamed_params [OF ty] prop_of_copy pa) (simp_all add: prop_of_def obj_simps truthy_def)
  have am: "shown_amount ?p ''amount'' = Some (formatUnits (int amount) (int ?dec))"
    using keys extractAmount_human [OF keys(4), of "int amount" "symb M"] formatUnits_re(2) [OF keys(4), of "int amount"]
    by (simp add: shown_amount_def human_key_def p text_of_def)
  obtain v where v: "parseDecimal (formatUnits (int amount) (int ?dec)) = Some v" "dec_value v = of_nat amount / 10 ^ ?dec"
    using formatUnits_value [OF keys(4), of "int amount"] by auto
  have "amount_field_agrees a ?p ''amount'' \<longleftrightarrow>
      (\<forall>c. get (ac_amounts a) ''amount'' = Some c \<longrightarrow> satisfies c (of_nat amount / 10 ^ ?dec))"
    by (simp add: amount_field_agrees_def am v)
  moreover have "amount_field_agrees a ?p ''amountIn''" "amount_field_agrees a ?p ''amountOut''"
    by (simp_all add: amount_field_agrees_def shown_amount_def human_key_def p text_of_def)
  moreover have "memo_field_agrees a ?p \<longleftrightarrow> (\<forall>m. text_field a ''memo'' = Some m \<and> memo \<noteq> [] \<longrightarrow> m = memo)"
    by (auto simp: memo_field_agrees_def p text_of_def)
  moreover have "address_agrees a ?p ''solana'' ''from'' \<longleftrightarrow> (\<forall>s. text_field a ''from'' = Some s \<longrightarrow> s = S)"
    "address_agrees a ?p ''solana'' ''to'' \<longleftrightarrow> (\<forall>r. text_field a ''to'' = Some r \<longrightarrow> r = pk_bytes w k)"
    "address_agrees a ?p ''solana'' ''owner''" "address_agrees a ?p ''solana'' ''spender''"
    "address_agrees a ?p ''solana'' ''validator''"
    using keys by (simp_all add: address_agrees_def p text_of_def)
  ultimately have "fields_agree a ?p ''solana'' \<longleftrightarrow>
      payment_agrees a S (pk_bytes w k) (of_nat amount / 10 ^ ?dec) memo"
    by (auto simp: fields_agree_def ADDRESS_FIELDS_def AMOUNT_FIELDS_def payment_agrees_def)
  then show ?thesis using single_transfer_match [OF an ty i] by auto
qed

theorem transfer_intent_exact_witness:
  "\<exists>res. verifyIntent
     (sample_web3 (one_ix [''S'', ''P'', ''M''] HANDSHAKE_PROGRAM
        (create_transfer_data (replicate 32 7) 5 1500000 ''rent'' 0 0 @ [])))
     ''tx'' (plain_intent \<lparr>ac_action = ''transfer'', ac_text = [(''from'', ''S''), (''to'', ''X'')], ac_amounts = []\<rparr>)
     no_options = Inr res \<and> \<not> v2_matched res"
proof -
  let ?w = "sample_web3 (one_ix [''S'', ''P'', ''M''] HANDSHAKE_PROGRAM
        (create_transfer_data (replicate 32 7) 5 1500000 ''rent'' 0 0 @ []))"
  have "utf8_ok ''rent''" by (intro utf8_ok_ascii) (simp_all add: ascii_def code_def)
  moreover have pk: "pk_bytes ?w (replicate 32 7) = toString_hex (replicate 32 7)" by (simp add: sample_web3_def)
  moreover have "toString_hex (replicate 32 7) \<noteq> []" by (simp add: toString_hex_Nil)
  moreover have "length (toString_hex (replicate 32 7)) = 64"
    by (simp add: toString_hex_def length_concat o_def sum_list_replicate map_replicate)
  then have "toString_hex (replicate 32 7) \<noteq> ''X''" by auto
  ultimately show ?thesis
    using transfer_intent_exact [OF sample_handshake_tx, where k = "replicate 32 7" and nonce = 5
        and amount = 1500000 and memo = "''rent''" and after = 0 and until = 0 and junk = "[]" and tx = "''tx''"
        and S = "''S''" and P = "''P''" and M = "''M''" and rest = "[]"
        and i = "plain_intent \<lparr>ac_action = ''transfer'', ac_text = [(''from'', ''S''), (''to'', ''X'')], ac_amounts = []\<rparr>"
        and a = "\<lparr>ac_action = ''transfer'', ac_text = [(''from'', ''S''), (''to'', ''X'')], ac_amounts = []\<rparr>"]
    by (auto simp: sample_decimals plain_intent_ok payment_agrees_def text_field_def obj_simps)
qed

text \<open>Truncated escrow data is matched as if it agreed: a \<open>create_transfer\<close> instruction whose data
  ends before its arguments matches a transfer intent as soon as the sender is the intended one,
  whatever recipient, amount, token and memo the intent names.\<close>

theorem transfer_intent_undecodable:
  assumes tx: "handshake_tx w tx opts (S # rest) data" and data: "is_create_transfer data" "length data < 60"
    and keys: "S \<noteq> []"
    and i: "on_solana i" "expected_of i = Inr None" "getActions i = [a]" "ac_action a = ''transfer''"
  shows "\<exists>res. verifyIntent w tx i opts = Inr res \<and>
    (v2_matched res \<longleftrightarrow> (\<forall>s. text_field a ''from'' = Some s \<longrightarrow> s = S))"
proof -
  let ?d = "decd ''create_transfer'' [(''sender'', JStr S), (''decodeError'', JStr ''failed to parse args'')]"
  obtain er where er: "read_create_args (pk_bytes w) data 8 = Inl er"
    using read_create_args_short data(2) by blast
  then have dec: "decodeHandshake (pk_bytes w) data (S # rest) = (\<lambda>symb deci. Some ?d)"
    using data(1) by (intro ext)
      (simp add: decodeHandshake_def is_create_transfer_def decode_create_transfer_def Let_def nth_or_undef_def)
  obtain an where an: "analyzeTransaction w tx opts = Inr an" "error_free an" "length (ta_instructions an) = 1"
    and ty: "ia_type (ta_instructions an ! 0) = Some ''create_transfer''"
    and pa: "ia_params (ta_instructions an ! 0) = dec_params ?d"
    by (rule handshake_tx_analysis [OF tx dec]) simp
  let ?p = "ia_params (renamed (ta_instructions an ! 0))"
  have p: "prop_of ?p k = (if k = ''from'' \<or> k = ''sender'' then JStr S
      else if k = ''decodeError'' then JStr ''failed to parse args'' else JUndef)" for k
    using keys by (simp add: renamed_params [OF ty] prop_of_copy pa) (simp add: prop_of_def obj_simps truthy_def)
  have "fields_agree a ?p ''solana'' \<longleftrightarrow> (\<forall>s. text_field a ''from'' = Some s \<longrightarrow> s = S)"
    using keys by (simp add: fields_agree_def ADDRESS_FIELDS_def AMOUNT_FIELDS_def address_agrees_def
        amount_field_agrees_def memo_field_agrees_def shown_amount_def human_key_def p text_of_def)
  then show ?thesis using single_transfer_match [OF an ty i] by simp
qed

theorem transfer_intent_undecodable_witness:
  "\<exists>res. verifyIntent
     (sample_web3 (one_ix [''S''] HANDSHAKE_PROGRAM (disc_of handshake_discriminators ''create_transfer'')))
     ''tx'' (plain_intent \<lparr>ac_action = ''transfer'', ac_text = [(''from'', ''S''), (''to'', ''anyone'')],
       ac_amounts = [(''amount'', Plain (SStr ''1000000''))]\<rparr>) no_options = Inr res \<and> v2_matched res"
proof -
  let ?data = "disc_of handshake_discriminators ''create_transfer''"
  let ?a = "\<lparr>ac_action = ''transfer'', ac_text = [(''from'', ''S''), (''to'', ''anyone'')],
       ac_amounts = [(''amount'', Plain (SStr ''1000000''))]\<rparr>"
  have ct: "''create_transfer'' \<in> fst ` set handshake_discriminators"
    by (simp add: handshake_discriminators_def)
  have "is_create_transfer ?data"
    using match_disc_of(1) [OF ct, of "[]"] by (simp add: is_create_transfer_def)
  moreover have "length ?data < 60" using length_disc_of(1) [OF ct] by simp
  ultimately show ?thesis
    using transfer_intent_undecodable [OF sample_handshake_tx, where S = "''S''" and rest = "[]" and data = ?data
        and tx = "''tx''" and i = "plain_intent ?a" and a = ?a]
    by (simp add: plain_intent_ok text_field_def obj_simps)
qed

text \<open>Two intents constrain nothing they seem to: a program name the registry does not know is
  dropped, so the verdict is that of the same intent without a program; and a compound intent with
  no action, unless strict, matches every transaction on Solana whose analysis has no error.\<close>

theorem intent_loopholes:
  assumes an: "analyzeTransaction w tx opts = Inr an"
  shows "(in_program i = None \<and> in_programName i = Some n \<and>
        program_resolveName BUNDLED_PROGRAMS (pc_chain (parseChain (in_chain i)))
          (pc_network (parseChain (in_chain i))) n = None
      \<longrightarrow> verifyIntent w tx i opts = verifyIntent w tx (i\<lparr>in_programName := None\<rparr>) opts)
    \<and> (on_solana i \<and> in_body i = Compound [] \<and> in_strict i = None \<and> in_program i = None \<and> in_programName i = None
      \<longrightarrow> (\<exists>r. verifyIntent w tx i opts = Inr r \<and> (v2_matched r \<longleftrightarrow> error_free an)))"
proof (intro conjI impI, elim conjE)
  assume "in_program i = None" "in_programName i = Some n"
    and "program_resolveName BUNDLED_PROGRAMS (pc_chain (parseChain (in_chain i)))
          (pc_network (parseChain (in_chain i))) n = None"
  moreover have g: "getActions (i\<lparr>in_programName := None\<rparr>) = getActions i" by (simp add: getActions_def)
  ultimately have "expected_program (pc_chain (parseChain (in_chain i))) (pc_network (parseChain (in_chain i))) (getProgramRef i)
      = expected_program (pc_chain (parseChain (in_chain i))) (pc_network (parseChain (in_chain i)))
          (getProgramRef (i\<lparr>in_programName := None\<rparr>))"
    by (simp add: expected_program_def getProgramRef_def truthy_string_def createProgramRegistry_None Let_def)
  then show "verifyIntent w tx i opts = verifyIntent w tx (i\<lparr>in_programName := None\<rparr>) opts"
    unfolding verifyIntent_def by (simp add: g Let_def cong: sum.case_cong if_cong)
next
  assume i: "on_solana i \<and> in_body i = Compound [] \<and> in_strict i = None \<and> in_program i = None \<and> in_programName i = None"
  then have "getActions i = []" "expected_of i = Inr None" "\<not> strict_of i"
    by (simp_all add: getActions_def expected_of_def expected_program_def getProgramRef_def truthy_string_def
        strict_of_def Let_def)
  then show "\<exists>r. verifyIntent w tx i opts = Inr r \<and> (v2_matched r \<longleftrightarrow> error_free an)"
    using verifyIntent_spec [OF an, of i] i by (auto simp: matches_def pairs_agree_def)
qed

theorem intent_loopholes_witness:
  "\<exists>an r. analyzeTransaction (sample_web3 (one_ix [''A''] ''X'' [])) ''tx'' no_options = Inr an \<and>
     verifyIntent (sample_web3 (one_ix [''A''] ''X'' [])) ''tx''
       ((plain_intent undefined)\<lparr>in_body := Compound []\<rparr>) no_options = Inr r \<and> v2_matched r = error_free an"
proof -
  let ?w = "sample_web3 (one_ix [''A''] ''X'' [])" and ?i = "(plain_intent undefined)\<lparr>in_body := Compound []\<rparr>"
  obtain an where an: "analyzeTransaction ?w ''tx'' no_options = Inr an" using analyze_sample by blast
  have "on_solana ?i" by (simp add: on_solana_def plain_intent_def parse_solana)
  with intent_loopholes [OF an, of ?i] an show ?thesis by (auto simp: plain_intent_def)
qed

end
