(* ===== verification/Json.thy ===== *)
theory Json
  imports Doubles
begin

text \<open>
  JSON values, as \<^verbatim>\<open>JSON.parse\<close> yields them: what the orders file of the SDK holds and what the
  backend answers. A member of an object is looked up among its own properties; \<open>undefined\<close> is
  \<open>None\<close>.
\<close>

section \<open>JSON values\<close>

datatype json =
    JsNull
  | JsBool bool
  | JsNum double
  | JsText string
  | JsArr "json list"
  | JsObj "(string \<times> json) list"

definition jget :: "json \<Rightarrow> string \<Rightarrow> json option" where
  "jget j k = (case j of JsObj ms \<Rightarrow> map_of ms k | _ \<Rightarrow> None)"

definition type_error :: js_error where
  "type_error = JsError ''TypeError''"

text \<open>\<open>x.k\<close>, which throws on \<open>undefined\<close> and \<open>null\<close>, and \<open>x?.k\<close>; \<open>None\<close> is \<open>undefined\<close>.\<close>

definition member :: "json option \<Rightarrow> string \<Rightarrow> json option result" where
  "member x k = (case x of None \<Rightarrow> Inl type_error | Some JsNull \<Rightarrow> Inl type_error | Some j \<Rightarrow> Inr (jget j k))"

definition opt_member :: "json option \<Rightarrow> string \<Rightarrow> json option" where
  "opt_member x k = (case x of None \<Rightarrow> None | Some j \<Rightarrow> jget j k)"

definition j_truthy :: "json option \<Rightarrow> bool" where
  "j_truthy x = (case x of
       None \<Rightarrow> False | Some JsNull \<Rightarrow> False | Some (JsBool b) \<Rightarrow> b | Some (JsNum n) \<Rightarrow> d_truthy n
     | Some (JsText s) \<Rightarrow> s \<noteq> [] | Some j \<Rightarrow> True)"

text \<open>\<open>String(x)\<close>, as in a template literal.\<close>

fun json_text :: "json \<Rightarrow> string" where
  "json_text JsNull = ''null''"
| "json_text (JsBool b) = (if b then ''true'' else ''false'')"
| "json_text (JsNum n) = num_to_string n"
| "json_text (JsText s) = s"
| "json_text (JsArr js) = join '','' (map (\<lambda>j. case j of JsNull \<Rightarrow> [] | _ \<Rightarrow> json_text j) js)"
| "json_text (JsObj ms) = ''[object Object]''"

definition text_of_json :: "json option \<Rightarrow> string" where
  "text_of_json x = (case x of None \<Rightarrow> ''undefined'' | Some j \<Rightarrow> json_text j)"

definition as_text :: "json option \<Rightarrow> string option" where
  "as_text x = (case x of Some (JsText s) \<Rightarrow> Some s | _ \<Rightarrow> None)"

definition as_list :: "json option \<Rightarrow> json list option" where
  "as_list x = (case x of Some (JsArr js) \<Rightarrow> Some js | _ \<Rightarrow> None)"

text \<open>A value written by \<open>JSON.stringify\<close> and read again: a number that is not finite becomes \<open>null\<close>.\<close>

fun json_stored :: "json \<Rightarrow> json" where
  "json_stored (JsNum n) = (case n of Fin q \<Rightarrow> JsNum n | _ \<Rightarrow> JsNull)"
| "json_stored (JsArr js) = JsArr (map json_stored js)"
| "json_stored (JsObj ms) = JsObj (map (\<lambda>(k, v). (k, json_stored v)) ms)"
| "json_stored j = j"

end
