(* ===== verification/Orders.thy ===== *)
theory Orders
  imports Json
begin

text \<open>
  Standing orders: \<^verbatim>\<open>orders/types.ts\<close>, \<^verbatim>\<open>orders/store.ts\<close> and \<^verbatim>\<open>orders/evaluate.ts\<close> of the SDK.

  The orders file is an explicit state: \<open>None\<close> when it cannot be read, else its list of orders
  (orders read from JSON, so that the JSON copy in the recurrence code is the identity); the intent
  of an order is the JSON value it was given. A time
  is milliseconds since the epoch, \<open>None\<close> an invalid date. The price feed, the server, the
  verifier and the signer are asynchronous callbacks: functions over a world \<open>'w\<close> that may throw.
  An event's detail is a text or, where a number is rendered, the numbers themselves.

  The loop \<open>for (const order of store.orders)\<close> also visits orders pushed while it runs; it is
  \<open>eval_loop\<close>, with fuel, \<open>None\<close> meaning that the fuel did not suffice.
\<close>

datatype order_status = Pending | Executing | Filled | Cancelled | Expired | Failed

datatype event_type = EvCreated | EvAttempted | EvFilled | EvCancelled | EvExpired | EvFailed

datatype detail =
    DText string
  | DReached double
  | DPrice string string double double

type_synonym jtime = "int option"

record order_event =
  ev_timestamp :: jtime
  ev_type :: event_type
  ev_reason :: "string option"
  ev_detail :: "detail option"
  ev_txid :: "string option"

record recurrence =
  rc_interval :: double
  rc_remaining :: "double option"

record policy =
  po_expiresAt :: "(string \<times> jtime) option"
  po_cooldown :: "double option"
  po_maxAttempts :: "double option"
  po_recurrence :: "recurrence option"

record order =
  od_id :: string
  od_intent :: json
  od_policy :: policy
  od_status :: order_status
  od_slippage :: double
  od_wallet :: "string option"
  od_createdAt :: jtime
  od_updatedAt :: jtime
  od_history :: "order_event list"

record evaluation_result =
  er_orderId :: string
  er_status :: order_status
  er_event :: order_event

record server_response =
  sv_executable :: bool
  sv_transaction :: "string option"
  sv_quote_price :: "string option"
  sv_reason :: "string option"
  sv_detail :: "string option"

record verification =
  vf_matched :: bool
  vf_discrepancies :: "string list"

text \<open>An asynchronous callback.\<close>

type_synonym ('w, 'a) async = "'w \<Rightarrow> 'a result \<times> 'w"

record 'w evaluate_options =
  eo_dryRun :: bool
  eo_priceFeed :: "(string \<Rightarrow> string \<Rightarrow> ('w, double option) async) option"
  eo_serverEvaluate :: "(order \<Rightarrow> ('w, server_response) async) option"
  eo_signAndSubmit :: "(string \<Rightarrow> order \<Rightarrow> ('w, string) async) option"
  eo_verifyTransaction :: "(string \<Rightarrow> order \<Rightarrow> ('w, verification) async) option"

section \<open>The store\<close>

type_synonym orders_file = "order list option"

definition loadOrders :: "orders_file \<Rightarrow> order list" where
  "loadOrders f = (case f of None \<Rightarrow> [] | Some os \<Rightarrow> os)"

definition saveOrders :: "order list \<Rightarrow> orders_file" where
  "saveOrders os = Some os"

definition addOrder :: "order \<Rightarrow> orders_file \<Rightarrow> orders_file" where
  "addOrder order f = saveOrders (loadOrders f @ [order])"

definition getOrder :: "string \<Rightarrow> orders_file \<Rightarrow> order option" where
  "getOrder i f = List.find (\<lambda>o1. od_id o1 = i) (loadOrders f)"

text \<open>\<open>findIndex\<close>, and the update of a \<open>Partial<Order>\<close> as a function.\<close>

fun find_index :: "('a \<Rightarrow> bool) \<Rightarrow> 'a list \<Rightarrow> nat option" where
  "find_index P [] = None"
| "find_index P (x # xs) = (if P x then Some 0 else map_option Suc (find_index P xs))"

definition updateOrder :: "int \<Rightarrow> string \<Rightarrow> (order \<Rightarrow> order) \<Rightarrow> orders_file \<Rightarrow> orders_file result" where
  "updateOrder now i updates f =
     (let os = loadOrders f in
      case find_index (\<lambda>o1. od_id o1 = i) os of
        None \<Rightarrow> Inl (SdkError ''ORDER_NOT_FOUND'' (''Order '' @ dquoted i @ '' not found''))
      | Some k \<Rightarrow> Inr (saveOrders (os[k := (updates (os ! k))\<lparr>od_updatedAt := Some now\<rparr>])))"

section \<open>Guards\<close>

definition isExpired :: "order \<Rightarrow> int \<Rightarrow> bool" where
  "isExpired order now =
     (case po_expiresAt (od_policy order) of
        None \<Rightarrow> False
      | Some (text, t) \<Rightarrow> text \<noteq> [] \<and> (case t of None \<Rightarrow> False | Some ms \<Rightarrow> ms \<le> now))"

definition is_attempt :: "order_event \<Rightarrow> bool" where
  "is_attempt e \<longleftrightarrow> ev_type e = EvAttempted \<or> ev_type e = EvFilled \<or> ev_type e = EvFailed"

definition isInCooldown :: "order \<Rightarrow> int \<Rightarrow> bool" where
  "isInCooldown order now =
     (let cooldown = (case po_cooldown (od_policy order) of None \<Rightarrow> Fin 60 | Some c \<Rightarrow> c) in
      case List.find is_attempt (rev (od_history order)) of
        None \<Rightarrow> False
      | Some e \<Rightarrow> (case ev_timestamp e of
            None \<Rightarrow> False
          | Some t \<Rightarrow> d_less (d_div (d_sub (num_of_int now) (num_of_int t)) (Fin 1000)) cooldown))"

definition attemptCount :: "order \<Rightarrow> nat" where
  "attemptCount order = length (filter (\<lambda>e. ev_type e = EvAttempted) (od_history order))"

definition attempts_exhausted :: "order \<Rightarrow> bool" where
  "attempts_exhausted order =
     (case po_maxAttempts (od_policy order) of
        None \<Rightarrow> False
      | Some m \<Rightarrow> d_le m (num_of_int (int (attemptCount order))))"

record price_target =
  pt_base :: string
  pt_quote :: string
  pt_maxPrice :: double

definition getSwapPriceTarget :: "order \<Rightarrow> price_target option result" where
  "getSwapPriceTarget order =
     (let i = od_intent order in
      bind_result (member (Some i) ''action'') (\<lambda>action.
        if action \<noteq> Some (JsText ''swap'') then Inr None
        else
          let tokenIn = opt_member (jget i ''tokenIn'') ''tokenSymbol'';
              tokenOut = opt_member (jget i ''tokenOut'') ''tokenSymbol''
          in if \<not> j_truthy tokenIn \<or> \<not> j_truthy tokenOut then Inr None
          else
            let amountIn = parseFloat (text_of_json (jget i ''amountIn''));
                g = opt_member (jget i ''amountOut'') ''gte''
            in if \<not> j_truthy g then Inr None
            else let amountOutGte = parseFloat (text_of_json g) in
              if \<not> d_truthy amountIn \<or> \<not> d_truthy amountOutGte \<or> d_le amountOutGte (Fin 0) then Inr None
              else Inr (Some \<lparr>pt_base = text_of_json tokenOut, pt_quote = text_of_json tokenIn,
                          pt_maxPrice = d_div amountIn amountOutGte\<rparr>)))"

section \<open>One order\<close>

record 'w eval_state =
  es_orders :: "order list"
  es_results :: "evaluation_result list"
  es_modified :: bool
  es_world :: 'w

definition makeEvent ::
    "event_type \<Rightarrow> int \<Rightarrow> string option \<Rightarrow> detail option \<Rightarrow> string option \<Rightarrow> order_event" where
  "makeEvent t now reason det txid =
     \<lparr>ev_timestamp = Some now, ev_type = t, ev_reason = reason, ev_detail = det, ev_txid = txid\<rparr>"

text \<open>Set the status, push the event, stamp the order, report it, mark the store as modified.\<close>

definition settle ::
    "int \<Rightarrow> nat \<Rightarrow> order_status \<Rightarrow> order_event \<Rightarrow> 'w eval_state \<Rightarrow> 'w eval_state" where
  "settle now k s ev st =
     (let o1 = es_orders st ! k;
          o2 = o1\<lparr>od_status := s, od_updatedAt := Some now, od_history := od_history o1 @ [ev]\<rparr>
      in st\<lparr>es_orders := (es_orders st)[k := o2],
            es_results := es_results st @ [\<lparr>er_orderId = od_id o1, er_status = s, er_event = ev\<rparr>],
            es_modified := True\<rparr>)"

definition recurring_clone :: "int \<Rightarrow> order \<Rightarrow> order option" where
  "recurring_clone now order =
     (case po_recurrence (od_policy order) of
        None \<Rightarrow> None
      | Some rc \<Rightarrow>
          let clone = order\<lparr>od_id := od_id order @ ''-r'' @ int_str now, od_status := Pending,
                od_history := [makeEvent EvCreated now None (Some (DText (''Recurring from '' @ od_id order))) None],
                od_createdAt := Some now, od_updatedAt := Some now\<rparr>
          in (case rc_remaining rc of
                None \<Rightarrow> Some clone
              | Some r \<Rightarrow>
                  if d_less (Fin 1) r
                  then Some (clone\<lparr>od_policy := (od_policy order)
                         \<lparr>po_recurrence := Some (rc\<lparr>rc_remaining := Some (d_sub r (Fin 1))\<rparr>)\<rparr>\<rparr>)
                  else None))"

definition server_error :: "int \<Rightarrow> nat \<Rightarrow> js_error \<Rightarrow> 'w eval_state \<Rightarrow> 'w eval_state" where
  "server_error now k e st =
     settle now k Pending
       (makeEvent EvAttempted now (Some ''SERVER_ERROR'')
         (Some (DText (case e of JsError m \<Rightarrow> m | SdkError c m \<Rightarrow> m | RangeError \<Rightarrow> ''RangeError'' | SyntaxError \<Rightarrow> ''SyntaxError''))) None) st"

definition sign_step ::
    "'w evaluate_options \<Rightarrow> int \<Rightarrow> nat \<Rightarrow> server_response \<Rightarrow> string \<Rightarrow> 'w eval_state \<Rightarrow> 'w eval_state" where
  "sign_step opts now k response tx st =
     (case eo_signAndSubmit opts of
        None \<Rightarrow> st
      | Some sign \<Rightarrow>
          (case sign tx (es_orders st ! k) (es_world st) of
             (Inl e, w) \<Rightarrow> server_error now k e (st\<lparr>es_world := w\<rparr>)
           | (Inr txid, w) \<Rightarrow>
               let ev = makeEvent EvFilled now None
                     (map_option (\<lambda>p. DText (''Price: '' @ p)) (sv_quote_price response)) (Some txid);
                   st1 = settle now k Filled ev (st\<lparr>es_world := w\<rparr>)
               in (case recurring_clone now (es_orders st1 ! k) of
                     None \<Rightarrow> st1
                   | Some clone \<Rightarrow> st1\<lparr>es_orders := es_orders st1 @ [clone]\<rparr>)))"

definition verify_step ::
    "'w evaluate_options \<Rightarrow> int \<Rightarrow> nat \<Rightarrow> server_response \<Rightarrow> string \<Rightarrow> 'w eval_state \<Rightarrow> 'w eval_state" where
  "verify_step opts now k response tx st =
     (case eo_verifyTransaction opts of
        None \<Rightarrow> sign_step opts now k response tx st
      | Some verify \<Rightarrow>
          (case verify tx (es_orders st ! k) (es_world st) of
             (Inl e, w) \<Rightarrow> server_error now k e (st\<lparr>es_world := w\<rparr>)
           | (Inr v, w) \<Rightarrow>
               if \<not> vf_matched v
               then settle now k Pending
                 (makeEvent EvAttempted now (Some ''VERIFICATION_FAILED'')
                   (Some (DText (join ''; '' (vf_discrepancies v)))) None) (st\<lparr>es_world := w\<rparr>)
               else sign_step opts now k response tx (st\<lparr>es_world := w\<rparr>)))"

definition server_step :: "'w evaluate_options \<Rightarrow> int \<Rightarrow> nat \<Rightarrow> 'w eval_state \<Rightarrow> 'w eval_state" where
  "server_step opts now k st =
     (case eo_serverEvaluate opts of
        None \<Rightarrow> st
      | Some server \<Rightarrow>
          (case server (es_orders st ! k) (es_world st) of
             (Inl e, w) \<Rightarrow> server_error now k e (st\<lparr>es_world := w\<rparr>)
           | (Inr response, w) \<Rightarrow>
               let st1 = st\<lparr>es_world := w\<rparr> in
               (case (if sv_executable response then sv_transaction response else None) of
                  Some (c # cs) \<Rightarrow>
                    verify_step opts now k response (c # cs)
                      (st1\<lparr>es_orders := (es_orders st1)[k := (es_orders st1 ! k)
                              \<lparr>od_status := Executing, od_updatedAt := Some now\<rparr>],
                           es_modified := True\<rparr>)
                | _ \<Rightarrow> settle now k Pending
                    (makeEvent EvAttempted now (sv_reason response) (map_option DText (sv_detail response)) None) st1)))"

text \<open>The pre-check: \<open>Inl\<close> when the price feed throws (nothing catches it), else whether the order is
  skipped.\<close>

definition price_step ::
    "'w evaluate_options \<Rightarrow> int \<Rightarrow> nat \<Rightarrow> 'w eval_state \<Rightarrow> (bool \<times> 'w eval_state) result" where
  "price_step opts now k st =
     (case eo_priceFeed opts of
        None \<Rightarrow> Inr (False, st)
      | Some feed \<Rightarrow>
          bind_result (getSwapPriceTarget (es_orders st ! k)) (\<lambda>t.
            case t of
              None \<Rightarrow> Inr (False, st)
            | Some target \<Rightarrow>
                (case feed (pt_base target) (pt_quote target) (es_world st) of
                   (Inl e, w) \<Rightarrow> Inl e
                 | (Inr p, w) \<Rightarrow>
                     let st1 = st\<lparr>es_world := w\<rparr> in
                     (case p of
                        None \<Rightarrow> Inr (False, st1)
                      | Some price \<Rightarrow>
                          if d_less (d_mul (pt_maxPrice target) (round64 (105 / 100))) price
                          then Inr (True, settle now k Pending
                            (makeEvent EvAttempted now (Some ''PRICE_PRE_CHECK_SKIP'')
                              (Some (DPrice (pt_quote target) (pt_base target) price (pt_maxPrice target))) None) st1)
                          else Inr (False, st1)))))"

definition eval_order :: "'w evaluate_options \<Rightarrow> int \<Rightarrow> nat \<Rightarrow> 'w eval_state \<Rightarrow> 'w eval_state result" where
  "eval_order opts now k st =
     (let order = es_orders st ! k in
      if od_status order \<noteq> Pending then Inr st
      else if isExpired order now then
        Inr (settle now k Expired
          (makeEvent EvExpired now None
            (Some (DText (''Expired at '' @ (case po_expiresAt (od_policy order) of None \<Rightarrow> [] | Some (t, _) \<Rightarrow> t)))) None) st)
      else if isInCooldown order now then Inr st
      else if attempts_exhausted order then
        Inr (settle now k Failed
          (makeEvent EvFailed now (Some ''MAX_ATTEMPTS'')
            (map_option DReached (po_maxAttempts (od_policy order))) None) st)
      else
        bind_result (price_step opts now k st) (\<lambda>(skipped, st1).
          if skipped then Inr st1
          else if eo_dryRun opts then
            Inr (st1\<lparr>es_results := es_results st1 @ [\<lparr>er_orderId = od_id order, er_status = Pending,
              er_event = makeEvent EvAttempted now (Some ''DRY_RUN'')
                (Some (DText ''Would evaluate against server'')) None\<rparr>]\<rparr>)
          else Inr (server_step opts now k st1)))"

section \<open>The pass\<close>

fun eval_loop ::
    "nat \<Rightarrow> 'w evaluate_options \<Rightarrow> int \<Rightarrow> nat \<Rightarrow> 'w eval_state \<Rightarrow> 'w eval_state result option" where
  "eval_loop 0 opts now k st = (if k < length (es_orders st) then None else Some (Inr st))"
| "eval_loop (Suc n) opts now k st =
     (if k < length (es_orders st) then
        (case eval_order opts now k st of
           Inl e \<Rightarrow> Some (Inl e)
         | Inr st' \<Rightarrow> eval_loop n opts now (Suc k) st')
      else Some (Inr st))"

text \<open>The file afterwards is saved only when the pass ends normally and changed something.\<close>

definition evaluateOrders ::
    "nat \<Rightarrow> 'w evaluate_options \<Rightarrow> int \<Rightarrow> orders_file \<Rightarrow> 'w
       \<Rightarrow> (evaluation_result list result \<times> orders_file) option" where
  "evaluateOrders fuel opts now f w =
     (case eval_loop fuel opts now 0
         \<lparr>es_orders = loadOrders f, es_results = [], es_modified = False, es_world = w\<rparr> of
        None \<Rightarrow> None
      | Some (Inl e) \<Rightarrow> Some (Inl e, f)
      | Some (Inr st) \<Rightarrow> Some (Inr (es_results st), if es_modified st then saveOrders (es_orders st) else f))"

section \<open>Cancelling an order\<close>

definition status_text :: "order_status \<Rightarrow> string" where
  "status_text s = (case s of Pending \<Rightarrow> ''pending'' | Executing \<Rightarrow> ''executing'' | Filled \<Rightarrow> ''filled''
     | Cancelled \<Rightarrow> ''cancelled'' | Expired \<Rightarrow> ''expired'' | Failed \<Rightarrow> ''failed'')"

definition ordersCancel :: "int \<Rightarrow> string \<Rightarrow> orders_file \<Rightarrow> orders_file result" where
  "ordersCancel now i f =
     (case getOrder i f of
        None \<Rightarrow> Inl (SdkError ''ORDER_NOT_FOUND'' (''Order '' @ dquoted i @ '' not found''))
      | Some order \<Rightarrow>
          if od_status order \<noteq> Pending
          then Inl (SdkError ''ORDER_NOT_PENDING''
            (''Order '' @ dquoted i @ '' is '' @ status_text (od_status order) @ '', not pending''))
          else updateOrder now i (\<lambda>x. x\<lparr>od_status := Cancelled,
            od_history := od_history order @ [makeEvent EvCancelled now None None None]\<rparr>) f)"

section \<open>The life of an order\<close>

definition stamped :: "int \<Rightarrow> order_status \<Rightarrow> order_event \<Rightarrow> order \<Rightarrow> order" where
  "stamped now s ev x = x\<lparr>od_status := s, od_updatedAt := Some now, od_history := od_history x @ [ev]\<rparr>"

text \<open>The transitions one pass at time \<open>now\<close> can make, with their guards.\<close>

inductive order_step :: "int \<Rightarrow> order \<Rightarrow> order \<Rightarrow> bool" for now where
  expire: "od_status x = Pending \<Longrightarrow> isExpired x now \<Longrightarrow> ev_type ev = EvExpired \<Longrightarrow>
     order_step now x (stamped now Expired ev x)"
| fail: "od_status x = Pending \<Longrightarrow> \<not> isExpired x now \<Longrightarrow> \<not> isInCooldown x now \<Longrightarrow> attempts_exhausted x \<Longrightarrow> ev_type ev = EvFailed \<Longrightarrow>
     order_step now x (stamped now Failed ev x)"
| attempt: "od_status x = Pending \<Longrightarrow> \<not> isExpired x now \<Longrightarrow> \<not> isInCooldown x now \<Longrightarrow> \<not> attempts_exhausted x \<Longrightarrow>
     ev_type ev = EvAttempted \<Longrightarrow> order_step now x (stamped now Pending ev x)"
| execute: "od_status x = Pending \<Longrightarrow> \<not> isExpired x now \<Longrightarrow> \<not> isInCooldown x now \<Longrightarrow> \<not> attempts_exhausted x \<Longrightarrow>
     order_step now x (x\<lparr>od_status := Executing, od_updatedAt := Some now\<rparr>)"
| fill: "od_status x = Pending \<Longrightarrow> \<not> isExpired x now \<Longrightarrow> \<not> isInCooldown x now \<Longrightarrow> \<not> attempts_exhausted x \<Longrightarrow>
     ev_type ev = EvFilled \<Longrightarrow> order_step now x (stamped now Filled ev x)"

inductive_cases order_stepE: "order_step now x y"

definition same_or_step :: "int \<Rightarrow> order \<Rightarrow> order \<Rightarrow> bool" where
  "same_or_step now x y \<longleftrightarrow> y = x \<or> order_step now x y"

definition is_clone :: "int \<Rightarrow> order \<Rightarrow> bool" where
  "is_clone now c \<longleftrightarrow> od_status c = Pending \<and> (\<exists>d. od_history c = [makeEvent EvCreated now None d None])"

lemma stamped_simps [simp]:
  "od_status (stamped now s ev x) = s" "od_history (stamped now s ev x) = od_history x @ [ev]"
  "od_policy (stamped now s ev x) = od_policy x" "od_id (stamped now s ev x) = od_id x"
  "od_intent (stamped now s ev x) = od_intent x" "od_createdAt (stamped now s ev x) = od_createdAt x"
  "od_slippage (stamped now s ev x) = od_slippage x" "od_wallet (stamped now s ev x) = od_wallet x"
  by (simp_all add: stamped_def)

lemma stamped_executing [simp]:
  "stamped now s ev (x\<lparr>od_status := Executing, od_updatedAt := Some now\<rparr>) = stamped now s ev x"
  by (simp add: stamped_def)

lemma makeEvent_simps [simp]:
  "ev_type (makeEvent t now r d i) = t" "ev_timestamp (makeEvent t now r d i) = Some now"
  by (simp_all add: makeEvent_def)

lemma settle_simps [simp]:
  "es_orders (settle now k s ev st) = (es_orders st)[k := stamped now s ev (es_orders st ! k)]"
  "es_world (settle now k s ev st) = es_world st"
  "es_modified (settle now k s ev st)"
  by (simp_all add: settle_def stamped_def Let_def)

lemma recurring_clone_shape: "recurring_clone now x = Some c \<Longrightarrow> is_clone now c"
  by (auto simp: recurring_clone_def is_clone_def Let_def split: option.splits if_splits)

text \<open>The end of a step on order \<open>k\<close>: it is replaced, at most one clone is appended.\<close>

definition step_result :: "nat \<Rightarrow> 'w eval_state \<Rightarrow> order \<Rightarrow> order list \<Rightarrow> 'w eval_state \<Rightarrow> bool" where
  "step_result k st y clones st' \<longleftrightarrow> es_orders st' = (es_orders st)[k := y] @ clones"

lemma server_error_result:
  "\<exists>ev. ev_type ev = EvAttempted \<and> step_result k st (stamped now Pending ev (es_orders st ! k)) [] (server_error now k e st)"
  by (auto simp: server_error_def step_result_def intro!: exI [of _ "makeEvent _ _ _ _ _"])

text \<open>The order in hand while the transaction is verified and signed.\<close>

definition executing :: "int \<Rightarrow> order \<Rightarrow> order" where
  "executing now x = x\<lparr>od_status := Executing, od_updatedAt := Some now\<rparr>"

lemma stamped_executing' [simp]: "stamped now s ev (executing now x) = stamped now s ev x"
  by (simp add: executing_def)

inductive outcome :: "int \<Rightarrow> order \<Rightarrow> order \<Rightarrow> order list \<Rightarrow> bool" for now x where
  retry: "ev_type ev = EvAttempted \<Longrightarrow> outcome now x (stamped now Pending ev x) []"
| stay: "outcome now x (executing now x) []"
| finish: "ev_type ev = EvFilled \<Longrightarrow> recurring_clone now (stamped now Filled ev x) = None \<Longrightarrow>
     outcome now x (stamped now Filled ev x) []"
| recur: "ev_type ev = EvFilled \<Longrightarrow> recurring_clone now (stamped now Filled ev x) = Some c \<Longrightarrow>
     outcome now x (stamped now Filled ev x) [c]"

lemma sign_step_outcome:
  assumes k: "k < length (es_orders st)" and x: "es_orders st ! k = executing now x"
  shows "\<exists>y cs. outcome now x y cs \<and> step_result k st y cs (sign_step opts now k response tx st)"
proof (cases "eo_signAndSubmit opts")
  case None
  have "step_result k st (executing now x) [] st"
    using x by (simp add: step_result_def flip: x)
  then show ?thesis using None outcome.stay [of now x] by (auto simp: sign_step_def)
next
  case (Some sign)
  obtain r w where r: "sign tx (executing now x) (es_world st) = (r, w)" by force
  show ?thesis
  proof (cases r)
    case (Inl e)
    obtain ev where "ev_type ev = EvAttempted"
      and "step_result k st (stamped now Pending ev (es_orders st ! k)) [] (server_error now k e (st\<lparr>es_world := w\<rparr>))"
      using server_error_result [of k "st\<lparr>es_world := w\<rparr>" now e] by (auto simp: step_result_def)
    then show ?thesis using Some r Inl x by (auto simp: sign_step_def intro: outcome.retry)
  next
    case (Inr txid)
    let ?ev = "makeEvent EvFilled now None (map_option (\<lambda>p. DText (''Price: '' @ p)) (sv_quote_price response)) (Some txid)"
    have ev: "ev_type ?ev = EvFilled" by simp
    let ?y = "stamped now Filled ?ev x"
    show ?thesis
    proof (cases "recurring_clone now ?y")
      case None
      then show ?thesis using Some r Inr x k outcome.finish [OF ev None]
        by (auto simp: sign_step_def step_result_def Let_def)
    next
      case (Some c)
      then show ?thesis using \<open>eo_signAndSubmit opts = Some sign\<close> r Inr x k outcome.recur [OF ev Some]
        by (auto simp: sign_step_def step_result_def Let_def)
    qed
  qed
qed

lemma verify_step_outcome:
  assumes k: "k < length (es_orders st)" and x: "es_orders st ! k = executing now x"
  shows "\<exists>y cs. outcome now x y cs \<and> step_result k st y cs (verify_step opts now k response tx st)"
proof (cases "eo_verifyTransaction opts")
  case None
  then show ?thesis using sign_step_outcome [OF assms] by (simp add: verify_step_def)
next
  case (Some verify)
  obtain r w where r: "verify tx (executing now x) (es_world st) = (r, w)" by force
  have w: "step_result k (st\<lparr>es_world := w\<rparr>) y cs st' \<longleftrightarrow> step_result k st y cs st'" for y cs and st' :: "'a eval_state"
    by (simp add: step_result_def)
  show ?thesis
  proof (cases r)
    case (Inl e)
    obtain ev where "ev_type ev = EvAttempted"
      and "step_result k st (stamped now Pending ev (es_orders st ! k)) [] (server_error now k e (st\<lparr>es_world := w\<rparr>))"
      using server_error_result [of k "st\<lparr>es_world := w\<rparr>" now e] by (auto simp: w)
    then show ?thesis using Some r Inl x by (auto simp: verify_step_def intro: outcome.retry)
  next
    case (Inr v)
    show ?thesis
    proof (cases "vf_matched v")
      case True
      then show ?thesis
        using Some r Inr x sign_step_outcome [of k "st\<lparr>es_world := w\<rparr>" now x opts response tx] k
        by (simp add: verify_step_def w)
    next
      case False
      let ?ev = "makeEvent EvAttempted now (Some ''VERIFICATION_FAILED'')
                   (Some (DText (join ''; '' (vf_discrepancies v)))) None"
      have "outcome now x (stamped now Pending ?ev x) []" by (rule outcome.retry) simp
      then show ?thesis using Some r Inr False x by (auto simp: verify_step_def step_result_def)
    qed
  qed
qed

lemma server_step_outcome:
  assumes k: "k < length (es_orders st)"
  shows "\<exists>y cs. (outcome now (es_orders st ! k) y cs \<or> y = es_orders st ! k \<and> cs = [])
    \<and> step_result k st y cs (server_step opts now k st)"
proof (cases "eo_serverEvaluate opts")
  case None
  moreover have "step_result k st (es_orders st ! k) [] st" by (simp add: step_result_def)
  ultimately show ?thesis by (auto simp: server_step_def)
next
  case (Some server)
  let ?x = "es_orders st ! k"
  obtain r w where r: "server ?x (es_world st) = (r, w)" by force
  show ?thesis
  proof (cases r)
    case (Inl e)
    obtain ev where "ev_type ev = EvAttempted"
      and "step_result k st (stamped now Pending ev ?x) [] (server_error now k e (st\<lparr>es_world := w\<rparr>))"
      using server_error_result [of k "st\<lparr>es_world := w\<rparr>" now e] by (auto simp: step_result_def)
    then show ?thesis using Some r Inl by (auto simp: server_step_def intro: outcome.retry)
  next
    case (Inr resp)
    show ?thesis
    proof (cases "\<exists>c cs. (if sv_executable resp then sv_transaction resp else None) = Some (c # cs)")
      case True
      then obtain c cs where t: "(if sv_executable resp then sv_transaction resp else None) = Some (c # cs)" by blast
      let ?st = "st\<lparr>es_world := w, es_orders := (es_orders st)[k := executing now ?x], es_modified := True\<rparr>"
      obtain y ds where y: "outcome now ?x y ds" "step_result k ?st y ds (verify_step opts now k resp (c # cs) ?st)"
        using verify_step_outcome [of k ?st now ?x opts resp "c # cs"] k by auto
      moreover have "server_step opts now k st = verify_step opts now k resp (c # cs) ?st"
        using Some r Inr t by (simp add: server_step_def executing_def Let_def)
      ultimately show ?thesis by (auto simp: step_result_def)
    next
      case False
      let ?ev = "makeEvent EvAttempted now (sv_reason resp) (map_option DText (sv_detail resp)) None"
      have "outcome now ?x (stamped now Pending ?ev ?x) []" by (rule outcome.retry) simp
      moreover have "server_step opts now k st = settle now k Pending ?ev (st\<lparr>es_world := w\<rparr>)"
        using Some r Inr False by (auto simp: server_step_def Let_def split: option.split list.split)
      ultimately show ?thesis by (auto simp: step_result_def)
    qed
  qed
qed

lemma price_step_result:
  assumes "price_step opts now k st = Inr (skipped, st1)"
  shows "if skipped then \<exists>ev. ev_type ev = EvAttempted \<and> step_result k st (stamped now Pending ev (es_orders st ! k)) [] st1
    else es_orders st1 = es_orders st"
proof -
  have w: "step_result k (st\<lparr>es_world := w\<rparr>) y cs st' \<longleftrightarrow> step_result k st y cs st'" for y cs w and st' :: "'a eval_state"
    by (simp add: step_result_def)
  have "step_result k st (stamped now Pending ev (es_orders st ! k)) [] (settle now k Pending ev (st\<lparr>es_world := w\<rparr>))" for ev w
    by (simp add: step_result_def)
  note settled = this
  show ?thesis
  proof (cases "eo_priceFeed opts")
    case None
    then show ?thesis using assms by (auto simp: price_step_def)
  next
    case (Some feed)
    note f = Some
    obtain t where t: "getSwapPriceTarget (es_orders st ! k) = Inr t"
      using assms f by (auto simp: price_step_def bind_result_Inr_iff)
    then show ?thesis using assms f
      by (cases t) (auto simp: price_step_def Let_def split: option.splits prod.splits sum.splits if_splits
          intro!: exI [of _ "makeEvent EvAttempted now _ _ _"] settled)
  qed
qed

lemma outcome_step:
  assumes "outcome now x y cs" and "od_status x = Pending" and "\<not> isExpired x now" and "\<not> isInCooldown x now"
    and "\<not> attempts_exhausted x"
  shows "order_step now x y" and "length cs \<le> 1" and "\<forall>c \<in> set cs. is_clone now c"
  using assms by (auto elim!: outcome.cases simp: executing_def intro: order_step.intros dest: recurring_clone_shape)

lemma eval_order_result:
  assumes "eval_order opts now k st = Inr st'" and k: "k < length (es_orders st)"
  shows "\<exists>y cs. step_result k st y cs st' \<and> same_or_step now (es_orders st ! k) y
    \<and> (cs = [] \<and> (y = es_orders st ! k \<or> od_status y \<noteq> Filled)
         \<or> outcome now (es_orders st ! k) y cs \<and> order_step now (es_orders st ! k) y)"
proof -
  let ?x = "es_orders st ! k"
  have idle: "step_result k st ?x [] st" by (simp add: step_result_def)
  have settle: "step_result k st (stamped now s ev ?x) [] (settle now k s ev st)" for s ev
    by (simp add: step_result_def)
  consider (closed) "od_status ?x \<noteq> Pending" | (expired) "od_status ?x = Pending" "isExpired ?x now"
    | (cool) "od_status ?x = Pending" "\<not> isExpired ?x now" "isInCooldown ?x now"
    | (exhausted) "od_status ?x = Pending" "\<not> isExpired ?x now" "\<not> isInCooldown ?x now" "attempts_exhausted ?x"
    | (ready) "od_status ?x = Pending" "\<not> isExpired ?x now" "\<not> isInCooldown ?x now" "\<not> attempts_exhausted ?x"
    by blast
  then show ?thesis
  proof cases
    case closed
    then show ?thesis using assms idle by (auto simp: eval_order_def Let_def same_or_step_def)
  next
    case expired
    then show ?thesis using assms settle
      by (fastforce simp: eval_order_def Let_def same_or_step_def intro: order_step.expire)
  next
    case cool
    then show ?thesis using assms idle by (auto simp: eval_order_def Let_def same_or_step_def)
  next
    case exhausted
    then show ?thesis using assms settle
      by (fastforce simp: eval_order_def Let_def same_or_step_def intro: order_step.fail)
  next
    case ready
    obtain skipped st1 where p: "price_step opts now k st = Inr (skipped, st1)"
      using assms ready by (auto simp: eval_order_def Let_def bind_result_Inr_iff)
    show ?thesis
    proof (cases skipped)
      case True
      then obtain ev where "ev_type ev = EvAttempted" "step_result k st (stamped now Pending ev ?x) [] st1"
        using price_step_result [OF p] by auto
      moreover have "st' = st1" using assms ready p True by (simp add: eval_order_def Let_def)
      moreover have "order_step now ?x (stamped now Pending ev ?x)" using order_step.attempt [OF ready] \<open>ev_type ev = EvAttempted\<close> by blast
      ultimately show ?thesis
        by (intro exI [of _ "stamped now Pending ev ?x"] exI [of _ "[]"]) (simp add: same_or_step_def)
    next
      case False
      then have os: "es_orders st1 = es_orders st" using price_step_result [OF p] by simp
      have sr: "step_result k st1 y cs st2 \<longleftrightarrow> step_result k st y cs st2" for y cs and st2 :: "'a eval_state"
        by (simp add: step_result_def os)
      show ?thesis
      proof (cases "eo_dryRun opts")
        case True
        then have "step_result k st ?x [] st'"
          using assms ready p False os by (auto simp: eval_order_def Let_def step_result_def)
        then show ?thesis by (auto simp: same_or_step_def)
      next
        case dry: False
        then have "st' = server_step opts now k st1"
          using assms ready p False by (simp add: eval_order_def Let_def)
        then show ?thesis
          using server_step_outcome [of k st1 now opts] k outcome_step(1) [OF _ ready]
          by (auto simp: os sr same_or_step_def)
      qed
    qed
  qed
qed

section \<open>A whole pass\<close>

lemma eval_loop_orders:
  assumes "eval_loop n opts now k st = Some (Inr st')" and "k \<le> length (es_orders st)"
  shows "length (es_orders st) \<le> length (es_orders st') \<and>
    (\<forall>j < length (es_orders st). (j < k \<longrightarrow> es_orders st' ! j = es_orders st ! j) \<and>
       same_or_step now (es_orders st ! j) (es_orders st' ! j))"
  using assms
proof (induction n arbitrary: k st)
  case 0
  then show ?case by (auto simp: same_or_step_def split: if_splits)
next
  case (Suc n)
  show ?case
  proof (cases "k < length (es_orders st)")
    case False
    then show ?thesis using Suc.prems by (auto simp: same_or_step_def)
  next
    case True
    then obtain st1 where st1: "eval_order opts now k st = Inr st1" and rest: "eval_loop n opts now (Suc k) st1 = Some (Inr st')"
      using Suc.prems by (auto split: sum.splits)
    obtain y cs where y: "step_result k st y cs st1" "same_or_step now (es_orders st ! k) y"
      using eval_order_result [OF st1 True] by blast
    have os: "es_orders st1 = (es_orders st)[k := y] @ cs" using y(1) by (simp add: step_result_def)
    then have len: "length (es_orders st1) = length (es_orders st) + length cs" by simp
    have nth: "es_orders st1 ! j = (if j = k then y else es_orders st ! j)" if "j < length (es_orders st)" for j
      using that by (simp add: os nth_append nth_list_update)
    note IH = Suc.IH [OF rest]
    have "Suc k \<le> length (es_orders st1)" using True len by simp
    note IH = IH [OF this]
    show ?thesis
    proof (intro conjI allI impI)
      show "length (es_orders st) \<le> length (es_orders st')" using IH len by linarith
      fix j assume j: "j < length (es_orders st)"
      then have j1: "j < length (es_orders st1)" using len by simp
      { assume "j < k" then show "es_orders st' ! j = es_orders st ! j" using IH j1 nth [OF j] by simp }
      show "same_or_step now (es_orders st ! j) (es_orders st' ! j)"
      proof (cases "j = k")
        case True
        then have "es_orders st' ! j = y" using IH j1 nth [OF j] by simp
        then show ?thesis using y(2) True by simp
      next
        case False
        then show ?thesis using IH j1 nth [OF j] by auto
      qed
    qed
  qed
qed

lemma loadOrders_simps [simp]: "loadOrders (saveOrders os) = os"
  by (simp add: loadOrders_def saveOrders_def)

text \<open>What every operation on the store preserves of an order once it is there.\<close>

definition kept :: "order \<Rightarrow> order \<Rightarrow> bool" where
  "kept x y \<longleftrightarrow> od_id y = od_id x \<and> od_intent y = od_intent x \<and> od_policy y = od_policy x
     \<and> od_createdAt y = od_createdAt x \<and> od_slippage y = od_slippage x \<and> od_wallet y = od_wallet x \<and> (\<exists>more. od_history y = od_history x @ more \<and> length more \<le> 1)
     \<and> (od_status x \<noteq> Pending \<longrightarrow> y = x)"

lemma order_step_kept: "order_step now x y \<Longrightarrow> kept x y"
  by (auto elim!: order_stepE simp: kept_def)

lemma same_or_step_kept: "same_or_step now x y \<Longrightarrow> kept x y"
  by (auto simp: same_or_step_def dest: order_step_kept) (simp add: kept_def)

lemma evaluateOrders_orders:
  assumes "evaluateOrders fuel opts now f w = Some (r, f')"
  shows "length (loadOrders f) \<le> length (loadOrders f') \<and>
    (\<forall>j < length (loadOrders f). same_or_step now (loadOrders f ! j) (loadOrders f' ! j))"
proof -
  let ?st = "\<lparr>es_orders = loadOrders f, es_results = [], es_modified = False, es_world = w\<rparr>"
  obtain res where res: "eval_loop fuel opts now 0 ?st = Some res"
    using assms by (auto simp: evaluateOrders_def split: option.splits)
  show ?thesis
  proof (cases res)
    case (Inl e)
    then show ?thesis using assms res by (simp add: evaluateOrders_def same_or_step_def)
  next
    case (Inr st')
    then show ?thesis using assms res eval_loop_orders [of fuel opts now 0 ?st st']
      by (auto simp: evaluateOrders_def same_or_step_def split: if_splits)
  qed
qed

text \<open>The order that repeats a filled one, said without the code's function: a new pending order with the
  same intent, slippage and wallet, a fresh history, and one repetition less when they are counted.\<close>

definition follows :: "int \<Rightarrow> order \<Rightarrow> order \<Rightarrow> bool" where
  "follows now x c \<longleftrightarrow> (\<exists>rc. po_recurrence (od_policy x) = Some rc
     \<and> od_id c = od_id x @ ''-r'' @ int_str now \<and> od_status c = Pending
     \<and> od_intent c = od_intent x \<and> od_slippage c = od_slippage x \<and> od_wallet c = od_wallet x
     \<and> od_createdAt c = Some now \<and> od_updatedAt c = Some now
     \<and> od_history c = [\<lparr>ev_timestamp = Some now, ev_type = EvCreated, ev_reason = None,
          ev_detail = Some (DText (''Recurring from '' @ od_id x)), ev_txid = None\<rparr>]
     \<and> (rc_remaining rc = None \<and> od_policy c = od_policy x
        \<or> (\<exists>r. rc_remaining rc = Some r \<and> d_less (Fin 1) r
             \<and> po_expiresAt (od_policy c) = po_expiresAt (od_policy x) \<and> po_cooldown (od_policy c) = po_cooldown (od_policy x)
             \<and> po_maxAttempts (od_policy c) = po_maxAttempts (od_policy x)
             \<and> po_recurrence (od_policy c) = Some \<lparr>rc_interval = rc_interval rc, rc_remaining = Some (d_sub r (Fin 1))\<rparr>)))"

lemma follows_computed: "follows now x c \<longleftrightarrow> recurring_clone now x = Some c"
proof -
  have eq: "(c = d) \<longleftrightarrow> od_id c = od_id d \<and> od_intent c = od_intent d \<and> od_policy c = od_policy d \<and> od_status c = od_status d
      \<and> od_slippage c = od_slippage d \<and> od_wallet c = od_wallet d \<and> od_createdAt c = od_createdAt d
      \<and> od_updatedAt c = od_updatedAt d \<and> od_history c = od_history d" for d
    by (cases c; cases d) auto
  have pol: "(p = q) \<longleftrightarrow> po_expiresAt p = po_expiresAt q \<and> po_cooldown p = po_cooldown q \<and> po_maxAttempts p = po_maxAttempts q
      \<and> po_recurrence p = po_recurrence q" for p q :: policy
    by (cases p; cases q) auto
  have rec: "rc\<lparr>rc_remaining := v\<rparr> = \<lparr>rc_interval = rc_interval rc, rc_remaining = v\<rparr>" for rc v
    by (cases rc) simp
  have som: "(Some d = Some c) \<longleftrightarrow> c = d" for d by auto
  show ?thesis
    unfolding follows_def recurring_clone_def Let_def makeEvent_def
    by (cases "po_recurrence (od_policy x)"; cases "rc_remaining (the (po_recurrence (od_policy x)))")
      (auto simp: som eq pol rec)
qed

text \<open>The orders that a pass appends: each repeats the order at some position \<open>src j\<close>, in their order, and
  every order filled in the pass that has a repetition left has its own.\<close>

definition repeats :: "int \<Rightarrow> nat \<Rightarrow> order list \<Rightarrow> order list \<Rightarrow> (nat \<Rightarrow> nat) \<Rightarrow> bool" where
  "repeats now k xs ys src \<longleftrightarrow>
     (\<forall>j. length xs \<le> j \<and> j < length ys \<longrightarrow> k \<le> src j \<and> src j < j \<and> (src j < length xs \<longrightarrow> od_status (xs ! src j) = Pending)
        \<and> od_status (ys ! src j) = Filled \<and> (\<exists>c. follows now (ys ! src j) c \<and> same_or_step now c (ys ! j)))
     \<and> (\<forall>i j. length xs \<le> i \<and> i < j \<and> j < length ys \<longrightarrow> src i < src j)
     \<and> (\<forall>i c. k \<le> i \<and> i < length ys \<and> (i < length xs \<longrightarrow> od_status (xs ! i) = Pending) \<and> od_status (ys ! i) = Filled
          \<and> follows now (ys ! i) c \<longrightarrow> (\<exists>j. length xs \<le> j \<and> j < length ys \<and> src j = i))"

lemma repeats_none: "\<exists>src. repeats now k xs xs src"
  by (auto simp: repeats_def)

lemma repeats_one:
  assumes src: "repeats now (Suc k) (xs[k := y] @ [c]) ys src" and k: "k < length xs" and old: "od_status (xs ! k) = Pending"
    and y: "ys ! k = y" "od_status y = Filled" "follows now y c" and c: "same_or_step now c (ys ! length xs)"
    and len: "length xs < length ys"
  shows "repeats now k xs ys (\<lambda>j. if j = length xs then k else src j)" (is "repeats now k xs ys ?src")
proof -
  let ?xs = "xs[k := y] @ [c]"
  have nth: "?xs ! i = xs ! i" if "Suc k \<le> i" "i < length xs" for i using that by (simp add: nth_append)
  have pend: "od_status c = Pending" using y(3) by (auto simp: follows_def)
  note s1 = src [unfolded repeats_def, THEN conjunct1, rule_format]
    and s2 = src [unfolded repeats_def, THEN conjunct2, THEN conjunct1, rule_format]
    and s3 = src [unfolded repeats_def, THEN conjunct2, THEN conjunct2, rule_format]
  have 1: "k \<le> ?src j \<and> ?src j < j \<and> (?src j < length xs \<longrightarrow> od_status (xs ! ?src j) = Pending)
      \<and> od_status (ys ! ?src j) = Filled \<and> (\<exists>c. follows now (ys ! ?src j) c \<and> same_or_step now c (ys ! j))"
    if j: "length xs \<le> j \<and> j < length ys" for j
  proof (cases "j = length xs")
    case False
    then have "length ?xs \<le> j \<and> j < length ys" using j by simp
    from s1 [OF this] False show ?thesis using nth [of "src j"] by auto
  qed (use k old y c in auto)
  have 2: "?src i < ?src j" if "length xs \<le> i \<and> i < j \<and> j < length ys" for i j
    using that s1 [of j] s2 [of i j] by (auto simp: Suc_le_eq)
  have 3: "\<exists>j. length xs \<le> j \<and> j < length ys \<and> ?src j = i"
    if i: "k \<le> i \<and> i < length ys \<and> (i < length xs \<longrightarrow> od_status (xs ! i) = Pending) \<and> od_status (ys ! i) = Filled \<and> follows now (ys ! i) d" for i d
  proof (cases "i = k")
    case True
    then show ?thesis using len by (intro exI [of _ "length xs"]) simp
  next
    case False
    have "od_status (?xs ! i) = Pending" if "i < length ?xs"
      using that i False pend nth [of i] by (cases "i = length xs") (auto simp: nth_append)
    then have "\<exists>j. length ?xs \<le> j \<and> j < length ys \<and> src j = i" using i False by (intro s3 [of i d]) auto
    then show ?thesis by (metis (no_types, lifting) Suc_eq_plus1 Suc_leD Suc_n_not_le_n length_append length_list_update list.size(3) list.size(4) One_nat_def plus_1_eq_Suc add.commute)
  qed
  show ?thesis unfolding repeats_def using 1 2 3 by blast
qed

lemma repeats_kept:
  assumes src: "repeats now (Suc k) (xs[k := y]) ys src" and k: "k < length xs"
    and none: "\<And>c. od_status (xs ! k) = Pending \<Longrightarrow> od_status (ys ! k) = Filled \<Longrightarrow> \<not> follows now (ys ! k) c"
  shows "repeats now k xs ys src"
proof -
  have nth: "xs[k := y] ! i = xs ! i" if "Suc k \<le> i" for i using that by simp
  note s1 = src [unfolded repeats_def, THEN conjunct1, rule_format]
    and s2 = src [unfolded repeats_def, THEN conjunct2, THEN conjunct1, rule_format]
    and s3 = src [unfolded repeats_def, THEN conjunct2, THEN conjunct2, rule_format]
  have "k \<le> src j \<and> src j < j \<and> (src j < length xs \<longrightarrow> od_status (xs ! src j) = Pending)
      \<and> od_status (ys ! src j) = Filled \<and> (\<exists>c. follows now (ys ! src j) c \<and> same_or_step now c (ys ! j))"
    if "length xs \<le> j \<and> j < length ys" for j
    using s1 [of j] that nth [of "src j"] by auto
  moreover have "\<exists>j. length xs \<le> j \<and> j < length ys \<and> src j = i"
    if i: "k \<le> i \<and> i < length ys \<and> (i < length xs \<longrightarrow> od_status (xs ! i) = Pending) \<and> od_status (ys ! i) = Filled \<and> follows now (ys ! i) d" for i d
  proof -
    have "i \<noteq> k" using i none k by auto
    then show ?thesis using s3 [of i d] i by simp
  qed
  ultimately show ?thesis unfolding repeats_def using s2 by (simp, blast)
qed

lemma outcome_repeats:
  "outcome now x y cs \<Longrightarrow> cs = [] \<or> (\<exists>c. cs = [c] \<and> od_status y = Filled \<and> recurring_clone now y = Some c)"
  "outcome now x y cs \<Longrightarrow> od_status y = Filled \<Longrightarrow> recurring_clone now y = Some c \<Longrightarrow> cs = [c]"
  by (auto elim!: outcome.cases simp: executing_def)

lemma order_step_pending: "order_step now x y \<Longrightarrow> od_status x = Pending"
  by (auto elim: order_stepE)

lemma eval_loop_repeats:
  assumes "eval_loop n opts now k st = Some (Inr st')" and "k \<le> length (es_orders st)"
  shows "\<exists>src. repeats now k (es_orders st) (es_orders st') src"
  using assms
proof (induction n arbitrary: k st)
  case 0
  then show ?case using repeats_none by (auto split: if_splits)
next
  case (Suc n)
  show ?case
  proof (cases "k < length (es_orders st)")
    case False
    then show ?thesis using Suc.prems repeats_none by auto
  next
    case True
    let ?xs = "es_orders st" and ?ys = "es_orders st'"
    obtain st1 where st1: "eval_order opts now k st = Inr st1" and rest: "eval_loop n opts now (Suc k) st1 = Some (Inr st')"
      using Suc.prems True by (auto split: sum.splits)
    obtain y cs where y: "step_result k st y cs st1"
      and cs: "cs = [] \<and> (y = ?xs ! k \<or> od_status y \<noteq> Filled) \<or> outcome now (?xs ! k) y cs \<and> order_step now (?xs ! k) y"
      using eval_order_result [OF st1 True] by blast
    have os: "es_orders st1 = ?xs[k := y] @ cs" using y by (simp add: step_result_def)
    have k1: "Suc k \<le> length (es_orders st1)" using True os by simp
    obtain src where src: "repeats now (Suc k) (es_orders st1) ?ys src" using Suc.IH [OF rest k1] by blast
    note later = eval_loop_orders [OF rest k1]
    have yk: "?ys ! k = y" "length ?xs + length cs \<le> length ?ys" using later os True by (auto simp: nth_append)
    have one: "cs = [] \<or> (\<exists>c. cs = [c] \<and> od_status (?xs ! k) = Pending \<and> od_status y = Filled \<and> follows now y c)"
      using cs outcome_repeats(1) order_step_pending unfolding follows_computed by blast
    have all: "cs = [c]" if "od_status (?xs ! k) = Pending" "od_status y = Filled" "follows now y c" for c
      using cs that outcome_repeats(2) by (auto simp: follows_computed)
    have "\<exists>src. repeats now k ?xs ?ys src"
    proof (cases "cs = []")
      case True
      have "repeats now k ?xs ?ys src"
        by (rule repeats_kept [of now k ?xs y]) (use src all yk(1) True \<open>k < length ?xs\<close> in \<open>auto simp: os\<close>)
      then show ?thesis by blast
    next
      case False
      then obtain c where c: "cs = [c]" "od_status (?xs ! k) = Pending" "od_status y = Filled" "follows now y c" using one by blast
      have "same_or_step now c (?ys ! length ?xs)" "length ?xs < length ?ys"
        using later [THEN conjunct2, rule_format, of "length ?xs"] yk(2) by (auto simp: os c(1) nth_append)
      from repeats_one [OF src [unfolded os c(1)] \<open>k < length ?xs\<close> c(2) yk(1) c(3,4) this] show ?thesis by blast
    qed
    then show ?thesis by blast
  qed
qed

lemma evaluateOrders_repeats:
  assumes "evaluateOrders fuel opts now f w = Some (r, f')"
  shows "\<exists>src. repeats now 0 (loadOrders f) (loadOrders f') src"
proof -
  let ?st = "\<lparr>es_orders = loadOrders f, es_results = [], es_modified = False, es_world = w\<rparr>"
  obtain res where res: "eval_loop fuel opts now 0 ?st = Some res"
    using assms by (auto simp: evaluateOrders_def split: option.splits)
  have same: "\<exists>src. repeats now 0 (loadOrders f) (loadOrders f) src" by (rule repeats_none)
  show ?thesis
  proof (cases res)
    case (Inl e)
    then show ?thesis using assms res same by (simp add: evaluateOrders_def)
  next
    case (Inr st')
    then show ?thesis using assms res same eval_loop_repeats [of fuel opts now 0 ?st st']
      by (auto simp: evaluateOrders_def split: if_splits)
  qed
qed

text \<open>C29. One evaluation pass moves every stored order along its life cycle by at most one step, and only
  by an enabled one: a pending order may expire when its expiry has passed; otherwise, when its cooldown
  has elapsed, fail when its attempts are used up, and if they are not be attempted, go to executing or
  be filled. Identity, intent, policy and creation time stay, the history grows by at most one
  event at its end, and an order that is not pending is left as it is. New orders only go to the
  end of the list, and they are exactly the repetitions of the orders filled in the pass that have one left: one each,
  in their order, with the same intent, slippage and wallet and one repetition less, itself moved by
  at most one step.\<close>

theorem evaluation_lifecycle:
  assumes "evaluateOrders fuel opts now f w = Some (r, f')"
  shows "length (loadOrders f) \<le> length (loadOrders f') \<and>
    (\<forall>j < length (loadOrders f). same_or_step now (loadOrders f ! j) (loadOrders f' ! j)
       \<and> kept (loadOrders f ! j) (loadOrders f' ! j))
    \<and> (\<exists>src. repeats now 0 (loadOrders f) (loadOrders f') src)"
  using evaluateOrders_orders [OF assms] same_or_step_kept evaluateOrders_repeats [OF assms] by blast

section \<open>The store over time\<close>

lemma find_index_Some: "find_index P xs = Some k \<Longrightarrow> k < length xs \<and> P (xs ! k) \<and> List.find P xs = Some (xs ! k)"
  by (induction xs arbitrary: k) (auto split: if_splits)

lemma ordersCancel_result:
  assumes "ordersCancel now i f = Inr f'"
  shows "\<exists>k < length (loadOrders f). od_status (loadOrders f ! k) = Pending \<and>
    loadOrders f' = (loadOrders f)[k := stamped now Cancelled (makeEvent EvCancelled now None None None) (loadOrders f ! k)]"
proof -
  obtain x where x: "getOrder i f = Some x" "od_status x = Pending"
    and u: "updateOrder now i (\<lambda>y. y\<lparr>od_status := Cancelled,
       od_history := od_history x @ [makeEvent EvCancelled now None None None]\<rparr>) f = Inr f'"
    using assms by (auto simp: ordersCancel_def split: option.splits if_splits)
  obtain k where k: "find_index (\<lambda>o1. od_id o1 = i) (loadOrders f) = Some k"
    and f': "f' = saveOrders ((loadOrders f)[k := ((loadOrders f ! k)\<lparr>od_status := Cancelled,
       od_history := od_history x @ [makeEvent EvCancelled now None None None]\<rparr>)\<lparr>od_updatedAt := Some now\<rparr>])"
    using u by (auto simp: updateOrder_def Let_def split: option.splits)
  have "loadOrders f ! k = x" "k < length (loadOrders f)"
    using find_index_Some [OF k] x(1) by (auto simp: getOrder_def)
  moreover have "(x\<lparr>od_status := Cancelled, od_history := od_history x @ [makeEvent EvCancelled now None None None]\<rparr>)
      \<lparr>od_updatedAt := Some now\<rparr> = stamped now Cancelled (makeEvent EvCancelled now None None None) x"
    by (cases x) (simp add: stamped_def)
  ultimately show ?thesis using x(2) f' by auto
qed

text \<open>The commands that write the store, beside an outside world that changes freely.\<close>

inductive store_step :: "orders_file \<times> 'w \<Rightarrow> orders_file \<times> 'w \<Rightarrow> bool" where
  create: "store_step (f, w) (addOrder x f, w')"
| cancel: "ordersCancel now i f = Inr f' \<Longrightarrow> store_step (f, w) (f', w')"
| evaluate: "evaluateOrders fuel opts now f w = Some (r, f') \<Longrightarrow> store_step (f, w) (f', w')"

inductive_cases store_stepE: "store_step s t"

text \<open>What is left of an order whatever is done to the store: it is the same order, its history is only
  appended to, and once it is no longer pending it never changes.\<close>

definition preserved :: "order \<Rightarrow> order \<Rightarrow> bool" where
  "preserved x y \<longleftrightarrow> od_id y = od_id x \<and> od_intent y = od_intent x \<and> od_policy y = od_policy x \<and> od_slippage y = od_slippage x
     \<and> od_wallet y = od_wallet x \<and> od_createdAt y = od_createdAt x \<and> (\<exists>more. od_history y = od_history x @ more)
     \<and> (od_status x \<noteq> Pending \<longrightarrow> y = x)"

lemma preserved_refl: "preserved x x"
  by (simp add: preserved_def)

lemma preserved_trans: "preserved x y \<Longrightarrow> preserved y z \<Longrightarrow> preserved x z"
  unfolding preserved_def by (metis append.assoc)

lemma kept_preserved: "kept x y \<Longrightarrow> preserved x y"
  by (auto simp: kept_def preserved_def)

definition extends :: "orders_file \<Rightarrow> orders_file \<Rightarrow> bool" where
  "extends f f' \<longleftrightarrow> length (loadOrders f) \<le> length (loadOrders f') \<and>
     (\<forall>j < length (loadOrders f). preserved (loadOrders f ! j) (loadOrders f' ! j))"

lemma extends_refl: "extends f f"
  by (simp add: extends_def preserved_refl)

lemma extends_trans: "extends f g \<Longrightarrow> extends g h \<Longrightarrow> extends f h"
  unfolding extends_def by (meson order_trans less_le_trans preserved_trans)

lemma extends_add: "extends f (addOrder x f)"
  by (simp add: extends_def addOrder_def nth_append preserved_refl)

lemma extends_cancel:
  assumes "ordersCancel now i f = Inr f'"
  shows "extends f f'"
proof -
  obtain k where "k < length (loadOrders f)" "od_status (loadOrders f ! k) = Pending"
    "loadOrders f' = (loadOrders f)[k := stamped now Cancelled (makeEvent EvCancelled now None None None) (loadOrders f ! k)]"
    using ordersCancel_result [OF assms] by blast
  then show ?thesis by (auto simp: extends_def nth_list_update preserved_def)
qed

lemma extends_evaluate: "evaluateOrders fuel opts now f w = Some (r, f') \<Longrightarrow> extends f f'"
  using evaluateOrders_orders [of fuel opts now f w r f'] same_or_step_kept kept_preserved unfolding extends_def by blast

lemma store_step_extends: "store_step s t \<Longrightarrow> extends (fst s) (fst t)"
  by (induction rule: store_step.induct) (simp_all add: extends_add extends_cancel extends_evaluate)

text \<open>Whatever sequence of orders is created, cancelled and evaluated, in any interleaving and with
  any behaviour of the server, the verifier and the signer: no order is ever lost or reordered,
  its history is only appended to, its identity, intent and policy never change, and once it is
  filled, cancelled, expired, failed or executing it never changes again.\<close>

theorem order_store_history:
  assumes "store_step\<^sup>*\<^sup>* (f, w) (f', w')"
  shows "extends f f'"
proof -
  have "extends (fst s) (fst t)" if "store_step\<^sup>*\<^sup>* s t" for s t :: "orders_file \<times> 'a"
    using that by (induction rule: rtranclp_induct) (blast intro: extends_refl extends_trans store_step_extends)+
  from this [OF assms] show ?thesis by simp
qed

section \<open>Only verified transactions are signed\<close>

text \<open>What must have happened for an order to be filled.\<close>

definition approved :: "'w evaluate_options \<Rightarrow> int \<Rightarrow> order \<Rightarrow> bool" where
  "approved opts now x \<longleftrightarrow>
     (\<exists>server resp tx sign txid w0 w1 w2 w3.
        eo_serverEvaluate opts = Some server \<and> server x w0 = (Inr resp, w1)
        \<and> sv_executable resp \<and> sv_transaction resp = Some tx \<and> tx \<noteq> []
        \<and> (\<forall>verify. eo_verifyTransaction opts = Some verify \<longrightarrow>
             (\<exists>v. verify tx (executing now x) w1 = (Inr v, w2) \<and> vf_matched v))
        \<and> eo_signAndSubmit opts = Some sign \<and> sign tx (executing now x) w2 = (Inr txid, w3))"

lemma sign_step_filled:
  assumes k: "k < length (es_orders st)" and x: "es_orders st ! k = executing now x"
    and f: "od_status (es_orders (sign_step opts now k response tx st) ! k) = Filled"
  shows "\<exists>sign txid w3. eo_signAndSubmit opts = Some sign \<and> sign tx (executing now x) (es_world st) = (Inr txid, w3)"
proof (cases "eo_signAndSubmit opts")
  case None
  then show ?thesis using f x by (simp add: sign_step_def executing_def)
next
  case (Some sign)
  obtain r w where r: "sign tx (executing now x) (es_world st) = (r, w)" by force
  show ?thesis
  proof (cases r)
    case (Inl e)
    then show ?thesis using Some r f x k by (simp add: sign_step_def server_error_def)
  next
    case (Inr txid)
    then show ?thesis using Some r by blast
  qed
qed

lemma verify_step_filled:
  assumes k: "k < length (es_orders st)" and x: "es_orders st ! k = executing now x"
    and f: "od_status (es_orders (verify_step opts now k response tx st) ! k) = Filled"
  shows "\<exists>sign txid w2 w3. (\<forall>verify. eo_verifyTransaction opts = Some verify \<longrightarrow>
             (\<exists>v. verify tx (executing now x) (es_world st) = (Inr v, w2) \<and> vf_matched v))
      \<and> eo_signAndSubmit opts = Some sign \<and> sign tx (executing now x) w2 = (Inr txid, w3)"
proof (cases "eo_verifyTransaction opts")
  case None
  then show ?thesis using sign_step_filled [OF k x, of opts response tx] f by (auto simp: verify_step_def)
next
  case (Some verify)
  obtain r w where r: "verify tx (executing now x) (es_world st) = (r, w)" by force
  show ?thesis
  proof (cases r)
    case (Inl e)
    then show ?thesis using Some r f x k by (simp add: verify_step_def server_error_def)
  next
    case (Inr v)
    show ?thesis
    proof (cases "vf_matched v")
      case False
      then show ?thesis using Some r Inr f x k by (simp add: verify_step_def)
    next
      case True
      then have "od_status (es_orders (sign_step opts now k response tx (st\<lparr>es_world := w\<rparr>)) ! k) = Filled"
        using Some r Inr f x by (simp add: verify_step_def)
      then show ?thesis
        using sign_step_filled [of k "st\<lparr>es_world := w\<rparr>" now x opts response tx] k x Some r Inr True by auto
    qed
  qed
qed

lemma server_step_filled:
  assumes k: "k < length (es_orders st)" and p: "od_status (es_orders st ! k) = Pending"
    and f: "od_status (es_orders (server_step opts now k st) ! k) = Filled"
  shows "approved opts now (es_orders st ! k)"
proof (cases "eo_serverEvaluate opts")
  case None
  then show ?thesis using p f by (simp add: server_step_def)
next
  case (Some server)
  let ?x = "es_orders st ! k"
  obtain r w where r: "server ?x (es_world st) = (r, w)" by force
  show ?thesis
  proof (cases r)
    case (Inl e)
    then show ?thesis using Some r f k by (simp add: server_step_def server_error_def)
  next
    case (Inr resp)
    show ?thesis
    proof (cases "\<exists>c cs. (if sv_executable resp then sv_transaction resp else None) = Some (c # cs)")
      case True
      then obtain tx where t: "(if sv_executable resp then sv_transaction resp else None) = Some tx" "tx \<noteq> []" by blast
      let ?st = "st\<lparr>es_world := w, es_orders := (es_orders st)[k := executing now ?x], es_modified := True\<rparr>"
      have "server_step opts now k st = verify_step opts now k resp tx ?st"
        using Some r Inr t by (cases tx) (simp_all add: server_step_def executing_def Let_def)
      then have "od_status (es_orders (verify_step opts now k resp tx ?st) ! k) = Filled" using f by simp
      from verify_step_filled [OF _ _ this, of ?x] obtain sign txid w2 w3 where
        "\<forall>verify. eo_verifyTransaction opts = Some verify \<longrightarrow>
             (\<exists>v. verify tx (executing now ?x) w = (Inr v, w2) \<and> vf_matched v)"
        "eo_signAndSubmit opts = Some sign" "sign tx (executing now ?x) w2 = (Inr txid, w3)"
        using k by auto
      moreover have "sv_executable resp" "sv_transaction resp = Some tx" using t(1) by (auto split: if_splits)
      ultimately show ?thesis
        using Some r Inr t(2) unfolding approved_def
        by (intro exI [of _ server] exI [of _ resp] exI [of _ tx] exI [of _ sign] exI [of _ txid]
            exI [of _ "es_world st"] exI [of _ w] exI [of _ w2] exI [of _ w3] conjI) simp_all
    next
      case False
      then have "server_step opts now k st = settle now k Pending
          (makeEvent EvAttempted now (sv_reason resp) (map_option DText (sv_detail resp)) None) (st\<lparr>es_world := w\<rparr>)"
        using Some r Inr by (auto simp: server_step_def Let_def split: option.split list.split)
      then show ?thesis using f k by simp
    qed
  qed
qed

lemma eval_order_filled:
  assumes e: "eval_order opts now k st = Inr st'" and k: "k < length (es_orders st)"
    and p: "od_status (es_orders st ! k) \<noteq> Filled" and f: "od_status (es_orders st' ! k) = Filled"
  shows "approved opts now (es_orders st ! k)"
proof -
  let ?x = "es_orders st ! k"
  have ready: "od_status ?x = Pending" "\<not> isExpired ?x now" "\<not> isInCooldown ?x now" "\<not> attempts_exhausted ?x"
    using assms by (auto simp: eval_order_def Let_def split: if_splits)
  obtain skipped st1 where ps: "price_step opts now k st = Inr (skipped, st1)"
    using e ready by (auto simp: eval_order_def Let_def bind_result_Inr_iff)
  show ?thesis
  proof (cases skipped)
    case True
    then obtain ev where "step_result k st (stamped now Pending ev ?x) [] st1"
      using price_step_result [OF ps] by auto
    then have "od_status (es_orders st1 ! k) = Pending" using k by (simp add: step_result_def)
    moreover have "st' = st1" using e ready ps True by (simp add: eval_order_def Let_def)
    ultimately show ?thesis using f by simp
  next
    case False
    then have os: "es_orders st1 = es_orders st" using price_step_result [OF ps] by simp
    show ?thesis
    proof (cases "eo_dryRun opts")
      case True
      then have "es_orders st' = es_orders st" using e ready ps False os by (auto simp: eval_order_def Let_def)
      then show ?thesis using f p by simp
    next
      case dry: False
      then have "st' = server_step opts now k st1" using e ready ps False by (simp add: eval_order_def Let_def)
      then show ?thesis using server_step_filled [of k st1 opts now] k ready f by (simp add: os)
    qed
  qed
qed

lemma eval_loop_filled:
  assumes "eval_loop n opts now k st = Some (Inr st')" and "j < length (es_orders st)" and "k \<le> length (es_orders st)"
    and "od_status (es_orders st ! j) \<noteq> Filled" and "od_status (es_orders st' ! j) = Filled"
  shows "approved opts now (es_orders st ! j)"
  using assms
proof (induction n arbitrary: k st)
  case 0
  then show ?case by (auto split: if_splits)
next
  case (Suc n)
  show ?case
  proof (cases "k < length (es_orders st)")
    case False
    then show ?thesis using Suc.prems by simp
  next
    case True
    then obtain st1 where st1: "eval_order opts now k st = Inr st1" and rest: "eval_loop n opts now (Suc k) st1 = Some (Inr st')"
      using Suc.prems by (auto split: sum.splits)
    obtain y cs where y: "step_result k st y cs st1" using eval_order_result [OF st1 True] by blast
    then have os: "es_orders st1 = (es_orders st)[k := y] @ cs" by (simp add: step_result_def)
    have len: "j < length (es_orders st1)" "Suc k \<le> length (es_orders st1)" using Suc.prems(2) True by (simp_all add: os)
    show ?thesis
    proof (cases "j = k")
      case j: True
      have "es_orders st' ! k = es_orders st1 ! k"
        using eval_loop_orders [OF rest len(2)] len(1) j by simp
      then show ?thesis using eval_order_filled [OF st1 True] Suc.prems(4,5) j by simp
    next
      case j: False
      then have "es_orders st1 ! j = es_orders st ! j"
        using Suc.prems(2) by (simp add: os nth_append)
      then show ?thesis using Suc.IH [OF rest len] Suc.prems(4,5) by simp
    qed
  qed
qed

lemma filled_approved:
  assumes "evaluateOrders fuel opts now f w = Some (r, f')" and "j < length (loadOrders f)"
    and "od_status (loadOrders f ! j) \<noteq> Filled" and "od_status (loadOrders f' ! j) = Filled"
  shows "approved opts now (loadOrders f ! j)"
proof -
  let ?st = "\<lparr>es_orders = loadOrders f, es_results = [], es_modified = False, es_world = w\<rparr>"
  obtain st' where "eval_loop fuel opts now 0 ?st = Some (Inr st')" and "loadOrders f' = es_orders st'"
    using assms by (auto simp: evaluateOrders_def split: option.splits sum.splits if_splits)
  then show ?thesis using eval_loop_filled [of fuel opts now 0 ?st st' j] assms by simp
qed

text \<open>C16. Nothing is filled without approval: when a pass turns an order filled, the server offered an
  executable transaction for it, the verifier (if one is configured) accepted exactly that
  transaction for that order, and the signer submitted it.\<close>

theorem filled_only_if_verified:
  assumes "evaluateOrders fuel opts now f w = Some (r, f')" and "j < length (loadOrders f)"
    and "od_status (loadOrders f ! j) \<noteq> Filled" and "od_status (loadOrders f' ! j) = Filled"
  shows "approved opts now (loadOrders f ! j)"
  using assms by (rule filled_approved)

section \<open>Termination of a pass\<close>

text \<open>How often an order with a finite integral recurrence is visited in one pass, itself included.\<close>

definition recurs_int :: "order \<Rightarrow> int \<Rightarrow> bool" where
  "recurs_int x r \<longleftrightarrow> r < 2 ^ 53 \<and>
     (\<exists>rc. po_recurrence (od_policy x) = Some rc \<and> rc_remaining rc = Some (Fin (of_int r)))"

definition bounded_order :: "order \<Rightarrow> bool" where
  "bounded_order x \<longleftrightarrow> po_recurrence (od_policy x) = None \<or> (\<exists>r. recurs_int x r)"

definition visits :: "order \<Rightarrow> nat" where
  "visits x = (case po_recurrence (od_policy x) of
      None \<Rightarrow> 1
    | Some rc \<Rightarrow> (case rc_remaining rc of Some (Fin q) \<Rightarrow> max 1 (nat \<lfloor>q\<rfloor>) | _ \<Rightarrow> 1))"

lemma visits_pos: "1 \<le> visits x"
  by (auto simp: visits_def split: option.split double.split)

lemma d_sub_one: "1 < r \<Longrightarrow> r < 2 ^ 53 \<Longrightarrow> d_sub (Fin (of_int r)) (Fin 1) = Fin (of_int (r - 1))"
  using num_of_int_exact [of "r - 1"] by (simp add: d_sub_def num_of_int_def)

lemma clone_bounded:
  assumes "bounded_order x" and "recurring_clone now x = Some c"
  shows "bounded_order c \<and> visits c < visits x"
proof -
  obtain rc where rc: "po_recurrence (od_policy x) = Some rc"
    using assms(2) by (auto simp: recurring_clone_def split: option.splits)
  then obtain r where r: "r < 2 ^ 53" "rc_remaining rc = Some (Fin (of_int r))"
    using assms(1) by (auto simp: bounded_order_def recurs_int_def)
  have r1: "1 < r" and c: "po_recurrence (od_policy c) = Some (rc\<lparr>rc_remaining := Some (d_sub (Fin (of_int r)) (Fin 1))\<rparr>)"
    using assms(2) rc r by (auto simp: recurring_clone_def Let_def d_less_def split: if_splits)
  have "po_recurrence (od_policy c) = Some (rc\<lparr>rc_remaining := Some (Fin (of_int (r - 1)))\<rparr>)"
    using c d_sub_one [OF r1 r(1)] by simp
  moreover from this have "recurs_int c (r - 1)" using r(1) by (simp add: recurs_int_def)
  ultimately show ?thesis using r1 rc r by (auto simp: bounded_order_def visits_def)
qed

lemma order_step_policy: "same_or_step now x y \<Longrightarrow> od_policy y = od_policy x"
  using same_or_step_kept by (auto simp: kept_def)

lemma visits_policy: "od_policy y = od_policy x \<Longrightarrow> visits y = visits x \<and> bounded_order y = bounded_order x"
  by (simp add: visits_def bounded_order_def recurs_int_def)

lemma outcome_clone:
  "outcome now x y cs \<Longrightarrow> cs = [] \<or> (\<exists>c. cs = [c] \<and> recurring_clone now y = Some c)"
  by (auto elim: outcome.cases)

definition work :: "nat \<Rightarrow> order list \<Rightarrow> nat" where
  "work k os = sum_list (map visits (drop k os))"

lemma work_step:
  assumes k: "k < length os" and y: "same_or_step now (os ! k) y" and b: "\<forall>x \<in> set os. bounded_order x"
    and cs: "cs = [] \<or> (\<exists>c. cs = [c] \<and> recurring_clone now y = Some c)"
  shows "work (Suc k) (os[k := y] @ cs) < work k os" and "\<forall>x \<in> set (os[k := y] @ cs). bounded_order x"
proof -
  have v: "visits y = visits (os ! k)" and bo: "bounded_order y"
    using visits_policy [OF order_step_policy [OF y]] b k by auto
  have w: "work k os = visits (os ! k) + sum_list (map visits (drop (Suc k) os))"
    using Cons_nth_drop_Suc [OF k] by (simp add: work_def flip: Cons_nth_drop_Suc [OF k])
  have "sum_list (map visits cs) < visits (os ! k)"
    using cs clone_bounded [OF bo] v visits_pos [of "os ! k"] by auto
  then show "work (Suc k) (os[k := y] @ cs) < work k os"
    using k w by (simp add: work_def)
  show "\<forall>x \<in> set (os[k := y] @ cs). bounded_order x"
    using b bo cs clone_bounded [OF bo] by (auto dest: set_update_subset_insert [THEN subsetD])
qed

lemma eval_loop_terminates:
  assumes "\<forall>x \<in> set (es_orders st). bounded_order x" and "work k (es_orders st) \<le> n"
  shows "\<exists>r. eval_loop n opts now k st = Some r"
  using assms
proof (induction n arbitrary: k st)
  case 0
  have "\<not> k < length (es_orders st)"
  proof
    assume k: "k < length (es_orders st)"
    have "visits (es_orders st ! k) \<le> work k (es_orders st)"
      by (simp add: work_def flip: Cons_nth_drop_Suc [OF k])
    then show False using 0 visits_pos [of "es_orders st ! k"] by simp
  qed
  then show ?case by simp
next
  case (Suc n)
  show ?case
  proof (cases "k < length (es_orders st)")
    case True
    show ?thesis
    proof (cases "eval_order opts now k st")
      case (Inl e)
      then show ?thesis using True by simp
    next
      case (Inr st1)
      obtain y cs where y: "step_result k st y cs st1" "same_or_step now (es_orders st ! k) y"
        and cs: "cs = [] \<or> outcome now (es_orders st ! k) y cs"
        using eval_order_result [OF Inr True] by blast
      then have os: "es_orders st1 = (es_orders st)[k := y] @ cs" by (simp add: step_result_def)
      note ws = work_step [OF True y(2) Suc.prems(1), of cs]
      have "\<forall>x \<in> set (es_orders st1). bounded_order x" "work (Suc k) (es_orders st1) \<le> n"
        using ws cs outcome_clone Suc.prems(2) by (fastforce simp: os)+
      then show ?thesis using Suc.IH Inr True by simp
    qed
  qed simp
qed

text \<open>C36. A pass over orders whose recurrences are absent or have a finite integral number of repetitions
  ends, whatever the callbacks do: the fuel \<open>visits\<close> adds up (each order once and once per
  remaining repetition) is enough.\<close>

theorem evaluation_terminates:
  assumes "\<forall>x \<in> set (loadOrders f). bounded_order x" and "sum_list (map visits (loadOrders f)) \<le> fuel"
  shows "\<exists>r f'. evaluateOrders fuel opts now f w = Some (r, f')"
proof -
  obtain r where "eval_loop fuel opts now 0
      \<lparr>es_orders = loadOrders f, es_results = [], es_modified = False, es_world = w\<rparr> = Some r"
    using eval_loop_terminates [of "\<lparr>es_orders = loadOrders f, es_results = [], es_modified = False, es_world = w\<rparr>" 0 fuel opts now]
      assms by (auto simp: work_def)
  then show ?thesis by (cases r) (simp_all add: evaluateOrders_def)
qed

section \<open>Unbounded recurrence\<close>

text \<open>A pending order with a recurrence that never ends, and nothing in the way of its execution.\<close>

definition hot :: "int \<Rightarrow> order \<Rightarrow> bool" where
  "hot now x \<longleftrightarrow> od_status x = Pending \<and> \<not> isExpired x now
     \<and> (\<forall>e \<in> set (od_history x). \<not> is_attempt e)
     \<and> (case po_maxAttempts (od_policy x) of None \<Rightarrow> True | Some m \<Rightarrow> \<not> d_le m (num_of_int 0))
     \<and> (\<exists>rc. po_recurrence (od_policy x) = Some rc \<and> rc_remaining rc = None)"

text \<open>Callbacks that always succeed: no price feed holds an order back, the server offers a transaction for
  every order, the verifier, if there is one, accepts it, and the signer submits it.\<close>

definition always_executes :: "'w evaluate_options \<Rightarrow> bool" where
  "always_executes opts \<longleftrightarrow> eo_priceFeed opts = None \<and> \<not> eo_dryRun opts
     \<and> (\<forall>verify. eo_verifyTransaction opts = Some verify \<longrightarrow>
          (\<forall>tx x w. \<exists>v w'. verify tx x w = (Inr v, w') \<and> vf_matched v))
     \<and> (\<exists>server. eo_serverEvaluate opts = Some server \<and>
          (\<forall>x w. \<exists>resp w' tx. server x w = (Inr resp, w') \<and> sv_executable resp
             \<and> sv_transaction resp = Some tx \<and> tx \<noteq> []))
     \<and> (\<exists>sign. eo_signAndSubmit opts = Some sign \<and> (\<forall>tx x w. \<exists>txid w'. sign tx x w = (Inr txid, w')))"

lemma hot_ready:
  assumes "hot now x"
  shows "od_status x = Pending" "\<not> isExpired x now" "\<not> isInCooldown x now" "\<not> attempts_exhausted x"
proof -
  have n: "List.find is_attempt (rev (od_history x)) = None"
    using assms by (simp add: hot_def find_None_iff)
  have "filter (\<lambda>e. ev_type e = EvAttempted) (od_history x) = []"
    using assms by (auto simp: hot_def filter_empty_conv is_attempt_def)
  then have c: "attemptCount x = 0" by (simp add: attemptCount_def)
  show "od_status x = Pending" "\<not> isExpired x now" using assms by (simp_all add: hot_def)
  show "\<not> isInCooldown x now" by (simp add: isInCooldown_def n)
  show "\<not> attempts_exhausted x" using assms by (auto simp: attempts_exhausted_def c hot_def split: option.splits)
qed

lemma hot_clone:
  assumes "hot now x"
  shows "\<exists>c. recurring_clone now (stamped now Filled ev x) = Some c \<and> hot now c"
  using assms by (auto simp: hot_def recurring_clone_def Let_def isExpired_def makeEvent_def is_attempt_def
      split: option.splits)

lemma accepted:
  assumes "always_executes opts"
  obtains w' where "verify_step opts now k resp tx st = sign_step opts now k resp tx (st\<lparr>es_world := w'\<rparr>)"
proof (cases "eo_verifyTransaction opts")
  case None
  have "verify_step opts now k resp tx st = sign_step opts now k resp tx (st\<lparr>es_world := es_world st\<rparr>)"
    by (simp add: verify_step_def None)
  then show ?thesis by (rule that)
next
  case (Some verify)
  then obtain v w' where "verify tx (es_orders st ! k) (es_world st) = (Inr v, w')" "vf_matched v"
    using assms unfolding always_executes_def by blast
  then have "verify_step opts now k resp tx st = sign_step opts now k resp tx (st\<lparr>es_world := w'\<rparr>)"
    by (simp add: verify_step_def Some)
  then show ?thesis by (rule that)
qed

lemma hot_step:
  assumes "always_executes opts" and h: "hot now (es_orders st ! k)" and k: "k < length (es_orders st)"
  shows "\<exists>st' y c. eval_order opts now k st = Inr st' \<and> es_orders st' = (es_orders st)[k := y] @ [c] \<and> hot now c"
proof -
  let ?x = "es_orders st ! k"
  obtain server where sv: "eo_serverEvaluate opts = Some server"
    "\<forall>x w. \<exists>resp w' tx. server x w = (Inr resp, w') \<and> sv_executable resp \<and> sv_transaction resp = Some tx \<and> tx \<noteq> []"
    using assms(1) by (auto simp: always_executes_def)
  obtain sign where sg: "eo_signAndSubmit opts = Some sign" "\<forall>tx x w. \<exists>txid w'. sign tx x w = (Inr txid, w')"
    using assms(1) by (auto simp: always_executes_def)
  obtain resp w1 tx where s1: "server ?x (es_world st) = (Inr resp, w1)" "sv_executable resp"
    "sv_transaction resp = Some tx" "tx \<noteq> []" using sv(2) by blast
  let ?st = "st\<lparr>es_world := w1, es_orders := (es_orders st)[k := executing now ?x], es_modified := True\<rparr>"
  obtain w3 where v: "verify_step opts now k resp tx ?st = sign_step opts now k resp tx (?st\<lparr>es_world := w3\<rparr>)"
    by (rule accepted [OF assms(1)])
  obtain txid w2 where s2: "sign tx (executing now ?x) w3 = (Inr txid, w2)" using sg(2) by blast
  let ?ev = "makeEvent EvFilled now None (map_option (\<lambda>p. DText (''Price: '' @ p)) (sv_quote_price resp)) (Some txid)"
  obtain c where c: "recurring_clone now (stamped now Filled ?ev ?x) = Some c" "hot now c"
    using hot_clone [OF h] by blast
  have "server_step opts now k st = verify_step opts now k resp tx ?st"
    using sv(1) s1 by (cases tx) (simp_all add: server_step_def executing_def Let_def)
  then have "es_orders (server_step opts now k st) = (es_orders st)[k := stamped now Filled ?ev ?x] @ [c]"
    using sg(1) s2 c(1) k by (simp add: v sign_step_def Let_def)
  moreover have "eval_order opts now k st = Inr (server_step opts now k st)"
    using hot_ready [OF h] assms(1) by (simp add: eval_order_def price_step_def always_executes_def Let_def)
  ultimately show ?thesis using c(2) by blast
qed

lemma eval_order_runs: "eo_priceFeed opts = None \<Longrightarrow> \<exists>st'. eval_order opts now k st = Inr st'"
  by (simp add: eval_order_def price_step_def Let_def)

lemma hot_diverges:
  assumes "always_executes opts" and "k \<le> j" and "j < length (es_orders st)" and "hot now (es_orders st ! j)"
  shows "eval_loop n opts now k st = None"
  using assms(2-)
proof (induction n arbitrary: k j st)
  case (Suc n)
  have k: "k < length (es_orders st)" using Suc.prems by simp
  obtain st' where st': "eval_order opts now k st = Inr st'"
    using eval_order_runs [of opts now k st] assms(1) by (auto simp: always_executes_def)
  have "\<exists>i. Suc k \<le> i \<and> i < length (es_orders st') \<and> hot now (es_orders st' ! i)"
  proof (cases "j = k")
    case True
    then obtain y c where "es_orders st' = (es_orders st)[k := y] @ [c]" "hot now c"
      using hot_step [OF assms(1), of now st k] Suc.prems st' by auto
    then show ?thesis using k by (intro exI [of _ "length (es_orders st)"]) (simp add: nth_append)
  next
    case False
    obtain y cs where "step_result k st y cs st'" using eval_order_result [OF st' k] by blast
    then have "es_orders st' = (es_orders st)[k := y] @ cs" by (simp add: step_result_def)
    then show ?thesis using False Suc.prems by (intro exI [of _ j]) (simp add: nth_append)
  qed
  then show ?case using Suc.IH k st' by auto
qed simp

text \<open>C37. The recurrence interval is not honoured: a repetition is queued as a fresh pending order without
  cooldown and visited in the same pass. So \<open>evaluateOrders\<close> never ends, whatever the fuel, on a store that holds
  a pending order that recurs without a limit, is not expired and was not attempted so far, when it is called
  without a price feed and not as a dry run, the server offers a transaction for every order, the
  verifier, if one is given, accepts it, and it can be signed.\<close>

theorem unbounded_recurrence_diverges:
  assumes "always_executes opts" and "hot now x" and "x \<in> set (loadOrders f)"
  shows "\<forall>fuel. evaluateOrders fuel opts now f w = None"
proof -
  let ?st = "\<lparr>es_orders = loadOrders f, es_results = [], es_modified = False, es_world = w\<rparr>"
  obtain j where "j < length (loadOrders f)" "hot now (loadOrders f ! j)" using assms(2,3) by (auto simp: in_set_conv_nth)
  then have "eval_loop fuel opts now 0 ?st = None" for fuel
    using hot_diverges [OF assms(1), of 0 j ?st now fuel] by simp
  then show ?thesis by (simp add: evaluateOrders_def)
qed

section \<open>A failing price feed\<close>

definition ready :: "int \<Rightarrow> order \<Rightarrow> bool" where
  "ready now x \<longleftrightarrow> od_status x = Pending \<and> \<not> isExpired x now \<and> \<not> isInCooldown x now \<and> \<not> attempts_exhausted x"

text \<open>A transaction for the order was obtained, verified and submitted between the worlds \<open>w\<close> and \<open>w'\<close>.\<close>

definition submitted :: "'w evaluate_options \<Rightarrow> int \<Rightarrow> order \<Rightarrow> 'w \<Rightarrow> string \<Rightarrow> 'w \<Rightarrow> bool" where
  "submitted opts now x w txid w' \<longleftrightarrow>
     (\<exists>server resp tx sign w1. eo_serverEvaluate opts = Some server \<and> server x w = (Inr resp, w1)
        \<and> sv_executable resp \<and> sv_transaction resp = Some tx \<and> tx \<noteq> []
        \<and> eo_verifyTransaction opts = None
        \<and> eo_signAndSubmit opts = Some sign \<and> sign tx (executing now x) w1 = (Inr txid, w'))"

lemma submitted_step:
  assumes "submitted opts now (es_orders st ! k) (es_world st) txid w'" and k: "k < length (es_orders st)"
  shows "\<exists>ev cs. es_orders (server_step opts now k st) = (es_orders st)[k := stamped now Filled ev (es_orders st ! k)] @ cs
    \<and> es_world (server_step opts now k st) = w'"
proof -
  let ?x = "es_orders st ! k"
  obtain server resp tx sign w1 where s: "eo_serverEvaluate opts = Some server" "server ?x (es_world st) = (Inr resp, w1)"
    "sv_executable resp" "sv_transaction resp = Some tx" "tx \<noteq> []" "eo_verifyTransaction opts = None"
    "eo_signAndSubmit opts = Some sign" "sign tx (executing now ?x) w1 = (Inr txid, w')"
    using assms(1) by (auto simp: submitted_def)
  let ?st = "st\<lparr>es_world := w1, es_orders := (es_orders st)[k := executing now ?x], es_modified := True\<rparr>"
  have "server_step opts now k st = verify_step opts now k resp tx ?st"
    using s by (cases tx) (simp_all add: server_step_def executing_def Let_def)
  also have "\<dots> = sign_step opts now k resp tx ?st" using s by (simp add: verify_step_def)
  finally have e: "server_step opts now k st = sign_step opts now k resp tx ?st" .
  let ?ev = "makeEvent EvFilled now None (map_option (\<lambda>p. DText (''Price: '' @ p)) (sv_quote_price resp)) (Some txid)"
  have "es_orders (sign_step opts now k resp tx ?st) = (es_orders st)[k := stamped now Filled ?ev ?x]
      @ (case recurring_clone now (stamped now Filled ?ev ?x) of None \<Rightarrow> [] | Some c \<Rightarrow> [c])"
    and "es_world (sign_step opts now k resp tx ?st) = w'"
    using s k by (simp_all add: sign_step_def Let_def split: option.split)
  then show ?thesis unfolding e by blast
qed

text \<open>A price feed that throws loses completed trades: nothing catches its error, the pass ends
  without saving, and an order that was signed and submitted before it in the same pass is still
  pending in the file, to be submitted again by the next pass.\<close>

theorem price_feed_failure_forgets_fill:
  assumes f: "f = Some [a, b]" and "ready now a" and "ready now b" and dry: "\<not> eo_dryRun opts"
    and sub: "submitted opts now a w txid w'"
    and ta: "getSwapPriceTarget a = Inr None" and tb: "getSwapPriceTarget b = Inr (Some t)"
    and feed: "eo_priceFeed opts = Some feed" "feed (pt_base t) (pt_quote t) w' = (Inl e, w2)"
  shows "evaluateOrders 2 opts now f w = Some (Inl e, f) \<and> od_status (loadOrders f ! 0) = Pending"
proof -
  let ?st = "\<lparr>es_orders = [a, b], es_results = [], es_modified = False, es_world = w\<rparr>"
  have "eval_order opts now 0 ?st = Inr (server_step opts now 0 ?st)"
    using assms by (simp add: eval_order_def price_step_def ready_def Let_def)
  moreover obtain ev cs where st1: "es_orders (server_step opts now 0 ?st) = stamped now Filled ev a # b # cs"
    "es_world (server_step opts now 0 ?st) = w'"
    using submitted_step [of opts now ?st 0 txid w'] sub by auto
  moreover have "eval_order opts now 1 (server_step opts now 0 ?st) = Inl e"
    using assms st1 by (simp add: eval_order_def price_step_def ready_def Let_def)
  ultimately have "eval_loop 2 opts now 0 ?st = Some (Inl e)"
    by (simp add: numeral_2_eq_2)
  then show ?thesis using assms by (simp add: evaluateOrders_def loadOrders_def ready_def)
qed

section \<open>Concrete orders\<close>

definition sample_order :: "recurrence option \<Rightarrow> order" where
  "sample_order rc = \<lparr>od_id = ''o1'',
     od_intent = JsObj [(''action'', JsText ''transfer'')],
     od_policy = \<lparr>po_expiresAt = None, po_cooldown = None, po_maxAttempts = None, po_recurrence = rc\<rparr>,
     od_status = Pending, od_slippage = Fin 0, od_wallet = None, od_createdAt = Some 0, od_updatedAt = Some 0,
     od_history = []\<rparr>"

definition sample_response :: server_response where
  "sample_response = \<lparr>sv_executable = True, sv_transaction = Some ''tx'', sv_quote_price = None, sv_reason = None, sv_detail = None\<rparr>"

definition sample_callbacks :: "unit evaluate_options" where
  "sample_callbacks = \<lparr>eo_dryRun = False, eo_priceFeed = None, eo_serverEvaluate = Some (\<lambda>x w. (Inr sample_response, w)),
     eo_signAndSubmit = Some (\<lambda>tx x w. (Inr ''sig'', w)), eo_verifyTransaction = None\<rparr>"

lemma sample_ready: "ready now (sample_order rc)"
  by (simp add: ready_def sample_order_def isExpired_def isInCooldown_def attempts_exhausted_def Let_def)

lemma sample_visits: "visits (sample_order None) = 1" "bounded_order (sample_order None)"
  by (simp_all add: visits_def bounded_order_def sample_order_def)

theorem evaluation_terminates_witness:
  "\<exists>r f'. evaluateOrders 1 sample_callbacks 1000 (Some [sample_order None]) () = Some (r, f')"
  by (rule evaluation_terminates) (simp_all add: loadOrders_def sample_visits)

lemma sample_pass:
  "\<exists>r ev. evaluateOrders 1 sample_callbacks 1000 (Some [sample_order None]) ()
     = Some (r, Some [stamped 1000 Filled ev (sample_order None)])"
proof -
  let ?st = "\<lparr>es_orders = [sample_order None], es_results = [], es_modified = False, es_world = ()\<rparr>"
  let ?ev = "makeEvent EvFilled 1000 None None (Some ''sig'')"
  have "recurring_clone 1000 (stamped 1000 Filled ?ev (sample_order None)) = None"
    by (simp add: recurring_clone_def sample_order_def)
  then have "es_orders (server_step sample_callbacks 1000 0 ?st) = [stamped 1000 Filled ?ev (sample_order None)]"
    and "es_modified (server_step sample_callbacks 1000 0 ?st)"
    by (simp_all add: server_step_def verify_step_def sign_step_def sample_callbacks_def sample_response_def Let_def
        flip: executing_def)
  moreover have "eval_order sample_callbacks 1000 0 ?st = Inr (server_step sample_callbacks 1000 0 ?st)"
    using sample_ready [of 1000 None]
    by (simp add: eval_order_def price_step_def ready_def sample_callbacks_def Let_def)
  ultimately show ?thesis by (auto simp: evaluateOrders_def loadOrders_def saveOrders_def)
qed

text \<open>An order with two executions: filled, repeated, and the repetition filled in the same pass.\<close>

definition twice :: order where
  "twice = sample_order (Some \<lparr>rc_interval = Fin 86400, rc_remaining = Some (Fin 2)\<rparr>)"

definition sample_fill :: "order \<Rightarrow> order" where
  "sample_fill x = stamped 1000 Filled (makeEvent EvFilled 1000 None None (Some ''sig'')) x"

lemma sample_step:
  assumes "ready 1000 (es_orders st ! k)" and "k < length (es_orders st)"
  shows "\<exists>st'. eval_order sample_callbacks 1000 k st = Inr st' \<and> es_modified st' \<and> es_orders st' =
    (es_orders st)[k := sample_fill (es_orders st ! k)]
      @ (case recurring_clone 1000 (sample_fill (es_orders st ! k)) of None \<Rightarrow> [] | Some c \<Rightarrow> [c])"
  using assms
  by (simp add: eval_order_def price_step_def ready_def server_step_def verify_step_def sign_step_def sample_callbacks_def
      sample_response_def sample_fill_def Let_def split: option.split flip: executing_def)

definition second :: order where
  "second = the (recurring_clone 1000 (sample_fill twice))"

lemma second_simps:
  "recurring_clone 1000 (sample_fill twice) = Some second" "ready 1000 second" "recurring_clone 1000 (sample_fill second) = None"
  using d_sub_one [of 2]
  by (simp_all add: second_def twice_def sample_fill_def sample_order_def recurring_clone_def ready_def isExpired_def isInCooldown_def
      attempts_exhausted_def is_attempt_def d_less_def stamped_def makeEvent_def Let_def)

lemma twice_pass:
  "\<exists>r f'. evaluateOrders 2 sample_callbacks 1000 (Some [twice]) () = Some (r, f') \<and> length (loadOrders f') = 2"
proof -
  let ?st = "\<lparr>es_orders = [twice], es_results = [], es_modified = False, es_world = ()\<rparr>"
  obtain st1 where st1: "eval_order sample_callbacks 1000 0 ?st = Inr st1" "es_orders st1 = [sample_fill twice, second]"
    using sample_step [of ?st 0] second_simps(1) sample_ready [of 1000] by (auto simp: twice_def)
  obtain st2 where st2: "eval_order sample_callbacks 1000 1 st1 = Inr st2" "es_modified st2" "length (es_orders st2) = 2"
    using sample_step [of st1 1] second_simps(2,3) by (auto simp: st1(2))
  have "eval_loop 2 sample_callbacks 1000 0 ?st = Some (Inr st2)"
    using st1 st2 by (simp add: numeral_2_eq_2)
  then show ?thesis using st2 by (simp add: evaluateOrders_def loadOrders_def [of "Some [twice]"])
qed

theorem evaluation_lifecycle_witness:
  "\<exists>r f'. evaluateOrders 2 sample_callbacks 1000 (Some [twice]) () = Some (r, f') \<and> kept twice (loadOrders f' ! 0)
     \<and> od_status (loadOrders f' ! 0) = Filled
     \<and> (\<exists>c. follows 1000 (loadOrders f' ! 0) c \<and> same_or_step 1000 c (loadOrders f' ! 1))"
proof -
  obtain r f' where e: "evaluateOrders 2 sample_callbacks 1000 (Some [twice]) () = Some (r, f')" "length (loadOrders f') = 2"
    using twice_pass by blast
  obtain src where k: "kept twice (loadOrders f' ! 0)" and src: "repeats 1000 0 [twice] (loadOrders f') src"
    using evaluation_lifecycle [OF e(1)] by (auto simp: loadOrders_def)
  have "length [twice] \<le> 1 \<and> 1 < length (loadOrders f')" using e(2) by simp
  note all = src [unfolded repeats_def, THEN conjunct1, rule_format, OF this]
  then have z: "src 1 = 0" by linarith
  from e(1) k all show ?thesis unfolding z by blast
qed

theorem filled_only_if_verified_witness: "approved sample_callbacks 1000 (sample_order None)"
proof -
  obtain r ev where e: "evaluateOrders 1 sample_callbacks 1000 (Some [sample_order None]) ()
     = Some (r, Some [stamped 1000 Filled ev (sample_order None)])" using sample_pass by blast
  have "od_status (sample_order None) = Pending" by (simp add: sample_order_def)
  with filled_only_if_verified [OF e, of 0] show ?thesis by (simp add: loadOrders_def)
qed

theorem order_store_history_witness:
  "extends (Some []) (addOrder (sample_order None) (Some []))"
  by (rule order_store_history [where w = "()" and w' = "()"]) (intro r_into_rtranclp store_step.create)

theorem unbounded_recurrence_diverges_witness:
  "\<forall>fuel. evaluateOrders fuel sample_callbacks 1000
     (Some [sample_order (Some \<lparr>rc_interval = Fin 86400, rc_remaining = None\<rparr>)]) () = None"
proof (rule unbounded_recurrence_diverges)
  show "always_executes sample_callbacks" by (simp add: always_executes_def sample_callbacks_def sample_response_def)
  show "hot 1000 (sample_order (Some \<lparr>rc_interval = Fin 86400, rc_remaining = None\<rparr>))"
    by (simp add: hot_def sample_order_def isExpired_def)
qed (simp add: loadOrders_def)

definition swap_order :: order where
  "swap_order = (sample_order None)\<lparr>od_intent :=
     JsObj [(''action'', JsText ''swap''), (''tokenIn'', JsObj [(''tokenSymbol'', JsText ''USDC'')]),
       (''tokenOut'', JsObj [(''tokenSymbol'', JsText ''SOL'')]), (''amountIn'', JsText ''1''),
       (''amountOut'', JsObj [(''gte'', JsText ''1'')])]\<rparr>"

lemma round64_one: "round64 1 = Fin 1"
  using num_of_int_exact [of 1] by (simp add: num_of_int_def)

lemma parse_one: "parseFloat ''1'' = Fin 1"
  by (simp add: parseFloat_def parse_unsigned_float_def take_digits_def digits_value_def parse_exponent_def
      scale10_def round64_one js_eval)

lemma swap_order_target:
  "getSwapPriceTarget swap_order = Inr (Some \<lparr>pt_base = ''SOL'', pt_quote = ''USDC'', pt_maxPrice = Fin 1\<rparr>)"
  by (simp add: getSwapPriceTarget_def swap_order_def member_def jget_def opt_member_def j_truthy_def text_of_json_def parse_one d_truthy_def d_le_def d_less_def d_div_def
      round64_one Let_def)

theorem price_feed_failure_forgets_fill_witness:
  "evaluateOrders 2 (sample_callbacks\<lparr>eo_priceFeed := Some (\<lambda>b q w. (Inl (JsError ''feed''), w))\<rparr>) 1000
     (Some [sample_order None, swap_order]) () = Some (Inl (JsError ''feed''), Some [sample_order None, swap_order])"
proof -
  let ?f = "Some [sample_order None, swap_order]"
  let ?opts = "sample_callbacks\<lparr>eo_priceFeed := Some (\<lambda>b q w. (Inl (JsError ''feed''), w))\<rparr>"
  have "ready 1000 swap_order"
    by (simp add: swap_order_def ready_def sample_order_def isExpired_def isInCooldown_def attempts_exhausted_def Let_def)
  moreover have "submitted ?opts 1000 (sample_order None) () ''sig'' ()"
    by (simp add: submitted_def sample_callbacks_def sample_response_def)
  moreover have "getSwapPriceTarget (sample_order None) = Inr None"
    by (simp add: getSwapPriceTarget_def member_def jget_def sample_order_def)
  ultimately show ?thesis
    using price_feed_failure_forgets_fill [OF refl sample_ready, of 1000 swap_order ?opts None "()" "''sig''" "()" _
        "\<lambda>b q w. (Inl (JsError ''feed''), w)" "JsError ''feed''" "()"] swap_order_target
    by (simp add: sample_callbacks_def)
qed

end
