(* ===== verification/Tables.thy ===== *)
theory Tables
  imports Prelude
begin

text \<open>
  Database tables with a unique column: a table is the list of its rows in insertion order, and
  the operations are the calls the services make on a MikroORM repository (\<open>findOne\<close>, \<open>persist\<close>,
  assignment to a managed row, \<open>remove\<close>). The locale \<open>row_store\<close> is what the services rely on;
  each service interprets it on its own tables.
\<close>

section \<open>Operations\<close>

definition find_row :: "('r \<Rightarrow> 'k) \<Rightarrow> 'k \<Rightarrow> 'r list \<Rightarrow> 'r option" where
  "find_row key k rows = List.find (\<lambda>r. key r = k) rows"

definition change_rows :: "('r \<Rightarrow> 'k) \<Rightarrow> 'k \<Rightarrow> ('r \<Rightarrow> 'r) \<Rightarrow> 'r list \<Rightarrow> 'r list" where
  "change_rows key k f rows = map (\<lambda>r. if key r = k then f r else r) rows"

definition add_row :: "'r \<Rightarrow> 'r list \<Rightarrow> 'r list" where
  "add_row r rows = rows @ [r]"

definition unique_on :: "('r \<Rightarrow> 'k) \<Rightarrow> 'r list \<Rightarrow> bool" where
  "unique_on key rows = distinct (map key rows)"

section \<open>The contract\<close>

locale row_store =
  fixes key :: "'r \<Rightarrow> 'k"
    and lookup :: "'k \<Rightarrow> 's \<Rightarrow> 'r option"
    and add :: "'r \<Rightarrow> 's \<Rightarrow> 's"
    and change :: "'k \<Rightarrow> ('r \<Rightarrow> 'r) \<Rightarrow> 's \<Rightarrow> 's"
    and inv :: "'s \<Rightarrow> bool"
  assumes lookup_key: "lookup k s = Some r \<Longrightarrow> key r = k"
    and lookup_add: "lookup (key r) s = None \<Longrightarrow> lookup k (add r s) = (if k = key r then Some r else lookup k s)"
    and lookup_change: "(\<And>r. key (f r) = key r) \<Longrightarrow>
          lookup k' (change k f s) = (if k' = k then map_option f (lookup k s) else lookup k' s)"
    and inv_add: "inv s \<Longrightarrow> lookup (key r) s = None \<Longrightarrow> inv (add r s)"
    and inv_change: "inv s \<Longrightarrow> (\<And>r. key (f r) = key r) \<Longrightarrow> inv (change k f s)"
begin

text \<open>Rows that satisfy a predicate keep doing so.\<close>

definition all_rows :: "('r \<Rightarrow> bool) \<Rightarrow> 's \<Rightarrow> bool" where
  "all_rows P s \<longleftrightarrow> (\<forall>k r. lookup k s = Some r \<longrightarrow> P r)"

lemma all_rows_add: "all_rows P s \<Longrightarrow> lookup (key r) s = None \<Longrightarrow> P r \<Longrightarrow> all_rows P (add r s)"
  by (auto simp: all_rows_def lookup_add)

lemma all_rows_change:
  assumes "all_rows P s" and "\<And>r. key (f r) = key r" and "\<And>r. P r \<Longrightarrow> P (f r)"
  shows "all_rows P (change k f s)"
  using assms by (auto simp: all_rows_def lookup_change)

text \<open>Nothing disappears.\<close>

definition keeps :: "'s \<Rightarrow> 's \<Rightarrow> bool" where
  "keeps s s' \<longleftrightarrow> (\<forall>k. lookup k s \<noteq> None \<longrightarrow> lookup k s' \<noteq> None)"

lemma keeps_refl: "keeps s s"
  by (simp add: keeps_def)

lemma keeps_trans: "keeps s t \<Longrightarrow> keeps t u \<Longrightarrow> keeps s u"
  by (simp add: keeps_def)

lemma keeps_add: "lookup (key r) s = None \<Longrightarrow> keeps s (add r s)"
  by (auto simp: keeps_def lookup_add)

lemma keeps_change: "(\<And>r. key (f r) = key r) \<Longrightarrow> keeps s (change k f s)"
  by (auto simp: keeps_def lookup_change)

end

section \<open>Lists of rows implement it\<close>

lemma find_row_Nil [simp]: "find_row key k [] = None"
  by (simp add: find_row_def)

lemma find_row_Cons: "find_row key k (r # rows) = (if key r = k then Some r else find_row key k rows)"
  by (simp add: find_row_def)

lemma find_row_key: "find_row key k rows = Some r \<Longrightarrow> key r = k"
  by (auto simp: find_row_def find_Some_iff)

lemma find_row_in: "find_row key k rows = Some r \<Longrightarrow> r \<in> set rows"
  by (auto simp: find_row_def find_Some_iff)

lemma find_row_None: "find_row key k rows = None \<longleftrightarrow> k \<notin> key ` set rows"
  by (auto simp: find_row_def find_None_iff)

lemma find_row_Some_iff:
  "unique_on key rows \<Longrightarrow> find_row key k rows = Some r \<longleftrightarrow> r \<in> set rows \<and> key r = k"
proof (induction rows)
  case (Cons x rows)
  then show ?case
    by (auto simp: find_row_Cons unique_on_def dest: find_row_in find_row_key)
qed simp

lemma find_row_add:
  "find_row key k (add_row r rows)
     = (case find_row key k rows of Some x \<Rightarrow> Some x | None \<Rightarrow> if key r = k then Some r else None)"
  by (induction rows) (auto simp: find_row_Cons add_row_def)

lemma find_row_change:
  assumes "\<And>r. key (f r) = key r"
  shows "find_row key k' (change_rows key k f rows)
     = (if k' = k then map_option f (find_row key k rows) else find_row key k' rows)"
  by (induction rows) (auto simp: find_row_Cons change_rows_def assms)

lemma unique_on_add: "unique_on key (add_row r rows) \<longleftrightarrow> unique_on key rows \<and> find_row key (key r) rows = None"
  by (auto simp: unique_on_def add_row_def find_row_None)

lemma map_key_change:
  "(\<And>r. key (f r) = key r) \<Longrightarrow> map key (change_rows key' k f rows) = map key rows"
  by (auto simp: change_rows_def)

lemma unique_on_change:
  "(\<And>r. key (f r) = key r) \<Longrightarrow> unique_on key (change_rows key' k f rows) = unique_on key rows"
  by (simp add: unique_on_def map_key_change)

lemma list_row_store: "row_store key (find_row key) add_row (change_rows key) (unique_on key)"
proof
  show "find_row key k s = Some r \<Longrightarrow> key r = k" for k s r
    by (rule find_row_key)
  show "find_row key (key r) s = None \<Longrightarrow>
      find_row key k (add_row r s) = (if k = key r then Some r else find_row key k s)" for r s k
    by (auto simp: find_row_add split: option.split)
  show "(\<And>r. key (f r) = key r) \<Longrightarrow> find_row key k' (change_rows key k f s)
      = (if k' = k then map_option f (find_row key k s) else find_row key k' s)" for f k' k s
    by (rule find_row_change)
  show "unique_on key s \<Longrightarrow> find_row key (key r) s = None \<Longrightarrow> unique_on key (add_row r s)" for s r
    by (simp add: unique_on_add)
  show "unique_on key s \<Longrightarrow> (\<And>r. key (f r) = key r) \<Longrightarrow> unique_on key (change_rows key k f s)" for s f k
    by (simp add: unique_on_change)
qed

lemmas [js_eval] = find_row_def change_rows_def add_row_def unique_on_def

end
