(* ===== verification/Http.thy ===== *)
theory Http
  imports Prelude
begin

text \<open>
  What the controllers of the backend share: the exceptions of the HTTP layer (status, error code,
  message), the message of a thrown value, request fields that may be absent or empty, and
  \<open>validatePubkey\<close>, which three controllers repeat (\<^verbatim>\<open>new PublicKey\<close> is the parameter \<open>pk\<close>).
\<close>

datatype http_error = HttpError nat string string

abbreviation BadRequest :: "string \<Rightarrow> string \<Rightarrow> http_error" where
  "BadRequest \<equiv> HttpError 400"

abbreviation Unauthorized :: "string \<Rightarrow> string \<Rightarrow> http_error" where
  "Unauthorized \<equiv> HttpError 401"

text \<open>\<open>e.message\<close> of a thrown value.\<close>

fun err_message :: "js_error \<Rightarrow> string" where
  "err_message (JsError m) = m"
| "err_message (SdkError c m) = m"
| "err_message RangeError = ''RangeError''"
| "err_message SyntaxError = ''SyntaxError''"

abbreviation NotFound :: "string \<Rightarrow> string \<Rightarrow> http_error" where
  "NotFound \<equiv> HttpError 404"

text \<open>A field that is present and not the empty string.\<close>

definition given :: "string option \<Rightarrow> string option" where
  "given s = (case s of None \<Rightarrow> None | Some t \<Rightarrow> if t = [] then None else Some t)"

definition validatePubkey :: "(string \<Rightarrow> 'k option) \<Rightarrow> string option \<Rightarrow> string \<Rightarrow> http_error + string" where
  "validatePubkey pk val field =
     (case given val of
        None \<Rightarrow> Inl (BadRequest ''MISSING_FIELD'' (field @ '' is required''))
      | Some v \<Rightarrow>
          (case pk v of
             None \<Rightarrow> Inl (BadRequest ''INVALID_PUBKEY'' (field @ '' is not a valid public key''))
           | Some k \<Rightarrow> Inr v))"

lemma validatePubkey_iff:
  "validatePubkey pk val field = Inr v \<longleftrightarrow> val = Some v \<and> v \<noteq> [] \<and> pk v \<noteq> None"
  by (auto simp: validatePubkey_def given_def split: option.split)

end
