(* ===== verification/Auth.thy ===== *)
theory Auth
  imports Bytes Tables Http
begin

text \<open>
  The API-key authentication of the backend (\<^verbatim>\<open>api/auth/auth.service.ts\<close>,
  \<^verbatim>\<open>auth.guard.ts\<close>, \<^verbatim>\<open>auth.controller.ts\<close>): challenges kept in memory, keys kept in the table
  \<open>ApiKey\<close>. Hashing, signature verification, base64 and \<^verbatim>\<open>new PublicKey\<close> are the parameter
  \<open>auth_env\<close>; random values, uuids and the clock are arguments of the operations. The columns
  \<open>id\<close> and \<open>createdAt\<close>, which no operation reads, are left out.

  \<open>verifyAndIssueKey\<close> suspends twice, at the lookup and at the flush: the three synchronous
  pieces are separate definitions, and the step relation \<open>auth_step\<close> interleaves the pieces of
  any number of requests.
\<close>

section \<open>The service\<close>

record challenge =
  ch_nonce :: string
  ch_expiresAt :: int

record api_key =
  ak_pubkey :: string
  ak_keyHash :: string
  ak_revokedAt :: "int option"

record auth_state =
  au_challenges :: "string \<rightharpoonup> challenge"
  au_rows :: "api_key list"

record auth_env =
  ae_sha256 :: "string \<Rightarrow> string"
  ae_verify :: "buffer \<Rightarrow> buffer \<Rightarrow> buffer \<Rightarrow> bool option"
  ae_base64 :: "string \<Rightarrow> buffer"
  ae_pk :: "string \<Rightarrow> buffer option"
  ae_db_error :: string

definition generateChallenge :: "string \<Rightarrow> string \<Rightarrow> int \<Rightarrow> auth_state \<Rightarrow> string \<times> auth_state" where
  "generateChallenge pubkey uuid now st =
     (let nonce = ''silk_'' @ uuid
      in (nonce, st\<lparr>au_challenges := (au_challenges st)
            (pubkey \<mapsto> \<lparr>ch_nonce = nonce, ch_expiresAt = now + 60000\<rparr>)\<rparr>))"

text \<open>\<open>verifyAndIssueKey\<close> up to its first \<open>await\<close>: the challenge is consumed and the signature
  checked. The result is the nonce that was signed.\<close>

definition consume_challenge ::
    "auth_env \<Rightarrow> string \<Rightarrow> string \<Rightarrow> int \<Rightarrow> auth_state \<Rightarrow> string result \<times> auth_state" where
  "consume_challenge env pubkey signature now st =
     (case au_challenges st pubkey of
        None \<Rightarrow> (Inl (JsError (''No valid challenge found '' @ em_dash @ '' call /api/auth/challenge first'')), st)
      | Some entry \<Rightarrow>
          if ch_expiresAt entry < now
          then (Inl (JsError (''No valid challenge found '' @ em_dash @ '' call /api/auth/challenge first'')), st)
          else
            let st1 = st\<lparr>au_challenges := (au_challenges st)(pubkey := None)\<rparr> in
            (case ae_pk env pubkey of
               None \<Rightarrow> (Inl (JsError ''Invalid public key''), st1)
             | Some pubkeyBytes \<Rightarrow>
                 (case ae_verify env (utf8_bytes (ch_nonce entry)) (ae_base64 env signature) pubkeyBytes of
                    Some True \<Rightarrow> (Inr (ch_nonce entry), st1)
                  | _ \<Rightarrow> (Inl (JsError ''Signature verification failed''), st1))))"

definition make_key :: "buffer \<Rightarrow> string" where
  "make_key random = ''sw_'' @ toString_hex random"

text \<open>\<open>findOne(ApiKey, { pubkey })\<close>: whether there is a row.\<close>

definition lookup_row :: "string \<Rightarrow> auth_state \<Rightarrow> bool" where
  "lookup_row pubkey st = (find_row ak_pubkey pubkey (au_rows st) \<noteq> None)"

text \<open>The two unique columns, which the database enforces at \<open>flush\<close>.\<close>

definition unique_rows :: "api_key list \<Rightarrow> bool" where
  "unique_rows rows = (unique_on ak_pubkey rows \<and> unique_on ak_keyHash rows)"

definition flush_rows :: "auth_env \<Rightarrow> api_key list \<Rightarrow> auth_state \<Rightarrow> unit result \<times> auth_state" where
  "flush_rows env rows st =
     (if unique_rows rows then (Inr (), st\<lparr>au_rows := rows\<rparr>) else (Inl (JsError (ae_db_error env)), st))"

definition store_key :: "auth_env \<Rightarrow> string \<Rightarrow> string \<Rightarrow> bool \<Rightarrow> auth_state \<Rightarrow> unit result \<times> auth_state" where
  "store_key env pubkey rawKey found st =
     (let keyHash = ae_sha256 env rawKey in
      flush_rows env
        (if found
         then change_rows ak_pubkey pubkey (\<lambda>r. r\<lparr>ak_keyHash := keyHash, ak_revokedAt := None\<rparr>) (au_rows st)
         else add_row \<lparr>ak_pubkey = pubkey, ak_keyHash = keyHash, ak_revokedAt = None\<rparr> (au_rows st)) st)"

definition verifyAndIssueKey ::
    "auth_env \<Rightarrow> string \<Rightarrow> string \<Rightarrow> int \<Rightarrow> buffer \<Rightarrow> auth_state \<Rightarrow> string result \<times> auth_state" where
  "verifyAndIssueKey env pubkey signature now random st =
     (case consume_challenge env pubkey signature now st of
        (Inl e, st1) \<Rightarrow> (Inl e, st1)
      | (Inr nonce, st1) \<Rightarrow>
          let rawKey = make_key random in
          (case store_key env pubkey rawKey (lookup_row pubkey st1) st1 of
             (Inl e, st2) \<Rightarrow> (Inl e, st2)
           | (Inr u, st2) \<Rightarrow> (Inr rawKey, st2)))"

definition validateKey :: "auth_env \<Rightarrow> string \<Rightarrow> auth_state \<Rightarrow> string option" where
  "validateKey env rawKey st =
     (case find_row ak_keyHash (ae_sha256 env rawKey) (au_rows st) of
        None \<Rightarrow> None
      | Some r \<Rightarrow> (case ak_revokedAt r of None \<Rightarrow> Some (ak_pubkey r) | Some t \<Rightarrow> None))"

definition revokeKey :: "auth_env \<Rightarrow> string \<Rightarrow> int \<Rightarrow> auth_state \<Rightarrow> unit result \<times> auth_state" where
  "revokeKey env rawKey now st =
     (let keyHash = ae_sha256 env rawKey in
      case find_row ak_keyHash keyHash (au_rows st) of
        None \<Rightarrow> (Inl (JsError ''Key not found''), st)
      | Some record \<Rightarrow>
          flush_rows env (change_rows ak_keyHash keyHash (\<lambda>r. r\<lparr>ak_revokedAt := Some now\<rparr>) (au_rows st)) st)"

section \<open>The guard and the controller\<close>

text \<open>Strings of the request may be absent. The guard's result is the agent it attaches.\<close>

definition bearer :: "string option \<Rightarrow> string option" where
  "bearer auth = (case auth of
      None \<Rightarrow> None
    | Some h \<Rightarrow> if startsWith h ''Bearer '' then Some (drop 7 h) else None)"

definition canActivate ::
    "auth_env \<Rightarrow> bool \<Rightarrow> string option \<Rightarrow> auth_state \<Rightarrow> http_error + string option" where
  "canActivate env isPublic authHeader st =
     (if isPublic then Inr None
      else case bearer authHeader of
        None \<Rightarrow> Inl (Unauthorized ''MISSING_API_KEY'' ''Authorization: Bearer <api-key> header required'')
      | Some rawKey \<Rightarrow>
          (case validateKey env rawKey st of
             None \<Rightarrow> Inl (Unauthorized ''INVALID_API_KEY'' ''Invalid or revoked API key'')
           | Some agent \<Rightarrow> Inr (Some agent)))"

definition auth_challenge ::
    "auth_env \<Rightarrow> string option \<Rightarrow> string \<Rightarrow> int \<Rightarrow> auth_state \<Rightarrow> (http_error + string) \<times> auth_state" where
  "auth_challenge env pubkey uuid now st =
     (case given pubkey of
        None \<Rightarrow> (Inl (BadRequest ''MISSING_FIELD'' ''pubkey is required''), st)
      | Some p \<Rightarrow>
          (case ae_pk env p of
             None \<Rightarrow> (Inl (BadRequest ''INVALID_PUBKEY'' ''pubkey is not a valid public key''), st)
           | Some k \<Rightarrow> (case generateChallenge p uuid now st of (nonce, st1) \<Rightarrow> (Inr nonce, st1))))"

definition register_guard :: "auth_env \<Rightarrow> string option \<Rightarrow> string option \<Rightarrow> http_error + string \<times> string" where
  "register_guard env pubkey signature =
     (case (given pubkey, given signature) of
        (Some p, Some s) \<Rightarrow>
          (case ae_pk env p of
             None \<Rightarrow> Inl (BadRequest ''INVALID_PUBKEY'' ''pubkey is not a valid public key'')
           | Some k \<Rightarrow> Inr (p, s))
      | _ \<Rightarrow> Inl (BadRequest ''MISSING_FIELD'' ''pubkey and signature are required''))"

definition auth_register ::
    "auth_env \<Rightarrow> string option \<Rightarrow> string option \<Rightarrow> int \<Rightarrow> buffer \<Rightarrow> auth_state
       \<Rightarrow> (http_error + string) \<times> auth_state" where
  "auth_register env pubkey signature now random st =
     (case register_guard env pubkey signature of
        Inl e \<Rightarrow> (Inl e, st)
      | Inr (p, s) \<Rightarrow>
          (case verifyAndIssueKey env p s now random st of
             (Inl e, st1) \<Rightarrow> (Inl (Unauthorized ''INVALID_SIGNATURE'' (err_message e)), st1)
           | (Inr apiKey, st1) \<Rightarrow> (Inr apiKey, st1)))"

definition auth_revoke ::
    "auth_env \<Rightarrow> string option \<Rightarrow> int \<Rightarrow> auth_state \<Rightarrow> (http_error + unit) \<times> auth_state" where
  "auth_revoke env auth now st =
     (case bearer auth of
        None \<Rightarrow> (Inl (Unauthorized ''MISSING_API_KEY'' ''Authorization header required''), st)
      | Some rawKey \<Rightarrow>
          (case revokeKey env rawKey now st of
             (Inl e, st1) \<Rightarrow> (Inl (Unauthorized ''INVALID_API_KEY'' ''Key not found''), st1)
           | (Inr u, st1) \<Rightarrow> (Inr (), st1)))"

section \<open>The active keys\<close>

text \<open>The abstract state of the service: the hash of the key each public key may use.\<close>

definition active :: "auth_state \<Rightarrow> string \<rightharpoonup> string" where
  "active st p = (case find_row ak_pubkey p (au_rows st) of
      None \<Rightarrow> None
    | Some r \<Rightarrow> (case ak_revokedAt r of None \<Rightarrow> Some (ak_keyHash r) | Some t \<Rightarrow> None))"

interpretation keys: row_store ak_pubkey "find_row ak_pubkey" add_row "change_rows ak_pubkey" "unique_on ak_pubkey"
  by (rule list_row_store)

lemma active_cong: "au_rows st = au_rows st' \<Longrightarrow> active st = active st'"
  by (simp add: active_def fun_eq_iff)

lemma active_iff:
  assumes "unique_rows (au_rows st)"
  shows "active st p = Some h \<longleftrightarrow> (\<exists>r \<in> set (au_rows st). ak_pubkey r = p \<and> ak_keyHash r = h \<and> ak_revokedAt r = None)"
proof -
  have "active st p = Some h \<longleftrightarrow> (\<exists>r. find_row ak_pubkey p (au_rows st) = Some r \<and> ak_keyHash r = h \<and> ak_revokedAt r = None)"
    by (auto simp: active_def split: option.split)
  then show ?thesis using assms by (auto simp: unique_rows_def find_row_Some_iff)
qed

lemma validate_iff:
  assumes "unique_rows (au_rows st)"
  shows "validateKey env raw st = Some p \<longleftrightarrow> active st p = Some (ae_sha256 env raw)"
proof -
  have "validateKey env raw st = Some p \<longleftrightarrow>
      (\<exists>r. find_row ak_keyHash (ae_sha256 env raw) (au_rows st) = Some r \<and> ak_pubkey r = p \<and> ak_revokedAt r = None)"
    by (auto simp: validateKey_def split: option.split)
  then show ?thesis using assms unfolding active_iff [OF assms]
    by (auto simp: unique_rows_def find_row_Some_iff)
qed

lemma consume_rows [simp]: "au_rows (snd (consume_challenge env p sg now st)) = au_rows st"
  by (auto simp: consume_challenge_def Let_def split: option.splits bool.splits)

lemma generate_rows [simp]: "au_rows (snd (generateChallenge p u now st)) = au_rows st"
  by (simp add: generateChallenge_def Let_def)

lemma flush_rows_cases:
  assumes "flush_rows env rows st = (x, st')"
  shows "(x = Inr () \<and> unique_rows rows \<and> st' = st\<lparr>au_rows := rows\<rparr>)
    \<or> (x = Inl (JsError (ae_db_error env)) \<and> \<not> unique_rows rows \<and> st' = st)"
  using assms by (auto simp: flush_rows_def split: if_splits)

lemma store_key_ok:
  assumes "store_key env p k found st = (Inr (), st')" and "found \<longrightarrow> lookup_row p st"
  shows "unique_rows (au_rows st')" and "active st' = (active st)(p \<mapsto> ae_sha256 env k)"
    and "\<And>r. r \<in> set (au_rows st') \<Longrightarrow> r \<in> set (au_rows st) \<or> (ak_pubkey r = p \<and> ak_keyHash r = ae_sha256 env k)"
    and "au_challenges st' = au_challenges st"
proof -
  note def = store_key_def Let_def
  show u: "unique_rows (au_rows st')" "au_challenges st' = au_challenges st"
    using assms(1) unfolding def by (auto dest: flush_rows_cases)
  show "\<And>r. r \<in> set (au_rows st') \<Longrightarrow> r \<in> set (au_rows st) \<or> (ak_pubkey r = p \<and> ak_keyHash r = ae_sha256 env k)"
    using assms(1) unfolding def
    by (auto dest!: flush_rows_cases simp: add_row_def change_rows_def split: if_splits)
  show "active st' = (active st)(p \<mapsto> ae_sha256 env k)"
  proof (cases found)
    case True
    then have "au_rows st' = change_rows ak_pubkey p (\<lambda>r. r\<lparr>ak_keyHash := ae_sha256 env k, ak_revokedAt := None\<rparr>) (au_rows st)"
      using assms(1) unfolding def by (auto dest: flush_rows_cases)
    then show ?thesis using True assms(2)
      by (auto simp: active_def fun_eq_iff keys.lookup_change lookup_row_def split: option.splits)
  next
    case False
    then have r: "au_rows st' = add_row \<lparr>ak_pubkey = p, ak_keyHash = ae_sha256 env k, ak_revokedAt = None\<rparr> (au_rows st)"
      using assms(1) unfolding def by (auto dest: flush_rows_cases)
    with u(1) have "find_row ak_pubkey p (au_rows st) = None"
      by (simp add: unique_rows_def unique_on_add)
    with r show ?thesis
      by (auto simp: active_def fun_eq_iff keys.lookup_add)
  qed
qed

lemma store_key_fails: "store_key env p k found st = (Inl e, st') \<Longrightarrow> st' = st"
  unfolding store_key_def Let_def by (auto dest: flush_rows_cases)

lemma revokeKey_ok:
  assumes "unique_rows (au_rows st)" and "revokeKey env raw now st = (Inr (), st')"
  shows "unique_rows (au_rows st')"
    and "active st' = (\<lambda>q. if active st q = Some (ae_sha256 env raw) then None else active st q)"
    and "\<And>r. r \<in> set (au_rows st') \<Longrightarrow> \<exists>r0 \<in> set (au_rows st). ak_pubkey r = ak_pubkey r0 \<and> ak_keyHash r = ak_keyHash r0"
    and "au_challenges st' = au_challenges st"
proof -
  let ?f = "\<lambda>r. r\<lparr>ak_revokedAt := Some now\<rparr>"
  have st': "st' = st\<lparr>au_rows := change_rows ak_keyHash (ae_sha256 env raw) ?f (au_rows st)\<rparr>"
    using assms(2) unfolding revokeKey_def Let_def
    by (auto split: option.splits dest: flush_rows_cases)
  then show u: "unique_rows (au_rows st')"
    using assms(1) by (simp add: unique_rows_def unique_on_def map_key_change)
  show "au_challenges st' = au_challenges st" by (simp add: st')
  show "\<And>r. r \<in> set (au_rows st') \<Longrightarrow> \<exists>r0 \<in> set (au_rows st). ak_pubkey r = ak_pubkey r0 \<and> ak_keyHash r = ak_keyHash r0"
    by (auto simp: st' change_rows_def)
  show "active st' = (\<lambda>q. if active st q = Some (ae_sha256 env raw) then None else active st q)"
  proof
    fix q
    have "active st' q = Some h \<longleftrightarrow> active st q = Some h \<and> h \<noteq> ae_sha256 env raw" for h
      unfolding active_iff [OF u] active_iff [OF assms(1)]
      by (auto simp: st' change_rows_def)
    then show "active st' q = (if active st q = Some (ae_sha256 env raw) then None else active st q)"
      by (metis not_Some_eq)
  qed
qed

lemma revokeKey_fails: 
  assumes "unique_rows (au_rows st)" and "revokeKey env raw now st = (Inl e, st')"
  shows "st' = st \<and> (\<forall>q. active st q \<noteq> Some (ae_sha256 env raw))"
proof -
  have "unique_rows (change_rows ak_keyHash (ae_sha256 env raw) (\<lambda>r. r\<lparr>ak_revokedAt := Some now\<rparr>) (au_rows st))"
    using assms(1) by (simp add: unique_rows_def unique_on_def map_key_change)
  then have "st' = st" and "find_row ak_keyHash (ae_sha256 env raw) (au_rows st) = None"
    using assms(2) unfolding revokeKey_def Let_def by (auto split: option.splits simp: flush_rows_def)
  then show ?thesis unfolding active_iff [OF assms(1)] by (force simp: find_row_None)
qed


lemma auth_refines_active_keys:
  assumes "unique_rows (au_rows st)"
  shows "(validateKey env raw st = Some p \<longleftrightarrow> active st p = Some (ae_sha256 env raw))
     \<and> active (snd (generateChallenge q uuid now st)) = active st
     \<and> (case verifyAndIssueKey env q sg now random st of
           (Inl e, st') \<Rightarrow> active st' = active st
         | (Inr k, st') \<Rightarrow> k = make_key random \<and> active st' = (active st)(q \<mapsto> ae_sha256 env k))
     \<and> (case revokeKey env raw now st of
           (Inl e, st') \<Rightarrow> st' = st \<and> (\<forall>q. active st q \<noteq> Some (ae_sha256 env raw))
         | (Inr u, st') \<Rightarrow> active st' = (\<lambda>q. if active st q = Some (ae_sha256 env raw) then None else active st q))"
proof (intro conjI)
  show "validateKey env raw st = Some p \<longleftrightarrow> active st p = Some (ae_sha256 env raw)"
    by (rule validate_iff [OF assms])
  show "active (snd (generateChallenge q uuid now st)) = active st"
    by (rule active_cong) simp
  obtain x st1 where c: "consume_challenge env q sg now st = (x, st1)" by force
  have st1: "active st1 = active st" by (rule active_cong) (use consume_rows [of env q sg now st] c in simp)
  show "case verifyAndIssueKey env q sg now random st of
      (Inl e, st') \<Rightarrow> active st' = active st
    | (Inr k, st') \<Rightarrow> k = make_key random \<and> active st' = (active st)(q \<mapsto> ae_sha256 env k)"
  proof (cases x)
    case (Inl e)
    with c st1 show ?thesis by (simp add: verifyAndIssueKey_def)
  next
    case (Inr n)
    obtain y st2 where s: "store_key env q (make_key random) (lookup_row q st1) st1 = (y, st2)" by force
    then show ?thesis
      using c Inr st1 by (cases y) (auto simp: verifyAndIssueKey_def Let_def dest: store_key_fails store_key_ok(2))
  qed
  obtain z st3 where r: "revokeKey env raw now st = (z, st3)" by force
  show "case revokeKey env raw now st of
      (Inl e, st') \<Rightarrow> st' = st \<and> (\<forall>q. active st q \<noteq> Some (ae_sha256 env raw))
    | (Inr u, st') \<Rightarrow> active st' = (\<lambda>q. if active st q = Some (ae_sha256 env raw) then None else active st q)"
    using r revokeKey_ok(2) [OF assms] revokeKey_fails [OF assms] by (cases z) auto
qed

section \<open>Interleaved requests\<close>

text \<open>
  A system state: the service, the registrations suspended at an \<open>await\<close> (with the answer of the
  lookup once they have it) and two ghost logs, the challenges ever generated (nonce, public key,
  time) and the keys ever issued.
\<close>

record grant =
  gr_pubkey :: string
  gr_nonce :: string
  gr_key :: string
  gr_time :: int

record auth_sys =
  sy_state :: auth_state
  sy_flights :: "(grant \<times> bool option) list"
  sy_nonces :: "(string \<times> string \<times> int) list"
  sy_issued :: "grant list"

definition auth_init :: auth_sys where
  "auth_init = \<lparr>sy_state = \<lparr>au_challenges = Map.empty, au_rows = []\<rparr>, sy_flights = [], sy_nonces = [], sy_issued = []\<rparr>"

inductive auth_step :: "auth_env \<Rightarrow> auth_sys \<Rightarrow> auth_sys \<Rightarrow> bool" for env where
  Challenge: "auth_challenge env pubkey uuid now (sy_state s) = (Inr nonce, st) \<Longrightarrow> given pubkey = Some p
    \<Longrightarrow> nonce \<notin> fst ` set (sy_nonces s)
    \<Longrightarrow> auth_step env s (s\<lparr>sy_state := st, sy_nonces := (nonce, p, now) # sy_nonces s\<rparr>)"
| Begin: "register_guard env pubkey signature = Inr (p, sg) \<Longrightarrow> consume_challenge env p sg now (sy_state s) = (Inr nonce, st)
    \<Longrightarrow> auth_step env s (s\<lparr>sy_state := st,
          sy_flights := (\<lparr>gr_pubkey = p, gr_nonce = nonce, gr_key = make_key random, gr_time = now\<rparr>, None) # sy_flights s\<rparr>)"
| Refuse: "register_guard env pubkey signature = Inr (p, sg) \<Longrightarrow> consume_challenge env p sg now (sy_state s) = (Inl e, st)
    \<Longrightarrow> auth_step env s (s\<lparr>sy_state := st\<rparr>)"
| Lookup: "sy_flights s = xs @ (g, None) # ys
    \<Longrightarrow> auth_step env s (s\<lparr>sy_flights := xs @ (g, Some (lookup_row (gr_pubkey g) (sy_state s))) # ys\<rparr>)"
| Flush: "sy_flights s = xs @ (g, Some found) # ys
    \<Longrightarrow> store_key env (gr_pubkey g) (gr_key g) found (sy_state s) = (Inr (), st)
    \<Longrightarrow> auth_step env s (s\<lparr>sy_state := st, sy_flights := xs @ ys, sy_issued := g # sy_issued s\<rparr>)"
| Conflict: "sy_flights s = xs @ (g, Some found) # ys
    \<Longrightarrow> store_key env (gr_pubkey g) (gr_key g) found (sy_state s) = (Inl e, st)
    \<Longrightarrow> auth_step env s (s\<lparr>sy_state := st, sy_flights := xs @ ys\<rparr>)"
| Revoke: "auth_revoke env header now (sy_state s) = (x, st) \<Longrightarrow> auth_step env s (s\<lparr>sy_state := st\<rparr>)"

inductive_cases auth_stepE: "auth_step env s t"

text \<open>What backs a key: a challenge generated for the same public key at most a minute before,
  signed with that public key.\<close>

definition backed :: "auth_env \<Rightarrow> (string \<times> string \<times> int) list \<Rightarrow> grant \<Rightarrow> bool" where
  "backed env nonces g \<longleftrightarrow>
     (\<exists>t. (gr_nonce g, gr_pubkey g, t) \<in> set nonces \<and> gr_time g \<le> t + 60000)
   \<and> (\<exists>k sg. ae_pk env (gr_pubkey g) = Some k \<and> ae_verify env (utf8_bytes (gr_nonce g)) sg k = Some True)"

definition spent :: "auth_sys \<Rightarrow> grant list" where
  "spent s = map fst (sy_flights s) @ sy_issued s"

definition auth_inv :: "auth_env \<Rightarrow> auth_sys \<Rightarrow> bool" where
  "auth_inv env s \<longleftrightarrow>
     unique_rows (au_rows (sy_state s))
   \<and> distinct (map fst (sy_nonces s))
   \<and> distinct (map gr_nonce (spent s))
   \<and> (\<forall>g \<in> set (spent s). backed env (sy_nonces s) g)
   \<and> (\<forall>p c. au_challenges (sy_state s) p = Some c \<longrightarrow>
        (ch_nonce c, p, ch_expiresAt c - 60000) \<in> set (sy_nonces s) \<and> ch_nonce c \<notin> gr_nonce ` set (spent s))
   \<and> (\<forall>(g, found) \<in> set (sy_flights s). found = Some True \<longrightarrow> lookup_row (gr_pubkey g) (sy_state s))
   \<and> (\<forall>r \<in> set (au_rows (sy_state s)). \<exists>g \<in> set (sy_issued s).
        gr_pubkey g = ak_pubkey r \<and> ae_sha256 env (gr_key g) = ak_keyHash r)"


lemma backed_mono: "backed env ns g \<Longrightarrow> set ns \<subseteq> set ns' \<Longrightarrow> backed env ns' g"
  unfolding backed_def by blast

lemma backed_nonce: "backed env ns g \<Longrightarrow> gr_nonce g \<in> fst ` set ns"
  by (force simp: backed_def)

lemma consume_ok:
  assumes "consume_challenge env p sg now st = (Inr nonce, st')"
  obtains c k where "au_challenges st p = Some c" "ch_nonce c = nonce" "now \<le> ch_expiresAt c"
    "ae_pk env p = Some k" "ae_verify env (utf8_bytes nonce) (ae_base64 env sg) k = Some True"
    "st' = st\<lparr>au_challenges := (au_challenges st)(p := None)\<rparr>"
  using assms by (auto simp: consume_challenge_def Let_def split: option.splits if_splits bool.splits)

lemma consume_fails:
  assumes "consume_challenge env p sg now st = (Inl e, st')"
  shows "au_rows st' = au_rows st" and "au_challenges st' q = Some c \<Longrightarrow> au_challenges st q = Some c"
  using assms by (auto simp: consume_challenge_def Let_def split: option.splits if_splits bool.splits)

lemma lookup_row_iff: "lookup_row p st \<longleftrightarrow> p \<in> ak_pubkey ` set (au_rows st)"
  using find_row_None [of ak_pubkey p "au_rows st"] unfolding lookup_row_def by simp

lemma rows_keep_store:
  assumes "store_key env p k f st = (x, st')" and "lookup_row q st"
  shows "lookup_row q st'"
proof -
  have "set (map ak_pubkey (au_rows st)) \<subseteq> set (map ak_pubkey (au_rows st'))"
    using assms(1) unfolding store_key_def Let_def
    by (auto dest!: flush_rows_cases simp: map_key_change add_row_def simp del: set_map split: if_splits)
  with assms(2) show ?thesis by (auto simp: lookup_row_iff)
qed

lemma auth_revoke_cases:
  assumes "auth_revoke env h now st = (x, st')"
  shows "st' = st \<or> (\<exists>raw. revokeKey env raw now st = (Inr (), st'))"
proof (cases "bearer h")
  case None
  with assms show ?thesis by (simp add: auth_revoke_def)
next
  case (Some raw)
  obtain y st1 where r: "revokeKey env raw now st = (y, st1)" by force
  with assms Some have "st1 = st'" by (cases y) (auto simp: auth_revoke_def)
  moreover have "st1 = st" if "y = Inl e" for e
    using r that by (auto simp: revokeKey_def Let_def split: option.splits dest: flush_rows_cases)
  ultimately show ?thesis using r by (cases y) auto
qed

lemma rows_keep_revoke: "auth_revoke env h now st = (x, st') \<Longrightarrow> map ak_pubkey (au_rows st') = map ak_pubkey (au_rows st)"
  by (auto dest!: auth_revoke_cases simp: revokeKey_def Let_def map_key_change split: option.splits dest!: flush_rows_cases)

lemma distinct_fst_unique: "distinct (map fst xs) \<Longrightarrow> (a, b) \<in> set xs \<Longrightarrow> (a, c) \<in> set xs \<Longrightarrow> b = c"
  by (induction xs) force+

lemma spent_state: "spent (s\<lparr>sy_state := st\<rparr>) = spent s"
  "spent (s\<lparr>sy_state := st, sy_nonces := ns\<rparr>) = spent s"
  by (simp_all add: spent_def)

lemma inv_challenge:
  assumes "auth_inv env s" and "auth_challenge env pubkey uuid now (sy_state s) = (Inr nonce, st)"
    and "given pubkey = Some p" and "nonce \<notin> fst ` set (sy_nonces s)"
  shows "auth_inv env (s\<lparr>sy_state := st, sy_nonces := (nonce, p, now) # sy_nonces s\<rparr>)"
proof -
  have st: "st = (sy_state s)\<lparr>au_challenges := (au_challenges (sy_state s))(p \<mapsto> \<lparr>ch_nonce = nonce, ch_expiresAt = now + 60000\<rparr>)\<rparr>"
    using assms(2,3) by (auto simp: auth_challenge_def generateChallenge_def Let_def split: option.splits)
  have "nonce \<notin> gr_nonce ` set (spent s)"
    using assms(1,4) backed_nonce unfolding auth_inv_def by (metis imageE)
  moreover have "backed env ((nonce, p, now) # sy_nonces s) g" if "g \<in> set (spent s)" for g
    using assms(1) that backed_mono [of env "sy_nonces s" g "(nonce, p, now) # sy_nonces s"] unfolding auth_inv_def by auto
  ultimately show ?thesis
    using assms(1,4) unfolding auth_inv_def by (auto simp: st spent_state lookup_row_def)
qed

lemma inv_begin:
  assumes inv: "auth_inv env s" and "consume_challenge env p sg now (sy_state s) = (Inr nonce, st)"
  shows "auth_inv env (s\<lparr>sy_state := st,
    sy_flights := (\<lparr>gr_pubkey = p, gr_nonce = nonce, gr_key = k, gr_time = now\<rparr>, None) # sy_flights s\<rparr>)"
proof -
  from assms(2) obtain c b where c: "au_challenges (sy_state s) p = Some c" "ch_nonce c = nonce" "now \<le> ch_expiresAt c"
      and v: "ae_pk env p = Some b" "ae_verify env (utf8_bytes nonce) (ae_base64 env sg) b = Some True"
      and st: "st = (sy_state s)\<lparr>au_challenges := (au_challenges (sy_state s))(p := None)\<rparr>"
    by (rule consume_ok)
  have n: "(nonce, p, ch_expiresAt c - 60000) \<in> set (sy_nonces s)" "nonce \<notin> gr_nonce ` set (spent s)"
    using inv c(1,2) unfolding auth_inv_def by auto
  have other: "nonce \<noteq> ch_nonce c'" if "au_challenges (sy_state s) q = Some c'" "q \<noteq> p" for q c'
  proof
    assume "nonce = ch_nonce c'"
    with that have "(nonce, q, ch_expiresAt c' - 60000) \<in> set (sy_nonces s)" using inv unfolding auth_inv_def by auto
    with n(1) have "(q, ch_expiresAt c' - 60000) = (p, ch_expiresAt c - 60000)"
      using inv distinct_fst_unique unfolding auth_inv_def by metis
    with that(2) show False by simp
  qed
  have "backed env (sy_nonces s) \<lparr>gr_pubkey = p, gr_nonce = nonce, gr_key = k, gr_time = now\<rparr>"
    unfolding backed_def using n(1) v c(3) by force
  then show ?thesis
    using inv n(2) other unfolding auth_inv_def by (auto simp: st spent_def lookup_row_def)
qed

lemma inv_refuse:
  assumes "auth_inv env s" and "consume_challenge env p sg now (sy_state s) = (Inl e, st)"
  shows "auth_inv env (s\<lparr>sy_state := st\<rparr>)"
  using assms(1) unfolding auth_inv_def
  by (auto simp: spent_state lookup_row_def consume_fails(1) [OF assms(2)] dest!: consume_fails(2) [OF assms(2)])

lemma inv_lookup:
  assumes "auth_inv env s" and "sy_flights s = xs @ (g, None) # ys"
  shows "auth_inv env (s\<lparr>sy_flights := xs @ (g, Some (lookup_row (gr_pubkey g) (sy_state s))) # ys\<rparr>)"
  using assms unfolding auth_inv_def by (auto simp: spent_def)

lemma inv_conflict:
  assumes "auth_inv env s" and "sy_flights s = xs @ (g, Some found) # ys"
    and "store_key env (gr_pubkey g) (gr_key g) found (sy_state s) = (Inl e, st)"
  shows "auth_inv env (s\<lparr>sy_state := st, sy_flights := xs @ ys\<rparr>)"
  using assms(1,2) store_key_fails [OF assms(3)] unfolding auth_inv_def by (auto simp: spent_def)

lemma inv_flush:
  assumes inv: "auth_inv env s" and f: "sy_flights s = xs @ (g, Some found) # ys"
    and k: "store_key env (gr_pubkey g) (gr_key g) found (sy_state s) = (Inr (), st)"
  shows "auth_inv env (s\<lparr>sy_state := st, sy_flights := xs @ ys, sy_issued := g # sy_issued s\<rparr>)"
proof -
  have "found \<longrightarrow> lookup_row (gr_pubkey g) (sy_state s)"
    using inv f unfolding auth_inv_def by auto
  note ok = store_key_ok [OF k this]
  have rows: "\<exists>g' \<in> set (g # sy_issued s). gr_pubkey g' = ak_pubkey r \<and> ae_sha256 env (gr_key g') = ak_keyHash r"
    if "r \<in> set (au_rows st)" for r
    using ok(3) [OF that] inv unfolding auth_inv_def by auto
  have "gr_nonce ` set (spent (s\<lparr>sy_state := st, sy_flights := xs @ ys, sy_issued := g # sy_issued s\<rparr>)) = gr_nonce ` set (spent s)"
    using f by (auto simp: spent_def)
  moreover have "distinct (map gr_nonce (spent (s\<lparr>sy_state := st, sy_flights := xs @ ys, sy_issued := g # sy_issued s\<rparr>)))"
    using inv f unfolding auth_inv_def by (auto simp: spent_def)
  moreover have "set (spent (s\<lparr>sy_state := st, sy_flights := xs @ ys, sy_issued := g # sy_issued s\<rparr>)) = set (spent s)"
    using f by (auto simp: spent_def)
  moreover have "\<forall>(g, found) \<in> set (xs @ ys). found = Some True \<longrightarrow> lookup_row (gr_pubkey g) st"
  proof -
    have "\<forall>(g, found) \<in> set (xs @ ys). found = Some True \<longrightarrow> lookup_row (gr_pubkey g) (sy_state s)"
      using inv f unfolding auth_inv_def by simp
    then show ?thesis by (fastforce dest: rows_keep_store [OF k])
  qed
  ultimately show ?thesis
    using inv rows ok(1,4) unfolding auth_inv_def by simp
qed

lemma inv_revoke:
  assumes inv: "auth_inv env s" and r: "auth_revoke env h now (sy_state s) = (x, st)"
  shows "auth_inv env (s\<lparr>sy_state := st\<rparr>)"
  using auth_revoke_cases [OF r]
proof
  assume "st = sy_state s"
  with inv show ?thesis by (simp add: auth_inv_def spent_def)
next
  assume "\<exists>raw. revokeKey env raw now (sy_state s) = (Inr (), st)"
  then obtain raw where rk: "revokeKey env raw now (sy_state s) = (Inr (), st)" ..
  have u: "unique_rows (au_rows (sy_state s))" using inv by (simp add: auth_inv_def)
  note ok = revokeKey_ok [OF u rk]
  have "\<exists>g \<in> set (sy_issued s). gr_pubkey g = ak_pubkey q \<and> ae_sha256 env (gr_key g) = ak_keyHash q"
    if "q \<in> set (au_rows st)" for q
    using ok(3) [OF that] inv unfolding auth_inv_def by metis
  moreover have "lookup_row p st = lookup_row p (sy_state s)" for p
    unfolding lookup_row_iff using rows_keep_revoke [OF r] by (metis list.set_map)
  ultimately show ?thesis
    using inv ok(1,4) unfolding auth_inv_def by (simp add: spent_def)
qed

lemma auth_inv_step: "auth_step env s t \<Longrightarrow> auth_inv env s \<Longrightarrow> auth_inv env t"
  by (induction rule: auth_step.induct)
    (auto intro: inv_challenge inv_begin inv_refuse inv_lookup inv_flush inv_conflict inv_revoke)

lemma auth_inv_reachable: "(auth_step env)\<^sup>*\<^sup>* auth_init s \<Longrightarrow> auth_inv env s"
proof (induction rule: rtranclp_induct)
  case base
  show ?case by (simp add: auth_inv_def auth_init_def spent_def unique_rows_def unique_on_def)
next
  case (step s t)
  then show ?case using auth_inv_step by blast
qed


section \<open>Properties\<close>

text \<open>C25. The key store refines a map from public keys to the hash of their one active key: a key is
  accepted for \<open>p\<close> exactly when its hash is the active one of \<open>p\<close>; a registration that returns a key
  makes its hash the only active one of that public key, a revocation clears exactly the entry with
  that hash, and challenges, failed registrations and failed revocations change nothing.\<close>

theorem auth_refines_map:
  assumes "unique_rows (au_rows st)"
  shows "(validateKey env raw st = Some p \<longleftrightarrow> active st p = Some (ae_sha256 env raw))
     \<and> active (snd (generateChallenge q uuid now st)) = active st
     \<and> (case verifyAndIssueKey env q sg now random st of
           (Inl e, st') \<Rightarrow> active st' = active st
         | (Inr k, st') \<Rightarrow> k = make_key random \<and> active st' = (active st)(q \<mapsto> ae_sha256 env k))
     \<and> (case revokeKey env raw now st of
           (Inl e, st') \<Rightarrow> st' = st \<and> (\<forall>q. active st q \<noteq> Some (ae_sha256 env raw))
         | (Inr u, st') \<Rightarrow> active st' = (\<lambda>q. if active st q = Some (ae_sha256 env raw) then None else active st q))"
  by (rule auth_refines_active_keys [OF assms])

text \<open>C24. However the requests interleave, starting from an empty table: a challenge issues at most
  one key; every key was issued for a challenge generated for the same public key at most 60 seconds
  before and signed with it; the unique columns hold; and the guard admits a request as agent \<open>p\<close>
  only when the hash of its key is that of a key issued to \<open>p\<close>.\<close>

theorem auth_challenges_single_use:
  assumes "(auth_step env)\<^sup>*\<^sup>* auth_init s"
  shows "distinct (map gr_nonce (sy_issued s))
    \<and> (\<forall>g \<in> set (sy_issued s). backed env (sy_nonces s) g)
    \<and> unique_rows (au_rows (sy_state s))
    \<and> (\<forall>header p. canActivate env False header (sy_state s) = Inr (Some p) \<longrightarrow>
         (\<exists>raw. header = Some (''Bearer '' @ raw)
            \<and> (\<exists>g \<in> set (sy_issued s). gr_pubkey g = p \<and> ae_sha256 env (gr_key g) = ae_sha256 env raw)))"
proof -
  have inv: "auth_inv env s" by (rule auth_inv_reachable [OF assms])
  then have u: "unique_rows (au_rows (sy_state s))" by (simp add: auth_inv_def)
  have guard: "\<exists>raw. header = Some (''Bearer '' @ raw)
      \<and> (\<exists>g \<in> set (sy_issued s). gr_pubkey g = p \<and> ae_sha256 env (gr_key g) = ae_sha256 env raw)"
    if "canActivate env False header (sy_state s) = Inr (Some p)" for header p
  proof -
    from that obtain h where h: "header = Some h" "startsWith h ''Bearer ''"
        and v: "validateKey env (drop 7 h) (sy_state s) = Some p"
      by (auto simp: canActivate_def bearer_def split: option.splits if_splits)
    from h(2) obtain raw where raw: "h = ''Bearer '' @ raw" by (auto simp: startsWith_iff)
    with v have "active (sy_state s) p = Some (ae_sha256 env raw)"
      by (simp add: validate_iff [OF u])
    then obtain r where "r \<in> set (au_rows (sy_state s))" "ak_pubkey r = p" "ak_keyHash r = ae_sha256 env raw"
      unfolding active_iff [OF u] by blast
    with inv have "\<exists>g \<in> set (sy_issued s). gr_pubkey g = p \<and> ae_sha256 env (gr_key g) = ae_sha256 env raw"
      unfolding auth_inv_def by metis
    with h(1) raw show ?thesis by simp
  qed
  show ?thesis using inv u guard unfolding auth_inv_def spent_def by auto
qed

text \<open>The guard: public handlers always pass without an agent; a request is refused as
  MISSING_API_KEY exactly when the header does not start with \<open>Bearer\<close> and a space, as
  INVALID_API_KEY exactly when no active key has the hash of what follows, and is admitted otherwise
  with the public key that owns that active key.\<close>

theorem guard_decides:
  assumes "unique_rows (au_rows st)"
  shows "canActivate env True header st = Inr None
    \<and> (canActivate env False header st = Inr (Some p)
         \<longleftrightarrow> (\<exists>raw. header = Some (''Bearer '' @ raw) \<and> active st p = Some (ae_sha256 env raw)))
    \<and> canActivate env False header st \<noteq> Inr None
    \<and> (canActivate env False header st = Inl (HttpError st_code kind msg) \<longrightarrow> st_code = 401
         \<and> (kind = ''MISSING_API_KEY'' \<longleftrightarrow> (\<forall>raw. header \<noteq> Some (''Bearer '' @ raw)))
         \<and> (kind = ''INVALID_API_KEY'' \<longleftrightarrow>
              (\<exists>raw. header = Some (''Bearer '' @ raw) \<and> (\<forall>q. active st q \<noteq> Some (ae_sha256 env raw)))))"
proof (cases "bearer header")
  case None
  then have "\<forall>raw. header \<noteq> Some (''Bearer '' @ raw)"
    by (auto simp: bearer_def split: if_splits)
  with None show ?thesis by (auto simp: canActivate_def)
next
  case (Some raw)
  then have h: "header = Some (''Bearer '' @ raw)"
    by (auto simp: bearer_def startsWith_iff split: option.splits if_splits)
  have iff: "validateKey env raw st = Some q \<longleftrightarrow> active st q = Some (ae_sha256 env raw)" for q
    by (rule validate_iff [OF assms])
  show ?thesis
  proof (cases "validateKey env raw st")
    case None
    with iff have "active st q \<noteq> Some (ae_sha256 env raw)" for q by (metis option.distinct(1))
    with None Some h show ?thesis by (auto simp: canActivate_def)
  next
    case (Some q)
    then have "active st q' = Some (ae_sha256 env raw) \<longleftrightarrow> q' = q" for q'
      using iff [of q'] by auto
    with Some h \<open>bearer header = Some raw\<close> show ?thesis by (auto simp: canActivate_def)
  qed
qed


section \<open>A concrete run\<close>

definition sample_env :: auth_env where
  "sample_env = \<lparr>ae_sha256 = (\<lambda>s. ''#'' @ s), ae_verify = (\<lambda>m sg k. Some (sg = m)), ae_base64 = utf8_bytes,
     ae_pk = (\<lambda>s. Some (utf8_bytes s)), ae_db_error = ''duplicate key''\<rparr>"

definition sample_keys :: auth_state where
  "sample_keys = \<lparr>au_challenges = Map.empty,
     au_rows = [\<lparr>ak_pubkey = ''alice'', ak_keyHash = ''#sw_'', ak_revokedAt = None\<rparr>]\<rparr>"

definition sample_sys :: auth_sys where
  "sample_sys = \<lparr>sy_state = sample_keys, sy_flights = [], sy_nonces = [(''silk_u'', ''alice'', 0)],
     sy_issued = [\<lparr>gr_pubkey = ''alice'', gr_nonce = ''silk_u'', gr_key = ''sw_'', gr_time = 5\<rparr>]\<rparr>"

lemma sample_unique: "unique_rows (au_rows sample_keys)"
  by (simp add: sample_keys_def unique_rows_def unique_on_def)

lemma sample_reachable: "(auth_step sample_env)\<^sup>*\<^sup>* auth_init sample_sys"
proof -
  define g where "g = \<lparr>gr_pubkey = ''alice'', gr_nonce = ''silk_u'', gr_key = ''sw_'', gr_time = 5\<rparr>"
  define st1 where "st1 = \<lparr>au_challenges = [''alice'' \<mapsto> \<lparr>ch_nonce = ''silk_u'', ch_expiresAt = 60000\<rparr>], au_rows = []\<rparr>"
  define st2 where "st2 = \<lparr>au_challenges = Map.empty, au_rows = []\<rparr>"
  define ns where "ns = [(''silk_u'', ''alice'', 0 :: int)]"
  note defs = sample_env_def g_def st1_def st2_def ns_def auth_init_def
  have 1: "auth_step sample_env auth_init \<lparr>sy_state = st1, sy_flights = [], sy_nonces = ns, sy_issued = []\<rparr>"
    using auth_step.Challenge [of sample_env "Some ''alice''" "''u''" 0 auth_init "''silk_u''" st1 "''alice''"]
    by (simp add: defs auth_challenge_def given_def generateChallenge_def Let_def)
  have 2: "auth_step sample_env \<lparr>sy_state = st1, sy_flights = [], sy_nonces = ns, sy_issued = []\<rparr>
      \<lparr>sy_state = st2, sy_flights = [(g, None)], sy_nonces = ns, sy_issued = []\<rparr>"
    using auth_step.Begin [of sample_env "Some ''alice''" "Some ''silk_u''" "''alice''" "''silk_u''" 5
        "\<lparr>sy_state = st1, sy_flights = [], sy_nonces = ns, sy_issued = []\<rparr>" "''silk_u''" st2 "[]"]
    by (simp add: defs register_guard_def given_def consume_challenge_def Let_def make_key_def toString_hex_def fun_upd_def cong: if_cong)
  have 3: "auth_step sample_env \<lparr>sy_state = st2, sy_flights = [(g, None)], sy_nonces = ns, sy_issued = []\<rparr>
      \<lparr>sy_state = st2, sy_flights = [(g, Some False)], sy_nonces = ns, sy_issued = []\<rparr>"
    using auth_step.Lookup [of "\<lparr>sy_state = st2, sy_flights = [(g, None)], sy_nonces = ns, sy_issued = []\<rparr>" "[]" g "[]" sample_env]
    by (simp add: defs lookup_row_def)
  have 4: "auth_step sample_env \<lparr>sy_state = st2, sy_flights = [(g, Some False)], sy_nonces = ns, sy_issued = []\<rparr> sample_sys"
    using auth_step.Flush [of "\<lparr>sy_state = st2, sy_flights = [(g, Some False)], sy_nonces = ns, sy_issued = []\<rparr>" "[]" g False "[]"
        sample_env sample_keys]
    by (simp add: defs store_key_def Let_def flush_rows_def unique_rows_def unique_on_def add_row_def sample_keys_def sample_sys_def)
  from 1 2 3 4 show ?thesis by (meson converse_rtranclp_into_rtranclp rtranclp.rtrancl_refl)
qed

theorem auth_refines_map_witness:
  "validateKey sample_env ''sw_'' sample_keys = Some ''alice''
     \<longleftrightarrow> active sample_keys ''alice'' = Some (ae_sha256 sample_env ''sw_'')"
  using auth_refines_map [OF sample_unique, of sample_env "''sw_''" "''alice''"] by blast

theorem auth_challenges_single_use_witness:
  "distinct (map gr_nonce (sy_issued sample_sys)) \<and> sy_issued sample_sys \<noteq> []"
  using auth_challenges_single_use [OF sample_reachable] by (simp add: sample_sys_def)

theorem guard_decides_witness:
  "canActivate sample_env False (Some ''Bearer sw_'') sample_keys = Inr (Some ''alice'')"
  using guard_decides [OF sample_unique, of sample_env "Some ''Bearer sw_''" "''alice''"]
  by (simp add: active_def sample_keys_def sample_env_def find_row_def)

end
