(* ===== verification/HandshakeClient.thy ===== *)
theory HandshakeClient
  imports Bytes Doubles TokenCache
begin

text \<open>
  The client of the Handshake program (\<^verbatim>\<open>solana/handshake-client.ts\<close>): derivation of the program's
  addresses, and the instructions it builds, as the method, the arguments and the named accounts
  that are handed to Anchor. What Anchor, web3.js and the chain answer is the parameter
  \<open>anchor_world\<close>; keys are their base58 text, big numbers are integers.
\<close>

record pool_chain =
  pl_poolId :: string
  pl_operator :: string
  pl_mint :: string
  pl_feeBps :: nat
  pl_isPaused :: bool

record transfer_chain =
  xc_sender :: string
  xc_recipient :: string
  xc_pool :: string
  xc_amount :: nat
  xc_claimableAfter :: int
  xc_claimableUntil :: int
  xc_status :: "string list"
  xc_memo :: buffer

text \<open>\<open>aw_pool\<close> is \<open>pool.fetch\<close>, \<open>aw_transfer\<close> is \<open>secureTransfer.fetchNullable\<close>, \<open>aw_pda\<close> is
  \<open>findProgramAddressSync\<close> for the program, \<open>aw_nonce\<close> is \<open>toArrayLike(Buffer, 'le', 8)\<close>, which throws
  when the number does not fit, and \<open>aw_bn\<close> is \<open>new BN(number)\<close>.\<close>

record anchor_world =
  aw_pool :: "string \<Rightarrow> pool_chain result"
  aw_transfer :: "string \<Rightarrow> transfer_chain option result"
  aw_pda :: "buffer list \<Rightarrow> string"
  aw_ata :: "string \<Rightarrow> string \<Rightarrow> string \<Rightarrow> string"
  aw_key :: "string \<Rightarrow> buffer"
  aw_nonce :: "int \<Rightarrow> buffer result"
  aw_bn :: "double \<Rightarrow> int result"

datatype ix_arg = APub string | AInt int | AText string

record anchor_ix =
  ax_method :: string
  ax_args :: "ix_arg list"
  ax_accounts :: "string obj"

definition ATA_PROGRAM :: string where
  "ATA_PROGRAM = ''ATokenGPvbdGVxr1b2hvZbsiqW5xWH25efTNsLJA8knL''"

definition TOKEN_2022_PROGRAM :: string where
  "TOKEN_2022_PROGRAM = ''TokenzQdBNbLqP5VEhdkAS6EPFLC1PHnBqCXEpPxuEb''"

definition SYSVAR_RENT :: string where
  "SYSVAR_RENT = ''SysvarRent111111111111111111111111111111111''"

section \<open>Addresses\<close>

definition findPoolPda :: "anchor_world \<Rightarrow> string \<Rightarrow> string" where
  "findPoolPda w poolId = aw_pda w [utf8_bytes ''pool'', aw_key w poolId]"

definition findTransferPda :: "anchor_world \<Rightarrow> string \<Rightarrow> string \<Rightarrow> int \<Rightarrow> string result" where
  "findTransferPda w sender recipient nonce =
     bind_result (aw_nonce w nonce) (\<lambda>n. Inr (aw_pda w
       [utf8_bytes ''sender'', aw_key w sender, utf8_bytes ''recipient'', aw_key w recipient, utf8_bytes ''nonce'', n]))"

definition token_program :: "bool \<Rightarrow> string" where
  "token_program isToken2022 = (if isToken2022 then TOKEN_2022_PROGRAM else TOKEN_PROGRAM)"

definition getTokenAccount :: "anchor_world \<Rightarrow> string \<Rightarrow> string \<Rightarrow> bool \<Rightarrow> string" where
  "getTokenAccount w mint owner isToken2022 = aw_ata w mint owner (token_program isToken2022)"

section \<open>Instructions\<close>

definition getInitPoolIx ::
    "anchor_world \<Rightarrow> string \<Rightarrow> string \<Rightarrow> string \<Rightarrow> int \<Rightarrow> bool \<Rightarrow> string \<times> anchor_ix" where
  "getInitPoolIx w operator poolId mint transferFeeBps isToken2022 =
     (let poolPda = findPoolPda w poolId
      in (poolPda, \<lparr>ax_method = ''initPool'', ax_args = [APub poolId, AInt transferFeeBps],
           ax_accounts = [(''operator'', operator), (''mint'', mint), (''pool'', poolPda),
             (''poolTokenAccount'', getTokenAccount w mint poolPda isToken2022),
             (''tokenProgram'', token_program isToken2022), (''associatedTokenProgram'', ATA_PROGRAM),
             (''systemProgram'', SYSTEM_PROGRAM), (''rent'', SYSVAR_RENT)]\<rparr>))"

definition getCreateTransferIx ::
    "anchor_world \<Rightarrow> string \<Rightarrow> string \<Rightarrow> string \<Rightarrow> int \<Rightarrow> int \<Rightarrow> string \<Rightarrow> double \<Rightarrow> double \<Rightarrow> bool
       \<Rightarrow> (string \<times> anchor_ix) result" where
  "getCreateTransferIx w sender recipient poolPda nonce amount memo claimableAfter claimableUntil isToken2022 =
     bind_result (findTransferPda w sender recipient nonce) (\<lambda>transferPda.
     bind_result (aw_pool w poolPda) (\<lambda>poolAccount.
     bind_result (aw_bn w claimableAfter) (\<lambda>after.
     bind_result (aw_bn w claimableUntil) (\<lambda>until.
       let mint = pl_mint poolAccount
       in Inr (transferPda, \<lparr>ax_method = ''createTransfer'',
            ax_args = [APub recipient, AInt nonce, AInt amount, AText memo, AInt after, AInt until],
            ax_accounts = [(''sender'', sender), (''pool'', poolPda), (''mint'', mint),
              (''poolTokenAccount'', getTokenAccount w mint poolPda isToken2022),
              (''senderTokenAccount'', getTokenAccount w mint sender isToken2022),
              (''transfer'', transferPda), (''tokenProgram'', token_program isToken2022),
              (''systemProgram'', SYSTEM_PROGRAM), (''associatedTokenProgram'', ATA_PROGRAM)]\<rparr>)))))"

definition not_found_text :: "string \<Rightarrow> string" where
  "not_found_text pda = ''Transfer account not found: '' @ pda @ ''. It may have already been claimed or cancelled.''"

definition getClaimTransferIx :: "anchor_world \<Rightarrow> string \<Rightarrow> string \<Rightarrow> bool \<Rightarrow> anchor_ix result" where
  "getClaimTransferIx w recipient transferPda isToken2022 =
     bind_result (aw_transfer w transferPda) (\<lambda>t.
       case t of
         None \<Rightarrow> Inl (JsError (not_found_text transferPda))
       | Some transferAccount \<Rightarrow>
           let poolPda = xc_pool transferAccount in
           bind_result (aw_pool w poolPda) (\<lambda>poolAccount.
             let mint = pl_mint poolAccount
             in Inr \<lparr>ax_method = ''claimTransfer'', ax_args = [],
                  ax_accounts = [(''recipient'', recipient), (''pool'', poolPda), (''mint'', mint),
                    (''poolTokenAccount'', getTokenAccount w mint poolPda isToken2022),
                    (''recipientTokenAccount'', getTokenAccount w mint recipient isToken2022),
                    (''transfer'', transferPda), (''sender'', xc_sender transferAccount),
                    (''tokenProgram'', token_program isToken2022)]\<rparr>))"

definition getCancelTransferIx :: "anchor_world \<Rightarrow> string \<Rightarrow> string \<Rightarrow> bool \<Rightarrow> anchor_ix result" where
  "getCancelTransferIx w sender transferPda isToken2022 =
     bind_result (aw_transfer w transferPda) (\<lambda>t.
       case t of
         None \<Rightarrow> Inl (JsError (not_found_text transferPda))
       | Some transferAccount \<Rightarrow>
           let poolPda = xc_pool transferAccount in
           bind_result (aw_pool w poolPda) (\<lambda>poolAccount.
             let mint = pl_mint poolAccount
             in Inr \<lparr>ax_method = ''cancelTransfer'', ax_args = [],
                  ax_accounts = [(''sender'', sender), (''pool'', poolPda), (''mint'', mint),
                    (''poolTokenAccount'', getTokenAccount w mint poolPda isToken2022),
                    (''senderTokenAccount'', getTokenAccount w mint sender isToken2022),
                    (''transfer'', transferPda), (''tokenProgram'', token_program isToken2022)]\<rparr>))"

section \<open>Reads that turn every error into \<open>null\<close>\<close>

definition fetchPool :: "anchor_world \<Rightarrow> string \<Rightarrow> pool_chain option" where
  "fetchPool w poolPda = (case aw_pool w poolPda of Inl e \<Rightarrow> None | Inr p \<Rightarrow> Some p)"

text \<open>\<open>secureTransfer.fetch\<close> throws where \<open>fetchNullable\<close> returns \<open>null\<close>.\<close>

definition fetchTransfer :: "anchor_world \<Rightarrow> string \<Rightarrow> transfer_chain option" where
  "fetchTransfer w transferPda = (case aw_transfer w transferPda of Inl e \<Rightarrow> None | Inr t \<Rightarrow> t)"

end
