(* ===== verification/AccountIndex.thy ===== *)
theory AccountIndex
  imports Tables
begin

text \<open>
  The index of Silkysig accounts kept by the backend (\<^verbatim>\<open>api/service/account.service.ts\<close>): the log
  parser, and \<open>indexSilkysigTx\<close> over the tables of accounts, operators and events. The answers of the
  chain while one transaction is indexed are the argument \<open>fetch\<close> (\<open>fetchAccount\<close>, which turns every
  error into \<open>null\<close>); keys are their base58 text. Queries see the rows persisted before them in the
  same call (the default flush mode of the ORM); generated ids and timestamps are left out.
\<close>

section \<open>The confirmed transaction\<close>

record token_balance =
  tb_accountIndex :: nat
  tb_owner :: "string option"
  tb_amount :: nat

record tx_info =
  ti_staticAccountKeys :: "string list option"
  ti_accountKeys :: "string list option"
  ti_logs :: "string list option"
  ti_pre :: "token_balance list option"
  ti_post :: "token_balance list option"

definition account_keys :: "tx_info \<Rightarrow> string list option" where
  "account_keys ti = (case ti_staticAccountKeys ti of Some ks \<Rightarrow> Some ks | None \<Rightarrow> ti_accountKeys ti)"

text \<open>\<open>log.match(/Instruction: (\w+)/)\<close>: the word after the first occurrence that has one.\<close>

definition is_word :: "char \<Rightarrow> bool" where
  "is_word c \<longleftrightarrow> is_digit c \<or> (65 \<le> code c \<and> code c \<le> 90) \<or> (97 \<le> code c \<and> code c \<le> 122) \<or> code c = 95"

fun match_instruction :: "string \<Rightarrow> string option" where
  "match_instruction [] = None"
| "match_instruction (c # cs) =
     (if startsWith (c # cs) ''Instruction: '' \<and> takeWhile is_word (drop 13 (c # cs)) \<noteq> []
      then Some (takeWhile is_word (drop 13 (c # cs)))
      else match_instruction cs)"

section \<open>Events in the logs\<close>

datatype silk_event_type =
    ACCOUNT_CREATED | ACCOUNT_CLOSED | DEPOSIT | TRANSFER | OPERATOR_ADDED | OPERATOR_REMOVED | PAUSED | UNPAUSED

definition SILKYSIG_INSTRUCTION_MAP :: "silk_event_type obj" where
  "SILKYSIG_INSTRUCTION_MAP =
     [(''CreateAccount'', ACCOUNT_CREATED), (''CloseAccount'', ACCOUNT_CLOSED), (''Deposit'', DEPOSIT),
      (''TransferFromAccount'', TRANSFER), (''AddOperator'', OPERATOR_ADDED),
      (''RemoveOperator'', OPERATOR_REMOVED), (''TogglePause'', PAUSED)]"

definition silkysig_context :: "bool \<Rightarrow> string \<Rightarrow> bool" where
  "silkysig_context inSilkysig log =
     (if str_includes log ''SiLKos'' \<and> str_includes log ''invoke'' then True
      else if inSilkysig \<and> str_includes log ''invoke'' then inSilkysig
      else if str_includes log ''success'' \<or> (str_includes log ''invoke'' \<and> \<not> str_includes log ''SiLKos'') then False
      else inSilkysig)"

definition log_event :: "string \<Rightarrow> silk_event_type list" where
  "log_event log =
     (case match_instruction log of
        None \<Rightarrow> []
      | Some name \<Rightarrow> (case get SILKYSIG_INSTRUCTION_MAP name of None \<Rightarrow> [] | Some t \<Rightarrow> [t]))"

fun parse_logs :: "bool \<Rightarrow> string list \<Rightarrow> silk_event_type list" where
  "parse_logs inSilkysig [] = []"
| "parse_logs inSilkysig (log # logs) =
     (let now = silkysig_context inSilkysig log
      in (if now then log_event log else []) @ parse_logs now logs)"

definition parseSilkysigEvents :: "string list option \<Rightarrow> silk_event_type list" where
  "parseSilkysigEvents logs = (case logs of None \<Rightarrow> [] | Some ls \<Rightarrow> parse_logs False ls)"

section \<open>The tables\<close>

datatype silk_status = SilkActive | SilkClosed

record silk_account =
  sa_pda :: string
  sa_owner :: string
  sa_mint :: string
  sa_status :: silk_status

record silk_operator =
  so_account :: string
  so_operator :: string
  so_perTxLimit :: string

record silk_event =
  se_account :: string
  se_type :: silk_event_type
  se_txid :: string
  se_actor :: string
  se_data :: "string obj option"

record silk_db =
  sd_accounts :: "silk_account list"
  sd_operators :: "silk_operator list"
  sd_events :: "silk_event list"

text \<open>The decoded on-chain account: its first \<open>operatorCount\<close> slots, public key and limit.\<close>

record silk_chain =
  sc_owner :: string
  sc_mint :: string
  sc_isPaused :: bool
  sc_operators :: "(string \<times> string) list"

definition op_key :: "silk_operator \<Rightarrow> string \<times> string" where
  "op_key r = (so_account r, so_operator r)"

definition operators_of :: "string \<Rightarrow> silk_operator list \<Rightarrow> silk_operator list" where
  "operators_of pda rows = filter (\<lambda>r. so_account r = pda) rows"

section \<open>Helpers of the index\<close>

definition findNewOperator :: "silk_chain \<Rightarrow> (string \<times> string) option" where
  "findNewOperator oc = (if sc_operators oc = [] then None else Some (last (sc_operators oc)))"

definition findRemovedOperator :: "string \<Rightarrow> silk_chain \<Rightarrow> silk_operator list \<Rightarrow> silk_operator option" where
  "findRemovedOperator pda oc rows =
     List.find (\<lambda>r. so_operator r \<notin> fst ` set (sc_operators oc)) (operators_of pda rows)"

fun balance_change :: "token_balance list \<Rightarrow> token_balance list \<Rightarrow> (string \<times> string) option" where
  "balance_change pre [] = None"
| "balance_change pre (b # bs) =
     (let before = (case find_row tb_accountIndex (tb_accountIndex b) pre of None \<Rightarrow> 0 | Some p \<Rightarrow> int (tb_amount p));
          diff = int (tb_amount b) - before
      in if diff \<noteq> 0
         then Some (case tb_owner b of None \<Rightarrow> [] | Some w \<Rightarrow> w, int_str (if diff > 0 then diff else - diff))
         else balance_change pre bs)"

definition extractTokenBalanceChange :: "tx_info \<Rightarrow> (string \<times> string) option" where
  "extractTokenBalanceChange ti =
     (case (ti_pre ti, ti_post ti) of (Some pre, Some post) \<Rightarrow> balance_change pre post | _ \<Rightarrow> None)"

definition add_operator_row :: "string \<Rightarrow> string \<times> string \<Rightarrow> silk_operator list \<Rightarrow> silk_operator list" where
  "add_operator_row pda slot rows =
     (case find_row op_key (pda, fst slot) rows of
        Some r \<Rightarrow> rows
      | None \<Rightarrow> add_row \<lparr>so_account = pda, so_operator = fst slot, so_perTxLimit = snd slot\<rparr> rows)"

section \<open>\<open>indexSilkysigTx\<close>\<close>

definition set_status :: "string \<Rightarrow> silk_status \<Rightarrow> silk_db \<Rightarrow> silk_db" where
  "set_status pda s db = db\<lparr>sd_accounts := change_rows sa_pda pda (\<lambda>a. a\<lparr>sa_status := s\<rparr>) (sd_accounts db)\<rparr>"

text \<open>The \<open>switch\<close>: the database, the resolved type and the event's data.\<close>

definition apply_event ::
    "tx_info \<Rightarrow> silk_chain option \<Rightarrow> string \<Rightarrow> silk_event_type \<Rightarrow> silk_db
       \<Rightarrow> silk_db \<times> silk_event_type \<times> string obj option" where
  "apply_event ti onChain pda et db =
     (case et of
        ACCOUNT_CREATED \<Rightarrow> (set_status pda SilkActive db, et, None)
      | ACCOUNT_CLOSED \<Rightarrow>
          ((set_status pda SilkClosed db)\<lparr>sd_operators := filter (\<lambda>r. so_account r \<noteq> pda) (sd_operators db)\<rparr>, et, None)
      | OPERATOR_ADDED \<Rightarrow>
          (case onChain of
             None \<Rightarrow> (db, et, None)
           | Some oc \<Rightarrow> (case findNewOperator oc of
                 None \<Rightarrow> (db, et, None)
               | Some slot \<Rightarrow> (db\<lparr>sd_operators := add_operator_row pda slot (sd_operators db)\<rparr>, et,
                     Some [(''operator'', fst slot), (''perTxLimit'', snd slot)])))
      | OPERATOR_REMOVED \<Rightarrow>
          (case onChain of
             None \<Rightarrow> (db, et, None)
           | Some oc \<Rightarrow> (case findRemovedOperator pda oc (sd_operators db) of
                 None \<Rightarrow> (db, et, None)
               | Some removed \<Rightarrow> (db\<lparr>sd_operators := remove1 removed (sd_operators db)\<rparr>, et,
                     Some [(''operator'', so_operator removed)])))
      | TRANSFER \<Rightarrow> (db, et, map_option (\<lambda>(who, amt). [(''recipient'', who), (''amount'', amt)]) (extractTokenBalanceChange ti))
      | DEPOSIT \<Rightarrow> (db, et, map_option (\<lambda>(who, amt). [(''sender'', who), (''amount'', amt)]) (extractTokenBalanceChange ti))
      | PAUSED \<Rightarrow> (db, case onChain of None \<Rightarrow> PAUSED | Some oc \<Rightarrow> if sc_isPaused oc then PAUSED else UNPAUSED, None)
      | UNPAUSED \<Rightarrow> (db, UNPAUSED, None))"

definition index_event ::
    "tx_info \<Rightarrow> silk_chain option \<Rightarrow> string \<Rightarrow> string \<Rightarrow> string \<Rightarrow> silk_db \<Rightarrow> silk_event_type \<Rightarrow> silk_db" where
  "index_event ti onChain pda txid actor db et =
     (case apply_event ti onChain pda et db of
        (db1, resolved, d) \<Rightarrow> db1\<lparr>sd_events := sd_events db1 @
          [\<lparr>se_account = pda, se_type = resolved, se_txid = txid, se_actor = actor, se_data = d\<rparr>]\<rparr>)"

definition sync_operators :: "silk_event_type list \<Rightarrow> silk_chain option \<Rightarrow> string \<Rightarrow> silk_db \<Rightarrow> silk_db" where
  "sync_operators types onChain pda db =
     (case onChain of
        Some oc \<Rightarrow>
          if ACCOUNT_CREATED \<in> set types
          then db\<lparr>sd_operators := foldl (\<lambda>rows slot. add_operator_row pda slot rows) (sd_operators db) (sc_operators oc)\<rparr>
          else db
      | None \<Rightarrow> db)"

definition first_account :: "(string \<Rightarrow> silk_chain option) \<Rightarrow> string list \<Rightarrow> string option" where
  "first_account fetch keys = List.find (\<lambda>k. fetch k \<noteq> None) keys"

definition locate_account ::
    "(string \<Rightarrow> silk_chain option) \<Rightarrow> silk_event_type list \<Rightarrow> string list \<Rightarrow> silk_db \<Rightarrow> (string \<times> silk_chain option) option" where
  "locate_account fetch types keys db =
     (case first_account fetch keys of
        Some k \<Rightarrow> Some (k, fetch k)
      | None \<Rightarrow>
          if ACCOUNT_CLOSED \<in> set types
          then map_option (\<lambda>k. (k, None)) (List.find (\<lambda>k. find_row sa_pda k (sd_accounts db) \<noteq> None) keys)
          else None)"

definition ensure_account :: "string \<Rightarrow> silk_chain option \<Rightarrow> silk_db \<Rightarrow> silk_db option" where
  "ensure_account pda onChain db =
     (case find_row sa_pda pda (sd_accounts db) of
        Some a \<Rightarrow> Some db
      | None \<Rightarrow>
          (case onChain of
             None \<Rightarrow> None
           | Some oc \<Rightarrow> Some (db\<lparr>sd_accounts := add_row
               \<lparr>sa_pda = pda, sa_owner = sc_owner oc, sa_mint = sc_mint oc, sa_status = SilkActive\<rparr> (sd_accounts db)\<rparr>)))"

text \<open>An empty key list makes \<open>accountKeys[0]\<close> undefined: the exception is swallowed, nothing is
  stored.\<close>

definition indexSilkysigTx :: "(string \<Rightarrow> silk_chain option) \<Rightarrow> string \<Rightarrow> tx_info \<Rightarrow> silk_db \<Rightarrow> silk_db" where
  "indexSilkysigTx fetch txid ti db =
     (let types = parseSilkysigEvents (ti_logs ti) in
      if types = [] then db
      else case account_keys ti of
        None \<Rightarrow> db
      | Some [] \<Rightarrow> db
      | Some (actor # keys) \<Rightarrow>
          (case locate_account fetch types (actor # keys) db of
             None \<Rightarrow> db
           | Some (pda, onChain) \<Rightarrow>
               (case ensure_account pda onChain db of
                  None \<Rightarrow> db
                | Some db1 \<Rightarrow>
                    sync_operators types onChain pda
                      (foldl (index_event ti onChain pda txid actor) db1 types))))"

section \<open>Queries\<close>

definition findAccountsByOwner :: "string \<Rightarrow> silk_db \<Rightarrow> (silk_account \<times> silk_operator list) list" where
  "findAccountsByOwner owner db =
     map (\<lambda>a. (a, operators_of (sa_pda a) (sd_operators db))) (filter (\<lambda>a. sa_owner a = owner) (sd_accounts db))"

text \<open>Newest first; without a type every event of the account.\<close>

definition findEventsByAccount :: "string \<Rightarrow> silk_event_type option \<Rightarrow> silk_db \<Rightarrow> silk_event list" where
  "findEventsByAccount pda et db =
     (case find_row sa_pda pda (sd_accounts db) of
        None \<Rightarrow> []
      | Some a \<Rightarrow> rev (filter (\<lambda>e. se_account e = pda \<and> (case et of None \<Rightarrow> True | Some t \<Rightarrow> se_type e = t)) (sd_events db)))"

section \<open>Well-formed tables\<close>

interpretation accounts: row_store sa_pda "find_row sa_pda" add_row "change_rows sa_pda" "unique_on sa_pda"
  by (rule list_row_store)

interpretation operators: row_store op_key "find_row op_key" add_row "change_rows op_key" "unique_on op_key"
  by (rule list_row_store)

definition known_account :: "silk_db \<Rightarrow> string \<Rightarrow> bool" where
  "known_account db pda \<longleftrightarrow> find_row sa_pda pda (sd_accounts db) \<noteq> None"

definition silk_wf :: "silk_db \<Rightarrow> bool" where
  "silk_wf db \<longleftrightarrow> unique_on sa_pda (sd_accounts db) \<and> unique_on op_key (sd_operators db)
     \<and> (\<forall>r \<in> set (sd_operators db). known_account db (so_account r))
     \<and> (\<forall>e \<in> set (sd_events db). known_account db (se_account e))"

text \<open>The operators the index holds for an account.\<close>

definition indexed_operators :: "string \<Rightarrow> silk_db \<Rightarrow> string set" where
  "indexed_operators pda db = so_operator ` set (operators_of pda (sd_operators db))"

lemma known_set_status [simp]: "known_account (set_status p s db) q = known_account db q"
  by (simp add: known_account_def set_status_def accounts.lookup_change)

lemma set_status_simps [simp]:
  "sd_operators (set_status p s db) = sd_operators db" "sd_events (set_status p s db) = sd_events db"
  "unique_on sa_pda (sd_accounts (set_status p s db)) = unique_on sa_pda (sd_accounts db)"
  by (simp_all add: set_status_def unique_on_change)

lemma add_operator_row_unique: "unique_on op_key rows \<Longrightarrow> unique_on op_key (add_operator_row pda slot rows)"
  by (auto simp: add_operator_row_def unique_on_add op_key_def split: option.split)

lemma set_add_operator_row:
  "set (add_operator_row pda slot rows) \<subseteq> insert \<lparr>so_account = pda, so_operator = fst slot, so_perTxLimit = snd slot\<rparr> (set rows)"
  by (auto simp: add_operator_row_def add_row_def split: option.split)

lemma indexed_add_operator_row:
  "so_operator ` set (operators_of q (add_operator_row pda slot rows))
     = (if q = pda then insert (fst slot) (so_operator ` set (operators_of q rows)) else so_operator ` set (operators_of q rows))"
proof (cases "find_row op_key (pda, fst slot) rows")
  case None
  then show ?thesis by (auto simp: add_operator_row_def operators_of_def add_row_def)
next
  case (Some r)
  then have "r \<in> set rows" "so_account r = pda" "so_operator r = fst slot"
    using find_row_in [OF Some] find_row_key [OF Some] by (auto simp: op_key_def)
  then have "fst slot \<in> so_operator ` set (operators_of pda rows)"
    by (force simp: operators_of_def)
  with Some show ?thesis by (auto simp: add_operator_row_def)
qed

lemma fold_add_operator_rows:
  "unique_on op_key rows \<Longrightarrow> unique_on op_key (foldl (\<lambda>rows slot. add_operator_row pda slot rows) rows slots)"
  "set (foldl (\<lambda>rows slot. add_operator_row pda slot rows) rows slots) \<subseteq> set rows \<union> {r. so_account r = pda}"
  "so_operator ` set (operators_of q (foldl (\<lambda>rows slot. add_operator_row pda slot rows) rows slots))
     = (if q = pda then fst ` set slots \<union> so_operator ` set (operators_of q rows) else so_operator ` set (operators_of q rows))"
proof (induction slots arbitrary: rows)
  case (Cons slot slots)
  {
    case 1
    then show ?case by (simp add: Cons.IH(1) add_operator_row_unique)
  next
    case 2
    show ?case using Cons.IH(2) [of "add_operator_row pda slot rows"] set_add_operator_row [of pda slot rows] by fastforce
  next
    case 3
    show ?case by (simp add: Cons.IH(3) indexed_add_operator_row)
  }
qed simp_all

text \<open>One event: the accounts keep their keys and owners, the operators of other accounts are
  untouched, and exactly one event is appended.\<close>

definition resolved :: "silk_chain option \<Rightarrow> silk_event_type \<Rightarrow> silk_event_type" where
  "resolved onChain et = (case (et, onChain) of
      (PAUSED, Some oc) \<Rightarrow> if sc_isPaused oc then PAUSED else UNPAUSED | _ \<Rightarrow> et)"

definition identity_of :: "silk_account \<Rightarrow> string \<times> string \<times> string" where
  "identity_of a = (sa_pda a, sa_owner a, sa_mint a)"

text \<open>What an event may do to the operator rows of its account.\<close>

inductive op_change :: "string \<Rightarrow> silk_operator list \<Rightarrow> silk_operator list \<Rightarrow> bool" for pda where
  Same: "op_change pda rows rows"
| Clear: "op_change pda rows (filter (\<lambda>r. so_account r \<noteq> pda) rows)"
| Put: "op_change pda rows (add_operator_row pda slot rows)"
| Drop: "so_account r = pda \<Longrightarrow> op_change pda rows (remove1 r rows)"

lemma find_in: "List.find P xs = Some x \<Longrightarrow> x \<in> set xs \<and> P x"
  by (auto simp: find_Some_iff)

lemma find_removed_account: "findRemovedOperator pda oc rows = Some r \<Longrightarrow> so_account r = pda"
  unfolding findRemovedOperator_def operators_of_def
  by (drule find_in) simp

lemma apply_event_ops: "apply_event ti onChain pda et db = (db1, t, d) \<Longrightarrow> op_change pda (sd_operators db) (sd_operators db1)"
  by (cases et) (auto simp: apply_event_def intro: op_change.Same op_change.Clear op_change.Put op_change.Drop [OF find_removed_account] split: option.splits)

lemma op_change_unique: "op_change pda rows rows' \<Longrightarrow> unique_on op_key rows \<Longrightarrow> unique_on op_key rows'"
proof (induction rule: op_change.induct)
  case (Clear rows)
  then show ?case by (simp add: unique_on_def distinct_map_filter)
next
  case (Drop r rows)
  have "unique_on op_key xs \<Longrightarrow> unique_on op_key (remove1 r xs)" for xs
    by (induction xs) (auto simp: unique_on_def dest: set_remove1_subset [THEN subsetD])
  with Drop show ?case by blast
qed (simp_all add: add_operator_row_unique)

lemma op_change_accounts: "op_change pda rows rows' \<Longrightarrow> set rows' \<subseteq> set rows \<union> {r. so_account r = pda}"
proof (induction rule: op_change.induct)
  case (Put rows slot)
  then show ?case using set_add_operator_row [of pda slot rows] by auto
qed (auto dest: set_remove1_subset [THEN subsetD])

lemma op_change_others: "op_change pda rows rows' \<Longrightarrow> q \<noteq> pda \<Longrightarrow>
    so_operator ` set (operators_of q rows') = so_operator ` set (operators_of q rows)"
proof (induction rule: op_change.induct)
  case (Clear rows)
  then show ?case by (auto simp: operators_of_def)
next
  case (Put rows slot)
  then show ?case by (simp add: indexed_add_operator_row)
next
  case (Drop r rows)
  then have "operators_of q (remove1 r xs) = operators_of q xs" for xs
    by (induction xs) (auto simp: operators_of_def)
  then show ?case by simp
qed simp

lemma apply_event_accounts:
  "apply_event ti onChain pda et db = (db1, t, d) \<Longrightarrow> map identity_of (sd_accounts db1) = map identity_of (sd_accounts db)"
proof -
  have "map identity_of (sd_accounts (set_status p s db)) = map identity_of (sd_accounts db)" for p s
    by (auto simp: set_status_def change_rows_def identity_of_def)
  then show "apply_event ti onChain pda et db = (db1, t, d) \<Longrightarrow> ?thesis"
    by (cases et) (auto simp: apply_event_def split: option.splits)
qed

lemma apply_event_type:
  "apply_event ti onChain pda et db = (db1, t, d) \<Longrightarrow> t = resolved onChain et \<and> sd_events db1 = sd_events db"
  by (cases et) (auto simp: apply_event_def resolved_def split: option.splits)


section \<open>A whole transaction\<close>

definition op_reach :: "string \<Rightarrow> silk_operator list \<Rightarrow> silk_operator list \<Rightarrow> bool" where
  "op_reach pda = (op_change pda)\<^sup>*\<^sup>*"

lemma index_events:
  fixes ti onChain pda txid actor db types
  defines "db' \<equiv> foldl (index_event ti onChain pda txid actor) db types"
  shows "map identity_of (sd_accounts db') = map identity_of (sd_accounts db)
    \<and> op_reach pda (sd_operators db) (sd_operators db')
    \<and> (\<exists>new. sd_events db' = sd_events db @ new
         \<and> map (\<lambda>e. (se_account e, se_type e, se_txid e, se_actor e)) new
             = map (\<lambda>t. (pda, resolved onChain t, txid, actor)) types)"
  unfolding db'_def
proof (induction types arbitrary: db)
  case Nil
  show ?case by (simp add: op_reach_def)
next
  case (Cons t types)
  obtain db1 r d where a: "apply_event ti onChain pda t db = (db1, r, d)" by (metis prod_cases3)
  define db2 where "db2 = db1\<lparr>sd_events := sd_events db1 @
      [\<lparr>se_account = pda, se_type = r, se_txid = txid, se_actor = actor, se_data = d\<rparr>]\<rparr>"
  have step: "index_event ti onChain pda txid actor db t = db2"
    by (simp add: index_event_def a db2_def)
  have "op_change pda (sd_operators db) (sd_operators db2)"
    using apply_event_ops [OF a] by (simp add: db2_def)
  moreover obtain new where new: "sd_events (foldl (index_event ti onChain pda txid actor) db2 types) = sd_events db2 @ new"
      "map (\<lambda>e. (se_account e, se_type e, se_txid e, se_actor e)) new = map (\<lambda>t. (pda, resolved onChain t, txid, actor)) types"
    using Cons.IH [of db2] by blast
  ultimately show ?case
    using Cons.IH [of db2] apply_event_accounts [OF a] apply_event_type [OF a] step
    unfolding op_reach_def
    by (auto simp: db2_def intro: converse_rtranclp_into_rtranclp)
qed

lemma op_reach_unique: "op_reach pda rows rows' \<Longrightarrow> unique_on op_key rows \<Longrightarrow> unique_on op_key rows'"
  unfolding op_reach_def by (induction rule: rtranclp_induct) (auto dest: op_change_unique)

lemma op_reach_accounts: "op_reach pda rows rows' \<Longrightarrow> set rows' \<subseteq> set rows \<union> {r. so_account r = pda}"
  unfolding op_reach_def by (induction rule: rtranclp_induct) (auto dest: op_change_accounts)

lemma op_reach_others: "op_reach pda rows rows' \<Longrightarrow> q \<noteq> pda \<Longrightarrow>
    so_operator ` set (operators_of q rows') = so_operator ` set (operators_of q rows)"
  unfolding op_reach_def by (induction rule: rtranclp_induct) (simp_all add: op_change_others)

lemma sync_simps [simp]:
  "sd_accounts (sync_operators types onChain pda db) = sd_accounts db"
  "sd_events (sync_operators types onChain pda db) = sd_events db"
  by (simp_all add: sync_operators_def split: option.split)

lemma op_reach_fold: "op_reach pda rows (foldl (\<lambda>rows slot. add_operator_row pda slot rows) rows slots)"
  unfolding op_reach_def
proof (induction slots arbitrary: rows)
  case (Cons slot slots)
  show ?case
    using converse_rtranclp_into_rtranclp [OF op_change.Put [of pda rows slot] Cons.IH] by simp
qed simp

lemma sync_reach: "op_reach pda (sd_operators db) (sd_operators (sync_operators types onChain pda db))"
  by (auto simp: sync_operators_def op_reach_fold split: option.split) (auto simp: op_reach_def)

text \<open>The account a transaction is indexed under, if any: the public key, the on-chain state, the
  actor and the events.\<close>

definition index_target ::
    "(string \<Rightarrow> silk_chain option) \<Rightarrow> tx_info \<Rightarrow> silk_db
       \<Rightarrow> (string \<times> silk_chain option \<times> string \<times> silk_event_type list \<times> silk_db) option" where
  "index_target fetch ti db =
     (let types = parseSilkysigEvents (ti_logs ti) in
      case account_keys ti of
        Some (actor # keys) \<Rightarrow>
          (if types = [] then None
           else case locate_account fetch types (actor # keys) db of
             None \<Rightarrow> None
           | Some (pda, onChain) \<Rightarrow> map_option (\<lambda>db1. (pda, onChain, actor, types, db1)) (ensure_account pda onChain db))
      | _ \<Rightarrow> None)"

lemma index_by_target:
  "indexSilkysigTx fetch txid ti db =
     (case index_target fetch ti db of
        None \<Rightarrow> db
      | Some (pda, onChain, actor, types, db1) \<Rightarrow>
          sync_operators types onChain pda (foldl (index_event ti onChain pda txid actor) db1 types))"
  by (auto simp: indexSilkysigTx_def index_target_def Let_def split: option.split list.split)

lemma ensure_account_facts:
  assumes "ensure_account pda onChain db = Some db1"
  shows "sd_operators db1 = sd_operators db" "sd_events db1 = sd_events db" "known_account db1 pda"
    "unique_on sa_pda (sd_accounts db) \<Longrightarrow> unique_on sa_pda (sd_accounts db1)"
    "\<exists>more. map identity_of (sd_accounts db1) = map identity_of (sd_accounts db) @ more"
  using assms
  by (auto simp: ensure_account_def known_account_def unique_on_add find_row_add split: option.splits)
    (simp add: add_row_def)

lemma target_ensure:
  "index_target fetch ti db = Some (pda, onChain, actor, types, db1) \<Longrightarrow> ensure_account pda onChain db = Some db1"
  by (auto simp: index_target_def Let_def split: option.splits list.splits if_splits)

lemma known_by_identity: "known_account db q \<longleftrightarrow> q \<in> fst ` set (map identity_of (sd_accounts db))"
proof -
  have "fst ` set (map identity_of (sd_accounts db)) = sa_pda ` set (sd_accounts db)"
    by (simp add: image_image identity_of_def)
  then show ?thesis using find_row_None [of sa_pda q "sd_accounts db"] by (simp add: known_account_def)
qed

lemma silk_index_step:
  fixes fetch txid ti db
  assumes "silk_wf db"
  defines "db' \<equiv> indexSilkysigTx fetch txid ti db"
  shows "silk_wf db' \<and> (\<exists>new. sd_events db' = sd_events db @ new)
    \<and> (\<exists>more. map identity_of (sd_accounts db') = map identity_of (sd_accounts db) @ more)"
proof (cases "index_target fetch ti db")
  case None
  then show ?thesis using assms(1) by (simp add: db'_def index_by_target)
next
  case (Some t)
  obtain pda onChain actor types db1 where t: "t = (pda, onChain, actor, types, db1)" by (metis prod_cases5)
  define db2 where "db2 = foldl (index_event ti onChain pda txid actor) db1 types"
  have db': "db' = sync_operators types onChain pda db2"
    by (simp add: db'_def index_by_target Some t db2_def)
  note e = ensure_account_facts [OF target_ensure [OF Some [unfolded t]]]
  note f = index_events [of ti onChain pda txid actor db1 types, folded db2_def]
  obtain more where more: "map identity_of (sd_accounts db') = map identity_of (sd_accounts db) @ more"
    using e(5) f db' by auto
  obtain new where new: "sd_events db' = sd_events db @ new" "\<forall>e \<in> set new. se_account e = pda"
  proof -
    from f obtain new where n: "sd_events db2 = sd_events db1 @ new"
        "map (\<lambda>e. (se_account e, se_type e, se_txid e, se_actor e)) new = map (\<lambda>t. (pda, resolved onChain t, txid, actor)) types"
      by blast
    then have "fst ` set (map (\<lambda>e. (se_account e, se_type e, se_txid e, se_actor e)) new) \<subseteq> {pda}" by auto
    then have "\<forall>e \<in> set new. se_account e = pda" by (auto simp: image_image)
    with n(1) e(2) db' that show thesis by simp
  qed
  have r: "op_reach pda (sd_operators db) (sd_operators db')"
    using f e(1) sync_reach [of pda db2 types onChain] by (auto simp: db' op_reach_def)
  have keep: "known_account db' q" if "known_account db q" for q
    using that more by (auto simp: known_by_identity)
  have "unique_on sa_pda (sd_accounts db')"
  proof -
    have "map fst (map identity_of (sd_accounts db')) = map fst (map identity_of (sd_accounts db1))"
      using f db' by simp
    then have "map sa_pda (sd_accounts db') = map sa_pda (sd_accounts db1)" by (simp add: identity_of_def comp_def)
    then show ?thesis using e(4) assms(1) by (simp add: silk_wf_def unique_on_def)
  qed
  moreover have "known_account db' pda"
    using e(3) f db' by (simp add: known_by_identity)
  moreover have "unique_on op_key (sd_operators db')"
    using op_reach_unique [OF r] assms(1) by (simp add: silk_wf_def)
  ultimately have "silk_wf db'"
    using assms(1) new keep op_reach_accounts [OF r] by (fastforce simp: silk_wf_def)
  with more new(1) show ?thesis by blast
qed


section \<open>Properties\<close>

type_synonym index_call = "(string \<Rightarrow> silk_chain option) \<times> string \<times> tx_info"

definition index_all :: "index_call list \<Rightarrow> silk_db \<Rightarrow> silk_db" where
  "index_all calls db = foldl (\<lambda>db (fetch, txid, ti). indexSilkysigTx fetch txid ti db) db calls"

definition empty_silk_db :: silk_db where
  "empty_silk_db = \<lparr>sd_accounts = [], sd_operators = [], sd_events = []\<rparr>"

lemma index_all_step:
  "silk_wf db \<Longrightarrow> silk_wf (index_all calls db) \<and> (\<exists>new. sd_events (index_all calls db) = sd_events db @ new)
    \<and> (\<exists>more. map identity_of (sd_accounts (index_all calls db)) = map identity_of (sd_accounts db) @ more)"
proof (induction calls arbitrary: db)
  case Nil
  then show ?case by (simp add: index_all_def)
next
  case (Cons c calls)
  obtain fetch txid ti where c: "c = (fetch, txid, ti)" by (metis prod_cases3)
  note 1 = silk_index_step [OF Cons.prems, of fetch txid ti]
  then have "silk_wf (indexSilkysigTx fetch txid ti db)" by blast
  note 2 = Cons.IH [OF this]
  have "index_all (c # calls) db = index_all calls (indexSilkysigTx fetch txid ti db)"
    by (simp add: index_all_def c)
  with 1 2 show ?case by (metis append.assoc)
qed

text \<open>Whatever transactions are indexed, in whatever order: public keys of accounts and the pairs
  (account, operator) stay unique, so that no flush violates a unique column; operators and events
  belong to stored accounts; the event log only grows at its end; and no account disappears or
  changes its owner or mint.\<close>

theorem silk_index_invariant:
  "silk_wf (index_all calls empty_silk_db)
   \<and> (\<exists>new. sd_events (index_all (calls @ later) empty_silk_db) = sd_events (index_all calls empty_silk_db) @ new)
   \<and> (\<exists>more. map identity_of (sd_accounts (index_all (calls @ later) empty_silk_db))
        = map identity_of (sd_accounts (index_all calls empty_silk_db)) @ more)"
proof -
  have "silk_wf empty_silk_db" by (simp add: silk_wf_def empty_silk_db_def unique_on_def)
  then have wf: "silk_wf (index_all calls empty_silk_db)" using index_all_step by blast
  have "index_all (calls @ later) empty_silk_db = index_all later (index_all calls empty_silk_db)"
    by (simp add: index_all_def)
  with wf index_all_step [OF wf, of later] show ?thesis by simp
qed

text \<open>A transaction is logged exactly: when it has an account to be indexed under, one event per
  recognised instruction is appended, in order, with the account, the transaction, the first key as
  actor, and PAUSED resolved by the on-chain state; otherwise the tables are unchanged. In particular
  indexing the same transaction again appends its events again.\<close>

theorem silk_events_exact:
  "case index_target fetch ti db of
     None \<Rightarrow> indexSilkysigTx fetch txid ti db = db
   | Some (pda, onChain, actor, types, db1) \<Rightarrow>
       types = parseSilkysigEvents (ti_logs ti) \<and> types \<noteq> [] \<and>
       (\<exists>new. sd_events (indexSilkysigTx fetch txid ti db) = sd_events db @ new
          \<and> map (\<lambda>e. (se_account e, se_type e, se_txid e, se_actor e)) new
              = map (\<lambda>t. (pda, resolved onChain t, txid, actor)) types)"
proof (cases "index_target fetch ti db")
  case None
  then show ?thesis by (simp add: index_by_target)
next
  case (Some t)
  obtain pda onChain actor types db1 where t: "t = (pda, onChain, actor, types, db1)" by (metis prod_cases5)
  have "types = parseSilkysigEvents (ti_logs ti)" "types \<noteq> []"
    using Some unfolding t by (auto simp: index_target_def Let_def split: option.splits list.splits if_splits)
  moreover note ensure_account_facts(2) [OF target_ensure [OF Some [unfolded t]]]
  ultimately show ?thesis
    using index_events [of ti onChain pda txid actor db1 types] by (simp add: Some t index_by_target)
qed

section \<open>The index follows the chain\<close>

text \<open>What one instruction of the program does to the list of operators: an added operator takes the
  next free slot, a removed one disappears (the last one may take its slot), the others leave the list
  alone, and a created account starts with what the same transaction adds.\<close>

definition chain_step :: "silk_event_type \<Rightarrow> string list \<Rightarrow> string list \<Rightarrow> bool" where
  "chain_step et before after =
     (case et of
        OPERATOR_ADDED \<Rightarrow> (\<exists>x. x \<notin> set before \<and> after = before @ [x])
      | OPERATOR_REMOVED \<Rightarrow> (\<exists>x \<in> set before. set after = set before - {x})
      | ACCOUNT_CREATED \<Rightarrow> before = []
      | ACCOUNT_CLOSED \<Rightarrow> after = []
      | _ \<Rightarrow> after = before)"

definition synced :: "string \<Rightarrow> string list \<Rightarrow> silk_db \<Rightarrow> bool" where
  "synced pda ops db \<longleftrightarrow> indexed_operators pda db = set ops"

lemma remove_operator_synced:
  assumes u: "unique_on op_key rows" and s: "so_operator ` set (operators_of pda rows) = set before"
    and x: "x \<in> set before" "set (map fst (sc_operators oc)) = set before - {x}"
  shows "\<exists>r. findRemovedOperator pda oc rows = Some r
    \<and> so_operator ` set (operators_of pda (remove1 r rows)) = set before - {x}"
proof -
  have mem: "so_operator r \<notin> fst ` set (sc_operators oc) \<longleftrightarrow> so_operator r = x" if "r \<in> set (operators_of pda rows)" for r
    using s x that by auto
  obtain r0 where "r0 \<in> set (operators_of pda rows)" "so_operator r0 = x" using s x(1) by (metis imageE)
  then have "findRemovedOperator pda oc rows \<noteq> None"
    using mem by (auto simp: findRemovedOperator_def find_None_iff)
  then obtain r where r: "findRemovedOperator pda oc rows = Some r" by blast
  then have rin: "r \<in> set (operators_of pda rows)" "so_operator r \<notin> fst ` set (sc_operators oc)"
    by (auto simp: findRemovedOperator_def dest!: find_in)
  with mem have rx: "so_operator r = x" "so_account r = pda" by (auto simp: operators_of_def)
  have d: "distinct rows" using u by (simp add: unique_on_def distinct_map)
  have only: "r' = r" if "r' \<in> set (operators_of pda rows)" "so_operator r' = x" for r'
  proof (rule inj_onD [of op_key "set rows"])
    show "inj_on op_key (set rows)" using u by (simp add: unique_on_def distinct_map)
  qed (use that rin(1) rx in \<open>auto simp: op_key_def operators_of_def\<close>)
  have "set (operators_of pda (remove1 r rows)) = set (operators_of pda rows) - {r}"
    using d by (auto simp: operators_of_def)
  moreover have "so_operator ` (set (operators_of pda rows) - {r}) = so_operator ` set (operators_of pda rows) - {x}"
    using only rx(1) rin(1) by blast
  ultimately have "so_operator ` set (operators_of pda (remove1 r rows)) = set before - {x}"
    using s by simp
  with r show ?thesis by blast
qed

lemma synced_step:
  assumes wf: "silk_wf db" and sync: "synced pda before db"
    and t: "index_target fetch ti db = Some (pda, onChain, actor, [et], db1)"
    and oc: "case onChain of Some oc \<Rightarrow> chain_step et before (map fst (sc_operators oc)) \<and> after = map fst (sc_operators oc)
             | None \<Rightarrow> et = ACCOUNT_CLOSED \<and> after = []"
  shows "synced pda after (indexSilkysigTx fetch txid ti db)"
proof -
  have ops: "sd_operators db1 = sd_operators db" by (rule ensure_account_facts(1) [OF target_ensure [OF t]])
  have u: "unique_on op_key (sd_operators db)" using wf by (simp add: silk_wf_def)
  have s: "so_operator ` set (operators_of pda (sd_operators db)) = set before"
    using sync by (simp add: synced_def indexed_operators_def)
  define db2 where "db2 = index_event ti onChain pda txid actor db1 et"
  have idx: "indexSilkysigTx fetch txid ti db = sync_operators [et] onChain pda db2"
    by (simp add: index_by_target t db2_def)
  obtain d r e where a: "apply_event ti onChain pda et db1 = (d, r, e)" by (metis prod_cases3)
  have db2: "sd_operators db2 = sd_operators d"
    by (simp add: db2_def index_event_def a split: prod.split)
  note simps = synced_def indexed_operators_def idx sync_operators_def db2
  show ?thesis
  proof (cases et)
    case ACCOUNT_CREATED
    then have "before = []" using oc by (auto simp: chain_step_def split: option.splits)
    then show ?thesis using ACCOUNT_CREATED oc a ops s
      by (auto simp: simps apply_event_def fold_add_operator_rows(3) split: option.splits)
  next
    case ACCOUNT_CLOSED
    then have "after = []" using oc by (auto simp: chain_step_def split: option.splits)
    then show ?thesis using ACCOUNT_CLOSED a
      by (auto simp: simps apply_event_def operators_of_def split: option.splits)
  next
    case OPERATOR_ADDED
    with oc obtain c x where c: "onChain = Some c" and x: "map fst (sc_operators c) = before @ [x]" "after = before @ [x]"
      by (auto simp: chain_step_def split: option.splits)
    then have ne: "sc_operators c \<noteq> []" by auto
    then have "fst (last (sc_operators c)) = last (map fst (sc_operators c))" by (simp add: last_map)
    with x have "fst (last (sc_operators c)) = x" by simp
    moreover have "sd_operators d = add_operator_row pda (last (sc_operators c)) (sd_operators db)"
      using OPERATOR_ADDED a c ne ops by (auto simp: apply_event_def findNewOperator_def)
    ultimately show ?thesis using OPERATOR_ADDED c x(2) s
      by (simp add: simps indexed_add_operator_row)
  next
    case OPERATOR_REMOVED
    with oc obtain c x where c: "onChain = Some c" and x: "x \<in> set before" "set (map fst (sc_operators c)) = set before - {x}"
        "after = map fst (sc_operators c)"
      by (auto simp: chain_step_def split: option.splits)
    from remove_operator_synced [OF u s x(1,2)] obtain r where
      r: "findRemovedOperator pda c (sd_operators db) = Some r"
         "so_operator ` set (operators_of pda (remove1 r (sd_operators db))) = set before - {x}"
      by blast
    then show ?thesis using OPERATOR_REMOVED a c x(2,3) ops
      by (auto simp: simps apply_event_def)
  qed (use oc a ops s in \<open>auto simp: simps apply_event_def chain_step_def split: option.splits\<close>)
qed


text \<open>C31. The index follows the chain: when the operators stored for an account are those it has on
  chain, and a transaction with one Silkysig instruction changes the on-chain list the way the program
  does, then after the transaction has been indexed the stored operators are again those on chain (none
  for a closed account), and the operators of every other account are as before.\<close>

theorem operators_follow_chain:
  assumes "silk_wf db" and "synced pda before db"
    and "index_target fetch ti db = Some (pda, onChain, actor, [et], db1)"
    and "case onChain of Some oc \<Rightarrow> chain_step et before (map fst (sc_operators oc)) \<and> after = map fst (sc_operators oc)
         | None \<Rightarrow> et = ACCOUNT_CLOSED \<and> after = []"
  shows "synced pda after (indexSilkysigTx fetch txid ti db)
    \<and> (\<forall>q ops. q \<noteq> pda \<longrightarrow> synced q ops db \<longrightarrow> synced q ops (indexSilkysigTx fetch txid ti db))"
proof -
  have r: "op_reach pda (sd_operators db) (sd_operators (indexSilkysigTx fetch txid ti db))"
    using index_events [of ti onChain pda txid actor db1 "[et]"] ensure_account_facts(1) [OF target_ensure [OF assms(3)]]
      sync_reach [of pda "foldl (index_event ti onChain pda txid actor) db1 [et]" "[et]" onChain]
    by (auto simp: index_by_target assms(3) op_reach_def)
  show ?thesis
    using synced_step [OF assms] op_reach_others [OF r] by (simp add: synced_def indexed_operators_def)
qed

text \<open>Two operators added by one transaction: both events name the second one, and the first is
  never stored (only the last on-chain slot is looked at).\<close>

theorem second_operator_hides_first:
  assumes wf: "silk_wf db" and "synced pda before db"
    and t: "index_target fetch ti db = Some (pda, Some oc, actor, [OPERATOR_ADDED, OPERATOR_ADDED], db1)"
    and oc: "map fst (sc_operators oc) = before @ [a, b]" and "a \<notin> set before" and "a \<noteq> b"
  shows "\<not> synced pda (before @ [a, b]) (indexSilkysigTx fetch txid ti db)
    \<and> synced pda (before @ [b]) (indexSilkysigTx fetch txid ti db)"
proof -
  have ne: "sc_operators oc \<noteq> []" using oc by auto
  then have "fst (last (sc_operators oc)) = last (map fst (sc_operators oc))" by (simp add: last_map)
  with oc have last: "fst (last (sc_operators oc)) = b" by simp
  have "sd_operators (indexSilkysigTx fetch txid ti db)
      = add_operator_row pda (last (sc_operators oc)) (add_operator_row pda (last (sc_operators oc)) (sd_operators db))"
    using ne ensure_account_facts(1) [OF target_ensure [OF t]]
    by (simp add: index_by_target t sync_operators_def index_event_def apply_event_def findNewOperator_def)
  then have "indexed_operators pda (indexSilkysigTx fetch txid ti db) = insert b (set before)"
    using assms(2) last by (simp add: indexed_operators_def indexed_add_operator_row synced_def)
  then show ?thesis using assms(5,6) by (auto simp: synced_def)
qed

section \<open>Well-formed logs\<close>

text \<open>The log lines of one top-level Silkysig instruction: the invocation, the name of the instruction,
  any lines that name no instruction of the map, and the result.\<close>

definition invoke_text :: string where
  "invoke_text = ''Program SiLKos3MCFggwLsjSeuRiCdcs2MLoJNwq59XwTvEwcS invoke [1]''"

definition result_text :: string where
  "result_text = ''Program SiLKos3MCFggwLsjSeuRiCdcs2MLoJNwq59XwTvEwcS success''"

definition instruction_text :: "string \<Rightarrow> string" where
  "instruction_text name = ''Program log: Instruction: '' @ name"

definition silk_block :: "string \<times> string list \<Rightarrow> string list" where
  "silk_block = (\<lambda>(name, rest). invoke_text # instruction_text name # rest @ [result_text])"

lemma parse_logs_quiet: "\<forall>l \<in> set rest. log_event l = [] \<Longrightarrow> \<exists>b'. parse_logs b (rest @ ls) = parse_logs b' ls"
proof (induction rest arbitrary: b)
  case (Cons l rest)
  then show ?case by (simp add: Let_def)
qed auto

lemma match_instruction_line:
  assumes "\<forall>c \<in> set name. is_word c" and "name \<noteq> []"
  shows "match_instruction (''Program log: Instruction: '' @ name) = Some name"
  using assms by (simp add: takeWhile_eq_all_conv [THEN iffD2] drop_Cons' numeral_eq_Suc)


lemma instruction_line:
  assumes "get SILKYSIG_INSTRUCTION_MAP name = Some t"
  shows "silkysig_context True (instruction_text name)" and "log_event (instruction_text name) = [t]"
proof -
  have names: "name \<in> {''CreateAccount'', ''CloseAccount'', ''Deposit'', ''TransferFromAccount'', ''AddOperator'',
      ''RemoveOperator'', ''TogglePause''}"
    using assms by (auto simp: SILKYSIG_INSTRUCTION_MAP_def get_def split: if_splits)
  then have "\<forall>c \<in> set name. is_word c" "name \<noteq> []"
    by (auto simp: is_word_def is_digit_def code_def)
  then have "match_instruction (instruction_text name) = Some name"
    unfolding instruction_text_def by (rule match_instruction_line)
  with assms show "log_event (instruction_text name) = [t]"
    by (simp add: log_event_def)
  show "silkysig_context True (instruction_text name)"
    using names by (auto simp: silkysig_context_def instruction_text_def)
qed

lemma invoke_line: "silkysig_context b invoke_text" "log_event invoke_text = []" "log_event result_text = []"
  by (simp_all add: silkysig_context_def log_event_def invoke_text_def result_text_def)

text \<open>On the logs of a transaction made of Silkysig instructions, whatever other programs they call
  (their lines naming no instruction of the map), the parser returns exactly the events of the
  instructions, in order.\<close>

theorem silk_logs_parsed:
  assumes "\<forall>(name, rest) \<in> set blocks. get SILKYSIG_INSTRUCTION_MAP name \<noteq> None \<and> (\<forall>l \<in> set rest. log_event l = [])"
  shows "parseSilkysigEvents (Some (concat (map silk_block blocks)))
    = map (\<lambda>(name, rest). the (get SILKYSIG_INSTRUCTION_MAP name)) blocks"
proof -
  have "parse_logs b (concat (map silk_block blocks)) = map (\<lambda>(name, rest). the (get SILKYSIG_INSTRUCTION_MAP name)) blocks" for b
    using assms
  proof (induction blocks arbitrary: b)
    case (Cons x blocks)
    obtain name rest where x: "x = (name, rest)" by force
    from Cons.prems x obtain t where t: "get SILKYSIG_INSTRUCTION_MAP name = Some t" and q: "\<forall>l \<in> set rest. log_event l = []"
      by auto
    obtain b' where b': "parse_logs True (rest @ result_text # concat (map silk_block blocks))
        = parse_logs b' (result_text # concat (map silk_block blocks))"
      using parse_logs_quiet [OF q] by blast
    show ?case using Cons b' x t
      by (simp add: silk_block_def instruction_line [OF t] Let_def invoke_line)
  qed simp
  then show ?thesis by (simp add: parseSilkysigEvents_def)
qed


section \<open>Concrete runs\<close>

definition sample_tx :: "(string \<times> string list) list \<Rightarrow> tx_info" where
  "sample_tx blocks = \<lparr>ti_staticAccountKeys = Some [''owner'', ''acct''], ti_accountKeys = None,
     ti_logs = Some (concat (map silk_block blocks)), ti_pre = None, ti_post = None\<rparr>"

definition sample_chain :: "(string \<times> string) list \<Rightarrow> string \<Rightarrow> silk_chain option" where
  "sample_chain ops k = (if k = ''acct''
     then Some \<lparr>sc_owner = ''owner'', sc_mint = ''mint'', sc_isPaused = False, sc_operators = ops\<rparr> else None)"

definition sample_silk_db :: silk_db where
  "sample_silk_db = \<lparr>sd_accounts = [\<lparr>sa_pda = ''acct'', sa_owner = ''owner'', sa_mint = ''mint'', sa_status = SilkActive\<rparr>],
     sd_operators = [], sd_events = []\<rparr>"

lemma sample_silk_wf: "silk_wf sample_silk_db"
  by (simp add: silk_wf_def sample_silk_db_def unique_on_def)

lemma sample_synced: "synced ''acct'' [] sample_silk_db"
  by (simp add: synced_def indexed_operators_def operators_of_def sample_silk_db_def)

lemma sample_logs:
  "parseSilkysigEvents (ti_logs (sample_tx [(''AddOperator'', [])])) = [OPERATOR_ADDED]"
  "parseSilkysigEvents (ti_logs (sample_tx [(''AddOperator'', []), (''AddOperator'', [])])) = [OPERATOR_ADDED, OPERATOR_ADDED]"
  by (simp_all add: sample_tx_def parseSilkysigEvents_def silk_block_def Let_def invoke_line
      instruction_line [of "''AddOperator''" OPERATOR_ADDED] SILKYSIG_INSTRUCTION_MAP_def get_def)

lemma sample_target:
  assumes "parseSilkysigEvents (ti_logs (sample_tx blocks)) = t # ts"
  shows "index_target (sample_chain ops) (sample_tx blocks) sample_silk_db
    = Some (''acct'', sample_chain ops ''acct'', ''owner'', t # ts, sample_silk_db)"
  using assms by (simp add: index_target_def account_keys_def sample_tx_def locate_account_def first_account_def
      sample_chain_def ensure_account_def sample_silk_db_def find_row_def)

theorem operators_follow_chain_witness:
  "synced ''acct'' [''bot''] (indexSilkysigTx (sample_chain [(''bot'', ''5'')]) ''tx'' (sample_tx [(''AddOperator'', [])]) sample_silk_db)"
  using operators_follow_chain [OF sample_silk_wf sample_synced sample_target [OF sample_logs(1), of "[(''bot'', ''5'')]"],
      where after = "[''bot'']" and txid = "''tx''"]
  by (simp add: sample_chain_def chain_step_def)

theorem second_operator_hides_first_witness:
  "\<not> synced ''acct'' [''bot1'', ''bot2''] (indexSilkysigTx (sample_chain [(''bot1'', ''5''), (''bot2'', ''6'')]) ''tx''
      (sample_tx [(''AddOperator'', []), (''AddOperator'', [])]) sample_silk_db)"
  using second_operator_hides_first [OF sample_silk_wf sample_synced
      sample_target [OF sample_logs(2), of "[(''bot1'', ''5''), (''bot2'', ''6'')]", simplified sample_chain_def, simplified],
      of "''bot1''" "''bot2''" "''tx''"]
  by (simp add: sample_chain_def fun_eq_iff cong: if_cong)

theorem silk_logs_parsed_witness:
  "parseSilkysigEvents (Some (concat (map silk_block [(''Deposit'', [''Program X invoke [2]'', ''Program X success'']), (''TogglePause'', [])])))
    = [DEPOSIT, PAUSED]"
  using silk_logs_parsed [of "[(''Deposit'', [''Program X invoke [2]'', ''Program X success'']), (''TogglePause'', [])]"]
  by (simp add: SILKYSIG_INSTRUCTION_MAP_def get_def log_event_def)

end
