(* ===== verification/TransferIndex.thy ===== *)
theory TransferIndex
  imports HandshakeClient AccountIndex Http
begin

text \<open>
  The escrow transfers of the backend (\<^verbatim>\<open>api/service/tx.service.ts\<close>, \<^verbatim>\<open>tx.controller.ts\<close>,
  \<^verbatim>\<open>transfer.controller.ts\<close>, \<^verbatim>\<open>transfer.service.ts\<close>): building the unsigned transactions, storing
  transfers, pools and tokens, and bringing the rows up to date from a confirmed transaction. A
  built transaction is its fee payer and its instruction (serialisation is web3.js); the answers of
  the chain during one operation are the parameter \<open>tx_env\<close>. A flush succeeds exactly when the
  unique columns stay unique; generated ids and timestamps are left out. A date is the number of milliseconds handed to \<open>new Date\<close>.
\<close>

section \<open>The tables\<close>

record token_row =
  tok_mint :: string
  tok_name :: string
  tok_symbol :: string
  tok_decimals :: nat

record pool_row =
  pool_poolId :: string
  pool_poolPda :: string
  pool_operatorKey :: string
  pool_token :: string
  pool_feeBps :: nat
  pool_isPaused :: bool

datatype transfer_status = TPending | TActive | TClaimed | TCancelled | TRejected | TExpired | TDeclined

record transfer_row =
  tr_pda :: string
  tr_sender :: string
  tr_recipient :: string
  tr_amount :: string
  tr_amountRaw :: string
  tr_token :: string
  tr_pool :: string
  tr_status :: transfer_status
  tr_memo :: "string option"
  tr_createTxid :: "string option"
  tr_claimTxid :: "string option"
  tr_cancelTxid :: "string option"
  tr_claimableAfter :: "double option"
  tr_claimableUntil :: "double option"

record tx_db =
  db_tokens :: "token_row list"
  db_pools :: "pool_row list"
  db_transfers :: "transfer_row list"
  db_silk :: silk_db

record tx_env =
  te_anchor :: anchor_world
  te_pk :: "string \<Rightarrow> string option"
  te_pk_error :: string
  te_db_error :: string
  te_toNumber :: "int \<Rightarrow> double result"
  te_ilike :: "string \<Rightarrow> string \<Rightarrow> bool"
  te_blockhash :: "string result"
  te_send_versioned :: "string \<Rightarrow> string option"
  te_send_legacy :: "string \<Rightarrow> string result"
  te_confirm :: "string \<Rightarrow> unit result"
  te_getTransaction :: "string \<Rightarrow> tx_info option result"
  te_silk :: "string \<Rightarrow> silk_chain option"

record built_tx =
  bt_blockhash :: string
  bt_feePayer :: string
  bt_ix :: anchor_ix

text \<open>\<open>persistAndFlush\<close> of one row: the database after it, or the error of a violated unique column.
  The operations return the database they leave behind in either case.\<close>

definition persist_row :: "tx_env \<Rightarrow> ('r \<Rightarrow> string) \<Rightarrow> 'r \<Rightarrow> 'r list \<Rightarrow> 'r list result" where
  "persist_row env key r rows =
     (if find_row key (key r) rows = None then Inr (add_row r rows) else Inl (JsError (te_db_error env)))"

definition new_PublicKey :: "tx_env \<Rightarrow> string \<Rightarrow> string result" where
  "new_PublicKey env s = (case te_pk env s of None \<Rightarrow> Inl (JsError (te_pk_error env)) | Some k \<Rightarrow> Inr k)"

section \<open>Tokens and pools\<close>

definition getOrCreateToken :: "tx_env \<Rightarrow> string \<Rightarrow> tx_db \<Rightarrow> token_row result \<times> tx_db" where
  "getOrCreateToken env mint db =
     (case find_row tok_mint mint (db_tokens db) of
        Some t \<Rightarrow> (Inr t, db)
      | None \<Rightarrow>
          let token = \<lparr>tok_mint = mint, tok_name = ''Unknown'', tok_symbol = ''UNK'', tok_decimals = 6\<rparr> in
          (case persist_row env tok_mint token (db_tokens db) of
             Inl e \<Rightarrow> (Inl e, db)
           | Inr rows \<Rightarrow> (Inr token, db\<lparr>db_tokens := rows\<rparr>)))"

definition ensurePool :: "tx_env \<Rightarrow> string \<Rightarrow> tx_db \<Rightarrow> pool_row result \<times> tx_db" where
  "ensurePool env poolPda db =
     (case new_PublicKey env poolPda of
        Inl e \<Rightarrow> (Inl e, db)
      | Inr key \<Rightarrow>
          (case fetchPool (te_anchor env) key of
             None \<Rightarrow> (Inl (JsError (''Pool '' @ poolPda @ '' not found on-chain'')), db)
           | Some onChain \<Rightarrow>
               (case getOrCreateToken env (pl_mint onChain) db of
                  (Inl e, db1) \<Rightarrow> (Inl e, db1)
                | (Inr token, db1) \<Rightarrow>
                    let pool = \<lparr>pool_poolId = pl_poolId onChain, pool_poolPda = poolPda,
                          pool_operatorKey = pl_operator onChain, pool_token = tok_mint token,
                          pool_feeBps = pl_feeBps onChain, pool_isPaused = pl_isPaused onChain\<rparr> in
                    (case persist_row env pool_poolPda pool (db_pools db1) of
                       Inl e \<Rightarrow> (Inl e, db1)
                     | Inr rows \<Rightarrow> (Inr pool, db1\<lparr>db_pools := rows\<rparr>)))))"

definition find_or_ensure_pool :: "tx_env \<Rightarrow> string \<Rightarrow> tx_db \<Rightarrow> pool_row result \<times> tx_db" where
  "find_or_ensure_pool env poolPda db =
     (case find_row pool_poolPda poolPda (db_pools db) of
        Some p \<Rightarrow> (Inr p, db)
      | None \<Rightarrow> ensurePool env poolPda db)"

text \<open>The pool of a found token.\<close>

definition pool_of_token :: "token_row option \<Rightarrow> tx_db \<Rightarrow> pool_row result" where
  "pool_of_token t db =
     (case t of
        None \<Rightarrow> Inl (JsError ''TOKEN_NOT_FOUND'')
      | Some token \<Rightarrow>
          (case List.find (\<lambda>p. pool_token p = tok_mint token) (db_pools db) of
             None \<Rightarrow> Inl (JsError ''POOL_NOT_FOUND'')
           | Some p \<Rightarrow> Inr p))"

definition resolvePool :: "tx_env \<Rightarrow> string option \<Rightarrow> string option \<Rightarrow> tx_db \<Rightarrow> pool_row result" where
  "resolvePool env tokenSymbol mint db =
     (case (given mint, given tokenSymbol) of
        (Some m, _) \<Rightarrow> pool_of_token (find_row tok_mint m (db_tokens db)) db
      | (None, Some wanted) \<Rightarrow> pool_of_token (List.find (\<lambda>t. te_ilike env wanted (tok_symbol t)) (db_tokens db)) db
      | (None, None) \<Rightarrow>
          (case List.find (\<lambda>p. \<not> pool_isPaused p) (db_pools db) of
             None \<Rightarrow> Inl (JsError ''NO_ACTIVE_POOL'')
           | Some p \<Rightarrow> Inr p))"

section \<open>Building transactions\<close>

record create_params =
  cp_sender :: string
  cp_recipient :: string
  cp_amount :: double
  cp_mint :: "string option"
  cp_poolPda :: "string option"
  cp_token :: "string option"
  cp_memo :: "string option"
  cp_claimableAfter :: "double option"
  cp_claimableUntil :: "double option"

record create_response =
  cr_transaction :: built_tx
  cr_transferPda :: string
  cr_nonce :: int

text \<open>\<open>x || 0\<close>, and \<open>x ? new Date(x * 1000) : undefined\<close>.\<close>

definition or_zero :: "double option \<Rightarrow> double" where
  "or_zero x = (case x of None \<Rightarrow> Fin 0 | Some d \<Rightarrow> if d_truthy d then d else Fin 0)"

definition seconds_date :: "double option \<Rightarrow> double option" where
  "seconds_date x = (case x of None \<Rightarrow> None | Some d \<Rightarrow> if d_truthy d then Some (d_mul d (Fin 1000)) else None)"

text \<open>\<open>params.amount * 10 ** decimals\<close>.\<close>

definition raw_number :: "double \<Rightarrow> nat \<Rightarrow> double" where
  "raw_number amount decimals = d_mul amount (num_of_int (10 ^ decimals))"

definition create_pool_pda :: "tx_env \<Rightarrow> create_params \<Rightarrow> tx_db \<Rightarrow> string result" where
  "create_pool_pda env p db =
     (case given (cp_poolPda p) of
        Some s \<Rightarrow> new_PublicKey env s
      | None \<Rightarrow> bind_result (resolvePool env (cp_token p) (cp_mint p) db) (\<lambda>pool. new_PublicKey env (pool_poolPda pool)))"

definition build_create_ix :: "tx_env \<Rightarrow> create_params \<Rightarrow> string \<Rightarrow> string \<Rightarrow> string \<Rightarrow> int \<Rightarrow> int
    \<Rightarrow> (string \<times> built_tx) result" where
  "build_create_ix env p sender recipient poolPda nonce amountRaw =
     bind_result (getCreateTransferIx (te_anchor env) sender recipient poolPda nonce amountRaw
         (case cp_memo p of None \<Rightarrow> [] | Some m \<Rightarrow> m) (or_zero (cp_claimableAfter p)) (or_zero (cp_claimableUntil p)) False)
       (\<lambda>(transferPda, ix).
     bind_result (te_blockhash env) (\<lambda>blockhash.
       Inr (transferPda, \<lparr>bt_blockhash = blockhash, bt_feePayer = sender, bt_ix = ix\<rparr>)))"

definition pending_row :: "create_params \<Rightarrow> string \<Rightarrow> int \<Rightarrow> token_row \<Rightarrow> pool_row \<Rightarrow> transfer_row" where
  "pending_row p transferPda amountRaw token pool =
     \<lparr>tr_pda = transferPda, tr_sender = cp_sender p, tr_recipient = cp_recipient p,
      tr_amount = num_to_string (cp_amount p), tr_amountRaw = int_str amountRaw,
      tr_token = tok_mint token, tr_pool = pool_poolPda pool, tr_status = TPending, tr_memo = given (cp_memo p),
      tr_createTxid = None, tr_claimTxid = None, tr_cancelTxid = None,
      tr_claimableAfter = seconds_date (cp_claimableAfter p), tr_claimableUntil = seconds_date (cp_claimableUntil p)\<rparr>"

definition store_pending ::
    "tx_env \<Rightarrow> create_params \<Rightarrow> string \<Rightarrow> string \<Rightarrow> int \<Rightarrow> token_row \<Rightarrow> tx_db \<Rightarrow> unit result \<times> tx_db" where
  "store_pending env p transferPda poolPda amountRaw token db =
     (case find_or_ensure_pool env poolPda db of
        (Inl e, db1) \<Rightarrow> (Inl e, db1)
      | (Inr pool, db1) \<Rightarrow>
          (case persist_row env tr_pda (pending_row p transferPda amountRaw token pool) (db_transfers db1) of
             Inl e \<Rightarrow> (Inl e, db1)
           | Inr rows \<Rightarrow> (Inr (), db1\<lparr>db_transfers := rows\<rparr>)))"

definition buildCreateTransfer ::
    "tx_env \<Rightarrow> create_params \<Rightarrow> int \<Rightarrow> tx_db \<Rightarrow> create_response result \<times> tx_db" where
  "buildCreateTransfer env p now db =
     (case bind_result (new_PublicKey env (cp_sender p)) (\<lambda>sender.
           bind_result (new_PublicKey env (cp_recipient p)) (\<lambda>recipient.
           bind_result (create_pool_pda env p db) (\<lambda>poolPda.
             (case fetchPool (te_anchor env) poolPda of
                None \<Rightarrow> Inl (JsError ''POOL_NOT_FOUND'')
              | Some poolAccount \<Rightarrow> Inr (sender, recipient, poolPda, poolAccount))))) of
        Inl e \<Rightarrow> (Inl e, db)
      | Inr (sender, recipient, poolPda, poolAccount) \<Rightarrow>
          (case getOrCreateToken env (pl_mint poolAccount) db of
             (Inl e, db1) \<Rightarrow> (Inl e, db1)
           | (Inr token, db1) \<Rightarrow>
               (case bind_result (aw_bn (te_anchor env) (raw_number (cp_amount p) (tok_decimals token))) (\<lambda>amountRaw.
                     bind_result (aw_bn (te_anchor env) (num_of_int now)) (\<lambda>nonce.
                     bind_result (build_create_ix env p sender recipient poolPda nonce amountRaw) (\<lambda>(transferPda, tx).
                       Inr (amountRaw, nonce, transferPda, tx)))) of
                  Inl e \<Rightarrow> (Inl e, db1)
                | Inr (amountRaw, nonce, transferPda, tx) \<Rightarrow>
                    (case store_pending env p transferPda poolPda amountRaw token db1 of
                       (Inl e, db2) \<Rightarrow> (Inl e, db2)
                     | (Inr u, db2) \<Rightarrow>
                         (Inr \<lparr>cr_transaction = tx, cr_transferPda = transferPda, cr_nonce = nonce\<rparr>, db2)))))"

text \<open>\<open>buildClaimTransfer\<close> and \<open>buildCancelTransfer\<close>: a missing escrow account becomes a 404, every
  other error is thrown on (status 500; the model keeps its message).\<close>

definition service_error :: "js_error \<Rightarrow> http_error" where
  "service_error e = HttpError 500 ''Internal server error'' (err_message e)"

definition wrap_ix :: "tx_env \<Rightarrow> string \<Rightarrow> anchor_ix result \<Rightarrow> http_error + built_tx" where
  "wrap_ix env feePayer r =
     (case r of
        Inl e \<Rightarrow> Inl (if str_includes (err_message e) ''Transfer account not found''
                   then NotFound ''TRANSFER_NOT_FOUND'' (err_message e) else service_error e)
      | Inr ix \<Rightarrow>
          (case te_blockhash env of
             Inl e \<Rightarrow> Inl (service_error e)
           | Inr b \<Rightarrow> Inr \<lparr>bt_blockhash = b, bt_feePayer = feePayer, bt_ix = ix\<rparr>))"

definition buildClaimTransfer :: "tx_env \<Rightarrow> string \<Rightarrow> string \<Rightarrow> http_error + built_tx" where
  "buildClaimTransfer env claimer pda =
     (case bind_result (new_PublicKey env claimer) (\<lambda>recipient.
           bind_result (new_PublicKey env pda) (\<lambda>transferPda. Inr (recipient, transferPda))) of
        Inl e \<Rightarrow> Inl (service_error e)
      | Inr (recipient, transferPda) \<Rightarrow>
          wrap_ix env recipient (getClaimTransferIx (te_anchor env) recipient transferPda False))"

definition buildCancelTransfer :: "tx_env \<Rightarrow> string \<Rightarrow> string \<Rightarrow> http_error + built_tx" where
  "buildCancelTransfer env canceller pda =
     (case bind_result (new_PublicKey env canceller) (\<lambda>sender.
           bind_result (new_PublicKey env pda) (\<lambda>transferPda. Inr (sender, transferPda))) of
        Inl e \<Rightarrow> Inl (service_error e)
      | Inr (sender, transferPda) \<Rightarrow>
          wrap_ix env sender (getCancelTransferIx (te_anchor env) sender transferPda False))"

section \<open>Indexing a confirmed transaction\<close>

definition TERMINAL_MAP :: "transfer_status obj" where
  "TERMINAL_MAP = [(''ClaimTransfer'', TClaimed), (''CancelTransfer'', TCancelled), (''RejectTransfer'', TRejected),
     (''DeclineTransfer'', TDeclined), (''ExpireTransfer'', TExpired)]"

definition terminal_log :: "string \<Rightarrow> transfer_status option" where
  "terminal_log line = (case match_instruction line of None \<Rightarrow> None | Some name \<Rightarrow> get TERMINAL_MAP name)"

fun first_terminal :: "string list \<Rightarrow> transfer_status option" where
  "first_terminal [] = None"
| "first_terminal (line # lines) = (case terminal_log line of Some s \<Rightarrow> Some s | None \<Rightarrow> first_terminal lines)"

definition parseTerminalStatus :: "string list option \<Rightarrow> transfer_status option" where
  "parseTerminalStatus logs = (case logs of None \<Rightarrow> None | Some ls \<Rightarrow> first_terminal ls)"

definition STATUS_MAP :: "transfer_status obj" where
  "STATUS_MAP = [(''active'', TActive), (''claimed'', TClaimed), (''cancelled'', TCancelled), (''rejected'', TRejected),
     (''expired'', TExpired), (''declined'', TDeclined)]"

definition chain_status :: "transfer_chain \<Rightarrow> transfer_status" where
  "chain_status onChain =
     (case xc_status onChain of
        [] \<Rightarrow> TActive
      | key # _ \<Rightarrow> (case get STATUS_MAP key of None \<Rightarrow> TActive | Some s \<Rightarrow> s))"

definition decodeMemo_text :: "buffer \<Rightarrow> string" where
  "decodeMemo_text memo = toString_utf8 (filter (\<lambda>b. b \<noteq> 0) memo)"

definition bnToDate :: "tx_env \<Rightarrow> int \<Rightarrow> double option result" where
  "bnToDate env bn = bind_result (te_toNumber env bn) (\<lambda>val.
     Inr (if val = Fin 0 then None else Some (d_mul val (Fin 1000))))"

text \<open>A status change stamps the transaction that caused it.\<close>

definition stamp :: "transfer_status \<Rightarrow> string \<Rightarrow> transfer_row \<Rightarrow> transfer_row" where
  "stamp s txid r =
     (let r1 = r\<lparr>tr_status := s\<rparr>;
          r2 = (if s = TClaimed then r1\<lparr>tr_claimTxid := Some txid\<rparr> else r1)
      in if s = TCancelled then r2\<lparr>tr_cancelTxid := Some txid\<rparr> else r2)"

definition created_by :: "string \<Rightarrow> transfer_row \<Rightarrow> transfer_row" where
  "created_by txid r = (if given (tr_createTxid r) = None then r\<lparr>tr_createTxid := Some txid\<rparr> else r)"

definition human_amount :: "nat \<Rightarrow> nat \<Rightarrow> string" where
  "human_amount raw decimals = num_to_string (d_div (num_of_int (int raw)) (num_of_int (10 ^ decimals)))"

definition chain_row :: "tx_env \<Rightarrow> string \<Rightarrow> transfer_chain \<Rightarrow> string \<Rightarrow> pool_row \<Rightarrow> nat \<Rightarrow> transfer_row result" where
  "chain_row env pda onChain txid pool decimals =
     bind_result (bnToDate env (xc_claimableAfter onChain)) (\<lambda>after.
     bind_result (bnToDate env (xc_claimableUntil onChain)) (\<lambda>until.
       Inr \<lparr>tr_pda = pda, tr_sender = xc_sender onChain, tr_recipient = xc_recipient onChain,
            tr_amount = human_amount (xc_amount onChain) decimals, tr_amountRaw = nat_str (xc_amount onChain),
            tr_token = pool_token pool, tr_pool = pool_poolPda pool, tr_status = chain_status onChain,
            tr_memo = given (Some (decodeMemo_text (xc_memo onChain))), tr_createTxid = given (Some txid),
            tr_claimTxid = None, tr_cancelTxid = None, tr_claimableAfter = after, tr_claimableUntil = until\<rparr>))"

text \<open>The decimals of the pool's token, which the foreign key guarantees to exist.\<close>

definition pool_decimals :: "pool_row \<Rightarrow> tx_db \<Rightarrow> nat" where
  "pool_decimals pool db = (case find_row tok_mint (pool_token pool) (db_tokens db) of None \<Rightarrow> 0 | Some t \<Rightarrow> tok_decimals t)"

definition upsertTransfer :: "tx_env \<Rightarrow> string \<Rightarrow> transfer_chain \<Rightarrow> string \<Rightarrow> tx_db \<Rightarrow> unit result \<times> tx_db" where
  "upsertTransfer env pda onChain txid db =
     (case find_row tr_pda pda (db_transfers db) of
        Some r \<Rightarrow> (Inr (), db\<lparr>db_transfers :=
            change_rows tr_pda pda (\<lambda>r. stamp (chain_status onChain) txid (created_by txid r)) (db_transfers db)\<rparr>)
      | None \<Rightarrow>
          (case find_or_ensure_pool env (xc_pool onChain) db of
             (Inl e, db1) \<Rightarrow> (Inl e, db1)
           | (Inr pool, db1) \<Rightarrow>
               (case bind_result (chain_row env pda onChain txid pool (pool_decimals pool db1))
                       (\<lambda>row. persist_row env tr_pda row (db_transfers db1)) of
                  Inl e \<Rightarrow> (Inl e, db1)
                | Inr rows \<Rightarrow> (Inr (), db1\<lparr>db_transfers := rows\<rparr>))))"

text \<open>One account key; an exception is swallowed and the next key is tried.\<close>

definition index_key :: "tx_env \<Rightarrow> string \<Rightarrow> transfer_status option \<Rightarrow> tx_db \<Rightarrow> string \<Rightarrow> tx_db" where
  "index_key env txid terminal db key =
     (case fetchTransfer (te_anchor env) key of
        Some onChain \<Rightarrow> snd (upsertTransfer env key onChain txid db)
      | None \<Rightarrow>
          (case terminal of
             None \<Rightarrow> db
           | Some s \<Rightarrow> db\<lparr>db_transfers := change_rows tr_pda key (stamp s txid) (db_transfers db)\<rparr>))"

definition index_transfers :: "tx_env \<Rightarrow> string \<Rightarrow> tx_info \<Rightarrow> string list \<Rightarrow> tx_db \<Rightarrow> tx_db" where
  "index_transfers env txid ti keys db =
     foldl (index_key env txid (parseTerminalStatus (ti_logs ti))) db keys"

definition indexFromTx :: "tx_env \<Rightarrow> string \<Rightarrow> tx_db \<Rightarrow> tx_db" where
  "indexFromTx env txid db =
     (case te_getTransaction env txid of
        Inl e \<Rightarrow> db
      | Inr None \<Rightarrow> db
      | Inr (Some ti) \<Rightarrow>
          (case account_keys ti of
             None \<Rightarrow> db
           | Some keys \<Rightarrow>
               (let db1 = index_transfers env txid ti keys db
                in db1\<lparr>db_silk := indexSilkysigTx (te_silk env) txid ti (db_silk db1)\<rparr>)))"

definition send_tx :: "tx_env \<Rightarrow> string \<Rightarrow> string result" where
  "send_tx env signedTx =
     (case te_send_versioned env signedTx of Some txid \<Rightarrow> Inr txid | None \<Rightarrow> te_send_legacy env signedTx)"

definition submitSignedTx :: "tx_env \<Rightarrow> string \<Rightarrow> tx_db \<Rightarrow> string result \<times> tx_db" where
  "submitSignedTx env signedTx db =
     (case bind_result (send_tx env signedTx) (\<lambda>txid. bind_result (te_confirm env txid) (\<lambda>u. Inr txid)) of
        Inl e \<Rightarrow> (Inl e, db)
      | Inr txid \<Rightarrow> (Inr txid, indexFromTx env txid db))"

section \<open>Controllers\<close>

definition check_optional :: "tx_env \<Rightarrow> string option \<Rightarrow> string \<Rightarrow> http_error + unit" where
  "check_optional env val field =
     (case given val of
        None \<Rightarrow> Inr ()
      | Some v \<Rightarrow> (case validatePubkey (te_pk env) val field of Inl e \<Rightarrow> Inl e | Inr u \<Rightarrow> Inr ()))"

definition create_guard :: "tx_env \<Rightarrow> create_params \<Rightarrow> http_error option" where
  "create_guard env p =
     (case (validatePubkey (te_pk env) (Some (cp_sender p)) ''sender'',
            validatePubkey (te_pk env) (Some (cp_recipient p)) ''recipient'',
            check_optional env (cp_poolPda p) ''poolPda'', check_optional env (cp_mint p) ''mint'') of
        (Inl e, _) \<Rightarrow> Some e
      | (Inr _, Inl e, _) \<Rightarrow> Some e
      | (Inr _, Inr _, Inl e, _) \<Rightarrow> Some e
      | (Inr _, Inr _, Inr _, Inl e) \<Rightarrow> Some e
      | (Inr _, Inr _, Inr _, Inr _) \<Rightarrow>
          if \<not> d_truthy (cp_amount p) \<or> d_le (cp_amount p) (Fin 0)
          then Some (BadRequest ''INVALID_AMOUNT'' ''Amount must be positive'')
          else if given (cp_poolPda p) = None \<and> given (cp_mint p) = None \<and> given (cp_token p) = None
          then Some (BadRequest ''MISSING_FIELD'' ''Provide poolPda, mint, or token'')
          else None)"

definition createTransfer :: "tx_env \<Rightarrow> create_params \<Rightarrow> int \<Rightarrow> tx_db \<Rightarrow> (http_error + create_response) \<times> tx_db" where
  "createTransfer env p now db =
     (case create_guard env p of
        Some e \<Rightarrow> (Inl e, db)
      | None \<Rightarrow>
          (case buildCreateTransfer env p now db of
             (Inl e, db1) \<Rightarrow> (Inl (service_error e), db1)
           | (Inr r, db1) \<Rightarrow> (Inr r, db1)))"

definition submitTx :: "tx_env \<Rightarrow> string option \<Rightarrow> tx_db \<Rightarrow> (http_error + string) \<times> tx_db" where
  "submitTx env signedTx db =
     (case given signedTx of
        None \<Rightarrow> (Inl (BadRequest ''MISSING_TX'' ''signedTx is required''), db)
      | Some tx \<Rightarrow>
          (case submitSignedTx env tx db of
             (Inl e, db1) \<Rightarrow> (Inl (BadRequest ''TX_FAILED'' (err_message e)), db1)
           | (Inr txid, db1) \<Rightarrow> (Inr txid, db1)))"

definition two_pubkeys :: "tx_env \<Rightarrow> string option \<Rightarrow> string \<Rightarrow> string option \<Rightarrow> string \<Rightarrow> http_error + string \<times> string" where
  "two_pubkeys env a fa b fb =
     (case validatePubkey (te_pk env) a fa of
        Inl e \<Rightarrow> Inl e
      | Inr x \<Rightarrow> (case validatePubkey (te_pk env) b fb of Inl e \<Rightarrow> Inl e | Inr y \<Rightarrow> Inr (x, y)))"

definition claimTransfer :: "tx_env \<Rightarrow> string option \<Rightarrow> string option \<Rightarrow> http_error + built_tx" where
  "claimTransfer env claimer transferPda =
     (case two_pubkeys env claimer ''claimer'' transferPda ''transferPda'' of
        Inl e \<Rightarrow> Inl e | Inr (c, t) \<Rightarrow> buildClaimTransfer env c t)"

definition cancelTransfer :: "tx_env \<Rightarrow> string option \<Rightarrow> string option \<Rightarrow> http_error + built_tx" where
  "cancelTransfer env canceller transferPda =
     (case two_pubkeys env canceller ''canceller'' transferPda ''transferPda'' of
        Inl e \<Rightarrow> Inl e | Inr (c, t) \<Rightarrow> buildCancelTransfer env c t)"

text \<open>Reading transfers: newest first, and an active transfer only while its escrow account exists.\<close>

definition findByWallet :: "string \<Rightarrow> tx_db \<Rightarrow> transfer_row list" where
  "findByWallet wallet db = rev (filter (\<lambda>r. tr_sender r = wallet \<or> tr_recipient r = wallet) (db_transfers db))"

definition listTransfers :: "tx_env \<Rightarrow> string option \<Rightarrow> tx_db \<Rightarrow> http_error + transfer_row list" where
  "listTransfers env wallet db =
     (case given wallet of
        None \<Rightarrow> Inl (BadRequest ''MISSING_WALLET'' ''wallet query param is required'')
      | Some w \<Rightarrow>
          (case te_pk env w of
             None \<Rightarrow> Inl (BadRequest ''INVALID_PUBKEY'' ''wallet is not a valid public key'')
           | Some k \<Rightarrow> Inr (findByWallet w db)))"

definition getTransfer :: "tx_env \<Rightarrow> string \<Rightarrow> tx_db \<Rightarrow> http_error + transfer_row" where
  "getTransfer env pda db =
     (case te_pk env pda of
        None \<Rightarrow> Inl (BadRequest ''INVALID_PUBKEY'' ''pda is not a valid public key'')
      | Some key \<Rightarrow>
          (case find_row tr_pda pda (db_transfers db) of
             None \<Rightarrow> Inl (NotFound ''NOT_FOUND'' ''Transfer not found'')
           | Some r \<Rightarrow>
               if tr_status r = TActive \<and> fetchTransfer (te_anchor env) key = None
               then Inl (NotFound ''NOT_FOUND'' ''Transfer not found'')
               else Inr r))"

section \<open>The invariant of the tables\<close>

interpretation tokens: row_store tok_mint "find_row tok_mint" add_row "change_rows tok_mint" "unique_on tok_mint"
  by (rule list_row_store)

interpretation pools: row_store pool_poolPda "find_row pool_poolPda" add_row "change_rows pool_poolPda" "unique_on pool_poolPda"
  by (rule list_row_store)

interpretation transfers: row_store tr_pda "find_row tr_pda" add_row "change_rows tr_pda" "unique_on tr_pda"
  by (rule list_row_store)

definition has_token :: "tx_db \<Rightarrow> string \<Rightarrow> bool" where
  "has_token db m \<longleftrightarrow> find_row tok_mint m (db_tokens db) \<noteq> None"

definition has_pool :: "tx_db \<Rightarrow> string \<Rightarrow> bool" where
  "has_pool db p \<longleftrightarrow> find_row pool_poolPda p (db_pools db) \<noteq> None"

definition tx_wf :: "tx_db \<Rightarrow> bool" where
  "tx_wf db \<longleftrightarrow> unique_on tok_mint (db_tokens db) \<and> unique_on pool_poolPda (db_pools db) \<and> unique_on tr_pda (db_transfers db)
     \<and> pools.all_rows (\<lambda>p. has_token db (pool_token p)) (db_pools db)
     \<and> transfers.all_rows (\<lambda>r. has_token db (tr_token r) \<and> has_pool db (tr_pool r)) (db_transfers db)
     \<and> silk_wf (db_silk db)"

text \<open>What no operation changes in a transfer, and what none changes once it is set.\<close>

definition terms_of :: "transfer_row \<Rightarrow> string list \<times> string option \<times> double option \<times> double option" where
  "terms_of r = ([tr_pda r, tr_sender r, tr_recipient r, tr_amount r, tr_amountRaw r, tr_token r, tr_pool r], tr_memo r,
     tr_claimableAfter r, tr_claimableUntil r)"

definition row_kept :: "transfer_row \<Rightarrow> transfer_row \<Rightarrow> bool" where
  "row_kept r r' \<longleftrightarrow> terms_of r' = terms_of r \<and> (given (tr_createTxid r) \<noteq> None \<longrightarrow> tr_createTxid r' = tr_createTxid r)"

definition grows :: "tx_db \<Rightarrow> tx_db \<Rightarrow> bool" where
  "grows db db' \<longleftrightarrow>
     (\<forall>k t. find_row tok_mint k (db_tokens db) = Some t \<longrightarrow> find_row tok_mint k (db_tokens db') = Some t)
   \<and> (\<forall>k p. find_row pool_poolPda k (db_pools db) = Some p \<longrightarrow> find_row pool_poolPda k (db_pools db') = Some p)
   \<and> (\<forall>k r. find_row tr_pda k (db_transfers db) = Some r \<longrightarrow>
        (\<exists>r'. find_row tr_pda k (db_transfers db') = Some r' \<and> row_kept r r'))"

definition sound_step :: "tx_db \<Rightarrow> tx_db \<Rightarrow> bool" where
  "sound_step db db' \<longleftrightarrow> (tx_wf db \<longrightarrow> tx_wf db' \<and> grows db db')"

lemma row_kept_refl [simp]: "row_kept r r"
  by (simp add: row_kept_def)

lemma row_kept_trans: "row_kept r r' \<Longrightarrow> row_kept r' r'' \<Longrightarrow> row_kept r r''"
  unfolding row_kept_def by auto

lemma grows_refl [simp]: "grows db db"
  by (auto simp: grows_def)

lemma grows_trans:
  assumes "grows a b" and "grows b c"
  shows "grows a c"
  unfolding grows_def
proof (intro conjI allI impI)
  fix k r assume "find_row tr_pda k (db_transfers a) = Some r"
  then obtain r' where "find_row tr_pda k (db_transfers b) = Some r'" "row_kept r r'"
    using assms(1) unfolding grows_def by blast
  then show "\<exists>r'. find_row tr_pda k (db_transfers c) = Some r' \<and> row_kept r r'"
    using assms(2) row_kept_trans unfolding grows_def by blast
qed (use assms in \<open>auto simp: grows_def\<close>)

lemma sound_refl [simp]: "sound_step db db"
  by (simp add: sound_step_def)

lemma sound_trans: "sound_step a b \<Longrightarrow> sound_step b c \<Longrightarrow> sound_step a c"
  unfolding sound_step_def using grows_trans by blast

lemma terms_stamp [simp]: "terms_of (stamp s txid r) = terms_of r" "tr_createTxid (stamp s txid r) = tr_createTxid r"
    "tr_pda (stamp s txid r) = tr_pda r" "tr_token (stamp s txid r) = tr_token r" "tr_pool (stamp s txid r) = tr_pool r"
  by (simp_all add: stamp_def terms_of_def Let_def)

lemma terms_created [simp]: "terms_of (created_by txid r) = terms_of r" "tr_pda (created_by txid r) = tr_pda r"
    "tr_token (created_by txid r) = tr_token r" "tr_pool (created_by txid r) = tr_pool r"
  by (simp_all add: created_by_def terms_of_def)

lemma created_kept: "given (tr_createTxid r) \<noteq> None \<Longrightarrow> created_by txid r = r"
  by (auto simp: created_by_def)

section \<open>Every operation keeps it\<close>

lemma persist_row_iff: "persist_row env key r rows = Inr rows' \<longleftrightarrow> find_row key (key r) rows = None \<and> rows' = add_row r rows"
  by (auto simp: persist_row_def)

text \<open>The three shapes of change.\<close>

lemma sound_add_token:
  assumes "find_row tok_mint (tok_mint t) (db_tokens db) = None"
  shows "sound_step db (db\<lparr>db_tokens := add_row t (db_tokens db)\<rparr>)"
  using assms unfolding sound_step_def tx_wf_def grows_def
  by (auto simp: tokens.inv_add tokens.lookup_add has_token_def has_pool_def pools.all_rows_def transfers.all_rows_def)

lemma sound_add_pool:
  assumes "find_row pool_poolPda (pool_poolPda p) (db_pools db) = None" and "has_token db (pool_token p)"
  shows "sound_step db (db\<lparr>db_pools := add_row p (db_pools db)\<rparr>)"
  using assms unfolding sound_step_def tx_wf_def grows_def
  by (auto simp: pools.inv_add pools.lookup_add has_token_def has_pool_def pools.all_rows_def transfers.all_rows_def)

lemma sound_add_transfer:
  assumes "find_row tr_pda (tr_pda r) (db_transfers db) = None" and "has_token db (tr_token r)" and "has_pool db (tr_pool r)"
  shows "sound_step db (db\<lparr>db_transfers := add_row r (db_transfers db)\<rparr>)"
  using assms unfolding sound_step_def tx_wf_def grows_def
  by (auto simp: transfers.inv_add transfers.lookup_add has_token_def has_pool_def pools.all_rows_def transfers.all_rows_def)

lemma sound_change_transfer:
  assumes "\<And>r. row_kept r (f r)"
  shows "sound_step db (db\<lparr>db_transfers := change_rows tr_pda k f (db_transfers db)\<rparr>)"
proof -
  have t: "terms_of (f r) = terms_of r" for r using assms by (simp add: row_kept_def)
  then have f: "tr_pda (f r) = tr_pda r" "tr_token (f r) = tr_token r" "tr_pool (f r) = tr_pool r" for r
    using t [of r] by (simp_all add: terms_of_def)
  have rows: "find_row tr_pda k' (change_rows tr_pda k f (db_transfers db))
      = (if k' = k then map_option f (find_row tr_pda k (db_transfers db)) else find_row tr_pda k' (db_transfers db))" for k'
    by (rule transfers.lookup_change) (rule f(1))
  show ?thesis
    unfolding sound_step_def tx_wf_def grows_def
    by (auto simp: rows f unique_on_change assms has_token_def has_pool_def pools.all_rows_def transfers.all_rows_def)
qed

lemma token_step:
  assumes "getOrCreateToken env mint db = (x, db')"
  shows "sound_step db db'" and "x = Inr t \<Longrightarrow> find_row tok_mint (tok_mint t) (db_tokens db') = Some t"
  using assms
  by (auto simp: getOrCreateToken_def Let_def persist_row_def tokens.lookup_add split: option.splits sum.splits
      intro!: sound_add_token dest: tokens.lookup_key)

lemma pool_step:
  assumes "find_or_ensure_pool env pda db = (x, db')" and "tx_wf db"
  shows "sound_step db db'" and "x = Inr p \<Longrightarrow> has_pool db' (pool_poolPda p) \<and> has_token db' (pool_token p)"
proof -
  have "sound_step db db' \<and> (x = Inr p \<longrightarrow> has_pool db' (pool_poolPda p) \<and> has_token db' (pool_token p))"
  proof (cases "find_row pool_poolPda pda (db_pools db)")
    case (Some q)
    then have "pool_poolPda q = pda" by (rule pools.lookup_key)
    then show ?thesis using assms Some
      by (auto simp: find_or_ensure_pool_def has_pool_def tx_wf_def pools.all_rows_def)
  next
    case None
    then have e: "ensurePool env pda db = (x, db')" using assms(1) by (simp add: find_or_ensure_pool_def)
    show ?thesis
    proof (cases "\<exists>k c t db1. new_PublicKey env pda = Inr k \<and> fetchPool (te_anchor env) k = Some c
        \<and> getOrCreateToken env (pl_mint c) db = (Inr t, db1)")
      case True
      then obtain k c t db1 where k: "new_PublicKey env pda = Inr k" "fetchPool (te_anchor env) k = Some c"
        and g: "getOrCreateToken env (pl_mint c) db = (Inr t, db1)" by blast
      note ts = token_step [OF g]
      define pl where "pl = \<lparr>pool_poolId = pl_poolId c, pool_poolPda = pda, pool_operatorKey = pl_operator c,
        pool_token = tok_mint t, pool_feeBps = pl_feeBps c, pool_isPaused = pl_isPaused c\<rparr>"
      have t: "has_token db1 (pool_token pl)" using ts(2) [of t] by (simp add: pl_def has_token_def)
      have "(x = Inl (JsError (te_db_error env)) \<and> db' = db1)
          \<or> (x = Inr pl \<and> find_row pool_poolPda (pool_poolPda pl) (db_pools db1) = None
             \<and> db' = db1\<lparr>db_pools := add_row pl (db_pools db1)\<rparr>)"
        using e k g by (auto simp: ensurePool_def Let_def persist_row_def pl_def split: if_splits)
      then show ?thesis
        using ts(1) sound_trans [OF ts(1) sound_add_pool [OF _ t]] t
        by (auto simp: has_pool_def has_token_def pools.lookup_add pl_def)
    next
      case False
      then show ?thesis using e False token_step(1)
        by (auto simp: ensurePool_def split: sum.splits option.splits prod.splits)
    qed
  qed
  then show "sound_step db db'" "x = Inr p \<Longrightarrow> has_pool db' (pool_poolPda p) \<and> has_token db' (pool_token p)" by auto
qed


lemma stamp_kept: "row_kept r (stamp s txid r)" "row_kept r (stamp s txid (created_by txid r))"
  using created_kept [of r txid] by (auto simp: row_kept_def)

lemma upsert_step:
  assumes "upsertTransfer env pda c txid db = (x, db')"
  shows "sound_step db db'"
proof (cases "find_row tr_pda pda (db_transfers db)")
  case (Some r)
  then have "db' = db\<lparr>db_transfers :=
      change_rows tr_pda pda (\<lambda>r. stamp (chain_status c) txid (created_by txid r)) (db_transfers db)\<rparr>"
    using assms by (simp add: upsertTransfer_def)
  then show ?thesis by (simp add: sound_change_transfer stamp_kept)
next
  case None
  obtain y db1 where p: "find_or_ensure_pool env (xc_pool c) db = (y, db1)" by force
  show ?thesis
  proof (cases "tx_wf db")
    case True
    note ps = pool_step [OF p True]
    show ?thesis
    proof (cases "db' = db1")
      case True
      with ps(1) show ?thesis by simp
    next
      case False
      then obtain pool row where y: "y = Inr pool"
        and row: "chain_row env pda c txid pool (pool_decimals pool db1) = Inr row"
        and fresh: "find_row tr_pda (tr_pda row) (db_transfers db1) = None"
        and db': "db' = db1\<lparr>db_transfers := add_row row (db_transfers db1)\<rparr>"
        using assms None p by (auto simp: upsertTransfer_def bind_result_def persist_row_def split: sum.splits if_splits)
      have "tr_token row = pool_token pool" "tr_pool row = pool_poolPda pool"
        using row by (auto simp: chain_row_def bind_result_def split: sum.splits)
      then have "sound_step db1 db'"
        using ps(2) [OF y] fresh db' by (simp add: sound_add_transfer)
      with ps(1) show ?thesis by (rule sound_trans)
    qed
  qed (simp add: sound_step_def)
qed

lemma sound_foldl: "(\<And>db x. sound_step db (f db x)) \<Longrightarrow> sound_step db (foldl f db xs)"
  by (induction xs arbitrary: db) (auto intro: sound_trans)

lemma index_key_step: "sound_step db (index_key env txid s db key)"
  unfolding index_key_def
  by (auto split: option.split intro: sound_change_transfer stamp_kept upsert_step [OF surjective_pairing])

lemma silk_step: "sound_step db (db\<lparr>db_silk := indexSilkysigTx f txid ti (db_silk db)\<rparr>)"
  using silk_index_step unfolding sound_step_def tx_wf_def grows_def has_token_def has_pool_def
  by (fastforce simp: pools.all_rows_def transfers.all_rows_def)

lemma index_step: "sound_step db (indexFromTx env txid db)"
proof (cases "te_getTransaction env txid")
  case (Inr t)
  show ?thesis
  proof (cases t)
    case (Some ti)
    have "sound_step db (index_transfers env txid ti keys db)" for keys
      unfolding index_transfers_def by (rule sound_foldl) (rule index_key_step)
    then show ?thesis
      by (auto simp: indexFromTx_def Inr Some Let_def split: option.split intro: sound_trans silk_step)
  qed (simp add: indexFromTx_def Inr)
qed (simp add: indexFromTx_def)

lemma submit_step: "submitTx env tx db = (x, db') \<Longrightarrow> sound_step db db'"
  by (auto simp: submitTx_def submitSignedTx_def index_step split: option.splits sum.splits prod.splits)

lemma pending_step:
  assumes "store_pending env p pda poolPda raw token db = (x, db')" and "has_token db (tok_mint token)"
  shows "sound_step db db'"
proof (cases "tx_wf db")
  case True
  obtain y db1 where q: "find_or_ensure_pool env poolPda db = (y, db1)" by force
  note ps = pool_step [OF q True]
  show ?thesis
  proof (cases "db' = db1")
    case True
    with ps(1) show ?thesis by simp
  next
    case False
    then obtain pool where y: "y = Inr pool"
      and fresh: "find_row tr_pda (tr_pda (pending_row p pda raw token pool)) (db_transfers db1) = None"
      and db': "db' = db1\<lparr>db_transfers := add_row (pending_row p pda raw token pool) (db_transfers db1)\<rparr>"
      using assms(1) q by (auto simp: store_pending_def persist_row_def split: sum.splits if_splits)
    have "has_token db1 (tok_mint token)"
      using ps(1) True assms(2) unfolding sound_step_def grows_def has_token_def by blast
    then have "sound_step db1 db'"
      using ps(2) [OF y] fresh db' by (simp add: sound_add_transfer pending_row_def)
    with ps(1) show ?thesis by (rule sound_trans)
  qed
qed (simp add: sound_step_def)

lemma build_step:
  assumes "buildCreateTransfer env p now db = (x, db')"
  shows "sound_step db db'"
proof (cases "db' = db")
  case False
  then obtain m where "\<exists>y db1. getOrCreateToken env m db = (y, db1) \<and>
      (db' = db1 \<or> (\<exists>token z pda poolPda raw. y = Inr token \<and> store_pending env p pda poolPda raw token db1 = (z, db')))"
    using assms unfolding buildCreateTransfer_def by (fastforce split: sum.splits prod.splits)
  then obtain y db1 where g: "getOrCreateToken env m db = (y, db1)"
    and c: "db' = db1 \<or> (\<exists>token z pda poolPda raw. y = Inr token \<and> store_pending env p pda poolPda raw token db1 = (z, db'))"
    by blast
  note ts = token_step [OF g]
  from c show ?thesis
  proof
    assume "\<exists>token z pda poolPda raw. y = Inr token \<and> store_pending env p pda poolPda raw token db1 = (z, db')"
    then obtain token z pda poolPda raw where "y = Inr token" "store_pending env p pda poolPda raw token db1 = (z, db')" by blast
    then have "sound_step db1 db'" using ts(2) by (intro pending_step) (auto simp: has_token_def)
    with ts(1) show ?thesis by (rule sound_trans)
  qed (use ts in simp)
qed simp

lemma create_step: "createTransfer env p now db = (x, db') \<Longrightarrow> sound_step db db'"
  by (auto simp: createTransfer_def split: option.splits sum.splits prod.splits dest: build_step)


section \<open>Properties of the store\<close>

text \<open>The requests that write: each with the answers of the chain at its time.\<close>

inductive tx_step :: "tx_db \<Rightarrow> tx_db \<Rightarrow> bool" where
  Create: "createTransfer env p now db = (x, db') \<Longrightarrow> tx_step db db'"
| Submit: "submitTx env tx db = (x, db') \<Longrightarrow> tx_step db db'"

inductive_cases tx_stepE: "tx_step db db'"

definition empty_tx_db :: tx_db where
  "empty_tx_db = \<lparr>db_tokens = [], db_pools = [], db_transfers = [], db_silk = empty_silk_db\<rparr>"

lemma tx_steps_sound: "tx_step\<^sup>*\<^sup>* db db' \<Longrightarrow> sound_step db db'"
proof (induction rule: rtranclp_induct)
  case (step y z)
  have "sound_step y z" using step.hyps(2) by (rule tx_stepE) (auto dest: create_step submit_step)
  with step.IH show ?case by (rule sound_trans)
qed simp

lemma empty_tx_wf: "tx_wf empty_tx_db"
  by (simp add: tx_wf_def empty_tx_db_def empty_silk_db_def silk_wf_def unique_on_def pools.all_rows_def transfers.all_rows_def)

text \<open>C19. Whatever requests create and submit transfers, in whatever order and whatever the chain
  answers: mints, pools and transfer addresses stay unique; every pool has its token and every transfer
  its token and pool; no token, pool or transfer disappears; a transfer never changes its sender,
  recipient, amounts, token, pool, memo and dates, nor its creating transaction once that is set.\<close>

theorem tx_store_invariant:
  assumes "tx_step\<^sup>*\<^sup>* empty_tx_db db" and "tx_step\<^sup>*\<^sup>* db db'"
  shows "tx_wf db \<and> grows db db'"
  using tx_steps_sound [OF assms(1)] tx_steps_sound [OF assms(2)] empty_tx_wf by (simp add: sound_step_def)

section \<open>What indexing does to one transfer\<close>

text \<open>The row of a referenced transfer after a transaction has been indexed, by the code's own steps.\<close>

definition indexed_row :: "tx_env \<Rightarrow> string \<Rightarrow> tx_info \<Rightarrow> transfer_row \<Rightarrow> transfer_row" where
  "indexed_row env txid ti r =
     (case fetchTransfer (te_anchor env) (tr_pda r) of
        Some onChain \<Rightarrow> stamp (chain_status onChain) txid (created_by txid r)
      | None \<Rightarrow> (case parseTerminalStatus (ti_logs ti) of None \<Rightarrow> r | Some s \<Rightarrow> stamp s txid r))"

lemma stamp_idem: "stamp s txid (stamp s txid r) = stamp s txid r"
  by (simp add: stamp_def Let_def)

lemma stamp_created: "created_by txid (stamp s txid r) = stamp s txid (created_by txid r)"
  by (simp add: created_by_def stamp_def Let_def)

lemma created_idem: "txid \<noteq> [] \<Longrightarrow> created_by txid (created_by txid r) = created_by txid r"
  by (auto simp: created_by_def given_def split: option.split)

lemma indexed_row_idem: "txid \<noteq> [] \<Longrightarrow> indexed_row env txid ti (indexed_row env txid ti r) = indexed_row env txid ti r"
  by (auto simp: indexed_row_def stamp_idem stamp_created created_idem split: option.split)

lemma pool_transfers: "find_or_ensure_pool env pda db = (x, db') \<Longrightarrow> db_transfers db' = db_transfers db"
  by (auto simp: find_or_ensure_pool_def ensurePool_def getOrCreateToken_def Let_def
      split: option.splits sum.splits prod.splits)

lemma upsert_row:
  assumes "find_row tr_pda k (db_transfers db) = Some r"
  shows "find_row tr_pda k (db_transfers (snd (upsertTransfer env pda c txid db)))
    = Some (if k = pda then stamp (chain_status c) txid (created_by txid r) else r)"
proof (cases "find_row tr_pda pda (db_transfers db)")
  case (Some q)
  then show ?thesis using assms by (cases "k = pda") (auto simp: upsertTransfer_def transfers.lookup_change)
next
  case None
  then have k: "k \<noteq> pda" using assms by auto
  obtain y db1 where p: "find_or_ensure_pool env (xc_pool c) db = (y, db1)" by force
  have row: "tr_pda row = pda" if "chain_row env pda c txid pool d = Inr row" for pool d row
    using that by (auto simp: chain_row_def bind_result_def split: sum.splits)
  show ?thesis
    using None assms k p pool_transfers [OF p]
    by (auto simp: upsertTransfer_def persist_row_def bind_result_def transfers.lookup_add dest!: row split: sum.split)
qed

lemma index_key_row:
  assumes "find_row tr_pda k (db_transfers db) = Some r"
  shows "find_row tr_pda k (db_transfers (index_key env txid (parseTerminalStatus (ti_logs ti)) db key))
    = Some (if k = key then indexed_row env txid ti r else r)"
proof -
  have "tr_pda r = k" using assms by (rule transfers.lookup_key)
  then show ?thesis
    using assms upsert_row [OF assms]
    by (auto simp: index_key_def indexed_row_def transfers.lookup_change split: option.split)
qed

lemma index_transfers_row:
  assumes "txid \<noteq> []" and "find_row tr_pda k (db_transfers db) = Some r"
  shows "find_row tr_pda k (db_transfers (index_transfers env txid ti keys db))
    = Some (if k \<in> set keys then indexed_row env txid ti r else r)"
  unfolding index_transfers_def using assms(2)
proof (induction keys arbitrary: db r)
  case (Cons key keys)
  show ?case
    using Cons.IH [OF index_key_row [OF Cons.prems, of env txid ti key]]
    by (auto simp: indexed_row_idem [OF assms(1)])
qed simp

text \<open>The same, said without the code's functions: which instruction names end a transfer and how, what a list of
  log lines says (its first line that names such an instruction decides), what an escrow account
  says (the first key of its status), and what of a row changes.\<close>

definition ends_with :: "string \<Rightarrow> transfer_status \<Rightarrow> bool" where
  "ends_with name s \<longleftrightarrow>
     name = ''ClaimTransfer'' \<and> s = TClaimed \<or> name = ''CancelTransfer'' \<and> s = TCancelled
     \<or> name = ''RejectTransfer'' \<and> s = TRejected \<or> name = ''DeclineTransfer'' \<and> s = TDeclined
     \<or> name = ''ExpireTransfer'' \<and> s = TExpired"

definition logs_say :: "string list option \<Rightarrow> transfer_status \<Rightarrow> bool" where
  "logs_say logs s \<longleftrightarrow>
     (\<exists>before line after name. logs = Some (before @ [line] @ after) \<and> match_instruction line = Some name \<and> ends_with name s
        \<and> (\<forall>l \<in> set before. \<forall>n t. match_instruction l = Some n \<longrightarrow> \<not> ends_with n t))"

definition status_word :: "string \<Rightarrow> transfer_status \<Rightarrow> bool" where
  "status_word key s \<longleftrightarrow>
     key = ''active'' \<and> s = TActive \<or> key = ''claimed'' \<and> s = TClaimed \<or> key = ''cancelled'' \<and> s = TCancelled
     \<or> key = ''rejected'' \<and> s = TRejected \<or> key = ''declined'' \<and> s = TDeclined \<or> key = ''expired'' \<and> s = TExpired"

definition escrow_says :: "transfer_chain \<Rightarrow> transfer_status \<Rightarrow> bool" where
  "escrow_says c s \<longleftrightarrow>
     (\<exists>key keys. xc_status c = key # keys \<and> status_word key s)
     \<or> s = TActive \<and> (\<forall>key keys t. xc_status c = key # keys \<longrightarrow> \<not> status_word key t)"

definition row_with :: "transfer_status \<Rightarrow> string \<Rightarrow> transfer_row \<Rightarrow> transfer_row" where
  "row_with s txid r = r\<lparr>tr_status := s,
     tr_claimTxid := (if s = TClaimed then Some txid else tr_claimTxid r),
     tr_cancelTxid := (if s = TCancelled then Some txid else tr_cancelTxid r)\<rparr>"

lemma ends_with_get: "ends_with n s \<longleftrightarrow> get TERMINAL_MAP n = Some s"
  by (cases s) (simp_all add: ends_with_def TERMINAL_MAP_def get_def)

lemma terminal_log_ends: "terminal_log line = Some s \<longleftrightarrow> (\<exists>n. match_instruction line = Some n \<and> ends_with n s)"
  by (cases "match_instruction line") (simp_all add: terminal_log_def ends_with_get)

lemma terminal_log_none: "terminal_log line = None \<longleftrightarrow> (\<forall>n t. match_instruction line = Some n \<longrightarrow> \<not> ends_with n t)"
  using terminal_log_ends [of line] by (metis not_None_eq)

lemma first_terminal_split:
  "first_terminal ls = Some s \<longleftrightarrow>
    (\<exists>before line after. ls = before @ [line] @ after \<and> terminal_log line = Some s \<and> (\<forall>l \<in> set before. terminal_log l = None))"
proof (induction ls)
  case (Cons line ls)
  show ?case (is "?f = (\<exists>b l a. ?P b l a)")
  proof (cases "terminal_log line")
    case None
    have "(\<exists>b l a. ?P b l a) \<longleftrightarrow>
        (\<exists>b l a. ls = b @ [l] @ a \<and> terminal_log l = Some s \<and> (\<forall>l \<in> set b. terminal_log l = None))" (is "_ \<longleftrightarrow> ?r")
    proof
      assume "\<exists>b l a. ?P b l a"
      then obtain b l a where p: "?P b l a" by blast
      with None obtain b' where "b = line # b'" by (cases b) auto
      with p show ?r by auto
    next
      assume ?r
      then obtain b l a where "ls = b @ [l] @ a" "terminal_log l = Some s" "\<forall>l \<in> set b. terminal_log l = None" by blast
      with None show "\<exists>b l a. ?P b l a" by (intro exI [of _ "line # b"]) auto
    qed
    then show ?thesis using Cons.IH None by simp
  next
    case (Some t)
    have "(\<exists>b l a. ?P b l a) \<longleftrightarrow> t = s"
    proof
      assume "\<exists>b l a. ?P b l a"
      then obtain b l a where p: "?P b l a" by blast
      with Some have "b = []" by (cases b) auto
      with p Some show "t = s" by simp
    next
      assume "t = s"
      with Some have "?P [] line ls" by simp
      then show "\<exists>b l a. ?P b l a" by blast
    qed
    then show ?thesis using Some by simp
  qed
qed simp

lemma logs_say_computed: "logs_say logs s \<longleftrightarrow> parseTerminalStatus logs = Some s"
proof (cases logs)
  case (Some ls)
  have "logs_say logs s \<longleftrightarrow> first_terminal ls = Some s"
    unfolding first_terminal_split logs_say_def terminal_log_none terminal_log_ends Some option.inject by metis
  then show ?thesis by (simp add: Some parseTerminalStatus_def)
qed (simp add: logs_say_def parseTerminalStatus_def)

lemma status_word_get: "status_word key s \<longleftrightarrow> get STATUS_MAP key = Some s"
  by (cases s) (simp_all add: status_word_def STATUS_MAP_def get_def)

lemma escrow_says_computed: "escrow_says c (chain_status c)"
  by (cases "xc_status c") (auto simp: escrow_says_def chain_status_def status_word_get split: option.split)

lemma row_with_stamp: "stamp s txid r = row_with s txid r"
  by (simp add: stamp_def row_with_def Let_def)

text \<open>C30. What indexing a transaction does to a stored transfer: nothing when its address is not among
  the account keys; otherwise, while the escrow account exists, it takes the account's status, and the
  transaction becomes the creating one if none was recorded; once the account is gone, it takes the status of the first
  terminal instruction named in the logs, of whatever program and for whichever account, and nothing
  changes when there is none. A claim or a cancellation is recorded with the transaction; every other
  field stays.\<close>

theorem index_row_exact:
  assumes "te_getTransaction env txid = Inr (Some ti)" and "account_keys ti = Some keys" and "txid \<noteq> []"
    and "find_row tr_pda k (db_transfers db) = Some r"
  shows "\<exists>r'. find_row tr_pda k (db_transfers (indexFromTx env txid db)) = Some r'
    \<and> (k \<notin> set keys \<longrightarrow> r' = r)
    \<and> (\<forall>c. k \<in> set keys \<and> fetchTransfer (te_anchor env) k = Some c \<longrightarrow>
         (\<exists>s. escrow_says c s \<and> r' = row_with s txid
            (r\<lparr>tr_createTxid := (if tr_createTxid r \<in> {None, Some []} then Some txid else tr_createTxid r)\<rparr>)))
    \<and> (\<forall>s. k \<in> set keys \<and> fetchTransfer (te_anchor env) k = None \<and> logs_say (ti_logs ti) s \<longrightarrow> r' = row_with s txid r)
    \<and> (k \<in> set keys \<and> fetchTransfer (te_anchor env) k = None \<and> (\<nexists>s. logs_say (ti_logs ti) s) \<longrightarrow> r' = r)"
proof -
  have k: "tr_pda r = k" using assms(4) by (rule transfers.lookup_key)
  have c: "created_by txid r = r\<lparr>tr_createTxid := (if tr_createTxid r \<in> {None, Some []} then Some txid else tr_createTxid r)\<rparr>"
    by (cases r) (auto simp: created_by_def given_def split: option.splits)
  show ?thesis
    using index_transfers_row [OF assms(3,4), of env ti keys] escrow_says_computed
    by (auto simp: indexFromTx_def assms(1,2) Let_def indexed_row_def k c row_with_stamp logs_say_computed split: option.splits)
qed

section \<open>The amount of a created transfer\<close>

lemma raw_number_near:
  assumes "0 < k" and "k < 2 ^ 50" and "d \<le> 15"
  shows "\<exists>y. raw_number (round64 (of_int k / 10 ^ d)) d = Fin y \<and> \<bar>y - of_int k\<bar> \<le> of_int k / 2 ^ 51"
proof -
  let ?x = "of_int k / 10 ^ d :: rat"
  have k: "(1 :: rat) \<le> of_int k" using assms(1) by simp
  have "(of_int k :: rat) < of_int (2 ^ 50)" using assms(2) by (simp only: of_int_less_iff)
  then have k50: "(of_int k :: rat) < 2 ^ 50" by simp
  have d: "(10 :: rat) ^ d \<le> 10 ^ 15" using assms(3) by (intro power_increasing) auto
  have big: "(2 :: rat) ^ 50 < 2 ^ 1000" "(2 :: rat) ^ 51 < 2 ^ 1000" by (simp_all add: power_strict_increasing)
  have small: "(2 powi (- 1022) :: rat) \<le> 2 powi (-60)" by (rule power_int_increasing) auto
  have x: "1 / 10 ^ 15 \<le> ?x"
    using k d by (simp add: frac_le)
  have "(2 powi (-60) :: rat) \<le> 1 / 10 ^ 15" by (simp add: power_int_minus)
  then have lo: "2 powi (- 1022) \<le> ?x" using small x by linarith
  have "?x \<le> of_int k" using k by (simp add: divide_le_eq mult_le_cancel_left1)
  then have hi: "?x < 2 ^ 1000" using k50 big by linarith
  obtain y1 where y1: "round64 ?x = Fin y1" "0 \<le> y1" and e1: "\<bar>y1 - ?x\<bar> \<le> ?x / 2 ^ 53"
    using round64_pos [OF lo hi] by blast
  let ?z = "y1 * 10 ^ d"
  have "\<bar>?z - of_int k\<bar> = \<bar>y1 - ?x\<bar> * 10 ^ d" by (simp add: abs_if field_simps)
  also have "\<dots> \<le> of_int k / 2 ^ 53" using e1 by (simp add: field_simps)
  finally have e2: "\<bar>?z - of_int k\<bar> \<le> of_int k / 2 ^ 53" .
  then have z: "1 / 2 \<le> ?z" "?z \<le> 2 * of_int k" using k unfolding abs_le_iff by (simp_all add: field_simps)
  have "(2 powi (-60) :: rat) \<le> 1 / 2" by (simp add: power_int_minus)
  then have lo': "2 powi (- 1022) \<le> ?z" using small z by linarith
  have hi': "?z < 2 ^ 1000" using z k50 big by simp
  obtain y where y: "round64 ?z = Fin y" and e3: "\<bar>y - ?z\<bar> \<le> ?z / 2 ^ 53"
    using round64_pos [OF lo' hi'] by blast
  have "(10 :: int) ^ d \<le> 10 ^ 15" using assms(3) by (intro power_increasing) auto
  then have "num_of_int (10 ^ d) = Fin (of_int (10 ^ d))" by (intro num_of_int_exact) auto
  then have "raw_number (round64 ?x) d = Fin y"
    by (simp add: raw_number_def d_mul_def y1 y)
  moreover have "\<bar>y - of_int k\<bar> \<le> of_int k / 2 ^ 51"
  proof -
    have "\<bar>y - of_int k\<bar> \<le> ?z / 2 ^ 53 + of_int k / 2 ^ 53" using e2 e3 by linarith
    also have "\<dots> \<le> (2 * of_int k) / 2 ^ 53 + of_int k / 2 ^ 53" using z by simp
    also have "\<dots> \<le> of_int k / 2 ^ 51" using k by (simp add: field_simps)
    finally show ?thesis .
  qed
  ultimately show ?thesis by blast
qed

lemma exponents:
  "exponent (1001 / 1000) = 0" "exponent (2254051613498933 * 10 ^ 6 / 2251799813685248) = 19"
  by code_simp+

lemma one_unit_lost: "\<exists>y. raw_number (round64 (1001 / 1000)) 6 = Fin y \<and> \<lfloor>y\<rfloor> = 1000999"
proof -
  have r: "round64 (1001 / 1000) = Fin (4508103226997866 / 2 ^ 52)"
    using round64_near [of "1001 / 1000" 0 4508103226997866] exponents by simp
  have m: "num_of_int 1000000 = Fin 1000000" using num_of_int_exact [of 1000000] by simp
  have "round64 (4508103226997866 / 2 ^ 52 * 10 ^ 6) = Fin (8598524526591999 / 2 ^ 33)"
    using round64_near [of "2254051613498933 * 10 ^ 6 / 2251799813685248" 19 8598524526591999] exponents by simp
  then have "raw_number (round64 (1001 / 1000)) 6 = Fin (8598524526591999 / 2 ^ 33)"
    by (simp add: raw_number_def r m d_mul_def)
  moreover have "\<lfloor>8598524526591999 / 2 ^ 33 :: rat\<rfloor> = 1000999" by (rule floor_unique) simp_all
  ultimately show ?thesis by blast
qed

text \<open>The base-unit amount of a created transfer is a floating-point product. For an amount of
  \<open>k\<close> base units below \<open>2^50\<close> the number handed to \<open>BN\<close> is off by less than one unit, so that its integer
  part is \<open>k\<close> or \<open>k - 1\<close>. The error does occur: the witness shows 1.001 tokens of six decimals losing one unit,
  where the exact conversion gives 1001000.\<close>

theorem create_amount_bounds:
  assumes "0 < k" and "k < 2 ^ 50" and "d \<le> 15"
  shows "\<exists>y. raw_number (round64 (of_int k / 10 ^ d)) d = Fin y \<and> \<lfloor>y\<rfloor> \<in> {k - 1, k}"
proof -
  obtain y where y: "raw_number (round64 (of_int k / 10 ^ d)) d = Fin y" "\<bar>y - of_int k\<bar> \<le> of_int k / 2 ^ 51"
    using raw_number_near [OF assms] by blast
  have "(of_int k :: rat) < of_int (2 ^ 50)" using assms(2) by (simp only: of_int_less_iff)
  then have "(of_int k / 2 ^ 51 :: rat) < 1" by simp
  then have "\<bar>y - of_int k\<bar> < 1" using y(2) by linarith
  then have "of_int (k - 1) < y" "y < of_int (k + 1)" by (auto simp: abs_less_iff)
  then have "\<lfloor>y\<rfloor> = k - 1 \<or> \<lfloor>y\<rfloor> = k" by linarith
  with y(1) show ?thesis by auto
qed

theorem create_amount_bounds_witness:
  "\<exists>y. raw_number (round64 (1001 / 1000)) 6 = Fin y \<and> \<lfloor>y\<rfloor> \<in> {1000999, 1001000} \<and> \<lfloor>y\<rfloor> \<noteq> 1001000"
  using create_amount_bounds [of 1001000 6] one_unit_lost by auto

section \<open>What a create request leaves\<close>

lemma store_pending_row:
  assumes "store_pending env p pda poolPda raw token db = (Inr u, db')"
  shows "find_row tr_pda pda (db_transfers db) = None
    \<and> (\<exists>pool. find_row tr_pda pda (db_transfers db') = Some (pending_row p pda raw token pool))"
proof -
  obtain x db1 where f: "find_or_ensure_pool env poolPda db = (x, db1)" by force
  have k: "tr_pda (pending_row p pda raw token pool) = pda" for pool by (simp add: pending_row_def)
  show ?thesis
    using assms f pool_transfers [OF f]
    by (auto simp: store_pending_def persist_row_def k transfers.lookup_add split: sum.splits if_splits)
qed

lemma token_kept:
  assumes "find_row tok_mint k (db_tokens db) = Some t" and "getOrCreateToken env m db = (x, db')"
  shows "find_row tok_mint k (db_tokens db') = Some t"
  using assms by (auto simp: getOrCreateToken_def Let_def persist_row_def find_row_add split: option.splits sum.splits if_splits)

lemma token_kept_store:
  assumes "store_pending env p pda poolPda raw token db = (x, db')" and "find_row tok_mint k (db_tokens db) = Some t"
  shows "find_row tok_mint k (db_tokens db') = Some t"
  using assms token_kept [OF assms(2)]
  by (auto simp: store_pending_def find_or_ensure_pool_def ensurePool_def Let_def
      split: option.splits sum.splits prod.splits)

lemma create_ix_shape:
  assumes "build_create_ix env p sender recipient pool nonce raw = Inr (pda, tx)"
  shows "bt_feePayer tx = sender \<and> (\<exists>args accounts. bt_ix tx = \<lparr>ax_method = ''createTransfer'',
      ax_args = [APub recipient, AInt nonce, AInt raw, AText (case cp_memo p of None \<Rightarrow> [] | Some m \<Rightarrow> m)] @ args,
      ax_accounts = [(''sender'', sender), (''pool'', pool)] @ accounts\<rparr>)"
  using assms by (auto simp: build_create_ix_def getCreateTransferIx_def bind_result_def Let_def split: sum.splits)

lemma create_consistent:
  assumes "createTransfer env p now db = (Inr r, db')"
  shows "\<exists>sender recipient pool raw token row args accounts.
     te_pk env (cp_sender p) = Some sender \<and> te_pk env (cp_recipient p) = Some recipient
   \<and> d_less (Fin 0) (cp_amount p)
   \<and> aw_bn (te_anchor env) (raw_number (cp_amount p) (tok_decimals token)) = Inr raw
   \<and> fetchPool (te_anchor env) pool \<noteq> None
   \<and> find_row tok_mint (tok_mint token) (db_tokens db') = Some token
   \<and> bt_feePayer (cr_transaction r) = sender
   \<and> bt_ix (cr_transaction r) = \<lparr>ax_method = ''createTransfer'',
        ax_args = [APub recipient, AInt (cr_nonce r), AInt raw, AText (case cp_memo p of None \<Rightarrow> [] | Some m \<Rightarrow> m)] @ args,
        ax_accounts = [(''sender'', sender), (''pool'', pool)] @ accounts\<rparr>
   \<and> find_row tr_pda (cr_transferPda r) (db_transfers db) = None
   \<and> find_row tr_pda (cr_transferPda r) (db_transfers db') = Some row
   \<and> tr_sender row = cp_sender p \<and> tr_recipient row = cp_recipient p \<and> tr_status row = TPending
   \<and> tr_amountRaw row = int_str raw \<and> tr_token row = tok_mint token \<and> tr_createTxid row = None"
proof -
  have g: "create_guard env p = None" and b: "buildCreateTransfer env p now db = (Inr r, db')"
    using assms by (auto simp: createTransfer_def split: option.splits sum.splits prod.splits)
  have amount: "d_less (Fin 0) (cp_amount p)"
    using g by (cases "cp_amount p")
      (auto simp: create_guard_def d_truthy_def d_le_def d_less_def split: sum.splits if_splits)
  obtain sender recipient pool c token db1 raw u
    where s: "te_pk env (cp_sender p) = Some sender" "te_pk env (cp_recipient p) = Some recipient"
      and c: "fetchPool (te_anchor env) pool = Some c"
      and t: "getOrCreateToken env (pl_mint c) db = (Inr token, db1)"
      and raw: "aw_bn (te_anchor env) (raw_number (cp_amount p) (tok_decimals token)) = Inr raw"
      and ix: "build_create_ix env p sender recipient pool (cr_nonce r) raw = Inr (cr_transferPda r, cr_transaction r)"
      and st: "store_pending env p (cr_transferPda r) pool raw token db1 = (Inr u, db')"
    using b by (auto simp: buildCreateTransfer_def bind_result_def new_PublicKey_def
        split: sum.splits option.splits prod.splits)
  have tr: "db_transfers db1 = db_transfers db" 
    using t by (auto simp: getOrCreateToken_def Let_def split: option.splits sum.splits)
  have k: "find_row tok_mint (tok_mint token) (db_tokens db') = Some token"
    using token_kept_store [OF st token_step(2) [OF t]] by simp
  obtain q where row: "find_row tr_pda (cr_transferPda r) (db_transfers db) = None"
      "find_row tr_pda (cr_transferPda r) (db_transfers db') = Some (pending_row p (cr_transferPda r) raw token q)"
    using store_pending_row [OF st] tr by auto
  obtain args accounts where i: "bt_feePayer (cr_transaction r) = sender"
      "bt_ix (cr_transaction r) = \<lparr>ax_method = ''createTransfer'',
        ax_args = [APub recipient, AInt (cr_nonce r), AInt raw, AText (case cp_memo p of None \<Rightarrow> [] | Some m \<Rightarrow> m)] @ args,
        ax_accounts = [(''sender'', sender), (''pool'', pool)] @ accounts\<rparr>"
    using create_ix_shape [OF ix] by blast
  show ?thesis
    by (intro exI [of _ sender] exI [of _ recipient] exI [of _ pool] exI [of _ raw] exI [of _ token] exI [of _ args]
          exI [of _ "pending_row p (cr_transferPda r) raw token q"] exI [of _ accounts])
      (simp add: s amount raw c k i row pending_row_def)
qed

text \<open>A create request that is answered with a transaction names two public keys and a positive
  amount; the transaction is paid by the sender and is one \<open>createTransfer\<close> instruction whose recipient,
  nonce, amount and memo are the request's, from the pool of the answer; its address was unused, and
  the database now has a pending row under it with the request's sender, recipient and amount, and
  the raw amount of the instruction.\<close>

theorem create_transfer_consistent:
  assumes "createTransfer env p now db = (Inr r, db')"
  shows "\<exists>sender recipient pool raw token row args accounts.
     te_pk env (cp_sender p) = Some sender \<and> te_pk env (cp_recipient p) = Some recipient
   \<and> d_less (Fin 0) (cp_amount p)
   \<and> aw_bn (te_anchor env) (raw_number (cp_amount p) (tok_decimals token)) = Inr raw
   \<and> fetchPool (te_anchor env) pool \<noteq> None
   \<and> find_row tok_mint (tok_mint token) (db_tokens db') = Some token
   \<and> bt_feePayer (cr_transaction r) = sender
   \<and> bt_ix (cr_transaction r) = \<lparr>ax_method = ''createTransfer'',
        ax_args = [APub recipient, AInt (cr_nonce r), AInt raw, AText (case cp_memo p of None \<Rightarrow> [] | Some m \<Rightarrow> m)] @ args,
        ax_accounts = [(''sender'', sender), (''pool'', pool)] @ accounts\<rparr>
   \<and> find_row tr_pda (cr_transferPda r) (db_transfers db) = None
   \<and> find_row tr_pda (cr_transferPda r) (db_transfers db') = Some row
   \<and> tr_sender row = cp_sender p \<and> tr_recipient row = cp_recipient p \<and> tr_status row = TPending
   \<and> tr_amountRaw row = int_str raw \<and> tr_token row = tok_mint token \<and> tr_createTxid row = None"
  using assms by (rule create_consistent)

section \<open>Witnesses\<close>

definition sample_world :: anchor_world where
  "sample_world = \<lparr>aw_pool = \<lambda>k. Inr \<lparr>pl_poolId = ''id'', pl_operator = ''op'', pl_mint = ''mint'', pl_feeBps = 0, pl_isPaused = False\<rparr>,
     aw_transfer = \<lambda>k. Inr None, aw_pda = \<lambda>seeds. ''pda'', aw_ata = \<lambda>m k p. ''ata'', aw_key = \<lambda>k. [],
     aw_nonce = \<lambda>n. Inr [], aw_bn = \<lambda>d. (case d of Fin q \<Rightarrow> Inr \<lfloor>q\<rfloor> | _ \<Rightarrow> Inl (JsError ''bn''))\<rparr>"

definition sample_ti :: tx_info where
  "sample_ti = \<lparr>ti_staticAccountKeys = Some [''mallory'', ''pda''], ti_accountKeys = None,
     ti_logs = Some [''Program log: Instruction: ClaimTransfer'', ''Program log: Instruction: CancelTransfer''], ti_pre = None, ti_post = None\<rparr>"

definition sample_tx_env :: tx_env where
  "sample_tx_env = \<lparr>te_anchor = sample_world, te_pk = Some, te_pk_error = ''pk'', te_db_error = ''db'', te_toNumber = \<lambda>i. Inr (num_of_int i),
     te_ilike = (=), te_blockhash = Inr ''hash'', te_send_versioned = Some, te_send_legacy = Inr, te_confirm = \<lambda>t. Inr (),
     te_getTransaction = \<lambda>t. Inr (Some sample_ti), te_silk = \<lambda>k. None\<rparr>"

definition sample_params :: create_params where
  "sample_params = \<lparr>cp_sender = ''alice'', cp_recipient = ''bob'', cp_amount = Fin 2, cp_mint = None, cp_poolPda = Some ''pool'',
     cp_token = None, cp_memo = None, cp_claimableAfter = None, cp_claimableUntil = None\<rparr>"

definition sample_token :: token_row where
  "sample_token = \<lparr>tok_mint = ''mint'', tok_name = ''Unknown'', tok_symbol = ''UNK'', tok_decimals = 6\<rparr>"

definition sample_pool :: pool_row where
  "sample_pool = \<lparr>pool_poolId = ''id'', pool_poolPda = ''pool'', pool_operatorKey = ''op'', pool_token = ''mint'',
     pool_feeBps = 0, pool_isPaused = False\<rparr>"

definition sample_db :: tx_db where
  "sample_db = \<lparr>db_tokens = [sample_token], db_pools = [sample_pool],
     db_transfers = [pending_row sample_params ''pda'' 2000000 sample_token sample_pool], db_silk = empty_silk_db\<rparr>"

lemma sample_numbers: "num_of_int 1000000 = Fin 1000000" "round64 2000000 = Fin 2000000" "round64 0 = Fin 0" "num_of_int 5 = Fin 5"
  using num_of_int_exact [of 1000000] num_of_int_exact [of 2000000] num_of_int_exact [of 5]
  by (simp_all add: num_of_int_def round64_def)

lemma sample_tx_env_simps [simp]:
  "te_anchor sample_tx_env = sample_world" "te_pk sample_tx_env = Some" "te_blockhash sample_tx_env = Inr ''hash''"
  "aw_pool sample_world k = Inr \<lparr>pl_poolId = ''id'', pl_operator = ''op'', pl_mint = ''mint'', pl_feeBps = 0, pl_isPaused = False\<rparr>"
  "aw_bn sample_world (Fin q) = Inr \<lfloor>q\<rfloor>" "aw_nonce sample_world n = Inr []" "aw_pda sample_world seeds = ''pda''"
  "new_PublicKey sample_tx_env s = Inr s"
  by (simp_all add: sample_tx_env_def sample_world_def new_PublicKey_def)

lemma sample_steps:
  "getOrCreateToken sample_tx_env ''mint'' empty_tx_db = (Inr sample_token, empty_tx_db\<lparr>db_tokens := [sample_token]\<rparr>)"
  "store_pending sample_tx_env sample_params ''pda'' ''pool'' 2000000 sample_token (empty_tx_db\<lparr>db_tokens := [sample_token]\<rparr>)
     = (Inr (), sample_db)"
  by (simp_all add: getOrCreateToken_def empty_tx_db_def Let_def persist_row_def sample_token_def add_row_def store_pending_def
      find_or_ensure_pool_def ensurePool_def fetchPool_def find_row_def sample_db_def sample_pool_def pending_row_def)

lemma sample_ix: "\<exists>tx. build_create_ix sample_tx_env sample_params ''alice'' ''bob'' ''pool'' 5 2000000 = Inr (''pda'', tx)"
  by (simp add: build_create_ix_def getCreateTransferIx_def findTransferPda_def bind_result_def or_zero_def sample_params_def Let_def)

lemma sample_guard: "create_guard sample_tx_env sample_params = None"
  by (simp add: create_guard_def validatePubkey_def check_optional_def given_def d_truthy_def d_le_def d_less_def sample_params_def)

lemma sample_create:
  obtains r where "createTransfer sample_tx_env sample_params 5 empty_tx_db = (Inr r, sample_db)"
proof -
  obtain tx where tx: "build_create_ix sample_tx_env sample_params ''alice'' ''bob'' ''pool'' 5 2000000 = Inr (''pda'', tx)"
    using sample_ix by blast
  have raw: "raw_number (cp_amount sample_params) (tok_decimals sample_token) = Fin 2000000"
    by (simp add: raw_number_def d_mul_def sample_params_def sample_token_def sample_numbers)
  have p: "cp_sender sample_params = ''alice''" "cp_recipient sample_params = ''bob''"
      "create_pool_pda sample_tx_env sample_params empty_tx_db = Inr ''pool''"
    by (simp_all add: sample_params_def create_pool_pda_def given_def)
  have "buildCreateTransfer sample_tx_env sample_params 5 empty_tx_db
      = (Inr \<lparr>cr_transaction = tx, cr_transferPda = ''pda'', cr_nonce = 5\<rparr>, sample_db)"
    by (simp add: buildCreateTransfer_def bind_result_def p fetchPool_def sample_steps raw sample_numbers tx)
  then show ?thesis using that by (simp add: createTransfer_def sample_guard)
qed

theorem create_transfer_consistent_witness:
  "\<exists>r row. createTransfer sample_tx_env sample_params 5 empty_tx_db = (Inr r, sample_db)
     \<and> find_row tr_pda (cr_transferPda r) (db_transfers sample_db) = Some row \<and> tr_status row = TPending \<and> tr_recipient row = ''bob''"
proof -
  obtain r where r: "createTransfer sample_tx_env sample_params 5 empty_tx_db = (Inr r, sample_db)" by (rule sample_create)
  from create_transfer_consistent [OF r] obtain row where
    "find_row tr_pda (cr_transferPda r) (db_transfers sample_db) = Some row" "tr_status row = TPending" "tr_recipient row = cp_recipient sample_params"
    by blast
  with r show ?thesis by (auto simp: sample_params_def)
qed

theorem tx_store_invariant_witness: "tx_wf sample_db \<and> grows sample_db (indexFromTx sample_tx_env ''tx'' sample_db)"
proof -
  obtain r where r: "createTransfer sample_tx_env sample_params 5 empty_tx_db = (Inr r, sample_db)" by (rule sample_create)
  then have "tx_step\<^sup>*\<^sup>* empty_tx_db sample_db" by (blast intro: tx_step.Create)
  moreover have "submitTx sample_tx_env (Some ''tx'') sample_db = (Inr ''tx'', indexFromTx sample_tx_env ''tx'' sample_db)"
    by (simp add: submitTx_def given_def submitSignedTx_def send_tx_def sample_tx_env_def bind_result_def)
  then have "tx_step\<^sup>*\<^sup>* sample_db (indexFromTx sample_tx_env ''tx'' sample_db)" by (blast intro: tx_step.Submit)
  ultimately show ?thesis by (rule tx_store_invariant)
qed

text \<open>Claimed, although the transaction cancels it later on: the first terminal instruction decides.\<close>

theorem index_row_exact_witness:
  "\<exists>r r'. find_row tr_pda ''pda'' (db_transfers sample_db) = Some r
     \<and> find_row tr_pda ''pda'' (db_transfers (indexFromTx sample_tx_env ''tx'' sample_db)) = Some r'
     \<and> r' = r\<lparr>tr_status := TClaimed, tr_claimTxid := Some ''tx''\<rparr>"
proof -
  let ?r = "pending_row sample_params ''pda'' 2000000 sample_token sample_pool"
  have row: "find_row tr_pda ''pda'' (db_transfers sample_db) = Some ?r"
    by (simp add: sample_db_def pending_row_def find_row_def)
  have t: "te_getTransaction sample_tx_env ''tx'' = Inr (Some sample_ti)" "account_keys sample_ti = Some [''mallory'', ''pda'']"
      "fetchTransfer (te_anchor sample_tx_env) ''pda'' = None"
    by (simp_all add: sample_tx_env_def sample_ti_def account_keys_def sample_world_def fetchTransfer_def)
  have "match_instruction (''Program log: Instruction: '' @ ''ClaimTransfer'') = Some ''ClaimTransfer''"
    by (rule match_instruction_line) (simp_all add: is_word_def code_def)
  then have says: "logs_say (ti_logs sample_ti) TClaimed"
    unfolding logs_say_def ends_with_def
    by (intro exI [of _ "[]"] exI [of _ "''Program log: Instruction: ClaimTransfer''"] exI [of _ "tl (the (ti_logs sample_ti))"] exI [of _ "''ClaimTransfer''"])
      (simp add: sample_ti_def)
  obtain r' where "find_row tr_pda ''pda'' (db_transfers (indexFromTx sample_tx_env ''tx'' sample_db)) = Some r'"
      "r' = row_with TClaimed ''tx'' ?r"
    using index_row_exact [OF t(1,2) _ row] t(3) says by auto
  then show ?thesis using row by (simp add: row_with_def)
qed

end
