(* ===== verification/Jupiter.thy ===== *)
theory Jupiter
  imports Doubles Bytes
begin

text \<open>
  The client of the Jupiter swap API (\<^verbatim>\<open>services/chains/solana/jupiter-client.ts\<close>): the two requests
  and the conversion of the answer to transaction instructions. The HTTP service, the parser of public
  keys and the base64 decoder are the parameter \<open>jup_env\<close>; the fields of a quote that are only passed
  back to the API (the route, the context slot, the time taken) are left out.
\<close>

record jupiter_quote =
  jq_inputMint :: string
  jq_outputMint :: string
  jq_inAmount :: string
  jq_outAmount :: string
  jq_otherAmountThreshold :: string
  jq_swapMode :: string
  jq_slippageBps :: int
  jq_priceImpactPct :: string

record jupiter_account =
  ja_pubkey :: string
  ja_isSigner :: bool
  ja_isWritable :: bool

record jupiter_ix =
  ji_programId :: string
  ji_accounts :: "jupiter_account list"
  ji_data :: string

record swap_response =
  sx_otherInstructions :: "jupiter_ix list option"
  sx_computeBudgetInstructions :: "jupiter_ix list option"
  sx_setupInstructions :: "jupiter_ix list option"
  sx_swapInstruction :: "jupiter_ix option"
  sx_addressLookupTableAddresses :: "string list option"
  sx_cleanupInstruction :: "jupiter_ix option"

text \<open>A \<open>TransactionInstruction\<close>: the program, the accounts with their flags, the data.\<close>

record tx_instruction =
  xi_programId :: string
  xi_keys :: "(string \<times> bool \<times> bool) list"
  xi_data :: buffer

record swap_instructions =
  sw_instructions :: "tx_instruction list"
  sw_addressLookupTableAddresses :: "string list"
  sw_outAmount :: string

text \<open>A request body: the quote, the signer, the wrapping flag and the fee mode.\<close>

record swap_request =
  sq_quoteResponse :: jupiter_quote
  sq_userPublicKey :: string
  sq_wrapUnwrapSOL :: bool
  sq_prioritizationFeeLamports :: string

record jup_env =
  je_apiKey :: string
  je_apiUrl :: string
  je_get :: "string \<Rightarrow> string obj \<Rightarrow> string obj \<Rightarrow> jupiter_quote result"
  je_post :: "string \<Rightarrow> swap_request \<Rightarrow> string obj \<Rightarrow> swap_response result"
  je_pk :: "string \<Rightarrow> string option"
  je_pk_error :: string
  je_base64 :: "string \<Rightarrow> buffer"

definition jupiter_headers :: "jup_env \<Rightarrow> string obj" where
  "jupiter_headers env =
     (''Content-Type'', ''application/json'') # (if je_apiKey env = [] then [] else [(''x-api-key'', je_apiKey env)])"

definition getQuote :: "jup_env \<Rightarrow> string \<Rightarrow> string \<Rightarrow> string \<Rightarrow> int \<Rightarrow> jupiter_quote result" where
  "getQuote env inputMint outputMint amount slippageBps =
     je_get env (je_apiUrl env @ ''/quote'')
       [(''inputMint'', inputMint), (''outputMint'', outputMint), (''amount'', amount), (''slippageBps'', int_str slippageBps)]
       (jupiter_headers env)"

definition jupiter_key :: "jup_env \<Rightarrow> string \<Rightarrow> string result" where
  "jupiter_key env s = (case je_pk env s of None \<Rightarrow> Inl (JsError (je_pk_error env)) | Some k \<Rightarrow> Inr k)"

fun map_result :: "('a \<Rightarrow> 'b result) \<Rightarrow> 'a list \<Rightarrow> 'b list result" where
  "map_result f [] = Inr []"
| "map_result f (x # xs) = bind_result (f x) (\<lambda>y. bind_result (map_result f xs) (\<lambda>ys. Inr (y # ys)))"

definition convertInstruction :: "jup_env \<Rightarrow> jupiter_ix \<Rightarrow> tx_instruction result" where
  "convertInstruction env ix =
     bind_result (jupiter_key env (ji_programId ix)) (\<lambda>program.
     bind_result (map_result (\<lambda>a. bind_result (jupiter_key env (ja_pubkey a)) (\<lambda>k.
          Inr (k, ja_isSigner a, ja_isWritable a))) (ji_accounts ix)) (\<lambda>keys.
       Inr \<lparr>xi_programId = program, xi_keys = keys, xi_data = je_base64 env (ji_data ix)\<rparr>))"

definition or_list :: "'a list option \<Rightarrow> 'a list" where
  "or_list x = (case x of None \<Rightarrow> [] | Some xs \<Rightarrow> xs)"

definition opt_list :: "'a option \<Rightarrow> 'a list" where
  "opt_list x = (case x of None \<Rightarrow> [] | Some y \<Rightarrow> [y])"

text \<open>The compute-budget instructions of the answer are not used.\<close>

definition getSwapInstructions :: "jup_env \<Rightarrow> jupiter_quote \<Rightarrow> string \<Rightarrow> swap_instructions result" where
  "getSwapInstructions env quote signer =
     bind_result (je_post env (je_apiUrl env @ ''/swap-instructions'')
         \<lparr>sq_quoteResponse = quote, sq_userPublicKey = signer, sq_wrapUnwrapSOL = True, sq_prioritizationFeeLamports = ''auto''\<rparr>
         (jupiter_headers env)) (\<lambda>data.
     bind_result (map_result (convertInstruction env)
         (or_list (sx_otherInstructions data) @ or_list (sx_setupInstructions data)
          @ opt_list (sx_swapInstruction data) @ opt_list (sx_cleanupInstruction data))) (\<lambda>ixs.
       Inr \<lparr>sw_instructions = ixs, sw_addressLookupTableAddresses = or_list (sx_addressLookupTableAddresses data),
            sw_outAmount = jq_outAmount quote\<rparr>))"

lemma map_result_Inr: "map_result f xs = Inr ys \<longleftrightarrow> list_all2 (\<lambda>x y. f x = Inr y) xs ys"
proof (induction xs arbitrary: ys)
  case (Cons x xs)
  show ?case
    by (cases "f x"; cases "map_result f xs") (auto simp: bind_result_def list_all2_Cons1 Cons.IH [symmetric])
qed (auto simp: list_all2_Nil)

lemma map_result_append:
  "map_result f (xs @ ys) = bind_result (map_result f xs) (\<lambda>us. bind_result (map_result f ys) (\<lambda>vs. Inr (us @ vs)))"
  by (induction xs) (auto simp: bind_result_def split: sum.split)

end
