(* ===== verification/Analyzer.thy ===== *)
theory Analyzer
  imports IntentV2 Jupiter Http
begin

text \<open>
  The analysis service of the backend (\<^verbatim>\<open>services/chains/solana/solana.analyzer.ts\<close>, the result types
  of \<^verbatim>\<open>services/intent/types.ts\<close>, \<^verbatim>\<open>intent-analyze.service.ts\<close> and the analyze route of
  \<^verbatim>\<open>intent.controller.ts\<close>): how well a transaction matches an intent, how risky it is, whether it can
  succeed, and the verdict. The answers of the chain during one analysis, of web3.js and of the
  swap API are the parameter \<open>sol_env\<close>; a field of an intent that is no string counts as absent.
\<close>

section \<open>Results\<close>

datatype verdict = Proceed | Caution | Reject

datatype match_level = MFull | MPartial | MNone

datatype risk_level = Low | Medium | High

datatype viability_level = Viable | Uncertain | Unviable

record match_dimension =
  md_level :: match_level
  md_discrepancies :: "string list"

record risk_dimension =
  rd_level :: risk_level
  rd_flags :: "risk_flag list"

record viability_dimension =
  vd_level :: viability_level
  vd_issues :: "string list"

record analyze_result =
  ar_verdict :: verdict
  ar_match :: match_dimension
  ar_risk :: risk_dimension
  ar_viability :: viability_dimension
  ar_raw :: tx_analysis

definition deriveVerdict :: "match_dimension \<Rightarrow> risk_dimension \<Rightarrow> viability_dimension \<Rightarrow> verdict" where
  "deriveVerdict m r v =
     (if md_level m = MNone \<or> rd_level r = High \<or> vd_level v = Unviable then Reject
      else if md_level m = MPartial \<or> rd_level r = Medium \<or> vd_level v = Uncertain then Caution
      else Proceed)"

section \<open>The request and the world\<close>

record token_ref =
  kr_tokenSymbol :: "string option"
  kr_token :: "string option"

text \<open>An intent with the fields of a swap that are neither text nor amounts.\<close>

record analyze_input =
  an_intent :: intent2
  an_tokenIn :: "token_ref option"
  an_tokenOut :: "token_ref option"
  an_slippage :: "double option"

record sol_env =
  sv_web3 :: web3
  sv_connection :: connection
  sv_pk_error :: string
  sv_getBalance :: "string \<Rightarrow> int result"
  sv_getMint :: "string \<Rightarrow> nat result"
  sv_ata :: "string \<Rightarrow> string \<Rightarrow> string"
  sv_tokenBalance :: "string \<Rightarrow> int result"
  sv_jupiter :: jup_env

definition sol_key :: "sol_env \<Rightarrow> string \<Rightarrow> string result" where
  "sol_key env s = (case pk_string (sv_web3 env) s of None \<Rightarrow> Inl (JsError (sv_pk_error env)) | Some k \<Rightarrow> Inr k)"

definition connection_options :: "sol_env \<Rightarrow> options" where
  "connection_options env = \<lparr>op_connection = Some (sv_connection env), op_config = None\<rparr>"

text \<open>The action of a single intent, when it is the given one.\<close>

definition action_is :: "string \<Rightarrow> intent2 \<Rightarrow> action_intent option" where
  "action_is name i =
     (case in_body i of Single a \<Rightarrow> if ac_action a = name then Some a else None | Compound as \<Rightarrow> None)"

definition SOL_MINT :: string where
  "SOL_MINT = ''So11111111111111111111111111111111111111112''"

section \<open>Tokens and amounts\<close>

record resolved_ref =
  rr_address :: string
  rr_decimals :: "nat option"

definition symbol_entry :: "string \<Rightarrow> string \<Rightarrow> string \<Rightarrow> (string \<times> nat) option" where
  "symbol_entry chain network symbol =
     (if symbol = ''SOL'' then Some (SOL_MINT, 9)
      else map_option (\<lambda>t. (ti_address t, ti_decimals t))
             (token_resolveSymbol (createTokenRegistry None) chain network symbol))"

definition no_token_text :: string where
  "no_token_text = ''Cannot read properties of undefined (reading '' @ quoted ''tokenSymbol'' @ '')''"

definition ref_symbol :: "token_ref \<Rightarrow> string option" where
  "ref_symbol r = truthy_string (map_option toUpperCase (kr_tokenSymbol r))"

definition ref_decimals :: "string \<Rightarrow> string \<Rightarrow> string \<Rightarrow> (string \<times> nat) option \<Rightarrow> nat option" where
  "ref_decimals chain network token fromSymbol =
     (case token_resolveAddress (createTokenRegistry None) chain network token of
        Some t \<Rightarrow> Some (ti_decimals t)
      | None \<Rightarrow> map_option snd fromSymbol)"

definition resolveSwapTokenRef :: "token_ref option \<Rightarrow> string \<Rightarrow> string \<Rightarrow> resolved_ref option result" where
  "resolveSwapTokenRef ref chain network =
     (case ref of
        None \<Rightarrow> Inl (JsError no_token_text)
      | Some r \<Rightarrow>
          let symbol = ref_symbol r;
              fromSymbol = (case symbol of None \<Rightarrow> None | Some s \<Rightarrow> symbol_entry chain network s)
          in if symbol \<noteq> None \<and> fromSymbol = None then Inr None
             else Inr (case (truthy_string (kr_token r), fromSymbol) of
                 (Some t, Some (a, d)) \<Rightarrow>
                   if a \<noteq> t then None
                   else Some \<lparr>rr_address = t, rr_decimals = ref_decimals chain network t fromSymbol\<rparr>
               | (Some t, None) \<Rightarrow> Some \<lparr>rr_address = t, rr_decimals = ref_decimals chain network t fromSymbol\<rparr>
               | (None, Some (a, d)) \<Rightarrow> Some \<lparr>rr_address = a, rr_decimals = Some d\<rparr>
               | (None, None) \<Rightarrow> None))"

definition resolveSwapTokenDecimals :: "sol_env \<Rightarrow> string \<Rightarrow> nat result" where
  "resolveSwapTokenDecimals env mint =
     (if mint = SOL_MINT then Inr 9 else bind_result (sol_key env mint) (sv_getMint env))"

definition resolveSwapAmountBaseUnits :: "sol_env \<Rightarrow> string \<Rightarrow> resolved_ref \<Rightarrow> int result" where
  "resolveSwapAmountBaseUnits env amount token =
     bind_result (case rr_decimals token of Some d \<Rightarrow> Inr d | None \<Rightarrow> resolveSwapTokenDecimals env (rr_address token))
       (toBaseUnits amount)"

definition tryRequireExactAmount :: "amount_constraint option \<Rightarrow> string option" where
  "tryRequireExactAmount amount = (case requireExactAmount amount of Inl e \<Rightarrow> None | Inr s \<Rightarrow> Some s)"

text \<open>\<open>Math.round\<close> of a finite number.\<close>

definition math_round :: "double \<Rightarrow> int" where
  "math_round x = (case x of Fin r \<Rightarrow> \<lfloor>r + 1 / 2\<rfloor> | _ \<Rightarrow> 0)"

definition valid_slippage :: "double \<Rightarrow> bool" where
  "valid_slippage s \<longleftrightarrow> d_isFinite s \<and> \<not> d_less s (Fin 0) \<and> \<not> d_less (Fin 1) s"

definition toSlippageBps :: "double option \<Rightarrow> int" where
  "toSlippageBps slippage =
     (case slippage of
        None \<Rightarrow> 10
      | Some s \<Rightarrow> if \<not> valid_slippage s then 10 else math_round (d_mul s (Fin 10000)))"

text \<open>\<open>(n / 1e9).toFixed(9)\<close>, which falls back to \<open>toString\<close> from \<open>1e21\<close> on.\<close>

definition sol9 :: "int \<Rightarrow> string" where
  "sol9 n =
     (case d_div (num_of_int n) (Fin (10 ^ 9)) of
        Fin r \<Rightarrow> if \<bar>r\<bar> < 10 ^ 21 then toFixed 9 r else num_to_string (Fin r)
      | x \<Rightarrow> num_to_string x)"

section \<open>Match\<close>

record native_check =
  nc_matched :: bool
  nc_discrepancies :: "string list"

definition calls_program :: "tx_analysis \<Rightarrow> string \<Rightarrow> bool" where
  "calls_program raw p \<longleftrightarrow> list_ex (\<lambda>ix. ia_programId ix = p) (ta_instructions raw)"

text \<open>\<open>[...new Set(xs)]\<close>.\<close>

definition distinct_firsts :: "string list \<Rightarrow> string list" where
  "distinct_firsts xs = rev (remdups (rev xs))"

text \<open>\<open>ref.program ?? (ref.programName ? resolveProgramName(..)?.address : undefined)\<close>, empty text counted as missing.\<close>

definition check_address :: "intent2 \<Rightarrow> string \<Rightarrow> string \<Rightarrow> string option" where
  "check_address i chain network =
     truthy_string (case in_program i of
        Some p \<Rightarrow> Some p
      | None \<Rightarrow> (case truthy_string (in_programName i) of
            None \<Rightarrow> None
          | Some n \<Rightarrow> map_option pi_address (resolveProgramName chain network n)))"

definition opt_text :: "string option \<Rightarrow> string" where
  "opt_text x = (case x of None \<Rightarrow> ''undefined'' | Some s \<Rightarrow> s)"

definition program_mismatch :: "intent2 \<Rightarrow> string \<Rightarrow> string \<Rightarrow> string option" where
  "program_mismatch i chain network =
     (case (truthy_string (in_program i), truthy_string (in_programName i)) of
        (Some p, Some n) \<Rightarrow>
          if crossCheckProgram chain network n p then None
          else Some (''Program mismatch: '' @ quoted n @ '' does not match '' @ quoted p @ '' on '' @ chain @ '':'' @ network)
      | _ \<Rightarrow> None)"

definition applyProgramChecks :: "intent2 \<Rightarrow> tx_analysis \<Rightarrow> string \<Rightarrow> string \<Rightarrow> string list" where
  "applyProgramChecks i raw chain network =
     (if truthy_string (in_program i) = None \<and> truthy_string (in_programName i) = None then []
      else case program_mismatch i chain network of
        Some d \<Rightarrow> [d]
      | None \<Rightarrow>
          if in_programName i = Some ''native'' \<and> truthy_string (in_program i) = None then
            (if calls_program raw SYSTEM_PROGRAM \<or> calls_program raw TOKEN_PROGRAM then []
             else [''Expected a native Solana transfer instruction, but none was found''])
          else case check_address i chain network of
            None \<Rightarrow> [''Unknown programName '' @ quoted (opt_text (in_programName i)) @ '' on '' @ chain @ '':'' @ network]
          | Some p \<Rightarrow>
              if calls_program raw p then []
              else [''Expected a call to program '' @ quoted p @ '' but transaction uses: ''
                    @ join '', '' (distinct_firsts (map ia_programId (ta_instructions raw)))])"

definition matchesAction :: "string \<Rightarrow> string option \<Rightarrow> bool" where
  "matchesAction action ixType =
     (case ixType of
        None \<Rightarrow> False
      | Some t \<Rightarrow> t \<noteq> [] \<and> (t = action \<or> (action = ''transfer'' \<and> (t = ''create_transfer'' \<or> t = ''transfer_checked''))
          \<or> (action = ''swap'' \<and> t = ''swap'')))"

definition inferMatchLevel :: "intent2 \<Rightarrow> tx_analysis \<Rightarrow> bool \<Rightarrow> match_level" where
  "inferMatchLevel i raw hadMatchSignal =
     (if hadMatchSignal then MPartial
      else case in_body i of
        Compound as \<Rightarrow> MNone
      | Single a \<Rightarrow>
          if list_ex (\<lambda>ix. matchesAction (ac_action a) (ia_type ix)) (ta_instructions raw) then MPartial else MNone)"

definition instructionMentionsAddress :: "tx_analysis \<Rightarrow> string \<Rightarrow> bool" where
  "instructionMentionsAddress raw adr \<longleftrightarrow>
     list_ex (\<lambda>ix. list_ex (\<lambda>(k, v). v = JStr adr) (ia_params ix)) (ta_instructions raw)"

definition token_missing :: "string \<Rightarrow> resolved_ref option \<Rightarrow> tx_analysis \<Rightarrow> string list" where
  "token_missing what token raw =
     (case token of
        None \<Rightarrow> []
      | Some t \<Rightarrow> if instructionMentionsAddress raw (rr_address t) then []
                  else [what @ '' token '' @ rr_address t @ '' not found in transaction''])"

definition checkSwapMatch :: "analyze_input \<Rightarrow> tx_analysis \<Rightarrow> string \<Rightarrow> string \<Rightarrow> native_check result" where
  "checkSwapMatch i raw chain network =
     (case action_is ''swap'' (an_intent i) of
        None \<Rightarrow> Inr \<lparr>nc_matched = False, nc_discrepancies = []\<rparr>
      | Some a \<Rightarrow>
          let jupiter = (case map_option pi_address (resolveProgramName chain network ''jupiter'') of
                None \<Rightarrow> []
              | Some p \<Rightarrow> if calls_program raw p then [] else [''Transaction does not contain Jupiter program instructions''])
          in bind_result (resolveSwapTokenRef (an_tokenIn i) chain network) (\<lambda>tokenIn.
             bind_result (resolveSwapTokenRef (an_tokenOut i) chain network) (\<lambda>tokenOut.
               let ds = jupiter @ token_missing ''Input'' tokenIn raw @ token_missing ''Output'' tokenOut raw
               in Inr \<lparr>nc_matched = (ds = []), nc_discrepancies = ds\<rparr>)))"

section \<open>Direct transfers\<close>

text \<open>The mint of a transfer, or the issue that prevents resolving it.\<close>

definition resolveMintAddress :: "action_intent \<Rightarrow> string \<Rightarrow> string \<Rightarrow> string + string" where
  "resolveMintAddress a chain network =
     (case (truthy_string (get (ac_text a) ''token''), truthy_string (get (ac_text a) ''tokenSymbol'')) of
        (Some t, _) \<Rightarrow> Inr t
      | (None, None) \<Rightarrow> Inl ''Token transfer intent is missing token/tokenSymbol''
      | (None, Some s) \<Rightarrow>
          (case token_resolveSymbol (createTokenRegistry None) chain network (toUpperCase s) of
             None \<Rightarrow> Inl (''Could not resolve token symbol '' @ quoted s @ '' on '' @ chain @ '':'' @ network)
           | Some t \<Rightarrow> Inr (ti_address t)))"

text \<open>One transfer instruction: \<open>Some\<close> the answer that ends the search.\<close>

definition sol_transfer_matches :: "ix_analysis \<Rightarrow> string \<Rightarrow> string \<Rightarrow> string \<Rightarrow> bool result" where
  "sol_transfer_matches ix sender recipient amount =
     (if prop_of (ia_params ix) ''from'' = JStr sender \<and> prop_of (ia_params ix) ''to'' = JStr recipient
      then bind_result (toBaseUnits amount 9) (\<lambda>n. Inr (prop_of (ia_params ix) ''lamports'' = JStr (int_str n)))
      else Inr False)"

definition spl_transfer_matches :: "sol_env \<Rightarrow> ix_analysis \<Rightarrow> string \<Rightarrow> string \<Rightarrow> string \<Rightarrow> bool result" where
  "spl_transfer_matches env ix mintAddress recipient amount =
     bind_result (sol_key env mintAddress) (\<lambda>mint.
     bind_result (sv_getMint env mint) (\<lambda>decimals.
     bind_result (toBaseUnits amount decimals) (\<lambda>n.
     bind_result (sol_key env recipient) (\<lambda>owner.
       Inr (prop_of (ia_params ix) ''destination'' = JStr (sv_ata env mint owner)
          \<and> prop_of (ia_params ix) ''amount'' = JStr (int_str n))))))"

definition check_one_transfer ::
    "sol_env \<Rightarrow> action_intent \<Rightarrow> string \<Rightarrow> string \<Rightarrow> string \<Rightarrow> string \<Rightarrow> string \<Rightarrow> ix_analysis \<Rightarrow> native_check option result" where
  "check_one_transfer env a sender recipient amount chain network ix =
     (let found = (\<lambda>ok. Inr (if ok then Some \<lparr>nc_matched = True, nc_discrepancies = []\<rparr> else None)) in
      if ia_programId ix = SYSTEM_PROGRAM then bind_result (sol_transfer_matches ix sender recipient amount) found
      else if ia_programId ix = TOKEN_PROGRAM \<and> prop_of (ia_params ix) ''authority'' = JStr sender then
        (case resolveMintAddress a chain network of
           Inl issue \<Rightarrow> Inr (Some \<lparr>nc_matched = False, nc_discrepancies = [''Unable to verify SPL transfer target token mint'']\<rparr>)
         | Inr mintAddress \<Rightarrow> bind_result (spl_transfer_matches env ix mintAddress recipient amount) found)
      else Inr None)"

fun check_transfers :: "(ix_analysis \<Rightarrow> native_check option result) \<Rightarrow> ix_analysis list \<Rightarrow> native_check result" where
  "check_transfers check [] = Inr \<lparr>nc_matched = False, nc_discrepancies =
     [''Transaction transfer instruction did not match expected sender/recipient/amount for native transfer'']\<rparr>"
| "check_transfers check (ix # ixs) =
     bind_result (check ix) (\<lambda>r. case r of Some c \<Rightarrow> Inr c | None \<Rightarrow> check_transfers check ixs)"

definition is_transfer_ix :: "ix_analysis \<Rightarrow> bool" where
  "is_transfer_ix ix \<longleftrightarrow> ia_type ix = Some ''transfer'' \<or> ia_type ix = Some ''transfer_checked''"

definition checkNativeTransferFallback :: "sol_env \<Rightarrow> intent2 \<Rightarrow> tx_analysis \<Rightarrow> string \<Rightarrow> string \<Rightarrow> native_check result" where
  "checkNativeTransferFallback env i raw chain network =
     (case action_is ''transfer'' i of
        None \<Rightarrow> Inr \<lparr>nc_matched = False, nc_discrepancies = []\<rparr>
      | Some a \<Rightarrow>
          (case (get (ac_text a) ''from'', get (ac_text a) ''to'') of
             (Some sender, Some recipient) \<Rightarrow>
               if truthy_string (in_programName i) \<notin> {None, Some ''native''}
               then Inr \<lparr>nc_matched = False, nc_discrepancies = []\<rparr>
               else (case requireExactAmount (get (ac_amounts a) ''amount'') of
                  Inl e \<Rightarrow> Inr \<lparr>nc_matched = False, nc_discrepancies = [err_message e]\<rparr>
                | Inr amount \<Rightarrow>
                    let ixs = filter is_transfer_ix (ta_instructions raw)
                    in if ixs = [] then Inr \<lparr>nc_matched = False, nc_discrepancies = []\<rparr>
                       else check_transfers (check_one_transfer env a sender recipient amount chain network) ixs)
           | _ \<Rightarrow> Inr \<lparr>nc_matched = False, nc_discrepancies = [''Transfer intent is missing from/to addresses'']\<rparr>))"

section \<open>Risk\<close>

definition assessRisk :: "risk_flag list \<Rightarrow> risk_dimension" where
  "assessRisk flags =
     \<lparr>rd_level = (if list_ex (\<lambda>f. severity f = ErrorSev) flags then High
                  else if list_ex (\<lambda>f. severity f = Warning) flags then Medium else Low),
      rd_flags = flags\<rparr>"

definition impact_flag :: "severity \<Rightarrow> string \<Rightarrow> double \<Rightarrow> string \<Rightarrow> risk_flag" where
  "impact_flag sev c priceImpact what =
     \<lparr>severity = sev, fl_code = c, fl_message = ''Price impact '' @ num_to_string priceImpact @ ''%'' @ what, instructionIndex = None\<rparr>"

definition impact_flags :: "double \<Rightarrow> risk_flag list" where
  "impact_flags priceImpact =
     (if \<not> d_isFinite priceImpact then []
      else if d_less (Fin 5) priceImpact
      then [impact_flag ErrorSev ''HIGH_PRICE_IMPACT'' priceImpact '' exceeds 5% threshold'']
      else if d_less (Fin 1) priceImpact
      then [impact_flag Warning ''MODERATE_PRICE_IMPACT'' priceImpact '' exceeds 1% threshold'']
      else [])"

text \<open>The quote of a swap; every error is swallowed.\<close>

definition quoted_impact :: "sol_env \<Rightarrow> analyze_input \<Rightarrow> resolved_ref \<Rightarrow> resolved_ref \<Rightarrow> string \<Rightarrow> risk_flag list" where
  "quoted_impact env i tokenIn tokenOut amountIn =
     (case bind_result (resolveSwapAmountBaseUnits env amountIn tokenIn) (\<lambda>n.
             getQuote (sv_jupiter env) (rr_address tokenIn) (rr_address tokenOut) (int_str n) (toSlippageBps (an_slippage i))) of
        Inl e \<Rightarrow> []
      | Inr q \<Rightarrow> impact_flags (parseFloat (jq_priceImpactPct q)))"

definition exact_amountIn :: "action_intent \<Rightarrow> string option" where
  "exact_amountIn a = tryRequireExactAmount (get (ac_amounts a) ''amountIn'')"

definition assessSwapRisk :: "sol_env \<Rightarrow> analyze_input \<Rightarrow> string \<Rightarrow> string \<Rightarrow> risk_flag list \<Rightarrow> risk_dimension result" where
  "assessSwapRisk env i chain network existingFlags =
     (case action_is ''swap'' (an_intent i) of
        None \<Rightarrow> Inr (assessRisk existingFlags)
      | Some a \<Rightarrow>
          bind_result (resolveSwapTokenRef (an_tokenIn i) chain network) (\<lambda>tokenIn.
          bind_result (resolveSwapTokenRef (an_tokenOut i) chain network) (\<lambda>tokenOut.
            Inr (case (tokenIn, tokenOut, exact_amountIn a) of
                (Some ti, Some tout, Some amount) \<Rightarrow> assessRisk (existingFlags @ quoted_impact env i ti tout amount)
              | _ \<Rightarrow> assessRisk existingFlags))))"

section \<open>Viability\<close>

definition viabilityFromIssues :: "string list \<Rightarrow> viability_dimension" where
  "viabilityFromIssues issues =
     (if list_ex (\<lambda>s. startsWith s ''Insufficient'' \<or> startsWith s ''Invalid'') issues
      then \<lparr>vd_level = Unviable, vd_issues = issues\<rparr>
      else if issues \<noteq> [] then \<lparr>vd_level = Uncertain, vd_issues = issues\<rparr>
      else \<lparr>vd_level = Viable, vd_issues = []\<rparr>)"

text \<open>\<open>try { .. } catch { issues.push(text) }\<close>.\<close>

definition or_issue :: "string \<Rightarrow> string list result \<Rightarrow> string list" where
  "or_issue what r = (case r of Inl e \<Rightarrow> [what] | Inr issues \<Rightarrow> issues)"

definition fee_issues :: "sol_env \<Rightarrow> string \<Rightarrow> string list" where
  "fee_issues env fromKey =
     or_issue ''Could not verify SOL balance via RPC''
       (bind_result (sv_getBalance env fromKey) (\<lambda>balance.
          Inr (if balance < 10000 then [''Insufficient SOL for transaction fees: have '' @ sol9 balance @ '' SOL''] else [])))"

definition insufficient_sol :: "int \<Rightarrow> int \<Rightarrow> string list" where
  "insufficient_sol needed balance =
     (if balance < needed
      then [''Insufficient SOL balance: need '' @ sol9 needed @ '' SOL (including fee buffer), have '' @ sol9 balance @ '' SOL'']
      else [])"

definition input_balance_issues :: "sol_env \<Rightarrow> string \<Rightarrow> resolved_ref \<Rightarrow> string \<Rightarrow> string list" where
  "input_balance_issues env fromKey tokenIn amountIn =
     or_issue ''Could not verify input token balance''
       (bind_result (resolveSwapAmountBaseUnits env amountIn tokenIn) (\<lambda>requiredRaw.
          if rr_address tokenIn = SOL_MINT
          then bind_result (sv_getBalance env fromKey) (\<lambda>solBalance. Inr (insufficient_sol (requiredRaw + 10000) solBalance))
          else bind_result (sol_key env (rr_address tokenIn)) (\<lambda>mintKey.
               bind_result (sv_tokenBalance env (sv_ata env mintKey fromKey)) (\<lambda>available.
                 Inr (if available < requiredRaw
                   then [''Insufficient input token balance: need '' @ int_str requiredRaw @ '' raw units, have ''
                         @ int_str available @ '' raw units''] else [])))))"

definition key_of_field :: "sol_env \<Rightarrow> string option \<Rightarrow> string option" where
  "key_of_field env x = (case x of None \<Rightarrow> None | Some s \<Rightarrow> pk_string (sv_web3 env) s)"

definition checkSwapViability :: "sol_env \<Rightarrow> analyze_input \<Rightarrow> string \<Rightarrow> string \<Rightarrow> viability_dimension result" where
  "checkSwapViability env i chain network =
     (case action_is ''swap'' (an_intent i) of
        None \<Rightarrow> Inr \<lparr>vd_level = Viable, vd_issues = []\<rparr>
      | Some a \<Rightarrow>
          (case key_of_field env (get (ac_text a) ''from'') of
             None \<Rightarrow> Inr \<lparr>vd_level = Unviable,
                 vd_issues = [''Invalid sender public key '' @ quoted (opt_text (get (ac_text a) ''from''))]\<rparr>
           | Some fromKey \<Rightarrow>
               (case exact_amountIn a of
                  None \<Rightarrow> Inr \<lparr>vd_level = Uncertain, vd_issues = [''Swap viability check requires exact amountIn'']\<rparr>
                | Some amountIn \<Rightarrow>
                    bind_result (resolveSwapTokenRef (an_tokenIn i) chain network) (\<lambda>token.
                      Inr (viabilityFromIssues (fee_issues env fromKey @
                        (case token of
                           None \<Rightarrow> [''Could not resolve swap input token'']
                         | Some tokenIn \<Rightarrow> input_balance_issues env fromKey tokenIn amountIn)))))))"

definition sol_balance_issues :: "sol_env \<Rightarrow> string \<Rightarrow> string option \<Rightarrow> string list" where
  "sol_balance_issues env fromKey exactAmount =
     or_issue ''Could not verify SOL balance via RPC''
       (bind_result (sv_getBalance env fromKey) (\<lambda>balance.
          case exactAmount of
            None \<Rightarrow> Inr []
          | Some amount \<Rightarrow> bind_result (toBaseUnits amount 9) (\<lambda>n. Inr (insufficient_sol (n + 5000) balance))))"

definition token_balance_issues :: "sol_env \<Rightarrow> string \<Rightarrow> string \<Rightarrow> string \<Rightarrow> string list" where
  "token_balance_issues env fromKey mint amount =
     or_issue ''Could not verify token balance; source token account may not exist''
       (bind_result (sol_key env mint) (\<lambda>mintKey.
        bind_result (sv_getMint env mintKey) (\<lambda>decimals.
        bind_result (toBaseUnits amount decimals) (\<lambda>requiredRaw.
        bind_result (sv_tokenBalance env (sv_ata env mintKey fromKey)) (\<lambda>available.
          Inr (if available < requiredRaw
               then [''Insufficient token balance: need '' @ int_str requiredRaw @ '' raw units, have ''
                     @ int_str available @ '' raw units''] else []))))))"

definition transfers_sol :: "action_intent \<Rightarrow> bool" where
  "transfers_sol a \<longleftrightarrow> truthy_string (get (ac_text a) ''token'') = None \<and>
     (case truthy_string (get (ac_text a) ''tokenSymbol'') of None \<Rightarrow> True | Some s \<Rightarrow> toUpperCase s = ''SOL'')"

definition transfer_issues :: "sol_env \<Rightarrow> action_intent \<Rightarrow> string \<Rightarrow> string \<Rightarrow> string \<Rightarrow> string list" where
  "transfer_issues env a fromKey chain network =
     (let (amountIssues, exactAmount) = (case requireExactAmount (get (ac_amounts a) ''amount'') of
            Inl e \<Rightarrow> ([err_message e], None) | Inr s \<Rightarrow> ([], Some s)) in
      amountIssues @
      (if transfers_sol a then sol_balance_issues env fromKey exactAmount
       else case resolveMintAddress a chain network of
          Inl issue \<Rightarrow> [issue]
        | Inr mint \<Rightarrow> (case exactAmount of None \<Rightarrow> [] | Some s \<Rightarrow> token_balance_issues env fromKey mint s)))"

definition checkViability :: "sol_env \<Rightarrow> intent2 \<Rightarrow> string \<Rightarrow> string \<Rightarrow> viability_dimension" where
  "checkViability env i chain network =
     (case action_is ''transfer'' i of
        None \<Rightarrow> \<lparr>vd_level = Viable, vd_issues = []\<rparr>
      | Some a \<Rightarrow>
          (case get (ac_text a) ''from'' of
             None \<Rightarrow> \<lparr>vd_level = Unviable, vd_issues = [''Transfer intent is missing a valid from address'']\<rparr>
           | Some f \<Rightarrow>
               (case pk_string (sv_web3 env) f of
                  None \<Rightarrow> \<lparr>vd_level = Unviable, vd_issues = [''Invalid sender public key '' @ quoted f]\<rparr>
                | Some fromKey \<Rightarrow> viabilityFromIssues (transfer_issues env a fromKey chain network))))"

section \<open>Analysis\<close>

definition is_swap :: "intent2 \<Rightarrow> bool" where
  "is_swap i \<longleftrightarrow> action_is ''swap'' i \<noteq> None"

text \<open>The match dimension, from the report of the SDK verifier and the two checks of the analyzer.\<close>

definition match_discrepancies ::
    "intent2 \<Rightarrow> tx_analysis \<Rightarrow> string \<Rightarrow> string \<Rightarrow> verify_result2 \<Rightarrow> native_check \<Rightarrow> native_check \<Rightarrow> string list" where
  "match_discrepancies i raw chain network v native swap =
     v2_discrepancies v @ applyProgramChecks i raw chain network
     @ (if \<not> v2_matched v then nc_discrepancies native else []) @ nc_discrepancies swap"

definition match_of ::
    "intent2 \<Rightarrow> tx_analysis \<Rightarrow> string \<Rightarrow> string \<Rightarrow> verify_result2 \<Rightarrow> native_check \<Rightarrow> native_check \<Rightarrow> match_dimension" where
  "match_of i raw chain network v native swap =
     (let ds = match_discrepancies i raw chain network v native swap;
          signal = (v2_matched v \<or> nc_matched native \<or> nc_matched swap)
      in \<lparr>md_level = (if signal \<and> ds = [] then MFull else inferMatchLevel i raw signal), md_discrepancies = ds\<rparr>)"

definition risk_of :: "sol_env \<Rightarrow> analyze_input \<Rightarrow> string \<Rightarrow> string \<Rightarrow> tx_analysis \<Rightarrow> risk_dimension result" where
  "risk_of env i chain network raw =
     (if is_swap (an_intent i) then assessSwapRisk env i chain network (ta_flags raw) else Inr (assessRisk (ta_flags raw)))"

definition viability_of :: "sol_env \<Rightarrow> analyze_input \<Rightarrow> string \<Rightarrow> string \<Rightarrow> bool option \<Rightarrow> viability_dimension result" where
  "viability_of env i chain network check =
     (if check = Some False then Inr \<lparr>vd_level = Viable, vd_issues = []\<rparr>
      else if is_swap (an_intent i) then checkSwapViability env i chain network
      else Inr (checkViability env (an_intent i) chain network))"

definition analyze :: "sol_env \<Rightarrow> string \<Rightarrow> analyze_input \<Rightarrow> bool option \<Rightarrow> analyze_result result" where
  "analyze env tx i check =
     (let it = an_intent i; pc = parseChain (in_chain it); chain = pc_chain pc; network = pc_network pc in
      if chain \<noteq> ''solana'' then Inl (JsError (''SolanaAnalyzer only handles solana intents, got '' @ quoted chain))
      else
        bind_result (analyzeTransaction (sv_web3 env) tx (connection_options env)) (\<lambda>raw.
        bind_result (verifyIntent (sv_web3 env) tx it (connection_options env)) (\<lambda>v.
        bind_result (checkNativeTransferFallback env it raw chain network) (\<lambda>native.
        bind_result (checkSwapMatch i raw chain network) (\<lambda>swap.
        bind_result (risk_of env i chain network raw) (\<lambda>risk.
        bind_result (viability_of env i chain network check) (\<lambda>viability.
          let m = match_of it raw chain network v native swap
          in Inr \<lparr>ar_verdict = deriveVerdict m risk viability, ar_match = m, ar_risk = risk,
                  ar_viability = viability, ar_raw = raw\<rparr>)))))))"

text \<open>\<open>IntentAnalyzeService.analyze\<close> and the route.\<close>

definition analyze_service :: "sol_env \<Rightarrow> string \<Rightarrow> analyze_input \<Rightarrow> bool option \<Rightarrow> analyze_result result" where
  "analyze_service env tx i opts =
     (let chain = pc_chain (parseChain (in_chain (an_intent i))) in
      if chain = ''solana'' then analyze env tx i opts
      else Inl (JsError (''No analyzer available for chain '' @ quoted chain)))"

definition analyze_route :: "sol_env \<Rightarrow> string option \<Rightarrow> analyze_input option \<Rightarrow> http_error + analyze_result" where
  "analyze_route env transaction i =
     (case given transaction of
        None \<Rightarrow> Inl (BadRequest ''MISSING_TRANSACTION'' ''transaction is required'')
      | Some tx \<Rightarrow>
          (case i of
             None \<Rightarrow> Inl (BadRequest ''MISSING_INTENT'' ''intent is required'')
           | Some inp \<Rightarrow>
               if in_chain (an_intent inp) = [] then Inl (BadRequest ''MISSING_CHAIN'' ''intent.chain is required'')
               else (case analyze_service env tx inp None of
                  Inl e \<Rightarrow> Inl (BadRequest ''INTENT_ANALYZE_FAILED''
                     (if err_message e = [] then ''Intent analysis failed'' else err_message e))
                | Inr r \<Rightarrow> Inr r)))"

section \<open>A clean report of the verifier is a match\<close>

lemma known_confidence:
  "matchSingleAction a ixs used chain e = Inr r \<Longrightarrow> ac_action a \<in> set KNOWN_ACTIONS \<Longrightarrow> sr_confidence r = Full"
  by (auto simp: matchSingleAction_def bind_result_def Let_def split: option.splits sum.splits)

lemma known_lowest:
  "match_actions ixs chain e st as = Inr st' \<Longrightarrow> \<forall>a \<in> set as. ac_action a \<in> set KNOWN_ACTIONS \<Longrightarrow> ms_lowest st = Full \<Longrightarrow>
     ms_lowest st' = Full"
proof (induction as arbitrary: st)
  case (Cons a as)
  then obtain st1 where s: "match_step ixs chain e st a = Inr st1" "match_actions ixs chain e st1 as = Inr st'"
    by (auto simp: bind_result_def split: sum.splits)
  then have "ms_lowest st1 = Full"
    using known_confidence Cons.prems by (auto simp: match_step_def bind_result_def split: sum.splits)
  with Cons.IH [OF s(2)] Cons.prems show ?case by simp
qed simp

lemma clean_is_matched:
  assumes "verifyIntent w tx i opts = Inr v" and "v2_discrepancies v = []"
    and "\<forall>a \<in> set (getActions i). ac_action a \<in> set KNOWN_ACTIONS"
  shows "v2_matched v"
proof -
  obtain an pc st where m: "match_actions (ta_instructions (adapt_solana an)) (pc_chain (parseChain (in_chain i))) pc
       \<lparr>ms_discrepancies = map fl_message (filter (\<lambda>f. severity f = ErrorSev) (ta_flags (adapt_solana an))),
        ms_lowest = Full, ms_used = []\<rparr> (getActions i) = Inr st"
    and v: "v2_matched v = (v2_discrepancies v = [] \<and> ms_lowest st \<noteq> Unverified)"
    using assms(1,2)
    by (auto simp: verifyIntent_def failed_def Let_def bind_result_def matchIntent_def
        split: if_splits sum.splits)
  have "ms_lowest st = Full" using known_lowest [OF m assms(3)] by simp
  with v assms(2) show ?thesis by simp
qed

lemma signal_actions:
  assumes "checkNativeTransferFallback env i raw chain network = Inr n" and "nc_matched n"
  shows "action_is ''transfer'' i \<noteq> None"
  using assms by (cases "action_is ''transfer'' i") (auto simp: checkNativeTransferFallback_def)

lemma swap_actions:
  assumes "checkSwapMatch i raw chain network = Inr n" and "nc_matched n"
  shows "is_swap (an_intent i)"
  using assms by (cases "action_is ''swap'' (an_intent i)") (auto simp: checkSwapMatch_def is_swap_def)

lemma action_is_actions: "action_is name i = Some a \<Longrightarrow> getActions i = [a] \<and> ac_action a = name"
  by (auto simp: action_is_def getActions_def split: intent_body.splits if_splits)

section \<open>What the verdict means\<close>

definition program_ok :: "intent2 \<Rightarrow> tx_analysis \<Rightarrow> bool" where
  "program_ok i raw \<longleftrightarrow> applyProgramChecks i raw (pc_chain (parseChain (in_chain i))) (pc_network (parseChain (in_chain i))) = []"

lemma analyze_parts:
  assumes "analyze env tx i opts = Inr r"
  obtains v native swap net where "net = pc_network (parseChain (in_chain (an_intent i)))"
    and "pc_chain (parseChain (in_chain (an_intent i))) = ''solana''"
    and "verifyIntent (sv_web3 env) tx (an_intent i) (connection_options env) = Inr v"
    and "analyzeTransaction (sv_web3 env) tx (connection_options env) = Inr (ar_raw r)"
    and "checkNativeTransferFallback env (an_intent i) (ar_raw r) ''solana'' net = Inr native"
    and "checkSwapMatch i (ar_raw r) ''solana'' net = Inr swap"
    and "risk_of env i ''solana'' net (ar_raw r) = Inr (ar_risk r)"
    and "ar_match r = match_of (an_intent i) (ar_raw r) ''solana'' net v native swap"
    and "ar_verdict r = deriveVerdict (ar_match r) (ar_risk r) (ar_viability r)"
  using assms by (auto simp: analyze_def Let_def bind_result_def split: if_splits sum.splits)

lemma match_full:
  "md_level (match_of i raw chain net v native swap) = MFull \<longleftrightarrow>
     (v2_matched v \<or> nc_matched native \<or> nc_matched swap) \<and> match_discrepancies i raw chain net v native swap = []"
  by (auto simp: match_of_def Let_def inferMatchLevel_def split: intent_body.splits)

lemma full_match_iff:
  assumes "analyze env tx i opts = Inr r"
  shows "\<exists>v. verifyIntent (sv_web3 env) tx (an_intent i) (connection_options env) = Inr v
    \<and> (md_level (ar_match r) = MFull \<longleftrightarrow> v2_matched v \<and> \<not> is_swap (an_intent i) \<and> program_ok (an_intent i) (ar_raw r))"
proof -
  let ?i = "an_intent i"
  obtain v native swap net where net: "net = pc_network (parseChain (in_chain ?i))"
    "pc_chain (parseChain (in_chain ?i)) = ''solana''"
    and v: "verifyIntent (sv_web3 env) tx ?i (connection_options env) = Inr v"
    and an: "analyzeTransaction (sv_web3 env) tx (connection_options env) = Inr (ar_raw r)"
    and n: "checkNativeTransferFallback env ?i (ar_raw r) ''solana'' net = Inr native"
    and s: "checkSwapMatch i (ar_raw r) ''solana'' net = Inr swap"
    and m: "ar_match r = match_of ?i (ar_raw r) ''solana'' net v native swap"
    by (rule analyze_parts [OF assms])
  have clean: "v2_matched v \<longrightarrow> v2_discrepancies v = []"
    using verifyIntent_spec [OF an, of ?i] v by auto
  have swap: "v2_discrepancies v \<noteq> []" if sw: "is_swap ?i"
  proof -
    obtain a where "action_is ''swap'' ?i = Some a" using sw by (auto simp: is_swap_def)
    then have a: "getActions ?i = [a]" "ac_action a = ''swap''" using action_is_actions by blast+
    then have "\<not> v2_matched v" using no_swap_match [OF v, of a] by simp
    with clean_is_matched [OF v] a show ?thesis by (auto simp: KNOWN_ACTIONS_def)
  qed
  have native: "v2_matched v" if nm: "nc_matched native" and nd: "v2_discrepancies v = []"
  proof -
    obtain a where "getActions ?i = [a]" "ac_action a = ''transfer''"
      using signal_actions [OF n nm] action_is_actions by blast
    with clean_is_matched [OF v nd] show ?thesis by (simp add: KNOWN_ACTIONS_def)
  qed
  have noswap: "nc_discrepancies swap = []" if "\<not> is_swap ?i"
    using s that by (auto simp: checkSwapMatch_def is_swap_def)
  show ?thesis
    unfolding m match_full match_discrepancies_def program_ok_def net(2) net(1) [symmetric]
    using v clean swap native swap_actions [OF s] noswap by (intro exI [of _ v]) auto
qed

text \<open>C2. What a verdict rests on. The match level is full exactly when the SDK verifier matched, the
  program reference holds in the backend registry, and the action is no swap: the direct-transfer
  check and the swap check never make a match full. For an action other than a swap the verdict is
  \<open>proceed\<close> exactly when moreover no flag is a warning or an error and nothing speaks against
  viability; a swap never gets \<open>proceed\<close>.\<close>

theorem verdict_decides:
  assumes "analyze env tx i opts = Inr r"
  shows "\<exists>v. verifyIntent (sv_web3 env) tx (an_intent i) (connection_options env) = Inr v
    \<and> (md_level (ar_match r) = MFull \<longleftrightarrow> v2_matched v \<and> \<not> is_swap (an_intent i) \<and> program_ok (an_intent i) (ar_raw r))
    \<and> (ar_verdict r = Proceed \<longleftrightarrow> v2_matched v \<and> \<not> is_swap (an_intent i) \<and> program_ok (an_intent i) (ar_raw r)
         \<and> (\<forall>f \<in> set (ta_flags (ar_raw r)). severity f = Info) \<and> vd_level (ar_viability r) = Viable)"
proof -
  obtain v where v: "verifyIntent (sv_web3 env) tx (an_intent i) (connection_options env) = Inr v"
    and full: "md_level (ar_match r) = MFull \<longleftrightarrow> v2_matched v \<and> \<not> is_swap (an_intent i) \<and> program_ok (an_intent i) (ar_raw r)"
    using full_match_iff [OF assms] by blast
  have risk: "ar_risk r = assessRisk (ta_flags (ar_raw r))" if "\<not> is_swap (an_intent i)"
    using that by (auto simp: risk_of_def intro: analyze_parts [OF assms])
  have vd: "ar_verdict r = deriveVerdict (ar_match r) (ar_risk r) (ar_viability r)"
    by (rule analyze_parts [OF assms])
  have low: "rd_level (assessRisk fs) = Low \<longleftrightarrow> (\<forall>f \<in> set fs. severity f = Info)" for fs
    by (auto simp: assessRisk_def list_ex_iff) (metis severity.exhaust severity.distinct)+
  have "ar_verdict r = Proceed \<longleftrightarrow> md_level (ar_match r) = MFull \<and> rd_level (ar_risk r) = Low \<and> vd_level (ar_viability r) = Viable"
    unfolding vd deriveVerdict_def
    by (cases "md_level (ar_match r)"; cases "rd_level (ar_risk r)"; cases "vd_level (ar_viability r)") auto
  with v full risk low show ?thesis by auto
qed

section \<open>Direct transfers are approved without their amount\<close>

text \<open>A transaction with one instruction of the given program.\<close>

definition single_tx :: "web3 \<Rightarrow> string \<Rightarrow> string \<Rightarrow> string list \<Rightarrow> buffer \<Rightarrow> bool" where
  "single_tx w tx program accounts data \<longleftrightarrow>
     (\<exists>fp. deserializeTx w tx = Inr (fp, [\<lparr>ri_programId = program, ri_accounts = accounts, ri_data = data\<rparr>]))"

lemma single_tx_analysis:
  assumes tx: "single_tx w tx program accounts data"
    and e: "get (reg_programs (loadRegistry (op_config opts))) program = Some e"
    and d: "\<And>cache. run_decoder (pk_bytes w) (pe_decoder e) data accounts cache = Inr (Some d)"
  obtains an ix where "analyzeTransaction w tx opts = Inr an" and "error_free an" and "ta_instructions an = [ix]"
    and "ia_programId ix = program" and "ia_type ix = Some (dec_type d)" and "ia_params ix = dec_params d"
proof -
  obtain fp where de: "deserializeTx w tx = Inr (fp, [\<lparr>ri_programId = program, ri_accounts = accounts, ri_data = data\<rparr>])"
    using tx by (auto simp: single_tx_def)
  obtain an where an: "analyzeTransaction w tx opts = Inr an"
    using de by (simp add: analyzeTransaction_def)
  have dec: "decodeInstruction (pk_bytes w) (pe_decoder e) data accounts cache = (Some (dec_type d), dec_params d)" for cache
    by (simp add: decodeInstruction_def d shown_def)
  have ef: "error_free an"
    using error_flags_iff [OF an de] e by (auto simp: error_free_def)
  note en = analysis_entries [OF an de]
  obtain ix where ix: "ta_instructions an = [ix]"
    using en by (cases "ta_instructions an") auto
  have "ia_programId ix = program" "ia_type ix = Some (dec_type d)" "ia_params ix = dec_params d"
    using en e dec ix by (simp_all add: Let_def)
  with an ef ix show ?thesis by (rule that)
qed

lemma direct_transfer_match:
  assumes an: "analyzeTransaction w tx opts = Inr an" "error_free an" "ta_instructions an = [ix]"
    and ty: "ia_type ix = Some ''transfer''"
    and i: "on_solana i" "expected_of i = Inr None" "getActions i = [a]" "ac_action a = ''transfer''"
  shows "\<exists>res. verifyIntent w tx i opts = Inr res \<and> (v2_matched res \<longleftrightarrow> fields_agree a (ia_params ix) ''solana'')"
proof -
  have r: "renamed ix = ix" using ty by (simp add: renamed_def rename_ix_def)
  have f: "find_ix a [ix] [] = Some ix" using i(4) ty by (simp add: find_ix_def)
  have "matches i an None \<longleftrightarrow> fields_agree a (ia_params ix) ''solana''"
    using an(2,3) ty i by (simp add: matches_def adapt_instructions r f pairs_agree_def action_agrees_def
        KNOWN_ACTIONS_def program_agrees_def all_accounted_def)
  then show ?thesis using verifyIntent_spec [OF an(1), of i] i by auto
qed

lemma no_program_ok:
  assumes "in_program i = None" and "in_programName i = None"
  shows "program_ok i raw" and "expected_of i = Inr None"
  using assms by (simp_all add: program_ok_def applyProgramChecks_def truthy_string_def expected_of_def
      expected_program_def getProgramRef_def)

lemma spl_entry: "\<exists>e. get (reg_programs REGISTRY) TOKEN_PROGRAM = Some e \<and> pe_decoder e = ''spl-token''"
  by (simp add: REGISTRY_def pe_def SYSTEM_PROGRAM_def TOKEN_PROGRAM_def COMPUTE_BUDGET_def obj_simps)

lemma system_entry: "\<exists>e. get (reg_programs REGISTRY) SYSTEM_PROGRAM = Some e \<and> pe_decoder e = ''system''"
  by (simp add: REGISTRY_def pe_def SYSTEM_PROGRAM_def TOKEN_PROGRAM_def COMPUTE_BUDGET_def obj_simps)

text \<open>The data of an SPL \<open>Transfer\<close> instruction.\<close>

definition spl_transfer_data :: "nat \<Rightarrow> buffer" where
  "spl_transfer_data amount = 3 # enc_u64 amount"

lemma spl_transfer_decode:
  assumes "amount < 2 ^ 64"
  shows "run_decoder pk ''spl-token'' (spl_transfer_data amount) accounts cache =
    Inr (Some (decd ''transfer''
      [(''source'', acct accounts 0), (''destination'', acct accounts 1), (''authority'', acct accounts 2),
       (''amount'', JStr (nat_str amount))]))"
proof -
  have "readBigUInt64LE (spl_transfer_data amount) 1 = Inr amount"
    using read_le_prefix [of 1 "[3]" amount 8 "[]"] assms
    by (simp add: readBigUInt64LE_def spl_transfer_data_def enc_u64_def)
  then show ?thesis
    by (simp add: run_decoder_def decodeSplToken_def byte_at_def spl_transfer_data_def enc_u64_def)
qed

lemma direct_fields:
  assumes "ac_action a = ''transfer''"
    and p: "p = [(''source'', x), (''destination'', y), (''authority'', z), (''amount'', n)]"
  shows "fields_agree a p ''solana''"
  unfolding p
  by (simp add: fields_agree_def ADDRESS_FIELDS_def AMOUNT_FIELDS_def address_agrees_def amount_field_agrees_def
      memo_field_agrees_def shown_amount_def human_key_def prop_of_def obj_simps text_of_def extractAmountFromHuman_def)

text \<open>C3. An SPL \<open>Transfer\<close> is approved blindly: whatever its source, destination, authority and amount,
  a transaction made of it alone is matched by every transfer intent without a program reference, whatever
  sender, recipient, token and amount the intent names, because the decoder reports neither \<open>from\<close> nor
  \<open>to\<close> nor a display amount and absent fields are not compared. The backend's own check of direct
  transfers does not repair it: the match level of the analysis is full.\<close>

theorem spl_transfer_unchecked:
  assumes tx: "single_tx (sv_web3 env) tx TOKEN_PROGRAM accounts (spl_transfer_data amount)" "amount < 2 ^ 64"
    and i: "on_solana (an_intent i)" "in_program (an_intent i) = None" "in_programName (an_intent i) = None"
      "action_is ''transfer'' (an_intent i) = Some a"
    and r: "analyze env tx i opts = Inr r"
  shows "(\<exists>v. verifyIntent (sv_web3 env) tx (an_intent i) (connection_options env) = Inr v \<and> v2_matched v)
    \<and> md_level (ar_match r) = MFull"
proof -
  obtain e where e: "get (reg_programs (loadRegistry (op_config (connection_options env)))) TOKEN_PROGRAM = Some e"
      "pe_decoder e = ''spl-token''"
    using spl_entry by (auto simp: connection_options_def loadRegistry_None)
  let ?d = "decd ''transfer''
      [(''source'', acct accounts 0), (''destination'', acct accounts 1), (''authority'', acct accounts 2),
       (''amount'', JStr (nat_str amount))]"
  have dec: "\<And>cache. run_decoder (pk_bytes (sv_web3 env)) (pe_decoder e) (spl_transfer_data amount) accounts cache = Inr (Some ?d)"
    using spl_transfer_decode [OF tx(2)] e(2) by simp
  obtain an ix where an: "analyzeTransaction (sv_web3 env) tx (connection_options env) = Inr an" "error_free an"
      "ta_instructions an = [ix]" and ix: "ia_type ix = Some (dec_type ?d)" "ia_params ix = dec_params ?d"
    by (rule single_tx_analysis [OF tx(1) e(1) dec])
  have a: "getActions (an_intent i) = [a]" "ac_action a = ''transfer''" using action_is_actions [OF i(4)] by blast+
  obtain v where v: "verifyIntent (sv_web3 env) tx (an_intent i) (connection_options env) = Inr v"
      "v2_matched v \<longleftrightarrow> fields_agree a (ia_params ix) ''solana''"
    using direct_transfer_match [OF an _ i(1) no_program_ok(2) a] i(2,3) ix(1) by auto
  then have m: "v2_matched v" using direct_fields [OF a(2)] ix(2) by simp
  have "\<not> is_swap (an_intent i)" using i(4) by (auto simp: is_swap_def action_is_def split: intent_body.splits if_splits)
  then have "md_level (ar_match r) = MFull"
    using full_match_iff [OF r] v(1) m no_program_ok(1) i(2,3) by auto
  with v(1) m show ?thesis by blast
qed

lemma system_transfer_decode64:
  assumes "n < 2 ^ 64"
  shows "run_decoder pk ''system'' (system_transfer_data n) [S, R] cache =
    Inr (Some (decd ''transfer'' [(''from'', JStr S), (''to'', JStr R), (''lamports'', JStr (nat_str n)), (''sol'', JStr (sol_text (int n)))]))"
proof -
  have i: "readUInt32LE (system_transfer_data n) 0 = Inr 2"
    using read_le_prefix [of 0 "[]" 2 4 "enc_u64 n"] by (simp add: readUInt32LE_def system_transfer_data_def)
  have l: "readBigUInt64LE (system_transfer_data n) 4 = Inr n"
    using read_le_prefix [of 4 "le_bytes 4 2" n 8 "[]"] assms
    by (simp add: readBigUInt64LE_def system_transfer_data_def enc_u64_def)
  show ?thesis using i l
    by (simp add: run_decoder_def decodeSystem_def nth_or_null_def system_transfer_data_def enc_u64_def)
qed

text \<open>C4. Of a SOL transfer the amount is not checked: a transaction made of one System transfer of any
  number of lamports that its 64-bit field holds gets a full match from a transfer intent without a program reference
  exactly when the sender and the recipient the intent names, if it names them, are those of the
  instruction, whatever amount and token it names. (A program reference would be checked: one that does not
  hold prevents the match.)\<close>

theorem sol_transfer_amount_unchecked:
  assumes tx: "single_tx (sv_web3 env) tx SYSTEM_PROGRAM [S, R] (system_transfer_data lamports)" "lamports < 2 ^ 64"
    and keys: "S \<noteq> []" "R \<noteq> []"
    and i: "on_solana (an_intent i)" "in_program (an_intent i) = None" "in_programName (an_intent i) = None"
      "action_is ''transfer'' (an_intent i) = Some a"
    and r: "analyze env tx i opts = Inr r"
  shows "md_level (ar_match r) = MFull \<longleftrightarrow>
    (\<forall>s. text_field a ''from'' = Some s \<longrightarrow> s = S) \<and> (\<forall>t. text_field a ''to'' = Some t \<longrightarrow> t = R)"
proof -
  obtain e where e: "get (reg_programs (loadRegistry (op_config (connection_options env)))) SYSTEM_PROGRAM = Some e"
      "pe_decoder e = ''system''"
    using system_entry by (auto simp: connection_options_def loadRegistry_None)
  let ?d = "decd ''transfer'' [(''from'', JStr S), (''to'', JStr R),
      (''lamports'', JStr (nat_str lamports)), (''sol'', JStr (sol_text (int lamports)))]"
  have dec: "\<And>cache. run_decoder (pk_bytes (sv_web3 env)) (pe_decoder e) (system_transfer_data lamports) [S, R] cache = Inr (Some ?d)"
    using system_transfer_decode64 [OF tx(2)] e(2) by simp
  obtain an ix where an: "analyzeTransaction (sv_web3 env) tx (connection_options env) = Inr an" "error_free an"
      "ta_instructions an = [ix]" and ix: "ia_type ix = Some (dec_type ?d)" "ia_params ix = dec_params ?d"
    by (rule single_tx_analysis [OF tx(1) e(1) dec])
  have a: "getActions (an_intent i) = [a]" "ac_action a = ''transfer''" using action_is_actions [OF i(4)] by blast+
  obtain v where v: "verifyIntent (sv_web3 env) tx (an_intent i) (connection_options env) = Inr v"
      "v2_matched v \<longleftrightarrow> fields_agree a (ia_params ix) ''solana''"
    using direct_transfer_match [OF an _ i(1) no_program_ok(2) a] i(2,3) ix(1) by auto
  have "fields_agree a (ia_params ix) ''solana'' \<longleftrightarrow>
      (\<forall>s. text_field a ''from'' = Some s \<longrightarrow> s = S) \<and> (\<forall>t. text_field a ''to'' = Some t \<longrightarrow> t = R)"
    using keys by (simp add: ix fields_agree_def ADDRESS_FIELDS_def AMOUNT_FIELDS_def address_agrees_def amount_field_agrees_def
        memo_field_agrees_def shown_amount_def human_key_def prop_of_def obj_simps text_of_def extractAmountFromHuman_def)
  moreover have "\<not> is_swap (an_intent i)" using i(4) by (auto simp: is_swap_def action_is_def split: intent_body.splits if_splits)
  ultimately show ?thesis
    using full_match_iff [OF r] v no_program_ok(1) i(2,3) by auto
qed

section \<open>Witnesses\<close>

definition sample_jupiter :: jup_env where
  "sample_jupiter = \<lparr>je_apiKey = [], je_apiUrl = ''url'', je_get = \<lambda>u p h. Inl SyntaxError, je_post = \<lambda>u b h. Inl SyntaxError,
     je_pk = Some, je_pk_error = ''pk'', je_base64 = \<lambda>s. []\<rparr>"

definition sample_sol :: "message \<Rightarrow> sol_env" where
  "sample_sol m = \<lparr>sv_web3 = sample_web3 m, sv_connection = \<lambda>k. Inr None, sv_pk_error = ''pk'', sv_getBalance = \<lambda>k. Inr (10 ^ 12),
     sv_getMint = \<lambda>k. Inr 6, sv_ata = \<lambda>m k. m @ k, sv_tokenBalance = \<lambda>k. Inr 0, sv_jupiter = sample_jupiter\<rparr>"

definition pay_one :: action_intent where
  "pay_one = \<lparr>ac_action = ''transfer'', ac_text = [(''from'', ''S''), (''to'', ''R'')], ac_amounts = [(''amount'', Plain (SStr ''1''))]\<rparr>"

definition pay_input :: analyze_input where
  "pay_input = \<lparr>an_intent = plain_intent pay_one, an_tokenIn = None, an_tokenOut = None, an_slippage = None\<rparr>"

lemma pay_simps [simp]:
  "an_intent pay_input = plain_intent pay_one" "action_is ''transfer'' (plain_intent pay_one) = Some pay_one"
  "action_is ''swap'' (plain_intent pay_one) = None" "in_program (plain_intent pay_one) = None"
  "in_programName (plain_intent pay_one) = None" "sv_web3 (sample_sol m) = sample_web3 m"
  by (simp_all add: pay_input_def plain_intent_def pay_one_def action_is_def sample_sol_def)

lemma pay_amount: "requireExactAmount (get (ac_amounts pay_one) ''amount'') = Inr ''1''" "toBaseUnits ''1'' 9 = Inr (10 ^ 9)"
  by (simp_all add: requireExactAmount_def pay_one_def toBaseUnits_def unsigned_decimal_re_def js_eval
      strip_leading_zeros_keep_def)

lemma pay_text: "get (ac_text pay_one) ''from'' = Some ''S''" "get (ac_text pay_one) ''to'' = Some ''R''"
  by (simp_all add: pay_one_def obj_simps)

lemma pay_chain: "parseChain (in_chain (plain_intent pay_one)) = \<lparr>pc_chain = ''solana'', pc_network = ''mainnet''\<rparr>"
  by (simp add: plain_intent_def parse_solana)

lemma pay_analysis:
  assumes "analyzeTransaction (sample_web3 m) tx (connection_options (sample_sol m)) = Inr an"
    and "checkNativeTransferFallback (sample_sol m) (plain_intent pay_one) an ''solana'' ''mainnet'' = Inr n"
  shows "\<exists>r. analyze (sample_sol m) tx pay_input (Some False) = Inr r"
proof -
  obtain v where "verifyIntent (sample_web3 m) tx (plain_intent pay_one) (connection_options (sample_sol m)) = Inr v"
    using verifyIntent_spec [OF assms(1), of "plain_intent pay_one"] by blast
  then show ?thesis using assms
    by (simp add: analyze_def Let_def pay_chain bind_result_def checkSwapMatch_def risk_of_def viability_of_def is_swap_def)
qed

lemma sample_single: "single_tx (sample_web3 (one_ix accounts program data)) tx program accounts data"
  by (simp add: single_tx_def deserialize_sample raw_of_one_ix)

lemma sample_message: "checkNativeTransferFallback env (plain_intent pay_one) an ''solana'' ''mainnet'' =
   (if filter is_transfer_ix (ta_instructions an) = [] then Inr \<lparr>nc_matched = False, nc_discrepancies = []\<rparr>
    else check_transfers (check_one_transfer env pay_one ''S'' ''R'' ''1'' ''solana'' ''mainnet'') (filter is_transfer_ix (ta_instructions an)))"
  using pay_amount by (simp add: checkNativeTransferFallback_def pay_text truthy_string_def Let_def)

theorem spl_transfer_unchecked_witness:
  "\<exists>r. analyze (sample_sol (one_ix [''X'', ''Y'', ''Z''] TOKEN_PROGRAM (spl_transfer_data 123456789))) ''tx'' pay_input (Some False) = Inr r
     \<and> md_level (ar_match r) = MFull"
proof -
  let ?d = "decd ''transfer'' [(''source'', JStr ''X''), (''destination'', JStr ''Y''), (''authority'', JStr ''Z''),
      (''amount'', JStr (nat_str 123456789))]"
  let ?m = "one_ix [''X'', ''Y'', ''Z''] TOKEN_PROGRAM (spl_transfer_data 123456789)"
  obtain e where e: "get (reg_programs (loadRegistry (op_config (connection_options (sample_sol ?m))))) TOKEN_PROGRAM = Some e"
      "pe_decoder e = ''spl-token''"
    using spl_entry by (auto simp: connection_options_def loadRegistry_None)
  have dec: "\<And>cache. run_decoder (pk_bytes (sample_web3 ?m)) (pe_decoder e) (spl_transfer_data 123456789) [''X'', ''Y'', ''Z''] cache
      = Inr (Some ?d)"
    using spl_transfer_decode [of 123456789] e(2) by (simp add: nth_or_null_def)
  obtain an ix where an: "analyzeTransaction (sample_web3 ?m) ''tx'' (connection_options (sample_sol ?m)) = Inr an"
    "ta_instructions an = [ix]" and ix: "ia_programId ix = TOKEN_PROGRAM" "ia_params ix = dec_params ?d"
    by (rule single_tx_analysis [OF sample_single e(1) dec])
  have "TOKEN_PROGRAM \<noteq> SYSTEM_PROGRAM" by (simp add: TOKEN_PROGRAM_def SYSTEM_PROGRAM_def)
  then have "\<exists>n. checkNativeTransferFallback (sample_sol ?m) (plain_intent pay_one) an ''solana'' ''mainnet'' = Inr n"
    unfolding sample_message by (simp add: an(2) check_one_transfer_def ix bind_result_def prop_of_def obj_simps)
  then obtain r where r: "analyze (sample_sol ?m) ''tx'' pay_input (Some False) = Inr r"
    using pay_analysis [OF an(1)] by blast
  have "md_level (ar_match r) = MFull"
    using spl_transfer_unchecked [OF _ _ _ _ _ _ r, of "[''X'', ''Y'', ''Z'']" 123456789 pay_one] sample_single
    by (simp add: plain_intent_ok)
  with r show ?thesis by blast
qed

theorem sol_transfer_amount_unchecked_witness:
  "\<exists>r. analyze (sample_sol (one_ix [''S'', ''R''] SYSTEM_PROGRAM (system_transfer_data 5000000000))) ''tx'' pay_input (Some False) = Inr r
     \<and> md_level (ar_match r) = MFull"
proof -
  let ?d = "decd ''transfer'' [(''from'', JStr ''S''), (''to'', JStr ''R''),
      (''lamports'', JStr (nat_str 5000000000)), (''sol'', JStr (formatUnits (int 5000000000) 9))]"
  let ?m = "one_ix [''S'', ''R''] SYSTEM_PROGRAM (system_transfer_data 5000000000)"
  obtain e where e: "get (reg_programs (loadRegistry (op_config (connection_options (sample_sol ?m))))) SYSTEM_PROGRAM = Some e"
      "pe_decoder e = ''system''"
    using system_entry by (auto simp: connection_options_def loadRegistry_None)
  have dec: "\<And>cache. run_decoder (pk_bytes (sample_web3 ?m)) (pe_decoder e) (system_transfer_data 5000000000) [''S'', ''R''] cache
      = Inr (Some ?d)"
    using system_transfer_decode [of 5000000000 _ "[]" "''S''" "''R''" "[]"] e(2) by (simp add: run_decoder_def)
  obtain an ix where an: "analyzeTransaction (sample_web3 ?m) ''tx'' (connection_options (sample_sol ?m)) = Inr an"
    "ta_instructions an = [ix]" and ix: "ia_programId ix = SYSTEM_PROGRAM" "ia_params ix = dec_params ?d"
    by (rule single_tx_analysis [OF sample_single e(1) dec])
  have "\<exists>n. checkNativeTransferFallback (sample_sol ?m) (plain_intent pay_one) an ''solana'' ''mainnet'' = Inr n"
    unfolding sample_message
    by (simp add: an(2) check_one_transfer_def ix bind_result_def sol_transfer_matches_def pay_amount)
  then obtain r where r: "analyze (sample_sol ?m) ''tx'' pay_input (Some False) = Inr r"
    using pay_analysis [OF an(1)] by blast
  have "md_level (ar_match r) = MFull"
    using sol_transfer_amount_unchecked [OF _ _ _ _ _ _ _ _ r, of "''S''" "''R''" 5000000000 pay_one] sample_single
    by (simp add: plain_intent_ok text_field_def pay_text)
  with r show ?thesis by blast
qed

theorem verdict_decides_witness:
  "\<exists>r v. analyze (sample_sol (one_ix [''A''] ''X'' [])) ''tx'' pay_input (Some False) = Inr r
     \<and> verifyIntent (sample_web3 (one_ix [''A''] ''X'' [])) ''tx'' (plain_intent pay_one)
         (connection_options (sample_sol (one_ix [''A''] ''X'' []))) = Inr v
     \<and> (md_level (ar_match r) = MFull \<longleftrightarrow> v2_matched v)"
proof -
  let ?m = "one_ix [''A''] ''X'' []"
  obtain an where an: "analyzeTransaction (sample_web3 ?m) ''tx'' (connection_options (sample_sol ?m)) = Inr an"
    by (simp add: analyzeTransaction_def deserialize_sample)
  have de: "deserializeTx (sample_web3 ?m) ''tx'' = Inr (''A'', [\<lparr>ri_programId = ''X'', ri_accounts = [''A''], ri_data = []\<rparr>])"
    by (simp add: deserialize_sample raw_of_one_ix) (simp add: one_ix_def key_at_def)
  have unknown: "get (reg_programs REGISTRY) ''X'' = None"
    by (simp add: REGISTRY_def pe_def SYSTEM_PROGRAM_def TOKEN_PROGRAM_def COMPUTE_BUDGET_def obj_simps)
  have "filter is_transfer_ix (ta_instructions an) = []"
    using analysis_entries [OF an de] unknown
    by (cases "ta_instructions an") (auto simp: is_transfer_ix_def Let_def connection_options_def loadRegistry_None)
  then obtain r where r: "analyze (sample_sol ?m) ''tx'' pay_input (Some False) = Inr r"
    using pay_analysis [OF an] by (auto simp: sample_message)
  have "\<not> is_swap (plain_intent pay_one)" by (simp add: is_swap_def)
  then show ?thesis
    using verdict_decides [OF r] r no_program_ok(1) [of "plain_intent pay_one"] by auto
qed

end
