(* ===== verification/Builder.thy ===== *)
theory Builder
  imports Analyzer HandshakeClient
begin

text \<open>
  Building transactions from intents in the backend: the entry point (\<^verbatim>\<open>solana.builder.ts\<close>), the
  three program builders (\<^verbatim>\<open>programs/native.builder.ts\<close>, \<^verbatim>\<open>handshake.builder.ts\<close>,
  \<^verbatim>\<open>jupiter.builder.ts\<close>), the assembler (\<^verbatim>\<open>solana-tx-assembler.ts\<close>), \<^verbatim>\<open>intent-build.service.ts\<close> and the
  build route of \<^verbatim>\<open>intent.controller.ts\<close>. The instruction constructors, the compiler of messages and
  the simulation of web3.js and Anchor are the parameter \<open>build_env\<close>. The metadata of a program
  builder, which no caller reads, is left out.
\<close>

section \<open>The world and the request\<close>

text \<open>A versioned transaction: payer, blockhash, instructions and lookup tables.\<close>

record versioned_tx =
  vt_payer :: string
  vt_blockhash :: string
  vt_instructions :: "tx_instruction list"
  vt_tables :: "string list"

record simulation =
  sm_err :: bool
  sm_logs :: "string list option"
  sm_unitsConsumed :: "nat option"

record build_env =
  be_sol :: sol_env
  be_anchor :: anchor_world
  be_anchor_ix :: "anchor_ix \<Rightarrow> tx_instruction"
  be_pool_name :: "string option"
  be_sha256 :: "buffer \<Rightarrow> buffer"
  be_getAccount :: "string \<Rightarrow> unit result"
  be_system_transfer :: "string \<Rightarrow> string \<Rightarrow> int \<Rightarrow> tx_instruction result"
  be_create_ata :: "string \<Rightarrow> string \<Rightarrow> string \<Rightarrow> string \<Rightarrow> tx_instruction"
  be_spl_transfer :: "string \<Rightarrow> string \<Rightarrow> string \<Rightarrow> int \<Rightarrow> tx_instruction result"
  be_unit_price :: "int \<Rightarrow> tx_instruction"
  be_unit_limit :: "nat \<Rightarrow> tx_instruction"
  be_fees :: "nat list result"
  be_blockhash :: "string result"
  be_lookup_table :: "string \<Rightarrow> string option result"
  be_simulate :: "versioned_tx \<Rightarrow> simulation result"
  be_serialize :: "versioned_tx \<Rightarrow> string result"

datatype nonce_input = NText string | NNum double

text \<open>An intent with the fields of an escrow transfer that are no text.\<close>

record build_input =
  bi_input :: analyze_input
  bi_nonce :: "nonce_input option"
  bi_claimableAfter :: "double option"
  bi_claimableUntil :: "double option"

record build_context =
  bc_feePayer :: string
  bc_signer :: string
  bc_chain :: string
  bc_network :: string

record program_build =
  pb_instructions :: "tx_instruction list"
  pb_addressLookupTableAddresses :: "string list option"

definition field_key :: "build_env \<Rightarrow> string option \<Rightarrow> string result" where
  "field_key env x = (case x of None \<Rightarrow> Inl (JsError (sv_pk_error (be_sol env))) | Some s \<Rightarrow> sol_key (be_sol env) s)"

definition or_default :: "'a option \<Rightarrow> 'a \<Rightarrow> 'a" where
  "or_default x d = (case x of None \<Rightarrow> d | Some y \<Rightarrow> y)"

section \<open>Native transfers\<close>

definition resolveMint :: "action_intent \<Rightarrow> build_context \<Rightarrow> string option result" where
  "resolveMint a ctx =
     (case (truthy_string (get (ac_text a) ''token''), truthy_string (get (ac_text a) ''tokenSymbol'')) of
        (Some t, _) \<Rightarrow> Inr (Some t)
      | (None, None) \<Rightarrow> Inr None
      | (None, Some s) \<Rightarrow>
          if toUpperCase s = ''SOL'' then Inr None
          else (case token_resolveSymbol (createTokenRegistry None) (bc_chain ctx) (bc_network ctx) (toUpperCase s) of
             None \<Rightarrow> Inl (JsError (''Unable to resolve tokenSymbol '' @ quoted s @ '' on '' @ bc_chain ctx @ '':''
                       @ bc_network ctx @ ''; provide intent.token''))
           | Some t \<Rightarrow> Inr (Some (ti_address t))))"

definition destination_setup :: "build_env \<Rightarrow> build_context \<Rightarrow> string \<Rightarrow> string \<Rightarrow> string \<Rightarrow> tx_instruction list" where
  "destination_setup env ctx destinationAta recipient mint =
     (case be_getAccount env destinationAta of
        Inl e \<Rightarrow> [be_create_ata env (bc_feePayer ctx) destinationAta recipient mint]
      | Inr u \<Rightarrow> [])"

definition build_spl_transfer ::
    "build_env \<Rightarrow> build_context \<Rightarrow> string \<Rightarrow> string \<Rightarrow> string \<Rightarrow> string \<Rightarrow> tx_instruction list result" where
  "build_spl_transfer env ctx sender recipient amount tokenMint =
     bind_result (sol_key (be_sol env) tokenMint) (\<lambda>mint.
     bind_result (sv_getMint (be_sol env) mint) (\<lambda>decimals.
     bind_result (toBaseUnits amount decimals) (\<lambda>rawAmount.
       let sourceAta = sv_ata (be_sol env) mint sender; destinationAta = sv_ata (be_sol env) mint recipient
       in bind_result (be_getAccount env sourceAta) (\<lambda>u.
          bind_result (be_spl_transfer env sourceAta destinationAta sender rawAmount) (\<lambda>ix.
            Inr (destination_setup env ctx destinationAta recipient mint @ [ix]))))))"

definition native_buildTransfer :: "build_env \<Rightarrow> action_intent \<Rightarrow> build_context \<Rightarrow> program_build result" where
  "native_buildTransfer env a ctx =
     bind_result (field_key env (get (ac_text a) ''from'')) (\<lambda>sender.
     bind_result (field_key env (get (ac_text a) ''to'')) (\<lambda>recipient.
       if sender \<noteq> bc_feePayer ctx then Inl (JsError ''For native transfers in v1, feePayer must equal intent.from'')
       else
         bind_result (requireExactAmount (get (ac_amounts a) ''amount'')) (\<lambda>amount.
         bind_result (resolveMint a ctx) (\<lambda>tokenMint.
         bind_result (case tokenMint of
             None \<Rightarrow> bind_result (toBaseUnits amount 9) (\<lambda>lamports.
                bind_result (be_system_transfer env sender recipient lamports) (\<lambda>ix. Inr [ix]))
           | Some mint \<Rightarrow> build_spl_transfer env ctx sender recipient amount mint) (\<lambda>ixs.
           Inr \<lparr>pb_instructions = ixs, pb_addressLookupTableAddresses = None\<rparr>)))))"

definition native_build :: "build_env \<Rightarrow> action_intent \<Rightarrow> build_context \<Rightarrow> program_build result" where
  "native_build env a ctx =
     (if ac_action a \<noteq> ''transfer''
      then Inl (JsError (''Action '' @ quoted (ac_action a) @ '' is not supported by NativeBuilder''))
      else native_buildTransfer env a ctx)"

section \<open>Escrow transfers\<close>

definition generateNamedPoolId :: "build_env \<Rightarrow> string \<Rightarrow> string" where
  "generateNamedPoolId env name = pk_bytes (sv_web3 (be_sol env)) (take 32 (be_sha256 env (utf8_bytes name)))"

definition resolvePoolPda :: "build_env \<Rightarrow> action_intent \<Rightarrow> string result" where
  "resolvePoolPda env a =
     (case truthy_string (get (ac_text a) ''poolPda'') of
        Some p \<Rightarrow> sol_key (be_sol env) p
      | None \<Rightarrow>
          (case truthy_string (be_pool_name env) of
             None \<Rightarrow> Inl (JsError ''Handshake build requires intent.poolPda or HANDSHAKE_POOL_NAME in environment'')
           | Some name \<Rightarrow> Inr (findPoolPda (be_anchor env) (generateNamedPoolId env name))))"

definition resolveNonce :: "build_env \<Rightarrow> int \<Rightarrow> nonce_input option \<Rightarrow> int result" where
  "resolveNonce env now nonce =
     (case nonce of
        None \<Rightarrow> aw_bn (be_anchor env) (num_of_int now)
      | Some (NNum n) \<Rightarrow> aw_bn (be_anchor env) n
      | Some (NText s) \<Rightarrow>
          if s = [] \<or> \<not> list_all is_digit s
          then Inl (JsError (''Invalid nonce '' @ quoted s @ ''. Expected an unsigned integer.''))
          else Inr (int (nat_of_digits s)))"

definition buildCreateTransferIx :: "build_env \<Rightarrow> int \<Rightarrow> build_input \<Rightarrow> action_intent \<Rightarrow> build_context \<Rightarrow> program_build result" where
  "buildCreateTransferIx env now i a ctx =
     bind_result (field_key env (get (ac_text a) ''from'')) (\<lambda>sender.
       if sender \<noteq> bc_feePayer ctx then Inl (JsError ''For handshake transfers in v1, feePayer must equal intent.from'')
       else
         bind_result (field_key env (get (ac_text a) ''to'')) (\<lambda>recipient.
         bind_result (resolvePoolPda env a) (\<lambda>poolPda.
           case fetchPool (be_anchor env) poolPda of
             None \<Rightarrow> Inl (JsError (''Pool '' @ poolPda @ '' not found on-chain''))
           | Some pool \<Rightarrow>
               bind_result (sv_getMint (be_sol env) (pl_mint pool)) (\<lambda>decimals.
               bind_result (requireExactAmount (get (ac_amounts a) ''amount'')) (\<lambda>amount.
               bind_result (toBaseUnits amount decimals) (\<lambda>amountRaw.
               bind_result (resolveNonce env now (bi_nonce i)) (\<lambda>nonce.
               bind_result (getCreateTransferIx (be_anchor env) (bc_feePayer ctx) recipient poolPda nonce amountRaw
                   (or_default (get (ac_text a) ''memo'') []) (or_default (bi_claimableAfter i) (Fin 0))
                   (or_default (bi_claimableUntil i) (Fin 0)) False) (\<lambda>(pda, ix).
                 Inr \<lparr>pb_instructions = [be_anchor_ix env ix], pb_addressLookupTableAddresses = None\<rparr>))))))))"

definition handshake_build :: "build_env \<Rightarrow> int \<Rightarrow> build_input \<Rightarrow> action_intent \<Rightarrow> build_context \<Rightarrow> program_build result" where
  "handshake_build env now i a ctx =
     (if ac_action a \<noteq> ''transfer''
      then Inl (JsError (''Action '' @ quoted (ac_action a) @ '' is not supported by HandshakeBuilder''))
      else buildCreateTransferIx env now i a ctx)"

section \<open>Swaps\<close>

definition resolveTokenRef :: "token_ref option \<Rightarrow> string \<Rightarrow> string \<Rightarrow> resolved_ref result" where
  "resolveTokenRef ref chain network =
     (case ref of
        None \<Rightarrow> Inl (JsError no_token_text)
      | Some r \<Rightarrow>
          let symbol = ref_symbol r; token = truthy_string (kr_token r);
              fromSymbol = (case symbol of None \<Rightarrow> None | Some s \<Rightarrow> symbol_entry chain network s)
          in (case (symbol, fromSymbol, token) of
                (None, _, None) \<Rightarrow> Inl (JsError ''SwapIntent token reference must include token or tokenSymbol'')
              | (Some s, None, _) \<Rightarrow>
                  Inl (JsError (''Could not resolve token symbol '' @ quoted s @ '' on '' @ chain @ '':'' @ network))
              | (Some s, Some (a, d), Some t) \<Rightarrow>
                  if a \<noteq> t
                  then Inl (JsError (''Swap token mismatch for symbol '' @ quoted s @ '': '' @ t @ '' != '' @ a @ '' on '' @ chain
                         @ '':'' @ network))
                  else Inr \<lparr>rr_address = t, rr_decimals = ref_decimals chain network t fromSymbol\<rparr>
              | (None, _, Some t) \<Rightarrow> Inr \<lparr>rr_address = t, rr_decimals = ref_decimals chain network t fromSymbol\<rparr>
              | (Some s, Some (a, d), None) \<Rightarrow> Inr \<lparr>rr_address = a, rr_decimals = Some d\<rparr>))"

definition build_slippage :: "double option \<Rightarrow> int result" where
  "build_slippage slippage =
     (case slippage of
        None \<Rightarrow> Inr 10
      | Some s \<Rightarrow>
          if \<not> valid_slippage s
          then Inl (JsError (''Invalid slippage '' @ quoted (num_to_string s) @ ''. Expected a decimal value between 0 and 1.''))
          else Inr (math_round (d_mul s (Fin 10000))))"

fun amount_truthy :: "amount_constraint option \<Rightarrow> bool" where
  "amount_truthy None = False"
| "amount_truthy (Some (Plain (SStr s))) = (s \<noteq> [])"
| "amount_truthy (Some (Plain (SNum s))) = (s \<noteq> ''0'' \<and> s \<noteq> ''NaN'')"
| "amount_truthy (Some (Bounded b)) = True"

definition jupiter_build :: "build_env \<Rightarrow> build_input \<Rightarrow> action_intent \<Rightarrow> build_context \<Rightarrow> program_build result" where
  "jupiter_build env i a ctx =
     (if ac_action a \<noteq> ''swap''
      then Inl (JsError (''JupiterBuilder: action '' @ quoted (ac_action a) @ '' not supported. Supported: swap''))
      else if bc_network ctx \<noteq> ''mainnet''
      then Inl (JsError ''Jupiter swap build is currently supported only on solana:mainnet'')
      else if \<not> amount_truthy (get (ac_amounts a) ''amountIn'')
      then Inl (JsError ''Swap build requires amountIn as an exact amount'')
      else
        bind_result (resolveTokenRef (an_tokenIn (bi_input i)) (bc_chain ctx) (bc_network ctx)) (\<lambda>tokenIn.
        bind_result (resolveTokenRef (an_tokenOut (bi_input i)) (bc_chain ctx) (bc_network ctx)) (\<lambda>tokenOut.
        bind_result (requireExactAmount (get (ac_amounts a) ''amountIn'')) (\<lambda>amountIn.
        bind_result (resolveSwapAmountBaseUnits (be_sol env) amountIn tokenIn) (\<lambda>amountInBaseUnits.
        bind_result (build_slippage (an_slippage (bi_input i))) (\<lambda>slippageBps.
        bind_result (getQuote (sv_jupiter (be_sol env)) (rr_address tokenIn) (rr_address tokenOut)
            (int_str amountInBaseUnits) slippageBps) (\<lambda>quote.
        bind_result (getSwapInstructions (sv_jupiter (be_sol env)) quote (bc_signer ctx)) (\<lambda>sw.
          Inr \<lparr>pb_instructions = sw_instructions sw,
               pb_addressLookupTableAddresses = Some (sw_addressLookupTableAddresses sw)\<rparr>))))))))"

section \<open>Assembling\<close>

text \<open>\<open>Math.ceil\<close>; an average of unsigned fees is finite.\<close>

definition math_ceil :: "double \<Rightarrow> int" where
  "math_ceil x = (case x of Fin r \<Rightarrow> \<lceil>r\<rceil> | _ \<Rightarrow> 0)"

definition average_fee :: "nat list \<Rightarrow> double" where
  "average_fee fees = d_div (foldl (\<lambda>sum fee. d_add sum (num_of_int (int fee))) (Fin 0) fees) (num_of_int (int (length fees)))"

definition getPriorityFee :: "build_env \<Rightarrow> int" where
  "getPriorityFee env =
     (case be_fees env of
        Inl e \<Rightarrow> 1000
      | Inr fees \<Rightarrow> if fees = [] then 1000 else max 1000 (math_ceil (d_mul (average_fee fees) (round64 (12 / 10)))))"

definition buildInstructionList :: "build_env \<Rightarrow> tx_instruction list \<Rightarrow> int \<Rightarrow> nat option \<Rightarrow> tx_instruction list" where
  "buildInstructionList env instructions priorityFee computeUnits =
     (if 0 < priorityFee then [be_unit_price env priorityFee] else [])
     @ (case computeUnits of None \<Rightarrow> [] | Some u \<Rightarrow> if u = 0 then [] else [be_unit_limit env u])
     @ filter (\<lambda>ix. xi_programId ix \<noteq> COMPUTE_BUDGET) instructions"

definition buildVersionedTx :: "build_env \<Rightarrow> string \<Rightarrow> tx_instruction list \<Rightarrow> string list \<Rightarrow> versioned_tx result" where
  "buildVersionedTx env feePayer instructions tables =
     bind_result (be_blockhash env) (\<lambda>b.
       Inr \<lparr>vt_payer = feePayer, vt_blockhash = b, vt_instructions = instructions, vt_tables = tables\<rparr>)"

definition resolveSimulatedComputeUnits :: "build_env \<Rightarrow> versioned_tx \<Rightarrow> nat result" where
  "resolveSimulatedComputeUnits env tx =
     bind_result (be_simulate env tx) (\<lambda>sim.
       if sm_err sim
       then Inl (JsError (''Transaction simulation failed: '' @ join [CHR 0x0A] (or_list (sm_logs sim))))
       else Inr (or_default (sm_unitsConsumed sim) 200000 + 60000))"

definition resolveAddressLookupTables :: "build_env \<Rightarrow> string list option \<Rightarrow> string list result" where
  "resolveAddressLookupTables env addresses =
     bind_result (map_result (\<lambda>a. bind_result (sol_key (be_sol env) a) (be_lookup_table env)) (or_list addresses)) (\<lambda>tables.
       Inr (concat (map opt_list tables)))"

record assemble_result =
  as_transaction :: string
  as_message :: versioned_tx
  as_computeUnits :: nat
  as_priorityFee :: int

definition assemble :: "build_env \<Rightarrow> tx_instruction list \<Rightarrow> string \<Rightarrow> string list option \<Rightarrow> assemble_result result" where
  "assemble env instructions feePayer lookups =
     bind_result (resolveAddressLookupTables env lookups) (\<lambda>tables.
       let fee = getPriorityFee env
       in bind_result (buildVersionedTx env feePayer (buildInstructionList env instructions fee None) tables) (\<lambda>first.
          bind_result (resolveSimulatedComputeUnits env first) (\<lambda>units.
          bind_result (buildVersionedTx env feePayer (buildInstructionList env instructions fee (Some units)) tables) (\<lambda>final.
          bind_result (be_serialize env final) (\<lambda>text.
            Inr \<lparr>as_transaction = text, as_message = final, as_computeUnits = units, as_priorityFee = fee\<rparr>)))))"

section \<open>The entry point\<close>

record build_metadata =
  bm_chain :: string
  bm_network :: string
  bm_program :: string
  bm_programName :: string
  bm_estimatedFee :: string

record build_result =
  br_transaction :: string
  br_message :: versioned_tx
  br_intent :: intent2
  br_metadata :: build_metadata
  br_analysis :: "analyze_result option"

definition text_fields :: "action_intent \<Rightarrow> string option" where
  "text_fields a = (case get (ac_text a) ''from'' of Some s \<Rightarrow> Some s | None \<Rightarrow> get (ac_text a) ''owner'')"

definition getFeePayer :: "action_intent \<Rightarrow> string result" where
  "getFeePayer a =
     (case text_fields a of None \<Rightarrow> Inl (JsError ''Unable to infer fee payer. Provide opts.feePayer.'') | Some s \<Rightarrow> Inr s)"

definition getSigner :: "action_intent \<Rightarrow> string \<Rightarrow> string" where
  "getSigner a fallback = or_default (text_fields a) fallback"

definition resolveBuilderName :: "intent2 \<Rightarrow> string \<Rightarrow> string \<Rightarrow> string \<Rightarrow> string result" where
  "resolveBuilderName i chain network action =
     (case program_mismatch i chain network of
        Some d \<Rightarrow> Inl (JsError d)
      | None \<Rightarrow>
          (case (truthy_string (in_programName i), truthy_string (in_program i)) of
             (Some name, _) \<Rightarrow> Inr name
           | (None, Some p) \<Rightarrow>
               if p = SYSTEM_PROGRAM \<or> p = TOKEN_PROGRAM then Inr ''native''
               else (case resolveProgramAddress chain network p of
                  None \<Rightarrow> Inl (JsError (''Unsupported Solana program address '' @ quoted p @ '' for build v1''))
                | Some r \<Rightarrow> Inr (pi_name r))
           | (None, None) \<Rightarrow> Inr (if action = ''swap'' then ''jupiter'' else ''native'')))"

definition resolveMetadataProgram :: "intent2 \<Rightarrow> string \<Rightarrow> action_intent \<Rightarrow> string \<Rightarrow> string \<Rightarrow> string" where
  "resolveMetadataProgram i builderName a chain network =
     (case truthy_string (in_program i) of
        Some p \<Rightarrow> p
      | None \<Rightarrow>
          (case (if builderName \<noteq> ''native'' then resolveProgramName chain network builderName else None) of
             Some r \<Rightarrow> pi_address r
           | None \<Rightarrow>
               if get (ac_text a) ''token'' \<noteq> None
                  \<or> (case get (ac_text a) ''tokenSymbol'' of None \<Rightarrow> False | Some s \<Rightarrow> toUpperCase s \<noteq> ''SOL'')
               then TOKEN_PROGRAM else SYSTEM_PROGRAM))"

definition run_builder ::
    "build_env \<Rightarrow> int \<Rightarrow> build_input \<Rightarrow> action_intent \<Rightarrow> string \<Rightarrow> build_context \<Rightarrow> program_build result" where
  "run_builder env now i a name ctx =
     (if name = ''native'' then native_build env a ctx
      else if name = ''handshake'' then handshake_build env now i a ctx
      else if name = ''jupiter'' then jupiter_build env i a ctx
      else Inl (JsError (''No Solana builder registered for program '' @ quoted name)))"

definition build_payer :: "build_env \<Rightarrow> action_intent \<Rightarrow> string option \<Rightarrow> string result" where
  "build_payer env a feePayer =
     (case truthy_string feePayer of
        Some s \<Rightarrow> sol_key (be_sol env) s
      | None \<Rightarrow> bind_result (getFeePayer a) (sol_key (be_sol env)))"

definition build :: "build_env \<Rightarrow> int \<Rightarrow> build_input \<Rightarrow> string option \<Rightarrow> build_result result" where
  "build env now i payer =
     (let it = an_intent (bi_input i); pc = parseChain (in_chain it); chain = pc_chain pc; network = pc_network pc in
      if chain \<noteq> ''solana'' then Inl (JsError (''SolanaBuilder only handles solana intents, got '' @ quoted chain))
      else case in_body it of
        Compound as \<Rightarrow> Inl (JsError ''Compound intents are not supported by build v1; provide a single intent action.'')
      | Single a \<Rightarrow>
          bind_result (build_payer env a payer) (\<lambda>feePayer.
          bind_result (sol_key (be_sol env) (getSigner a feePayer)) (\<lambda>signer.
          bind_result (resolveBuilderName it chain network (ac_action a)) (\<lambda>name.
          bind_result (run_builder env now i a name
              \<lparr>bc_feePayer = feePayer, bc_signer = signer, bc_chain = chain, bc_network = network\<rparr>) (\<lambda>result.
          bind_result (assemble env (pb_instructions result) feePayer (pb_addressLookupTableAddresses result)) (\<lambda>as.
            Inr \<lparr>br_transaction = as_transaction as, br_message = as_message as, br_intent = it,
                 br_metadata = \<lparr>bm_chain = chain, bm_network = network,
                   bm_program = resolveMetadataProgram it name a chain network,
                   bm_programName = or_default (truthy_string (in_programName it)) name,
                   bm_estimatedFee = int_str (as_priorityFee as) @ '' microLamports''\<rparr>,
                 br_analysis = None\<rparr>))))))"

definition build_service :: "build_env \<Rightarrow> int \<Rightarrow> build_input \<Rightarrow> string option \<Rightarrow> build_result result" where
  "build_service env now i payer =
     (let chain = pc_chain (parseChain (in_chain (an_intent (bi_input i)))) in
      if chain = ''solana'' then build env now i payer
      else Inl (JsError (''No build engine available for chain '' @ quoted chain)))"

definition build_route :: "build_env \<Rightarrow> int \<Rightarrow> build_input option \<Rightarrow> bool \<Rightarrow> string option \<Rightarrow> http_error + build_result" where
  "build_route env now i wants_analysis payer =
     (case i of
        None \<Rightarrow> Inl (BadRequest ''MISSING_INTENT'' ''intent is required'')
      | Some inp \<Rightarrow>
          if in_chain (an_intent (bi_input inp)) = [] then Inl (BadRequest ''MISSING_CHAIN'' ''intent.chain is required'')
          else (case bind_result (build_service env now inp payer) (\<lambda>b.
                    if wants_analysis
                    then bind_result (analyze_service (be_sol env) (br_transaction b) (bi_input inp) None) (\<lambda>an.
                      Inr (b\<lparr>br_analysis := Some an\<rparr>))
                    else Inr b) of
             Inl e \<Rightarrow> Inl (BadRequest ''INTENT_BUILD_FAILED'' (if err_message e = [] then ''Intent build failed'' else err_message e))
           | Inr b \<Rightarrow> Inr b))"

section \<open>The assembled transaction\<close>

lemma assemble_parts:
  assumes "assemble env ixs payer lookups = Inr r"
  obtains tables bh bh' sim where "resolveAddressLookupTables env lookups = Inr tables"
    and "be_simulate env \<lparr>vt_payer = payer, vt_blockhash = bh, vt_instructions = buildInstructionList env ixs (getPriorityFee env) None,
           vt_tables = tables\<rparr> = Inr sim" and "\<not> sm_err sim"
    and "as_computeUnits r = or_default (sm_unitsConsumed sim) 200000 + 60000"
    and "as_message r = \<lparr>vt_payer = payer, vt_blockhash = bh',
           vt_instructions = buildInstructionList env ixs (getPriorityFee env) (Some (as_computeUnits r)), vt_tables = tables\<rparr>"
    and "be_serialize env (as_message r) = Inr (as_transaction r)"
  using assms by (auto simp: assemble_def buildVersionedTx_def resolveSimulatedComputeUnits_def bind_result_def Let_def
      split: sum.splits if_splits)

lemma fee_positive: "1000 \<le> getPriorityFee env"
  by (simp add: getPriorityFee_def split: sum.split)

lemma instruction_list:
  assumes "0 < units"
  shows "buildInstructionList env ixs (getPriorityFee env) (Some units)
    = [be_unit_price env (getPriorityFee env), be_unit_limit env units] @ filter (\<lambda>ix. xi_programId ix \<noteq> COMPUTE_BUDGET) ixs"
  using fee_positive [of env] assms by (simp add: buildInstructionList_def)

definition context_of :: "build_input \<Rightarrow> string \<Rightarrow> string \<Rightarrow> build_context" where
  "context_of i fp sg = \<lparr>bc_feePayer = fp, bc_signer = sg, bc_chain = ''solana'',
     bc_network = pc_network (parseChain (in_chain (an_intent (bi_input i))))\<rparr>"

lemma build_parts:
  assumes "build env now i payer = Inr b"
  obtains a fp sg name p as where "in_body (an_intent (bi_input i)) = Single a"
    and "build_payer env a payer = Inr fp"
    and "resolveBuilderName (an_intent (bi_input i)) ''solana'' (bc_network (context_of i fp sg)) (ac_action a) = Inr name"
    and "run_builder env now i a name (context_of i fp sg) = Inr p"
    and "assemble env (pb_instructions p) fp (pb_addressLookupTableAddresses p) = Inr as"
    and "br_transaction b = as_transaction as" and "br_message b = as_message as"
proof -
  note e = assms [unfolded build_def Let_def]
  from e have sol: "pc_chain (parseChain (in_chain (an_intent (bi_input i)))) = ''solana''" by (auto split: if_splits)
  from e sol obtain a where a: "in_body (an_intent (bi_input i)) = Single a" by (auto split: intent_body.splits)
  from e sol a obtain fp sg name p as where "build_payer env a payer = Inr fp"
    and "resolveBuilderName (an_intent (bi_input i)) ''solana'' (bc_network (context_of i fp sg)) (ac_action a) = Inr name"
    and "run_builder env now i a name (context_of i fp sg) = Inr p"
    and "assemble env (pb_instructions p) fp (pb_addressLookupTableAddresses p) = Inr as"
    and "br_transaction b = as_transaction as" and "br_message b = as_message as"
    by (fastforce simp: bind_result_def context_of_def split: sum.splits)
  with a show ?thesis by (rule that)
qed

text \<open>C6. Structure of a built transaction: it is the serialisation of a message paid by the fee payer, whose
  instructions are one price of at least 1000 micro-lamports, one limit of compute units, and then the
  program builder's instructions without compute-budget ones; the same list without the limit has been
  simulated without error, and the limit is what the simulation consumed (200000 when it does not say)
  plus 60000. So no transaction is returned whose simulation failed.\<close>

theorem build_structure:
  assumes "build env now i payer = Inr b"
  shows "\<exists>a name ctx p fee units sim tx0. in_body (an_intent (bi_input i)) = Single a
    \<and> run_builder env now i a name ctx = Inr p
    \<and> be_serialize env (br_message b) = Inr (br_transaction b) \<and> vt_payer (br_message b) = bc_feePayer ctx
    \<and> 1000 \<le> fee
    \<and> vt_instructions (br_message b) = [be_unit_price env fee, be_unit_limit env units]
         @ filter (\<lambda>ix. xi_programId ix \<noteq> COMPUTE_BUDGET) (pb_instructions p)
    \<and> be_simulate env tx0 = Inr sim \<and> \<not> sm_err sim \<and> units = or_default (sm_unitsConsumed sim) 200000 + 60000
    \<and> vt_instructions tx0 = be_unit_price env fee # filter (\<lambda>ix. xi_programId ix \<noteq> COMPUTE_BUDGET) (pb_instructions p)"
proof -
  obtain a fp sg name p as where b: "in_body (an_intent (bi_input i)) = Single a"
      "run_builder env now i a name (context_of i fp sg) = Inr p"
    and asm: "assemble env (pb_instructions p) fp (pb_addressLookupTableAddresses p) = Inr as"
    and br: "br_transaction b = as_transaction as" "br_message b = as_message as"
    by (rule build_parts [OF assms])
  obtain tables bh bh' sim where sim: "be_simulate env \<lparr>vt_payer = fp, vt_blockhash = bh,
        vt_instructions = buildInstructionList env (pb_instructions p) (getPriorityFee env) None, vt_tables = tables\<rparr> = Inr sim"
      "\<not> sm_err sim" "as_computeUnits as = or_default (sm_unitsConsumed sim) 200000 + 60000"
    and m: "as_message as = \<lparr>vt_payer = fp, vt_blockhash = bh',
           vt_instructions = buildInstructionList env (pb_instructions p) (getPriorityFee env) (Some (as_computeUnits as)),
           vt_tables = tables\<rparr>"
    and s: "be_serialize env (as_message as) = Inr (as_transaction as)"
    by (rule assemble_parts [OF asm])
  have "buildInstructionList env ixs (getPriorityFee env) None
      = be_unit_price env (getPriorityFee env) # filter (\<lambda>ix. xi_programId ix \<noteq> COMPUTE_BUDGET) ixs" for ixs
    using fee_positive [of env] by (simp add: buildInstructionList_def)
  then show ?thesis
    using b br sim m s fee_positive [of env] instruction_list [of "as_computeUnits as" env "pb_instructions p"]
    by (intro exI [of _ a] exI [of _ name] exI [of _ "context_of i fp sg"] exI [of _ p] exI [of _ "getPriorityFee env"]
          exI [of _ "as_computeUnits as"] exI [of _ sim] exI [of _ "\<lparr>vt_payer = fp, vt_blockhash = bh,
        vt_instructions = buildInstructionList env (pb_instructions p) (getPriorityFee env) None, vt_tables = tables\<rparr>"]) (simp add: context_of_def)
qed

section \<open>A built SOL transfer is recognised\<close>

text \<open>Documented behaviour of web3.js: the layout of the three instructions, and that a serialised message
  without lookup tables is read back as its payer and its instructions.\<close>

definition web3_layout :: "build_env \<Rightarrow> bool" where
  "web3_layout env \<longleftrightarrow>
     (\<forall>S R n ix. be_system_transfer env S R n = Inr ix \<longrightarrow> 0 \<le> n \<and> n < 2 ^ 64
        \<and> ix = \<lparr>xi_programId = SYSTEM_PROGRAM, xi_keys = [(S, True, True), (R, False, True)], xi_data = system_transfer_data (nat n)\<rparr>)
   \<and> (\<forall>p. be_unit_price env p = \<lparr>xi_programId = COMPUTE_BUDGET, xi_keys = [], xi_data = 3 # enc_u64 (nat p)\<rparr>)
   \<and> (\<forall>u. be_unit_limit env u = \<lparr>xi_programId = COMPUTE_BUDGET, xi_keys = [], xi_data = 2 # le_bytes 4 u\<rparr>)"

definition raw_instruction :: "tx_instruction \<Rightarrow> raw_ix" where
  "raw_instruction ix = \<lparr>ri_programId = xi_programId ix, ri_accounts = map fst (xi_keys ix), ri_data = xi_data ix\<rparr>"

definition web3_reads_back :: "build_env \<Rightarrow> bool" where
  "web3_reads_back env \<longleftrightarrow>
     (\<forall>vt text. vt_tables vt = [] \<and> be_serialize env vt = Inr text \<longrightarrow>
        deserializeTx (sv_web3 (be_sol env)) text = Inr (vt_payer vt, map raw_instruction (vt_instructions vt)))"

lemma le_len: "length (le_bytes n v) = n"
  by simp

lemma budget_decode:
  "\<exists>ps. run_decoder pk ''compute-budget'' (3 # enc_u64 v) accounts cache = Inr (Some (decd ''set_compute_unit_price'' ps))"
  "\<exists>ps. run_decoder pk ''compute-budget'' (2 # le_bytes 4 u) accounts cache = Inr (Some (decd ''set_compute_unit_limit'' ps))"
  by (auto simp: run_decoder_def decodeComputeBudget_def byte_at_def bind_result_def readBigUInt64LE_def readUInt32LE_def
      read_le_def enc_u64_def)

lemma budget_entry: "\<exists>e. get (reg_programs REGISTRY) COMPUTE_BUDGET = Some e \<and> pe_decoder e = ''compute-budget''"
  by (simp add: REGISTRY_def pe_def SYSTEM_PROGRAM_def TOKEN_PROGRAM_def COMPUTE_BUDGET_def obj_simps)

lemma three_instructions:
  assumes an: "analyzeTransaction w tx opts = Inr an" and cfg: "op_config opts = None"
    and de: "deserializeTx w tx = Inr (fp, [\<lparr>ri_programId = COMPUTE_BUDGET, ri_accounts = [], ri_data = 3 # enc_u64 v\<rparr>,
        \<lparr>ri_programId = COMPUTE_BUDGET, ri_accounts = [], ri_data = 2 # le_bytes 4 u\<rparr>,
        \<lparr>ri_programId = SYSTEM_PROGRAM, ri_accounts = [S, R], ri_data = system_transfer_data n\<rparr>])" and n: "n < 2 ^ 64"
  obtains i0 i1 i2 where "ta_instructions an = [i0, i1, i2]" and "ia_type i0 = Some ''set_compute_unit_price''"
    and "ia_type i1 = Some ''set_compute_unit_limit''" and "ia_type i2 = Some ''transfer''"
    and "ia_params i2 = [(''from'', JStr S), (''to'', JStr R), (''lamports'', JStr (nat_str n)), (''sol'', JStr (sol_text (int n)))]"
    and "error_free an"
proof -
  obtain e1 e2 where e1: "get (reg_programs (loadRegistry (op_config opts))) COMPUTE_BUDGET = Some e1" "pe_decoder e1 = ''compute-budget''"
    and e2: "get (reg_programs (loadRegistry (op_config opts))) SYSTEM_PROGRAM = Some e2" "pe_decoder e2 = ''system''"
    using budget_entry system_entry by (auto simp: cfg loadRegistry_None)
  note en = analysis_entries [OF an de]
  have len: "length (ta_instructions an) = 3" using en by simp
  then obtain i0 i1 i2 where ixs: "ta_instructions an = [i0, i1, i2]"
    by (auto simp: numeral_3_eq_3 length_Suc_conv)
  let ?cache = "analysis_cache w (loadRegistry (op_config opts)) (op_connection opts)
    [\<lparr>ri_programId = COMPUTE_BUDGET, ri_accounts = [], ri_data = 3 # enc_u64 v\<rparr>,
        \<lparr>ri_programId = COMPUTE_BUDGET, ri_accounts = [], ri_data = 2 # le_bytes 4 u\<rparr>,
        \<lparr>ri_programId = SYSTEM_PROGRAM, ri_accounts = [S, R], ri_data = system_transfer_data n\<rparr>]"
  have d0: "(ia_type i0, ia_params i0) = decodeInstruction (pk_bytes w) ''compute-budget'' (3 # enc_u64 v) [] ?cache"
    using en [THEN conjunct2, THEN conjunct2, THEN spec [of _ 0]] e1 ixs by (simp add: Let_def)
  have d1: "(ia_type i1, ia_params i1) = decodeInstruction (pk_bytes w) ''compute-budget'' (2 # le_bytes 4 u) [] ?cache"
    using en [THEN conjunct2, THEN conjunct2, THEN spec [of _ 1]] e1 ixs by (simp add: Let_def)
  have d2: "(ia_type i2, ia_params i2) = decodeInstruction (pk_bytes w) ''system'' (system_transfer_data n) [S, R] ?cache"
    using en [THEN conjunct2, THEN conjunct2, THEN spec [of _ 2]] e2 ixs by (simp add: Let_def)
  have t: "ia_type i0 = Some ''set_compute_unit_price''" "ia_type i1 = Some ''set_compute_unit_limit''"
    using d0 d1 budget_decode(1) [of "pk_bytes w" v "[]" ?cache] budget_decode(2) [of "pk_bytes w" u "[]" ?cache]
    by (auto simp: decodeInstruction_def shown_def)
  have "ia_type i2 = Some ''transfer''"
    "ia_params i2 = [(''from'', JStr S), (''to'', JStr R), (''lamports'', JStr (nat_str n)), (''sol'', JStr (sol_text (int n)))]"
    using d2 system_transfer_decode64 [OF n, of "pk_bytes w" S R ?cache] by (simp_all add: decodeInstruction_def shown_def)
  moreover have "error_free an"
  proof -
    let ?raws = "[\<lparr>ri_programId = COMPUTE_BUDGET, ri_accounts = [], ri_data = 3 # enc_u64 v\<rparr>,
        \<lparr>ri_programId = COMPUTE_BUDGET, ri_accounts = [], ri_data = 2 # le_bytes 4 u\<rparr>,
        \<lparr>ri_programId = SYSTEM_PROGRAM, ri_accounts = [S, R], ri_data = system_transfer_data n\<rparr>]"
    have "get (reg_programs (loadRegistry (op_config opts))) (ri_programId (?raws ! j)) \<noteq> None" if "j < length ?raws" for j
    proof -
      have "j = 0 \<or> j = 1 \<or> j = 2" using that by auto
      then show ?thesis using e1(1) e2(1) by auto
    qed
    then show ?thesis using error_flags_iff [OF an de] unfolding error_free_def by blast
  qed
  ultimately show ?thesis using ixs t that by blast
qed

lemma transfer_with_budget_matches:
  assumes an: "analyzeTransaction w tx opts = Inr an" "error_free an" "ta_instructions an = [i0, i1, i2]"
    and ty: "ia_type i0 = Some ''set_compute_unit_price''" "ia_type i1 = Some ''set_compute_unit_limit''" "ia_type i2 = Some ''transfer''"
    and f: "fields_agree a (ia_params i2) ''solana''"
    and i: "on_solana i" "expected_of i = Inr None" "getActions i = [a]" "ac_action a = ''transfer''"
  shows "\<exists>res. verifyIntent w tx i opts = Inr res \<and> v2_matched res"
proof -
  have r: "renamed i0 = i0" "renamed i1 = i1" "renamed i2 = i2" using ty by (simp_all add: renamed_def rename_ix_def)
  have fi: "find_ix a [i0, i1, i2] [] = Some i2" using i(4) ty by (simp add: find_ix_def)
  have "isAncillary i0" "isAncillary i1" using ty by (simp_all add: isAncillary_def ANCILLARY_TYPES_def)
  then have "matches i an None"
    using an(2,3) ty i f by (simp add: matches_def adapt_instructions r fi pairs_agree_def action_agrees_def
        KNOWN_ACTIONS_def program_agrees_def all_accounted_def)
  then show ?thesis using verifyIntent_spec [OF an(1), of i] i by auto
qed

lemma native_sol_parts:
  assumes "native_buildTransfer env a ctx = Inr p" and "resolveMint a ctx = Inr None"
  obtains S R amount n ix where "field_key env (get (ac_text a) ''from'') = Inr S" and "field_key env (get (ac_text a) ''to'') = Inr R"
    and "S = bc_feePayer ctx" and "requireExactAmount (get (ac_amounts a) ''amount'') = Inr amount" and "toBaseUnits amount 9 = Inr n"
    and "be_system_transfer env S R n = Inr ix" and "p = \<lparr>pb_instructions = [ix], pb_addressLookupTableAddresses = None\<rparr>"
proof -
  obtain S where S: "field_key env (get (ac_text a) ''from'') = Inr S"
    using assms(1) by (auto simp: native_buildTransfer_def bind_result_Inr_iff)
  obtain R where R: "field_key env (get (ac_text a) ''to'') = Inr R" and pay: "S = bc_feePayer ctx"
    using assms(1) S by (auto simp: native_buildTransfer_def bind_result_def split: sum.splits if_splits)
  obtain amount where am: "requireExactAmount (get (ac_amounts a) ''amount'') = Inr amount"
    using assms(1) S R pay by (cases "requireExactAmount (get (ac_amounts a) ''amount'')") (simp_all add: native_buildTransfer_def bind_result_def)
  show ?thesis
    using assms S R pay am that
    by (cases "toBaseUnits amount 9"; cases "be_system_transfer env S R (projr (toBaseUnits amount 9))")
      (simp_all add: native_buildTransfer_def bind_result_def)
qed

text \<open>C7. Build and analyse fit together: when web3.js lays out and reads back messages as documented and
  public keys have one text, a SOL transfer built for an intent without a program reference is given a
  full match when it is analysed against the same intent, in strict mode as well.\<close>

theorem built_transfer_matches:
  assumes web3: "web3_layout env" "web3_reads_back env"
    and canonical: "\<forall>s k. pk_string (sv_web3 (be_sol env)) s = Some k \<longrightarrow> k = s"
    and i: "action_is ''transfer'' (an_intent (bi_input i)) = Some a" "transfers_sol a"
      "in_program (an_intent (bi_input i)) = None" "in_programName (an_intent (bi_input i)) = None"
    and b: "build env now i payer = Inr b"
    and r: "analyze (be_sol env) (br_transaction b) (bi_input i) opts = Inr r"
  shows "md_level (ar_match r) = MFull"
proof -
  let ?it = "an_intent (bi_input i)" and ?w = "sv_web3 (be_sol env)"
  obtain a' fp sg name p as where a': "in_body ?it = Single a'"
    and nm: "resolveBuilderName ?it ''solana'' (bc_network (context_of i fp sg)) (ac_action a') = Inr name"
    and p: "run_builder env now i a' name (context_of i fp sg) = Inr p"
    and asm: "assemble env (pb_instructions p) fp (pb_addressLookupTableAddresses p) = Inr as"
    and br: "br_transaction b = as_transaction as" "br_message b = as_message as"
    by (rule build_parts [OF b])
  have a: "a' = a" "ac_action a = ''transfer''" using i(1) a' by (auto simp: action_is_def split: if_splits)
  have "name = ''native''" using nm i(3,4) a by (simp add: resolveBuilderName_def program_mismatch_def truthy_string_def)
  then have nb: "native_buildTransfer env a (context_of i fp sg) = Inr p"
    using p a by (simp add: run_builder_def native_build_def)
  have "resolveMint a (context_of i fp sg) = Inr None"
    using i(2) by (auto simp: resolveMint_def transfers_sol_def split: option.splits)
  then obtain S R n ix where S: "field_key env (get (ac_text a) ''from'') = Inr S" and R: "field_key env (get (ac_text a) ''to'') = Inr R"
    and ix: "be_system_transfer env S R n = Inr ix" and pb: "p = \<lparr>pb_instructions = [ix], pb_addressLookupTableAddresses = None\<rparr>"
    using native_sol_parts [OF nb] by metis
  have ixl: "0 \<le> n" "n < 2 ^ 64" "ix = \<lparr>xi_programId = SYSTEM_PROGRAM, xi_keys = [(S, True, True), (R, False, True)],
      xi_data = system_transfer_data (nat n)\<rparr>"
    using web3(1) ix unfolding web3_layout_def by blast+
  have asm': "assemble env [ix] fp None = Inr as" using asm pb by simp
  obtain tables bh bh' sim where tb: "resolveAddressLookupTables env None = Inr tables"
    and "be_simulate env \<lparr>vt_payer = fp, vt_blockhash = bh, vt_instructions = buildInstructionList env [ix] (getPriorityFee env) None,
           vt_tables = tables\<rparr> = Inr sim" and "\<not> sm_err sim"
    and u: "as_computeUnits as = or_default (sm_unitsConsumed sim) 200000 + 60000"
    and m: "as_message as = \<lparr>vt_payer = fp, vt_blockhash = bh',
           vt_instructions = buildInstructionList env [ix] (getPriorityFee env) (Some (as_computeUnits as)), vt_tables = tables\<rparr>"
    and s: "be_serialize env (as_message as) = Inr (as_transaction as)"
    by (rule assemble_parts [OF asm'])
  have "tables = []" using tb by (simp add: resolveAddressLookupTables_def or_list_def)
  moreover have "SYSTEM_PROGRAM \<noteq> COMPUTE_BUDGET" by (simp add: SYSTEM_PROGRAM_def COMPUTE_BUDGET_def)
  ultimately have msg: "vt_payer (as_message as) = fp" "vt_tables (as_message as) = []"
      "vt_instructions (as_message as) = [be_unit_price env (getPriorityFee env), be_unit_limit env (as_computeUnits as), ix]"
    using instruction_list [of "as_computeUnits as" env "[ix]"] u by (simp_all add: m ixl(3))
  have "deserializeTx ?w (as_transaction as) = Inr (vt_payer (as_message as), map raw_instruction (vt_instructions (as_message as)))"
    using web3(2) s msg(2) unfolding web3_reads_back_def by blast
  then have de: "deserializeTx ?w (br_transaction b) = Inr (fp,
      [\<lparr>ri_programId = COMPUTE_BUDGET, ri_accounts = [], ri_data = 3 # enc_u64 (nat (getPriorityFee env))\<rparr>,
        \<lparr>ri_programId = COMPUTE_BUDGET, ri_accounts = [], ri_data = 2 # le_bytes 4 (as_computeUnits as)\<rparr>,
        \<lparr>ri_programId = SYSTEM_PROGRAM, ri_accounts = [S, R], ri_data = system_transfer_data (nat n)\<rparr>])"
    using web3(1) by (simp add: msg br ixl(3) raw_instruction_def web3_layout_def)
  have an: "analyzeTransaction ?w (br_transaction b) (connection_options (be_sol env)) = Inr (ar_raw r)"
    by (rule analyze_parts [OF r])
  have cfg: "op_config (connection_options (be_sol env)) = None" by (simp add: connection_options_def)
  have n64: "nat n < 2 ^ 64" using ixl(1,2) by (simp add: nat_less_iff)
  obtain i0 i1 i2 where ixs: "ta_instructions (ar_raw r) = [i0, i1, i2]" "ia_type i0 = Some ''set_compute_unit_price''"
      "ia_type i1 = Some ''set_compute_unit_limit''" "ia_type i2 = Some ''transfer''"
    and ps: "ia_params i2 = [(''from'', JStr S), (''to'', JStr R), (''lamports'', JStr (nat_str (nat n))), (''sol'', JStr (sol_text (int (nat n))))]"
    and ef: "error_free (ar_raw r)"
    by (rule three_instructions [OF an cfg de n64])
  have keys: "get (ac_text a) ''from'' = Some S" "get (ac_text a) ''to'' = Some R"
    using S R canonical by (auto simp: field_key_def sol_key_def split: option.splits)
  have "fields_agree a (ia_params i2) ''solana''"
    using keys by (auto simp: ps fields_agree_def ADDRESS_FIELDS_def AMOUNT_FIELDS_def address_agrees_def amount_field_agrees_def
        memo_field_agrees_def shown_amount_def human_key_def prop_of_def obj_simps text_of_def extractAmountFromHuman_def
        text_field_def split: if_splits)
  moreover have "on_solana ?it" using analyze_parts [OF r] by (metis on_solana_def)
  moreover have "getActions ?it = [a]" using action_is_actions [OF i(1)] by blast
  ultimately obtain v where v: "verifyIntent ?w (br_transaction b) ?it (connection_options (be_sol env)) = Inr v" "v2_matched v"
    using transfer_with_budget_matches [OF an ef ixs, of a ?it] no_program_ok(2) i(3,4) a(2) by blast
  have "\<not> is_swap ?it" using i(1) by (auto simp: is_swap_def action_is_def split: intent_body.splits if_splits)
  then show ?thesis using full_match_iff [OF r] v no_program_ok(1) i(3,4) by auto
qed

section \<open>Witnesses\<close>

definition price_ix :: "int \<Rightarrow> tx_instruction" where
  "price_ix p = \<lparr>xi_programId = COMPUTE_BUDGET, xi_keys = [], xi_data = 3 # enc_u64 (nat p)\<rparr>"

definition limit_ix :: "nat \<Rightarrow> tx_instruction" where
  "limit_ix u = \<lparr>xi_programId = COMPUTE_BUDGET, xi_keys = [], xi_data = 2 # le_bytes 4 u\<rparr>"

definition sol_ix :: "string \<Rightarrow> string \<Rightarrow> int \<Rightarrow> tx_instruction" where
  "sol_ix S R n = \<lparr>xi_programId = SYSTEM_PROGRAM, xi_keys = [(S, True, True), (R, False, True)], xi_data = system_transfer_data (nat n)\<rparr>"

definition sample_vt :: versioned_tx where
  "sample_vt = \<lparr>vt_payer = ''S'', vt_blockhash = ''hash'', vt_instructions = [price_ix 1000, limit_ix 60300, sol_ix ''S'' ''R'' 1000000000],
     vt_tables = []\<rparr>"

definition sample_built :: message where
  "sample_built = \<lparr>msg_keys = [''S'', ''R'', COMPUTE_BUDGET, SYSTEM_PROGRAM],
     msg_instructions = [\<lparr>ci_program = 2, ci_accounts = [], ci_data = xi_data (price_ix 1000)\<rparr>,
       \<lparr>ci_program = 2, ci_accounts = [], ci_data = xi_data (limit_ix 60300)\<rparr>,
       \<lparr>ci_program = 3, ci_accounts = [0, 1], ci_data = xi_data (sol_ix ''S'' ''R'' 1000000000)\<rparr>]\<rparr>"

definition sample_anchor :: anchor_world where
  "sample_anchor = \<lparr>aw_pool = \<lambda>k. Inl SyntaxError, aw_transfer = \<lambda>k. Inr None, aw_pda = \<lambda>seeds. ''pda'', aw_ata = \<lambda>m k p. ''ata'',
     aw_key = \<lambda>k. [], aw_nonce = \<lambda>n. Inr [], aw_bn = \<lambda>d. Inr 0\<rparr>"

definition sample_build :: build_env where
  "sample_build = \<lparr>be_sol = sample_sol sample_built, be_anchor = sample_anchor, be_anchor_ix = \<lambda>ix. price_ix 0, be_pool_name = None,
     be_sha256 = \<lambda>b. b, be_getAccount = \<lambda>k. Inr (),
     be_system_transfer = \<lambda>S R n. if 0 \<le> n \<and> n < 2 ^ 64 then Inr (sol_ix S R n) else Inl RangeError,
     be_create_ata = \<lambda>p d w m. price_ix 0, be_spl_transfer = \<lambda>s d w n. Inl RangeError, be_unit_price = price_ix, be_unit_limit = limit_ix,
     be_fees = Inr [], be_blockhash = Inr ''hash'', be_lookup_table = \<lambda>k. Inr None,
     be_simulate = \<lambda>vt. Inr \<lparr>sm_err = False, sm_logs = None, sm_unitsConsumed = Some 300\<rparr>,
     be_serialize = \<lambda>vt. if vt = sample_vt then Inr ''tx'' else Inl SyntaxError\<rparr>"

definition pay_build :: build_input where
  "pay_build = \<lparr>bi_input = pay_input, bi_nonce = None, bi_claimableAfter = None, bi_claimableUntil = None\<rparr>"

lemma sample_build_simps [simp]:
  "be_sol sample_build = sample_sol sample_built" "be_unit_price sample_build = price_ix" "be_unit_limit sample_build = limit_ix"
  "bi_input pay_build = pay_input" "pk_string (sample_web3 m) = Some" "be_blockhash sample_build = Inr ''hash''"
  "be_simulate sample_build vt = Inr \<lparr>sm_err = False, sm_logs = None, sm_unitsConsumed = Some 300\<rparr>"
  "be_serialize sample_build vt = (if vt = sample_vt then Inr ''tx'' else Inl SyntaxError)"
  "be_system_transfer sample_build S R n = (if 0 \<le> n \<and> n < 2 ^ 64 then Inr (sol_ix S R n) else Inl RangeError)"
  "be_fees sample_build = Inr []"
  by (simp_all add: sample_build_def pay_build_def sample_web3_def)

lemma sample_layout: "web3_layout sample_build"
  by (auto simp: web3_layout_def price_ix_def limit_ix_def sol_ix_def split: if_splits)

lemma sample_ix_simps [simp]:
  "xi_programId (price_ix p) = COMPUTE_BUDGET" "xi_keys (price_ix p) = []"
  "xi_programId (limit_ix u) = COMPUTE_BUDGET" "xi_keys (limit_ix u) = []"
  "xi_programId (sol_ix S R n) = SYSTEM_PROGRAM" "xi_keys (sol_ix S R n) = [(S, True, True), (R, False, True)]"
  by (simp_all add: price_ix_def limit_ix_def sol_ix_def)

lemma sample_read: "deserializeTx (sample_web3 sample_built) tx = Inr (vt_payer sample_vt, map raw_instruction (vt_instructions sample_vt))"
  by (simp add: deserialize_sample raw_of_def sample_built_def sample_vt_def raw_instruction_def key_at_def nth_Cons')

lemma sample_reads_back: "web3_reads_back sample_build"
  by (auto simp: web3_reads_back_def sample_read split: if_splits)

lemma sample_keys: "sol_key (sample_sol m) s = Inr s"
  by (simp add: sol_key_def)

lemma pay_body: "in_body (plain_intent pay_one) = Single pay_one" "ac_action pay_one = ''transfer''"
    "resolveMint pay_one ctx = Inr None" "text_fields pay_one = Some ''S''"
  by (simp_all add: plain_intent_def pay_one_def resolveMint_def truthy_string_def text_fields_def obj_simps)

lemma sample_native:
  "native_build sample_build pay_one \<lparr>bc_feePayer = ''S'', bc_signer = ''S'', bc_chain = c, bc_network = n\<rparr>
     = Inr \<lparr>pb_instructions = [sol_ix ''S'' ''R'' 1000000000], pb_addressLookupTableAddresses = None\<rparr>"
  by (simp add: native_build_def native_buildTransfer_def pay_body pay_text pay_amount field_key_def sample_keys)

lemma sample_assemble: "\<exists>as. assemble sample_build [sol_ix ''S'' ''R'' 1000000000] ''S'' None = Inr as \<and> as_transaction as = ''tx''"
proof -
  have "SYSTEM_PROGRAM \<noteq> COMPUTE_BUDGET" by (simp add: SYSTEM_PROGRAM_def COMPUTE_BUDGET_def)
  then show ?thesis
    by (simp add: assemble_def resolveAddressLookupTables_def or_list_def getPriorityFee_def buildVersionedTx_def
        resolveSimulatedComputeUnits_def or_default_def buildInstructionList_def Let_def sample_vt_def sol_ix_def)
qed

lemma sample_builds: "\<exists>b. build sample_build 0 pay_build None = Inr b \<and> br_transaction b = ''tx''"
  using sample_assemble
  by (auto simp: build_def pay_chain pay_body build_payer_def truthy_string_def getFeePayer_def getSigner_def or_default_def
      sample_keys resolveBuilderName_def program_mismatch_def run_builder_def sample_native Let_def)

theorem build_structure_witness:
  "\<exists>b fee units rest. build sample_build 0 pay_build None = Inr b
     \<and> vt_instructions (br_message b) = [price_ix fee, limit_ix units] @ rest \<and> units = 60300"
proof -
  obtain b where b: "build sample_build 0 pay_build None = Inr b" using sample_builds by blast
  from build_structure [OF b] b show ?thesis by (auto simp: or_default_def)
qed

theorem built_transfer_matches_witness:
  "\<exists>b r. build sample_build 0 pay_build None = Inr b
     \<and> analyze (sample_sol sample_built) (br_transaction b) pay_input (Some False) = Inr r \<and> md_level (ar_match r) = MFull"
proof -
  obtain b where b: "build sample_build 0 pay_build None = Inr b" "br_transaction b = ''tx''" using sample_builds by blast
  have s: "transfers_sol pay_one" by (simp add: transfers_sol_def pay_one_def truthy_string_def obj_simps)
  have de: "deserializeTx (sample_web3 sample_built) ''tx'' = Inr (''S'', map raw_instruction (vt_instructions sample_vt))"
    by (simp add: sample_read) (simp add: sample_vt_def)
  obtain an where an: "analyzeTransaction (sample_web3 sample_built) ''tx'' (connection_options (sample_sol sample_built)) = Inr an"
    by (simp add: analyzeTransaction_def de)
  have cfg: "op_config (connection_options (sample_sol sample_built)) = None" by (simp add: connection_options_def)
  have de': "deserializeTx (sample_web3 sample_built) ''tx'' = Inr (''S'', [\<lparr>ri_programId = COMPUTE_BUDGET, ri_accounts = [], ri_data = 3 # enc_u64 1000\<rparr>,
        \<lparr>ri_programId = COMPUTE_BUDGET, ri_accounts = [], ri_data = 2 # le_bytes 4 60300\<rparr>,
        \<lparr>ri_programId = SYSTEM_PROGRAM, ri_accounts = [''S'', ''R''], ri_data = system_transfer_data 1000000000\<rparr>])"
    using de by (simp add: sample_vt_def raw_instruction_def price_ix_def limit_ix_def sol_ix_def)
  obtain i0 i1 i2 where ixs: "ta_instructions an = [i0, i1, i2]" "ia_type i0 = Some ''set_compute_unit_price''"
      "ia_type i1 = Some ''set_compute_unit_limit''" "ia_type i2 = Some ''transfer''"
    and ps: "ia_params i2 = [(''from'', JStr ''S''), (''to'', JStr ''R''), (''lamports'', JStr (nat_str 1000000000)), (''sol'', JStr (sol_text (int 1000000000)))]"
    and "error_free an"
    by (rule three_instructions [OF an cfg de']) simp
  have "filter is_transfer_ix (ta_instructions an) = [i2]" using ixs by (simp add: is_transfer_ix_def)
  then have "\<exists>n. checkNativeTransferFallback (sample_sol sample_built) (plain_intent pay_one) an ''solana'' ''mainnet'' = Inr n"
    by (simp add: sample_message check_one_transfer_def sol_transfer_matches_def pay_amount ps prop_of_def obj_simps Let_def)
  then obtain r where r: "analyze (sample_sol sample_built) ''tx'' pay_input (Some False) = Inr r"
    using pay_analysis [OF an] by blast
  have "md_level (ar_match r) = MFull"
    using built_transfer_matches [OF sample_layout sample_reads_back _ _ s _ _ b(1), of "Some False" r] r b(2) by simp
  with r b show ?thesis by auto
qed

section \<open>The associated token program\<close>

text \<open>The SDK's registry names the associated token program by a mistyped address. The address that the backend
  hands to its instructions is not in it, so the SDK reports an instruction of that program, such
  as the creation of a token account, as an unknown program, and matches no intent against its
  transaction.\<close>

lemma ata_unregistered: "get (reg_programs REGISTRY) ATA_PROGRAM = None"
  by (simp add: REGISTRY_def pe_def SYSTEM_PROGRAM_def TOKEN_PROGRAM_def COMPUTE_BUDGET_def ATA_PROGRAM_def obj_simps)

theorem ata_creation_unverified:
  assumes de: "deserializeTx w tx = Inr (fp, raws)" and raw: "raw \<in> set raws" "ri_programId raw = ATA_PROGRAM"
    and cfg: "op_config opts = None" and r: "verifyIntent w tx i opts = Inr r"
  shows "\<not> v2_matched r \<and> (\<exists>an k. analyzeTransaction w tx opts = Inr an \<and> unknown_program_error k ATA_PROGRAM \<in> set (ta_flags an))"
proof -
  obtain an where an: "analyzeTransaction w tx opts = Inr an" using de by (simp add: analyzeTransaction_def)
  obtain k where k: "k < length raws" "ri_programId (raws ! k) = ATA_PROGRAM" using raw by (auto simp: in_set_conv_nth)
  have f: "unknown_program_error k ATA_PROGRAM \<in> set (ta_flags an) \<and> severity (unknown_program_error k ATA_PROGRAM) = ErrorSev"
    using error_flags_iff [OF an de, of "unknown_program_error k ATA_PROGRAM"] k ata_unregistered
    by (auto simp: cfg loadRegistry_None)
  then have "\<not> error_free an" by (auto simp: error_free_def)
  then have "\<not> matches i an e" for e by (simp add: matches_def)
  then show ?thesis using verifyIntent_spec [OF an, of i] an r f by auto
qed

theorem ata_creation_unverified_witness:
  "\<exists>r. verifyIntent (sample_web3 (one_ix [''S''] ATA_PROGRAM [])) ''tx'' (plain_intent pay_one) no_options = Inr r \<and> \<not> v2_matched r"
proof -
  let ?w = "sample_web3 (one_ix [''S''] ATA_PROGRAM [])"
  have de: "deserializeTx ?w ''tx'' = Inr (''S'', [\<lparr>ri_programId = ATA_PROGRAM, ri_accounts = [''S''], ri_data = []\<rparr>])"
    by (simp add: deserializeTx_def sample_web3_def one_ix_def raw_of_def key_at_def)
  then obtain an where an: "analyzeTransaction ?w ''tx'' no_options = Inr an" by (auto simp: analyzeTransaction_def)
  then obtain r where "verifyIntent ?w ''tx'' (plain_intent pay_one) no_options = Inr r" using verifyIntent_spec by blast
  with ata_creation_unverified [OF de, of _ no_options] show ?thesis by (auto simp: no_options_def)
qed

end
