(* ===== verification/Silkysig.thy ===== *)
theory Silkysig
  imports Jupiter HandshakeClient AccountIndex Http Decoders
begin

text \<open>
  The Silkysig accounts as the backend reaches them: the client of the Anchor program
  (\<^verbatim>\<open>solana/silkysig-client.ts\<close>), the chain reads and transaction builders of
  \<^verbatim>\<open>api/service/account.service.ts\<close> and the routes of \<^verbatim>\<open>account.controller.ts\<close>. What Anchor,
  web3.js, the RPC node and the token library answer during one request is the parameter
  \<open>silk_env\<close>. Keys are their base58 text, big numbers are integers; a decoded account carries its
  first \<open>operatorCount\<close> slots.
\<close>

section \<open>The world\<close>

record silk_data =
  sk_owner :: string
  sk_mint :: string
  sk_isPaused :: bool
  sk_operators :: "(string \<times> int) list"
  sk_driftUser :: "string option"
  sk_driftMarketIndex :: "16 word option"
  sk_principalBalance :: int

datatype silk_arg = SPub string | SInt int | SU16 "16 word" | SLimit "int option" | SBytes buffer

text \<open>A call on \<open>program.methods\<close>: the method, its arguments, the named accounts, the remaining accounts.\<close>

record silk_call =
  sl_method :: string
  sl_args :: "silk_arg list"
  sl_accounts :: "string obj"
  sl_remaining :: "(string \<times> bool \<times> bool) list"

record legacy_tx =
  lt_blockhash :: string
  lt_feePayer :: string
  lt_instructions :: "tx_instruction list"

text \<open>\<open>sg_fetch\<close> is \<open>silkAccount.fetch\<close>, \<open>sg_program\<close> the address of the Silkysig program, \<open>sg_pda\<close>
  is \<open>findProgramAddressSync\<close>, \<open>sg_pk\<close> is \<open>new PublicKey\<close> of a text, \<open>sg_pk_bytes\<close> of at most 32
  bytes, \<open>sg_bn\<close> is \<open>new BN(number)\<close>, \<open>sg_holders\<close> are the keys that \<open>getProgramAccounts\<close> answers for
  an operator at an offset, \<open>sg_tokenBalance\<close> an amount with its decimals, and \<open>sg_instruction\<close> is
  Anchor's \<open>instruction()\<close>.\<close>

record silk_env =
  sg_fetch :: "string \<Rightarrow> silk_data result"
  sg_program :: string
  sg_pda :: "buffer list \<Rightarrow> string \<Rightarrow> string"
  sg_key :: "string \<Rightarrow> buffer"
  sg_pk :: "string \<Rightarrow> string option"
  sg_pk_error :: string
  sg_pk_bytes :: "buffer \<Rightarrow> string"
  sg_ata :: "string \<Rightarrow> string \<Rightarrow> string"
  sg_bn :: "double \<Rightarrow> int result"
  sg_bn_null :: string
  sg_holders :: "nat \<Rightarrow> string \<Rightarrow> string list result"
  sg_tokenBalance :: "string \<Rightarrow> (nat \<times> nat) result"
  sg_mintDecimals :: "string \<Rightarrow> nat result"
  sg_accountInfo :: "string \<Rightarrow> buffer option result"
  sg_blockhash :: "string result"
  sg_instruction :: "silk_call \<Rightarrow> tx_instruction result"
  sg_serialize :: "legacy_tx \<Rightarrow> string result"

definition ACCOUNT_SEED :: string where
  "ACCOUNT_SEED = ''account''"

definition DRIFT_PROGRAM :: string where
  "DRIFT_PROGRAM = ''dRiftyHA39MWEi3m9aunc5MzRF1JYuBsbn6VPcn33UH''"

definition USDC_MARKET_INDEX :: "16 word" where
  "USDC_MARKET_INDEX = 0"

definition silk_key :: "silk_env \<Rightarrow> string \<Rightarrow> string result" where
  "silk_key env s = (case sg_pk env s of None \<Rightarrow> Inl (JsError (sg_pk_error env)) | Some k \<Rightarrow> Inr k)"

section \<open>Addresses\<close>

definition findAccountPda :: "silk_env \<Rightarrow> string \<Rightarrow> string" where
  "findAccountPda env owner = sg_pda env [utf8_bytes ACCOUNT_SEED, sg_key env owner] (sg_program env)"

definition getDriftStatePDA :: "silk_env \<Rightarrow> string" where
  "getDriftStatePDA env = sg_pda env [utf8_bytes ''drift_state''] DRIFT_PROGRAM"

definition u16_bytes :: "16 word \<Rightarrow> buffer" where
  "u16_bytes m = le_bytes 2 (unat m)"

definition getDriftSpotMarketVaultPDA :: "silk_env \<Rightarrow> 16 word \<Rightarrow> string" where
  "getDriftSpotMarketVaultPDA env m = sg_pda env [utf8_bytes ''spot_market_vault'', u16_bytes m] DRIFT_PROGRAM"

definition getDriftSpotMarketPDA :: "silk_env \<Rightarrow> 16 word \<Rightarrow> string" where
  "getDriftSpotMarketPDA env m = sg_pda env [utf8_bytes ''spot_market'', u16_bytes m] DRIFT_PROGRAM"

definition getDriftUserPDA :: "silk_env \<Rightarrow> string \<Rightarrow> 16 word \<Rightarrow> string" where
  "getDriftUserPDA env authority sub = sg_pda env [utf8_bytes ''user'', sg_key env authority, u16_bytes sub] DRIFT_PROGRAM"

definition getDriftUserStatsPDA :: "silk_env \<Rightarrow> string \<Rightarrow> string" where
  "getDriftUserStatsPDA env authority = sg_pda env [utf8_bytes ''user_stats'', sg_key env authority] DRIFT_PROGRAM"

definition getDriftSignerPDA :: "silk_env \<Rightarrow> string" where
  "getDriftSignerPDA env = sg_pda env [utf8_bytes ''drift_signer''] DRIFT_PROGRAM"

definition fetchSpotMarketOracle :: "silk_env \<Rightarrow> 16 word \<Rightarrow> string result" where
  "fetchSpotMarketOracle env m =
     bind_result (sg_accountInfo env (getDriftSpotMarketPDA env m)) (\<lambda>info.
       case info of
         None \<Rightarrow> Inl (JsError ''DRIFT_SPOT_MARKET_NOT_FOUND'')
       | Some data \<Rightarrow> Inr (sg_pk_bytes env (subarray data 40 72)))"

text \<open>\<open>account.driftMarketIndex!\<close>: a missing index reaches \<open>new BN(null)\<close>, which cannot be encoded.\<close>

definition market_index :: "silk_env \<Rightarrow> silk_data \<Rightarrow> (16 word) result" where
  "market_index env account =
     (case sk_driftMarketIndex account of None \<Rightarrow> Inl (JsError (sg_bn_null env)) | Some m \<Rightarrow> Inr m)"

definition buildDriftDepositRemainingAccounts ::
    "silk_env \<Rightarrow> silk_data \<Rightarrow> string \<Rightarrow> string \<Rightarrow> (string \<times> bool \<times> bool) list result" where
  "buildDriftDepositRemainingAccounts env account driftUser accountPda =
     bind_result (market_index env account) (\<lambda>m.
     bind_result (fetchSpotMarketOracle env m) (\<lambda>oracle.
       Inr [(getDriftStatePDA env, False, True), (driftUser, False, True),
            (getDriftUserStatsPDA env accountPda, False, True), (getDriftSpotMarketVaultPDA env m, False, True),
            (DRIFT_PROGRAM, False, False), (oracle, False, False), (getDriftSpotMarketPDA env m, False, True)]))"

definition buildDriftWithdrawRemainingAccounts ::
    "silk_env \<Rightarrow> silk_data \<Rightarrow> string \<Rightarrow> string \<Rightarrow> (string \<times> bool \<times> bool) list result" where
  "buildDriftWithdrawRemainingAccounts env account driftUser accountPda =
     bind_result (market_index env account) (\<lambda>m.
     bind_result (fetchSpotMarketOracle env m) (\<lambda>oracle.
       Inr [(getDriftStatePDA env, False, True), (driftUser, False, True),
            (getDriftUserStatsPDA env accountPda, False, True), (getDriftSpotMarketVaultPDA env m, False, True),
            (getDriftSignerPDA env, False, False), (DRIFT_PROGRAM, False, False), (oracle, False, False),
            (getDriftSpotMarketPDA env m, False, True)]))"

section \<open>Reads\<close>

definition fetchAccount :: "silk_env \<Rightarrow> string \<Rightarrow> silk_data option" where
  "fetchAccount env pda = (case sg_fetch env pda of Inl e \<Rightarrow> None | Inr a \<Rightarrow> Some a)"

definition require_account :: "silk_env \<Rightarrow> string \<Rightarrow> silk_data result" where
  "require_account env pda = (case fetchAccount env pda of None \<Rightarrow> Inl (JsError ''ACCOUNT_NOT_FOUND'') | Some a \<Rightarrow> Inr a)"

text \<open>An account with its address, its balance in base units and the decimals of its mint.\<close>

record account_view =
  av_pda :: string
  av_account :: silk_data
  av_balance :: double
  av_mintDecimals :: nat

definition operator_offsets :: "nat list" where
  "operator_offsets = (let baseOffset = 76; slotSize = 64 in [baseOffset, baseOffset + slotSize, baseOffset + slotSize * 2])"

fun all_holders :: "silk_env \<Rightarrow> string \<Rightarrow> nat list \<Rightarrow> string list list result" where
  "all_holders env operator [] = Inr []"
| "all_holders env operator (i # is) =
     bind_result (sg_holders env i operator) (\<lambda>ks. bind_result (all_holders env operator is) (\<lambda>rest. Inr (ks # rest)))"

definition first_seen :: "string list \<Rightarrow> string list" where
  "first_seen ks = foldl (\<lambda>seen k. if k \<in> set seen then seen else seen @ [k]) [] ks"

definition view_of :: "silk_env \<Rightarrow> string \<Rightarrow> account_view list" where
  "view_of env pda =
     (case fetchAccount env pda of
        None \<Rightarrow> []
      | Some account \<Rightarrow>
          let (balance, decimals) =
            (case sg_tokenBalance env (sg_ata env (sk_mint account) pda) of
               Inr (amount, d) \<Rightarrow> (num_of_int (int amount), d)
             | Inl e \<Rightarrow> (Fin 0, case sg_mintDecimals env (sk_mint account) of Inl e2 \<Rightarrow> 0 | Inr d \<Rightarrow> d))
          in [\<lparr>av_pda = pda, av_account = account, av_balance = balance, av_mintDecimals = decimals\<rparr>])"

definition findAccountsByOperator :: "silk_env \<Rightarrow> string \<Rightarrow> account_view list result" where
  "findAccountsByOperator env operator =
     bind_result (all_holders env operator operator_offsets) (\<lambda>allResults.
       Inr (concat (map (view_of env) (first_seen (concat allResults)))))"

definition getAccountsByOperator :: "silk_env \<Rightarrow> string \<Rightarrow> account_view list result" where
  "getAccountsByOperator env operator = bind_result (silk_key env operator) (findAccountsByOperator env)"

text \<open>The service's own view of one account: a missing token account leaves zero decimals, and with
  a Drift user the balance is the deposited principal.\<close>

definition silk_getAccount :: "silk_env \<Rightarrow> string \<Rightarrow> account_view option result" where
  "silk_getAccount env pda =
     bind_result (silk_key env pda) (\<lambda>pdaKey.
       case fetchAccount env pdaKey of
         None \<Rightarrow> Inr None
       | Some account \<Rightarrow>
           let (held, decimals) =
             (case sg_tokenBalance env (sg_ata env (sk_mint account) pdaKey) of
                Inr (amount, d) \<Rightarrow> (num_of_int (int amount), d)
              | Inl e \<Rightarrow> (Fin 0, 0));
             balance = (case sk_driftUser account of None \<Rightarrow> held | Some u \<Rightarrow> num_of_int (sk_principalBalance account))
           in Inr (Some \<lparr>av_pda = pda, av_account = account, av_balance = balance, av_mintDecimals = decimals\<rparr>))"

section \<open>Building transactions\<close>

definition silk_call :: "string \<Rightarrow> silk_arg list \<Rightarrow> string obj \<Rightarrow> silk_call" where
  "silk_call m args accounts = \<lparr>sl_method = m, sl_args = args, sl_accounts = accounts, sl_remaining = []\<rparr>"

text \<open>The unsigned transaction in base64: blockhash and fee payer, then the instructions.\<close>

definition serialize_tx :: "silk_env \<Rightarrow> string \<Rightarrow> tx_instruction list \<Rightarrow> string \<Rightarrow> string result" where
  "serialize_tx env blockhash ixs payer =
     sg_serialize env \<lparr>lt_blockhash = blockhash, lt_feePayer = payer, lt_instructions = ixs\<rparr>"

definition single_call :: "silk_env \<Rightarrow> silk_call \<Rightarrow> string \<Rightarrow> string result" where
  "single_call env c payer =
     bind_result (sg_instruction env c) (\<lambda>ix.
     bind_result (sg_blockhash env) (\<lambda>blockhash. serialize_tx env blockhash [ix] payer))"

definition with_remaining :: "(string \<times> bool \<times> bool) list \<Rightarrow> silk_call \<Rightarrow> silk_call" where
  "with_remaining ks c = c\<lparr>sl_remaining := ks\<rparr>"

definition limit_arg :: "int option \<Rightarrow> silk_arg" where
  "limit_arg perTxLimit = SLimit perTxLimit"

definition create_call :: "silk_env \<Rightarrow> string \<Rightarrow> string \<Rightarrow> silk_call" where
  "create_call env owner mint =
     (let pda = findAccountPda env owner
      in silk_call ''createAccount'' []
           [(''owner'', owner), (''mint'', mint), (''silkAccount'', pda), (''accountTokenAccount'', sg_ata env mint pda),
            (''tokenProgram'', TOKEN_PROGRAM), (''associatedTokenProgram'', ATA_PROGRAM),
            (''systemProgram'', SYSTEM_PROGRAM)])"

definition add_operator_call :: "string \<Rightarrow> string \<Rightarrow> string \<Rightarrow> int option \<Rightarrow> silk_call" where
  "add_operator_call owner pda operator perTxLimit =
     silk_call ''addOperator'' [SPub operator, limit_arg perTxLimit] [(''owner'', owner), (''silkAccount'', pda)]"

definition init_drift_call :: "silk_env \<Rightarrow> string \<Rightarrow> string \<Rightarrow> string \<Rightarrow> silk_call" where
  "init_drift_call env owner mint oracle =
     (let pda = findAccountPda env owner
      in silk_call ''initDriftUser'' [SU16 0, SBytes (replicate 32 0), SU16 USDC_MARKET_INDEX]
           [(''owner'', owner), (''silkAccount'', pda), (''mint'', mint), (''accountTokenAccount'', sg_ata env mint pda),
            (''driftUser'', getDriftUserPDA env pda 0), (''driftUserStats'', getDriftUserStatsPDA env pda),
            (''driftState'', getDriftStatePDA env),
            (''driftSpotMarketVault'', getDriftSpotMarketVaultPDA env USDC_MARKET_INDEX),
            (''driftSpotMarket'', getDriftSpotMarketPDA env USDC_MARKET_INDEX), (''driftOracle'', oracle),
            (''driftProgram'', DRIFT_PROGRAM), (''tokenProgram'', TOKEN_PROGRAM), (''rent'', SYSVAR_RENT),
            (''systemProgram'', SYSTEM_PROGRAM)])"

text \<open>The Drift initialisation, unless the statistics account exists already.\<close>

definition init_drift :: "silk_env \<Rightarrow> string \<Rightarrow> string \<Rightarrow> tx_instruction list result" where
  "init_drift env owner mint =
     bind_result (sg_accountInfo env (getDriftUserStatsPDA env (findAccountPda env owner))) (\<lambda>info.
       case info of
         Some d \<Rightarrow> Inr []
       | None \<Rightarrow>
           bind_result (fetchSpotMarketOracle env USDC_MARKET_INDEX) (\<lambda>oracle.
           bind_result (sg_instruction env (init_drift_call env owner mint oracle)) (\<lambda>ix. Inr [ix])))"

definition buildCreateAccountTx ::
    "silk_env \<Rightarrow> string \<Rightarrow> string \<Rightarrow> string option \<Rightarrow> int option \<Rightarrow> (string \<times> string) result" where
  "buildCreateAccountTx env owner mint operator perTxLimit =
     (let pda = findAccountPda env owner
      in bind_result (sg_instruction env (create_call env owner mint)) (\<lambda>createIx.
         bind_result (sg_blockhash env) (\<lambda>blockhash.
         bind_result (case operator of
             None \<Rightarrow> Inr []
           | Some k \<Rightarrow> bind_result (sg_instruction env (add_operator_call owner pda k perTxLimit)) (\<lambda>ix. Inr [ix])) (\<lambda>addIx.
         bind_result (init_drift env owner mint) (\<lambda>driftIx.
         bind_result (serialize_tx env blockhash (createIx # addIx @ driftIx) owner) (\<lambda>transaction.
           Inr (transaction, pda)))))))"

definition deposit_call :: "silk_env \<Rightarrow> string \<Rightarrow> string \<Rightarrow> string \<Rightarrow> int \<Rightarrow> silk_call" where
  "deposit_call env depositor pda mint amount =
     silk_call ''deposit'' [SInt amount]
       [(''depositor'', depositor), (''silkAccount'', pda), (''mint'', mint), (''accountTokenAccount'', sg_ata env mint pda),
        (''depositorTokenAccount'', sg_ata env mint depositor), (''tokenProgram'', TOKEN_PROGRAM)]"

definition buildDepositTx :: "silk_env \<Rightarrow> string \<Rightarrow> string \<Rightarrow> int \<Rightarrow> string result" where
  "buildDepositTx env depositor pda amount =
     bind_result (require_account env pda) (\<lambda>account.
     bind_result (case sk_driftUser account of
         None \<Rightarrow> Inr [] | Some u \<Rightarrow> buildDriftDepositRemainingAccounts env account u pda) (\<lambda>drift.
       single_call env (with_remaining drift (deposit_call env depositor pda (sk_mint account) amount)) depositor))"

definition transfer_call :: "silk_env \<Rightarrow> string \<Rightarrow> string \<Rightarrow> string \<Rightarrow> string \<Rightarrow> int \<Rightarrow> silk_call" where
  "transfer_call env signer pda mint recipient amount =
     silk_call ''transferFromAccount'' [SInt amount]
       [(''signer'', signer), (''silkAccount'', pda), (''mint'', mint), (''accountTokenAccount'', sg_ata env mint pda),
        (''recipient'', recipient), (''recipientTokenAccount'', sg_ata env mint recipient), (''tokenProgram'', TOKEN_PROGRAM),
        (''associatedTokenProgram'', ATA_PROGRAM), (''systemProgram'', SYSTEM_PROGRAM)]"

definition withdraw_accounts :: "silk_env \<Rightarrow> silk_data \<Rightarrow> string \<Rightarrow> (string \<times> bool \<times> bool) list result" where
  "withdraw_accounts env account pda =
     (case sk_driftUser account of None \<Rightarrow> Inr [] | Some u \<Rightarrow> buildDriftWithdrawRemainingAccounts env account u pda)"

definition buildTransferFromAccountTx :: "silk_env \<Rightarrow> string \<Rightarrow> string \<Rightarrow> string \<Rightarrow> int \<Rightarrow> string result" where
  "buildTransferFromAccountTx env signer pda recipient amount =
     bind_result (require_account env pda) (\<lambda>account.
     bind_result (withdraw_accounts env account pda) (\<lambda>drift.
       single_call env (with_remaining drift (transfer_call env signer pda (sk_mint account) recipient amount)) signer))"

definition buildTogglePauseTx :: "silk_env \<Rightarrow> string \<Rightarrow> string \<Rightarrow> string result" where
  "buildTogglePauseTx env owner pda =
     single_call env (silk_call ''togglePause'' [] [(''owner'', owner), (''silkAccount'', pda)]) owner"

definition buildAddOperatorTx :: "silk_env \<Rightarrow> string \<Rightarrow> string \<Rightarrow> string \<Rightarrow> int option \<Rightarrow> string result" where
  "buildAddOperatorTx env owner pda operator perTxLimit =
     single_call env (add_operator_call owner pda operator perTxLimit) owner"

definition buildRemoveOperatorTx :: "silk_env \<Rightarrow> string \<Rightarrow> string \<Rightarrow> string \<Rightarrow> string result" where
  "buildRemoveOperatorTx env owner pda operator =
     single_call env (silk_call ''removeOperator'' [SPub operator] [(''owner'', owner), (''silkAccount'', pda)]) owner"

definition close_call :: "silk_env \<Rightarrow> string \<Rightarrow> string \<Rightarrow> string \<Rightarrow> silk_call" where
  "close_call env owner pda mint =
     silk_call ''closeAccount'' []
       [(''owner'', owner), (''silkAccount'', pda), (''mint'', mint), (''accountTokenAccount'', sg_ata env mint pda),
        (''ownerTokenAccount'', sg_ata env mint owner), (''tokenProgram'', TOKEN_PROGRAM),
        (''associatedTokenProgram'', ATA_PROGRAM), (''systemProgram'', SYSTEM_PROGRAM)]"

definition buildCloseAccountTx :: "silk_env \<Rightarrow> string \<Rightarrow> string \<Rightarrow> string result" where
  "buildCloseAccountTx env owner pda =
     bind_result (require_account env pda) (\<lambda>account.
     bind_result (withdraw_accounts env account pda) (\<lambda>drift.
       single_call env (with_remaining drift (close_call env owner pda (sk_mint account))) owner))"

section \<open>The service\<close>

definition bn_option :: "silk_env \<Rightarrow> double option \<Rightarrow> int option result" where
  "bn_option env x = (case x of None \<Rightarrow> Inr None | Some d \<Rightarrow> bind_result (sg_bn env d) (\<lambda>n. Inr (Some n)))"

definition key_option :: "silk_env \<Rightarrow> string option \<Rightarrow> string option result" where
  "key_option env x = (case given x of None \<Rightarrow> Inr None | Some s \<Rightarrow> bind_result (silk_key env s) (\<lambda>k. Inr (Some k)))"

definition service_create ::
    "silk_env \<Rightarrow> string \<Rightarrow> string \<Rightarrow> string option \<Rightarrow> double option \<Rightarrow> (string \<times> string) result" where
  "service_create env owner mint operator perTxLimit =
     bind_result (silk_key env owner) (\<lambda>o'.
     bind_result (silk_key env mint) (\<lambda>m.
     bind_result (key_option env operator) (\<lambda>k.
     bind_result (bn_option env perTxLimit) (\<lambda>l. buildCreateAccountTx env o' m k l))))"

definition service_deposit :: "silk_env \<Rightarrow> string \<Rightarrow> string \<Rightarrow> double \<Rightarrow> string result" where
  "service_deposit env depositor pda amount =
     bind_result (silk_key env depositor) (\<lambda>d.
     bind_result (silk_key env pda) (\<lambda>a.
     bind_result (sg_bn env amount) (\<lambda>n. buildDepositTx env d a n)))"

definition service_transfer :: "silk_env \<Rightarrow> string \<Rightarrow> string \<Rightarrow> string \<Rightarrow> double \<Rightarrow> string result" where
  "service_transfer env signer pda recipient amount =
     bind_result (silk_key env signer) (\<lambda>s.
     bind_result (silk_key env pda) (\<lambda>a.
     bind_result (silk_key env recipient) (\<lambda>r.
     bind_result (sg_bn env amount) (\<lambda>n. buildTransferFromAccountTx env s a r n))))"

definition service_pause :: "silk_env \<Rightarrow> string \<Rightarrow> string \<Rightarrow> string result" where
  "service_pause env owner pda =
     bind_result (silk_key env owner) (\<lambda>o'. bind_result (silk_key env pda) (\<lambda>a. buildTogglePauseTx env o' a))"

definition service_add_operator :: "silk_env \<Rightarrow> string \<Rightarrow> string \<Rightarrow> string \<Rightarrow> double option \<Rightarrow> string result" where
  "service_add_operator env owner pda operator perTxLimit =
     bind_result (silk_key env owner) (\<lambda>o'.
     bind_result (silk_key env pda) (\<lambda>a.
     bind_result (silk_key env operator) (\<lambda>k.
     bind_result (bn_option env perTxLimit) (\<lambda>l. buildAddOperatorTx env o' a k l))))"

definition service_remove_operator :: "silk_env \<Rightarrow> string \<Rightarrow> string \<Rightarrow> string \<Rightarrow> string result" where
  "service_remove_operator env owner pda operator =
     bind_result (silk_key env owner) (\<lambda>o'.
     bind_result (silk_key env pda) (\<lambda>a.
     bind_result (silk_key env operator) (\<lambda>k. buildRemoveOperatorTx env o' a k)))"

definition service_close :: "silk_env \<Rightarrow> string \<Rightarrow> string \<Rightarrow> string result" where
  "service_close env owner pda =
     bind_result (silk_key env owner) (\<lambda>o'. bind_result (silk_key env pda) (\<lambda>a. buildCloseAccountTx env o' a))"

section \<open>The routes\<close>

definition http_bind :: "http_error + 'a \<Rightarrow> ('a \<Rightarrow> http_error + 'b) \<Rightarrow> http_error + 'b" where
  "http_bind r f = (case r of Inl e \<Rightarrow> Inl e | Inr x \<Rightarrow> f x)"

lemma http_bind_Inr_iff: "http_bind r f = Inr y \<longleftrightarrow> (\<exists>x. r = Inr x \<and> f x = Inr y)"
  by (cases r) (simp_all add: http_bind_def)

text \<open>An error that no handler catches is answered by the framework with status 500.\<close>

definition uncaught :: "'a result \<Rightarrow> http_error + 'a" where
  "uncaught r = (case r of Inl e \<Rightarrow> Inl (HttpError 500 '''' ''Internal server error'') | Inr x \<Rightarrow> Inr x)"

lemma uncaught_Inr_iff [simp]: "uncaught r = Inr x \<longleftrightarrow> r = Inr x"
  by (cases r) (simp_all add: uncaught_def)

definition pubkey_field :: "silk_env \<Rightarrow> string option \<Rightarrow> string \<Rightarrow> http_error + string" where
  "pubkey_field env val field = validatePubkey (sg_pk env) val field"

definition optional_pubkey :: "silk_env \<Rightarrow> string option \<Rightarrow> string \<Rightarrow> http_error + unit" where
  "optional_pubkey env val field =
     (case given val of None \<Rightarrow> Inr () | Some v \<Rightarrow> http_bind (pubkey_field env val field) (\<lambda>u. Inr ()))"

definition check_limit :: "double option \<Rightarrow> http_error + unit" where
  "check_limit perTxLimit =
     (case perTxLimit of
        None \<Rightarrow> Inr ()
      | Some l \<Rightarrow> if d_less l (Fin 0) then Inl (BadRequest ''INVALID_LIMIT'' ''perTxLimit must be >= 0'') else Inr ())"

definition positive_amount :: "double option \<Rightarrow> http_error + double" where
  "positive_amount amount =
     (case amount of
        None \<Rightarrow> Inl (BadRequest ''INVALID_AMOUNT'' ''Amount must be positive'')
      | Some a \<Rightarrow>
          if \<not> d_truthy a \<or> d_le a (Fin 0) then Inl (BadRequest ''INVALID_AMOUNT'' ''Amount must be positive'') else Inr a)"

definition account_create ::
    "silk_env \<Rightarrow> string option \<Rightarrow> string option \<Rightarrow> string option \<Rightarrow> double option \<Rightarrow> http_error + (string \<times> string)" where
  "account_create env owner mint operator perTxLimit =
     http_bind (pubkey_field env owner ''owner'') (\<lambda>o'.
     http_bind (pubkey_field env mint ''mint'') (\<lambda>m.
     http_bind (optional_pubkey env operator ''operator'') (\<lambda>u.
     http_bind (check_limit perTxLimit) (\<lambda>v. uncaught (service_create env o' m operator perTxLimit)))))"

definition account_deposit :: "silk_env \<Rightarrow> string option \<Rightarrow> string option \<Rightarrow> double option \<Rightarrow> http_error + string" where
  "account_deposit env depositor accountPda amount =
     http_bind (pubkey_field env depositor ''depositor'') (\<lambda>d.
     http_bind (pubkey_field env accountPda ''accountPda'') (\<lambda>a.
     http_bind (positive_amount amount) (\<lambda>n. uncaught (service_deposit env d a n))))"

definition account_transfer ::
    "silk_env \<Rightarrow> string option \<Rightarrow> string option \<Rightarrow> string option \<Rightarrow> double option \<Rightarrow> http_error + string" where
  "account_transfer env signer accountPda recipient amount =
     http_bind (pubkey_field env signer ''signer'') (\<lambda>s.
     http_bind (pubkey_field env accountPda ''accountPda'') (\<lambda>a.
     http_bind (pubkey_field env recipient ''recipient'') (\<lambda>r.
     http_bind (positive_amount amount) (\<lambda>n. uncaught (service_transfer env s a r n)))))"

definition account_pause :: "silk_env \<Rightarrow> string option \<Rightarrow> string option \<Rightarrow> http_error + string" where
  "account_pause env owner accountPda =
     http_bind (pubkey_field env owner ''owner'') (\<lambda>o'.
     http_bind (pubkey_field env accountPda ''accountPda'') (\<lambda>a. uncaught (service_pause env o' a)))"

definition account_add_operator ::
    "silk_env \<Rightarrow> string option \<Rightarrow> string option \<Rightarrow> string option \<Rightarrow> double option \<Rightarrow> http_error + string" where
  "account_add_operator env owner accountPda operator perTxLimit =
     http_bind (pubkey_field env owner ''owner'') (\<lambda>o'.
     http_bind (pubkey_field env accountPda ''accountPda'') (\<lambda>a.
     http_bind (pubkey_field env operator ''operator'') (\<lambda>k.
     http_bind (check_limit perTxLimit) (\<lambda>v. uncaught (service_add_operator env o' a k perTxLimit)))))"

definition account_remove_operator ::
    "silk_env \<Rightarrow> string option \<Rightarrow> string option \<Rightarrow> string option \<Rightarrow> http_error + string" where
  "account_remove_operator env owner accountPda operator =
     http_bind (pubkey_field env owner ''owner'') (\<lambda>o'.
     http_bind (pubkey_field env accountPda ''accountPda'') (\<lambda>a.
     http_bind (pubkey_field env operator ''operator'') (\<lambda>k. uncaught (service_remove_operator env o' a k))))"

definition account_close :: "silk_env \<Rightarrow> string option \<Rightarrow> string option \<Rightarrow> http_error + string" where
  "account_close env owner accountPda =
     http_bind (pubkey_field env owner ''owner'') (\<lambda>o'.
     http_bind (pubkey_field env accountPda ''accountPda'') (\<lambda>a. uncaught (service_close env o' a)))"

text \<open>What the reads answer; a Drift user and its market index are \<open>null\<close> when absent.\<close>

record account_body =
  ab_pda :: string
  ab_owner :: string
  ab_mint :: string
  ab_mintDecimals :: nat
  ab_isPaused :: bool
  ab_balance :: double
  ab_operators :: "(nat \<times> string \<times> string) list"
  ab_driftUser :: "string option"
  ab_principalBalance :: string

definition body_of :: "account_view \<Rightarrow> (nat \<times> string \<times> string) list \<Rightarrow> account_body" where
  "body_of v slots =
     (let a = av_account v
      in \<lparr>ab_pda = av_pda v, ab_owner = sk_owner a, ab_mint = sk_mint a, ab_mintDecimals = av_mintDecimals v,
          ab_isPaused = sk_isPaused a, ab_balance = av_balance v, ab_operators = slots,
          ab_driftUser = sk_driftUser a, ab_principalBalance = int_str (sk_principalBalance a)\<rparr>)"

text \<open>The slots with their positions, public keys and limits.\<close>

fun numbered_slots :: "nat \<Rightarrow> (string \<times> int) list \<Rightarrow> (nat \<times> string \<times> string) list" where
  "numbered_slots i [] = []"
| "numbered_slots i ((k, l) # rest) = (i, k, int_str l) # numbered_slots (Suc i) rest"

text \<open>\<open>operatorSlot\<close>: the first slot of the operator, \<open>null\<close> (no entry) when it has none.\<close>

definition operator_slot :: "string \<Rightarrow> silk_data \<Rightarrow> (nat \<times> string \<times> string) list" where
  "operator_slot operator a =
     (case List.find (\<lambda>(i, k, l). k = operator) (numbered_slots 0 (sk_operators a)) of None \<Rightarrow> [] | Some s \<Rightarrow> [s])"

definition account_by_operator :: "silk_env \<Rightarrow> string option \<Rightarrow> http_error + account_body list" where
  "account_by_operator env pubkey =
     http_bind (pubkey_field env pubkey ''pubkey'') (\<lambda>p.
     uncaught (bind_result (getAccountsByOperator env p) (\<lambda>views.
       bind_result (silk_key env p) (\<lambda>k. Inr (map (\<lambda>v. body_of v (operator_slot k (av_account v))) views)))))"

definition account_get :: "silk_env \<Rightarrow> string option \<Rightarrow> http_error + (account_body \<times> 16 word option)" where
  "account_get env pda =
     http_bind (pubkey_field env pda ''pda'') (\<lambda>p.
     http_bind (uncaught (silk_getAccount env p)) (\<lambda>found.
       case found of
         None \<Rightarrow> Inl (NotFound ''ACCOUNT_NOT_FOUND'' ''Account not found'')
       | Some v \<Rightarrow> Inr (body_of v (numbered_slots 0 (sk_operators (av_account v))), sk_driftMarketIndex (av_account v))))"

definition account_list ::
    "silk_env \<Rightarrow> string option \<Rightarrow> silk_db \<Rightarrow> http_error + (silk_account \<times> silk_operator list) list" where
  "account_list env owner db = http_bind (pubkey_field env owner ''owner'') (\<lambda>o'. Inr (findAccountsByOwner o' db))"

definition event_types :: "silk_event_type obj" where
  "event_types =
     [(''ACCOUNT_CREATED'', ACCOUNT_CREATED), (''ACCOUNT_CLOSED'', ACCOUNT_CLOSED), (''DEPOSIT'', DEPOSIT),
      (''TRANSFER'', TRANSFER), (''OPERATOR_ADDED'', OPERATOR_ADDED), (''OPERATOR_REMOVED'', OPERATOR_REMOVED),
      (''PAUSED'', PAUSED), (''UNPAUSED'', UNPAUSED)]"

text \<open>An unknown event type is ignored: every event is answered.\<close>

definition account_events ::
    "silk_env \<Rightarrow> string option \<Rightarrow> string option \<Rightarrow> silk_db \<Rightarrow> http_error + silk_event list" where
  "account_events env pda eventType db =
     http_bind (pubkey_field env pda ''pda'') (\<lambda>p.
       let validType = (case given eventType of None \<Rightarrow> None | Some t \<Rightarrow> get event_types t)
       in Inr (findEventsByAccount p validType db))"

section \<open>What Anchor encodes\<close>

text \<open>The instructions of \<^verbatim>\<open>solana/silkysig-idl.json\<close>: method, name, and the accounts in order.\<close>

definition SILKYSIG_IDL :: "(string \<times> string \<times> string list) list" where
  "SILKYSIG_IDL =
     [(''createAccount'', ''create_account'', [''owner'', ''mint'', ''silkAccount'', ''accountTokenAccount'',
        ''tokenProgram'', ''associatedTokenProgram'', ''systemProgram'']),
      (''deposit'', ''deposit'', [''depositor'', ''silkAccount'', ''mint'', ''accountTokenAccount'',
        ''depositorTokenAccount'', ''tokenProgram'']),
      (''transferFromAccount'', ''transfer_from_account'', [''signer'', ''silkAccount'', ''mint'',
        ''accountTokenAccount'', ''recipient'', ''recipientTokenAccount'', ''tokenProgram'',
        ''associatedTokenProgram'', ''systemProgram'']),
      (''initDriftUser'', ''init_drift_user'', [''owner'', ''silkAccount'', ''mint'', ''accountTokenAccount'',
        ''driftUser'', ''driftUserStats'', ''driftState'', ''driftSpotMarketVault'', ''driftSpotMarket'', ''driftOracle'',
        ''driftProgram'', ''tokenProgram'', ''rent'', ''systemProgram'']),
      (''addOperator'', ''add_operator'', [''owner'', ''silkAccount'']),
      (''removeOperator'', ''remove_operator'', [''owner'', ''silkAccount'']),
      (''togglePause'', ''toggle_pause'', [''owner'', ''silkAccount'']),
      (''closeAccount'', ''close_account'', [''owner'', ''silkAccount'', ''mint'', ''accountTokenAccount'',
        ''ownerTokenAccount'', ''tokenProgram'', ''associatedTokenProgram'', ''systemProgram''])]"

fun silk_arg_bytes :: "silk_env \<Rightarrow> silk_arg \<Rightarrow> buffer" where
  "silk_arg_bytes env (SPub k) = sg_key env k"
| "silk_arg_bytes env (SInt n) = enc_u64 (nat n)"
| "silk_arg_bytes env (SU16 m) = u16_bytes m"
| "silk_arg_bytes env (SLimit l) = enc_option_u64 (map_option nat l)"
| "silk_arg_bytes env (SBytes b) = b"

fun silk_arg_fits :: "silk_arg \<Rightarrow> bool" where
  "silk_arg_fits (SInt n) = (0 \<le> n \<and> n < 2 ^ 64)"
| "silk_arg_fits (SLimit l) = pred_option (\<lambda>n. 0 \<le> n \<and> n < 2 ^ 64) l"
| "silk_arg_fits x = True"

text \<open>Anchor writes the discriminator and the arguments, and orders the named accounts as the IDL does,
  before the remaining ones.\<close>

definition encoded_as :: "silk_env \<Rightarrow> string \<Rightarrow> string list \<Rightarrow> silk_call \<Rightarrow> tx_instruction \<Rightarrow> bool" where
  "encoded_as env name order c ix \<longleftrightarrow>
     xi_data ix = disc_of silkysig_discriminators name @ concat (map (silk_arg_bytes env) (sl_args c))
   \<and> map fst (xi_keys ix) = map (\<lambda>a. the (get (sl_accounts c) a)) order @ map fst (sl_remaining c)"

definition anchor_encodes :: "silk_env \<Rightarrow> bool" where
  "anchor_encodes env \<longleftrightarrow>
     (\<forall>c ix name order. map_of SILKYSIG_IDL (sl_method c) = Some (name, order) \<longrightarrow> sg_instruction env c = Inr ix
        \<longrightarrow> list_all silk_arg_fits (sl_args c) \<longrightarrow> encoded_as env name order c ix)"

text \<open>Base58 texts of keys are canonical and stand for 32 bytes, mints are named, and \<open>new BN\<close> is
  exact on the integers that a number holds exactly.\<close>

definition silk_env_ok :: "silk_env \<Rightarrow> (buffer \<Rightarrow> string) \<Rightarrow> bool" where
  "silk_env_ok env pk \<longleftrightarrow>
     (\<forall>s k. sg_pk env s = Some k \<longrightarrow> k = s \<and> length (sg_key env s) = 32 \<and> pk (sg_key env s) = s)
   \<and> (\<forall>a d. sg_fetch env a = Inr d \<longrightarrow> sk_mint d \<noteq> [])
   \<and> (\<forall>n. 0 \<le> n \<longrightarrow> n < 2 ^ 53 \<longrightarrow> sg_bn env (num_of_int n) = Inr n)
   \<and> anchor_encodes env"

section \<open>What a request asks for\<close>

datatype silk_request =
    RCreate string string "string option" "int option"
  | RDeposit string string int
  | RTransfer string string string int
  | RPause string string
  | RAddOperator string string string "int option"
  | RRemoveOperator string string string
  | RClose string string

fun silk_answer :: "silk_env \<Rightarrow> silk_request \<Rightarrow> http_error + string" where
  "silk_answer env (RCreate o' m k l) =
     http_bind (account_create env (Some o') (Some m) k (map_option num_of_int l)) (\<lambda>r. Inr (fst r))"
| "silk_answer env (RDeposit d a n) = account_deposit env (Some d) (Some a) (Some (num_of_int n))"
| "silk_answer env (RTransfer s a r n) = account_transfer env (Some s) (Some a) (Some r) (Some (num_of_int n))"
| "silk_answer env (RPause o' a) = account_pause env (Some o') (Some a)"
| "silk_answer env (RAddOperator o' a k l) =
     account_add_operator env (Some o') (Some a) (Some k) (map_option num_of_int l)"
| "silk_answer env (RRemoveOperator o' a k) = account_remove_operator env (Some o') (Some a) (Some k)"
| "silk_answer env (RClose o' a) = account_close env (Some o') (Some a)"

fun request_fits :: "silk_request \<Rightarrow> bool" where
  "request_fits (RDeposit d a n) = (0 \<le> n \<and> n < 2 ^ 53)"
| "request_fits (RTransfer s a r n) = (0 \<le> n \<and> n < 2 ^ 53)"
| "request_fits (RCreate o' m k l) = pred_option (\<lambda>n. 0 \<le> n \<and> n < 2 ^ 53) l"
| "request_fits (RAddOperator o' a k l) = pred_option (\<lambda>n. 0 \<le> n \<and> n < 2 ^ 53) l"
| "request_fits r = True"

fun request_payer :: "silk_request \<Rightarrow> string" where
  "request_payer (RCreate o' m k l) = o'"
| "request_payer (RDeposit d a n) = d"
| "request_payer (RTransfer s a r n) = s"
| "request_payer (RPause o' a) = o'"
| "request_payer (RAddOperator o' a k l) = o'"
| "request_payer (RRemoveOperator o' a k) = o'"
| "request_payer (RClose o' a) = o'"

definition moved :: "(string \<Rightarrow> string) \<Rightarrow> (string \<Rightarrow> nat) \<Rightarrow> string \<Rightarrow> int \<Rightarrow> jval obj" where
  "moved symb deci mint n =
     [(''amount'', JStr (nat_str (nat n))),
      (''amountHuman'', JStr (formatUnits n (int (deci mint)) @ '' '' @ symb mint))]"

definition added :: "string \<Rightarrow> string \<Rightarrow> string \<Rightarrow> int option \<Rightarrow> decoded" where
  "added o' a k l = decd ''add_operator''
     [(''owner'', JStr o'), (''silkAccount'', JStr a), (''operator'', JStr k),
      (''perTxLimit'', case l of None \<Rightarrow> JNull | Some n \<Rightarrow> JStr (nat_str (nat n)))]"

definition mint_at :: "silk_env \<Rightarrow> string \<Rightarrow> string" where
  "mint_at env a = (case fetchAccount env a of None \<Rightarrow> [] | Some d \<Rightarrow> sk_mint d)"

text \<open>The instructions that the client must see when it decodes the answer.\<close>

fun requested :: "silk_env \<Rightarrow> (string \<Rightarrow> string) \<Rightarrow> (string \<Rightarrow> nat) \<Rightarrow> silk_request \<Rightarrow> decoded list" where
  "requested env symb deci (RCreate o' m k l) =
     [decd ''create_account'' [(''owner'', JStr o'), (''mint'', JStr m), (''silkAccount'', JStr (findAccountPda env o'))]]
     @ (case given k of None \<Rightarrow> [] | Some op \<Rightarrow> [added o' (findAccountPda env o') op l])
     @ (if sg_accountInfo env (getDriftUserStatsPDA env (findAccountPda env o')) = Inr None
        then [decd ''init_drift_user'' []] else [])"
| "requested env symb deci (RDeposit d a n) =
     [decd ''deposit'' ([(''depositor'', JStr d), (''silkAccount'', JStr a), (''mint'', JStr (mint_at env a))]
        @ moved symb deci (mint_at env a) n)]"
| "requested env symb deci (RTransfer s a r n) =
     [decd ''transfer_from_account'' ([(''signer'', JStr s), (''silkAccount'', JStr a), (''mint'', JStr (mint_at env a)),
        (''recipient'', JStr r)] @ moved symb deci (mint_at env a) n)]"
| "requested env symb deci (RPause o' a) = [decd ''toggle_pause'' [(''owner'', JStr o'), (''silkAccount'', JStr a)]]"
| "requested env symb deci (RAddOperator o' a k l) = [added o' a k l]"
| "requested env symb deci (RRemoveOperator o' a k) =
     [decd ''remove_operator'' [(''owner'', JStr o'), (''silkAccount'', JStr a), (''operator'', JStr k)]]"
| "requested env symb deci (RClose o' a) = [decd ''close_account'' [(''owner'', JStr o'), (''silkAccount'', JStr a)]]"

definition ix_decodes ::
    "(buffer \<Rightarrow> string) \<Rightarrow> (string \<Rightarrow> string) \<Rightarrow> (string \<Rightarrow> nat) \<Rightarrow> tx_instruction \<Rightarrow> decoded \<Rightarrow> bool" where
  "ix_decodes pk symb deci ix d \<longleftrightarrow> decodeSilkysig pk (xi_data ix) (map fst (xi_keys ix)) symb deci = Some d"

section \<open>Every request is seen as it was made\<close>

lemma http_given_Some: "given (Some s) = (if s = [] then None else Some s)"
  by (simp add: given_def)

lemma encodedD:
  assumes "anchor_encodes env" and "sg_instruction env c = Inr ix"
    and "map_of SILKYSIG_IDL (sl_method c) = Some (name, order)" and "list_all silk_arg_fits (sl_args c)"
  shows "xi_data ix = disc_of silkysig_discriminators name @ concat (map (silk_arg_bytes env) (sl_args c))"
    and "map fst (xi_keys ix) = map (\<lambda>a. the (get (sl_accounts c) a)) order @ map fst (sl_remaining c)"
  using assms by (auto simp: anchor_encodes_def encoded_as_def)

lemma single_call_ix:
  assumes "single_call env c payer = Inr tx"
  obtains ix bh where "sg_instruction env c = Inr ix"
    and "sg_serialize env \<lparr>lt_blockhash = bh, lt_feePayer = payer, lt_instructions = [ix]\<rparr> = Inr tx"
  using assms by (auto simp: single_call_def serialize_tx_def bind_result_Inr_iff)

text \<open>The transaction that carries instructions which decode as \<open>ds\<close>.\<close>

definition carries ::
    "silk_env \<Rightarrow> (buffer \<Rightarrow> string) \<Rightarrow> (string \<Rightarrow> string) \<Rightarrow> (string \<Rightarrow> nat) \<Rightarrow> string \<Rightarrow> string \<Rightarrow> decoded list \<Rightarrow> bool" where
  "carries env pk symb deci tx payer ds \<longleftrightarrow>
     (\<exists>bh ixs. sg_serialize env \<lparr>lt_blockhash = bh, lt_feePayer = payer, lt_instructions = ixs\<rparr> = Inr tx
        \<and> list_all2 (ix_decodes pk symb deci) ixs ds)"

lemma single_carries:
  assumes "single_call env c payer = Inr tx"
    and "\<And>ix. sg_instruction env c = Inr ix \<Longrightarrow> ix_decodes pk symb deci ix d"
  shows "carries env pk symb deci tx payer [d]"
  using assms by (auto simp: carries_def elim!: single_call_ix)

lemma silk_call_simps [simp]:
  "sl_method (silk_call m args accounts) = m" "sl_args (silk_call m args accounts) = args"
  "sl_accounts (silk_call m args accounts) = accounts" "sl_remaining (silk_call m args accounts) = []"
  "sl_method (with_remaining ks c) = sl_method c" "sl_args (with_remaining ks c) = sl_args c"
  "sl_accounts (with_remaining ks c) = sl_accounts c" "sl_remaining (with_remaining ks c) = ks"
  by (simp_all add: silk_call_def with_remaining_def)

lemma silk_bare:
  assumes "name \<in> {''create_account'', ''toggle_pause'', ''close_account'', ''init_drift_user''}"
  shows "matchDiscriminator silkysig_discriminators (disc_of silkysig_discriminators name @ junk) = Some name"
  using assms by (intro match_disc_of(2)) (auto simp: silkysig_discriminators_def)

lemma remove_operator_decode:
  assumes "length k = 32"
  shows "decodeSilkysig pk (disc_of silkysig_discriminators ''remove_operator'' @ k) (o' # a # rest) symb deci =
    Some (decd ''remove_operator'' [(''owner'', JStr o'), (''silkAccount'', JStr a), (''operator'', JStr (pk k))])"
proof -
  have n: "''remove_operator'' \<in> fst ` set silkysig_discriminators"
    by (simp add: silkysig_discriminators_def)
  have "readPubkey pk (disc_of silkysig_discriminators ''remove_operator'' @ k) 8 = Inr (pk k, 40)"
    using pubkey.read_enc [of k pk "disc_of silkysig_discriminators ''remove_operator''" "[]"] assms
      length_disc_of(2) [OF n] by simp
  then show ?thesis
    using match_disc_of(2) [OF n] by (simp add: decodeSilkysig_def decode_remove_operator_def nth_or_null_def)
qed

text \<open>Each call of the client, once encoded, decodes as what it was built from.\<close>

lemma create_decodes:
  assumes "anchor_encodes env" and "sg_instruction env (create_call env o' m) = Inr ix"
  shows "ix_decodes pk symb deci ix
    (decd ''create_account'' [(''owner'', JStr o'), (''mint'', JStr m), (''silkAccount'', JStr (findAccountPda env o'))])"
  using encodedD [OF assms] silk_bare [of "''create_account''" "[]"]
  by (simp add: ix_decodes_def create_call_def SILKYSIG_IDL_def Let_def get_def decodeSilkysig_def nth_or_null_def)

lemma init_drift_decodes:
  assumes "anchor_encodes env" and "sg_instruction env (init_drift_call env o' m oracle) = Inr ix"
  shows "ix_decodes pk symb deci ix (decd ''init_drift_user'' [])"
proof -
  have "\<exists>junk. xi_data ix = disc_of silkysig_discriminators ''init_drift_user'' @ junk"
    using encodedD(1) [OF assms] by (simp add: init_drift_call_def SILKYSIG_IDL_def Let_def)
  then show ?thesis
    using silk_bare [of "''init_drift_user''"] by (auto simp: ix_decodes_def decodeSilkysig_def)
qed

lemma add_operator_decodes:
  assumes "anchor_encodes env" and "sg_instruction env (add_operator_call o' a k l) = Inr ix"
    and "length (sg_key env k) = 32" and "pk (sg_key env k) = k" and "pred_option (\<lambda>n. 0 \<le> n \<and> n < 2 ^ 64) l"
  shows "ix_decodes pk symb deci ix (added o' a k l)"
proof -
  have "pred_option (\<lambda>n. n < 2 ^ 64) (map_option nat l)" using assms(5) by (cases l) auto
  from silkysig_decode [of 0 "sg_key env k" "map_option nat l" "''m''" pk "[]"] assms(3) this
  have "decodeSilkysig pk (add_operator_data (sg_key env k) (map_option nat l)) [o', a] symb deci = Some (added o' a k l)"
    using assms(4) by (cases l) (simp_all add: added_def)
  then show ?thesis
    using encodedD [OF assms(1,2)] assms(5)
    by (simp add: ix_decodes_def add_operator_call_def limit_arg_def SILKYSIG_IDL_def get_def add_operator_data_def)
qed

lemma deposit_decodes:
  assumes "anchor_encodes env" and "sg_instruction env (with_remaining ks (deposit_call env d a m n)) = Inr ix"
    and "0 \<le> n" "n < 2 ^ 64" and "m \<noteq> []"
  shows "ix_decodes pk symb deci ix (decd ''deposit''
    ([(''depositor'', JStr d), (''silkAccount'', JStr a), (''mint'', JStr m)] @ moved symb deci m n))"
proof -
  note e = encodedD [OF assms(1,2)]
  have "nat n < 2 ^ 64" using assms(3,4) by simp
  from silkysig_decode [of "nat n" "replicate 32 0" None m pk "[]" d a] this assms(3,5)
  show ?thesis
    using e assms(3,4)
    by (simp add: ix_decodes_def deposit_call_def SILKYSIG_IDL_def get_def amount_data_def moved_def)
qed

lemma transfer_decodes:
  assumes "anchor_encodes env" and "sg_instruction env (with_remaining ks (transfer_call env s a m r n)) = Inr ix"
    and "0 \<le> n" "n < 2 ^ 64" and "m \<noteq> []"
  shows "ix_decodes pk symb deci ix (decd ''transfer_from_account''
    ([(''signer'', JStr s), (''silkAccount'', JStr a), (''mint'', JStr m), (''recipient'', JStr r)] @ moved symb deci m n))"
proof -
  note e = encodedD [OF assms(1,2)]
  have "nat n < 2 ^ 64" using assms(3,4) by simp
  from silkysig_decode [of "nat n" "replicate 32 0" None m pk "[]" s a] this assms(3,5)
  show ?thesis
    using e assms(3,4)
    by (simp add: ix_decodes_def transfer_call_def SILKYSIG_IDL_def get_def amount_data_def moved_def)
qed

lemma owner_decodes:
  assumes "anchor_encodes env"
    and "sg_instruction env (silk_call ''togglePause'' [] [(''owner'', o'), (''silkAccount'', a)]) = Inr ix"
  shows "ix_decodes pk symb deci ix (decd ''toggle_pause'' [(''owner'', JStr o'), (''silkAccount'', JStr a)])"
  using encodedD [OF assms] silk_bare [of "''toggle_pause''" "[]"]
  by (simp add: ix_decodes_def SILKYSIG_IDL_def get_def decodeSilkysig_def nth_or_null_def)

lemma close_decodes:
  assumes "anchor_encodes env" and "sg_instruction env (with_remaining ks (close_call env o' a m)) = Inr ix"
  shows "ix_decodes pk symb deci ix (decd ''close_account'' [(''owner'', JStr o'), (''silkAccount'', JStr a)])"
  using encodedD [OF assms] silk_bare [of "''close_account''" "[]"]
  by (simp add: ix_decodes_def close_call_def SILKYSIG_IDL_def get_def decodeSilkysig_def nth_or_null_def)

lemma remove_operator_decodes:
  assumes "anchor_encodes env"
    and "sg_instruction env (silk_call ''removeOperator'' [SPub k] [(''owner'', o'), (''silkAccount'', a)]) = Inr ix"
    and "length (sg_key env k) = 32" and "pk (sg_key env k) = k"
  shows "ix_decodes pk symb deci ix
    (decd ''remove_operator'' [(''owner'', JStr o'), (''silkAccount'', JStr a), (''operator'', JStr k)])"
  using encodedD [OF assms(1,2)] remove_operator_decode [OF assms(3), of pk o' a "[]"] assms(4)
  by (simp add: ix_decodes_def SILKYSIG_IDL_def get_def)

lemma silk_key_ok:
  assumes "silk_env_ok env pk" and "silk_key env s = Inr k"
  shows "k = s" and "length (sg_key env s) = 32" and "pk (sg_key env s) = s"
  using assms by (auto simp: silk_env_ok_def silk_key_def split: option.splits)

lemma env_anchor: "silk_env_ok env pk \<Longrightarrow> anchor_encodes env"
  by (simp add: silk_env_ok_def)

lemma env_bn: "silk_env_ok env pk \<Longrightarrow> 0 \<le> n \<Longrightarrow> n < 2 ^ 53 \<Longrightarrow> sg_bn env (num_of_int n) = Inr n"
  by (simp add: silk_env_ok_def)

lemma account_mint:
  assumes "silk_env_ok env pk" and "require_account env a = Inr d"
  shows "sk_mint d = mint_at env a" and "mint_at env a \<noteq> []"
  using assms by (auto simp: silk_env_ok_def require_account_def fetchAccount_def mint_at_def split: option.splits sum.splits)

lemma pubkey_field_Some: "pubkey_field env (Some s) f = Inr s' \<Longrightarrow> s' = s"
  by (simp add: pubkey_field_def validatePubkey_iff)

lemmas route_iffs = http_bind_Inr_iff bind_result_Inr_iff

lemma deposit_carries:
  assumes ok: "silk_env_ok env pk" and "0 \<le> n" "n < 2 ^ 53"
    and "account_deposit env (Some d) (Some a) (Some (num_of_int n)) = Inr tx"
  shows "carries env pk symb deci tx d (requested env symb deci (RDeposit d a n))"
proof -
  from assms(4) obtain ks acc where acc: "require_account env a = Inr acc"
    and tx: "single_call env (with_remaining ks (deposit_call env d a (sk_mint acc) n)) d = Inr tx"
    using env_bn [OF assms(1-3)]
    by (auto simp: account_deposit_def service_deposit_def buildDepositTx_def route_iffs positive_amount_def
        split: if_splits dest!: pubkey_field_Some silk_key_ok(1) [OF ok])
  show ?thesis
    using single_carries [OF tx deposit_decodes [OF env_anchor [OF ok]]] assms(2,3) account_mint [OF ok acc] by simp
qed

lemma transfer_carries:
  assumes ok: "silk_env_ok env pk" and "0 \<le> n" "n < 2 ^ 53"
    and "account_transfer env (Some s) (Some a) (Some r) (Some (num_of_int n)) = Inr tx"
  shows "carries env pk symb deci tx s (requested env symb deci (RTransfer s a r n))"
proof -
  from assms(4) obtain ks acc where acc: "require_account env a = Inr acc"
    and tx: "single_call env (with_remaining ks (transfer_call env s a (sk_mint acc) r n)) s = Inr tx"
    using env_bn [OF assms(1-3)]
    by (auto simp: account_transfer_def service_transfer_def buildTransferFromAccountTx_def route_iffs positive_amount_def
        split: if_splits dest!: pubkey_field_Some silk_key_ok(1) [OF ok])
  show ?thesis
    using single_carries [OF tx transfer_decodes [OF env_anchor [OF ok]]] assms(2,3) account_mint [OF ok acc] by simp
qed

lemma close_carries:
  assumes ok: "silk_env_ok env pk" and "account_close env (Some o') (Some a) = Inr tx"
  shows "carries env pk symb deci tx o' (requested env symb deci (RClose o' a))"
proof -
  from assms(2) obtain ks acc where "require_account env a = Inr acc"
    and tx: "single_call env (with_remaining ks (close_call env o' a (sk_mint acc))) o' = Inr tx"
    by (auto simp: account_close_def service_close_def buildCloseAccountTx_def route_iffs
        dest!: pubkey_field_Some silk_key_ok(1) [OF ok])
  show ?thesis
    using single_carries [OF tx close_decodes [OF env_anchor [OF ok]]] by simp
qed

lemma pause_carries:
  assumes ok: "silk_env_ok env pk" and "account_pause env (Some o') (Some a) = Inr tx"
  shows "carries env pk symb deci tx o' (requested env symb deci (RPause o' a))"
proof -
  from assms(2) have "buildTogglePauseTx env o' a = Inr tx"
    by (auto simp: account_pause_def service_pause_def route_iffs dest!: pubkey_field_Some silk_key_ok(1) [OF ok])
  then show ?thesis
    using single_carries [OF _ owner_decodes [OF env_anchor [OF ok]]] by (simp add: buildTogglePauseTx_def)
qed

lemma remove_operator_carries:
  assumes ok: "silk_env_ok env pk" and "account_remove_operator env (Some o') (Some a) (Some k) = Inr tx"
  shows "carries env pk symb deci tx o' (requested env symb deci (RRemoveOperator o' a k))"
proof -
  from assms(2) have tx: "buildRemoveOperatorTx env o' a k = Inr tx" and k: "silk_key env k = Inr k"
    by (auto simp: account_remove_operator_def service_remove_operator_def route_iffs
        dest!: pubkey_field_Some dest: silk_key_ok(1) [OF ok])
  note tx = tx [unfolded buildRemoveOperatorTx_def]
  show ?thesis
    unfolding requested.simps
    by (rule single_carries [OF tx])
      (rule remove_operator_decodes [OF env_anchor [OF ok]], assumption, rule silk_key_ok [OF ok k], rule silk_key_ok [OF ok k])
qed

lemma limit_bn:
  assumes "silk_env_ok env pk" and "pred_option (\<lambda>n. 0 \<le> n \<and> n < 2 ^ 53) l"
  shows "bn_option env (map_option num_of_int l) = Inr l" and "pred_option (\<lambda>n. 0 \<le> n \<and> n < 2 ^ 64) l"
  using assms env_bn by (cases l; simp add: bn_option_def)+

lemma add_operator_carries:
  assumes ok: "silk_env_ok env pk" and l: "pred_option (\<lambda>n. 0 \<le> n \<and> n < 2 ^ 53) l"
    and "account_add_operator env (Some o') (Some a) (Some k) (map_option num_of_int l) = Inr tx"
  shows "carries env pk symb deci tx o' (requested env symb deci (RAddOperator o' a k l))"
proof -
  from assms(3) have tx: "buildAddOperatorTx env o' a k l = Inr tx" and k: "silk_key env k = Inr k"
    using limit_bn(1) [OF ok l]
    by (auto simp: account_add_operator_def service_add_operator_def route_iffs
        dest!: pubkey_field_Some dest: silk_key_ok(1) [OF ok])
  note tx = tx [unfolded buildAddOperatorTx_def]
  show ?thesis
    unfolding requested.simps
    by (rule single_carries [OF tx])
      (rule add_operator_decodes [OF env_anchor [OF ok]], assumption, rule silk_key_ok [OF ok k],
       rule silk_key_ok [OF ok k], rule limit_bn(2) [OF ok l])
qed

lemma create_carries:
  assumes ok: "silk_env_ok env pk" and l: "pred_option (\<lambda>n. 0 \<le> n \<and> n < 2 ^ 53) l"
    and "account_create env (Some o') (Some m) k (map_option num_of_int l) = Inr r"
  shows "carries env pk symb deci (fst r) o' (requested env symb deci (RCreate o' m k l))"
proof -
  note enc = env_anchor [OF ok]
  from assms(3) obtain op where op: "key_option env k = Inr op" and r: "buildCreateAccountTx env o' m op l = Inr r"
    using limit_bn(1) [OF ok l]
    by (auto simp: account_create_def service_create_def route_iffs dest!: pubkey_field_Some dest: silk_key_ok(1) [OF ok])
  have given: "given k = op" using op silk_key_ok(1) [OF ok]
    by (cases "given k") (auto simp: key_option_def bind_result_Inr_iff)
  from r obtain c bh add dr where c: "sg_instruction env (create_call env o' m) = Inr c"
    and add: "(case op of None \<Rightarrow> Inr []
         | Some k \<Rightarrow> bind_result (sg_instruction env (add_operator_call o' (findAccountPda env o') k l)) (\<lambda>ix. Inr [ix])) = Inr add"
    and dr: "init_drift env o' m = Inr dr" and tx: "serialize_tx env bh (c # add @ dr) o' = Inr (fst r)"
    by (auto simp: buildCreateAccountTx_def Let_def bind_result_Inr_iff)
  have a: "list_all2 (ix_decodes pk symb deci) add
      (case op of None \<Rightarrow> [] | Some k \<Rightarrow> [added o' (findAccountPda env o') k l])"
  proof (cases op)
    case (Some k')
    then have "silk_key env k' = Inr k'"
      using op silk_key_ok(1) [OF ok] by (auto simp: key_option_def bind_result_Inr_iff split: option.splits)
    from add_operator_decodes [OF enc] silk_key_ok [OF ok this] limit_bn(2) [OF ok l] show ?thesis
      using Some add by (auto simp: bind_result_Inr_iff)
  qed (use add in simp)
  have d: "list_all2 (ix_decodes pk symb deci) dr
      (if sg_accountInfo env (getDriftUserStatsPDA env (findAccountPda env o')) = Inr None
       then [decd ''init_drift_user'' []] else [])"
    using dr init_drift_decodes [OF enc] by (auto simp: init_drift_def bind_result_Inr_iff split: option.splits)
  have "list_all2 (ix_decodes pk symb deci) (c # add @ dr) (requested env symb deci (RCreate o' m k l))"
    using create_decodes [OF enc c] list_all2_appendI [OF a d] given by simp
  with tx show ?thesis unfolding carries_def serialize_tx_def by blast
qed

text \<open>C8. Whatever a client asks the account routes of the backend to build (open an account, deposit,
  transfer, pause, add or remove an operator, close), an answered transaction is paid by the client
  and carries exactly the instructions that were asked for: decoded by the SDK they show the same
  account, operator, recipient, amount and limit, with the mint that the account has on chain. A
  request to open an account carries the operator's instruction exactly when an operator was named,
  and the Drift initialisation exactly when its statistics account is missing.\<close>

theorem silkysig_tx_roundtrip:
  assumes "silk_env_ok env pk" and "request_fits r" and "silk_answer env r = Inr tx"
  shows "carries env pk symb deci tx (request_payer r) (requested env symb deci r)"
  using assms
  by (cases r) (auto simp: http_bind_Inr_iff simp del: requested.simps
      intro: deposit_carries transfer_carries close_carries pause_carries remove_operator_carries add_operator_carries
        create_carries [of _ _ _ _ _ _ "(_, _)", unfolded fst_conv])

text \<open>An environment in which keys are 32-byte texts and Anchor encodes as the IDL says.\<close>

definition sample_silk_data :: silk_data where
  "sample_silk_data = \<lparr>sk_owner = replicate 32 (CHR ''O''), sk_mint = ''M'', sk_isPaused = False, sk_operators = [],
     sk_driftUser = None, sk_driftMarketIndex = None, sk_principalBalance = 0\<rparr>"

definition sample_silk_ix :: "silk_call \<Rightarrow> tx_instruction result" where
  "sample_silk_ix c =
     (case map_of SILKYSIG_IDL (sl_method c) of
        None \<Rightarrow> Inl (JsError ''unknown method'')
      | Some (name, order) \<Rightarrow> Inr \<lparr>xi_programId = ''S'',
          xi_keys = map (\<lambda>a. (the (get (sl_accounts c) a), False, True)) order @ sl_remaining c,
          xi_data = disc_of silkysig_discriminators name
            @ concat (map (\<lambda>a. case a of SPub k \<Rightarrow> utf8_bytes k | SInt n \<Rightarrow> enc_u64 (nat n) | SU16 m \<Rightarrow> u16_bytes m
                | SLimit l \<Rightarrow> enc_option_u64 (map_option nat l) | SBytes b \<Rightarrow> b) (sl_args c))\<rparr>)"

definition sample_silk_env :: silk_env where
  "sample_silk_env = \<lparr>sg_fetch = (\<lambda>a. Inr sample_silk_data), sg_program = ''S'', sg_pda = (\<lambda>seeds p. ''P''),
     sg_key = utf8_bytes, sg_pk = (\<lambda>s. if length s = 32 then Some s else None), sg_pk_error = ''Invalid public key input'',
     sg_pk_bytes = map byte_char, sg_ata = (\<lambda>m k. ''T''),
     sg_bn = (\<lambda>d. case d of Fin q \<Rightarrow> Inr \<lfloor>q\<rfloor> | _ \<Rightarrow> Inl (JsError ''bn'')), sg_bn_null = ''bn'',
     sg_holders = (\<lambda>i k. Inr []), sg_tokenBalance = (\<lambda>k. Inr (0, 6)), sg_mintDecimals = (\<lambda>k. Inr 6),
     sg_accountInfo = (\<lambda>k. Inr None), sg_blockhash = Inr ''H'', sg_instruction = sample_silk_ix,
     sg_serialize = (\<lambda>t. Inr (lt_feePayer t))\<rparr>"

lemma sample_silk_ok: "silk_env_ok sample_silk_env (map byte_char)"
proof -
  have "concat (map (\<lambda>a. case a of SPub k \<Rightarrow> utf8_bytes k | SInt n \<Rightarrow> enc_u64 (nat n) | SU16 m \<Rightarrow> u16_bytes m
      | SLimit l \<Rightarrow> enc_option_u64 (map_option nat l) | SBytes b \<Rightarrow> b) as)
    = concat (map (silk_arg_bytes sample_silk_env) as)" for as
    by (intro arg_cong [of _ _ concat] map_cong) (auto simp: sample_silk_env_def split: silk_arg.split)
  then have "anchor_encodes sample_silk_env"
    by (auto simp: anchor_encodes_def encoded_as_def sample_silk_env_def sample_silk_ix_def o_def)
  moreover have "map byte_char (utf8_bytes s) = s" for s
    by (simp add: utf8_bytes_def byte_char_inverse o_def)
  ultimately show ?thesis
    by (auto simp: silk_env_ok_def num_of_int_exact) (auto simp: sample_silk_env_def sample_silk_data_def utf8_bytes_def split: if_splits)
qed

definition key_text :: "char \<Rightarrow> string" where
  "key_text c = replicate 32 c"

lemma sample_transfer:
  "silk_answer sample_silk_env (RTransfer (key_text (CHR ''A'')) (key_text (CHR ''B'')) (key_text (CHR ''C'')) 2500000)
   = Inr (key_text (CHR ''A''))"
proof -
  have key: "pubkey_field sample_silk_env (Some (key_text c)) f = Inr (key_text c)"
    "silk_key sample_silk_env (key_text c) = Inr (key_text c)" for c f
    by (simp_all add: pubkey_field_def validatePubkey_def given_def silk_key_def sample_silk_env_def key_text_def)
  have n: "num_of_int 2500000 = Fin 2500000" by (simp add: num_of_int_exact)
  show ?thesis
    by (simp add: account_transfer_def http_bind_def key n positive_amount_def d_truthy_def d_le_def d_less_def
        service_transfer_def buildTransferFromAccountTx_def uncaught_def)
      (simp add: sample_silk_env_def sample_silk_data_def require_account_def fetchAccount_def withdraw_accounts_def
        single_call_def serialize_tx_def transfer_call_def sample_silk_ix_def SILKYSIG_IDL_def)
qed

theorem silkysig_tx_roundtrip_witness:
  "carries sample_silk_env (map byte_char) (\<lambda>m. ''USDC'') (\<lambda>m. 6) (key_text (CHR ''A'')) (key_text (CHR ''A''))
    [decd ''transfer_from_account'' ([(''signer'', JStr (key_text (CHR ''A''))),
       (''silkAccount'', JStr (key_text (CHR ''B''))), (''mint'', JStr ''M''), (''recipient'', JStr (key_text (CHR ''C'')))]
       @ moved (\<lambda>m. ''USDC'') (\<lambda>m. 6) ''M'' 2500000)]"
proof -
  have m: "mint_at sample_silk_env a = ''M''" for a
    by (simp add: mint_at_def fetchAccount_def sample_silk_env_def sample_silk_data_def)
  show ?thesis
    using silkysig_tx_roundtrip [OF sample_silk_ok _ sample_transfer, of "\<lambda>m. ''USDC''" "\<lambda>m. 6"] by (simp add: m)
qed

end
