(* ===== verification/Faucet.thy ===== *)
theory Faucet
  imports TransferIndex
begin

text \<open>
  The Solana service of the backend (\<^verbatim>\<open>solana/solana.service.ts\<close>) with the faucet route of
  \<^verbatim>\<open>tx.controller.ts\<close>, and the balances of \<^verbatim>\<open>wallet.service.ts\<close>. A faucet request is cut where the
  code awaits the node: rate check and instructions, submission, confirmation and recording; one
  request run to its end is the composition, and overlapping requests are runs of a step relation
  over the same pieces. The node, the token library and the signer are the parameter
  \<open>faucet_env\<close>; wallets are base58 texts, times are milliseconds, amounts are base units.
\<close>

section \<open>Instructions and the node\<close>

datatype faucet_ix =
    FTransfer string string int
  | FCreateAta string string string string
  | FSpl string string string int

text \<open>\<open>fe_ata\<close> is \<open>getAssociatedTokenAddressSync\<close>, \<open>fe_getAccount\<close> is \<open>getAccount\<close>, \<open>fe_send\<close> is
  \<open>sendRawTransaction\<close> of the transaction signed by the system wallet, \<open>fe_confirm\<close> is
  \<open>confirmTransaction\<close>; \<open>fe_start\<close>, \<open>fe_sent\<close> and \<open>fe_done\<close> are the clock at the rate check,
  when the node accepts the transaction and after the confirmation.\<close>

record faucet_env =
  fe_signer :: string
  fe_usdcMint :: "string option"
  fe_ata :: "string \<Rightarrow> string \<Rightarrow> string"
  fe_getAccount :: "string \<Rightarrow> unit result"
  fe_blockhash :: "string result"
  fe_send :: "string \<Rightarrow> faucet_ix list \<Rightarrow> string result"
  fe_confirm :: "string \<Rightarrow> unit result"
  fe_start :: int
  fe_sent :: int
  fe_done :: int

text \<open>\<open>faucetLastRequest\<close>; and, to state what the faucet gives away, the transactions that the node
  accepted: key, time and instructions, the latest first.\<close>

record faucet_state =
  fs_last :: "string \<rightharpoonup> int"
  fs_sent :: "(string \<times> int \<times> faucet_ix list) list"

definition FAUCET_COOLDOWN_MS :: int where
  "FAUCET_COOLDOWN_MS = 10 * 60 * 1000"

definition SOL_GRANT :: int where
  "SOL_GRANT = 100000000"

definition not_configured :: string where
  "not_configured = ''USDC faucet not configured. Set USDC_MINT_ADDRESS in .env.''"

section \<open>The rate limit\<close>

definition ceil_seconds :: "int \<Rightarrow> int" where
  "ceil_seconds ms = - ((- ms) div 1000)"

definition checkRateLimit :: "(string \<rightharpoonup> int) \<Rightarrow> int \<Rightarrow> string \<Rightarrow> unit result" where
  "checkRateLimit recent now key =
     (case recent key of
        None \<Rightarrow> Inr ()
      | Some t \<Rightarrow>
          if t \<noteq> 0 \<and> now - t < FAUCET_COOLDOWN_MS
          then Inl (JsError (''RATE_LIMITED: Try again in '' @ int_str (ceil_seconds (FAUCET_COOLDOWN_MS - (now - t))) @ '' seconds''))
          else Inr ())"

section \<open>The three grants\<close>

definition sol_instructions :: "faucet_env \<Rightarrow> string \<Rightarrow> faucet_ix list" where
  "sol_instructions env wallet = [FTransfer (fe_signer env) wallet SOL_GRANT]"

definition usdc_instructions :: "faucet_env \<Rightarrow> string \<Rightarrow> string \<Rightarrow> int \<Rightarrow> faucet_ix list" where
  "usdc_instructions env mint wallet amount =
     (let sourceAta = fe_ata env mint (fe_signer env); destAta = fe_ata env mint wallet
      in (case fe_getAccount env destAta of Inl e \<Rightarrow> [FCreateAta (fe_signer env) destAta wallet mint] | Inr u \<Rightarrow> [])
         @ [FSpl sourceAta destAta (fe_signer env) (amount * 10 ^ 6)])"

text \<open>A request up to the point where it starts to wait for the node: its key and its instructions.\<close>

datatype grant_kind = GSol | GUsdc int | GFund bool bool

fun grant_key :: "grant_kind \<Rightarrow> string \<Rightarrow> string" where
  "grant_key GSol wallet = ''sol:'' @ wallet"
| "grant_key (GUsdc a) wallet = ''usdc:'' @ wallet"
| "grant_key (GFund s u) wallet = ''fund:'' @ wallet"

fun open_grant :: "faucet_env \<Rightarrow> (string \<rightharpoonup> int) \<Rightarrow> grant_kind \<Rightarrow> string \<Rightarrow> (string \<times> faucet_ix list) result" where
  "open_grant env recent GSol wallet =
     bind_result (checkRateLimit recent (fe_start env) (grant_key GSol wallet)) (\<lambda>u.
       Inr (grant_key GSol wallet, sol_instructions env wallet))"
| "open_grant env recent (GUsdc amount) wallet =
     (case fe_usdcMint env of
        None \<Rightarrow> Inl (JsError not_configured)
      | Some mint \<Rightarrow>
          bind_result (checkRateLimit recent (fe_start env) (grant_key (GUsdc amount) wallet)) (\<lambda>u.
            Inr (grant_key (GUsdc amount) wallet, usdc_instructions env mint wallet amount)))"
| "open_grant env recent (GFund sol usdc) wallet =
     bind_result (checkRateLimit recent (fe_start env) (grant_key (GFund sol usdc) wallet)) (\<lambda>u.
       let sols = if sol then sol_instructions env wallet else [] in
       if \<not> usdc then Inr (grant_key (GFund sol usdc) wallet, sols)
       else (case fe_usdcMint env of
          None \<Rightarrow> Inl (JsError not_configured)
        | Some mint \<Rightarrow> Inr (grant_key (GFund sol usdc) wallet, sols @ usdc_instructions env mint wallet 100)))"

text \<open>Blockhash and submission; then the confirmation, after which the time is recorded.\<close>

definition send_grant :: "faucet_env \<Rightarrow> string \<Rightarrow> faucet_ix list \<Rightarrow> faucet_state \<Rightarrow> string result \<times> faucet_state" where
  "send_grant env key ixs st =
     (case bind_result (fe_blockhash env) (\<lambda>blockhash. fe_send env blockhash ixs) of
        Inl e \<Rightarrow> (Inl e, st)
      | Inr txid \<Rightarrow> (Inr txid, st\<lparr>fs_sent := (key, fe_sent env, ixs) # fs_sent st\<rparr>))"

definition confirm_grant :: "faucet_env \<Rightarrow> string \<Rightarrow> string \<Rightarrow> faucet_state \<Rightarrow> string result \<times> faucet_state" where
  "confirm_grant env key txid st =
     (case fe_confirm env txid of
        Inl e \<Rightarrow> (Inl e, st)
      | Inr u \<Rightarrow> (Inr txid, st\<lparr>fs_last := (fs_last st)(key \<mapsto> fe_done env)\<rparr>))"

definition run_grant :: "faucet_env \<Rightarrow> grant_kind \<Rightarrow> string \<Rightarrow> faucet_state \<Rightarrow> string result \<times> faucet_state" where
  "run_grant env k wallet st =
     (case open_grant env (fs_last st) k wallet of
        Inl e \<Rightarrow> (Inl e, st)
      | Inr (key, ixs) \<Rightarrow>
          (case send_grant env key ixs st of
             (Inl e, st1) \<Rightarrow> (Inl e, st1)
           | (Inr txid, st1) \<Rightarrow> confirm_grant env key txid st1))"

text \<open>What a request is answered: the SOL and the USDC part, amount and transaction.\<close>

type_synonym faucet_reply = "(string \<times> string) option \<times> (string \<times> string) option"

definition map_reply :: "(string \<Rightarrow> faucet_reply) \<Rightarrow> string result \<times> faucet_state \<Rightarrow> faucet_reply result \<times> faucet_state" where
  "map_reply f r = (bind_result (fst r) (\<lambda>txid. Inr (f txid)), snd r)"

definition transferSol :: "faucet_env \<Rightarrow> string \<Rightarrow> faucet_state \<Rightarrow> faucet_reply result \<times> faucet_state" where
  "transferSol env wallet st = map_reply (\<lambda>txid. (Some (''0.1'', txid), None)) (run_grant env GSol wallet st)"

definition transferUsdc :: "faucet_env \<Rightarrow> string \<Rightarrow> int \<Rightarrow> faucet_state \<Rightarrow> faucet_reply result \<times> faucet_state" where
  "transferUsdc env wallet amount st =
     map_reply (\<lambda>txid. (None, Some (int_str amount, txid))) (run_grant env (GUsdc amount) wallet st)"

definition fundWallet :: "faucet_env \<Rightarrow> string \<Rightarrow> bool \<Rightarrow> bool \<Rightarrow> faucet_state \<Rightarrow> faucet_reply result \<times> faucet_state" where
  "fundWallet env wallet sol usdc st =
     map_reply (\<lambda>txid. (if sol then Some (''0.1'', txid) else None, if usdc then Some (''100'', txid) else None))
       (run_grant env (GFund sol usdc) wallet st)"

text \<open>The route: every error is answered with status 400, also the one that the route itself throws for
  an unknown token, whose code is lost.\<close>

definition faucet_error :: "js_error \<Rightarrow> http_error" where
  "faucet_error e =
     BadRequest (if startsWith (err_message e) ''RATE_LIMITED'' then ''RATE_LIMITED'' else ''FAUCET_FAILED'') (err_message e)"

definition unsupported_token :: "string \<Rightarrow> js_error" where
  "unsupported_token t = JsError (''Token '' @ quoted t @ '' not supported. Use '' @ quoted ''sol'' @ '', '' @ quoted ''usdc''
     @ '', or '' @ quoted ''both'' @ ''.'')"

definition faucet_route ::
    "(string \<Rightarrow> string option) \<Rightarrow> faucet_env \<Rightarrow> string option \<Rightarrow> string option \<Rightarrow> faucet_state
       \<Rightarrow> (http_error + faucet_reply) \<times> faucet_state" where
  "faucet_route pk env wallet token st =
     (case validatePubkey pk wallet ''wallet'' of
        Inl e \<Rightarrow> (Inl e, st)
      | Inr v \<Rightarrow>
          let w = the (pk v) in
          (case (case given token of
                   None \<Rightarrow> fundWallet env w True True st
                 | Some t \<Rightarrow>
                     if t = ''both'' then fundWallet env w True True st
                     else if t = ''sol'' then transferSol env w st
                     else if t = ''usdc'' then transferUsdc env w 100 st
                     else (Inl (unsupported_token t), st)) of
             (Inl e, st1) \<Rightarrow> (Inl (faucet_error e), st1)
           | (Inr r, st1) \<Rightarrow> (Inr r, st1)))"

section \<open>Requests that overlap\<close>

text \<open>A request waits for the node between its check, its submission and its confirmation, and other
  requests run meanwhile. \<open>ordered\<close> restricts the runs to those in which no request for a key starts
  while another one for it is under way and no confirmation fails. The clock only advances (\<^verbatim>\<open>Date.now\<close>
  may be set back, which is left out).\<close>

record faucet_sys =
  fx_state :: faucet_state
  fx_open :: "(string \<times> faucet_ix list) list"
  fx_waiting :: "(string \<times> string) list"
  fx_clock :: int

definition busy :: "faucet_sys \<Rightarrow> string set" where
  "busy s = fst ` set (fx_open s) \<union> fst ` set (fx_waiting s)"

inductive faucet_step :: "bool \<Rightarrow> faucet_sys \<Rightarrow> faucet_sys \<Rightarrow> bool" for ordered where
  tick: "0 \<le> d \<Longrightarrow> faucet_step ordered s (s\<lparr>fx_clock := fx_clock s + d\<rparr>)"
| check: "open_grant env (fs_last (fx_state s)) k w = Inr (key, ixs) \<Longrightarrow> fe_start env = fx_clock s
    \<Longrightarrow> (ordered \<longrightarrow> key \<notin> busy s) \<Longrightarrow> faucet_step ordered s (s\<lparr>fx_open := (key, ixs) # fx_open s\<rparr>)"
| submit: "(key, ixs) \<in> set (fx_open s) \<Longrightarrow> send_grant env key ixs (fx_state s) = (Inr txid, st)
    \<Longrightarrow> fe_sent env = fx_clock s
    \<Longrightarrow> faucet_step ordered s (s\<lparr>fx_state := st, fx_open := remove1 (key, ixs) (fx_open s),
          fx_waiting := (key, txid) # fx_waiting s\<rparr>)"
| unsent: "(key, ixs) \<in> set (fx_open s) \<Longrightarrow> send_grant env key ixs (fx_state s) = (Inl e, st)
    \<Longrightarrow> faucet_step ordered s (s\<lparr>fx_state := st, fx_open := remove1 (key, ixs) (fx_open s)\<rparr>)"
| confirm: "(key, txid) \<in> set (fx_waiting s) \<Longrightarrow> confirm_grant env key txid (fx_state s) = (Inr txid, st)
    \<Longrightarrow> fe_done env = fx_clock s
    \<Longrightarrow> faucet_step ordered s (s\<lparr>fx_state := st, fx_waiting := remove1 (key, txid) (fx_waiting s)\<rparr>)"
| lost: "\<not> ordered \<Longrightarrow> (key, txid) \<in> set (fx_waiting s) \<Longrightarrow> confirm_grant env key txid (fx_state s) = (Inl e, st)
    \<Longrightarrow> faucet_step ordered s (s\<lparr>fx_state := st, fx_waiting := remove1 (key, txid) (fx_waiting s)\<rparr>)"

definition faucet_start :: "int \<Rightarrow> faucet_sys" where
  "faucet_start t = \<lparr>fx_state = \<lparr>fs_last = Map.empty, fs_sent = []\<rparr>, fx_open = [], fx_waiting = [], fx_clock = t\<rparr>"

inductive faucet_reach :: "bool \<Rightarrow> int \<Rightarrow> faucet_sys \<Rightarrow> bool" for ordered t where
  start: "faucet_reach ordered t (faucet_start t)"
| step: "faucet_reach ordered t s \<Longrightarrow> faucet_step ordered s s' \<Longrightarrow> faucet_reach ordered t s'"

inductive_cases faucet_stepE: "faucet_step ordered s s'"

lemma send_grant_Inr:
  "send_grant env key ixs st = (Inr txid, st') \<Longrightarrow> st' = st\<lparr>fs_sent := (key, fe_sent env, ixs) # fs_sent st\<rparr>"
  by (auto simp: send_grant_def split: sum.splits)

lemma send_grant_Inl: "send_grant env key ixs st = (Inl e, st') \<Longrightarrow> st' = st"
  by (auto simp: send_grant_def split: sum.splits)

lemma confirm_grant_Inr:
  "confirm_grant env key txid st = (Inr x, st') \<Longrightarrow> x = txid \<and> st' = st\<lparr>fs_last := (fs_last st)(key \<mapsto> fe_done env)\<rparr>"
  by (auto simp: confirm_grant_def split: sum.splits)

lemma confirm_grant_Inl: "confirm_grant env key txid st = (Inl e, st') \<Longrightarrow> st' = st"
  by (auto simp: confirm_grant_def split: sum.splits)

lemma open_grant_check:
  "open_grant env recent k w = Inr (key, ixs) \<Longrightarrow> checkRateLimit recent (fe_start env) key = Inr ()"
  by (cases k) (auto simp: bind_result_Inr_iff Let_def split: option.splits if_splits)

lemma checked_apart: "checkRateLimit recent now key = Inr () \<Longrightarrow> recent key = Some l \<Longrightarrow> l \<noteq> 0 \<Longrightarrow> l + FAUCET_COOLDOWN_MS \<le> now"
  by (auto simp: checkRateLimit_def split: if_splits)

text \<open>The submissions of one key, and the distance of two successive ones.\<close>

definition sent_times :: "string \<Rightarrow> faucet_state \<Rightarrow> int list" where
  "sent_times key st = map (\<lambda>(k, t, ixs). t) (filter (\<lambda>(k, t, ixs). k = key) (fs_sent st))"

definition spaced :: "int list \<Rightarrow> bool" where
  "spaced ts \<longleftrightarrow> sorted_wrt (\<lambda>later earlier. earlier + FAUCET_COOLDOWN_MS \<le> later) ts"

definition key_ok :: "int \<Rightarrow> faucet_sys \<Rightarrow> string \<Rightarrow> bool" where
  "key_ok t0 s key \<longleftrightarrow>
     spaced (sent_times key (fx_state s))
   \<and> (\<forall>t \<in> set (sent_times key (fx_state s)). t \<le> fx_clock s)
   \<and> (\<forall>l. fs_last (fx_state s) key = Some l \<longrightarrow> t0 \<le> l)
   \<and> (key \<notin> fst ` set (fx_waiting s) \<longrightarrow> sent_times key (fx_state s) \<noteq> [] \<longrightarrow>
        (\<exists>l. fs_last (fx_state s) key = Some l \<and> (\<forall>t \<in> set (sent_times key (fx_state s)). t \<le> l)))
   \<and> (key \<in> fst ` set (fx_open s) \<longrightarrow>
        (\<forall>t \<in> set (sent_times key (fx_state s)). t + FAUCET_COOLDOWN_MS \<le> fx_clock s))"

definition faucet_inv :: "int \<Rightarrow> faucet_sys \<Rightarrow> bool" where
  "faucet_inv t0 s \<longleftrightarrow> t0 \<le> fx_clock s \<and> distinct (map fst (fx_open s) @ map fst (fx_waiting s)) \<and> (\<forall>key. key_ok t0 s key)"

lemma keys_remove1:
  assumes "distinct (map fst xs)" and "(a, b) \<in> set xs"
  shows "fst ` set (remove1 (a, b) xs) = fst ` set xs - {a}" and "distinct (map fst (remove1 (a, b) xs))"
proof -
  have d: "distinct xs" using assms(1) by (simp add: distinct_map)
  show "fst ` set (remove1 (a, b) xs) = fst ` set xs - {a}"
    using assms d by (fastforce simp: distinct_map inj_on_def image_iff)
  show "distinct (map fst (remove1 (a, b) xs))"
    using assms(1) by (induction xs) (auto simp: image_iff dest: in_set_remove1 [THEN iffD1, rotated] notin_set_remove1)
qed

lemma sent_times_simps [simp]:
  "sent_times key (st\<lparr>fs_sent := (k, t, ixs) # fs_sent st\<rparr>) = (if k = key then t # sent_times key st else sent_times key st)"
  "sent_times key (st\<lparr>fs_last := l\<rparr>) = sent_times key st"
  by (simp_all add: sent_times_def)

lemma inv_tick: "faucet_inv t0 s \<Longrightarrow> 0 \<le> d \<Longrightarrow> faucet_inv t0 (s\<lparr>fx_clock := fx_clock s + d\<rparr>)"
  unfolding faucet_inv_def key_ok_def busy_def by (auto intro: order_trans simp: add_increasing2)

lemma inv_check:
  assumes "faucet_inv t0 s" and "0 < t0" and "key \<notin> busy s"
    and c: "checkRateLimit (fs_last (fx_state s)) (fx_clock s) key = Inr ()"
  shows "faucet_inv t0 (s\<lparr>fx_open := (key, ixs) # fx_open s\<rparr>)"
proof -
  have k: "key_ok t0 s key" using assms(1) by (simp add: faucet_inv_def)
  have "t + FAUCET_COOLDOWN_MS \<le> fx_clock s" if t: "t \<in> set (sent_times key (fx_state s))" for t
  proof -
    from k t assms(3) obtain l where "fs_last (fx_state s) key = Some l" "t \<le> l" "t0 \<le> l"
      by (auto simp: key_ok_def busy_def)
    then show ?thesis using checked_apart [OF c] assms(2) by force
  qed
  then show ?thesis using assms(1,3) unfolding faucet_inv_def key_ok_def busy_def by auto
qed

lemma inv_submit:
  assumes "faucet_inv t0 s" and "(key, ixs) \<in> set (fx_open s)"
  shows "faucet_inv t0 (s\<lparr>fx_state := (fx_state s)\<lparr>fs_sent := (key, fx_clock s, ixs) # fs_sent (fx_state s)\<rparr>,
      fx_open := remove1 (key, ixs) (fx_open s), fx_waiting := (key, txid) # fx_waiting s\<rparr>)"
proof -
  have d: "distinct (map fst (fx_open s))" using assms(1) by (simp add: faucet_inv_def)
  have k: "key \<in> fst ` set (fx_open s)" using assms(2) by force
  note r = keys_remove1 [OF d assms(2)]
  show ?thesis using assms(1) k r
    unfolding faucet_inv_def key_ok_def busy_def spaced_def by (auto simp: image_iff)
qed

lemma inv_unsent:
  assumes "faucet_inv t0 s" and "(key, ixs) \<in> set (fx_open s)"
  shows "faucet_inv t0 (s\<lparr>fx_open := remove1 (key, ixs) (fx_open s)\<rparr>)"
proof -
  have d: "distinct (map fst (fx_open s))" using assms(1) by (simp add: faucet_inv_def)
  note r = keys_remove1 [OF d assms(2)]
  have k: "key_ok t0 s key" "key \<in> fst ` set (fx_open s)" using assms(1) assms(2) [THEN imageI, of fst] by (auto simp: faucet_inv_def)
  have "key_ok t0 (s\<lparr>fx_open := remove1 (key, ixs) (fx_open s)\<rparr>) key'" if "key_ok t0 s key'" for key'
    using that r assms(1) unfolding key_ok_def busy_def by auto
  then show ?thesis using assms(1) r unfolding faucet_inv_def by auto
qed

lemma inv_confirm:
  assumes "faucet_inv t0 s" and "(key, txid) \<in> set (fx_waiting s)"
  shows "faucet_inv t0 (s\<lparr>fx_state := (fx_state s)\<lparr>fs_last := (fs_last (fx_state s))(key \<mapsto> fx_clock s)\<rparr>,
      fx_waiting := remove1 (key, txid) (fx_waiting s)\<rparr>)"
proof -
  let ?s = "s\<lparr>fx_state := (fx_state s)\<lparr>fs_last := (fs_last (fx_state s))(key \<mapsto> fx_clock s)\<rparr>,
      fx_waiting := remove1 (key, txid) (fx_waiting s)\<rparr>"
  have d: "distinct (map fst (fx_waiting s))" using assms(1) by (simp add: faucet_inv_def)
  note r = keys_remove1 [OF d assms(2)]
  have "key_ok t0 ?s key'" if "key_ok t0 s key'" for key'
    using that r assms(1) unfolding key_ok_def faucet_inv_def by auto
  then show ?thesis using assms(1) r unfolding faucet_inv_def by auto
qed

lemma faucet_inv_reach: "faucet_reach True t0 s \<Longrightarrow> 0 < t0 \<Longrightarrow> faucet_inv t0 s"
proof (induction rule: faucet_reach.induct)
  case start
  then show ?case
    by (simp add: faucet_inv_def key_ok_def faucet_start_def sent_times_def spaced_def)
next
  case (step s s')
  from step.hyps(2) step.IH [OF step.prems] show ?case
  proof cases
    case (check env k w key ixs)
    then show ?thesis
      using inv_check [OF step.IH [OF step.prems] step.prems] open_grant_check [OF check(2)] by simp
  next
    case (submit key ixs env txid st)
    then show ?thesis using inv_submit [OF step.IH [OF step.prems] submit(2)] send_grant_Inr [OF submit(3)] by simp
  next
    case (unsent key ixs env e st)
    then show ?thesis using inv_unsent [OF step.IH [OF step.prems] unsent(2)] send_grant_Inl [OF unsent(3)] by simp
  next
    case (confirm key txid env st)
    then show ?thesis using inv_confirm [OF step.IH [OF step.prems] confirm(2)] confirm_grant_Inr [OF confirm(3)] by simp
  qed (use inv_tick in blast)+
qed

text \<open>C40. As long as requests for the same grant (SOL, USDC or both, of one wallet) do not overlap and
  every submitted transaction is confirmed, and the clock is not set back, the faucet pays each grant at most once per ten
  minutes: any two submissions for one key are at least the cooldown apart.\<close>

theorem faucet_rate_limit:
  assumes "faucet_reach True t0 s" and "0 < t0"
  shows "spaced (sent_times key (fx_state s))"
  using faucet_inv_reach [OF assms] by (simp add: faucet_inv_def key_ok_def)

text \<open>A request that is run to its end is such a run: check, submission, confirmation.\<close>

lemma run_grant_reach:
  assumes r: "faucet_reach ordered t0 \<lparr>fx_state = st, fx_open = [], fx_waiting = [], fx_clock = fe_start env\<rparr>"
    and run: "run_grant env k w st = (Inr txid, st')"
    and c: "fe_start env \<le> fe_sent env" "fe_sent env \<le> fe_done env"
  shows "faucet_reach ordered t0 \<lparr>fx_state = st', fx_open = [], fx_waiting = [], fx_clock = fe_done env\<rparr>"
proof -
  from run obtain key ixs st1 where o: "open_grant env (fs_last st) k w = Inr (key, ixs)"
    and s: "send_grant env key ixs st = (Inr txid, st1)" and f: "confirm_grant env key txid st1 = (Inr txid, st')"
    by (auto simp: run_grant_def split: sum.splits prod.splits dest: confirm_grant_Inr)
  have "faucet_reach ordered t0 \<lparr>fx_state = st, fx_open = [(key, ixs)], fx_waiting = [], fx_clock = fe_start env\<rparr>"
    using faucet_reach.step [OF r faucet_step.check [of env _ k w key ixs ordered]] o by (simp add: busy_def)
  from faucet_reach.step [OF this faucet_step.tick [of "fe_sent env - fe_start env"]] c
  have "faucet_reach ordered t0 \<lparr>fx_state = st, fx_open = [(key, ixs)], fx_waiting = [], fx_clock = fe_sent env\<rparr>"
    by simp
  from faucet_reach.step [OF this faucet_step.submit [of key ixs _ env txid st1]] s
  have "faucet_reach ordered t0 \<lparr>fx_state = st1, fx_open = [], fx_waiting = [(key, txid)], fx_clock = fe_sent env\<rparr>"
    by simp
  from faucet_reach.step [OF this faucet_step.tick [of "fe_done env - fe_sent env"]] c
  have "faucet_reach ordered t0 \<lparr>fx_state = st1, fx_open = [], fx_waiting = [(key, txid)], fx_clock = fe_done env\<rparr>"
    by simp
  from faucet_reach.step [OF this faucet_step.confirm [of key txid _ env st']] f show ?thesis by simp
qed

lemma race_opened:
  assumes "checkRateLimit Map.empty t0 (grant_key GSol w) = Inr ()" and "fe_start env = t0"
  shows "faucet_reach False t0 ((faucet_start t0)\<lparr>fx_open := replicate n (grant_key GSol w, sol_instructions env w)\<rparr>)"
proof (induction n)
  case 0
  then show ?case using faucet_reach.start [of False t0] by (simp add: faucet_start_def)
next
  case (Suc n)
  from faucet_reach.step [OF Suc faucet_step.check [of env _ GSol w]] show ?case
    using assms by (simp add: faucet_start_def)
qed

lemma race_sent:
  assumes "fe_blockhash env = Inr bh" and "fe_send env bh (sol_instructions env w) = Inr txid" and "fe_sent env = t0"
    and "faucet_reach False t0 \<lparr>fx_state = st, fx_open = replicate n (grant_key GSol w, sol_instructions env w),
      fx_waiting = ws, fx_clock = t0\<rparr>"
  shows "\<exists>s. faucet_reach False t0 s
    \<and> sent_times (grant_key GSol w) (fx_state s) = replicate n t0 @ sent_times (grant_key GSol w) st"
  using assms(4)
proof (induction n arbitrary: st ws)
  case (Suc n)
  let ?x = "(grant_key GSol w, sol_instructions env w)"
  have "send_grant env (grant_key GSol w) (sol_instructions env w) st
      = (Inr txid, st\<lparr>fs_sent := (fst ?x, t0, snd ?x) # fs_sent st\<rparr>)"
    using assms(1-3) by (simp add: send_grant_def)
  with faucet_reach.step [OF Suc.prems faucet_step.submit [of "grant_key GSol w" "sol_instructions env w" _ env txid]] assms(3)
  have "faucet_reach False t0 \<lparr>fx_state = st\<lparr>fs_sent := (fst ?x, t0, snd ?x) # fs_sent st\<rparr>, fx_open = replicate n ?x,
      fx_waiting = (fst ?x, txid) # ws, fx_clock = t0\<rparr>"
    by simp
  from Suc.IH [OF this] show ?case by (simp add: replicate_app_Cons_same)
qed auto

text \<open>Without that restriction the limit does not hold: the time is recorded only after the
  confirmation, so any number of requests for the same wallet that arrive before the first one is
  confirmed all pass the check and are all paid, in the same millisecond.\<close>

theorem faucet_race:
  assumes "fe_blockhash env = Inr bh" and "fe_send env bh (sol_instructions env w) = Inr txid"
    and "fe_start env = t0" and "fe_sent env = t0"
  shows "\<exists>s. faucet_reach False t0 s \<and> sent_times (grant_key GSol w) (fx_state s) = replicate n t0"
  using race_sent [OF assms(1,2,4)] race_opened [of t0 w env n] assms(3)
  by (fastforce simp: faucet_start_def checkRateLimit_def sent_times_def)

definition sample_faucet :: "int \<Rightarrow> faucet_env" where
  "sample_faucet t = \<lparr>fe_signer = ''S'', fe_usdcMint = None, fe_ata = (\<lambda>m w. ''T''), fe_getAccount = (\<lambda>a. Inr ()),
     fe_blockhash = Inr ''H'', fe_send = (\<lambda>b ixs. Inr ''X''), fe_confirm = (\<lambda>x. Inr ()),
     fe_start = t, fe_sent = t + 5, fe_done = t + 9\<rparr>"

lemma sample_faucet_run:
  "\<exists>s. faucet_reach True 1 s \<and> sent_times ''sol:W'' (fx_state s) = [600016, 6]"
proof -
  let ?r = "\<lambda>st c. faucet_reach True 1 \<lparr>fx_state = st, fx_open = [], fx_waiting = [], fx_clock = c\<rparr>"
  define st1 where "st1 = \<lparr>fs_last = [''sol:W'' \<mapsto> 10], fs_sent = [(''sol:W'', 6, sol_instructions (sample_faucet 1) ''W'')]\<rparr>"
  have "?r \<lparr>fs_last = Map.empty, fs_sent = []\<rparr> (fe_start (sample_faucet 1))"
    using faucet_reach.start [of True 1] by (simp add: faucet_start_def sample_faucet_def)
  from run_grant_reach [OF this, of GSol "''W''" "''X''" st1]
  have "?r st1 10"
    by (simp add: run_grant_def checkRateLimit_def send_grant_def confirm_grant_def st1_def sample_faucet_def)
  from faucet_reach.step [OF this faucet_step.tick [of 600001]]
  have "?r st1 (fe_start (sample_faucet 600011))" by (simp add: sample_faucet_def)
  from run_grant_reach [OF this, of GSol "''W''" "''X''"]
  show ?thesis
    by (intro exI conjI) (assumption | rule refl |
      simp add: run_grant_def checkRateLimit_def send_grant_def confirm_grant_def st1_def sample_faucet_def FAUCET_COOLDOWN_MS_def sent_times_def)+
qed

theorem faucet_rate_limit_witness: "\<exists>s. faucet_reach True 1 s \<and> spaced [600016, 6] \<and> sent_times ''sol:W'' (fx_state s) = [600016, 6]"
  using sample_faucet_run faucet_rate_limit [of 1 _ "''sol:W''"] by fastforce

theorem faucet_race_witness:
  "\<exists>s. faucet_reach False 7 s \<and> sent_times ''sol:W'' (fx_state s) = [7, 7, 7]"
  using faucet_race [of "(sample_faucet 7)\<lparr>fe_sent := 7\<rparr>" "''H''" "''W''" "''X''" 7 3]
  by (simp add: sample_faucet_def numeral_3_eq_3)

section \<open>Start of the service\<close>

text \<open>\<open>syncTokenAndPool\<close>: the configured token and the named pool get their rows; \<open>named\<close> is
  \<open>generateNamedPoolId\<close>. A pool that is not on chain is skipped.\<close>

definition sync_token :: "tx_env \<Rightarrow> string \<Rightarrow> tx_db \<Rightarrow> token_row result \<times> tx_db" where
  "sync_token env mint db =
     (case find_row tok_mint mint (db_tokens db) of
        Some t \<Rightarrow> (Inr t, db)
      | None \<Rightarrow>
          let token = \<lparr>tok_mint = mint, tok_name = ''USD Coin'', tok_symbol = ''USDC'', tok_decimals = 6\<rparr> in
          (case persist_row env tok_mint token (db_tokens db) of
             Inl e \<Rightarrow> (Inl e, db)
           | Inr rows \<Rightarrow> (Inr token, db\<lparr>db_tokens := rows\<rparr>)))"

definition sync_pool :: "tx_env \<Rightarrow> string \<Rightarrow> token_row \<Rightarrow> tx_db \<Rightarrow> unit result \<times> tx_db" where
  "sync_pool env poolId token db =
     (let poolPda = findPoolPda (te_anchor env) poolId in
      case find_row pool_poolPda poolPda (db_pools db) of
        Some p \<Rightarrow> (Inr (), db)
      | None \<Rightarrow>
          (case fetchPool (te_anchor env) poolPda of
             None \<Rightarrow> (Inr (), db)
           | Some onChain \<Rightarrow>
               let pool = \<lparr>pool_poolId = poolId, pool_poolPda = poolPda, pool_operatorKey = pl_operator onChain,
                     pool_token = tok_mint token, pool_feeBps = pl_feeBps onChain, pool_isPaused = pl_isPaused onChain\<rparr> in
               (case persist_row env pool_poolPda pool (db_pools db) of
                  Inl e \<Rightarrow> (Inl e, db)
                | Inr rows \<Rightarrow> (Inr (), db\<lparr>db_pools := rows\<rparr>))))"

definition syncTokenAndPool ::
    "tx_env \<Rightarrow> (string \<Rightarrow> string) \<Rightarrow> string option \<Rightarrow> string option \<Rightarrow> tx_db \<Rightarrow> unit result \<times> tx_db" where
  "syncTokenAndPool env named usdcMint poolName db =
     (case given usdcMint of
        None \<Rightarrow> (Inr (), db)
      | Some mint \<Rightarrow>
          (case sync_token env mint db of
             (Inl e, db1) \<Rightarrow> (Inl e, db1)
           | (Inr token, db1) \<Rightarrow>
               (case given poolName of
                  None \<Rightarrow> (Inr (), db1)
                | Some name \<Rightarrow> sync_pool env (named name) token db1)))"

text \<open>The start keeps the tables well formed and changes no row that is already there.\<close>

lemma sync_token_step:
  assumes "sync_token env mint db = (x, db')"
  shows "sound_step db db'" and "x = Inr t \<Longrightarrow> has_token db' (tok_mint t)"
  using assms
  by (auto simp: sync_token_def Let_def persist_row_def tokens.lookup_add has_token_def split: option.splits sum.splits
      intro!: sound_add_token dest: tokens.lookup_key)

lemma sync_pool_step:
  assumes "sync_pool env poolId token db = (x, db')" and "has_token db (tok_mint token)"
  shows "sound_step db db'"
  using assms
  by (auto simp: sync_pool_def Let_def persist_row_def split: option.splits sum.splits intro!: sound_add_pool)

lemma sync_step: "syncTokenAndPool env named usdcMint poolName db = (x, db') \<Longrightarrow> sound_step db db'"
  by (auto simp: syncTokenAndPool_def split: option.splits prod.splits sum.splits
      intro: sound_trans dest: sync_token_step sync_pool_step)

section \<open>Balances\<close>

text \<open>\<^verbatim>\<open>wallet.service.ts\<close>: SOL, then one entry per known token, zero where the token account cannot be
  read. \<open>we_getAccount\<close> is the amount of a token account.\<close>

record wallet_env =
  we_pk :: "string \<Rightarrow> string option"
  we_pk_error :: string
  we_getBalance :: "string \<Rightarrow> nat result"
  we_ata :: "string \<Rightarrow> string \<Rightarrow> string"
  we_getAccount :: "string \<Rightarrow> nat result"

record token_line =
  tl_symbol :: string
  tl_mint :: string
  tl_balance :: string
  tl_decimals :: nat

definition wallet_key :: "wallet_env \<Rightarrow> string \<Rightarrow> string result" where
  "wallet_key env s = (case we_pk env s of None \<Rightarrow> Inl (JsError (we_pk_error env)) | Some k \<Rightarrow> Inr k)"

text \<open>\<open>Number(amount) / 10 ** decimals\<close>.\<close>

definition raw_display :: "nat \<Rightarrow> nat \<Rightarrow> double" where
  "raw_display amount decimals = d_div (num_of_int (int amount)) (num_of_int (10 ^ decimals))"

definition token_line_of :: "wallet_env \<Rightarrow> string \<Rightarrow> token_row \<Rightarrow> token_line" where
  "token_line_of env wallet token =
     \<lparr>tl_symbol = tok_symbol token, tl_mint = tok_mint token,
      tl_balance = (case bind_result (wallet_key env (tok_mint token)) (\<lambda>mint. we_getAccount env (we_ata env mint wallet)) of
          Inl e \<Rightarrow> ''0''
        | Inr amount \<Rightarrow> num_to_string (raw_display amount (tok_decimals token))),
      tl_decimals = tok_decimals token\<rparr>"

definition getBalances :: "wallet_env \<Rightarrow> string \<Rightarrow> tx_db \<Rightarrow> (double \<times> token_line list) result" where
  "getBalances env address db =
     bind_result (wallet_key env address) (\<lambda>pubkey.
     bind_result (we_getBalance env pubkey) (\<lambda>lamports.
       Inr (d_div (num_of_int (int lamports)) (num_of_int (10 ^ 9)), map (token_line_of env pubkey) (db_tokens db))))"

definition balance_route :: "wallet_env \<Rightarrow> string option \<Rightarrow> tx_db \<Rightarrow> http_error + (double \<times> token_line list)" where
  "balance_route env address db =
     (case validatePubkey (we_pk env) address ''address'' of
        Inl e \<Rightarrow> Inl e
      | Inr a \<Rightarrow> (case getBalances env a db of Inl e \<Rightarrow> Inl (HttpError 500 [] ''Internal server error'') | Inr b \<Rightarrow> Inr b))"

definition listTokens :: "tx_db \<Rightarrow> token_row list" where
  "listTokens db = db_tokens db"

end
