(* ===== verification/SdkConfig.thy ===== *)
theory SdkConfig
  imports IntentV2 Orders
begin

text \<open>
  The files that the SDK keeps below the home directory: the configuration with its wallets
  (\<^verbatim>\<open>config.ts\<close>) and the address book (\<^verbatim>\<open>contacts.ts\<close>). A file is an option value, \<open>None\<close> when it is
  absent, which the loaders answer with the default; a file that is no JSON is left out. Environment variables, random
  identifiers and generated key pairs are arguments, as is the test whether \<^verbatim>\<open>new PublicKey\<close> accepts
  a text.
\<close>

section \<open>The configuration\<close>

record wallet_entry =
  wl_label :: string
  wl_address :: string
  wl_privateKey :: string

record account_info =
  ac_pda :: string
  ac_owner :: string
  ac_mint :: string
  ac_mintDecimals :: nat
  ac_operatorIndex :: nat
  ac_perTxLimit :: double
  ac_syncedAt :: int

record sdk_config =
  cf_wallets :: "wallet_entry list"
  cf_defaultWallet :: string
  cf_apiUrl :: "string option"
  cf_cluster :: "string option"
  cf_account :: "account_info option"
  cf_agentId :: "string option"
  cf_apiKey :: "string option"

definition defaultConfig :: sdk_config where
  "defaultConfig = \<lparr>cf_wallets = [], cf_defaultWallet = ''main'', cf_apiUrl = None, cf_cluster = Some ''mainnet-beta'',
     cf_account = None, cf_agentId = None, cf_apiKey = None\<rparr>"

definition loadConfig :: "sdk_config option \<Rightarrow> sdk_config" where
  "loadConfig file = (case file of None \<Rightarrow> defaultConfig | Some c \<Rightarrow> c)"

definition saveConfig :: "sdk_config \<Rightarrow> sdk_config option" where
  "saveConfig c = Some c"

text \<open>A text that is present and not empty.\<close>

definition or_text :: "string option \<Rightarrow> string \<Rightarrow> string" where
  "or_text x d = (case truthy_string x of None \<Rightarrow> d | Some s \<Rightarrow> s)"

definition find_wallet :: "string \<Rightarrow> sdk_config \<Rightarrow> wallet_entry option" where
  "find_wallet label c = List.find (\<lambda>w. wl_label w = label) (cf_wallets c)"

definition getWallet :: "sdk_config \<Rightarrow> string option \<Rightarrow> wallet_entry result" where
  "getWallet c label =
     (let target = or_text label (cf_defaultWallet c)
      in (case find_wallet target c of
            None \<Rightarrow> Inl (SdkError ''WALLET_NOT_FOUND'' (''Wallet '' @ dquoted target @ '' not found. Run: silky wallet create''))
          | Some w \<Rightarrow> Inr w))"

definition CLUSTER_API_URLS :: "string obj" where
  "CLUSTER_API_URLS =
     [(''mainnet-beta'', ''https://api.silkyway.ai''), (''devnet'', ''https://devnet-api.silkyway.ai'')]"

definition getCluster :: "sdk_config \<Rightarrow> string" where
  "getCluster c = or_text (cf_cluster c) ''mainnet-beta''"

text \<open>The environment variable \<open>SILKY_API_URL\<close> comes after the configuration; an unknown cluster has no
  URL.\<close>

definition getApiUrl :: "string option \<Rightarrow> sdk_config \<Rightarrow> string option" where
  "getApiUrl envUrl c =
     (case truthy_string (cf_apiUrl c) of
        Some u \<Rightarrow> Some u
      | None \<Rightarrow> (case truthy_string envUrl of Some u \<Rightarrow> Some u | None \<Rightarrow> get CLUSTER_API_URLS (getCluster c)))"

definition ensureAgentId :: "string \<Rightarrow> sdk_config \<Rightarrow> (string \<times> bool) \<times> sdk_config" where
  "ensureAgentId uuid c =
     (case truthy_string (cf_agentId c) of
        Some a \<Rightarrow> ((a, False), c)
      | None \<Rightarrow> ((uuid, True), c\<lparr>cf_agentId := Some uuid\<rparr>))"

definition getAgentId :: "string \<Rightarrow> sdk_config \<Rightarrow> sdk_config option \<Rightarrow> string \<times> sdk_config option" where
  "getAgentId uuid c file =
     (let ((a, created), c') = ensureAgentId uuid c in (a, if created then saveConfig c' else file))"

definition APP_BASE_URL :: string where
  "APP_BASE_URL = ''https://app.silkyway.ai''"

definition getClaimUrl :: "sdk_config \<Rightarrow> string \<Rightarrow> string" where
  "getClaimUrl c transferPda =
     (let base = APP_BASE_URL @ ''/transfers/'' @ transferPda
      in if getCluster c = ''devnet'' then base @ ''?cluster=devnet'' else base)"

definition getSetupUrl :: "sdk_config \<Rightarrow> string \<Rightarrow> string" where
  "getSetupUrl c agentAddress =
     (let base = APP_BASE_URL @ ''/account/setup?agent='' @ agentAddress
      in if getCluster c = ''devnet'' then base @ ''&cluster=devnet'' else base)"

definition getApiKey :: "string option \<Rightarrow> sdk_config \<Rightarrow> string option" where
  "getApiKey envKey c = (case truthy_string (cf_apiKey c) of Some k \<Rightarrow> Some k | None \<Rightarrow> envKey)"

definition clearApiKey :: "sdk_config \<Rightarrow> sdk_config" where
  "clearApiKey c = c\<lparr>cf_apiKey := None\<rparr>"

section \<open>Wallets\<close>

text \<open>A generated key pair: address and private key in base58.\<close>

definition add_wallet :: "string \<Rightarrow> string \<times> string \<Rightarrow> sdk_config \<Rightarrow> sdk_config" where
  "add_wallet label kp c =
     (let ws = cf_wallets c @ [\<lparr>wl_label = label, wl_address = fst kp, wl_privateKey = snd kp\<rparr>]
      in c\<lparr>cf_wallets := ws, cf_defaultWallet := (if length ws = 1 then label else cf_defaultWallet c)\<rparr>)"

definition walletCreate ::
    "string \<Rightarrow> string \<times> string \<Rightarrow> sdk_config option \<Rightarrow> (string \<times> string) result \<times> sdk_config option" where
  "walletCreate label kp file =
     (let c = loadConfig file in
      case find_wallet label c of
        Some w \<Rightarrow> (Inl (SdkError ''WALLET_EXISTS'' (''Wallet '' @ dquoted label @ '' already exists.'')), file)
      | None \<Rightarrow> (Inr (label, fst kp), saveConfig (add_wallet label kp c)))"

definition walletList :: "sdk_config option \<Rightarrow> (string \<times> string \<times> bool) list" where
  "walletList file =
     (let c = loadConfig file in map (\<lambda>w. (wl_label w, wl_address w, wl_label w = cf_defaultWallet c)) (cf_wallets c))"

section \<open>The cluster\<close>

definition VALID_CLUSTERS :: "string list" where
  "VALID_CLUSTERS = [''mainnet-beta'', ''devnet'']"

definition configSetCluster ::
    "string option \<Rightarrow> string \<Rightarrow> sdk_config option \<Rightarrow> (string \<times> string option) result \<times> sdk_config option" where
  "configSetCluster envUrl cluster file =
     (if cluster \<notin> set VALID_CLUSTERS
      then (Inl (SdkError ''INVALID_CLUSTER'' (''Invalid cluster '' @ dquoted cluster @ ''. Valid options: ''
              @ join '', '' VALID_CLUSTERS)), file)
      else (let c = (loadConfig file)\<lparr>cf_cluster := Some cluster\<rparr> in (Inr (cluster, getApiUrl envUrl c), saveConfig c)))"

definition configGetCluster :: "string option \<Rightarrow> sdk_config option \<Rightarrow> string \<times> string option" where
  "configGetCluster envUrl file = (let c = loadConfig file in (getCluster c, getApiUrl envUrl c))"

definition configResetCluster :: "string option \<Rightarrow> sdk_config option \<Rightarrow> (string \<times> string option) \<times> sdk_config option" where
  "configResetCluster envUrl file =
     (let c = (loadConfig file)\<lparr>cf_cluster := None\<rparr> in ((getCluster c, getApiUrl envUrl c), saveConfig c))"

section \<open>Contacts\<close>

record contact =
  ct_name :: string
  ct_address :: string

type_synonym contacts_file = "contact list option"

definition loadContacts :: "contacts_file \<Rightarrow> contact list" where
  "loadContacts file = (case file of None \<Rightarrow> [] | Some cs \<Rightarrow> cs)"

definition saveContacts :: "contact list \<Rightarrow> contacts_file" where
  "saveContacts cs = Some cs"

definition find_contact :: "string \<Rightarrow> contact list \<Rightarrow> contact option" where
  "find_contact name cs = List.find (\<lambda>c. ct_name c = name) cs"

definition addContact :: "(string \<Rightarrow> bool) \<Rightarrow> string \<Rightarrow> string \<Rightarrow> contacts_file \<Rightarrow> unit result \<times> contacts_file" where
  "addContact is_key name address file =
     (let normalized = toLowerCase name in
      if is_key normalized then (Inl (SdkError ''INVALID_CONTACT_NAME'' ''Contact name cannot be a valid Solana address''), file)
      else if \<not> is_key address
      then (Inl (SdkError ''INVALID_ADDRESS'' (dquoted address @ '' is not a valid Solana address'')), file)
      else (case find_contact normalized (loadContacts file) of
          Some existing \<Rightarrow>
            (Inl (SdkError ''CONTACT_EXISTS'' (''Contact '' @ dquoted normalized @ '' already exists ('' @ ct_address existing @ '')'')), file)
        | None \<Rightarrow> (Inr (), saveContacts (loadContacts file @ [\<lparr>ct_name = normalized, ct_address = address\<rparr>]))))"

definition contact_missing :: "string \<Rightarrow> js_error" where
  "contact_missing name = SdkError ''CONTACT_NOT_FOUND'' (''Contact '' @ dquoted name @ '' not found'')"

definition removeContact :: "string \<Rightarrow> contacts_file \<Rightarrow> unit result \<times> contacts_file" where
  "removeContact name file =
     (let normalized = toLowerCase name; cs = loadContacts file in
      case find_index (\<lambda>c. ct_name c = normalized) cs of
        None \<Rightarrow> (Inl (contact_missing normalized), file)
      | Some i \<Rightarrow> (Inr (), saveContacts (take i cs @ drop (Suc i) cs)))"

definition getContact :: "string \<Rightarrow> contacts_file \<Rightarrow> contact option" where
  "getContact name file = find_contact (toLowerCase name) (loadContacts file)"

definition listContacts :: "contacts_file \<Rightarrow> contact list" where
  "listContacts file = loadContacts file"

definition resolveRecipient :: "string \<Rightarrow> contacts_file \<Rightarrow> string" where
  "resolveRecipient recipient file =
     (case getContact recipient file of None \<Rightarrow> recipient | Some c \<Rightarrow> ct_address c)"

definition initContacts :: "contacts_file \<Rightarrow> bool \<times> contacts_file" where
  "initContacts file = (case file of Some cs \<Rightarrow> (False, file) | None \<Rightarrow> (True, saveContacts []))"

text \<open>The commands of the address book.\<close>

definition contactsAdd ::
    "(string \<Rightarrow> bool) \<Rightarrow> string \<Rightarrow> string \<Rightarrow> contacts_file \<Rightarrow> (string \<times> string) result \<times> contacts_file" where
  "contactsAdd is_key name address file =
     (let (r, file') = addContact is_key name address file in (bind_result r (\<lambda>u. Inr (toLowerCase name, address)), file'))"

definition contactsRemove :: "string \<Rightarrow> contacts_file \<Rightarrow> string result \<times> contacts_file" where
  "contactsRemove name file =
     (let (r, file') = removeContact name file in (bind_result r (\<lambda>u. Inr (toLowerCase name)), file'))"

definition contactsGet :: "string \<Rightarrow> contacts_file \<Rightarrow> contact result" where
  "contactsGet name file =
     (case getContact name file of None \<Rightarrow> Inl (contact_missing (toLowerCase name)) | Some c \<Rightarrow> Inr c)"

section \<open>Initialisation\<close>

record init_report =
  in_walletCreated :: bool
  in_walletAddress :: string
  in_agentIdCreated :: bool
  in_agentId :: string
  in_contactsCreated :: bool

definition sdk_init ::
    "string \<times> string \<Rightarrow> string \<Rightarrow> sdk_config option \<times> contacts_file \<Rightarrow> init_report \<times> sdk_config option \<times> contacts_file" where
  "sdk_init kp uuid files =
     (let (file, contacts) = files; c = loadConfig file;
          (mainWallet, walletCreated, c1) =
            (case find_wallet ''main'' c of
               Some w \<Rightarrow> (w, False, c)
             | None \<Rightarrow> (\<lparr>wl_label = ''main'', wl_address = fst kp, wl_privateKey = snd kp\<rparr>, True, add_wallet ''main'' kp c));
          ((agentId, agentCreated), c2) = ensureAgentId uuid c1;
          (contactsCreated, contacts') = initContacts contacts
      in (\<lparr>in_walletCreated = walletCreated, in_walletAddress = wl_address mainWallet, in_agentIdCreated = agentCreated,
           in_agentId = agentId, in_contactsCreated = contactsCreated\<rparr>,
          if walletCreated \<or> agentCreated then saveConfig c2 else file, contacts'))"

section \<open>The address book is a map from names to addresses\<close>

definition contact_map :: "contacts_file \<Rightarrow> string \<rightharpoonup> string" where
  "contact_map file name = map_option ct_address (find_contact name (loadContacts file))"

definition contacts_wf :: "(string \<Rightarrow> bool) \<Rightarrow> contacts_file \<Rightarrow> bool" where
  "contacts_wf is_key file \<longleftrightarrow> distinct (map ct_name (loadContacts file))
     \<and> (\<forall>c \<in> set (loadContacts file). toLowerCase (ct_name c) = ct_name c \<and> \<not> is_key (ct_name c) \<and> is_key (ct_address c))"

lemma find_contact_simps [simp]:
  "find_contact n [] = None"
  "find_contact n (c # cs) = (if ct_name c = n then Some c else find_contact n cs)"
  by (simp_all add: find_contact_def)

lemma find_contact_append:
  "find_contact n (cs @ ds) = (case find_contact n cs of None \<Rightarrow> find_contact n ds | Some c \<Rightarrow> Some c)"
  by (induction cs) simp_all

lemma find_contact_None: "find_contact n cs = None \<longleftrightarrow> n \<notin> ct_name ` set cs"
  by (induction cs) auto

lemma find_contact_map: "map_option ct_address (find_contact n cs) = map_of (map (\<lambda>c. (ct_name c, ct_address c)) cs) n"
  by (induction cs) auto

lemma find_index_None: "find_index P xs = None \<longleftrightarrow> (\<forall>x \<in> set xs. \<not> P x)"
  by (induction xs) (auto split: option.splits)

lemma remove_name:
  assumes "distinct (map ct_name cs)" and "find_index (\<lambda>c. ct_name c = n) cs = Some i"
  shows "take i cs @ drop (Suc i) cs = filter (\<lambda>c. ct_name c \<noteq> n) cs"
  using assms
proof (induction cs arbitrary: i)
  case (Cons c cs)
  show ?case
  proof (cases "ct_name c = n")
    case True
    then have "filter (\<lambda>c. ct_name c \<noteq> n) cs = cs" using Cons.prems(1) by (auto intro!: filter_True) (metis image_eqI)
    then show ?thesis using True Cons.prems(2) by auto
  next
    case False
    then obtain j where "find_index (\<lambda>c. ct_name c = n) cs = Some j" "i = Suc j"
      using Cons.prems(2) by (auto split: option.splits)
    then show ?thesis using Cons.IH [of j] Cons.prems(1) False by simp
  qed
qed simp

lemma find_contact_filter: "find_contact m (filter (\<lambda>c. ct_name c \<noteq> n) cs) = (if m = n then None else find_contact m cs)"
  by (induction cs) auto

lemma loadContacts_save [simp]: "loadContacts (saveContacts cs) = cs" "loadContacts None = []"
  by (simp_all add: loadContacts_def saveContacts_def)

lemma addContact_ok:
  "addContact is_key name address file = (Inr (), file') \<longleftrightarrow>
     \<not> is_key (toLowerCase name) \<and> is_key address \<and> contact_map file (toLowerCase name) = None
   \<and> file' = saveContacts (loadContacts file @ [\<lparr>ct_name = toLowerCase name, ct_address = address\<rparr>])"
  by (auto simp: addContact_def contact_map_def Let_def split: option.splits)

lemma contacts_refined:
  assumes "contacts_wf is_key file" and "addContact is_key name address file = (a, added)"
    and "removeContact name file = (r, removed)"
  shows "contacts_wf is_key added \<and> contacts_wf is_key removed
    \<and> (a = Inr () \<longleftrightarrow> \<not> is_key (toLowerCase name) \<and> is_key address \<and> contact_map file (toLowerCase name) = None)
    \<and> (if a = Inr () then contact_map added = (contact_map file)(toLowerCase name \<mapsto> address) else added = file)
    \<and> (r = Inr () \<longleftrightarrow> contact_map file (toLowerCase name) \<noteq> None)
    \<and> (if r = Inr () then contact_map removed = (contact_map file)(toLowerCase name := None) else removed = file)
    \<and> resolveRecipient name file = (case contact_map file (toLowerCase name) of None \<Rightarrow> name | Some b \<Rightarrow> b)"
    (is "?wa \<and> ?wr \<and> ?ia \<and> ?ma \<and> ?ir \<and> ?mr \<and> ?res")
proof (intro conjI)
  have low: "toLowerCase (toLowerCase name) = toLowerCase name" by simp
  show ?ia using addContact_ok [of is_key name address "file" added] assms(2)
    by (cases a) (auto simp: addContact_def contact_map_def Let_def split: option.splits if_splits)
  have fail: "a \<noteq> Inr () \<Longrightarrow> added = file" using assms(2)
    by (auto simp: addContact_def Let_def split: option.splits if_splits)
  show ?ma using addContact_ok [of is_key name address "file" added] assms(2) fail
    by (auto simp: contact_map_def fun_eq_iff find_contact_append split: option.splits)
  show ?wa using addContact_ok [of is_key name address "file" added] assms(1,2) fail low
    by (cases "a = Inr ()") (auto simp: contacts_wf_def contact_map_def find_contact_None)
  have rem: "removeContact name file =
      (if contact_map file (toLowerCase name) = None then (Inl (contact_missing (toLowerCase name)), file)
       else (Inr (), saveContacts (filter (\<lambda>c. ct_name c \<noteq> toLowerCase name) (loadContacts file))))"
  proof (cases "find_index (\<lambda>c. ct_name c = toLowerCase name) (loadContacts file)")
    case None
    then have "contact_map file (toLowerCase name) = None"
      by (auto simp: contact_map_def find_contact_None find_index_None)
    then show ?thesis using None by (simp add: removeContact_def Let_def)
  next
    case (Some i)
    then have "contact_map file (toLowerCase name) \<noteq> None"
      using find_index_None [of "\<lambda>c. ct_name c = toLowerCase name" "loadContacts file"]
      by (auto simp: contact_map_def find_contact_None) (metis image_eqI)
    then show ?thesis using Some remove_name [OF _ Some] assms(1) by (simp add: removeContact_def Let_def contacts_wf_def)
  qed
  show ?ir using rem assms(3) by (auto split: if_splits)
  show ?mr using rem assms(3) by (auto simp: contact_map_def fun_eq_iff find_contact_filter split: if_splits)
  show ?wr using rem assms(1,3) by (auto simp: contacts_wf_def distinct_map_filter split: if_splits)
  show ?res by (simp add: resolveRecipient_def getContact_def contact_map_def split: option.splits)
qed

text \<open>C27. The address book refines a partial map from lower-case names to valid addresses. Adding
  succeeds exactly when the lower-cased name is no valid address and is free and the address is
  valid, and then adds that entry; removing succeeds exactly for a known name and deletes it; a
  failing command leaves the file as it was; a recipient is replaced exactly when its lower case is
  a name; and names stay unique.\<close>

theorem contacts_refine_map:
  assumes "contacts_wf is_key file" and "addContact is_key name address file = (a, added)"
    and "removeContact name file = (r, removed)"
  shows "contacts_wf is_key added \<and> contacts_wf is_key removed
    \<and> (a = Inr () \<longleftrightarrow> \<not> is_key (toLowerCase name) \<and> is_key address \<and> contact_map file (toLowerCase name) = None)
    \<and> (if a = Inr () then contact_map added = (contact_map file)(toLowerCase name \<mapsto> address) else added = file)
    \<and> (r = Inr () \<longleftrightarrow> contact_map file (toLowerCase name) \<noteq> None)
    \<and> (if r = Inr () then contact_map removed = (contact_map file)(toLowerCase name := None) else removed = file)
    \<and> resolveRecipient name file = (case contact_map file (toLowerCase name) of None \<Rightarrow> name | Some b \<Rightarrow> b)"
    (is "?wa \<and> ?wr \<and> ?ia \<and> ?ma \<and> ?ir \<and> ?mr \<and> ?res")
  using assms by (rule contacts_refined)

lemma lower_Bob: "toLowerCase ''Bob'' = ''bob''"
  by code_simp

theorem contacts_refine_map_witness:
  "contact_map (snd (addContact (\<lambda>s. s = ''K'') ''Bob'' ''K'' (Some []))) = [''bob'' \<mapsto> ''K'']"
proof -
  obtain a added r removed where "addContact (\<lambda>s. s = ''K'') ''Bob'' ''K'' (Some []) = (a, added)"
    and "removeContact ''Bob'' (Some []) = (r, removed)"
    by (meson prod.exhaust)
  moreover have "contacts_wf (\<lambda>s. s = ''K'') (Some [])" and "contact_map (Some []) = Map.empty"
    by (simp_all add: contacts_wf_def contact_map_def loadContacts_def fun_eq_iff)
  ultimately show ?thesis
    using contacts_refine_map [of "\<lambda>s. s = ''K''" "Some []" "''Bob''" "''K''" a added r removed] by (simp add: lower_Bob)
qed

end
