(* ===== verification/Actions.thy ===== *)
theory Actions
  imports Prelude
begin

text \<open>
  Code that reads and writes a state and may throw: a function from the state to a result and the
  state it leaves, on errors too. The commands of the SDK and the handlers of the web application are
  written with it. \<open>andThen\<close> is sequencing (\<^verbatim>\<open>await\<close>), \<open>catch\<close> is \<^verbatim>\<open>try ... catch\<close> and \<open>afterwards\<close>
  is \<^verbatim>\<open>finally\<close>. \<open>stays P\<close> holds of an action that keeps the predicate \<open>P\<close> of the state, however it ends.
\<close>

section \<open>Actions\<close>

type_synonym ('s, 'a) action = "'s \<Rightarrow> 'a result \<times> 's"

definition ret :: "'a \<Rightarrow> ('s, 'a) action" where
  "ret x w = (Inr x, w)"

definition lift :: "'a result \<Rightarrow> ('s, 'a) action" where
  "lift r w = (r, w)"

definition andThen :: "('s, 'a) action \<Rightarrow> ('a \<Rightarrow> ('s, 'b) action) \<Rightarrow> ('s, 'b) action" where
  "andThen c f w = (case c w of (Inl e, w') \<Rightarrow> (Inl e, w') | (Inr x, w') \<Rightarrow> f x w')"

definition catch :: "('s, 'a) action \<Rightarrow> (js_error \<Rightarrow> ('s, 'a) action) \<Rightarrow> ('s, 'a) action" where
  "catch c h w = (case c w of (Inl e, w') \<Rightarrow> h e w' | (Inr x, w') \<Rightarrow> (Inr x, w'))"

definition afterwards :: "('s, 'a) action \<Rightarrow> ('s \<Rightarrow> 's) \<Rightarrow> ('s, 'a) action" where
  "afterwards c f w = (case c w of (r, w') \<Rightarrow> (r, f w'))"

definition change :: "('s \<Rightarrow> 's) \<Rightarrow> ('s, unit) action" where
  "change f w = (Inr (), f w)"

section \<open>Running them\<close>

lemma andThen_Inr: "andThen c f w = (Inr y, w') \<longleftrightarrow> (\<exists>x w1. c w = (Inr x, w1) \<and> f x w1 = (Inr y, w'))"
  by (auto simp: andThen_def split: prod.splits sum.splits)

lemma lift_Inr [simp]: "lift r w = (Inr y, w') \<longleftrightarrow> r = Inr y \<and> w' = w"
  by (auto simp: lift_def)

lemma ret_Inr [simp]: "ret x w = (Inr y, w') \<longleftrightarrow> y = x \<and> w' = w"
  by (auto simp: ret_def)

lemma change_Inr [simp]: "change f w = (Inr u, w') \<longleftrightarrow> w' = f w"
  by (auto simp: change_def)

lemma andThen_run: "c w = (Inr x, w1) \<Longrightarrow> andThen c f w = f x w1"
  by (simp add: andThen_def)

lemma andThen_fail: "c w = (Inl e, w1) \<Longrightarrow> andThen c f w = (Inl e, w1)"
  by (simp add: andThen_def)

lemma lift_run: "lift (Inr x) w = (Inr x, w)"
  by (simp add: lift_def)

lemma change_run: "andThen (change f) g w = g () (f w)"
  by (simp add: andThen_def change_def)

lemma snd_afterwards: "snd (afterwards c f w) = f (snd (c w))"
  by (simp add: afterwards_def split: prod.split)

section \<open>What an action keeps\<close>

definition stays :: "('s \<Rightarrow> bool) \<Rightarrow> ('s, 'a) action \<Rightarrow> bool" where
  "stays P c \<longleftrightarrow> (\<forall>w. P w \<longrightarrow> P (snd (c w)))"

named_theorems stays \<open>actions that keep a predicate of the state\<close>

lemma staysI: "(\<And>w r w'. P w \<Longrightarrow> c w = (r, w') \<Longrightarrow> P w') \<Longrightarrow> stays P c"
  unfolding stays_def by (metis prod.collapse)

lemma staysD: "stays P c \<Longrightarrow> P w \<Longrightarrow> c w = (r, w') \<Longrightarrow> P w'"
  unfolding stays_def by (metis snd_conv)

lemma stays_lift [stays]: "stays P (lift r)"
  by (simp add: stays_def lift_def)

lemma stays_ret [stays]: "stays P (ret x)"
  by (simp add: stays_def ret_def)

lemma stays_andThen [stays]:
  assumes "stays P c" and "\<And>x. stays P (f x)"
  shows "stays P (andThen c f)"
proof (rule staysI)
  fix w r w'
  assume v: "P w" and run: "andThen c f w = (r, w')"
  obtain x w1 where c: "c w = (x, w1)" by (meson prod.exhaust)
  note v1 = staysD [OF assms(1) v c]
  show "P w'"
    using run v1 by (cases x) (auto simp: andThen_def c dest: staysD [OF assms(2) v1])
qed

lemma stays_catch [stays]:
  assumes "stays P c" and "\<And>e. stays P (h e)"
  shows "stays P (catch c h)"
proof (rule staysI)
  fix w r w'
  assume v: "P w" and run: "catch c h w = (r, w')"
  obtain x w1 where c: "c w = (x, w1)" by (meson prod.exhaust)
  note v1 = staysD [OF assms(1) v c]
  show "P w'"
    using run v1 by (cases x) (auto simp: catch_def c dest: staysD [OF assms(2) v1])
qed

lemma stays_change: "(\<And>w. P w \<Longrightarrow> P (f w)) \<Longrightarrow> stays P (change f)"
  by (simp add: stays_def change_def)

lemma stays_afterwards: "stays P c \<Longrightarrow> (\<And>w. P w \<Longrightarrow> P (f w)) \<Longrightarrow> stays P (afterwards c f)"
  by (simp add: stays_def snd_afterwards)

end
