(* ===== verification/SdkClient.thy ===== *)
theory SdkClient
  imports SdkConfig Http Actions
begin

text \<open>
  What every SDK command goes through: the error tables and
  translations of \<^verbatim>\<open>errors.ts\<close>, the HTTP client of \<^verbatim>\<open>client.ts\<close> with its response interceptor, and
  \<^verbatim>\<open>wrapCommand\<close> of \<^verbatim>\<open>output.ts\<close>. The server is a function of the requests: what it answers, and the
  parts of JavaScript and web3.js that a command calls, are the parameter \<open>sdk_kit\<close>; a command is a
  function over the world of the SDK (its files, the server's state, the requests sent so far).
\<close>

section \<open>Errors\<close>

definition ANCHOR_ERROR_MAP :: "(nat \<times> string \<times> string) list" where
  "ANCHOR_ERROR_MAP =
     [(6000, ''ANCHOR_MATH_OVERFLOW'', ''Mathematical overflow occurred''),
      (6001, ''ANCHOR_TRANSFER_NOT_ACTIVE'', ''Transfer is not in active status''),
      (6002, ''ANCHOR_CANNOT_CLAIM'', ''Claim deadline has passed''),
      (6003, ''ANCHOR_CONDITIONS_NOT_MET'', ''Release conditions not met''),
      (6004, ''ANCHOR_INVALID_CONDITION'', ''Invalid condition parameters''),
      (6005, ''ANCHOR_INSUFFICIENT_FUNDS'', ''Insufficient funds in vault''),
      (6006, ''ANCHOR_POOL_PAUSED'', ''Pool is paused''),
      (6007, ''ANCHOR_UNAUTHORIZED'', ''Unauthorized action''),
      (6008, ''ANCHOR_INVALID_TIME_WINDOW'', ''Invalid time window''),
      (6009, ''ANCHOR_DEPOSIT_TOO_SMALL'', ''Deposit amount too small''),
      (6010, ''ANCHOR_INVALID_FEE_CONFIG'', ''Invalid fee configuration''),
      (6011, ''ANCHOR_INVALID_TRANSFER_FEE'', ''Invalid transfer fee''),
      (6012, ''ANCHOR_TRANSFER_ALREADY_CLAIMED'', ''Transfer already claimed''),
      (6013, ''ANCHOR_TRANSFER_ALREADY_CANCELLED'', ''Transfer already cancelled''),
      (6014, ''ANCHOR_TRANSFER_ALREADY_REJECTED'', ''Transfer already rejected''),
      (6015, ''ANCHOR_TRANSFER_EXPIRED'', ''Transfer is expired''),
      (6016, ''ANCHOR_ONLY_SENDER_CAN_CANCEL'', ''Only sender can cancel transfer''),
      (6017, ''ANCHOR_ONLY_RECIPIENT_CAN_CLAIM'', ''Only recipient can claim transfer''),
      (6018, ''ANCHOR_ONLY_OPERATOR_CAN_REJECT'', ''Only operator can reject transfer''),
      (6019, ''ANCHOR_INVALID_MEMO_LENGTH'', ''Invalid memo length''),
      (6020, ''ANCHOR_CLAIM_DEADLINE_NOT_PASSED'', ''Claim deadline has not passed''),
      (6021, ''ANCHOR_CALCULATION_ERROR'', ''Calculation error''),
      (6022, ''ANCHOR_MISSING_ACCOUNT'', ''Missing required account''),
      (6023, ''ANCHOR_INVALID_MINT'', ''Invalid mint''),
      (6024, ''ANCHOR_STALE_POOL_VALUE'', ''Pool value is stale and must be updated''),
      (6025, ''ANCHOR_INVALID_OPERATION'', ''Invalid operation for this pool type''),
      (6026, ''ANCHOR_OUTSTANDING_TRANSFERS'', ''Cannot reset pool with outstanding transfers''),
      (6027, ''ANCHOR_INVALID_TRANSFER'', ''Invalid transfer''),
      (6028, ''ANCHOR_TRANSFER_ALREADY_DECLINED'', ''Transfer already declined''),
      (6029, ''ANCHOR_ONLY_RECIPIENT_CAN_DECLINE'', ''Only recipient can decline transfer'')]"

definition SILKYSIG_ERROR_MAP :: "(nat \<times> string \<times> string) list" where
  "SILKYSIG_ERROR_MAP =
     [(6000, ''POLICY_UNAUTHORIZED'', ''Unauthorized: signer is not owner or operator''),
      (6001, ''POLICY_EXCEEDS_TX_LIMIT'', ''Transfer exceeds operator per-transaction limit''),
      (6002, ''ACCOUNT_PAUSED'', ''Account is paused''),
      (6003, ''MAX_OPERATORS'', ''Maximum operators reached''),
      (6004, ''OPERATOR_NOT_FOUND'', ''Operator not found''),
      (6005, ''OPERATOR_EXISTS'', ''Operator slot already occupied''),
      (6006, ''MATH_OVERFLOW'', ''Mathematical overflow''),
      (6007, ''AMOUNT_MUST_BE_POSITIVE'', ''Amount must be positive''),
      (6008, ''DRIFT_USER_ALREADY_INITIALIZED'', ''Drift user already initialized''),
      (6009, ''DRIFT_DEPOSIT_FAILED'', ''Drift deposit failed''),
      (6010, ''DRIFT_WITHDRAW_FAILED'', ''Drift withdrawal failed''),
      (6011, ''INVALID_DRIFT_USER'', ''Invalid Drift user account''),
      (6012, ''MISSING_DRIFT_ACCOUNTS'', ''Missing required Drift accounts''),
      (6013, ''INVALID_DRIFT_PROGRAM'', ''Invalid Drift program ID''),
      (6014, ''DRIFT_DELETE_USER_FAILED'', ''Failed to delete Drift user'')]"

definition hex_val :: "char \<Rightarrow> nat option" where
  "hex_val c =
     (if is_digit c then Some (code c - 48)
      else if 97 \<le> code c \<and> code c \<le> 102 then Some (code c - 87)
      else if 65 \<le> code c \<and> code c \<le> 70 then Some (code c - 55)
      else None)"

fun hex_run :: "nat \<Rightarrow> string \<Rightarrow> nat" where
  "hex_run acc [] = acc"
| "hex_run acc (c # cs) = (case hex_val c of None \<Rightarrow> acc | Some d \<Rightarrow> hex_run (16 * acc + d) cs)"

text \<open>\<open>message.match(/0x([0-9a-fA-F]+)/)\<close> and \<open>parseInt\<close> of the digits: the first occurrence.\<close>

fun hex_code :: "string \<Rightarrow> nat option" where
  "hex_code [] = None"
| "hex_code (c # cs) =
     (if startsWith (c # cs) ''0x'' \<and> drop 1 cs \<noteq> [] \<and> hex_val (hd (drop 1 cs)) \<noteq> None
      then Some (hex_run 0 (drop 1 cs))
      else hex_code cs)"

definition coded_error :: "(nat \<times> string \<times> string) list \<Rightarrow> string \<Rightarrow> js_error option" where
  "coded_error tab message =
     (case hex_code message of
        None \<Rightarrow> None
      | Some n \<Rightarrow> (case map_of tab n of None \<Rightarrow> None | Some (c, m) \<Rightarrow> Some (SdkError c m)))"

definition to_error :: "(nat \<times> string \<times> string) list \<Rightarrow> js_error \<Rightarrow> js_error" where
  "to_error tab e =
     (case e of
        SdkError c m \<Rightarrow> SdkError c m
      | _ \<Rightarrow> (case coded_error tab (err_message e) of
            Some x \<Rightarrow> x
          | None \<Rightarrow> SdkError ''UNKNOWN_ERROR'' (err_message e)))"

definition toSilkysigError :: "js_error \<Rightarrow> js_error" where
  "toSilkysigError e = to_error SILKYSIG_ERROR_MAP e"

definition toSdkError :: "js_error \<Rightarrow> js_error" where
  "toSdkError e = to_error ANCHOR_ERROR_MAP e"

section \<open>The HTTP client\<close>

text \<open>What the interceptor reads of a failed request: status, error code and message of the answer, if
  there is one, and the code of the failure.\<close>

record axios_failure =
  af_status :: "nat option"
  af_error :: "string option"
  af_message :: "string option"
  af_code :: "string option"

definition intercept :: "axios_failure \<Rightarrow> js_error" where
  "intercept f =
     (if af_status f = Some 401
      then SdkError ''UNAUTHORIZED'' ''API key required or invalid. Run `silky auth register` to get an API key.''
      else case truthy_string (af_error f) of
        Some apiCode \<Rightarrow>
          let apiMessage = or_text (af_message f) ''Unknown API error'' in
          (case (if apiCode = ''TX_FAILED'' then coded_error ANCHOR_ERROR_MAP apiMessage else None) of
             Some e \<Rightarrow> e
           | None \<Rightarrow> SdkError apiCode apiMessage)
      | None \<Rightarrow>
          (case truthy_string (af_message f) of
             Some m \<Rightarrow> SdkError ''API_ERROR'' m
           | None \<Rightarrow>
               if af_code f = Some ''ECONNABORTED''
               then SdkError ''TIMEOUT'' (''Request timeout '' @ em_dash @ '' is the SilkyWay server running?'')
               else SdkError ''NETWORK_ERROR'' (''Network error '' @ em_dash @ '' is the SilkyWay server running?'')))"

record http_request =
  rq_base :: string
  rq_authorization :: "string option"
  rq_method :: string
  rq_path :: string
  rq_body :: json

record http_client =
  hc_baseUrl :: string
  hc_apiKey :: "string option"

definition createHttpClient :: "string option \<Rightarrow> string option \<Rightarrow> http_client" where
  "createHttpClient baseUrl apiKey =
     \<lparr>hc_baseUrl = or_text baseUrl ''http://localhost:3000'', hc_apiKey = truthy_string apiKey\<rparr>"

section \<open>The world of a command\<close>

record 'w sdk_world =
  sw_config :: "sdk_config option"
  sw_contacts :: contacts_file
  sw_orders :: orders_file
  sw_server :: 'w
  sw_sent :: "http_request list"

text \<open>\<open>kt_sign\<close>: the transaction read from base64, signed with a base58 private key and serialised
  again; \<open>kt_date\<close> is \<open>new Date(x).getTime()\<close>, \<open>None\<close> for \<open>NaN\<close>; \<open>kt_number\<close> is \<open>Number\<close> of a text
  that is no digit string; \<open>kt_parse\<close> is \<open>JSON.parse\<close> and \<open>kt_iso\<close> is \<open>toISOString\<close>.\<close>

record 'w sdk_kit =
  kt_send :: "http_request \<Rightarrow> 'w \<Rightarrow> (axios_failure + json) \<times> 'w"
  kt_is_key :: "string \<Rightarrow> bool"
  kt_sign :: "string \<Rightarrow> string \<Rightarrow> string result"
  kt_sign_nonce :: "string \<Rightarrow> string \<Rightarrow> string result"
  kt_date :: "json \<Rightarrow> int option"
  kt_number :: "string \<Rightarrow> double"
  kt_parse :: "string \<Rightarrow> json result"
  kt_iso :: "int \<Rightarrow> string"
  kt_now :: int
  kt_envUrl :: "string option"
  kt_envKey :: "string option"
  kt_keypair :: "string \<times> string"
  kt_uuid :: string

type_synonym ('w, 'a) cmd = "('w sdk_world, 'a) action"

definition get_config :: "('w, sdk_config) cmd" where
  "get_config w = (Inr (loadConfig (sw_config w)), w)"

definition put_config :: "sdk_config \<Rightarrow> ('w, unit) cmd" where
  "put_config c w = (Inr (), w\<lparr>sw_config := saveConfig c\<rparr>)"

text \<open>One request; the answer is \<open>res.data\<close>.\<close>

definition send_request :: "'w sdk_kit \<Rightarrow> http_client \<Rightarrow> string \<Rightarrow> string \<Rightarrow> json \<Rightarrow> ('w, json) cmd" where
  "send_request kit client meth path body w =
     (let r = \<lparr>rq_base = hc_baseUrl client,
             rq_authorization = (case hc_apiKey client of None \<Rightarrow> None | Some k \<Rightarrow> Some (''Bearer '' @ k)),
             rq_method = meth, rq_path = path, rq_body = body\<rparr>;
          (answer, s) = kt_send kit r (sw_server w);
          w' = w\<lparr>sw_server := s, sw_sent := sw_sent w @ [r]\<rparr>
      in (case answer of Inl f \<Rightarrow> (Inl (intercept f), w') | Inr d \<Rightarrow> (Inr d, w')))"

definition http_get :: "'w sdk_kit \<Rightarrow> http_client \<Rightarrow> string \<Rightarrow> ('w, json) cmd" where
  "http_get kit client path = send_request kit client ''GET'' path JsNull"

definition http_post :: "'w sdk_kit \<Rightarrow> http_client \<Rightarrow> string \<Rightarrow> json \<Rightarrow> ('w, json) cmd" where
  "http_post kit client path body = send_request kit client ''POST'' path body"

definition client_of :: "'w sdk_kit \<Rightarrow> sdk_config \<Rightarrow> http_client" where
  "client_of kit c = createHttpClient (getApiUrl (kt_envUrl kit) c) (getApiKey (kt_envKey kit) c)"

text \<open>\<open>res.data.data\<close> and one of its members.\<close>

definition data_member :: "json \<Rightarrow> string \<Rightarrow> json option result" where
  "data_member d k = bind_result (member (Some d) ''data'') (\<lambda>x. member x k)"

text \<open>Signing what the server built, and submitting it: a transaction that is no text is a type error.\<close>

definition sign_tx :: "'w sdk_kit \<Rightarrow> wallet_entry \<Rightarrow> json option \<Rightarrow> string result" where
  "sign_tx kit wallet tx = (case as_text tx of None \<Rightarrow> Inl type_error | Some t \<Rightarrow> kt_sign kit (wl_privateKey wallet) t)"

definition submit_tx :: "'w sdk_kit \<Rightarrow> http_client \<Rightarrow> string \<Rightarrow> ('w, json option) cmd" where
  "submit_tx kit client signedTx =
     andThen (http_post kit client ''/api/tx/submit'' (JsObj [(''signedTx'', JsText signedTx)]))
       (\<lambda>d. lift (data_member d ''txid''))"

definition wrapCommand :: "('w, 'a) cmd \<Rightarrow> ('w, 'a) cmd" where
  "wrapCommand c = catch c (\<lambda>e. lift (Inl (toSdkError e)))"

end
