(* ===== verification/Payments.thy ===== *)
theory Payments
  imports SdkClient
begin

text \<open>
  The payment commands of the SDK: validation (\<^verbatim>\<open>validate.ts\<close>), \<^verbatim>\<open>commands/pay.ts\<close>, \<^verbatim>\<open>claim.ts\<close>,
  \<^verbatim>\<open>cancel.ts\<close>, \<^verbatim>\<open>payments.ts\<close>, \<^verbatim>\<open>balance.ts\<close>, \<^verbatim>\<open>auth.ts\<close>, \<^verbatim>\<open>chat.ts\<close> and the funding command of
  \<^verbatim>\<open>wallet.ts\<close>. A command returns the data that it prints.
\<close>

section \<open>Validation\<close>

definition validateAddress :: "'w sdk_kit \<Rightarrow> string \<Rightarrow> string \<Rightarrow> unit result" where
  "validateAddress kit address field =
     (if kt_is_key kit address then Inr ()
      else Inl (SdkError ''INVALID_ADDRESS'' (''Invalid '' @ field @ '' address: '' @ address)))"

definition validateAmount :: "string \<Rightarrow> double result" where
  "validateAmount amount =
     (let n = parseFloat amount
      in if n = NaN \<or> d_le n (Fin 0)
         then Inl (SdkError ''INVALID_AMOUNT'' (''Amount must be a positive number, got: '' @ amount))
         else Inr n)"

definition fetch_transfer :: "'w sdk_kit \<Rightarrow> http_client \<Rightarrow> string \<Rightarrow> ('w, json) cmd" where
  "fetch_transfer kit client transferPda =
     andThen (http_get kit client (''/api/transfers/'' @ transferPda)) (\<lambda>d.
       let transfer = opt_member (opt_member (Some d) ''data'') ''transfer''
       in lift (case transfer of
            Some t \<Rightarrow> if j_truthy transfer then Inr t
                      else Inl (SdkError ''TRANSFER_NOT_FOUND'' (''Transfer not found: '' @ transferPda))
          | None \<Rightarrow> Inl (SdkError ''TRANSFER_NOT_FOUND'' (''Transfer not found: '' @ transferPda))))"

definition require_active :: "json \<Rightarrow> unit result" where
  "require_active transfer =
     (if jget transfer ''status'' = Some (JsText ''ACTIVE'') then Inr ()
      else Inl (SdkError ''TRANSFER_NOT_ACTIVE'' (''Transfer is '' @ text_of_json (jget transfer ''status'') @ '', not ACTIVE'')))"

text \<open>A bound of the claim window; a date that cannot be read is compared as \<open>NaN\<close>.\<close>

definition window_bound :: "'w sdk_kit \<Rightarrow> json \<Rightarrow> string \<Rightarrow> int option" where
  "window_bound kit transfer field =
     (case jget transfer field of None \<Rightarrow> None | Some j \<Rightarrow> if j_truthy (Some j) then kt_date kit j else None)"

definition check_claim :: "'w sdk_kit \<Rightarrow> string \<Rightarrow> json \<Rightarrow> unit result" where
  "check_claim kit claimer transfer =
     bind_result (require_active transfer) (\<lambda>u.
       if jget transfer ''recipient'' \<noteq> Some (JsText claimer)
       then Inl (SdkError ''NOT_RECIPIENT'' (''Wallet '' @ claimer @ '' is not the recipient. Recipient is ''
              @ text_of_json (jget transfer ''recipient'')))
       else if (case window_bound kit transfer ''claimableAfter'' of None \<Rightarrow> False | Some t \<Rightarrow> kt_now kit < t)
       then Inl (SdkError ''CLAIM_WINDOW_NOT_OPEN'' (''Claim window opens at '' @ text_of_json (jget transfer ''claimableAfter'')))
       else if (case window_bound kit transfer ''claimableUntil'' of None \<Rightarrow> False | Some t \<Rightarrow> t < kt_now kit)
       then Inl (SdkError ''CLAIM_WINDOW_CLOSED'' (''Claim window closed at '' @ text_of_json (jget transfer ''claimableUntil'')))
       else Inr ())"

definition validateClaim :: "'w sdk_kit \<Rightarrow> http_client \<Rightarrow> string \<Rightarrow> string \<Rightarrow> ('w, unit) cmd" where
  "validateClaim kit client transferPda claimer =
     andThen (fetch_transfer kit client transferPda) (\<lambda>t. lift (check_claim kit claimer t))"

definition check_cancel :: "string \<Rightarrow> json \<Rightarrow> unit result" where
  "check_cancel canceller transfer =
     bind_result (require_active transfer) (\<lambda>u.
       if jget transfer ''sender'' \<noteq> Some (JsText canceller)
       then Inl (SdkError ''NOT_SENDER'' (''Wallet '' @ canceller @ '' is not the sender. Sender is ''
              @ text_of_json (jget transfer ''sender'')))
       else Inr ())"

definition validateCancel :: "'w sdk_kit \<Rightarrow> http_client \<Rightarrow> string \<Rightarrow> string \<Rightarrow> ('w, unit) cmd" where
  "validateCancel kit client transferPda canceller =
     andThen (fetch_transfer kit client transferPda) (\<lambda>t. lift (check_cancel canceller t))"

text \<open>\<open>tokens.find((t) => t.symbol === 'USDC')\<close>.\<close>

fun find_usdc :: "json list \<Rightarrow> json option result" where
  "find_usdc [] = Inr None"
| "find_usdc (t # ts) =
     (if t = JsNull then Inl type_error
      else if jget t ''symbol'' = Some (JsText ''USDC'') then Inr (Some t)
      else find_usdc ts)"

definition check_balance :: "double \<Rightarrow> json \<Rightarrow> unit result" where
  "check_balance amount d =
     (let tokens = opt_member (opt_member (Some d) ''data'') ''tokens'' in
      bind_result (if \<not> j_truthy tokens then Inr []
          else (case as_list tokens of None \<Rightarrow> Inl type_error | Some ts \<Rightarrow> Inr ts)) (\<lambda>ts.
      bind_result (find_usdc ts) (\<lambda>usdc.
        case usdc of
          None \<Rightarrow> Inr ()
        | Some u \<Rightarrow>
            if d_less (parseFloat (text_of_json (jget u ''balance''))) amount
            then Inl (SdkError ''INSUFFICIENT_BALANCE'' (''Insufficient USDC balance: '' @ text_of_json (jget u ''balance'')
                   @ '' < '' @ num_to_string amount))
            else Inr ())))"

definition is_SdkError :: "js_error \<Rightarrow> bool" where
  "is_SdkError e = (case e of SdkError c m \<Rightarrow> True | _ \<Rightarrow> False)"

definition balance_guard :: "'w sdk_kit \<Rightarrow> http_client \<Rightarrow> string \<Rightarrow> double \<Rightarrow> ('w, unit) cmd" where
  "balance_guard kit client sender amount =
     catch (andThen (http_get kit client (''/api/wallet/'' @ sender @ ''/balance'')) (\<lambda>d. lift (check_balance amount d)))
       (\<lambda>e. if is_SdkError e then lift (Inl e) else ret ())"

definition validatePay :: "'w sdk_kit \<Rightarrow> http_client \<Rightarrow> string \<Rightarrow> string \<Rightarrow> string \<Rightarrow> ('w, double) cmd" where
  "validatePay kit client recipient amount sender =
     andThen (lift (validateAddress kit recipient ''recipient'')) (\<lambda>u.
     andThen (lift (validateAmount amount)) (\<lambda>n.
     andThen (balance_guard kit client sender n) (\<lambda>v. ret n)))"

section \<open>Paying, claiming, cancelling\<close>

record pay_report =
  pr_transferPda :: "json option"
  pr_txid :: "json option"
  pr_amount :: double
  pr_recipient :: string
  pr_claimUrl :: string

definition create_body :: "string \<Rightarrow> string \<Rightarrow> double \<Rightarrow> string option \<Rightarrow> json" where
  "create_body sender recipient amount memo =
     JsObj [(''sender'', JsText sender), (''recipient'', JsText recipient), (''amount'', JsNum amount),
       (''token'', JsText ''usdc''), (''memo'', JsText (or_text memo []))]"

definition with_wallet :: "string option \<Rightarrow> (sdk_config \<Rightarrow> wallet_entry \<Rightarrow> ('w, 'a) cmd) \<Rightarrow> ('w, 'a) cmd" where
  "with_wallet label f = andThen get_config (\<lambda>c. andThen (lift (getWallet c label)) (f c))"

definition pay_from :: "'w sdk_kit \<Rightarrow> string \<Rightarrow> string \<Rightarrow> string option \<Rightarrow> sdk_config \<Rightarrow> wallet_entry \<Rightarrow> ('w, pay_report) cmd" where
  "pay_from kit recipient amount memo c wallet =
     (let client = client_of kit c in
      andThen (validatePay kit client recipient amount (wl_address wallet)) (\<lambda>n.
      andThen (http_post kit client ''/api/tx/create-transfer'' (create_body (wl_address wallet) recipient n memo)) (\<lambda>built.
      andThen (lift (data_member built ''transaction'')) (\<lambda>tx.
      andThen (lift (data_member built ''transferPda'')) (\<lambda>pda.
      andThen (lift (sign_tx kit wallet tx)) (\<lambda>signedTx.
      andThen (submit_tx kit client signedTx) (\<lambda>txid.
        ret \<lparr>pr_transferPda = pda, pr_txid = txid, pr_amount = n, pr_recipient = recipient,
             pr_claimUrl = getClaimUrl c (text_of_json pda)\<rparr>)))))))"

definition pay :: "'w sdk_kit \<Rightarrow> string \<Rightarrow> string \<Rightarrow> string option \<Rightarrow> string option \<Rightarrow> ('w, pay_report) cmd" where
  "pay kit recipient amount memo label w =
     with_wallet label (pay_from kit (resolveRecipient recipient (sw_contacts w)) amount memo) w"

text \<open>Claiming and cancelling differ in the check, the route and the name of the wallet.\<close>

definition settle_transfer ::
    "'w sdk_kit \<Rightarrow> (http_client \<Rightarrow> string \<Rightarrow> ('w, unit) cmd) \<Rightarrow> string \<Rightarrow> string \<Rightarrow> string \<Rightarrow> sdk_config \<Rightarrow> wallet_entry
       \<Rightarrow> ('w, json option) cmd" where
  "settle_transfer kit check path role transferPda c wallet =
     (let client = client_of kit c in
      andThen (check client (wl_address wallet)) (\<lambda>u.
      andThen (http_post kit client path (JsObj [(role, JsText (wl_address wallet)), (''transferPda'', JsText transferPda)])) (\<lambda>built.
      andThen (lift (data_member built ''transaction'')) (\<lambda>tx.
      andThen (lift (sign_tx kit wallet tx)) (\<lambda>signedTx. submit_tx kit client signedTx)))))"

definition claim :: "'w sdk_kit \<Rightarrow> string \<Rightarrow> string option \<Rightarrow> ('w, json option) cmd" where
  "claim kit transferPda label =
     with_wallet label (settle_transfer kit (\<lambda>cl a. validateClaim kit cl transferPda a) ''/api/tx/claim-transfer'' ''claimer'' transferPda)"

definition cancel :: "'w sdk_kit \<Rightarrow> string \<Rightarrow> string option \<Rightarrow> ('w, json option) cmd" where
  "cancel kit transferPda label =
     with_wallet label (settle_transfer kit (\<lambda>cl a. validateCancel kit cl transferPda a) ''/api/tx/cancel-transfer'' ''canceller'' transferPda)"

section \<open>Reading\<close>

definition paymentsList :: "'w sdk_kit \<Rightarrow> string option \<Rightarrow> ('w, json option) cmd" where
  "paymentsList kit label =
     with_wallet label (\<lambda>c wallet.
       andThen (http_get kit (client_of kit c) (''/api/transfers?wallet='' @ wl_address wallet)) (\<lambda>d. lift (data_member d ''transfers'')))"

definition paymentsGet :: "'w sdk_kit \<Rightarrow> string \<Rightarrow> ('w, json option) cmd" where
  "paymentsGet kit transferPda =
     andThen get_config (\<lambda>c.
     andThen (http_get kit (client_of kit c) (''/api/transfers/'' @ transferPda)) (\<lambda>d.
     andThen (lift (data_member d ''transfer'')) (\<lambda>t.
       if j_truthy t then ret t else lift (Inl (SdkError ''TRANSFER_NOT_FOUND'' (''Transfer not found: '' @ transferPda))))))"

definition sdk_balance :: "'w sdk_kit \<Rightarrow> string option \<Rightarrow> ('w, string \<times> string \<times> json option \<times> json option) cmd" where
  "sdk_balance kit label =
     with_wallet label (\<lambda>c wallet.
       andThen (http_get kit (client_of kit c) (''/api/wallet/'' @ wl_address wallet @ ''/balance'')) (\<lambda>d.
       andThen (lift (data_member d ''sol'')) (\<lambda>sol.
       andThen (lift (data_member d ''tokens'')) (\<lambda>tokens. ret (wl_label wallet, wl_address wallet, sol, tokens)))))"

definition sdk_chat :: "'w sdk_kit \<Rightarrow> string \<Rightarrow> ('w, json option) cmd" where
  "sdk_chat kit message w =
     (let c = loadConfig (sw_config w); (agentId, file) = getAgentId (kt_uuid kit) c (sw_config w); c' = snd (ensureAgentId (kt_uuid kit) c)
      in andThen (http_post kit (client_of kit c') ''/chat''
             (JsObj [(''agentId'', JsText agentId), (''message'', JsText message)])) (\<lambda>d. lift (data_member d ''message''))
           (w\<lparr>sw_config := file\<rparr>))"

section \<open>Funding\<close>

definition fund_token :: "bool \<Rightarrow> bool \<Rightarrow> string" where
  "fund_token sol usdc =
     (let doSol = sol \<or> (\<not> sol \<and> \<not> usdc); doUsdc = usdc \<or> (\<not> sol \<and> \<not> usdc)
      in if doSol \<and> doUsdc then ''both'' else if doSol then ''sol'' else ''usdc'')"

text \<open>The two parts of the answer that are present; an error is reported, not thrown.\<close>

definition walletFund ::
    "'w sdk_kit \<Rightarrow> bool \<Rightarrow> bool \<Rightarrow> string option \<Rightarrow> ('w, (js_error + json option \<times> json option)) cmd" where
  "walletFund kit sol usdc label =
     with_wallet label (\<lambda>c wallet.
       catch (andThen (http_post kit (client_of kit c) ''/api/tx/faucet''
                (JsObj [(''wallet'', JsText (wl_address wallet)), (''token'', JsText (fund_token sol usdc))])) (\<lambda>d.
              andThen (lift (data_member d ''sol'')) (\<lambda>s. andThen (lift (data_member d ''usdc'')) (\<lambda>u.
                ret (Inr (if j_truthy s then s else None, if j_truthy u then u else None))))))
         (\<lambda>e. ret (Inl e)))"

section \<open>API keys\<close>

definition authRegister :: "'w sdk_kit \<Rightarrow> string option \<Rightarrow> ('w, unit) cmd" where
  "authRegister kit label =
     with_wallet label (\<lambda>c wallet.
       let client = createHttpClient (getApiUrl (kt_envUrl kit) c) None in
       andThen (http_get kit client (''/api/auth/challenge?pubkey='' @ wl_address wallet)) (\<lambda>d.
       andThen (lift (data_member d ''nonce'')) (\<lambda>nonce.
       andThen (lift (case as_text nonce of None \<Rightarrow> Inl type_error | Some n \<Rightarrow> kt_sign_nonce kit (wl_privateKey wallet) n)) (\<lambda>signature.
       andThen (http_post kit client ''/api/auth/register''
           (JsObj [(''pubkey'', JsText (wl_address wallet)), (''signature'', JsText signature)])) (\<lambda>r.
       andThen (lift (data_member r ''apiKey'')) (\<lambda>apiKey. put_config (c\<lparr>cf_apiKey := as_text apiKey\<rparr>)))))))"

definition authStatus :: "'w sdk_kit \<Rightarrow> sdk_config option \<Rightarrow> (string \<times> string) option" where
  "authStatus kit file =
     (let c = loadConfig file in
      case truthy_string (getApiKey (kt_envKey kit) c) of
        None \<Rightarrow> None
      | Some apiKey \<Rightarrow>
          Some (if truthy_string (cf_apiKey c) \<noteq> None then ''config'' else ''SILKY_API_KEY env var'', take 9 apiKey @ ''...''))"

definition authRevoke :: "'w sdk_kit \<Rightarrow> ('w, unit) cmd" where
  "authRevoke kit =
     andThen get_config (\<lambda>c.
       case truthy_string (getApiKey (kt_envKey kit) c) of
         None \<Rightarrow> lift (Inl (SdkError ''NO_API_KEY'' ''No API key configured. Run `silky auth register` first.''))
       | Some apiKey \<Rightarrow>
           andThen (catch (http_post kit (createHttpClient (getApiUrl (kt_envUrl kit) c) (Some apiKey)) ''/api/auth/revoke'' (JsObj []))
               (\<lambda>e. lift (Inl (case e of
                  SdkError ec m \<Rightarrow>
                    if ec = ''UNAUTHORIZED'' then SdkError ''UNAUTHORIZED'' ''API key is already invalid or expired.'' else e
                | _ \<Rightarrow> e))))
             (\<lambda>d. put_config (clearApiKey c)))"

section \<open>What a payment sends\<close>

text \<open>The request of a client, and the step of the server.\<close>

definition request_of :: "http_client \<Rightarrow> string \<Rightarrow> string \<Rightarrow> json \<Rightarrow> http_request" where
  "request_of client meth path body =
     \<lparr>rq_base = hc_baseUrl client,
      rq_authorization = (case hc_apiKey client of None \<Rightarrow> None | Some k \<Rightarrow> Some (''Bearer '' @ k)),
      rq_method = meth, rq_path = path, rq_body = body\<rparr>"

definition exchanged :: "'w sdk_kit \<Rightarrow> http_request \<Rightarrow> (axios_failure + json) \<Rightarrow> 'w sdk_world \<Rightarrow> 'w sdk_world \<Rightarrow> bool" where
  "exchanged kit r answer w w' \<longleftrightarrow>
     kt_send kit r (sw_server w) = (answer, sw_server w') \<and> w' = w\<lparr>sw_server := sw_server w', sw_sent := sw_sent w @ [r]\<rparr>"

lemma send_request_cases:
  "send_request kit client meth path body w = (r, w') \<longleftrightarrow>
     (\<exists>answer. exchanged kit (request_of client meth path body) answer w w'
        \<and> r = (case answer of Inl f \<Rightarrow> Inl (intercept f) | Inr d \<Rightarrow> Inr d))"
  by (auto simp: send_request_def exchanged_def request_of_def Let_def split: prod.splits sum.splits)

lemma send_Inr:
  "send_request kit client meth path body w = (Inr d, w') \<longleftrightarrow> exchanged kit (request_of client meth path body) (Inr d) w w'"
proof -
  have "(case answer of Inl f \<Rightarrow> Inl (intercept f) | Inr x \<Rightarrow> Inr x) = Inr d \<longleftrightarrow> answer = Inr d" for answer :: "axios_failure + json"
    by (cases answer) auto
  then show ?thesis unfolding send_request_cases by (metis (no_types, lifting))
qed

lemma intercept_SdkError: "is_SdkError (intercept f)"
  by (auto simp: intercept_def Let_def is_SdkError_def coded_error_def split: option.splits js_error.splits if_splits prod.splits)

lemma send_Inl:
  assumes "send_request kit client meth path body w = (Inl e, w')"
  shows "is_SdkError e"
proof -
  obtain answer :: "axios_failure + json" where "Inl e = (case answer of Inl f \<Rightarrow> Inl (intercept f) | Inr d \<Rightarrow> Inr d)"
    using assms unfolding send_request_cases by blast
  then show ?thesis by (cases answer) (auto simp: intercept_SdkError)
qed

lemma balance_guard_Inr:
  assumes "balance_guard kit client sender n w = (Inr u, w')"
  shows "\<exists>d. exchanged kit (request_of client ''GET'' (''/api/wallet/'' @ sender @ ''/balance'') JsNull) (Inr d) w w'
    \<and> (\<forall>e. check_balance n d = Inl e \<longrightarrow> \<not> is_SdkError e)"
proof -
  let ?path = "''/api/wallet/'' @ sender @ ''/balance''"
  obtain x w1 where s: "send_request kit client ''GET'' ?path JsNull w = (x, w1)" by (meson prod.exhaust)
  show ?thesis
  proof (cases x)
    case (Inl e)
    then have "is_SdkError e" using s send_Inl by blast
    then show ?thesis using assms s Inl
      by (simp add: balance_guard_def catch_def http_get_def andThen_def lift_def)
  next
    case (Inr d)
    then have "exchanged kit (request_of client ''GET'' ?path JsNull) (Inr d) w w1" using s send_Inr by blast
    moreover have "w1 = w' \<and> (\<forall>e. check_balance n d = Inl e \<longrightarrow> \<not> is_SdkError e)" using assms s Inr
      by (auto simp: balance_guard_def catch_def http_get_def andThen_def lift_def ret_def split: sum.splits if_splits)
    ultimately show ?thesis by blast
  qed
qed


lemma exchangedD:
  assumes "exchanged kit r a w w'"
  shows "sw_sent w' = sw_sent w @ [r]" and "sw_config w' = sw_config w" and "sw_contacts w' = sw_contacts w"
    and "fst (kt_send kit r (sw_server w)) = a"
proof -
  have w': "w' = w\<lparr>sw_server := sw_server w', sw_sent := sw_sent w @ [r]\<rparr>" and "kt_send kit r (sw_server w) = (a, sw_server w')"
    using assms by (auto simp: exchanged_def)
  then show "fst (kt_send kit r (sw_server w)) = a" by simp
  show "sw_sent w' = sw_sent w @ [r]" "sw_config w' = sw_config w" "sw_contacts w' = sw_contacts w"
    by (subst w', simp)+
qed

lemma validatePay_Inr:
  assumes "validatePay kit client recipient amount sender w = (Inr n, w')"
  shows "kt_is_key kit recipient \<and> n = parseFloat amount \<and> d_less (Fin 0) n
    \<and> (\<exists>d. exchanged kit (request_of client ''GET'' (''/api/wallet/'' @ sender @ ''/balance'') JsNull) (Inr d) w w'
         \<and> (\<forall>e. check_balance n d = Inl e \<longrightarrow> \<not> is_SdkError e))"
proof -
  have pos: "d_less (Fin 0) n" if "n \<noteq> NaN" "\<not> d_le n (Fin 0)"
    using that by (cases n) (auto simp: d_le_def d_less_def)
  show ?thesis using assms pos balance_guard_Inr
    by (auto simp: validatePay_def andThen_Inr validateAddress_def validateAmount_def Let_def split: if_splits)
qed

lemma submit_Inr:
  assumes "submit_tx kit client t w = (Inr x, w')"
  shows "\<exists>d. exchanged kit (request_of client ''POST'' ''/api/tx/submit'' (JsObj [(''signedTx'', JsText t)])) (Inr d) w w'
    \<and> data_member d ''txid'' = Inr x"
  using assms by (auto simp: submit_tx_def andThen_Inr http_post_def send_Inr)

lemma sign_tx_Inr:
  "sign_tx kit wallet tx = Inr t \<longleftrightarrow> (\<exists>s. tx = Some (JsText s) \<and> kt_sign kit (wl_privateKey wallet) s = Inr t)"
  by (auto simp: sign_tx_def as_text_def split: option.splits json.splits)

lemma pay_exchanges:
  assumes "pay kit recipient amount memo label w = (Inr r, w')"
  shows "\<exists>wallet w1 built w2 s signedTx d d2 pda.
      getWallet (loadConfig (sw_config w)) label = Inr wallet
    \<and> kt_is_key kit (resolveRecipient recipient (sw_contacts w)) \<and> d_less (Fin 0) (parseFloat amount)
    \<and> (let client = client_of kit (loadConfig (sw_config w)); t = resolveRecipient recipient (sw_contacts w); n = parseFloat amount
       in exchanged kit (request_of client ''GET'' (''/api/wallet/'' @ wl_address wallet @ ''/balance'') JsNull) (Inr d) w w1
        \<and> exchanged kit (request_of client ''POST'' ''/api/tx/create-transfer'' (create_body (wl_address wallet) t n memo)) (Inr built) w1 w2
        \<and> exchanged kit (request_of client ''POST'' ''/api/tx/submit'' (JsObj [(''signedTx'', JsText signedTx)])) (Inr d2) w2 w'
        \<and> pr_recipient r = t \<and> pr_amount r = n)
    \<and> data_member built ''transaction'' = Inr (Some (JsText s)) \<and> data_member built ''transferPda'' = Inr pda
    \<and> kt_sign kit (wl_privateKey wallet) s = Inr signedTx \<and> pr_transferPda r = pda"
proof -
  let ?c = "loadConfig (sw_config w)" let ?t = "resolveRecipient recipient (sw_contacts w)"
  let ?client = "client_of kit ?c"
  from assms obtain wallet where w: "getWallet ?c label = Inr wallet" and p: "pay_from kit ?t amount memo ?c wallet w = (Inr r, w')"
    by (auto simp: pay_def with_wallet_def andThen_Inr get_config_def)
  from p obtain n w1 built w2 tx signedTx x pda where v: "validatePay kit ?client ?t amount (wl_address wallet) w = (Inr n, w1)"
    and c: "exchanged kit (request_of ?client ''POST'' ''/api/tx/create-transfer'' (create_body (wl_address wallet) ?t n memo)) (Inr built) w1 w2"
    and tx: "data_member built ''transaction'' = Inr tx" "data_member built ''transferPda'' = Inr pda"
    and sg: "sign_tx kit wallet tx = Inr signedTx"
    and su: "submit_tx kit ?client signedTx w2 = (Inr x, w')" and r: "pr_recipient r = ?t" "pr_amount r = n" "pr_transferPda r = pda"
    by (auto simp: pay_from_def Let_def andThen_Inr http_post_def send_Inr)
  from validatePay_Inr [OF v] obtain d where n: "n = parseFloat amount" and v': "kt_is_key kit ?t" "d_less (Fin 0) n"
    and b: "exchanged kit (request_of ?client ''GET'' (''/api/wallet/'' @ wl_address wallet @ ''/balance'') JsNull) (Inr d) w w1"
    by blast
  from submit_Inr [OF su] obtain d2 where
    f: "exchanged kit (request_of ?client ''POST'' ''/api/tx/submit'' (JsObj [(''signedTx'', JsText signedTx)])) (Inr d2) w2 w'"
    by blast
  from sg obtain s where "tx = Some (JsText s)" "kt_sign kit (wl_privateKey wallet) s = Inr signedTx"
    by (auto simp: sign_tx_Inr)
  then show ?thesis using w v' n tx r b c f unfolding Let_def
    by (intro exI [of _ wallet] exI [of _ w1] exI [of _ built] exI [of _ w2] exI [of _ s] exI [of _ signedTx] exI [of _ d]
        exI [of _ d2] exI [of _ pda]) simp
qed

lemma pay_sends:
  assumes "pay kit recipient amount memo label w = (Inr r, w')"
  shows "\<exists>wallet n t d built s signedTx.
      getWallet (loadConfig (sw_config w)) label = Inr wallet
    \<and> t = resolveRecipient recipient (sw_contacts w) \<and> kt_is_key kit t \<and> n = parseFloat amount \<and> d_less (Fin 0) n
    \<and> (let client = client_of kit (loadConfig (sw_config w));
           ask = request_of client ''GET'' (''/api/wallet/'' @ wl_address wallet @ ''/balance'') JsNull;
           make = request_of client ''POST'' ''/api/tx/create-transfer'' (create_body (wl_address wallet) t n memo)
       in sw_sent w' = sw_sent w @ [ask, make,
              request_of client ''POST'' ''/api/tx/submit'' (JsObj [(''signedTx'', JsText signedTx)])]
        \<and> fst (kt_send kit ask (sw_server w)) = Inr d
        \<and> fst (kt_send kit make (snd (kt_send kit ask (sw_server w)))) = Inr built)
    \<and> data_member built ''transaction'' = Inr (Some (JsText s)) \<and> kt_sign kit (wl_privateKey wallet) s = Inr signedTx
    \<and> pr_recipient r = t \<and> pr_amount r = n \<and> sw_config w' = sw_config w \<and> sw_contacts w' = sw_contacts w"
proof -
  from pay_exchanges [OF assms] obtain wallet w1 built w2 s signedTx d d2 pda where
    w: "getWallet (loadConfig (sw_config w)) label = Inr wallet" "kt_is_key kit (resolveRecipient recipient (sw_contacts w))"
      "d_less (Fin 0) (parseFloat amount)"
    and x: "let client = client_of kit (loadConfig (sw_config w)); t = resolveRecipient recipient (sw_contacts w); n = parseFloat amount
       in exchanged kit (request_of client ''GET'' (''/api/wallet/'' @ wl_address wallet @ ''/balance'') JsNull) (Inr d) w w1
        \<and> exchanged kit (request_of client ''POST'' ''/api/tx/create-transfer'' (create_body (wl_address wallet) t n memo)) (Inr built) w1 w2
        \<and> exchanged kit (request_of client ''POST'' ''/api/tx/submit'' (JsObj [(''signedTx'', JsText signedTx)])) (Inr d2) w2 w'
        \<and> pr_recipient r = t \<and> pr_amount r = n"
    and s: "data_member built ''transaction'' = Inr (Some (JsText s))" "kt_sign kit (wl_privateKey wallet) s = Inr signedTx"
    by blast
  let ?client = "client_of kit (loadConfig (sw_config w))"
  have b: "exchanged kit (request_of ?client ''GET'' (''/api/wallet/'' @ wl_address wallet @ ''/balance'') JsNull) (Inr d) w w1"
    using x by (simp add: Let_def)
  have c: "exchanged kit (request_of ?client ''POST'' ''/api/tx/create-transfer''
      (create_body (wl_address wallet) (resolveRecipient recipient (sw_contacts w)) (parseFloat amount) memo)) (Inr built) w1 w2"
    using x by (simp add: Let_def)
  have f: "exchanged kit (request_of ?client ''POST'' ''/api/tx/submit'' (JsObj [(''signedTx'', JsText signedTx)])) (Inr d2) w2 w'"
    using x by (simp add: Let_def)
  have "snd (kt_send kit (request_of ?client ''GET'' (''/api/wallet/'' @ wl_address wallet @ ''/balance'') JsNull) (sw_server w))
      = sw_server w1"
    using b by (simp add: exchanged_def)
  then show ?thesis
    using w s x exchangedD [OF b] exchangedD [OF c] exchangedD [OF f] unfolding Let_def
    by (intro exI [of _ wallet] exI [of _ "parseFloat amount"] exI [of _ "resolveRecipient recipient (sw_contacts w)"] exI [of _ d]
        exI [of _ built] exI [of _ s] exI [of _ signedTx]) simp
qed

text \<open>C23. A payment that succeeds sent exactly three requests: the balance of the paying wallet, the
  creation of a transfer from that wallet to the resolved recipient over the parsed amount with the
  memo, and the submission of what the server built, signed with the wallet's key. The recipient is
  a valid address, the amount is positive, the balance request was answered, and the configuration
  and the address book are as before.\<close>

theorem pay_exact:
  assumes "pay kit recipient amount memo label w = (Inr r, w')"
  shows "\<exists>wallet n t d built s signedTx.
      getWallet (loadConfig (sw_config w)) label = Inr wallet
    \<and> t = resolveRecipient recipient (sw_contacts w) \<and> kt_is_key kit t \<and> n = parseFloat amount \<and> d_less (Fin 0) n
    \<and> (let client = client_of kit (loadConfig (sw_config w));
           ask = request_of client ''GET'' (''/api/wallet/'' @ wl_address wallet @ ''/balance'') JsNull;
           make = request_of client ''POST'' ''/api/tx/create-transfer'' (create_body (wl_address wallet) t n memo)
       in sw_sent w' = sw_sent w @ [ask, make,
              request_of client ''POST'' ''/api/tx/submit'' (JsObj [(''signedTx'', JsText signedTx)])]
        \<and> fst (kt_send kit ask (sw_server w)) = Inr d
        \<and> fst (kt_send kit make (snd (kt_send kit ask (sw_server w)))) = Inr built)
    \<and> data_member built ''transaction'' = Inr (Some (JsText s)) \<and> kt_sign kit (wl_privateKey wallet) s = Inr signedTx
    \<and> pr_recipient r = t \<and> pr_amount r = n \<and> sw_config w' = sw_config w \<and> sw_contacts w' = sw_contacts w"
  using assms by (rule pay_sends)

lemma lowered_L: "CHR ''L'' \<in> set s \<Longrightarrow> CHR ''l'' \<in> set (toLowerCase s)"
proof -
  have "lower_char (CHR ''L'') = CHR ''l''" by code_simp
  then show "CHR ''L'' \<in> set s \<Longrightarrow> CHR ''l'' \<in> set (toLowerCase s)"
    unfolding toLowerCase_def set_map by (metis image_eqI)
qed

text \<open>C11. A contact can take the place of a valid address. The guard against address-like names tests
  the lower-cased name, and base58 has no lower-case L: so an address with a capital L is accepted
  as a name for any other address, and from then on a payment to that address, typed exactly, is
  asked for the other one.\<close>

theorem contact_shadows_address:
  assumes base58: "\<And>s. CHR ''l'' \<in> set s \<Longrightarrow> \<not> kt_is_key kit s"
    and "CHR ''L'' \<in> set victim" and "kt_is_key kit attacker"
    and "contact_map (sw_contacts w) (toLowerCase victim) = None"
    and "addContact (kt_is_key kit) victim attacker (sw_contacts w) = (a, file)"
    and "pay kit victim amount memo label (w\<lparr>sw_contacts := file\<rparr>) = (Inr r, w')"
  shows "a = Inr () \<and> pr_recipient r = attacker
    \<and> (\<exists>sender n q. q \<in> set (sw_sent w') \<and> rq_path q = ''/api/tx/create-transfer''
         \<and> rq_body q = create_body sender attacker n memo)"
proof -
  have "\<not> kt_is_key kit (toLowerCase victim)" using base58 lowered_L [OF assms(2)] by blast
  then have a: "a = Inr ()" and f: "file = saveContacts (loadContacts (sw_contacts w) @ [\<lparr>ct_name = toLowerCase victim, ct_address = attacker\<rparr>])"
    using addContact_ok [of "kt_is_key kit" victim attacker "sw_contacts w"] assms(3-5) by auto
  have "resolveRecipient victim file = attacker"
    using assms(4) unfolding f
    by (simp add: resolveRecipient_def getContact_def find_contact_append contact_map_def)
  with pay_sends [OF assms(6)] a show ?thesis
    by (auto simp: Let_def) (force simp: request_of_def)
qed

definition sample_answer :: json where
  "sample_answer = JsObj [(''data'', JsObj [(''transaction'', JsText ''TX''), (''transferPda'', JsText ''P''), (''txid'', JsText ''S'')])]"

definition sample_server :: "http_request \<Rightarrow> unit \<Rightarrow> (axios_failure + json) \<times> unit" where
  "sample_server r u = (Inr sample_answer, u)"

definition sample_kit :: "unit sdk_kit" where
  "sample_kit = \<lparr>kt_send = sample_server, kt_is_key = (\<lambda>s. s = ''VL'' \<or> s = ''AA''), kt_sign = (\<lambda>k t. Inr (k @ t)),
     kt_sign_nonce = (\<lambda>k n. Inr n), kt_date = (\<lambda>j. None), kt_number = (\<lambda>s. NaN), kt_parse = (\<lambda>s. Inl SyntaxError), kt_iso = int_str, kt_now = 0, kt_envUrl = None,
     kt_envKey = None, kt_keypair = (''W'', ''K''), kt_uuid = ''U''\<rparr>"

definition sample_world :: "contacts_file \<Rightarrow> unit sdk_world" where
  "sample_world contacts = \<lparr>sw_config = Some (add_wallet ''main'' (''W'', ''K'') defaultConfig), sw_contacts = contacts,
     sw_orders = None, sw_server = (), sw_sent = []\<rparr>"

lemma sample_wallet:
  "getWallet (loadConfig (sw_config (sample_world cs))) None = Inr \<lparr>wl_label = ''main'', wl_address = ''W'', wl_privateKey = ''K''\<rparr>"
  by (simp add: sample_world_def loadConfig_def add_wallet_def defaultConfig_def getWallet_def or_text_def truthy_string_def find_wallet_def)

lemma sample_answer_simps [simp]:
  "data_member sample_answer ''transaction'' = Inr (Some (JsText ''TX''))"
  "data_member sample_answer ''transferPda'' = Inr (Some (JsText ''P''))"
  "data_member sample_answer ''txid'' = Inr (Some (JsText ''S''))"
  "check_balance n sample_answer = Inr ()"
  by (simp_all add: sample_answer_def data_member_def member_def jget_def check_balance_def opt_member_def j_truthy_def)

lemma sample_kit_simps [simp]:
  "kt_is_key sample_kit = (\<lambda>s. s = ''VL'' \<or> s = ''AA'')" "kt_sign sample_kit k t = Inr (k @ t)"
  by (simp_all add: sample_kit_def)

lemma sample_send [simp]:
  "send_request sample_kit client m p b w = (Inr sample_answer, w\<lparr>sw_sent := sw_sent w @ [request_of client m p b]\<rparr>)"
  by (simp add: send_request_def sample_kit_def sample_server_def request_of_def)

lemma sample_requests:
  "\<exists>w'. http_post sample_kit client p b w = (Inr sample_answer, w')"
  "\<exists>w'. submit_tx sample_kit client t w = (Inr (Some (JsText ''S'')), w')"
  "\<exists>w'. balance_guard sample_kit client a n w = (Inr (), w')"
  by (simp_all add: http_post_def submit_tx_def balance_guard_def catch_def http_get_def andThen_run lift_run)

lemma sample_validate: "\<exists>w'. validatePay sample_kit client ''AA'' ''1'' a w = (Inr (Fin 1), w')"
proof -
  have n: "validateAmount ''1'' = Inr (Fin 1)" by (simp add: validateAmount_def parse_one d_less_def d_le_def)
  obtain w' where "balance_guard sample_kit client a (Fin 1) w = (Inr (), w')" using sample_requests(3) by blast
  then show ?thesis
    by (simp add: validatePay_def validateAddress_def n andThen_run lift_run ret_def)
qed

lemma sample_pay:
  assumes "resolveRecipient to cs = ''AA''"
  shows "\<exists>r w'. pay sample_kit to ''1'' None None (sample_world cs) = (Inr r, w')"
proof -
  define c where "c = loadConfig (sw_config (sample_world cs))"
  have "\<exists>r w'. pay_from sample_kit ''AA'' ''1'' None c wallet w = (Inr r, w')" for wallet w
  proof -
    let ?cl = "client_of sample_kit c"
    obtain w1 where v: "validatePay sample_kit ?cl ''AA'' ''1'' (wl_address wallet) w = (Inr (Fin 1), w1)"
      using sample_validate by blast
    obtain w2 where p: "http_post sample_kit ?cl ''/api/tx/create-transfer''
        (create_body (wl_address wallet) ''AA'' (Fin 1) None) w1 = (Inr sample_answer, w2)"
      using sample_requests(1) by blast
    obtain w3 where t: "submit_tx sample_kit ?cl (wl_privateKey wallet @ ''TX'') w2 = (Inr (Some (JsText ''S'')), w3)"
      using sample_requests(2) by blast
    have s: "sign_tx sample_kit wallet (Some (JsText ''TX'')) = Inr (wl_privateKey wallet @ ''TX'')"
      by (simp add: sign_tx_def as_text_def)
    show ?thesis
      by (simp only: pay_from_def Let_def andThen_run v p sample_answer_simps lift_run s t ret_def) blast
  qed
  moreover have "sw_contacts (sample_world cs) = cs" by (simp add: sample_world_def)
  ultimately show ?thesis
    using sample_wallet [of cs] assms
    by (simp add: pay_def with_wallet_def andThen_def get_config_def lift_def c_def)
qed

theorem pay_exact_witness:
  "\<exists>r w'. pay sample_kit ''AA'' ''1'' None None (sample_world None) = (Inr r, w') \<and> pr_recipient r = ''AA'' \<and> pr_amount r = Fin 1"
proof -
  have r: "resolveRecipient ''AA'' None = ''AA''"
    by (simp add: resolveRecipient_def getContact_def loadContacts_def)
  obtain r w' where p: "pay sample_kit ''AA'' ''1'' None None (sample_world None) = (Inr r, w')"
    using sample_pay [OF r] by blast
  have "pr_recipient r = resolveRecipient ''AA'' (sw_contacts (sample_world None)) \<and> pr_amount r = parseFloat ''1''"
    using pay_exact [OF p] by (elim exE conjE) (simp only:)
  moreover have "sw_contacts (sample_world None) = None" by (simp add: sample_world_def)
  ultimately show ?thesis using p r parse_one by metis
qed

theorem contact_shadows_address_witness:
  "\<exists>r w'. pay sample_kit ''VL'' ''1'' None None ((sample_world None)\<lparr>sw_contacts :=
      snd (addContact (kt_is_key sample_kit) ''VL'' ''AA'' None)\<rparr>) = (Inr r, w') \<and> pr_recipient r = ''AA''"
proof -
  have l: "toLowerCase ''VL'' = ''vl''" by code_simp
  have f: "addContact (kt_is_key sample_kit) ''VL'' ''AA'' None = (Inr (), Some [\<lparr>ct_name = ''vl'', ct_address = ''AA''\<rparr>])"
    by (simp add: addContact_def Let_def l sample_kit_def saveContacts_def)
  have "resolveRecipient ''VL'' (Some [\<lparr>ct_name = ''vl'', ct_address = ''AA''\<rparr>]) = ''AA''"
    by (simp add: resolveRecipient_def getContact_def loadContacts_def l)
  moreover have "(sample_world None)\<lparr>sw_contacts := cs\<rparr> = sample_world cs" for cs by (simp add: sample_world_def)
  ultimately obtain r w' where p: "pay sample_kit ''VL'' ''1'' None None ((sample_world None)\<lparr>sw_contacts :=
      Some [\<lparr>ct_name = ''vl'', ct_address = ''AA''\<rparr>]\<rparr>) = (Inr r, w')"
    using sample_pay by metis
  have c: "sw_contacts (sample_world None) = None" by (simp add: sample_world_def)
  have h: "\<And>s. CHR ''l'' \<in> set s \<Longrightarrow> \<not> kt_is_key sample_kit s" "CHR ''L'' \<in> set ''VL''" "kt_is_key sample_kit ''AA''"
    "contact_map (sw_contacts (sample_world None)) (toLowerCase ''VL'') = None"
    by (auto simp: contact_map_def c)
  have "addContact (kt_is_key sample_kit) ''VL'' ''AA'' (sw_contacts (sample_world None))
      = (Inr (), Some [\<lparr>ct_name = ''vl'', ct_address = ''AA''\<rparr>])"
    using f c by simp
  note victim = contact_shadows_address [OF h this p]
  show ?thesis using p f victim by (intro exI [of _ r] exI [of _ w']) simp
qed

end
