(* ===== verification/SdkAccount.thy ===== *)
theory SdkAccount
  imports Payments Silkysig
begin

text \<open>
  The account commands of the SDK (\<^verbatim>\<open>commands/account.ts\<close>): syncing the Silkysig account of a wallet
  into the configuration, its status and events, and moving money through it. An answer of the
  server is read as the interface that the code declares for it, the body that the backend's route
  sends (\<open>account_body\<close>); one of another shape is a type error. \<open>localeCompare\<close> is the argument
  \<open>before\<close>.
\<close>

section \<open>Reading the server's answers\<close>

definition nat_field :: "json \<Rightarrow> string \<Rightarrow> nat option" where
  "nat_field j k = (case jget j k of Some (JsNum (Fin q)) \<Rightarrow> if 0 \<le> q \<and> q = of_int \<lfloor>q\<rfloor> then Some (nat \<lfloor>q\<rfloor>) else None | _ \<Rightarrow> None)"

definition num_field :: "json \<Rightarrow> string \<Rightarrow> double option" where
  "num_field j k = (case jget j k of Some (JsNum n) \<Rightarrow> Some n | _ \<Rightarrow> None)"

definition bool_field :: "json \<Rightarrow> string \<Rightarrow> bool option" where
  "bool_field j k = (case jget j k of Some (JsBool b) \<Rightarrow> Some b | _ \<Rightarrow> None)"

definition text_field :: "json \<Rightarrow> string \<Rightarrow> string option" where
  "text_field j k = as_text (jget j k)"

definition slot_of_json :: "json \<Rightarrow> (nat \<times> string \<times> string) option" where
  "slot_of_json j =
     (case (nat_field j ''index'', text_field j ''perTxLimit'') of
        (Some i, Some l) \<Rightarrow> Some (i, (case text_field j ''pubkey'' of None \<Rightarrow> [] | Some k \<Rightarrow> k), l)
      | _ \<Rightarrow> None)"

fun slots_of_json :: "json list \<Rightarrow> (nat \<times> string \<times> string) list option" where
  "slots_of_json [] = Some []"
| "slots_of_json (j # js) =
     (case (slot_of_json j, slots_of_json js) of (Some s, Some ss) \<Rightarrow> Some (s # ss) | _ \<Rightarrow> None)"

text \<open>The \<open>operators\<close> of one account, and the \<open>operatorSlot\<close> of an account found by its operator.\<close>

definition detail_slots :: "json \<Rightarrow> (nat \<times> string \<times> string) list option" where
  "detail_slots j = (case as_list (jget j ''operators'') of None \<Rightarrow> None | Some js \<Rightarrow> slots_of_json js)"

definition found_slots :: "json \<Rightarrow> (nat \<times> string \<times> string) list option" where
  "found_slots j =
     (case jget j ''operatorSlot'' of None \<Rightarrow> None | Some JsNull \<Rightarrow> Some [] | Some s \<Rightarrow> slots_of_json [s])"

definition body_of_json :: "(json \<Rightarrow> (nat \<times> string \<times> string) list option) \<Rightarrow> json \<Rightarrow> account_body option" where
  "body_of_json slots j =
     (case (text_field j ''pda'', text_field j ''owner'', text_field j ''mint'') of
        (Some p, Some o', Some m) \<Rightarrow>
          (case (nat_field j ''mintDecimals'', bool_field j ''isPaused'', num_field j ''balance'', slots j) of
             (Some d, Some b, Some bal, Some ss) \<Rightarrow>
               Some \<lparr>ab_pda = p, ab_owner = o', ab_mint = m, ab_mintDecimals = d, ab_isPaused = b, ab_balance = bal,
                 ab_operators = ss, ab_driftUser = text_field j ''driftUser'',
                 ab_principalBalance = (case text_field j ''principalBalance'' of None \<Rightarrow> [] | Some t \<Rightarrow> t)\<rparr>
           | _ \<Rightarrow> None)
      | _ \<Rightarrow> None)"

fun bodies_of_json :: "json list \<Rightarrow> account_body list option" where
  "bodies_of_json [] = Some []"
| "bodies_of_json (j # js) =
     (case (body_of_json found_slots j, bodies_of_json js) of (Some b, Some bs) \<Rightarrow> Some (b # bs) | _ \<Rightarrow> None)"

definition read_detail :: "json \<Rightarrow> account_body result" where
  "read_detail d =
     bind_result (member (Some d) ''data'') (\<lambda>x.
       case x of None \<Rightarrow> Inl type_error
       | Some j \<Rightarrow> (case body_of_json detail_slots j of None \<Rightarrow> Inl type_error | Some b \<Rightarrow> Inr b))"

definition read_accounts :: "json \<Rightarrow> account_body list result" where
  "read_accounts d =
     bind_result (data_member d ''accounts'') (\<lambda>x.
       case as_list x of None \<Rightarrow> Inl type_error
       | Some js \<Rightarrow> (case bodies_of_json js of None \<Rightarrow> Inl type_error | Some bs \<Rightarrow> Inr bs))"

section \<open>Numbers\<close>

definition number_of_text :: "'w sdk_kit \<Rightarrow> string \<Rightarrow> double" where
  "number_of_text kit s = (if s \<noteq> [] \<and> list_all is_digit s then num_of_int (int (nat_of_digits s)) else kt_number kit s)"

definition math_round :: "double \<Rightarrow> double" where
  "math_round x = (case x of Fin q \<Rightarrow> Fin (of_int \<lfloor>q + 1 / 2\<rfloor>) | _ \<Rightarrow> x)"

lemma math_round_near: "\<bar>y - of_int k\<bar> < 1 / 2 \<Longrightarrow> math_round (Fin y) = Fin (of_int k)"
proof -
  assume "\<bar>y - of_int k\<bar> < 1 / 2"
  then have "\<lfloor>y + 1 / 2\<rfloor> = k" by (intro floor_unique) linarith+
  then show ?thesis by (simp add: math_round_def)
qed

definition human_units :: "double \<Rightarrow> nat \<Rightarrow> double" where
  "human_units n decimals = (if 0 < decimals then d_div n (num_of_int (10 ^ decimals)) else n)"

definition raw_units :: "double \<Rightarrow> nat \<Rightarrow> double" where
  "raw_units n decimals = math_round (d_mul n (num_of_int (10 ^ decimals)))"

section \<open>Syncing\<close>

fun insert_before :: "('a \<Rightarrow> 'a \<Rightarrow> bool) \<Rightarrow> 'a \<Rightarrow> 'a list \<Rightarrow> 'a list" where
  "insert_before before x [] = [x]"
| "insert_before before x (y # ys) = (if before y x then y # insert_before before x ys else x # y # ys)"

definition sort_before :: "('a \<Rightarrow> 'a \<Rightarrow> bool) \<Rightarrow> 'a list \<Rightarrow> 'a list" where
  "sort_before before xs = foldr (insert_before before) xs []"

record sync_report =
  sy_pda :: string
  sy_owner :: string
  sy_balance :: double
  sy_perTxLimit :: double
  sy_mint :: string
  sy_allAccounts :: "(string \<times> string \<times> double) list"

definition info_of :: "'w sdk_kit \<Rightarrow> account_body \<Rightarrow> nat \<times> string \<Rightarrow> account_info" where
  "info_of kit b slot =
     \<lparr>ac_pda = ab_pda b, ac_owner = ab_owner b, ac_mint = ab_mint b, ac_mintDecimals = ab_mintDecimals b,
      ac_operatorIndex = fst slot, ac_perTxLimit = number_of_text kit (snd slot), ac_syncedAt = kt_now kit\<rparr>"

definition report_of :: "'w sdk_kit \<Rightarrow> account_body \<Rightarrow> nat \<times> string \<Rightarrow> (string \<times> string \<times> double) list \<Rightarrow> sync_report" where
  "report_of kit b slot others =
     \<lparr>sy_pda = ab_pda b, sy_owner = ab_owner b, sy_balance = human_units (ab_balance b) (ab_mintDecimals b),
      sy_perTxLimit = human_units (number_of_text kit (snd slot)) (ab_mintDecimals b), sy_mint = ab_mint b,
      sy_allAccounts = others\<rparr>"

definition sync_one :: "'w sdk_kit \<Rightarrow> string \<Rightarrow> sdk_config \<Rightarrow> wallet_entry \<Rightarrow> ('w, sync_report option) cmd" where
  "sync_one kit account c wallet =
     andThen (lift (validateAddress kit account ''account'')) (\<lambda>u.
     andThen (http_get kit (client_of kit c) (''/api/account/'' @ account)) (\<lambda>d.
     andThen (lift (read_detail d)) (\<lambda>acct.
       case List.find (\<lambda>(i, k, l). k = wl_address wallet) (ab_operators acct) of
         None \<Rightarrow> lift (Inl (SdkError ''NOT_OPERATOR'' (''Wallet '' @ dquoted (wl_label wallet) @ '' ('' @ wl_address wallet
                    @ '') is not an operator on account '' @ account)))
       | Some (i, k, l) \<Rightarrow>
           andThen (put_config (c\<lparr>cf_account := Some (info_of kit acct (i, l))\<rparr>)) (\<lambda>v.
             ret (Some (report_of kit acct (i, l) []))))))"

definition sync_found ::
    "'w sdk_kit \<Rightarrow> (string \<Rightarrow> string \<Rightarrow> bool) \<Rightarrow> sdk_config \<Rightarrow> wallet_entry \<Rightarrow> ('w, sync_report option) cmd" where
  "sync_found kit before c wallet =
     andThen (http_get kit (client_of kit c) (''/api/account/by-operator/'' @ wl_address wallet)) (\<lambda>d.
     andThen (lift (read_accounts d)) (\<lambda>accounts.
       case sort_before (\<lambda>a b. before (ab_pda a) (ab_pda b)) accounts of
         [] \<Rightarrow> ret None
       | selected # others \<Rightarrow>
           (case ab_operators selected of
              [] \<Rightarrow> lift (Inl type_error)
            | (i, k, l) # rest \<Rightarrow>
                andThen (put_config (c\<lparr>cf_account := Some (info_of kit selected (i, l))\<rparr>)) (\<lambda>v.
                  ret (Some (report_of kit selected (i, l)
                    (if others = [] then []
                     else map (\<lambda>a. (ab_pda a, ab_owner a, human_units (ab_balance a) (ab_mintDecimals a))) (selected # others))))))))"

definition accountSync ::
    "'w sdk_kit \<Rightarrow> (string \<Rightarrow> string \<Rightarrow> bool) \<Rightarrow> string option \<Rightarrow> string option \<Rightarrow> ('w, sync_report option) cmd" where
  "accountSync kit before account label =
     with_wallet label (\<lambda>c wallet.
       case truthy_string account of Some a \<Rightarrow> sync_one kit a c wallet | None \<Rightarrow> sync_found kit before c wallet)"

section \<open>Status and events\<close>

definition no_account :: js_error where
  "no_account = SdkError ''NO_ACCOUNT'' ''No account synced. Run: silky account sync''"

definition with_account ::
    "string option \<Rightarrow> (sdk_config \<Rightarrow> wallet_entry \<Rightarrow> account_info \<Rightarrow> ('w, 'a) cmd) \<Rightarrow> ('w, 'a) cmd" where
  "with_account label f =
     with_wallet label (\<lambda>c wallet. case cf_account c of None \<Rightarrow> lift (Inl no_account) | Some a \<Rightarrow> f c wallet a)"

definition accountStatus :: "'w sdk_kit \<Rightarrow> string option \<Rightarrow> ('w, sync_report \<times> bool \<times> nat) cmd" where
  "accountStatus kit label =
     with_account label (\<lambda>c wallet a.
       andThen (http_get kit (client_of kit c) (''/api/account/'' @ ac_pda a)) (\<lambda>d.
       andThen (lift (read_detail d)) (\<lambda>acct.
         let perTxLimit = (case List.find (\<lambda>(i, k, l). i = ac_operatorIndex a) (ab_operators acct) of
               None \<Rightarrow> ac_perTxLimit a | Some (i, k, l) \<Rightarrow> number_of_text kit l)
         in ret (\<lparr>sy_pda = ab_pda acct, sy_owner = ab_owner acct,
                 sy_balance = human_units (ab_balance acct) (ab_mintDecimals acct),
                 sy_perTxLimit = human_units perTxLimit (ab_mintDecimals acct), sy_mint = ab_mint acct, sy_allAccounts = []\<rparr>,
               ab_isPaused acct, ac_operatorIndex a))))"

definition accountEvents :: "'w sdk_kit \<Rightarrow> string option \<Rightarrow> string option \<Rightarrow> ('w, string \<times> json option) cmd" where
  "accountEvents kit typ label =
     with_account label (\<lambda>c wallet a.
       let params = (case truthy_string typ of None \<Rightarrow> [] | Some t \<Rightarrow> ''?eventType='' @ t) in
       andThen (http_get kit (client_of kit c) (''/api/account/'' @ ac_pda a @ ''/events'' @ params)) (\<lambda>d.
       andThen (lift (member (Some d) ''data'')) (\<lambda>events. ret (ac_pda a, events))))"

section \<open>Moving money\<close>

text \<open>Build, sign, submit; an error of the submission goes through \<open>toSilkysigError\<close>.\<close>

definition silky_submit :: "'w sdk_kit \<Rightarrow> http_client \<Rightarrow> string \<Rightarrow> ('w, json option) cmd" where
  "silky_submit kit client signedTx = catch (submit_tx kit client signedTx) (\<lambda>e. lift (Inl (toSilkysigError e)))"

definition account_tx :: "'w sdk_kit \<Rightarrow> sdk_config \<Rightarrow> wallet_entry \<Rightarrow> string \<Rightarrow> json \<Rightarrow> ('w, json option) cmd" where
  "account_tx kit c wallet path body =
     (let client = client_of kit c in
      andThen (http_post kit client path body) (\<lambda>built.
      andThen (lift (data_member built ''transaction'')) (\<lambda>tx.
      andThen (lift (sign_tx kit wallet tx)) (\<lambda>signedTx. silky_submit kit client signedTx))))"

definition transfer_body :: "string \<Rightarrow> string \<Rightarrow> string \<Rightarrow> double \<Rightarrow> json" where
  "transfer_body signer pda recipient amount =
     JsObj [(''signer'', JsText signer), (''accountPda'', JsText pda), (''recipient'', JsText recipient), (''amount'', JsNum amount)]"

definition accountDeposit :: "'w sdk_kit \<Rightarrow> string \<Rightarrow> string option \<Rightarrow> ('w, json option \<times> double) cmd" where
  "accountDeposit kit amount label =
     with_account label (\<lambda>c wallet a.
       andThen (lift (validateAmount amount)) (\<lambda>n.
       andThen (account_tx kit c wallet ''/api/account/deposit''
           (JsObj [(''depositor'', JsText (wl_address wallet)), (''accountPda'', JsText (ac_pda a)),
              (''amount'', JsNum (raw_units n (ac_mintDecimals a)))])) (\<lambda>txid. ret (txid, n))))"

definition accountWithdraw :: "'w sdk_kit \<Rightarrow> string \<Rightarrow> string option \<Rightarrow> ('w, json option \<times> double) cmd" where
  "accountWithdraw kit amount label =
     with_account label (\<lambda>c wallet a.
       andThen (lift (validateAmount amount)) (\<lambda>n.
       andThen (account_tx kit c wallet ''/api/account/transfer''
           (transfer_body (wl_address wallet) (ac_pda a) (wl_address wallet) (raw_units n (ac_mintDecimals a)))) (\<lambda>txid. ret (txid, n))))"

definition accountSend :: "'w sdk_kit \<Rightarrow> string \<Rightarrow> string \<Rightarrow> string option \<Rightarrow> ('w, json option \<times> double \<times> string) cmd" where
  "accountSend kit recipient amount label w =
     (let to = resolveRecipient recipient (sw_contacts w) in
      with_account label (\<lambda>c wallet a.
        andThen (lift (validateAddress kit to ''recipient'')) (\<lambda>u.
        andThen (lift (validateAmount amount)) (\<lambda>n.
        andThen (account_tx kit c wallet ''/api/account/transfer''
            (transfer_body (wl_address wallet) (ac_pda a) to (raw_units n (ac_mintDecimals a)))) (\<lambda>txid. ret (txid, n, to))))) w)"

section \<open>Program errors of the account commands\<close>

lemma toSilkysigError_id: "is_SdkError e \<Longrightarrow> toSilkysigError e = e"
  by (cases e) (simp_all add: is_SdkError_def toSilkysigError_def to_error_def)

lemma intercept_tx_failed:
  assumes "af_status f \<noteq> Some 401" and "af_error f = Some ''TX_FAILED''" and "af_message f = Some m"
    and "hex_code m = Some n" and "map_of ANCHOR_ERROR_MAP n = Some (c, t)"
  shows "intercept f = SdkError c t"
proof -
  have "m \<noteq> []" using assms(4) by auto
  then show ?thesis using assms
    by (simp add: intercept_def truthy_string_def or_text_def coded_error_def)
qed

definition shadowing_code :: "(nat \<times> string \<times> string) \<Rightarrow> bool" where
  "shadowing_code e = (case map_of ANCHOR_ERROR_MAP (fst e) of None \<Rightarrow> False | Some (c, t) \<Rightarrow> c \<noteq> fst (snd e))"

lemma codes_shadowed: "list_all shadowing_code SILKYSIG_ERROR_MAP"
  by (simp add: SILKYSIG_ERROR_MAP_def ANCHOR_ERROR_MAP_def shadowing_code_def)

text \<open>C22. No error of the Silkysig program is ever reported as such. When the submission of an account
  command fails with the number of a Silkysig error, the HTTP client has already translated it with
  the table of the Handshake program, which has an entry for each of these numbers; the translation
  to Silkysig errors comes later and leaves the result alone. The user sees the unrelated Handshake
  error.\<close>

theorem silkysig_error_masked:
  assumes "kt_send kit (request_of client ''POST'' ''/api/tx/submit'' (JsObj [(''signedTx'', JsText tx)])) (sw_server w) = (Inl f, s)"
    and "af_status f \<noteq> Some 401" and "af_error f = Some ''TX_FAILED''" and "af_message f = Some m"
    and "hex_code m = Some n" and "map_of SILKYSIG_ERROR_MAP n = Some (c, t)"
  shows "\<exists>c' t'. map_of ANCHOR_ERROR_MAP n = Some (c', t') \<and> c' \<noteq> c
    \<and> fst (silky_submit kit client tx w) = Inl (SdkError c' t')"
proof -
  have "(n, c, t) \<in> set SILKYSIG_ERROR_MAP" using assms(6) by (rule map_of_SomeD)
  then have "shadowing_code (n, c, t)" using codes_shadowed by (auto simp: list_all_iff)
  then obtain c' t' where a: "map_of ANCHOR_ERROR_MAP n = Some (c', t')" "c' \<noteq> c"
    by (auto simp: shadowing_code_def split: option.splits)
  have "toSilkysigError (SdkError c' t') = SdkError c' t'" by (simp add: toSilkysigError_def to_error_def)
  then have "fst (silky_submit kit client tx w) = Inl (SdkError c' t')"
    using intercept_tx_failed [OF assms(2-5) a(1)] assms(1)
    by (simp add: silky_submit_def submit_tx_def catch_def andThen_def http_post_def send_request_def request_of_def lift_def)
  with a show ?thesis by blast
qed

lemma sample_code: "hex_code ''custom program error: 0x1771'' = Some 6001"
  by code_simp

theorem silkysig_error_masked_witness:
  "fst (silky_submit (sample_kit\<lparr>kt_send := (\<lambda>r u. (Inl \<lparr>af_status = Some 400, af_error = Some ''TX_FAILED'',
      af_message = Some ''custom program error: 0x1771'', af_code = None\<rparr>, u))\<rparr>) \<lparr>hc_baseUrl = ''b'', hc_apiKey = None\<rparr> ''T''
      (sample_world None)) = Inl (SdkError ''ANCHOR_TRANSFER_NOT_ACTIVE'' ''Transfer is not in active status'')"
proof -
  let ?kit = "sample_kit\<lparr>kt_send := (\<lambda>r u. (Inl \<lparr>af_status = Some 400, af_error = Some ''TX_FAILED'',
      af_message = Some ''custom program error: 0x1771'', af_code = None\<rparr>, u))\<rparr>"
  have m: "map_of SILKYSIG_ERROR_MAP 6001 = Some (''POLICY_EXCEEDS_TX_LIMIT'', ''Transfer exceeds operator per-transaction limit'')"
    "map_of ANCHOR_ERROR_MAP 6001 = Some (''ANCHOR_TRANSFER_NOT_ACTIVE'', ''Transfer is not in active status'')"
    by (simp_all add: SILKYSIG_ERROR_MAP_def ANCHOR_ERROR_MAP_def)
  have "\<exists>c' t'. map_of ANCHOR_ERROR_MAP 6001 = Some (c', t') \<and> c' \<noteq> ''POLICY_EXCEEDS_TX_LIMIT''
      \<and> fst (silky_submit ?kit \<lparr>hc_baseUrl = ''b'', hc_apiKey = None\<rparr> ''T'' (sample_world None)) = Inl (SdkError c' t')"
    by (rule silkysig_error_masked [OF _ _ _ _ sample_code m(1)]) (simp add: sample_world_def, simp_all)
  then show ?thesis unfolding m(2) by auto
qed

section \<open>The wallets survive every command\<close>

definition wallet_view :: "sdk_config option \<Rightarrow> wallet_entry list \<times> string" where
  "wallet_view file = (cf_wallets (loadConfig file), cf_defaultWallet (loadConfig file))"

definition config_view :: "sdk_config \<Rightarrow> wallet_entry list \<times> string" where
  "config_view c = (cf_wallets c, cf_defaultWallet c)"

text \<open>A command keeps the wallets \<open>V\<close>: started with them it ends with them, whatever it answers.\<close>

definition keeps_wallets :: "wallet_entry list \<times> string \<Rightarrow> ('w, 'a) cmd \<Rightarrow> bool" where
  "keeps_wallets V c \<longleftrightarrow> stays (\<lambda>w. wallet_view (sw_config w) = V) c"

named_theorems keeps \<open>commands that keep the wallets\<close>

lemma keepsD: "keeps_wallets V c \<Longrightarrow> wallet_view (sw_config w) = V \<Longrightarrow> c w = (r, w') \<Longrightarrow> wallet_view (sw_config w') = V"
  unfolding keeps_wallets_def by (rule staysD)

lemma keepsI: "(\<And>w r w'. wallet_view (sw_config w) = V \<Longrightarrow> c w = (r, w') \<Longrightarrow> wallet_view (sw_config w') = V) \<Longrightarrow> keeps_wallets V c"
  unfolding keeps_wallets_def by (rule staysI)

lemma keeps_andThen [keeps]: "keeps_wallets V c \<Longrightarrow> (\<And>x. keeps_wallets V (f x)) \<Longrightarrow> keeps_wallets V (andThen c f)"
  unfolding keeps_wallets_def by (rule stays_andThen)

lemma keeps_catch [keeps]: "keeps_wallets V c \<Longrightarrow> (\<And>e. keeps_wallets V (h e)) \<Longrightarrow> keeps_wallets V (catch c h)"
  unfolding keeps_wallets_def by (rule stays_catch)

lemma keeps_lift [keeps]: "keeps_wallets V (lift r)" "keeps_wallets V (ret x)"
  by (simp_all add: keeps_wallets_def stays)

lemma keeps_send [keeps]: "keeps_wallets V (send_request kit client m p b)"
  by (rule keepsI) (auto simp: send_request_def Let_def split: prod.splits sum.splits)

lemma keeps_http [keeps]: "keeps_wallets V (http_get kit client p)" "keeps_wallets V (http_post kit client p b)"
  by (simp_all add: http_get_def http_post_def keeps)

lemma keeps_put: "config_view c = V \<Longrightarrow> keeps_wallets V (put_config c)"
  by (simp add: keeps_wallets_def stays_def put_config_def wallet_view_def config_view_def saveConfig_def loadConfig_def)

lemma keeps_config: "(\<And>c. config_view c = V \<Longrightarrow> keeps_wallets V (f c)) \<Longrightarrow> keeps_wallets V (andThen get_config f)"
  by (fastforce simp: keeps_wallets_def stays_def andThen_def get_config_def wallet_view_def config_view_def split: prod.splits sum.splits)

lemma keeps_with_wallet:
  "(\<And>c wl. config_view c = V \<Longrightarrow> keeps_wallets V (f c wl)) \<Longrightarrow> keeps_wallets V (with_wallet label f)"
  unfolding with_wallet_def by (intro keeps_config keeps_andThen keeps_lift) auto

lemma keeps_with_account:
  "(\<And>c wl a. config_view c = V \<Longrightarrow> keeps_wallets V (f c wl a)) \<Longrightarrow> keeps_wallets V (with_account label f)"
  unfolding with_account_def by (intro keeps_with_wallet) (auto simp: keeps split: option.split)

lemma config_view_updates [simp]:
  "config_view (c\<lparr>cf_apiKey := k\<rparr>) = config_view c" "config_view (c\<lparr>cf_account := a\<rparr>) = config_view c"
  "config_view (clearApiKey c) = config_view c"
  by (simp_all add: config_view_def clearApiKey_def)

lemma keeps_parts [keeps]:
  "keeps_wallets V (balance_guard kit client sender n)" "keeps_wallets V (validatePay kit client r am s)"
  "keeps_wallets V (submit_tx kit client t)" "keeps_wallets V (silky_submit kit client t)"
  "keeps_wallets V (account_tx kit c wl path b)" "keeps_wallets V (pay_from kit to am memo c wl)"
  "keeps_wallets V (fetch_transfer kit client p)" "keeps_wallets V (validateClaim kit client p a)"
  "keeps_wallets V (validateCancel kit client p a)"
  by (simp_all add: balance_guard_def validatePay_def submit_tx_def silky_submit_def account_tx_def pay_from_def Let_def
      fetch_transfer_def validateClaim_def validateCancel_def keeps)

lemma keeps_settle: "(\<And>cl a. keeps_wallets V (check cl a)) \<Longrightarrow> keeps_wallets V (settle_transfer kit check path role p c wl)"
  by (simp add: settle_transfer_def Let_def keeps)

lemma keeps_commands:
  "keeps_wallets V (claim kit p label)" "keeps_wallets V (cancel kit p label)" "keeps_wallets V (authRegister kit label)"
  "keeps_wallets V (authRevoke kit)" "keeps_wallets V (accountSync kit before account label)"
  "keeps_wallets V (accountDeposit kit amount label)" "keeps_wallets V (accountWithdraw kit amount label)"
proof -
  show "keeps_wallets V (claim kit p label)" "keeps_wallets V (cancel kit p label)"
    by (simp_all add: claim_def cancel_def keeps_with_wallet keeps_settle keeps)
  show "keeps_wallets V (authRegister kit label)"
    unfolding authRegister_def Let_def by (intro keeps_with_wallet keeps_andThen keeps_http keeps_lift keeps_put) auto
  show "keeps_wallets V (authRevoke kit)"
    unfolding authRevoke_def
    by (intro keeps_config) (auto intro!: keeps_andThen keeps_catch keeps_http keeps_lift keeps_put split: option.split)
  show "keeps_wallets V (accountDeposit kit amount label)" "keeps_wallets V (accountWithdraw kit amount label)"
    by (simp_all add: accountDeposit_def accountWithdraw_def keeps_with_account keeps)
  show "keeps_wallets V (accountSync kit before account label)"
    unfolding accountSync_def sync_one_def sync_found_def
    by (intro keeps_with_wallet)
      (auto intro!: keeps_andThen keeps_http keeps_lift keeps_put split: option.split prod.split list.split)
qed

lemma keeps_by_contact:
  "pay kit to amount memo label w = (r, w') \<Longrightarrow> wallet_view (sw_config w') = wallet_view (sw_config w)"
  "accountSend kit to amount label w = (r2, w') \<Longrightarrow> wallet_view (sw_config w') = wallet_view (sw_config w)"
proof -
  have "keeps_wallets V (with_wallet label (pay_from kit t amount memo))" for V t
    by (simp add: keeps_with_wallet keeps)
  then show "pay kit to amount memo label w = (r, w') \<Longrightarrow> wallet_view (sw_config w') = wallet_view (sw_config w)"
    unfolding pay_def by (rule keepsD [OF _ refl])
  have "keeps_wallets V (with_account label (\<lambda>c wallet a. andThen (lift (validateAddress kit t ''recipient'')) (\<lambda>u.
        andThen (lift (validateAmount amount)) (\<lambda>n. andThen (account_tx kit c wallet ''/api/account/transfer''
            (transfer_body (wl_address wallet) (ac_pda a) t (raw_units n (ac_mintDecimals a)))) (\<lambda>txid. ret (txid, n, t))))))"
    for V t
    by (simp add: keeps_with_account keeps)
  then show "accountSend kit to amount label w = (r2, w') \<Longrightarrow> wallet_view (sw_config w') = wallet_view (sw_config w)"
    unfolding accountSend_def Let_def by (rule keepsD [OF _ refl])
qed

lemma keeps_chat: "sdk_chat kit message w = (r, w') \<Longrightarrow> wallet_view (sw_config w') = wallet_view (sw_config w)"
proof -
  assume run: "sdk_chat kit message w = (r, w')"
  obtain i f where g: "getAgentId (kt_uuid kit) (loadConfig (sw_config w)) (sw_config w) = (i, f)" by fastforce
  have v: "wallet_view (sw_config (w\<lparr>sw_config := f\<rparr>)) = wallet_view (sw_config w)"
    using g by (auto simp: getAgentId_def ensureAgentId_def wallet_view_def loadConfig_def saveConfig_def split: option.splits)
  have k: "keeps_wallets V (andThen (http_post kit client ''/chat'' b) (\<lambda>d. lift (data_member d ''message'')))" for V client b
    by (simp add: keeps)
  show ?thesis using run unfolding sdk_chat_def Let_def g prod.case by (rule keepsD [OF k v])
qed

text \<open>The commands that write the configuration, in any order and with any answers of the server.\<close>

inductive sdk_step :: "'w sdk_world \<Rightarrow> 'w sdk_world \<Rightarrow> bool" where
  create: "walletCreate label kp (sw_config w) = (r, cfg) \<Longrightarrow> sdk_step w (w\<lparr>sw_config := cfg\<rparr>)"
| initialise: "sdk_init kp uuid (sw_config w, sw_contacts w) = (rep, cfg, contacts)
    \<Longrightarrow> sdk_step w (w\<lparr>sw_config := cfg, sw_contacts := contacts\<rparr>)"
| set_cluster: "configSetCluster url cluster (sw_config w) = (r2, cfg) \<Longrightarrow> sdk_step w (w\<lparr>sw_config := cfg\<rparr>)"
| reset_cluster: "configResetCluster url (sw_config w) = (r3, cfg) \<Longrightarrow> sdk_step w (w\<lparr>sw_config := cfg\<rparr>)"
| talk: "sdk_chat kit message w = (r4, w') \<Longrightarrow> sdk_step w w'"
| sync: "accountSync kit before account label2 w = (r5, w') \<Longrightarrow> sdk_step w w'"
| register: "authRegister kit label2 w = (r6, w') \<Longrightarrow> sdk_step w w'"
| revoke: "authRevoke kit w = (r6, w') \<Longrightarrow> sdk_step w w'"
| payment: "pay kit recipient amount memo label2 w = (r7, w') \<Longrightarrow> sdk_step w w'"
| settle: "claim kit pda label2 w = (r4, w') \<or> cancel kit pda label2 w = (r4, w') \<Longrightarrow> sdk_step w w'"
| move: "accountDeposit kit amount label2 w = (r8, w') \<or> accountWithdraw kit amount label2 w = (r8, w') \<Longrightarrow> sdk_step w w'"
| send: "accountSend kit recipient amount label2 w = (r9, w') \<Longrightarrow> sdk_step w w'"

definition wallets_wf :: "sdk_config option \<Rightarrow> bool" where
  "wallets_wf file \<longleftrightarrow> (let c = loadConfig file in
     distinct (map wl_label (cf_wallets c))
   \<and> (cf_wallets c \<noteq> [] \<longrightarrow> find_wallet (cf_defaultWallet c) c \<noteq> None))"

definition wallets_kept :: "sdk_config option \<Rightarrow> sdk_config option \<Rightarrow> bool" where
  "wallets_kept file file' \<longleftrightarrow>
     (\<exists>new. cf_wallets (loadConfig file') = cf_wallets (loadConfig file) @ new)
   \<and> (cf_wallets (loadConfig file) \<noteq> [] \<longrightarrow> cf_defaultWallet (loadConfig file') = cf_defaultWallet (loadConfig file))"

lemma same_view:
  "wallet_view file' = wallet_view file \<Longrightarrow> wallets_kept file file' \<and> (wallets_wf file \<longrightarrow> wallets_wf file')"
  by (simp add: wallet_view_def wallets_kept_def wallets_wf_def find_wallet_def Let_def)

lemma find_wallet_None: "find_wallet label c = None \<longleftrightarrow> label \<notin> wl_label ` set (cf_wallets c)"
  by (auto simp: find_wallet_def find_None_iff)

lemma find_append: "List.find P (xs @ ys) = (case List.find P xs of None \<Rightarrow> List.find P ys | Some x \<Rightarrow> Some x)"
  by (induction xs) auto

lemma add_wallet_ok:
  assumes "find_wallet label c = None" and "wallets_wf file" and "loadConfig file = c"
    and "wallet_view file' = config_view (add_wallet label kp c)"
  shows "wallets_kept file file' \<and> wallets_wf file'"
proof -
  have v: "cf_wallets (loadConfig file') = cf_wallets c @ [\<lparr>wl_label = label, wl_address = fst kp, wl_privateKey = snd kp\<rparr>]"
    "cf_defaultWallet (loadConfig file') = (if cf_wallets c = [] then label else cf_defaultWallet c)"
    using assms(4) by (auto simp: wallet_view_def config_view_def add_wallet_def Let_def split: if_splits)
  show ?thesis using assms(1-3) v
    by (auto simp: wallets_kept_def wallets_wf_def Let_def find_wallet_None [unfolded find_wallet_def] find_wallet_def find_append
        split: option.splits)
qed

lemma other_steps:
  "sdk_chat kit message w = (r1, w') \<Longrightarrow> wallet_view (sw_config w') = wallet_view (sw_config w)"
  "accountSync kit before account label w = (r2, w') \<Longrightarrow> wallet_view (sw_config w') = wallet_view (sw_config w)"
  "authRegister kit label w = (r3, w') \<Longrightarrow> wallet_view (sw_config w') = wallet_view (sw_config w)"
  "authRevoke kit w = (r4, w') \<Longrightarrow> wallet_view (sw_config w') = wallet_view (sw_config w)"
  "pay kit recipient amount memo label w = (r5, w') \<Longrightarrow> wallet_view (sw_config w') = wallet_view (sw_config w)"
  "claim kit pda label w = (r6, w') \<Longrightarrow> wallet_view (sw_config w') = wallet_view (sw_config w)"
  "cancel kit pda label w = (r7, w') \<Longrightarrow> wallet_view (sw_config w') = wallet_view (sw_config w)"
  "accountDeposit kit amount label w = (r8, w') \<Longrightarrow> wallet_view (sw_config w') = wallet_view (sw_config w)"
  "accountWithdraw kit amount label w = (r9, w') \<Longrightarrow> wallet_view (sw_config w') = wallet_view (sw_config w)"
  "accountSend kit recipient amount label w = (r10, w') \<Longrightarrow> wallet_view (sw_config w') = wallet_view (sw_config w)"
  by (rule keeps_chat keeps_by_contact keepsD [OF keeps_commands(5) refl] keepsD [OF keeps_commands(3) refl]
      keepsD [OF keeps_commands(4) refl] keepsD [OF keeps_commands(1) refl] keepsD [OF keeps_commands(2) refl]
      keepsD [OF keeps_commands(6) refl] keepsD [OF keeps_commands(7) refl], assumption)+

lemma sdk_step_wallets:
  assumes "sdk_step w w'" and wf: "wallets_wf (sw_config w)"
  shows "wallets_kept (sw_config w) (sw_config w') \<and> wallets_wf (sw_config w')"
  using assms(1)
proof cases
  case (create label kp r cfg)
  show ?thesis
  proof (cases "find_wallet label (loadConfig (sw_config w))")
    case None
    then have "wallet_view cfg = config_view (add_wallet label kp (loadConfig (sw_config w)))"
      using create(2) by (auto simp: walletCreate_def Let_def wallet_view_def config_view_def saveConfig_def loadConfig_def)
    from add_wallet_ok [OF None wf refl this] show ?thesis using create(1) by simp
  next
    case (Some a)
    then have "cfg = sw_config w" using create(2) by (auto simp: walletCreate_def Let_def)
    then show ?thesis using same_view [of cfg "sw_config w"] wf create(1) by simp
  qed
next
  case (initialise kp uuid rep cfg contacts)
  let ?c = "loadConfig (sw_config w)"
  have e: "config_view (snd (ensureAgentId uuid c)) = config_view c" for c
    by (simp add: ensureAgentId_def config_view_def split: option.split)
  show ?thesis
  proof (cases "find_wallet ''main'' ?c")
    case None
    then have "wallet_view cfg = config_view (add_wallet ''main'' kp ?c)"
      using initialise(2) e [of "add_wallet ''main'' kp ?c"]
      by (auto simp: sdk_init_def Let_def wallet_view_def config_view_def saveConfig_def loadConfig_def split: prod.splits)
    from add_wallet_ok [OF None wf refl this] show ?thesis using initialise(1) by simp
  next
    case (Some a)
    then have "wallet_view cfg = wallet_view (sw_config w)"
      using initialise(2) e [of ?c]
      by (auto simp: sdk_init_def Let_def wallet_view_def config_view_def saveConfig_def split: prod.splits if_splits)
        (simp_all add: loadConfig_def)
    then show ?thesis using same_view wf initialise(1) by simp
  qed
next
  case (set_cluster url cluster r2 cfg)
  then have "wallet_view cfg = wallet_view (sw_config w)"
    by (auto simp: configSetCluster_def Let_def wallet_view_def saveConfig_def loadConfig_def split: if_splits option.splits)
  then show ?thesis using same_view wf set_cluster(1) by simp
next
  case (reset_cluster url r3 cfg)
  then have "wallet_view cfg = wallet_view (sw_config w)"
    by (auto simp: configResetCluster_def Let_def wallet_view_def saveConfig_def loadConfig_def split: option.splits)
  then show ?thesis using same_view wf reset_cluster(1) by simp
qed (use wf in \<open>auto dest!: other_steps same_view\<close>)

lemma wallets_kept_trans: "wallets_kept a b \<Longrightarrow> wallets_kept b c \<Longrightarrow> wallets_kept a c"
  unfolding wallets_kept_def by (metis append.assoc append_is_Nil_conv)

lemma wallets_kept_refl: "wallets_kept a a"
  by (simp add: wallets_kept_def)

lemma getWallet_kept:
  assumes "wallets_kept f f'" and "getWallet (loadConfig f) label = Inr wl"
  shows "getWallet (loadConfig f') label = Inr wl"
proof -
  obtain new where n: "cf_wallets (loadConfig f') = cf_wallets (loadConfig f) @ new"
    using assms(1) by (auto simp: wallets_kept_def)
  have found: "find_wallet (or_text label (cf_defaultWallet (loadConfig f))) (loadConfig f) = Some wl"
    using assms(2) by (auto simp: getWallet_def Let_def split: option.splits)
  then have "cf_wallets (loadConfig f) \<noteq> []" by (auto simp: find_wallet_def)
  then have "cf_defaultWallet (loadConfig f') = cf_defaultWallet (loadConfig f)"
    using assms(1) by (simp add: wallets_kept_def)
  with found show ?thesis by (simp add: getWallet_def find_wallet_def n find_append)
qed

text \<open>Once a wallet is there, no sequence of commands loses or replaces it: created wallets, a new
  initialisation, cluster changes, chats, registrations, account syncs and payments with any answers of
  the server leave every label (and the default, when no label is given) resolving to the same
  address and private key. Labels stay distinct and the default wallet stays one of the wallets.\<close>

theorem wallets_survive:
  assumes "sdk_step\<^sup>*\<^sup>* w w'" and "wallets_wf (sw_config w)"
  shows "wallets_wf (sw_config w')
    \<and> (\<forall>label wl. getWallet (loadConfig (sw_config w)) label = Inr wl \<longrightarrow> getWallet (loadConfig (sw_config w')) label = Inr wl)"
proof -
  have "wallets_kept (sw_config w) (sw_config w') \<and> wallets_wf (sw_config w')"
    using assms
    by (induction rule: rtranclp_induct)
      (auto intro: wallets_kept_refl wallets_kept_trans dest: sdk_step_wallets)
  then show ?thesis using getWallet_kept by blast
qed

theorem wallets_survive_witness:
  "\<exists>w'. sdk_step\<^sup>*\<^sup>* (sample_world None) w' \<and> length (cf_wallets (loadConfig (sw_config w'))) = 2
      \<and> getWallet (loadConfig (sw_config w')) None = Inr \<lparr>wl_label = ''main'', wl_address = ''W'', wl_privateKey = ''K''\<rparr>"
proof -
  let ?w = "sample_world None :: unit sdk_world"
  define w2 where "w2 = ?w\<lparr>sw_config := snd (walletCreate ''spare'' (''W2'', ''K2'') (sw_config ?w))\<rparr>"
  have "sdk_step ?w w2" unfolding w2_def
    by (rule create [of "''spare''" "(''W2'', ''K2'')" _ "fst (walletCreate ''spare'' (''W2'', ''K2'') (sw_config ?w))"]) simp
  then have steps: "sdk_step\<^sup>*\<^sup>* ?w w2" by blast
  have wf: "wallets_wf (sw_config ?w)"
    by (simp add: sample_world_def wallets_wf_def loadConfig_def add_wallet_def defaultConfig_def find_wallet_def)
  have two: "length (cf_wallets (loadConfig (sw_config w2))) = 2"
    by (simp add: w2_def sample_world_def loadConfig_def add_wallet_def defaultConfig_def walletCreate_def saveConfig_def find_wallet_def)
  show ?thesis using wallets_survive [OF steps wf] steps two sample_wallet by blast
qed

end
