(* ===== verification/OrdersCli.thy ===== *)
theory OrdersCli
  imports SdkAccount
begin

text \<open>
  The order commands of the SDK: the sugar for swap orders (\<^verbatim>\<open>orders/sugar.ts\<close>) and creating, listing,
  showing and evaluating orders (\<^verbatim>\<open>commands/orders.ts\<close>; cancelling is in \<open>Orders\<close>). An intent is JSON;
  for the verifier it is read at the types of \<^verbatim>\<open>intent/types.ts\<close>, an intent of another shape being a
  type error. The evaluation pass runs with the callbacks of the command: the server, the verifier
  of the SDK (second version) and the signer.
\<close>

section \<open>Intents in JSON\<close>

definition scalar_of_json :: "json \<Rightarrow> scalar option" where
  "scalar_of_json j = (case j of JsText s \<Rightarrow> Some (SStr s) | JsNum n \<Rightarrow> Some (SNum (num_to_string n)) | _ \<Rightarrow> None)"

definition bound_of_json :: "json \<Rightarrow> string \<Rightarrow> scalar option" where
  "bound_of_json j k = (case jget j k of None \<Rightarrow> None | Some x \<Rightarrow> scalar_of_json x)"

definition constraint_of_json :: "json \<Rightarrow> amount_constraint option" where
  "constraint_of_json j =
     (case j of
        JsObj ms \<Rightarrow> Some (Bounded \<lparr>gte = bound_of_json j ''gte'', lte = bound_of_json j ''lte'',
                      gt = bound_of_json j ''gt'', lt = bound_of_json j ''lt''\<rparr>)
      | _ \<Rightarrow> map_option Plain (scalar_of_json j))"

fun text_members :: "(string \<times> json) list \<Rightarrow> string obj" where
  "text_members [] = []"
| "text_members ((k, JsText s) # ms) = (k, s) # text_members ms"
| "text_members (m # ms) = text_members ms"

definition amount_members :: "json \<Rightarrow> amount_constraint obj" where
  "amount_members j =
     concat (map (\<lambda>k. case jget j k of None \<Rightarrow> [] | Some x \<Rightarrow> (case constraint_of_json x of None \<Rightarrow> [] | Some c \<Rightarrow> [(k, c)]))
       [''amount'', ''amountIn'', ''amountOut''])"

definition action_of_json :: "json \<Rightarrow> action_intent option" where
  "action_of_json j =
     (case (j, jget j ''action'') of
        (JsObj ms, Some (JsText a)) \<Rightarrow> Some \<lparr>ac_action = a, ac_text = text_members ms, ac_amounts = amount_members j\<rparr>
      | _ \<Rightarrow> None)"

fun actions_of_json :: "json list \<Rightarrow> action_intent list option" where
  "actions_of_json [] = Some []"
| "actions_of_json (j # js) =
     (case (action_of_json j, actions_of_json js) of (Some a, Some as) \<Rightarrow> Some (a # as) | _ \<Rightarrow> None)"

definition body_of_intent :: "json \<Rightarrow> intent_body option" where
  "body_of_intent j =
     (case jget j ''actions'' of
        Some x \<Rightarrow> (case as_list (Some x) of None \<Rightarrow> None | Some js \<Rightarrow> map_option Compound (actions_of_json js))
      | None \<Rightarrow> map_option Single (action_of_json j))"

definition intent_of_json :: "json \<Rightarrow> intent2 option" where
  "intent_of_json j =
     (case body_of_intent j of
        None \<Rightarrow> None
      | Some b \<Rightarrow> Some \<lparr>in_chain = (case text_field j ''chain'' of None \<Rightarrow> [] | Some c \<Rightarrow> c), in_strict = bool_field j ''strict'',
            in_signer = (case text_field j ''signer'' of None \<Rightarrow> [] | Some s \<Rightarrow> s), in_feePayer = text_field j ''feePayer'',
            in_program = text_field j ''program'', in_programName = text_field j ''programName'', in_body = b\<rparr>)"

section \<open>The sugar for swaps\<close>

definition DEFAULT_SLIPPAGE :: double where
  "DEFAULT_SLIPPAGE = round64 (1 / 10)"

definition MAX_SLIPPAGE :: double where
  "MAX_SLIPPAGE = Fin 10"

definition bad_slippage :: "double \<Rightarrow> bool" where
  "bad_slippage s \<longleftrightarrow> d_less s (Fin 0) \<or> d_less MAX_SLIPPAGE s"

definition positive_amount :: "double \<Rightarrow> bool" where
  "positive_amount x = (case x of Fin q \<Rightarrow> 0 < q | _ \<Rightarrow> False)"

text \<open>\<open>toFixed(12)\<close>, then without the trailing zeros, then without a trailing point.\<close>

definition fixed12 :: "double \<Rightarrow> string" where
  "fixed12 x = (case x of Fin q \<Rightarrow> if \<bar>q\<bar> < 10 ^ 21 then toFixed 12 q else num_to_string x | _ \<Rightarrow> num_to_string x)"

definition strip_point :: "string \<Rightarrow> string" where
  "strip_point s = (if s \<noteq> [] \<and> last s = CHR ''.'' then butlast s else s)"

definition min_out_text :: "double \<Rightarrow> string" where
  "min_out_text x = strip_point (strip_trailing (CHR ''0'') (fixed12 x))"

definition parseSwapSugar :: "string \<Rightarrow> string \<Rightarrow> string \<Rightarrow> string \<Rightarrow> double option \<Rightarrow> string \<Rightarrow> string \<Rightarrow> json result" where
  "parseSwapSugar sellAmount sellSymbol buySymbol price slip from chain =
     (let slippage = (case slip of None \<Rightarrow> DEFAULT_SLIPPAGE | Some s \<Rightarrow> s) in
      if bad_slippage slippage
      then Inl (SdkError ''INVALID_SLIPPAGE''
        (''INVALID_SLIPPAGE: Slippage must be between 0 and 10%. Got: '' @ num_to_string slippage))
      else
        let sell = parseFloat sellAmount in
        if \<not> positive_amount sell
        then Inl (SdkError ''INVALID_AMOUNT'' (''INVALID_AMOUNT: Sell amount must be positive. Got: '' @ sellAmount))
        else
          let p = parseFloat price in
          if \<not> positive_amount p
          then Inl (SdkError ''INVALID_PRICE'' (''INVALID_PRICE: Price must be positive. Got: '' @ price))
          else
            let rawOut = d_div sell p;
                minOut = d_mul rawOut (d_sub (Fin 1) (d_div slippage (Fin 100)))
            in Inr (JsObj [(''chain'', JsText chain), (''signer'', JsText from), (''action'', JsText ''swap''),
                 (''from'', JsText from), (''tokenIn'', JsObj [(''tokenSymbol'', JsText sellSymbol)]),
                 (''tokenOut'', JsObj [(''tokenSymbol'', JsText buySymbol)]), (''amountIn'', JsText sellAmount),
                 (''amountOut'', JsObj [(''gte'', JsText (min_out_text minOut))])]))"

section \<open>Creating an order\<close>

record create_options =
  co_sell :: "string option"
  co_buy :: "string option"
  co_price :: "string option"
  co_slippage :: "string option"
  co_expires :: "string option"
  co_cooldown :: "string option"
  co_maxAttempts :: "string option"
  co_wallet :: "string option"

text \<open>\<open>parseInt(s, 10)\<close>.\<close>

definition parse_int :: "string \<Rightarrow> double" where
  "parse_int s =
     (let t = dropWhile is_ws s;
          (neg, u) = (case t of [] \<Rightarrow> (False, [])
             | c # r \<Rightarrow> if c = CHR ''-'' then (True, r) else if c = CHR ''+'' then (False, r) else (False, t));
          ds = takeWhile is_digit u
      in if ds = [] then NaN else num_of_int ((if neg then - 1 else 1) * int (nat_of_digits ds)))"

definition unit_ms :: "char \<Rightarrow> nat option" where
  "unit_ms c = (if c = CHR ''m'' then Some 60000 else if c = CHR ''h'' then Some 3600000
     else if c = CHR ''d'' then Some 86400000 else None)"

text \<open>\<open>/^(\d+)(m|h|d)$/\<close>, in milliseconds.\<close>

definition relative_expiry :: "string \<Rightarrow> nat option" where
  "relative_expiry s =
     (let ds = takeWhile is_digit s in
      case dropWhile is_digit s of
        [c] \<Rightarrow> if ds = [] then None else map_option (\<lambda>u. nat_of_digits ds * u) (unit_ms c)
      | _ \<Rightarrow> None)"

text \<open>\<open>toISOString\<close> throws beyond the range of dates, which also holds every product whose double is not
  exact.\<close>

definition parseExpiry :: "'w sdk_kit \<Rightarrow> string \<Rightarrow> (string \<times> jtime) result" where
  "parseExpiry kit s =
     (case relative_expiry s of
        Some ms \<Rightarrow>
          let t = kt_now kit + int ms
          in if 8640000000000000 < t then Inl RangeError else Inr (kt_iso kit t, Some t)
      | None \<Rightarrow>
          (case kt_date kit (JsText s) of
             None \<Rightarrow> Inl (SdkError ''INVALID_EXPIRY''
               (''Cannot parse expiry: '' @ dquoted s @ ''. Use relative (7d, 24h, 30m) or ISO date.''))
           | Some t \<Rightarrow> Inr (kt_iso kit t, Some t)))"

text \<open>The policy as it is read back from the file: \<open>JSON\<close> has no number that is not finite, and writes
  \<open>null\<close>. A cooldown that is \<open>null\<close> is the default; attempts are compared with \<open>null\<close> as with 0.\<close>

definition is_finite :: "double \<Rightarrow> bool" where
  "is_finite x = (case x of Fin q \<Rightarrow> True | _ \<Rightarrow> False)"

definition stored_policy :: "policy \<Rightarrow> policy" where
  "stored_policy p = p
     \<lparr>po_cooldown := (case po_cooldown p of Some c \<Rightarrow> if is_finite c then Some c else None | None \<Rightarrow> None),
      po_maxAttempts := (case po_maxAttempts p of Some m \<Rightarrow> Some (if is_finite m then m else Fin 0) | None \<Rightarrow> None)\<rparr>"

definition order_policy :: "'w sdk_kit \<Rightarrow> create_options \<Rightarrow> policy result" where
  "order_policy kit opts =
     bind_result (case truthy_string (co_expires opts) of None \<Rightarrow> Inr None
         | Some s \<Rightarrow> bind_result (parseExpiry kit s) (\<lambda>e. Inr (Some e))) (\<lambda>expires.
       Inr \<lparr>po_expiresAt = expires,
         po_cooldown = Some (case truthy_string (co_cooldown opts) of None \<Rightarrow> Fin 60 | Some s \<Rightarrow> parse_int s),
         po_maxAttempts = map_option parse_int (truthy_string (co_maxAttempts opts)),
         po_recurrence = None\<rparr>)"

definition sugar_intent :: "sdk_config \<Rightarrow> wallet_entry \<Rightarrow> string \<Rightarrow> double \<Rightarrow> create_options \<Rightarrow> json result" where
  "sugar_intent c wallet text slippage opts =
     (if text \<noteq> ''swap''
      then Inl (SdkError ''UNSUPPORTED_ACTION'' (''Sugar syntax only supports '' @ dquoted ''swap''
        @ ''. Got: '' @ dquoted text @ ''. Use JSON for other actions.''))
      else case (truthy_string (co_sell opts), truthy_string (co_buy opts), truthy_string (co_price opts)) of
        (Some sell, Some buy, Some price) \<Rightarrow>
          (case split_ws sell of
             [amount, symbol] \<Rightarrow>
               parseSwapSugar amount symbol buy price (Some slippage) (wl_address wallet)
                 (''solana'' @ (if cf_cluster c = Some ''devnet'' then '':devnet'' else []))
           | _ \<Rightarrow> Inl (SdkError ''INVALID_SELL'' (''--sell must be '' @ dquoted ''<amount> <symbol>''
                   @ '' (e.g., --sell '' @ dquoted ''500 USDC'' @ '')'')))
      | _ \<Rightarrow> Inl (SdkError ''MISSING_FIELD''
               (''swap sugar requires --sell '' @ dquoted ''<amount> <symbol>'' @ '', --buy '' @ dquoted ''<symbol>''
                 @ '', and --price '' @ dquoted ''<number>'')))"

definition new_order :: "'w sdk_kit \<Rightarrow> json \<Rightarrow> double \<Rightarrow> policy \<Rightarrow> string option \<Rightarrow> order" where
  "new_order kit intent slippage p label =
     \<lparr>od_id = kt_uuid kit, od_intent = json_stored intent, od_policy = stored_policy p, od_status = Pending,
      od_slippage = slippage, od_wallet = label, od_createdAt = Some (kt_now kit), od_updatedAt = Some (kt_now kit),
      od_history = [makeEvent EvCreated (kt_now kit) None None None]\<rparr>"

definition put_order :: "order \<Rightarrow> ('w, unit) cmd" where
  "put_order x w = (Inr (), w\<lparr>sw_orders := addOrder x (sw_orders w)\<rparr>)"

definition create_slippage :: "create_options \<Rightarrow> double" where
  "create_slippage opts = (case truthy_string (co_slippage opts) of None \<Rightarrow> DEFAULT_SLIPPAGE | Some s \<Rightarrow> parseFloat s)"

definition ordersCreate :: "'w sdk_kit \<Rightarrow> string \<Rightarrow> create_options \<Rightarrow> ('w, string) cmd" where
  "ordersCreate kit text opts =
     with_wallet (co_wallet opts) (\<lambda>c wallet.
       let slippage = create_slippage opts in
       if bad_slippage slippage
       then lift (Inl (SdkError ''INVALID_SLIPPAGE'' (''Slippage must be between 0 and 10%. Got: '' @ num_to_string slippage)))
       else
         andThen (lift (case kt_parse kit text of Inr j \<Rightarrow> Inr j | Inl e \<Rightarrow> sugar_intent c wallet text slippage opts)) (\<lambda>intent.
         andThen (lift (order_policy kit opts)) (\<lambda>p.
         andThen (put_order (new_order kit intent slippage p (co_wallet opts))) (\<lambda>u. ret (kt_uuid kit)))))"

section \<open>Listing and showing\<close>

record order_line =
  ol_id :: string
  ol_action :: json
  ol_status :: order_status
  ol_slippage :: double
  ol_createdAt :: jtime
  ol_lastEvent :: "event_type option"

definition order_line_of :: "order \<Rightarrow> order_line result" where
  "order_line_of x =
     bind_result (member (Some (od_intent x)) ''action'') (\<lambda>action.
       Inr \<lparr>ol_id = od_id x,
         ol_action = (case action of Some a \<Rightarrow> if j_truthy action then a else JsText ''unknown'' | None \<Rightarrow> JsText ''unknown''),
         ol_status = od_status x, ol_slippage = od_slippage x, ol_createdAt = od_createdAt x,
         ol_lastEvent = (if od_history x = [] then None else Some (ev_type (last (od_history x))))\<rparr>)"

definition ordersList :: "string option \<Rightarrow> ('w, order_line list) cmd" where
  "ordersList status w =
     (let os = loadOrders (sw_orders w);
          chosen = (case truthy_string status of None \<Rightarrow> os | Some s \<Rightarrow> filter (\<lambda>x. status_text (od_status x) = s) os)
      in (map_result order_line_of chosen, w))"

definition ordersGet :: "string \<Rightarrow> ('w, order) cmd" where
  "ordersGet i w =
     ((case getOrder i (sw_orders w) of
         None \<Rightarrow> Inl (SdkError ''ORDER_NOT_FOUND'' (''Order '' @ dquoted i @ '' not found''))
       | Some x \<Rightarrow> Inr x), w)"

section \<open>Evaluating\<close>

definition cli_server :: "'w sdk_kit \<Rightarrow> http_client \<Rightarrow> wallet_entry \<Rightarrow> order \<Rightarrow> ('w, server_response) cmd" where
  "cli_server kit client wallet x =
     andThen (http_post kit client ''/api/orders/evaluate''
         (JsObj [(''intent'', od_intent x), (''slippage'', JsNum (od_slippage x)), (''wallet'', JsText (wl_address wallet))]))
       (\<lambda>d. lift (bind_result (member (Some d) ''data'') (\<lambda>data.
          bind_result (member data ''transaction'') (\<lambda>tx.
            let quote = opt_member data ''quote'' in
            Inr (if j_truthy tx
                 then \<lparr>sv_executable = True, sv_transaction = Some (text_of_json tx),
                        sv_quote_price = (if j_truthy quote then Some (text_of_json (opt_member quote ''price'')) else None),
                        sv_reason = None, sv_detail = None\<rparr>
                 else \<lparr>sv_executable = False, sv_transaction = None, sv_quote_price = None,
                        sv_reason = as_text (opt_member data ''reason''), sv_detail = as_text (opt_member data ''detail'')\<rparr>)))))"

definition cli_verify :: "web3 \<Rightarrow> string \<Rightarrow> order \<Rightarrow> ('w, verification) cmd" where
  "cli_verify w3 tx x =
     lift (case intent_of_json (od_intent x) of
             None \<Rightarrow> Inl type_error
           | Some i \<Rightarrow> bind_result (verifyIntent w3 tx i no_options) (\<lambda>r.
               Inr \<lparr>vf_matched = v2_matched r, vf_discrepancies = v2_discrepancies r\<rparr>))"

definition cli_sign :: "'w sdk_kit \<Rightarrow> http_client \<Rightarrow> wallet_entry \<Rightarrow> string \<Rightarrow> order \<Rightarrow> ('w, string) cmd" where
  "cli_sign kit client wallet tx x =
     andThen (lift (kt_sign kit (wl_privateKey wallet) tx)) (\<lambda>signedTx.
     andThen (submit_tx kit client signedTx) (\<lambda>txid. ret (text_of_json txid)))"

definition cli_options :: "'w sdk_kit \<Rightarrow> web3 \<Rightarrow> bool \<Rightarrow> sdk_config \<Rightarrow> wallet_entry \<Rightarrow> 'w sdk_world evaluate_options" where
  "cli_options kit w3 dry c wallet =
     \<lparr>eo_dryRun = dry, eo_priceFeed = None, eo_serverEvaluate = Some (cli_server kit (client_of kit c) wallet),
      eo_signAndSubmit = Some (cli_sign kit (client_of kit c) wallet), eo_verifyTransaction = Some (cli_verify w3)\<rparr>"

definition ordersEvaluate ::
    "nat \<Rightarrow> 'w sdk_kit \<Rightarrow> web3 \<Rightarrow> bool \<Rightarrow> string option \<Rightarrow> 'w sdk_world \<Rightarrow> (evaluation_result list result \<times> orders_file) option" where
  "ordersEvaluate fuel kit w3 dry label w =
     (let c = loadConfig (sw_config w) in
      case getWallet c label of
        Inl e \<Rightarrow> Some (Inl e, sw_orders w)
      | Inr wallet \<Rightarrow> evaluateOrders fuel (cli_options kit w3 dry c wallet) (kt_now kit) (sw_orders w) w)"

section \<open>Swap orders\<close>

definition swap_intent :: "json \<Rightarrow> bool" where
  "swap_intent j \<longleftrightarrow> (\<forall>i. intent_of_json j = Some i \<longrightarrow> (\<exists>a \<in> set (getActions i). ac_action a = ''swap''))"

lemma cli_never_approves:
  fixes kit :: "'w sdk_kit"
  assumes "swap_intent (od_intent x)"
  shows "\<not> approved (cli_options kit w3 dry c wallet) now x"
proof
  assume "approved (cli_options kit w3 dry c wallet) now x"
  then obtain tx v and w1 w2 :: "'w sdk_world" where "cli_verify w3 tx (executing now x) w1 = (Inr v, w2)" and m: "vf_matched v"
    by (auto simp: approved_def cli_options_def)
  then obtain i r where i: "intent_of_json (od_intent x) = Some i" and r: "verifyIntent w3 tx i no_options = Inr r" "v2_matched r"
    by (auto simp: cli_verify_def lift_def executing_def bind_result_Inr_iff split: option.splits)
  then show False using assms no_swap_match [OF r(1)] by (auto simp: swap_intent_def)
qed

inductive cli_order_step :: "'w sdk_world \<Rightarrow> 'w sdk_world \<Rightarrow> bool" where
  create: "ordersCreate kit input opts w = (r, w') \<Longrightarrow> cli_order_step w w'"
| cancel: "ordersCancel now i (sw_orders w) = Inr f \<Longrightarrow> cli_order_step w (w\<lparr>sw_orders := f\<rparr>)"
| evaluate: "ordersEvaluate fuel kit2 w3 dry label w = Some (r2, f) \<Longrightarrow> sw_orders w' = f \<Longrightarrow> cli_order_step w w'"

lemma ordersCreate_store:
  assumes "ordersCreate kit input opts w = (r, w')"
  shows "(\<exists>e. r = Inl e \<and> sw_orders w' = sw_orders w) \<or>
    (\<exists>wallet intent p. getWallet (loadConfig (sw_config w)) (co_wallet opts) = Inr wallet \<and> \<not> bad_slippage (create_slippage opts)
      \<and> (case kt_parse kit input of Inr j \<Rightarrow> Inr j
          | Inl e \<Rightarrow> sugar_intent (loadConfig (sw_config w)) wallet input (create_slippage opts) opts) = Inr intent
      \<and> r = Inr (kt_uuid kit)
      \<and> sw_orders w' = addOrder (new_order kit intent (create_slippage opts) p (co_wallet opts)) (sw_orders w))"
  using assms
  by (auto simp: ordersCreate_def with_wallet_def andThen_def lift_def get_config_def put_order_def ret_def Let_def
      split: sum.splits prod.splits if_splits)

definition unfilled :: "nat \<Rightarrow> 'w sdk_world \<Rightarrow> bool" where
  "unfilled k w \<longleftrightarrow> k < length (loadOrders (sw_orders w)) \<and> swap_intent (od_intent (loadOrders (sw_orders w) ! k))
     \<and> od_status (loadOrders (sw_orders w) ! k) \<noteq> Filled"

lemma unfilled_step:
  assumes "cli_order_step w w'" and u: "unfilled k w"
  shows "unfilled k w'"
  using assms(1)
proof (cases rule: cli_order_step.cases)
  case (create kit input opts r)
  then show ?thesis using u ordersCreate_store [OF create]
    by (auto simp: unfilled_def addOrder_def nth_append)
next
  case (cancel now i f)
  show ?thesis using u ordersCancel_result [OF cancel(2)]
    by (auto simp: unfilled_def cancel(1) nth_list_update stamped_def split: if_splits)
next
  case (evaluate fuel kit w3 dry label r f)
  show ?thesis
  proof (cases "getWallet (loadConfig (sw_config w)) label")
    case (Inl e)
    then show ?thesis using u evaluate by (simp add: ordersEvaluate_def unfilled_def)
  next
    case (Inr wallet)
    let ?opts = "cli_options kit w3 dry (loadConfig (sw_config w)) wallet"
    have run: "evaluateOrders fuel ?opts (kt_now kit) (sw_orders w) w = Some (r, f)"
      using evaluate Inr by (simp add: ordersEvaluate_def)
    have "\<not> approved ?opts (kt_now kit) (loadOrders (sw_orders w) ! k)"
      using u by (auto simp: unfilled_def intro!: cli_never_approves)
    then have "od_status (loadOrders f ! k) \<noteq> Filled"
      using filled_approved [OF run] u by (auto simp: unfilled_def)
    moreover have "k < length (loadOrders f)" "same_or_step (kt_now kit) (loadOrders (sw_orders w) ! k) (loadOrders f ! k)"
      using evaluateOrders_orders [OF run] u by (auto simp: unfilled_def)
    ultimately show ?thesis
      using u evaluate(2) same_or_step_kept by (fastforce simp: unfilled_def kept_def)
  qed
qed

lemma sugar_is_swap:
  assumes "sugar_intent c wallet input slippage opts = Inr j"
  shows "swap_intent (json_stored j)"
proof -
  obtain sell buy p q m where j: "j = JsObj [(''chain'', JsText p), (''signer'', JsText (wl_address wallet)), (''action'', JsText ''swap''),
      (''from'', JsText (wl_address wallet)), (''tokenIn'', JsObj [(''tokenSymbol'', JsText sell)]),
      (''tokenOut'', JsObj [(''tokenSymbol'', JsText buy)]), (''amountIn'', JsText q), (''amountOut'', JsObj [(''gte'', JsText m)])]"
    using assms by (auto simp: sugar_intent_def parseSwapSugar_def Let_def split: if_splits option.splits list.splits)
  have "getActions i = [a] \<Longrightarrow> ac_action a = ''swap''" if "intent_of_json (json_stored j) = Some i" for i a
    using that by (auto simp: j intent_of_json_def body_of_intent_def action_of_json_def jget_def getActions_def)
  moreover have "\<exists>a. getActions i = [a]" if "intent_of_json (json_stored j) = Some i" for i
    using that by (auto simp: j intent_of_json_def body_of_intent_def action_of_json_def jget_def getActions_def)
  ultimately show ?thesis by (fastforce simp: swap_intent_def)
qed

text \<open>C15. No swap order of the command line is ever filled: after it is created, from the sugar or from
  JSON, no sequence of creations, cancellations and evaluations, with any answers of the server and
  any transactions, fills it. The verifier has no instruction of type \<open>swap\<close> to match it with, so
  every transaction that the server offers for it is refused.\<close>

theorem swap_order_never_filled:
  assumes "ordersCreate kit input opts w0 = (Inr i, w1)"
    and "kt_parse kit input = Inl e \<or> (\<exists>j. kt_parse kit input = Inr j \<and> swap_intent (json_stored j))"
    and "cli_order_step\<^sup>*\<^sup>* w1 w2"
  shows "length (loadOrders (sw_orders w0)) < length (loadOrders (sw_orders w2))
    \<and> od_status (loadOrders (sw_orders w2) ! length (loadOrders (sw_orders w0))) \<noteq> Filled"
proof -
  let ?k = "length (loadOrders (sw_orders w0))"
  obtain wallet intent p where
    j: "(case kt_parse kit input of Inr j \<Rightarrow> Inr j
       | Inl e \<Rightarrow> sugar_intent (loadConfig (sw_config w0)) wallet input (create_slippage opts) opts) = Inr intent"
    and w1: "sw_orders w1 = addOrder (new_order kit intent (create_slippage opts) p (co_wallet opts)) (sw_orders w0)"
    using ordersCreate_store [OF assms(1)] by auto
  have "swap_intent (json_stored intent)"
    using j assms(2) by (auto dest: sugar_is_swap split: sum.splits)
  then have "unfilled ?k w1"
    by (simp add: unfilled_def w1 addOrder_def new_order_def)
  with assms(3) have "unfilled ?k w2"
    by (induction rule: rtranclp_induct) (auto intro: unfilled_step)
  then show ?thesis by (simp add: unfilled_def)
qed

definition sample_swap :: create_options where
  "sample_swap = \<lparr>co_sell = Some ''1 USDC'', co_buy = Some ''SOL'', co_price = Some ''1'', co_slippage = Some ''1'',
     co_expires = None, co_cooldown = None, co_maxAttempts = None, co_wallet = None\<rparr>"

lemma sample_swap_slippage: "create_slippage sample_swap = Fin 1" "\<not> bad_slippage (Fin 1)"
  by (simp_all add: create_slippage_def sample_swap_def truthy_string_def parse_one bad_slippage_def MAX_SLIPPAGE_def d_less_def)

lemma sample_swap_sugar: "\<exists>j. sugar_intent c wallet ''swap'' (Fin 1) sample_swap = Inr j"
  by (simp add: sugar_intent_def sample_swap_def truthy_string_def split_ws.simps js_eval parseSwapSugar_def sample_swap_slippage
      parse_one positive_amount_def)

lemma sample_swap_policy:
  "order_policy sample_kit sample_swap = Inr \<lparr>po_expiresAt = None, po_cooldown = Some (Fin 60), po_maxAttempts = None, po_recurrence = None\<rparr>"
  by (simp add: order_policy_def sample_swap_def truthy_string_def)

lemma sample_kit_more [simp]: "kt_parse sample_kit s = Inl SyntaxError" "kt_uuid sample_kit = ''U''" "co_wallet sample_swap = None"
  by (simp_all add: sample_kit_def sample_swap_def)

lemma sample_swap_created:
  "\<exists>w1 x. ordersCreate sample_kit ''swap'' sample_swap (sample_world None) = (Inr ''U'', w1)
     \<and> sw_orders w1 = Some [x] \<and> sw_config w1 = sw_config (sample_world None) \<and> po_recurrence (od_policy x) = None"
proof -
  let ?w = "sample_world None :: unit sdk_world"
  let ?wl = "\<lparr>wl_label = ''main'', wl_address = ''W'', wl_privateKey = ''K''\<rparr>"
  obtain j where "sugar_intent (loadConfig (sw_config ?w)) ?wl ''swap'' (Fin 1) sample_swap = Inr j"
    using sample_swap_sugar by blast
  moreover have "sw_orders ?w = None" by (simp add: sample_world_def)
  ultimately show ?thesis
    using sample_wallet [of None]
    by (simp add: ordersCreate_def with_wallet_def andThen_def lift_def get_config_def put_order_def ret_def Let_def
        sample_swap_slippage sample_swap_policy new_order_def stored_policy_def addOrder_def saveOrders_def loadOrders_def)
qed

theorem swap_order_never_filled_witness:
  "\<exists>w1 w2. ordersCreate sample_kit ''swap'' sample_swap (sample_world None) = (Inr ''U'', w1) \<and> cli_order_step w1 w2
     \<and> loadOrders (sw_orders w2) \<noteq> [] \<and> od_status (hd (loadOrders (sw_orders w2))) \<noteq> Filled"
proof -
  let ?w = "sample_world None :: unit sdk_world"
  obtain w1 x where c: "ordersCreate sample_kit ''swap'' sample_swap ?w = (Inr ''U'', w1)" and o1: "sw_orders w1 = Some [x]"
    and r: "po_recurrence (od_policy x) = None"
    using sample_swap_created by blast
  have "\<exists>q f. ordersEvaluate (visits x) sample_kit (sample_web3 (one_ix [''A''] ''X'' [])) False None w1 = Some (q, f)"
  proof (cases "getWallet (loadConfig (sw_config w1)) None")
    case (Inr wallet)
    let ?opts = "cli_options sample_kit (sample_web3 (one_ix [''A''] ''X'' [])) False (loadConfig (sw_config w1)) wallet"
    obtain res where "eval_loop (visits x) ?opts (kt_now sample_kit) 0
        \<lparr>es_orders = [x], es_results = [], es_modified = False, es_world = w1\<rparr> = Some res"
      using eval_loop_terminates [of "\<lparr>es_orders = [x], es_results = [], es_modified = False, es_world = w1\<rparr>" 0 "visits x"]
      by (auto simp: work_def bounded_order_def r)
    then show ?thesis using Inr by (cases res) (simp_all add: ordersEvaluate_def evaluateOrders_def o1 loadOrders_def)
  qed (simp add: ordersEvaluate_def)
  then obtain q f where e: "ordersEvaluate (visits x) sample_kit (sample_web3 (one_ix [''A''] ''X'' [])) False None w1 = Some (q, f)"
    by blast
  have step: "cli_order_step w1 (w1\<lparr>sw_orders := f\<rparr>)" by (rule evaluate [OF e]) simp
  have none: "loadOrders (sw_orders ?w) = []" by (simp add: sample_world_def loadOrders_def)
  from swap_order_never_filled [OF c _ r_into_rtranclp [of cli_order_step, OF step]] step c show ?thesis
    by (auto simp: none hd_conv_nth)
qed

end
