(* ===== verification/EndToEnd.thy ===== *)
theory EndToEnd
  imports OrdersCli TransferIndex Auth
begin

text \<open>
  The SDK against the backend: the server of the SDK's commands is the model of the backend's own
  routes, behind the request guard. A request body is read at the parameters that the route
  declares; a transaction travels as the base64 text of its serialisation (\<open>be_serialize\<close>). The
  environments of both sides stay parameters: the chain, the keys and the signer.
\<close>

section \<open>The backend as a server\<close>

record backend_env =
  be_tx :: tx_env
  be_auth :: auth_env
  be_keys :: auth_state
  be_serialize :: "built_tx \<Rightarrow> string"
  be_now :: int
  be_read :: "http_request \<Rightarrow> tx_db \<Rightarrow> axios_failure + json"

text \<open>An HTTP exception as the client's library sees it: the status and the body's members. The body of
  an unexpected error has no \<open>error\<close> member.\<close>

definition failure_of :: "http_error \<Rightarrow> axios_failure" where
  "failure_of e =
     (case e of HttpError st c m \<Rightarrow>
        \<lparr>af_status = Some st, af_error = (if st = 500 then None else Some c), af_message = Some m, af_code = None\<rparr>)"

definition params_of_body :: "json \<Rightarrow> create_params" where
  "params_of_body b =
     \<lparr>cp_sender = or_text (text_field b ''sender'') [], cp_recipient = or_text (text_field b ''recipient'') [],
      cp_amount = (case num_field b ''amount'' of None \<Rightarrow> NaN | Some n \<Rightarrow> n), cp_mint = text_field b ''mint'',
      cp_poolPda = text_field b ''poolPda'', cp_token = text_field b ''token'', cp_memo = text_field b ''memo'',
      cp_claimableAfter = num_field b ''claimableAfter'', cp_claimableUntil = num_field b ''claimableUntil''\<rparr>"

definition ok_data :: "(string \<times> json) list \<Rightarrow> json" where
  "ok_data ms = JsObj [(''ok'', JsBool True), (''data'', JsObj ms)]"

definition create_route :: "backend_env \<Rightarrow> json \<Rightarrow> tx_db \<Rightarrow> (axios_failure + json) \<times> tx_db" where
  "create_route be b db =
     (case createTransfer (be_tx be) (params_of_body b) (be_now be) db of
        (Inl e, db') \<Rightarrow> (Inl (failure_of e), db')
      | (Inr r, db') \<Rightarrow>
          (Inr (ok_data [(''transaction'', JsText (be_serialize be (cr_transaction r))),
             (''transferPda'', JsText (cr_transferPda r)), (''nonce'', JsText (int_str (cr_nonce r))),
             (''message'', JsText ''Sign and submit via POST /api/tx/submit'')]), db'))"

definition submit_route :: "backend_env \<Rightarrow> json \<Rightarrow> tx_db \<Rightarrow> (axios_failure + json) \<times> tx_db" where
  "submit_route be b db =
     (case submitTx (be_tx be) (text_field b ''signedTx'') db of
        (Inl e, db') \<Rightarrow> (Inl (failure_of e), db')
      | (Inr txid, db') \<Rightarrow> (Inr (ok_data [(''txid'', JsText txid)]), db'))"

text \<open>The two routes that write, and the routes that only read (\<open>be_read\<close>), behind the guard.\<close>

definition serve :: "backend_env \<Rightarrow> http_request \<Rightarrow> tx_db \<Rightarrow> (axios_failure + json) \<times> tx_db" where
  "serve be r db =
     (case canActivate (be_auth be) False (rq_authorization r) (be_keys be) of
        Inl e \<Rightarrow> (Inl (failure_of e), db)
      | Inr agent \<Rightarrow>
          if rq_method r = ''POST'' \<and> rq_path r = ''/api/tx/create-transfer'' then create_route be (rq_body r) db
          else if rq_method r = ''POST'' \<and> rq_path r = ''/api/tx/submit'' then submit_route be (rq_body r) db
          else (be_read be r db, db))"

section \<open>A payment, from the command to the database\<close>

lemma or_text_same [simp]: "or_text (Some s) [] = s"
  by (simp add: or_text_def truthy_string_def)

lemma pay_params:
  "params_of_body (create_body a t n memo) = \<lparr>cp_sender = a, cp_recipient = t, cp_amount = n, cp_mint = None, cp_poolPda = None,
     cp_token = Some ''usdc'', cp_memo = Some (or_text memo []), cp_claimableAfter = None, cp_claimableUntil = None\<rparr>"
  by (simp add: params_of_body_def create_body_def text_field_def num_field_def as_text_def jget_def)

lemma serve_get: "snd (serve be (request_of client ''GET'' path b) db) = db"
  by (simp add: serve_def request_of_def split: sum.split)

lemma serve_create:
  assumes "serve be (request_of client ''POST'' ''/api/tx/create-transfer'' b) db = (Inr built, db')"
  shows "\<exists>c. createTransfer (be_tx be) (params_of_body b) (be_now be) db = (Inr c, db')
    \<and> data_member built ''transaction'' = Inr (Some (JsText (be_serialize be (cr_transaction c))))
    \<and> data_member built ''transferPda'' = Inr (Some (JsText (cr_transferPda c)))"
  using assms
  by (auto simp: serve_def request_of_def create_route_def ok_data_def data_member_def member_def jget_def
      split: sum.splits prod.splits if_splits)

lemma serve_submit:
  assumes "serve be (request_of client ''POST'' ''/api/tx/submit'' (JsObj [(''signedTx'', JsText t)])) db = (Inr d, db')"
  shows "\<exists>txid. submitTx (be_tx be) (Some t) db = (Inr txid, db')"
  using assms
  by (auto simp: serve_def request_of_def submit_route_def text_field_def as_text_def jget_def
      split: sum.splits prod.splits if_splits)

text \<open>C5. A payment that succeeds against this backend ends with what the user asked for. The escrow
  transaction that the wallet signed and submitted is paid by the wallet, creates a transfer to the
  resolved recipient over the amount in base units with the memo given, and the backend's database
  holds a transfer, under the address that the command reports, from the wallet's address to that
  recipient with exactly the raw amount of the transaction.\<close>

theorem payment_end_to_end:
  assumes "kt_send kit = serve be" and "tx_wf (sw_server w)" and "pay kit recipient amount memo label w = (Inr r, w')"
  shows "\<exists>wallet (c :: create_response) signedTx txid db sender to pool raw row decimals args accounts.
      getWallet (loadConfig (sw_config w)) label = Inr wallet
    \<and> te_pk (be_tx be) (wl_address wallet) = Some sender
    \<and> te_pk (be_tx be) (resolveRecipient recipient (sw_contacts w)) = Some to
    \<and> aw_bn (te_anchor (be_tx be)) (raw_number (parseFloat amount) decimals) = Inr raw
    \<and> bt_feePayer (cr_transaction c) = sender
    \<and> bt_ix (cr_transaction c) = \<lparr>ax_method = ''createTransfer'',
        ax_args = [APub to, AInt (cr_nonce c), AInt raw, AText (or_text memo [])] @ args,
        ax_accounts = [(''sender'', sender), (''pool'', pool)] @ accounts\<rparr>
    \<and> kt_sign kit (wl_privateKey wallet) (be_serialize be (cr_transaction c)) = Inr signedTx
    \<and> submitTx (be_tx be) (Some signedTx) db = (Inr txid, sw_server w')
    \<and> pr_transferPda r = Some (JsText (cr_transferPda c))
    \<and> find_row tr_pda (cr_transferPda c) (db_transfers (sw_server w)) = None
    \<and> find_row tr_pda (cr_transferPda c) (db_transfers (sw_server w')) = Some row
    \<and> tr_sender row = wl_address wallet \<and> tr_recipient row = resolveRecipient recipient (sw_contacts w)
    \<and> tr_amountRaw row = int_str raw"
proof -
  let ?client = "client_of kit (loadConfig (sw_config w))" let ?t = "resolveRecipient recipient (sw_contacts w)"
  from pay_exchanges [OF assms(3)] obtain wallet w1 built w2 s signedTx d d2 pda where
    w: "getWallet (loadConfig (sw_config w)) label = Inr wallet"
    and x: "exchanged kit (request_of ?client ''GET'' (''/api/wallet/'' @ wl_address wallet @ ''/balance'') JsNull) (Inr d) w w1"
      "exchanged kit (request_of ?client ''POST'' ''/api/tx/create-transfer''
        (create_body (wl_address wallet) ?t (parseFloat amount) memo)) (Inr built) w1 w2"
      "exchanged kit (request_of ?client ''POST'' ''/api/tx/submit'' (JsObj [(''signedTx'', JsText signedTx)])) (Inr d2) w2 w'"
    and s: "data_member built ''transaction'' = Inr (Some (JsText s))" "data_member built ''transferPda'' = Inr pda"
      "kt_sign kit (wl_privateKey wallet) s = Inr signedTx" "pr_transferPda r = pda"
    unfolding Let_def by blast
  have db1: "sw_server w1 = sw_server w"
    using x(1) serve_get [of be ?client] unfolding exchanged_def assms(1) by (metis snd_conv)
  have "serve be (request_of ?client ''POST'' ''/api/tx/create-transfer''
      (create_body (wl_address wallet) ?t (parseFloat amount) memo)) (sw_server w) = (Inr built, sw_server w2)"
    using x(2) by (simp add: exchanged_def assms(1) db1)
  from serve_create [OF this] obtain c where
    c: "createTransfer (be_tx be) (params_of_body (create_body (wl_address wallet) ?t (parseFloat amount) memo)) (be_now be) (sw_server w)
      = (Inr c, sw_server w2)" and built: "s = be_serialize be (cr_transaction c)" "pda = Some (JsText (cr_transferPda c))"
    using s by auto
  have "serve be (request_of ?client ''POST'' ''/api/tx/submit'' (JsObj [(''signedTx'', JsText signedTx)])) (sw_server w2)
      = (Inr d2, sw_server w')"
    using x(3) by (simp add: exchanged_def assms(1))
  from serve_submit [OF this] obtain txid where t: "submitTx (be_tx be) (Some signedTx) (sw_server w2) = (Inr txid, sw_server w')"
    by blast
  from create_consistent [OF c [unfolded pay_params], unfolded create_params.simps option.case] obtain sender to pool raw decimals row args accounts where
    k: "te_pk (be_tx be) (wl_address wallet) = Some sender" "te_pk (be_tx be) ?t = Some to"
      "aw_bn (te_anchor (be_tx be)) (raw_number (parseFloat amount) decimals) = Inr raw"
      "bt_feePayer (cr_transaction c) = sender"
      "bt_ix (cr_transaction c) = \<lparr>ax_method = ''createTransfer'',
        ax_args = [APub to, AInt (cr_nonce c), AInt raw, AText (or_text memo [])] @ args,
        ax_accounts = [(''sender'', sender), (''pool'', pool)] @ accounts\<rparr>"
      "find_row tr_pda (cr_transferPda c) (db_transfers (sw_server w)) = None"
    and row: "find_row tr_pda (cr_transferPda c) (db_transfers (sw_server w2)) = Some row"
      "tr_sender row = wl_address wallet" "tr_recipient row = ?t" "tr_amountRaw row = int_str raw"
    by blast
  have wf: "tx_wf (sw_server w2)" using create_step [OF c] assms(2) by (simp add: sound_step_def)
  obtain row' where row': "find_row tr_pda (cr_transferPda c) (db_transfers (sw_server w')) = Some row'" "row_kept row row'"
    using submit_step [OF t] wf row(1) unfolding sound_step_def grows_def by blast
  have "tr_sender row' = wl_address wallet" "tr_recipient row' = ?t" "tr_amountRaw row' = int_str raw"
    using row'(2) row by (simp_all add: row_kept_def terms_of_def)
  with w k s(3,4) built t row'(1) show ?thesis
    by - (rule exI [of _ wallet], rule exI [of _ c], rule exI [of _ signedTx], rule exI [of _ txid],
      rule exI [of _ "sw_server w2"], rule exI [of _ sender], rule exI [of _ to], rule exI [of _ pool],
      rule exI [of _ raw], rule exI [of _ row'], rule exI [of _ decimals], rule exI [of _ args], rule exI [of _ accounts], simp)
qed

section \<open>A concrete shop\<close>

definition shop_env :: backend_env where
  "shop_env = \<lparr>be_tx = sample_tx_env, be_auth = sample_env, be_keys = sample_keys, be_serialize = (\<lambda>t. ''T''), be_now = 5,
     be_read = (\<lambda>r db. Inr (ok_data []))\<rparr>"

definition shop_token :: token_row where
  "shop_token = \<lparr>tok_mint = ''mint'', tok_name = ''USD Coin'', tok_symbol = ''usdc'', tok_decimals = 6\<rparr>"

definition shop_db :: tx_db where
  "shop_db = \<lparr>db_tokens = [shop_token], db_pools = [sample_pool], db_transfers = [], db_silk = empty_silk_db\<rparr>"

definition shop_kit :: "tx_db sdk_kit" where
  "shop_kit = \<lparr>kt_send = serve shop_env, kt_is_key = (\<lambda>s. True), kt_sign = (\<lambda>k t. Inr (k @ t)),
     kt_sign_nonce = (\<lambda>k n. Inr n), kt_date = (\<lambda>j. None), kt_number = (\<lambda>s. NaN), kt_parse = (\<lambda>s. Inl SyntaxError),
     kt_iso = int_str, kt_now = 0, kt_envUrl = None, kt_envKey = None, kt_keypair = (''W'', ''K''), kt_uuid = ''U''\<rparr>"

definition shop_config :: sdk_config where
  "shop_config = (add_wallet ''main'' (''W'', ''K'') defaultConfig)\<lparr>cf_apiKey := Some ''sw_''\<rparr>"

definition shop_world :: "tx_db sdk_world" where
  "shop_world = \<lparr>sw_config = Some shop_config, sw_contacts = None, sw_orders = None, sw_server = shop_db, sw_sent = []\<rparr>"

lemma shop_wf: "tx_wf shop_db"
  by (simp add: tx_wf_def shop_db_def shop_token_def sample_pool_def unique_on_def pools.all_rows_def transfers.all_rows_def
      has_token_def find_row_def silk_wf_def empty_silk_db_def)

lemma shop_guard: "canActivate sample_env False (Some ''Bearer sw_'') sample_keys = Inr (Some ''alice'')"
  by (simp add: canActivate_def bearer_def startsWith_iff validateKey_def sample_env_def sample_keys_def find_row_def)

definition shop_client :: http_client where
  "shop_client = client_of shop_kit shop_config"

lemma shop_authorized: "rq_authorization (request_of shop_client m p b) = Some ''Bearer sw_''"
  by (simp add: shop_client_def client_of_def request_of_def createHttpClient_def getApiKey_def shop_config_def shop_kit_def
      truthy_string_def)

lemma shop_read: "serve shop_env (request_of shop_client ''GET'' p b) db = (Inr (ok_data []), db)"
  using shop_authorized [of "''GET''" p b] by (simp add: serve_def shop_env_def shop_guard) (simp add: request_of_def)

lemma shop_raw: "raw_number (Fin 1) 6 = Fin 1000000"
  using num_of_int_exact [of 1000000] by (simp add: raw_number_def d_mul_def num_of_int_def)

definition shop_params :: create_params where
  "shop_params = params_of_body (create_body ''W'' ''bob'' (Fin 1) None)"

lemma shop_params_simps:
  "cp_sender shop_params = ''W''" "cp_recipient shop_params = ''bob''" "cp_amount shop_params = Fin 1" "cp_mint shop_params = None"
  "cp_poolPda shop_params = None" "cp_token shop_params = Some ''usdc''" "cp_memo shop_params = Some []"
  "cp_claimableAfter shop_params = None" "cp_claimableUntil shop_params = None"
  by (simp_all add: shop_params_def pay_params or_text_def truthy_string_def)

lemma shop_create: "\<exists>c db. createTransfer sample_tx_env shop_params 5 shop_db = (Inr c, db)"
proof -
  have g: "create_guard sample_tx_env shop_params = None"
    by (simp add: create_guard_def validatePubkey_def check_optional_def given_def d_truthy_def d_le_def d_less_def shop_params_simps)
  have p: "create_pool_pda sample_tx_env shop_params shop_db = Inr ''pool''"
    by (simp add: create_pool_pda_def shop_params_simps given_def resolvePool_def pool_of_token_def shop_db_def sample_tx_env_def
        shop_token_def sample_pool_def new_PublicKey_def)
  obtain tx where tx: "build_create_ix sample_tx_env shop_params ''W'' ''bob'' ''pool'' 5 1000000 = Inr (''pda'', tx)"
    by (simp add: build_create_ix_def getCreateTransferIx_def findTransferPda_def bind_result_def or_zero_def shop_params_simps Let_def)
  have t: "getOrCreateToken sample_tx_env ''mint'' shop_db = (Inr shop_token, shop_db)"
    by (simp add: getOrCreateToken_def shop_db_def shop_token_def find_row_def)
  obtain db where st: "store_pending sample_tx_env shop_params ''pda'' ''pool'' 1000000 shop_token shop_db = (Inr (), db)"
    by (simp add: store_pending_def find_or_ensure_pool_def shop_db_def sample_pool_def find_row_def persist_row_def pending_row_def)
  have "tok_decimals shop_token = 6" by (simp add: shop_token_def)
  then have "\<exists>c. buildCreateTransfer sample_tx_env shop_params 5 shop_db = (Inr c, db)"
    by (simp add: buildCreateTransfer_def bind_result_def shop_params_simps p fetchPool_def t shop_raw sample_numbers tx st)
  then show ?thesis by (auto simp: createTransfer_def g)
qed

lemma shop_made:
  "\<exists>built db. serve shop_env (request_of shop_client ''POST'' ''/api/tx/create-transfer'' (create_body ''W'' ''bob'' (Fin 1) None)) shop_db
     = (Inr built, db) \<and> data_member built ''transaction'' = Inr (Some (JsText ''T''))
     \<and> (\<exists>pda. data_member built ''transferPda'' = Inr pda)"
proof -
  obtain c db where "createTransfer sample_tx_env shop_params 5 shop_db = (Inr c, db)" using shop_create by blast
  then have "create_route shop_env (create_body ''W'' ''bob'' (Fin 1) None) shop_db =
      (Inr (ok_data [(''transaction'', JsText ''T''), (''transferPda'', JsText (cr_transferPda c)), (''nonce'', JsText (int_str (cr_nonce c))),
         (''message'', JsText ''Sign and submit via POST /api/tx/submit'')]), db)"
    by (simp add: create_route_def shop_env_def flip: shop_params_def)
  then show ?thesis
    using shop_authorized [of "''POST''" "''/api/tx/create-transfer''" "create_body ''W'' ''bob'' (Fin 1) None"] shop_guard
    by (simp add: serve_def) (simp add: shop_env_def request_of_def ok_data_def data_member_def member_def jget_def)
qed

lemma shop_submitted:
  "\<exists>d db'. serve shop_env (request_of shop_client ''POST'' ''/api/tx/submit'' (JsObj [(''signedTx'', JsText ''KT'')])) db = (Inr d, db')
     \<and> (\<exists>x. data_member d ''txid'' = Inr x)"
proof -
  have "submitTx sample_tx_env (Some ''KT'') db = (Inr ''KT'', indexFromTx sample_tx_env ''KT'' db)"
    by (simp add: submitTx_def given_def submitSignedTx_def send_tx_def sample_tx_env_def bind_result_def)
  then have "submit_route shop_env (JsObj [(''signedTx'', JsText ''KT'')]) db
      = (Inr (ok_data [(''txid'', JsText ''KT'')]), indexFromTx sample_tx_env ''KT'' db)"
    by (simp add: submit_route_def shop_env_def text_field_def as_text_def jget_def)
  then show ?thesis
    using shop_authorized [of "''POST''" "''/api/tx/submit''" "JsObj [(''signedTx'', JsText ''KT'')]"] shop_guard
    by (simp add: serve_def) (simp add: shop_env_def request_of_def ok_data_def data_member_def member_def jget_def)
qed

lemma send_run:
  assumes "kt_send kit (request_of client m p b) (sw_server w) = (Inr d, db')"
  shows "\<exists>w'. send_request kit client m p b w = (Inr d, w') \<and> sw_server w' = db'"
  using assms by (simp add: send_request_def request_of_def)

lemma shop_pay: "\<exists>r w'. pay shop_kit ''bob'' ''1'' None None shop_world = (Inr r, w')"
proof -
  have s: "kt_send shop_kit = serve shop_env" by (simp add: shop_kit_def)
  have c: "loadConfig (sw_config shop_world) = shop_config" by (simp add: shop_world_def loadConfig_def)
  have g: "getWallet shop_config None = Inr \<lparr>wl_label = ''main'', wl_address = ''W'', wl_privateKey = ''K''\<rparr>"
    by (simp add: shop_config_def add_wallet_def defaultConfig_def getWallet_def or_text_def truthy_string_def find_wallet_def)
  have db: "sw_server shop_world = shop_db" by (simp add: shop_world_def)
  have b: "check_balance n (ok_data []) = Inr ()" for n
    by (simp add: check_balance_def ok_data_def opt_member_def jget_def j_truthy_def)
  obtain w1 where w1: "send_request shop_kit shop_client ''GET'' ''/api/wallet/W/balance'' JsNull shop_world = (Inr (ok_data []), w1)"
    "sw_server w1 = shop_db"
    using send_run [of shop_kit shop_client "''GET''" "''/api/wallet/W/balance''" JsNull shop_world "ok_data []" shop_db] shop_read
    by (auto simp: s db)
  have n: "validateAmount ''1'' = Inr (Fin 1)" by (simp add: validateAmount_def parse_one d_less_def d_le_def)
  have v: "validatePay shop_kit shop_client ''bob'' ''1'' ''W'' shop_world = (Inr (Fin 1), w1)"
    by (simp add: validatePay_def validateAddress_def shop_kit_def n andThen_run lift_run)
      (simp add: balance_guard_def catch_def http_get_def andThen_def lift_def ret_def b flip: shop_kit_def, simp add: w1 b lift_def ret_def)
  obtain built db2 pda where m: "serve shop_env (request_of shop_client ''POST'' ''/api/tx/create-transfer''
      (create_body ''W'' ''bob'' (Fin 1) None)) shop_db = (Inr built, db2)"
    and built: "data_member built ''transaction'' = Inr (Some (JsText ''T''))" "data_member built ''transferPda'' = Inr pda"
    using shop_made by blast
  obtain w2 where w2: "http_post shop_kit shop_client ''/api/tx/create-transfer'' (create_body ''W'' ''bob'' (Fin 1) None) w1 = (Inr built, w2)"
    "sw_server w2 = db2"
    using send_run [of shop_kit shop_client "''POST''" _ _ w1 built db2] m by (auto simp: s w1(2) http_post_def)
  obtain d db3 x where u: "serve shop_env (request_of shop_client ''POST'' ''/api/tx/submit'' (JsObj [(''signedTx'', JsText ''KT'')])) db2
      = (Inr d, db3)" "data_member d ''txid'' = Inr x"
    using shop_submitted by blast
  obtain w3 where w3: "http_post shop_kit shop_client ''/api/tx/submit'' (JsObj [(''signedTx'', JsText ''KT'')]) w2 = (Inr d, w3)"
    using send_run [of shop_kit shop_client "''POST''" "''/api/tx/submit''" "JsObj [(''signedTx'', JsText ''KT'')]" w2 d db3] u
    by (auto simp: s w2(2) http_post_def)
  have sg: "sign_tx shop_kit \<lparr>wl_label = ''main'', wl_address = ''W'', wl_privateKey = ''K''\<rparr> (Some (JsText ''T'')) = Inr ''KT''"
    by (simp add: sign_tx_def as_text_def shop_kit_def)
  have contacts: "resolveRecipient ''bob'' (sw_contacts shop_world) = ''bob''"
    by (simp add: shop_world_def resolveRecipient_def getContact_def loadContacts_def)
  show ?thesis
    using c by (simp add: pay_def with_wallet_def andThen_run get_config_def lift_run g pay_from_def Let_def contacts
        v w2 w3 built sg u submit_tx_def ret_def flip: shop_client_def)
qed

theorem payment_end_to_end_witness:
  "\<exists>r w' row pda. pay shop_kit ''bob'' ''1'' None None shop_world = (Inr r, w') \<and> pr_transferPda r = Some (JsText pda)
     \<and> find_row tr_pda pda (db_transfers (sw_server w')) = Some row \<and> tr_sender row = ''W'' \<and> tr_recipient row = ''bob''"
proof -
  obtain r w' where p: "pay shop_kit ''bob'' ''1'' None None shop_world = (Inr r, w')" using shop_pay by blast
  have "kt_send shop_kit = serve shop_env" "tx_wf (sw_server shop_world)" by (simp_all add: shop_kit_def shop_world_def shop_wf)
  from payment_end_to_end [OF this p] show ?thesis using p
    by (auto simp: shop_world_def loadConfig_def shop_config_def add_wallet_def defaultConfig_def getWallet_def or_text_def truthy_string_def
        find_wallet_def resolveRecipient_def getContact_def loadContacts_def)
qed

end
