(* ===== verification/Chat.thy ===== *)
theory Chat
  imports Http Json
begin

text \<open>
  The support chat of the backend: \<^verbatim>\<open>chat.service.ts\<close> with its sessions in memory,
  \<^verbatim>\<open>chat.controller.ts\<close>, and the alternative \<^verbatim>\<open>chat.service.openclaw.ts\<close>. A session is an object
  that a call keeps while it waits for the model, so the sessions are an explicit heap: the map of
  the service holds references into it. The model is the parameter \<open>ask\<close> (the system prompt and the
  messages to content blocks, over its own world). Lengths are counted on ASCII text.
\<close>

section \<open>Sessions\<close>

datatype role = User | Assistant

type_synonym chat_message = "role \<times> string"

record session =
  ss_messages :: "chat_message list"
  ss_lastAccess :: int

record chat_service =
  ch_systemPrompt :: string
  ch_heap :: "session list"
  ch_sessions :: "nat obj"

type_synonym 'w model = "string \<Rightarrow> chat_message list \<Rightarrow> 'w \<Rightarrow> (js_error + (string \<times> string) list) \<times> 'w"

definition MAX_MESSAGES_PER_SESSION :: nat where
  "MAX_MESSAGES_PER_SESSION = 50"

definition SESSION_TTL_MS :: int where
  "SESSION_TTL_MS = 30 * 60 * 1000"

datatype chat_error = ChatError string string

definition internal_error :: chat_error where
  "internal_error = ChatError ''INTERNAL_ERROR'' ''An unexpected error occurred''"

text \<open>Pairs from the front while there are too many.\<close>

fun trim_pairs :: "'a list \<Rightarrow> 'a list" where
  "trim_pairs ms = (if MAX_MESSAGES_PER_SESSION < length ms then trim_pairs (drop 2 ms) else ms)"

declare trim_pairs.simps [simp del]

text \<open>Until the call: the session of the id or a new one (not yet in the map), with the new message.\<close>

definition open_session :: "int \<Rightarrow> string \<Rightarrow> chat_service \<Rightarrow> nat \<times> chat_service" where
  "open_session now i st =
     (case get (ch_sessions st) i of
        Some r \<Rightarrow> (r, st)
      | None \<Rightarrow> (length (ch_heap st), st\<lparr>ch_heap := ch_heap st @ [\<lparr>ss_messages = [], ss_lastAccess = now\<rparr>]\<rparr>))"

definition push_user :: "int \<Rightarrow> string \<Rightarrow> session \<Rightarrow> session" where
  "push_user now m s = s\<lparr>ss_lastAccess := now, ss_messages := trim_pairs (ss_messages s @ [(User, m)])\<rparr>"

definition begin_message :: "int \<Rightarrow> string \<Rightarrow> string \<Rightarrow> chat_service \<Rightarrow> nat \<times> chat_service" where
  "begin_message now i m st =
     (let (r, st1) = open_session now i st
      in (r, st1\<lparr>ch_heap := (ch_heap st1)[r := push_user now m (ch_heap st1 ! r)]\<rparr>))"

text \<open>After the call: the text blocks are the answer; an empty one is an error.\<close>

definition answer_text :: "(string \<times> string) list \<Rightarrow> string" where
  "answer_text content = concat (map snd (filter (\<lambda>b. fst b = ''text'') content))"

definition push_assistant :: "string \<Rightarrow> session \<Rightarrow> session" where
  "push_assistant t s = s\<lparr>ss_messages := ss_messages s @ [(Assistant, t)]\<rparr>"

definition finish_message ::
    "string \<Rightarrow> nat \<Rightarrow> (js_error + (string \<times> string) list) \<Rightarrow> chat_service \<Rightarrow> (chat_error + string) \<times> chat_service" where
  "finish_message i r answer st =
     (case answer of
        Inl e \<Rightarrow> (Inl internal_error, st)
      | Inr content \<Rightarrow>
          let t = answer_text content in
          if t = [] then (Inl internal_error, st)
          else (Inr t, st\<lparr>ch_heap := (ch_heap st)[r := push_assistant t (ch_heap st ! r)],
                          ch_sessions := put (ch_sessions st) i r\<rparr>))"

definition sendMessage ::
    "'w model \<Rightarrow> int \<Rightarrow> string \<Rightarrow> string \<Rightarrow> chat_service \<times> 'w \<Rightarrow> (chat_error + string) \<times> chat_service \<times> 'w" where
  "sendMessage ask now i m s =
     (let (st, w) = s;
          (r, st1) = begin_message now i m st;
          (answer, w1) = ask (ch_systemPrompt st1) (ss_messages (ch_heap st1 ! r)) w;
          (res, st2) = finish_message i r answer st1
      in (res, st2, w1))"

definition evictExpiredSessions :: "int \<Rightarrow> chat_service \<Rightarrow> chat_service" where
  "evictExpiredSessions now st =
     st\<lparr>ch_sessions := filter (\<lambda>(i, r). \<not> SESSION_TTL_MS < now - ss_lastAccess (ch_heap st ! r)) (ch_sessions st)\<rparr>"

section \<open>The system prompt\<close>

fun find_sub :: "string \<Rightarrow> string \<Rightarrow> nat option" where
  "find_sub p [] = (if p = [] then Some 0 else None)"
| "find_sub p (c # s) = (if startsWith (c # s) p then Some 0 else map_option Suc (find_sub p s))"

text \<open>\<open>/^---[\s\S]*?---\n*/\<close>: the front matter of the file.\<close>

definition strip_frontmatter :: "string \<Rightarrow> string" where
  "strip_frontmatter raw =
     (if \<not> startsWith raw ''---'' then raw
      else case find_sub ''---'' (drop 3 raw) of
        None \<Rightarrow> raw
      | Some k \<Rightarrow> dropWhile (\<lambda>c. c = CHR 0x0A) (drop (k + 6) raw))"

text \<open>The lookahead: a new section, or the line end of the file.\<close>

fun section_end :: "string \<Rightarrow> nat option" where
  "section_end [] = None"
| "section_end (c # s) =
     (if startsWith (c # s) (CHR 0x0A # ''## '') \<or> (c = CHR 0x0A \<and> s = []) then Some 0
      else map_option Suc (section_end s))"

definition strip_chat_section :: "string \<Rightarrow> string" where
  "strip_chat_section s =
     (let p = ''### POST /chat'' in
      case find_sub p s of
        None \<Rightarrow> s
      | Some k \<Rightarrow> (case section_end (drop (k + length p) s) of
            None \<Rightarrow> s
          | Some n \<Rightarrow> take k s @ drop (k + length p + n) s))"

definition system_prompt :: "string \<Rightarrow> string option \<Rightarrow> string option \<Rightarrow> string" where
  "system_prompt fallback behavioral skill =
     (let knowledge = map_option (\<lambda>raw. strip_chat_section (strip_frontmatter raw)) skill in
      case (given behavioral, given knowledge) of
        (Some b, Some k) \<Rightarrow> b @ [CHR 0x0A, CHR 0x0A] @ k
      | (Some b, None) \<Rightarrow> b
      | (None, _) \<Rightarrow> fallback)"

definition start_chat :: "string option \<Rightarrow> string option \<Rightarrow> chat_service" where
  "start_chat behavioral skill =
     \<lparr>ch_systemPrompt = system_prompt ''You are a helpful assistant for SilkyWay.'' behavioral skill, ch_heap = [], ch_sessions = []\<rparr>"

section \<open>The route\<close>

definition is_hex :: "char \<Rightarrow> bool" where
  "is_hex c = (c \<in> set ''0123456789abcdefABCDEF'')"

definition uuid_class :: "char \<Rightarrow> char \<Rightarrow> bool" where
  "uuid_class p c =
     (if p = CHR ''x'' then is_hex c else if p = CHR ''y'' then c \<in> set ''89abAB'' else c = p)"

definition is_uuid_v4 :: "string \<Rightarrow> bool" where
  "is_uuid_v4 s = list_all2 uuid_class ''xxxxxxxx-xxxx-4xxx-yxxx-xxxxxxxxxxxx'' s"

definition MAX_MESSAGE_LENGTH :: nat where
  "MAX_MESSAGE_LENGTH = 10000"

definition check_chat :: "string option \<Rightarrow> string option \<Rightarrow> http_error + string \<times> string" where
  "check_chat agentId message =
     (case given agentId of
        None \<Rightarrow> Inl (BadRequest ''INVALID_AGENT_ID'' ''agentId is required'')
      | Some i \<Rightarrow>
          if \<not> is_uuid_v4 i then Inl (BadRequest ''INVALID_AGENT_ID'' ''agentId must be a valid UUID'')
          else case given message of
            None \<Rightarrow> Inl (BadRequest ''INVALID_MESSAGE'' ''message is required'')
          | Some m \<Rightarrow>
              if trim m = [] then Inl (BadRequest ''INVALID_MESSAGE'' ''message is required'')
              else if MAX_MESSAGE_LENGTH < length m
              then Inl (BadRequest ''INVALID_MESSAGE'' ''message must be 10000 characters or fewer'')
              else Inr (i, m))"

definition chat_failure :: "chat_error \<Rightarrow> http_error" where
  "chat_failure e =
     (case e of ChatError c m \<Rightarrow>
        if c = ''OPENCLAW_UNAVAILABLE''
        then HttpError 503 ''OPENCLAW_UNAVAILABLE'' ''Support chat is temporarily unavailable''
        else HttpError 500 ''INTERNAL_ERROR'' ''An unexpected error occurred'')"

definition chat_route ::
    "(string \<Rightarrow> string \<Rightarrow> 's \<Rightarrow> (chat_error + string) \<times> 's) \<Rightarrow> string option \<Rightarrow> string option \<Rightarrow> 's
       \<Rightarrow> (http_error + string \<times> string) \<times> 's" where
  "chat_route service agentId message s =
     (case check_chat agentId message of
        Inl e \<Rightarrow> (Inl e, s)
      | Inr (i, m) \<Rightarrow>
          (case service i m s of
             (Inl e, s') \<Rightarrow> (Inl (chat_failure e), s')
           | (Inr answer, s') \<Rightarrow> (Inr (answer, i), s')))"

section \<open>The alternative service\<close>

text \<open>\<open>oc_exec\<close> runs a shell command (the failure is the \<open>code\<close> of the error), \<open>oc_parse\<close> is
  \<open>JSON.parse\<close>.\<close>

record 'w openclaw =
  oc_exec :: "string \<Rightarrow> 'w \<Rightarrow> (string option + string) \<times> 'w"
  oc_parse :: "string \<Rightarrow> json result"
  oc_agentId :: string

fun escape_quotes :: "string \<Rightarrow> string" where
  "escape_quotes [] = []"
| "escape_quotes (c # s) = (if c = CHR 0x27 then [CHR 0x27, CHR 0x5C, CHR 0x27, CHR 0x27] else [c]) @ escape_quotes s"

definition escapeShellArg :: "string \<Rightarrow> string" where
  "escapeShellArg arg = CHR 0x27 # escape_quotes arg @ [CHR 0x27]"

definition openclaw_command :: "'w openclaw \<Rightarrow> string \<Rightarrow> string \<Rightarrow> string" where
  "openclaw_command oc i m =
     ''openclaw agent --message '' @ escapeShellArg m @ '' --agent '' @ escapeShellArg (oc_agentId oc)
       @ '' --session-id '' @ escapeShellArg i @ '' --json''"

definition openclaw_text :: "'w openclaw \<Rightarrow> string \<Rightarrow> chat_error + string" where
  "openclaw_text oc stdout =
     (case find_sub ''{'' stdout of
        None \<Rightarrow> Inl internal_error
      | Some k \<Rightarrow>
          (case oc_parse oc (drop k stdout) of
             Inl e \<Rightarrow> Inl internal_error
           | Inr j \<Rightarrow>
               (case opt_member (opt_member (Some j) ''result'') ''payloads'' of
                  Some (JsArr (p # ps)) \<Rightarrow>
                    (case given (as_text (opt_member (Some p) ''text'')) of None \<Rightarrow> Inl internal_error | Some t \<Rightarrow> Inr t)
                | _ \<Rightarrow> Inl internal_error)))"

definition openclaw_send :: "'w openclaw \<Rightarrow> string \<Rightarrow> string \<Rightarrow> 'w \<Rightarrow> (chat_error + string) \<times> 'w" where
  "openclaw_send oc i m w =
     (case oc_exec oc (openclaw_command oc i m) w of
        (Inl c, w') \<Rightarrow>
          (Inl (if c = Some ''ENOENT'' \<or> c = Some ''ETIMEDOUT''
                then ChatError ''OPENCLAW_UNAVAILABLE'' ''Support chat is temporarily unavailable'' else internal_error), w')
      | (Inr stdout, w') \<Rightarrow> (openclaw_text oc stdout, w'))"

section \<open>The roles of a conversation\<close>

text \<open>One call by its roles: the message is pushed, pairs are dropped, an answer is appended.\<close>

definition role_call :: "role list \<Rightarrow> role list" where
  "role_call rs = trim_pairs (rs @ [User])"

definition role_send :: "bool \<Rightarrow> role list \<Rightarrow> role list" where
  "role_send ok rs = (if ok then role_call rs @ [Assistant] else role_call rs)"

definition roles :: "session \<Rightarrow> role list" where
  "roles s = map fst (ss_messages s)"

lemma map_trim_pairs: "map f (trim_pairs ms) = trim_pairs (map f ms)"
proof (induction ms rule: trim_pairs.induct)
  case (1 ms)
  then show ?case by (subst (1 2) trim_pairs.simps) (simp add: drop_map)
qed

lemma trim_pairs_last: "ms \<noteq> [] \<Longrightarrow> trim_pairs ms \<noteq> [] \<and> last (trim_pairs ms) = last ms"
proof (induction ms rule: trim_pairs.induct)
  case (1 ms)
  show ?case
  proof (cases "MAX_MESSAGES_PER_SESSION < length ms")
    case True
    then have "drop 2 ms \<noteq> []" by (auto simp: MAX_MESSAGES_PER_SESSION_def)
    with True 1 show ?thesis by (subst (1 2) trim_pairs.simps) (auto simp: MAX_MESSAGES_PER_SESSION_def)
  qed (use 1 in \<open>simp add: trim_pairs.simps\<close>)
qed

lemma length_trim_pairs: "length (trim_pairs ms) \<le> MAX_MESSAGES_PER_SESSION"
  by (induction ms rule: trim_pairs.induct) (subst trim_pairs.simps, simp)

lemma roles_push: "roles (push_user now m s) = role_call (roles s)" "roles (push_assistant t s) = roles s @ [Assistant]"
  by (simp_all add: roles_def push_user_def push_assistant_def role_call_def map_trim_pairs)

text \<open>Sending on one session, by references.\<close>

definition at_session :: "chat_service \<Rightarrow> string \<Rightarrow> nat \<Rightarrow> bool" where
  "at_session st i r \<longleftrightarrow> get (ch_sessions st) i = Some r \<and> r < length (ch_heap st)"

lemma send_existing:
  assumes "at_session st i r" and "sendMessage ask now i m (st, w) = (res, st', w')"
  shows "at_session st' i r \<and> roles (ch_heap st' ! r) = role_send (\<not> isl res) (roles (ch_heap st ! r))
    \<and> ch_systemPrompt st' = ch_systemPrompt st
    \<and> (\<forall>e. fst (ask (ch_systemPrompt st) (ss_messages (push_user now m (ch_heap st ! r))) w) = Inl e \<longrightarrow> res = Inl internal_error)"
  using assms
  by (auto simp: sendMessage_def begin_message_def open_session_def finish_message_def at_session_def roles_push
      role_send_def Let_def get_put split: prod.splits sum.splits if_splits)

fun sends :: "'w model \<Rightarrow> string \<Rightarrow> (int \<times> string) list \<Rightarrow> chat_service \<times> 'w \<Rightarrow> (chat_error + string) list \<times> chat_service \<times> 'w" where
  "sends ask i [] s = ([], s)"
| "sends ask i ((now, m) # qs) s =
     (let (res, s1) = sendMessage ask now i m s; (rest, s2) = sends ask i qs s1 in (res # rest, s2))"

section \<open>A failed call misaligns a conversation\<close>

lemma sends_length: "sends ask i qs s = (rs, s') \<Longrightarrow> length rs = length qs"
  by (induction qs arbitrary: s rs) (auto split: prod.splits)

lemma sends_roles:
  assumes "at_session st i r" and "sends ask i qs (st, w) = (rs, st', w')"
  shows "at_session st' i r \<and> roles (ch_heap st' ! r) = foldl (\<lambda>rs x. role_send (\<not> isl x) rs) (roles (ch_heap st ! r)) rs"
  using assms
proof (induction qs arbitrary: st w rs)
  case (Cons q qs)
  obtain now m where q: "q = (now, m)" by fastforce
  obtain res st1 w1 where one: "sendMessage ask now i m (st, w) = (res, st1, w1)" by (metis prod_cases3)
  obtain rest s2 where rest: "sends ask i qs (st1, w1) = (rest, s2)" by (metis prod.exhaust)
  have "s2 = (st', w')" "rs = res # rest" using Cons.prems(2) by (auto simp: q one rest)
  with Cons.IH [of st1 w1 rest] send_existing [OF Cons.prems(1) one] rest show ?case by simp
qed simp

definition turns :: "nat \<Rightarrow> role list" where
  "turns k = concat (replicate k [User, Assistant])"

lemma turns_simps: "turns 0 = []" "turns (Suc k) = [User, Assistant] @ turns k" "length (turns k) = 2 * k"
  by (simp_all add: turns_def length_concat sum_list_replicate)

lemma turns_snoc: "turns (Suc k) = turns k @ [User, Assistant]"
  by (simp add: turns_def replicate_append_same [symmetric])

lemma role_call_turns:
  assumes "k \<le> 25"
  shows "role_call (turns k) = turns (min k 24) @ [User]"
proof (cases "k = 25")
  case True
  have "turns 25 = [User, Assistant] @ turns 24" using turns_simps(2) [of 24] by simp
  moreover have "trim_pairs (turns 24 @ [User]) = turns 24 @ [User]"
    by (subst trim_pairs.simps) (simp add: turns_simps MAX_MESSAGES_PER_SESSION_def)
  ultimately show ?thesis
    by (simp add: role_call_def True) (subst trim_pairs.simps, simp add: turns_simps MAX_MESSAGES_PER_SESSION_def)
next
  case False
  then have "trim_pairs (turns k @ [User]) = turns k @ [User]"
    using assms by (subst trim_pairs.simps) (simp add: turns_simps MAX_MESSAGES_PER_SESSION_def)
  then show ?thesis using assms False by (simp add: role_call_def min_def)
qed

text \<open>The roles after a failed call: two messages of the user in a row, that slip to the front.\<close>

definition slipped :: "nat \<Rightarrow> nat \<Rightarrow> role list" where
  "slipped a b = turns a @ [User, User, Assistant] @ turns b"

definition misaligned :: "role list" where
  "misaligned = Assistant # concat (replicate 25 [User, Assistant])"

lemma trim_pairs_short: "length ms \<le> 50 \<Longrightarrow> trim_pairs ms = ms"
  by (subst trim_pairs.simps) (simp add: MAX_MESSAGES_PER_SESSION_def)

lemma trim_pairs_once: "48 < length ms \<Longrightarrow> length ms \<le> 50 \<Longrightarrow> trim_pairs (x # y # ms) = ms"
  by (subst trim_pairs.simps) (simp add: MAX_MESSAGES_PER_SESSION_def trim_pairs_short)

lemma slip_first: "m \<le> 24 \<Longrightarrow> role_send True (turns m @ [User]) = slipped m 0"
  by (simp add: role_send_def role_call_def trim_pairs_short turns_simps slipped_def)

lemma slip_step:
  assumes "a + b < 25" and "b < 24"
  shows "\<exists>a'. a' + Suc b < 25 \<and> role_send True (slipped a b) = slipped a' (Suc b)"
proof (cases "a + b < 24")
  case True
  then show ?thesis
    by (intro exI [of _ a]) (simp add: role_send_def role_call_def slipped_def trim_pairs_short turns_simps(3) turns_snoc [of b])
next
  case False
  then obtain a' where a: "a = Suc a'" using assms(2) by (cases a) auto
  with False assms have "a' + b = 23" by simp
  then show ?thesis
    by (intro exI [of _ a'])
      (simp add: a role_send_def role_call_def slipped_def trim_pairs_once turns_simps(3) turns_simps(2) [of a'] turns_snoc [of b])
qed

lemma slipped_after:
  assumes "m \<le> 24" and "j < 25"
  shows "\<exists>a. a + j < 25 \<and> foldl (\<lambda>rs x. role_send x rs) (turns m @ [User]) (replicate (Suc j) True) = slipped a j"
  using assms(2)
proof (induction j)
  case 0
  then show ?case using assms(1) by (intro exI [of _ m]) (simp add: slip_first)
next
  case (Suc j)
  then obtain a where a: "a + j < 25" "foldl (\<lambda>rs x. role_send x rs) (turns m @ [User]) (replicate (Suc j) True) = slipped a j"
    by auto
  obtain a' where "a' + Suc j < 25" "role_send True (slipped a j) = slipped a' (Suc j)"
    using slip_step [OF a(1)] Suc.prems by auto
  moreover have "replicate (Suc (Suc j)) True = replicate (Suc j) True @ [True]" by (simp add: replicate_append_same)
  ultimately show ?case using a(2) by (metis foldl_Cons foldl_Nil foldl_append)
qed

lemma slipped_call: "role_call (slipped 0 24) = concat (replicate 25 [Assistant, User])" "role_send True (slipped 0 24) = misaligned"
  by code_simp+

lemma misaligned_fixed: "role_send True misaligned = misaligned" "role_call misaligned = concat (replicate 25 [Assistant, User])"
  by code_simp+

lemma misaligned_stays: "foldl (\<lambda>rs x. role_send x rs) misaligned (replicate n True) = misaligned"
  by (induction n) (simp_all add: misaligned_fixed)

lemma misaligned_later:
  assumes "k \<le> 25" and "25 \<le> n"
  shows "role_call (foldl (\<lambda>rs x. role_send x rs) (role_send False (turns k)) (replicate n True)) = concat (replicate 25 [Assistant, User])"
proof -
  have "role_send False (turns k) = turns (min k 24) @ [User]" using role_call_turns [OF assms(1)] by (simp add: role_send_def)
  then have full: "foldl (\<lambda>rs x. role_send x rs) (role_send False (turns k)) (replicate 25 True) = slipped 0 24"
    using slipped_after [of "min k 24" 24] by auto
  obtain j where n: "n = 25 + j" using assms(2) le_Suc_ex by blast
  have "foldl (\<lambda>rs x. role_send x rs) (role_send False (turns k)) (replicate n True)
      = foldl (\<lambda>rs x. role_send x rs) (slipped 0 24) (replicate j True)"
    by (simp only: n replicate_add foldl_append full)
  then show ?thesis by (cases j) (simp_all add: slipped_call misaligned_stays misaligned_fixed)
qed

lemma foldl_flags: "foldl (\<lambda>rs x. role_send (\<not> isl x) rs) rs (map Inr ts) = foldl (\<lambda>rs x. role_send x rs) rs (replicate (length ts) True)"
  by (induction ts arbitrary: rs) auto

lemma begin_existing:
  "at_session st i r \<Longrightarrow> begin_message now i m st = (q, st')
    \<Longrightarrow> q = r \<and> r < length (ch_heap st') \<and> roles (ch_heap st' ! r) = role_call (roles (ch_heap st ! r))"
  by (auto simp: begin_message_def open_session_def at_session_def roles_push)

text \<open>C17. One failed call misaligns a conversation for good. Take a stored session whose conversation so
  far has no failure (any number of question and answer pairs). One call of it fails; the
  message of that call stays. Then, after any 25 or more answered calls, every further call
  hands the model 50 messages that start with an answer whose question was dropped: trimming by
  pairs no longer drops pairs of a question and its answer.\<close>

theorem chat_misaligned_by_failure:
  assumes "at_session st i r" and "k \<le> 25"
    and "map fst (ss_messages (ch_heap st ! r)) = concat (replicate k [User, Assistant])"
    and "sends ask i [q] (st, w) = ([Inl e], st1, w1)"
    and "sends ask i answered (st1, w1) = (map Inr ts, st2, w2)" and "25 \<le> length answered"
    and "begin_message now i m st2 = (r', st3)"
  shows "r' = r \<and> map fst (ss_messages (ch_heap st3 ! r)) = concat (replicate 25 [Assistant, User])"
proof -
  have l: "25 \<le> length ts" using sends_length [OF assms(5)] assms(6) by simp
  have k: "roles (ch_heap st ! r) = turns k" using assms(3) by (simp add: roles_def turns_def)
  note one = sends_roles [OF assms(1,4)]
  note two = sends_roles [OF one [THEN conjunct1] assms(5)]
  have "roles (ch_heap st2 ! r) = foldl (\<lambda>rs x. role_send x rs) (role_send False (turns k)) (replicate (length ts) True)"
    using one two by (simp add: k foldl_flags)
  with begin_existing [OF two [THEN conjunct1] assms(7)] misaligned_later [OF assms(2) l]
  show ?thesis by (simp add: roles_def)
qed

definition sample_model :: "unit model" where
  "sample_model p ms u = (if snd (last ms) = ''boom'' then Inl (JsError ''overloaded'') else Inr [(''text'', ''ok'')], u)"

definition asks :: "string list \<Rightarrow> chat_service \<Rightarrow> (chat_error + string) list \<times> chat_service" where
  "asks ms st = (let (rs, st', u) = sends sample_model ''A'' (map (\<lambda>m. (0, m)) ms) (st, ()) in (rs, st'))"

definition sample_chat :: chat_service where
  "sample_chat = snd (asks (replicate 3 ''q'') (start_chat None None))"

lemma sample_chat_run:
  "at_session sample_chat ''A'' 0 \<and> map fst (ss_messages (ch_heap sample_chat ! 0)) = concat (replicate 3 [User, Assistant])
   \<and> (let (e1, st1) = asks [''boom''] sample_chat; (e2, st2) = asks (replicate 25 ''q'') st1
      in e1 = [Inl internal_error] \<and> e2 = map Inr (replicate 25 ''ok''))"
  by code_simp

lemma asks_sends: "asks ms st = (rs, st') \<longleftrightarrow> sends sample_model ''A'' (map (\<lambda>m. (0, m)) ms) (st, ()) = (rs, st', ())"
  by (auto simp: asks_def split: prod.split)

theorem chat_misaligned_by_failure_witness:
  "\<exists>st1 st2 st3. asks [''boom''] sample_chat = ([Inl internal_error], st1) \<and> asks (replicate 25 ''q'') st1 = (replicate 25 (Inr ''ok''), st2)
     \<and> begin_message 0 ''A'' ''next'' st2 = (0, st3) \<and> map fst (ss_messages (ch_heap st3 ! 0)) = concat (replicate 25 [Assistant, User])"
proof -
  obtain st1 where a: "asks [''boom''] sample_chat = ([Inl internal_error], st1)"
    and b: "fst (asks (replicate 25 ''q'') st1) = map Inr (replicate 25 ''ok'')"
    using sample_chat_run by (auto simp: Let_def split: prod.splits)
  obtain st2 where b2: "asks (replicate 25 ''q'') st1 = (map Inr (replicate 25 ''ok''), st2)"
    using b by (metis prod.collapse)
  obtain q st3 where c: "begin_message 0 ''A'' ''next'' st2 = (q, st3)" by (metis prod.exhaust)
  have a1: "sends sample_model ''A'' [(0, ''boom'')] (sample_chat, ()) = ([Inl internal_error], st1, ())"
    using a by (simp only: asks_sends list.map)
  from sample_chat_run have "at_session sample_chat ''A'' 0"
    "map fst (ss_messages (ch_heap sample_chat ! 0)) = concat (replicate 3 [User, Assistant])" by blast+
  from chat_misaligned_by_failure [OF this(1) _ this(2) a1 b2 [unfolded asks_sends] _ c]
  have "q = 0 \<and> map fst (ss_messages (ch_heap st3 ! 0)) = concat (replicate 25 [Assistant, User])" by simp
  with a b2 c show ?thesis by simp
qed

section \<open>Conversations without failures\<close>

text \<open>The service as steps cut at the await: a call arrives and hands over its conversation, a call in flight
  settles with the model's answer, the timer evicts. The state is the service, the calls in
  flight with the session each works on, and the conversations handed over so far. No call of
  a session arrives while another of the same session is in flight, and a call of a session that
  is stored does not fail.\<close>

inductive chat_reach :: "chat_service \<Rightarrow> (string \<times> nat) set \<Rightarrow> chat_message list list \<Rightarrow> bool" where
  start: "chat_reach (start_chat behavioral skill) {} []"
| arrive: "chat_reach st calls asked \<Longrightarrow> i \<notin> fst ` calls \<Longrightarrow> begin_message now i m st = (r, st')
    \<Longrightarrow> chat_reach st' (insert (i, r) calls) (asked @ [ss_messages (ch_heap st' ! r)])"
| answered: "chat_reach st calls asked \<Longrightarrow> (i, r) \<in> calls \<Longrightarrow> finish_message i r answer st = (Inr t, st')
    \<Longrightarrow> chat_reach st' (calls - {(i, r)}) asked"
| refused: "chat_reach st calls asked \<Longrightarrow> (i, r) \<in> calls \<Longrightarrow> get (ch_sessions st) i = None
    \<Longrightarrow> finish_message i r answer st = (Inl e, st') \<Longrightarrow> chat_reach st' (calls - {(i, r)}) asked"
| evict: "chat_reach st calls asked \<Longrightarrow> chat_reach (evictExpiredSessions now st) calls asked"

text \<open>Sessions and references correspond one to one, a call in flight has just asked, a stored
  session at rest has only whole turns.\<close>

definition one_to_one :: "(string \<times> nat) set \<Rightarrow> bool" where
  "one_to_one R \<longleftrightarrow> (\<forall>(i, r) \<in> R. \<forall>(j, q) \<in> R. i = j \<longleftrightarrow> r = q)"

definition asked_at :: "chat_service \<Rightarrow> nat \<Rightarrow> bool" where
  "asked_at st r \<longleftrightarrow> r < length (ch_heap st) \<and> (\<exists>k < 25. roles (ch_heap st ! r) = turns k @ [User])"

definition sound_at :: "chat_service \<Rightarrow> nat \<Rightarrow> bool" where
  "sound_at st r \<longleftrightarrow> r < length (ch_heap st) \<and> (\<exists>k \<le> 25. roles (ch_heap st ! r) = turns k)"

definition chat_inv :: "chat_service \<Rightarrow> (string \<times> nat) set \<Rightarrow> bool" where
  "chat_inv st calls \<longleftrightarrow> one_to_one (set (ch_sessions st) \<union> calls) \<and> (\<forall>(i, r) \<in> calls. asked_at st r)
     \<and> (\<forall>(i, r) \<in> set (ch_sessions st) - calls. sound_at st r)"

lemma get_entry: "get ob i = Some r \<Longrightarrow> (i, r) \<in> set ob" "get ob i = None \<Longrightarrow> (i, r) \<notin> set ob"
  by (auto simp: get_def map_of_SomeD map_of_eq_None_iff image_iff)

lemma set_put: "(k, v) \<in> set (put ob i r) \<Longrightarrow> (k, v) \<in> set ob \<or> (k, v) = (i, r)"
  by (induction ob) (auto split: if_splits)

lemma one_to_oneD: "one_to_one R \<Longrightarrow> (i, r) \<in> R \<Longrightarrow> (j, q) \<in> R \<Longrightarrow> i = j \<longleftrightarrow> r = q"
  by (auto simp: one_to_one_def)

lemma one_to_one_mono: "one_to_one R \<Longrightarrow> S \<subseteq> R \<Longrightarrow> one_to_one S"
  unfolding one_to_one_def by blast

lemma one_to_one_insert:
  assumes "one_to_one R" and "\<And>j q. (j, q) \<in> R \<Longrightarrow> j \<noteq> i \<and> q \<noteq> r"
  shows "one_to_one (insert (i, r) R)"
  using assms(1) unfolding one_to_one_def by (auto dest: assms(2))

text \<open>What a step leaves alone.\<close>

definition others_kept :: "chat_service \<Rightarrow> chat_service \<Rightarrow> nat \<Rightarrow> bool" where
  "others_kept st st' r \<longleftrightarrow> length (ch_heap st) \<le> length (ch_heap st')
     \<and> (\<forall>q < length (ch_heap st). q \<noteq> r \<longrightarrow> ch_heap st' ! q = ch_heap st ! q)"

lemma others_keptD:
  assumes "others_kept st st' r" and "q \<noteq> r"
  shows "asked_at st q \<Longrightarrow> asked_at st' q" "sound_at st q \<Longrightarrow> sound_at st' q"
  using assms by (auto simp: others_kept_def asked_at_def sound_at_def)

lemma role_call_asked: "k \<le> 25 \<Longrightarrow> \<exists>j < 25. role_call (turns k) = turns j @ [User]"
  using role_call_turns [of k] by (intro exI [of _ "min k 24"]) simp

lemma begin_new:
  assumes "begin_message now i m st = (r, st')" and "get (ch_sessions st) i = None"
  shows "r = length (ch_heap st) \<and> ch_sessions st' = ch_sessions st \<and> others_kept st st' r \<and> asked_at st' r"
  using assms role_call_asked [of 0]
  by (auto simp: begin_message_def open_session_def others_kept_def asked_at_def roles_push nth_append turns_simps
      roles_def [of "\<lparr>ss_messages = [], ss_lastAccess = now\<rparr>"])

lemma begin_stored:
  assumes "begin_message now i m st = (r, st')" and "get (ch_sessions st) i = Some q" and "sound_at st q"
  shows "r = q \<and> ch_sessions st' = ch_sessions st \<and> others_kept st st' r \<and> asked_at st' r"
  using assms role_call_asked
  by (auto simp: begin_message_def open_session_def others_kept_def asked_at_def sound_at_def roles_push)

lemma finish_answered:
  assumes "finish_message i r answer st = (Inr t, st')" and "asked_at st r"
  shows "ch_sessions st' = put (ch_sessions st) i r \<and> others_kept st st' r \<and> sound_at st' r"
proof -
  have st': "st' = st\<lparr>ch_heap := (ch_heap st)[r := push_assistant t (ch_heap st ! r)], ch_sessions := put (ch_sessions st) i r\<rparr>"
    using assms(1) by (auto simp: finish_message_def Let_def split: sum.splits if_splits)
  obtain k where "k < 25" "r < length (ch_heap st)" "roles (ch_heap st ! r) = turns k @ [User]"
    using assms(2) by (auto simp: asked_at_def)
  then show ?thesis by (auto simp: st' others_kept_def sound_at_def roles_push turns_snoc intro!: exI [of _ "Suc k"])
qed

lemma finish_refused: "finish_message i r answer st = (Inl e, st') \<Longrightarrow> st' = st"
  by (auto simp: finish_message_def Let_def split: sum.splits if_splits)

lemma chat_inv_arrive:
  assumes inv: "chat_inv st calls" and new: "i \<notin> fst ` calls" and b: "begin_message now i m st = (r, st')"
  shows "chat_inv st' (insert (i, r) calls) \<and> asked_at st' r"
proof -
  let ?R = "set (ch_sessions st) \<union> calls"
  have one: "one_to_one ?R" and asked: "\<And>j q. (j, q) \<in> calls \<Longrightarrow> asked_at st q"
    and sound: "\<And>j q. (j, q) \<in> set (ch_sessions st) \<Longrightarrow> (j, q) \<notin> calls \<Longrightarrow> sound_at st q"
    using inv by (auto simp: chat_inv_def)
  have "ch_sessions st' = ch_sessions st \<and> others_kept st st' r \<and> asked_at st' r \<and> one_to_one (insert (i, r) ?R)"
  proof (cases "get (ch_sessions st) i")
    case None
    note n = begin_new [OF b None]
    have "q \<noteq> r" "j \<noteq> i" if "(j, q) \<in> ?R" for j q
    proof -
      have "asked_at st q \<or> sound_at st q" using that asked sound by blast
      then show "q \<noteq> r" using n by (auto simp: asked_at_def sound_at_def)
      show "j \<noteq> i" using that new get_entry(2) [OF None] by force
    qed
    with one_to_one_insert [OF one, of i r] n show ?thesis by blast
  next
    case (Some q)
    have e: "(i, q) \<in> set (ch_sessions st)" by (rule get_entry(1) [OF Some])
    moreover have "(i, q) \<notin> calls" using new by force
    ultimately have "sound_at st q" by (rule sound)
    from begin_stored [OF b Some this]
    have n: "r = q \<and> ch_sessions st' = ch_sessions st \<and> others_kept st st' r \<and> asked_at st' r" .
    then show ?thesis using one e by (auto simp: insert_absorb)
  qed
  then have st': "ch_sessions st' = ch_sessions st" "others_kept st st' r" "asked_at st' r" "one_to_one (insert (i, r) ?R)"
    by simp_all
  have only: "j = i" if "(j, r) \<in> ?R" for j using one_to_oneD [OF st'(4), of j r i r] that by auto
  have "asked_at st' q" if "(j, q) \<in> insert (i, r) calls" for j q
    using that asked [of j q] others_keptD(1) [OF st'(2)] st'(3) by (cases "q = r") auto
  moreover have "sound_at st' q" if "(j, q) \<in> set (ch_sessions st)" "(j, q) \<notin> insert (i, r) calls" for j q
  proof -
    have "q \<noteq> r" using that only by auto
    then show ?thesis using that sound others_keptD(2) [OF st'(2)] by simp
  qed
  ultimately show ?thesis using st' by (auto simp: chat_inv_def)
qed

lemma chat_inv_answered:
  assumes inv: "chat_inv st calls" and call: "(i, r) \<in> calls" and f: "finish_message i r answer st = (Inr t, st')"
  shows "chat_inv st' (calls - {(i, r)})"
proof -
  let ?R = "set (ch_sessions st) \<union> calls"
  have one: "one_to_one ?R" and asked: "\<And>j q. (j, q) \<in> calls \<Longrightarrow> asked_at st q"
    and sound: "\<And>j q. (j, q) \<in> set (ch_sessions st) \<Longrightarrow> (j, q) \<notin> calls \<Longrightarrow> sound_at st q"
    using inv by (auto simp: chat_inv_def)
  note n = finish_answered [OF f asked [OF call]]
  have keep: "set (ch_sessions st') \<union> (calls - {(i, r)}) \<subseteq> ?R"
    using n call by (auto dest: set_put)
  have only: "q \<noteq> r" if "(j, q) \<in> ?R" "(j, q) \<noteq> (i, r)" for j q
    using one_to_oneD [OF one that(1), of i r] call that(2) by auto
  have "asked_at st' q" if "(j, q) \<in> calls - {(i, r)}" for j q
    using that asked [of j q] only [of j q] n others_keptD(1) [of st st' r q] by simp
  moreover have "sound_at st' q" if "(j, q) \<in> set (ch_sessions st')" "(j, q) \<notin> calls - {(i, r)}" for j q
  proof (cases "(j, q) = (i, r)")
    case False
    then have "(j, q) \<in> set (ch_sessions st)" "(j, q) \<notin> calls"
      using that n set_put [of j q "ch_sessions st" i r] by (simp_all, blast+)
    then show ?thesis using False sound [of j q] only [of j q] n others_keptD(2) [of st st' r q] by simp
  qed (use n in simp)
  ultimately show ?thesis using one_to_one_mono [OF one keep] by (auto simp: chat_inv_def)
qed

lemma chat_inv_refused:
  assumes inv: "chat_inv st calls" and gone: "get (ch_sessions st) i = None"
  shows "chat_inv st (calls - {(i, r)})"
proof -
  let ?S = "set (ch_sessions st)"
  have "one_to_one (?S \<union> (calls - {(i, r)}))"
    by (rule one_to_one_mono [of "?S \<union> calls"]) (use inv in \<open>auto simp: chat_inv_def\<close>)
  moreover have "?S - (calls - {(i, r)}) = ?S - calls" using get_entry(2) [OF gone] by blast
  ultimately show ?thesis using inv by (simp add: chat_inv_def)
qed

lemma chat_inv_evict: "chat_inv st calls \<Longrightarrow> chat_inv (evictExpiredSessions now st) calls"
proof -
  assume inv: "chat_inv st calls"
  let ?st = "evictExpiredSessions now st"
  have sub: "set (ch_sessions ?st) \<subseteq> set (ch_sessions st)" and heap: "ch_heap ?st = ch_heap st"
    by (auto simp: evictExpiredSessions_def)
  have "one_to_one (set (ch_sessions ?st) \<union> calls)"
    by (rule one_to_one_mono [of "set (ch_sessions st) \<union> calls"]) (use inv sub in \<open>auto simp: chat_inv_def\<close>)
  moreover have "asked_at ?st = asked_at st" "sound_at ?st = sound_at st"
    by (simp_all add: fun_eq_iff asked_at_def sound_at_def heap)
  ultimately show ?thesis using inv sub by (auto simp: chat_inv_def)
qed

lemma chat_inv_reach:
  "chat_reach st calls asked \<Longrightarrow> chat_inv st calls
     \<and> (\<forall>ms \<in> set asked. \<exists>k < 25. map fst ms = turns k @ [User])"
proof (induction rule: chat_reach.induct)
  case (start behavioral skill)
  then show ?case by (simp add: chat_inv_def one_to_one_def start_chat_def)
next
  case (arrive st calls asked i now m r st')
  then show ?case using chat_inv_arrive [of st calls i now m r st'] by (auto simp: asked_at_def roles_def)
next
  case (answered st calls asked i r answer t st')
  then show ?case using chat_inv_answered by blast
next
  case (refused st calls asked i r answer e st')
  then show ?case using chat_inv_refused finish_refused by blast
next
  case (evict st calls asked now)
  then show ?case using chat_inv_evict by blast
qed

text \<open>The first condition is needed: two overlapping calls of one session hand over two questions in a row.\<close>

lemma overlapping_calls:
  assumes "at_session st i r" and "roles (ch_heap st ! r) = turns k" and "k < 25"
    and "begin_message now i m st = (r1, st1)" and "begin_message now' i m' st1 = (r2, st2)"
  shows "roles (ch_heap st2 ! r2) = turns k @ [User, User]"
proof -
  have one: "role_call (turns k) = turns k @ [User]" using assms(3) role_call_turns [of k] by (simp add: min_def)
  have two: "role_call (turns k @ [User]) = turns k @ [User, User]"
    using assms(3) by (simp add: role_call_def) (subst trim_pairs.simps, simp add: turns_simps MAX_MESSAGES_PER_SESSION_def)
  have "at_session st1 i r" using assms(1,4) by (auto simp: begin_message_def open_session_def at_session_def)
  from begin_existing [OF this assms(5)] begin_existing [OF assms(1,4)] show ?thesis by (simp add: assms(2) one two)
qed

text \<open>C39. Whatever sessions are opened, answered, evicted, or refused at their first message, and however the
  calls of different sessions overlap: as long as no two calls of one session overlap and no
  call of a stored session fails, every call hands the model a conversation in which user and
  assistant alternate, that starts and ends with a user message and has at most 49 messages.\<close>

theorem chat_conversations_sound:
  assumes "chat_reach st calls asked" and "ms \<in> set asked"
  shows "\<exists>k < 25. map fst ms = concat (replicate k [User, Assistant]) @ [User]"
  using chat_inv_reach [OF assms(1)] assms(2) by (simp add: turns_def)

lemma sample_overlap:
  "\<exists>st1 st2 st3 st4. begin_message 0 ''A'' ''a1'' (start_chat None None) = (0, st1)
     \<and> begin_message 1 ''B'' ''b1'' st1 = (1, st2)
     \<and> finish_message ''A'' 0 (Inr [(''text'', ''ok'')]) st2 = (Inr ''ok'', st3)
     \<and> begin_message 2 ''A'' ''a2'' st3 = (0, st4)
     \<and> ss_messages (ch_heap st4 ! 0) = [(User, ''a1''), (Assistant, ''ok''), (User, ''a2'')]"
  by (simp add: begin_message_def open_session_def start_chat_def push_user_def push_assistant_def finish_message_def
      answer_text_def trim_pairs.simps MAX_MESSAGES_PER_SESSION_def get_def Let_def)

theorem chat_conversations_sound_witness:
  "\<exists>st asked. chat_reach st {(''B'', 1), (''A'', 0)} asked \<and> [(User, ''a1''), (Assistant, ''ok''), (User, ''a2'')] \<in> set asked
     \<and> (\<exists>k < 25. map fst [(User, ''a1''), (Assistant, ''ok''), (User, ''a2'')] = concat (replicate k [User, Assistant]) @ [User])"
proof -
  obtain st1 st2 st3 st4 where
      s: "begin_message 0 ''A'' ''a1'' (start_chat None None) = (0, st1)" "begin_message 1 ''B'' ''b1'' st1 = (1, st2)"
         "finish_message ''A'' 0 (Inr [(''text'', ''ok'')]) st2 = (Inr ''ok'', st3)" "begin_message 2 ''A'' ''a2'' st3 = (0, st4)"
    and m: "ss_messages (ch_heap st4 ! 0) = [(User, ''a1''), (Assistant, ''ok''), (User, ''a2'')]"
    using sample_overlap by blast
  obtain asked where two: "chat_reach st2 {(''B'', 1), (''A'', 0)} asked"
    using arrive [OF arrive [OF start _ s(1)] _ s(2)] by auto
  have "chat_reach st3 ({(''B'', 1), (''A'', 0)} - {(''A'', 0)}) asked" by (rule answered [OF two _ s(3)]) simp
  moreover have "{(''B'', 1), (''A'', 0)} - {(''A'', 0)} = {(''B'', 1 :: nat)}" by auto
  ultimately have "chat_reach st3 {(''B'', 1)} asked" by (simp only:)
  from arrive [OF this _ s(4)] have run: "chat_reach st4 {(''A'', 0), (''B'', 1)} (asked @ [ss_messages (ch_heap st4 ! 0)])"
    by simp
  have "\<exists>k < 25. map fst (ss_messages (ch_heap st4 ! 0)) = concat (replicate k [User, Assistant]) @ [User]"
    by (rule chat_conversations_sound [OF run]) simp
  moreover have "{(''A'', 0), (''B'', 1)} = {(''B'', 1 :: nat), (''A'', 0)}" by (rule insert_commute)
  ultimately show ?thesis using run unfolding m by (intro exI [of _ st4] exI [of _ "asked @ [[(User, ''a1''), (Assistant, ''ok''), (User, ''a2'')]]"]) simp
qed

end
