(* ===== verification/WebApp.thy ===== *)
theory WebApp
  imports SdkAccount
begin

text \<open>
  What the pages of the web application share: the choice of the network (\<^verbatim>\<open>contexts/ClusterContext.tsx\<close>),
  the API clients (\<^verbatim>\<open>lib/api.ts\<close>, the SDK's HTTP client per URL), links to the explorer
  (\<^verbatim>\<open>lib/solscan.ts\<close>), the actions under \<^verbatim>\<open>_jotai\<close> and the hooks. A browser tab is one record: the
  state of the page it shows, the context, the stored choice, the client cache, the atoms, the toasts,
  the server and the requests sent. React renders and wires events; a handler is an action on the tab.
  A handler reads the page's variables as they were rendered when it is called, and the stored network
  whenever it sends a request.
\<close>

section \<open>The tab\<close>

datatype toast_kind = ToastInfo | ToastSuccess | ToastError | ToastWarn

text \<open>A message, and the link and its label that follow it in some of them.\<close>

datatype toast = Toast toast_kind string "(string \<times> string) option"

datatype wallet_status = Disconnected | Connecting | Connected

record ('p, 'w) browser =
  br_page :: 'p
  br_cluster :: string
  br_storage :: "string option"
  br_clients :: "(string \<times> http_client) list"
  br_wallet :: "string option"
  br_status :: wallet_status
  br_walletBalance :: "json option"
  br_balanceLoading :: bool
  br_transfers :: "json option"
  br_transfersLoading :: bool
  br_toasts :: "toast list"
  br_pushed :: "string list"
  br_server :: 'w
  br_sent :: "http_request list"

text \<open>A transfer of SOL, as \<^verbatim>\<open>transferSol\<close> builds it.\<close>

record sol_tx =
  st_from :: string
  st_to :: string
  st_lamports :: double
  st_blockhash :: string
  st_feePayer :: string

text \<open>
  Wallet adapter, web3.js and the environment. \<open>wk_sign\<close> is the adapter's \<^verbatim>\<open>signTransaction\<close> between
  \<^verbatim>\<open>deserialize\<close> and \<^verbatim>\<open>serialize\<close>, in base64, for a versioned transaction, \<open>wk_sign_sol\<close> for a SOL
  transfer; both are absent together. The functions of a connection take its RPC URL first. \<open>wk_number\<close>
  is \<^verbatim>\<open>Number\<close> of a text that is no digit string.
\<close>

record 'w web_kit =
  wk_send :: "http_request \<Rightarrow> 'w \<Rightarrow> (axios_failure + json) \<times> 'w"
  wk_env :: "string \<Rightarrow> string option"
  wk_window :: bool
  wk_is_error :: "js_error \<Rightarrow> bool"
  wk_is_key :: "string \<Rightarrow> bool"
  wk_account_pda :: "string \<Rightarrow> string"
  wk_can_sign :: bool
  wk_sign :: "string \<Rightarrow> string result"
  wk_sign_sol :: "sol_tx \<Rightarrow> string result"
  wk_transfer_ix :: "string \<Rightarrow> string \<Rightarrow> double \<Rightarrow> unit result"
  wk_blockhash :: "string \<Rightarrow> 'w \<Rightarrow> string result \<times> 'w"
  wk_send_raw :: "string \<Rightarrow> string \<Rightarrow> 'w \<Rightarrow> string result \<times> 'w"
  wk_confirm :: "string \<Rightarrow> string \<Rightarrow> 'w \<Rightarrow> unit result \<times> 'w"
  wk_balance :: "string \<Rightarrow> string \<Rightarrow> 'w \<Rightarrow> double result \<times> 'w"
  wk_number :: "string \<Rightarrow> double"

type_synonym ('p, 'w, 'a) web = "(('p, 'w) browser, 'a) action"

definition on_page :: "('p \<Rightarrow> 'p) \<Rightarrow> ('p, 'w) browser \<Rightarrow> ('p, 'w) browser" where
  "on_page f b = b\<lparr>br_page := f (br_page b)\<rparr>"

definition show_toast :: "toast_kind \<Rightarrow> string \<Rightarrow> ('p, 'w, unit) web" where
  "show_toast k m = change (\<lambda>b. b\<lparr>br_toasts := br_toasts b @ [Toast k m None]\<rparr>)"

text \<open>A call to something outside that changes it.\<close>

definition outside :: "('w \<Rightarrow> 'a result \<times> 'w) \<Rightarrow> ('p, 'w, 'a) web" where
  "outside f b = (case f (br_server b) of (r, s) \<Rightarrow> (r, b\<lparr>br_server := s\<rparr>))"

text \<open>\<open>err instanceof Error ? err.message : fallback\<close>.\<close>

definition error_text :: "'w web_kit \<Rightarrow> js_error \<Rightarrow> string \<Rightarrow> string" where
  "error_text kit e fallback = (if wk_is_error kit e then err_message e else fallback)"

text \<open>A flag raised before the body, and what the body throws shown and the flag lowered after it.\<close>

definition guarded ::
    "'w web_kit \<Rightarrow> string \<Rightarrow> ('p \<Rightarrow> 'p) \<Rightarrow> ('p \<Rightarrow> 'p) \<Rightarrow> ('p, 'w, unit) web \<Rightarrow> ('p, 'w, unit) web" where
  "guarded kit fallback raise lower body =
     andThen (change (on_page raise)) (\<lambda>u.
       afterwards (catch body (\<lambda>e. show_toast ToastError (error_text kit e fallback))) (on_page lower))"

section \<open>The network\<close>

definition read_cluster :: "'w web_kit \<Rightarrow> ('p, 'w) browser \<Rightarrow> string" where
  "read_cluster kit b = (if \<not> wk_window kit then ''mainnet-beta'' else or_text (br_storage b) ''mainnet-beta'')"

definition cluster_api_url :: "'w web_kit \<Rightarrow> string \<Rightarrow> string option" where
  "cluster_api_url kit cluster =
     (if cluster = ''mainnet-beta'' then Some (or_text (wk_env kit ''NEXT_PUBLIC_MAINNET_API_URL'') ''https://api.silkyway.ai'')
      else if cluster = ''devnet'' then Some (or_text (wk_env kit ''NEXT_PUBLIC_DEVNET_API_URL'') ''https://devnet-api.silkyway.ai'')
      else None)"

definition resolveApiUrl :: "'w web_kit \<Rightarrow> string \<Rightarrow> string" where
  "resolveApiUrl kit cluster =
     (case cluster_api_url kit cluster of
        Some u \<Rightarrow> u
      | None \<Rightarrow>
          if wk_env kit ''NODE_ENV'' = Some ''production'' then or_text (cluster_api_url kit ''mainnet-beta'') []
          else ''http://localhost:3000'')"

text \<open>\<open>rpcUrl\<close> of the context, for the two networks it may hold.\<close>

definition rpc_url :: "'w web_kit \<Rightarrow> string \<Rightarrow> string" where
  "rpc_url kit cluster =
     (if cluster = ''devnet'' then or_text (wk_env kit ''NEXT_PUBLIC_DEVNET_RPC_URL'') ''https://api.devnet.solana.com''
      else or_text (wk_env kit ''NEXT_PUBLIC_MAINNET_RPC_URL'') ''https://api.mainnet-beta.solana.com'')"

definition is_cluster :: "string option \<Rightarrow> bool" where
  "is_cluster c \<longleftrightarrow> c = Some ''devnet'' \<or> c = Some ''mainnet-beta''"

text \<open>The effect of the provider, given \<open>?cluster=\<close> of the location, and its setter.\<close>

definition sync_cluster :: "string option \<Rightarrow> ('p, 'w) browser \<Rightarrow> ('p, 'w) browser" where
  "sync_cluster url b =
     (case url of
        Some c \<Rightarrow> if is_cluster url then b\<lparr>br_storage := Some c, br_cluster := c\<rparr>
                  else if is_cluster (br_storage b) then b\<lparr>br_cluster := or_text (br_storage b) []\<rparr> else b
      | None \<Rightarrow> if is_cluster (br_storage b) then b\<lparr>br_cluster := or_text (br_storage b) []\<rparr> else b)"

definition setCluster :: "string \<Rightarrow> ('p, 'w) browser \<Rightarrow> ('p, 'w) browser" where
  "setCluster c b = b\<lparr>br_storage := Some c, br_cluster := c\<rparr>"

definition solscanUrl :: "'w web_kit \<Rightarrow> string \<Rightarrow> bool \<Rightarrow> string option \<Rightarrow> ('p, 'w) browser \<Rightarrow> string" where
  "solscanUrl kit address is_tx cluster b =
     (let c = (case cluster of Some x \<Rightarrow> x | None \<Rightarrow> read_cluster kit b);
          base = ''https://solscan.io/'' @ (if is_tx then ''tx'' else ''account'') @ ''/'' @ address
      in if c = ''devnet'' then base @ ''?cluster=devnet'' else base)"

section \<open>The API\<close>

definition getApi :: "'w web_kit \<Rightarrow> ('p, 'w, http_client) web" where
  "getApi kit b =
     (let url = resolveApiUrl kit (read_cluster kit b)
      in case map_of (br_clients b) url of
           Some c \<Rightarrow> (Inr c, b)
         | None \<Rightarrow> (let c = createHttpClient (Some url) None in (Inr c, b\<lparr>br_clients := (url, c) # br_clients b\<rparr>)))"

text \<open>A request of that client: the body is serialised, and a failure goes through the SDK's
  interceptor.\<close>

definition web_request :: "'w web_kit \<Rightarrow> string \<Rightarrow> string \<Rightarrow> json \<Rightarrow> ('p, 'w, json) web" where
  "web_request kit meth path body =
     andThen (getApi kit) (\<lambda>client b.
       let r = request_of client meth path (json_stored body);
           (answer, s) = wk_send kit r (br_server b);
           b' = b\<lparr>br_server := s, br_sent := br_sent b @ [r]\<rparr>
       in (case answer of Inl f \<Rightarrow> (Inl (intercept f), b') | Inr d \<Rightarrow> (Inr d, b')))"

definition api_get :: "'w web_kit \<Rightarrow> string \<Rightarrow> ('p, 'w, json) web" where
  "api_get kit path = web_request kit ''GET'' path JsNull"

definition api_post :: "'w web_kit \<Rightarrow> string \<Rightarrow> json \<Rightarrow> ('p, 'w, json) web" where
  "api_post kit path body = web_request kit ''POST'' path body"

text \<open>\<open>const { transaction } = (await api.post(path, params)).data.data\<close>.\<close>

definition post_for :: "'w web_kit \<Rightarrow> string \<Rightarrow> json \<Rightarrow> string \<Rightarrow> ('p, 'w, json option) web" where
  "post_for kit path body k = andThen (api_post kit path body) (\<lambda>d. lift (data_member d k))"

definition signAndSubmit :: "'w web_kit \<Rightarrow> json option \<Rightarrow> ('p, 'w, json option) web" where
  "signAndSubmit kit tx =
     (if \<not> wk_can_sign kit then lift (Inl (JsError ''Wallet does not support signing''))
      else andThen (lift (case as_text tx of None \<Rightarrow> Inl type_error | Some t \<Rightarrow> wk_sign kit t)) (\<lambda>signed.
           post_for kit ''/api/tx/submit'' (JsObj [(''signedTx'', JsText signed)]) ''txid''))"

text \<open>The toast with the link to a transaction; \<open>txid.slice\<close> throws on what is no text.\<close>

definition tx_toast :: "'w web_kit \<Rightarrow> string \<Rightarrow> json option \<Rightarrow> ('p, 'w, unit) web" where
  "tx_toast kit label txid b =
     (case as_text txid of
        None \<Rightarrow> (Inl type_error, b)
      | Some t \<Rightarrow>
          (Inr (), b\<lparr>br_toasts := br_toasts b @ [Toast ToastSuccess label (Some (solscanUrl kit t True None b, take 8 t @ ''...''))]\<rparr>))"

text \<open>Building, approving and submitting, as every handler of a page does it.\<close>

definition approve_and_submit :: "'w web_kit \<Rightarrow> json option \<Rightarrow> ('p, 'w, json option) web" where
  "approve_and_submit kit tx =
     andThen (show_toast ToastInfo ''Please approve the transaction in your wallet...'') (\<lambda>u. signAndSubmit kit tx)"

text \<open>With the toast that links to the transaction.\<close>

definition build_and_submit :: "'w web_kit \<Rightarrow> string \<Rightarrow> json \<Rightarrow> string \<Rightarrow> ('p, 'w, unit) web" where
  "build_and_submit kit path body label =
     andThen (post_for kit path body ''transaction'') (\<lambda>tx.
     andThen (approve_and_submit kit tx) (\<lambda>txid. tx_toast kit label txid))"

section \<open>SOL\<close>

definition LAMPORTS_PER_SOL :: double where
  "LAMPORTS_PER_SOL = num_of_int 1000000000"

definition math_floor :: "double \<Rightarrow> double" where
  "math_floor x = (case x of Fin q \<Rightarrow> Fin (of_int \<lfloor>q\<rfloor>) | _ \<Rightarrow> x)"

definition check_key :: "'w web_kit \<Rightarrow> string \<Rightarrow> unit result" where
  "check_key kit s = (if wk_is_key kit s then Inr () else Inl (JsError ''Invalid public key input''))"

definition web_transferSol :: "'w web_kit \<Rightarrow> string \<Rightarrow> string \<Rightarrow> string \<Rightarrow> double \<Rightarrow> ('p, 'w, string) web" where
  "web_transferSol kit rpc source target amountSol =
     (if \<not> wk_can_sign kit then lift (Inl (JsError ''Wallet does not support signing''))
      else
        let lamports = math_floor (d_mul amountSol LAMPORTS_PER_SOL) in
        andThen (lift (check_key kit source)) (\<lambda>u.
        andThen (lift (check_key kit target)) (\<lambda>v.
        andThen (lift (wk_transfer_ix kit source target lamports)) (\<lambda>i.
        andThen (outside (wk_blockhash kit rpc)) (\<lambda>blockhash.
        andThen (lift (wk_sign_sol kit
            \<lparr>st_from = source, st_to = target, st_lamports = lamports, st_blockhash = blockhash, st_feePayer = source\<rparr>)) (\<lambda>signed.
        andThen (outside (wk_send_raw kit rpc signed)) (\<lambda>txid.
        andThen (outside (wk_confirm kit rpc txid)) (\<lambda>c. ret txid))))))))"

text \<open>\<open>fetchBalance\<close> never throws; what it read is kept by the caller.\<close>

definition sol_balance :: "'w web_kit \<Rightarrow> string \<Rightarrow> string \<Rightarrow> ('p, 'w, double option) web" where
  "sol_balance kit rpc pubkey =
     catch
       (andThen (lift (check_key kit pubkey)) (\<lambda>u.
        andThen (outside (wk_balance kit rpc pubkey)) (\<lambda>n. ret (Some (d_div n LAMPORTS_PER_SOL)))))
       (\<lambda>e. ret None)"

section \<open>The wallet\<close>

text \<open>\<^verbatim>\<open>fetchBalance\<close> of the wallet and the effect of \<^verbatim>\<open>useConnectedWallet\<close>: what the adapter reports.\<close>

definition fetch_wallet_balance :: "'w web_kit \<Rightarrow> string \<Rightarrow> ('p, 'w, unit) web" where
  "fetch_wallet_balance kit address =
     andThen (change (\<lambda>b. b\<lparr>br_balanceLoading := True\<rparr>)) (\<lambda>u.
       afterwards
         (catch
            (andThen (api_get kit (''/api/wallet/'' @ address @ ''/balance'')) (\<lambda>d.
             andThen (lift (member (Some d) ''data'')) (\<lambda>x. change (\<lambda>b. b\<lparr>br_walletBalance := x\<rparr>))))
            (\<lambda>e. change (\<lambda>b. b\<lparr>br_walletBalance := None\<rparr>)))
         (\<lambda>b. b\<lparr>br_balanceLoading := False\<rparr>))"

definition wallet_effect :: "'w web_kit \<Rightarrow> bool \<Rightarrow> bool \<Rightarrow> string option \<Rightarrow> ('p, 'w, unit) web" where
  "wallet_effect kit connecting isUp publicKey =
     (if connecting then change (\<lambda>b. b\<lparr>br_status := Connecting\<rparr>)
      else case (if isUp then publicKey else None) of
          Some k \<Rightarrow> andThen (change (\<lambda>b. b\<lparr>br_status := Connected, br_wallet := Some k\<rparr>)) (\<lambda>u. fetch_wallet_balance kit k)
        | None \<Rightarrow> change (\<lambda>b. b\<lparr>br_status := Disconnected, br_wallet := None\<rparr>))"

definition walletAddress :: "('p, 'w) browser \<Rightarrow> string" where
  "walletAddress b = (case br_wallet b of None \<Rightarrow> [] | Some k \<Rightarrow> k)"

section \<open>The actions on transfers\<close>

definition fetchTransfers :: "'w web_kit \<Rightarrow> string \<Rightarrow> ('p, 'w, unit) web" where
  "fetchTransfers kit wallet =
     andThen (change (\<lambda>b. b\<lparr>br_transfersLoading := True\<rparr>)) (\<lambda>u.
       afterwards
         (catch
            (andThen (api_get kit (''/api/transfers?wallet='' @ wallet)) (\<lambda>d.
             andThen (lift (data_member d ''transfers'')) (\<lambda>x.
               change (\<lambda>b. b\<lparr>br_transfers := x\<rparr>))))
            (\<lambda>e. change (\<lambda>b. b\<lparr>br_transfers := Some (JsArr [])\<rparr>)))
         (\<lambda>b. b\<lparr>br_transfersLoading := False\<rparr>))"

definition requestFaucet :: "'w web_kit \<Rightarrow> string \<Rightarrow> string \<Rightarrow> ('p, 'w, json option) web" where
  "requestFaucet kit wallet token =
     andThen (api_post kit ''/api/tx/faucet'' (JsObj [(''wallet'', JsText wallet), (''token'', JsText (or_text (Some token) ''both''))]))
       (\<lambda>d. lift (member (Some d) ''data''))"

definition web_number :: "'w web_kit \<Rightarrow> string \<Rightarrow> double" where
  "web_number kit s = (if s \<noteq> [] \<and> list_all is_digit s then num_of_int (int (nat_of_digits s)) else wk_number kit s)"

text \<open>\<open>parseFloat(x) || 0\<close>, and \<open>(Number(raw) / 10 ** decimals).toFixed(2)\<close>.\<close>

definition float_or_zero :: "string \<Rightarrow> double" where
  "float_or_zero s = (let x = parseFloat s in if d_truthy x then x else Fin 0)"

definition formatAmount :: "double \<Rightarrow> nat \<Rightarrow> string" where
  "formatAmount raw decimals =
     (let x = d_div raw (num_of_int (10 ^ decimals))
      in case x of Fin q \<Rightarrow> if \<bar>q\<bar> < 10 ^ 21 then toFixed 2 q else num_to_string x | _ \<Rightarrow> num_to_string x)"

end
