(* ===== verification/WebAccount.thy ===== *)
theory WebAccount
  imports WebApp
begin

text \<open>
  The account dashboard of the web application (\<^verbatim>\<open>app/account/page.tsx\<close>): the state of the page, loading
  the account of the connected wallet, one handler per button, and the events the rendered page
  offers, each with the condition under which it is rendered and not disabled. The account is read as
  the interface the page declares (\<open>account_body\<close>, as in \<open>SdkAccount\<close>).
\<close>

section \<open>The page\<close>

datatype tab = DepositTab | WithdrawTab | OperatorsTab | SettingsTab

record dashboard =
  ap_account :: "account_body option"
  ap_loading :: bool
  ap_tab :: tab
  ap_depositAmount :: string
  ap_depositLoading :: bool
  ap_faucetLoading :: bool
  ap_withdrawAmount :: string
  ap_withdrawLoading :: bool
  ap_newOperator :: string
  ap_newPerTxLimit :: string
  ap_addOpLoading :: bool
  ap_removeOpLoading :: "string option"
  ap_fundingOperator :: "string option"
  ap_fundSolAmount :: string
  ap_isFundingSol :: bool
  ap_pauseLoading :: bool
  ap_closeLoading :: bool
  ap_showCloseConfirm :: bool
  ap_balances :: "double obj"
  ap_balancesLoading :: bool

definition initial_dashboard :: dashboard where
  "initial_dashboard =
     \<lparr>ap_account = None, ap_loading = True, ap_tab = DepositTab, ap_depositAmount = [], ap_depositLoading = False,
      ap_faucetLoading = False, ap_withdrawAmount = [], ap_withdrawLoading = False, ap_newOperator = [],
      ap_newPerTxLimit = ''5'', ap_addOpLoading = False, ap_removeOpLoading = None, ap_fundingOperator = None,
      ap_fundSolAmount = ''0.1'', ap_isFundingSol = False, ap_pauseLoading = False, ap_closeLoading = False,
      ap_showCloseConfirm = False, ap_balances = [], ap_balancesLoading = False\<rparr>"

type_synonym 'w dash = "(dashboard, 'w) browser"
type_synonym 'w handler = "(dashboard, 'w, unit) web"

definition page_set :: "(dashboard \<Rightarrow> dashboard) \<Rightarrow> 'w handler" where
  "page_set f = change (on_page f)"

section \<open>Loading\<close>

text \<open>The balances of several keys (\<^verbatim>\<open>hooks/useSolBalance.ts\<close>): each one read is kept, one that could not be
  read counts as 0 in the end.\<close>

fun read_balances :: "'w web_kit \<Rightarrow> string \<Rightarrow> string list \<Rightarrow> double obj \<Rightarrow> (dashboard, 'w, double obj) web" where
  "read_balances kit rpc [] acc = ret acc"
| "read_balances kit rpc (k # ks) acc =
     andThen (sol_balance kit rpc k) (\<lambda>n.
     andThen (case n of None \<Rightarrow> ret () | Some v \<Rightarrow> page_set (\<lambda>p. p\<lparr>ap_balances := put (ap_balances p) k v\<rparr>)) (\<lambda>u.
       read_balances kit rpc ks (put acc k (case n of None \<Rightarrow> Fin 0 | Some v \<Rightarrow> v))))"

definition fetchMultipleBalances :: "'w web_kit \<Rightarrow> string \<Rightarrow> string list \<Rightarrow> 'w handler" where
  "fetchMultipleBalances kit rpc pubkeys =
     andThen (page_set (\<lambda>p. p\<lparr>ap_balancesLoading := True\<rparr>)) (\<lambda>u.
       afterwards
         (andThen (read_balances kit rpc pubkeys []) (\<lambda>bs. page_set (\<lambda>p. p\<lparr>ap_balances := spread (ap_balances p) bs\<rparr>)))
         (on_page (\<lambda>p. p\<lparr>ap_balancesLoading := False\<rparr>)))"

definition fetch_account :: "'w web_kit \<Rightarrow> string \<Rightarrow> (dashboard, 'w, account_body) web" where
  "fetch_account kit pda = andThen (api_get kit (''/api/account/'' @ pda)) (\<lambda>d. lift (read_detail d))"

definition loadAccount :: "'w web_kit \<Rightarrow> string option \<Rightarrow> string \<Rightarrow> 'w handler" where
  "loadAccount kit publicKey rpc =
     (case publicKey of
        None \<Rightarrow> ret ()
      | Some k \<Rightarrow>
          andThen (page_set (\<lambda>p. p\<lparr>ap_loading := True\<rparr>)) (\<lambda>u.
            afterwards
              (catch
                 (andThen (fetch_account kit (wk_account_pda kit k)) (\<lambda>data.
                  andThen (page_set (\<lambda>p. p\<lparr>ap_account := Some data\<rparr>)) (\<lambda>v.
                    if ab_operators data \<noteq> [] then fetchMultipleBalances kit rpc (map (fst \<circ> snd) (ab_operators data))
                    else ret ())))
                 (\<lambda>e. page_set (\<lambda>p. p\<lparr>ap_account := None\<rparr>)))
              (on_page (\<lambda>p. p\<lparr>ap_loading := False\<rparr>))))"

text \<open>A handler starts from the variables it was rendered with.\<close>

definition reload :: "'w web_kit \<Rightarrow> 'w dash \<Rightarrow> 'w handler" where
  "reload kit b = loadAccount kit (br_wallet b) (rpc_url kit (br_cluster b))"

section \<open>The handlers\<close>

definition handleGetUsdc :: "'w web_kit \<Rightarrow> 'w handler" where
  "handleGetUsdc kit b =
     (if walletAddress b = [] then ret ()
      else guarded kit ''Faucet request failed''
             (\<lambda>p. p\<lparr>ap_faucetLoading := True\<rparr>) (\<lambda>p. p\<lparr>ap_faucetLoading := False\<rparr>)
             (andThen (requestFaucet kit (walletAddress b) ''usdc'') (\<lambda>d. show_toast ToastSuccess ''Devnet USDC received!''))) b"

text \<open>The amount a field holds, in base units: a product of two numbers, not rounded.\<close>

definition units_of :: "double \<Rightarrow> account_body \<Rightarrow> double" where
  "units_of amt ab = d_mul amt (num_of_int (10 ^ ab_mintDecimals ab))"

definition deposit_body :: "string \<Rightarrow> string \<Rightarrow> double \<Rightarrow> json" where
  "deposit_body depositor pda amount =
     JsObj [(''depositor'', JsText depositor), (''accountPda'', JsText pda), (''amount'', JsNum amount)]"

definition handleDeposit :: "'w web_kit \<Rightarrow> 'w handler" where
  "handleDeposit kit b =
     (let amt = float_or_zero (ap_depositAmount (br_page b)) in
      case ap_account (br_page b) of
        None \<Rightarrow> ret ()
      | Some ab \<Rightarrow>
          if walletAddress b = [] \<or> d_le amt (Fin 0) then ret ()
          else guarded kit ''Deposit failed''
                 (\<lambda>p. p\<lparr>ap_depositLoading := True\<rparr>) (\<lambda>p. p\<lparr>ap_depositLoading := False\<rparr>)
                 (andThen (build_and_submit kit ''/api/account/deposit''
                             (deposit_body (walletAddress b) (ab_pda ab) (units_of amt ab)) ''Deposited! TX: '') (\<lambda>u.
                  andThen (page_set (\<lambda>p. p\<lparr>ap_depositAmount := []\<rparr>)) (\<lambda>v. reload kit b)))) b"

definition handleWithdraw :: "'w web_kit \<Rightarrow> 'w handler" where
  "handleWithdraw kit b =
     (let amt = float_or_zero (ap_withdrawAmount (br_page b)) in
      case ap_account (br_page b) of
        None \<Rightarrow> ret ()
      | Some ab \<Rightarrow>
          if walletAddress b = [] \<or> d_le amt (Fin 0) then ret ()
          else guarded kit ''Withdrawal failed''
                 (\<lambda>p. p\<lparr>ap_withdrawLoading := True\<rparr>) (\<lambda>p. p\<lparr>ap_withdrawLoading := False\<rparr>)
                 (andThen (build_and_submit kit ''/api/account/transfer''
                             (transfer_body (walletAddress b) (ab_pda ab) (walletAddress b) (units_of amt ab)) ''Withdrawn! TX: '') (\<lambda>u.
                  andThen (page_set (\<lambda>p. p\<lparr>ap_withdrawAmount := []\<rparr>)) (\<lambda>v. reload kit b)))) b"

text \<open>Building with one route, approving, a plain toast, and what follows: four handlers share it.\<close>

definition build_settle :: "'w web_kit \<Rightarrow> string \<Rightarrow> json \<Rightarrow> string \<Rightarrow> 'w handler \<Rightarrow> 'w handler" where
  "build_settle kit path body message rest =
     andThen (post_for kit path body ''transaction'') (\<lambda>tx.
     andThen (approve_and_submit kit tx) (\<lambda>txid.
     andThen (show_toast ToastSuccess message) (\<lambda>u. rest)))"

definition owner_body :: "'w dash \<Rightarrow> account_body \<Rightarrow> (string \<times> json) list \<Rightarrow> json" where
  "owner_body b ab more_fields =
     JsObj ([(''owner'', JsText (walletAddress b)), (''accountPda'', JsText (ab_pda ab))] @ more_fields)"

definition handleAddOperator :: "'w web_kit \<Rightarrow> 'w handler" where
  "handleAddOperator kit b =
     (let p0 = br_page b; limitNum = float_or_zero (ap_newPerTxLimit p0) in
      case ap_account p0 of
        None \<Rightarrow> ret ()
      | Some ab \<Rightarrow>
          if ap_newOperator p0 = [] \<or> d_less limitNum (Fin 0) then ret ()
          else if \<not> wk_is_key kit (ap_newOperator p0) then show_toast ToastError ''Invalid operator public key''
          else guarded kit ''Failed to add operator''
                 (\<lambda>p. p\<lparr>ap_addOpLoading := True\<rparr>) (\<lambda>p. p\<lparr>ap_addOpLoading := False\<rparr>)
                 (build_settle kit ''/api/account/add-operator''
                    (owner_body b ab [(''operator'', JsText (ap_newOperator p0)), (''perTxLimit'', JsNum (units_of limitNum ab))])
                    ''Operator added''
                    (andThen (page_set (\<lambda>p. p\<lparr>ap_newOperator := [], ap_newPerTxLimit := ''5''\<rparr>)) (\<lambda>v. reload kit b)))) b"

definition handleRemoveOperator :: "'w web_kit \<Rightarrow> string \<Rightarrow> 'w handler" where
  "handleRemoveOperator kit operatorPubkey b =
     (case ap_account (br_page b) of
        None \<Rightarrow> ret ()
      | Some ab \<Rightarrow>
          guarded kit ''Failed to remove operator''
            (\<lambda>p. p\<lparr>ap_removeOpLoading := Some operatorPubkey\<rparr>) (\<lambda>p. p\<lparr>ap_removeOpLoading := None\<rparr>)
            (build_settle kit ''/api/account/remove-operator'' (owner_body b ab [(''operator'', JsText operatorPubkey)])
               ''Operator removed'' (reload kit b))) b"

definition sol_sign :: string where
  "sol_sign = [CHR 0xE2, CHR 0x97, CHR 0x8E]"

definition handleFundOperator :: "'w web_kit \<Rightarrow> string \<Rightarrow> 'w handler" where
  "handleFundOperator kit operatorPubkey b =
     (let solAmount = float_or_zero (ap_fundSolAmount (br_page b)) in
      if walletAddress b = [] then ret ()
      else if d_le solAmount (Fin 0) then show_toast ToastError ''Please enter a valid SOL amount''
      else guarded kit ''Failed to send SOL''
             (\<lambda>p. p\<lparr>ap_isFundingSol := True\<rparr>) (\<lambda>p. p\<lparr>ap_isFundingSol := False\<rparr>)
             (andThen (web_transferSol kit (rpc_url kit (br_cluster b)) (walletAddress b) operatorPubkey solAmount) (\<lambda>txid.
              andThen (tx_toast kit (''Sent '' @ sol_sign @ num_to_string solAmount @ '' SOL! TX: '') (Some (JsText txid))) (\<lambda>u.
              andThen (page_set (\<lambda>p. p\<lparr>ap_fundingOperator := None, ap_fundSolAmount := ''0.1''\<rparr>)) (\<lambda>v. reload kit b))))) b"

definition handleTogglePause :: "'w web_kit \<Rightarrow> 'w handler" where
  "handleTogglePause kit b =
     (case ap_account (br_page b) of
        None \<Rightarrow> ret ()
      | Some ab \<Rightarrow>
          guarded kit ''Failed to toggle pause''
            (\<lambda>p. p\<lparr>ap_pauseLoading := True\<rparr>) (\<lambda>p. p\<lparr>ap_pauseLoading := False\<rparr>)
            (build_settle kit ''/api/account/pause'' (owner_body b ab [])
               (if ab_isPaused ab then ''Account resumed'' else ''Account paused'') (reload kit b))) b"

definition handleCloseAccount :: "'w web_kit \<Rightarrow> 'w handler" where
  "handleCloseAccount kit b =
     (case ap_account (br_page b) of
        None \<Rightarrow> ret ()
      | Some ab \<Rightarrow>
          guarded kit ''Failed to close account''
            (\<lambda>p. p\<lparr>ap_closeLoading := True\<rparr>) (\<lambda>p. p\<lparr>ap_closeLoading := False\<rparr>)
            (build_settle kit ''/api/account/close'' (owner_body b ab [])
               (''Account closed '' @ em_dash @ '' tokens swept to your wallet'')
               (andThen (page_set (\<lambda>p. p\<lparr>ap_showCloseConfirm := False\<rparr>)) (\<lambda>v. change (\<lambda>b. b\<lparr>br_pushed := br_pushed b @ [''/'']\<rparr>))))) b"

section \<open>What the page offers\<close>

datatype dash_event =
    Mounted
  | PickTab tab
  | TypeDeposit string
  | TypeWithdraw string
  | TypeOperator string
  | TypeLimit string
  | TypeSol string
  | ToggleFunding string
  | AskClose
  | KeepOpen
  | ClickFaucet
  | ClickDeposit
  | ClickWithdraw
  | ClickAddOperator
  | ClickRemove string
  | ClickFund string
  | ClickPause
  | ClickClose

definition operator_keys :: "dashboard \<Rightarrow> string list" where
  "operator_keys p = (case ap_account p of None \<Rightarrow> [] | Some a \<Rightarrow> map (fst \<circ> snd) (ab_operators a))"

text \<open>The page is drawn when a wallet is connected, nothing is loading and there is an account.\<close>

definition drawn :: "'w dash \<Rightarrow> bool" where
  "drawn b \<longleftrightarrow> br_status b = Connected \<and> \<not> ap_loading (br_page b) \<and> ap_account (br_page b) \<noteq> None"

fun offered :: "dash_event \<Rightarrow> 'w dash \<Rightarrow> bool" where
  "offered Mounted b \<longleftrightarrow> br_status b = Connected"
| "offered (PickTab t) b \<longleftrightarrow> drawn b"
| "offered (TypeDeposit s) b \<longleftrightarrow> drawn b \<and> ap_tab (br_page b) = DepositTab"
| "offered (TypeWithdraw s) b \<longleftrightarrow> drawn b \<and> ap_tab (br_page b) = WithdrawTab"
| "offered (TypeOperator s) b \<longleftrightarrow> drawn b \<and> ap_tab (br_page b) = OperatorsTab"
| "offered (TypeLimit s) b \<longleftrightarrow> drawn b \<and> ap_tab (br_page b) = OperatorsTab"
| "offered (TypeSol s) b \<longleftrightarrow> drawn b \<and> ap_tab (br_page b) = OperatorsTab
     \<and> ap_fundingOperator (br_page b) \<in> Some ` set (operator_keys (br_page b))"
| "offered (ToggleFunding k) b \<longleftrightarrow> drawn b \<and> ap_tab (br_page b) = OperatorsTab \<and> k \<in> set (operator_keys (br_page b))"
| "offered AskClose b \<longleftrightarrow> drawn b \<and> ap_tab (br_page b) = SettingsTab"
| "offered KeepOpen b \<longleftrightarrow> drawn b \<and> ap_showCloseConfirm (br_page b) \<and> \<not> ap_closeLoading (br_page b)"
| "offered ClickFaucet b \<longleftrightarrow> drawn b \<and> ap_tab (br_page b) = DepositTab \<and> br_cluster b = ''devnet'' \<and> \<not> ap_faucetLoading (br_page b)"
| "offered ClickDeposit b \<longleftrightarrow> drawn b \<and> ap_tab (br_page b) = DepositTab \<and> \<not> ap_depositLoading (br_page b)
     \<and> \<not> d_le (float_or_zero (ap_depositAmount (br_page b))) (Fin 0)"
| "offered ClickWithdraw b \<longleftrightarrow> drawn b \<and> ap_tab (br_page b) = WithdrawTab \<and> \<not> ap_withdrawLoading (br_page b)
     \<and> \<not> d_le (float_or_zero (ap_withdrawAmount (br_page b))) (Fin 0)"
| "offered ClickAddOperator b \<longleftrightarrow> drawn b \<and> ap_tab (br_page b) = OperatorsTab \<and> \<not> ap_addOpLoading (br_page b)
     \<and> ap_newOperator (br_page b) \<noteq> []"
| "offered (ClickRemove k) b \<longleftrightarrow> drawn b \<and> ap_tab (br_page b) = OperatorsTab \<and> k \<in> set (operator_keys (br_page b))
     \<and> ap_removeOpLoading (br_page b) \<noteq> Some k"
| "offered (ClickFund k) b \<longleftrightarrow> drawn b \<and> ap_tab (br_page b) = OperatorsTab \<and> k \<in> set (operator_keys (br_page b))
     \<and> ap_fundingOperator (br_page b) = Some k \<and> \<not> ap_isFundingSol (br_page b)"
| "offered ClickPause b \<longleftrightarrow> drawn b \<and> ap_tab (br_page b) = SettingsTab \<and> \<not> ap_pauseLoading (br_page b)"
| "offered ClickClose b \<longleftrightarrow> drawn b \<and> ap_showCloseConfirm (br_page b) \<and> \<not> ap_closeLoading (br_page b)"

fun dash_handler :: "'w web_kit \<Rightarrow> dash_event \<Rightarrow> 'w handler" where
  "dash_handler kit Mounted b = reload kit b b"
| "dash_handler kit (PickTab t) b = page_set (\<lambda>p. p\<lparr>ap_tab := t\<rparr>) b"
| "dash_handler kit (TypeDeposit s) b = page_set (\<lambda>p. p\<lparr>ap_depositAmount := s\<rparr>) b"
| "dash_handler kit (TypeWithdraw s) b = page_set (\<lambda>p. p\<lparr>ap_withdrawAmount := s\<rparr>) b"
| "dash_handler kit (TypeOperator s) b = page_set (\<lambda>p. p\<lparr>ap_newOperator := s\<rparr>) b"
| "dash_handler kit (TypeLimit s) b = page_set (\<lambda>p. p\<lparr>ap_newPerTxLimit := s\<rparr>) b"
| "dash_handler kit (TypeSol s) b = page_set (\<lambda>p. p\<lparr>ap_fundSolAmount := s\<rparr>) b"
| "dash_handler kit (ToggleFunding k) b =
     page_set (\<lambda>p. p\<lparr>ap_fundingOperator := (if ap_fundingOperator (br_page b) = Some k then None else Some k)\<rparr>) b"
| "dash_handler kit AskClose b = page_set (\<lambda>p. p\<lparr>ap_showCloseConfirm := True\<rparr>) b"
| "dash_handler kit KeepOpen b = page_set (\<lambda>p. p\<lparr>ap_showCloseConfirm := False\<rparr>) b"
| "dash_handler kit ClickFaucet b = handleGetUsdc kit b"
| "dash_handler kit ClickDeposit b = handleDeposit kit b"
| "dash_handler kit ClickWithdraw b = handleWithdraw kit b"
| "dash_handler kit ClickAddOperator b = handleAddOperator kit b"
| "dash_handler kit (ClickRemove k) b = handleRemoveOperator kit k b"
| "dash_handler kit (ClickFund k) b = handleFundOperator kit k b"
| "dash_handler kit ClickPause b = handleTogglePause kit b"
| "dash_handler kit ClickClose b = handleCloseAccount kit b"

definition dash_event :: "'w web_kit \<Rightarrow> dash_event \<Rightarrow> 'w dash \<Rightarrow> 'w dash" where
  "dash_event kit ev b = (if offered ev b then snd (dash_handler kit ev b) else b)"

definition dash_run :: "'w web_kit \<Rightarrow> dash_event list \<Rightarrow> 'w dash \<Rightarrow> 'w dash" where
  "dash_run kit evs b = foldl (\<lambda>b ev. dash_event kit ev b) b evs"

section \<open>No button is left disabled\<close>

text \<open>The flags that disable a control or hide the page.\<close>

type_synonym flag_values = "(bool \<times> bool \<times> bool \<times> bool \<times> bool) \<times> (string option \<times> bool \<times> bool \<times> bool \<times> bool)"

definition flags :: "dashboard \<Rightarrow> flag_values" where
  "flags p =
     ((ap_loading p, ap_depositLoading p, ap_faucetLoading p, ap_withdrawLoading p, ap_addOpLoading p),
      (ap_removeOpLoading p, ap_isFundingSol p, ap_pauseLoading p, ap_closeLoading p, ap_balancesLoading p))"

definition idle :: "dashboard \<Rightarrow> bool" where
  "idle p \<longleftrightarrow> flags p = ((False, False, False, False, False), (None, False, False, False, False))"

text \<open>An action that leaves the page as it is, whatever it does elsewhere.\<close>

definition page_blind :: "('p, 'w, 'a) web \<Rightarrow> bool" where
  "page_blind c \<longleftrightarrow> (\<forall>p. stays (\<lambda>b. br_page b = p) c)"

named_theorems blind \<open>actions that do not touch the page\<close>

lemma page_blindI: "(\<And>b. br_page (snd (c b)) = br_page b) \<Longrightarrow> page_blind c"
  by (simp add: page_blind_def stays_def)

lemma blind_andThen [blind]: "page_blind c \<Longrightarrow> (\<And>x. page_blind (f x)) \<Longrightarrow> page_blind (andThen c f)"
  unfolding page_blind_def by (blast intro: stays_andThen)

lemma blind_catch [blind]: "page_blind c \<Longrightarrow> (\<And>e. page_blind (h e)) \<Longrightarrow> page_blind (catch c h)"
  unfolding page_blind_def by (blast intro: stays_catch)

lemma blind_lift [blind]: "page_blind (lift r)" "page_blind (ret x)"
  by (simp_all add: page_blind_def stays)

lemma blind_base [blind]:
  "page_blind (show_toast k m)" "page_blind (outside f)" "page_blind (tx_toast kit label txid)"
  "page_blind (web_request kit meth path body)"
  by (auto intro!: page_blindI simp: show_toast_def change_def outside_def tx_toast_def web_request_def getApi_def andThen_def Let_def
      split: prod.split option.split sum.split)

lemma blind_calls [blind]:
  "page_blind (api_get kit path)" "page_blind (api_post kit path body)" "page_blind (post_for kit path body k)"
  "page_blind (approve_and_submit kit tx)" "page_blind (build_and_submit kit path body label)" "page_blind (web_transferSol kit rpc source target n)"
  "page_blind (sol_balance kit rpc k')" "page_blind (requestFaucet kit wallet token)"
  "page_blind (fetch_account kit' pda)"
  by (auto intro!: blind split: option.split simp: api_get_def api_post_def post_for_def approve_and_submit_def signAndSubmit_def
      build_and_submit_def web_transferSol_def sol_balance_def requestFaucet_def fetch_account_def Let_def)

lemma blind_stays: "page_blind c \<Longrightarrow> stays (\<lambda>b. Q (br_page b)) c"
  by (simp add: page_blind_def stays_def)

lemma stays_page_set: "(\<And>p. Q p \<Longrightarrow> Q (f p)) \<Longrightarrow> stays (\<lambda>b. Q (br_page b)) (page_set f)"
  by (simp add: page_set_def on_page_def stays_change)

text \<open>A flag raised before an action and lowered after it.\<close>

lemma toggled:
  assumes "stays (\<lambda>b. flags (br_page b) = G) c"
    and "\<And>p. flags p = F \<Longrightarrow> flags (raise p) = G" and "\<And>p. flags p = G \<Longrightarrow> flags (lower p) = H"
    and "flags (br_page b) = F"
  shows "flags (br_page (snd (andThen (page_set raise) (\<lambda>u. afterwards c (on_page lower)) b))) = H"
proof -
  have "flags (br_page (on_page raise b)) = G" using assms(2,4) by (simp add: on_page_def)
  then have "flags (br_page (snd (c (on_page raise b)))) = G" using assms(1) by (simp add: stays_def)
  then show ?thesis by (simp add: page_set_def change_run snd_afterwards assms(3)) (simp add: on_page_def assms(3))
qed

lemma toggled_stays:
  assumes "stays (\<lambda>b. flags (br_page b) = G) c"
    and "\<And>p. flags p = F \<Longrightarrow> flags (raise p) = G" and "\<And>p. flags p = G \<Longrightarrow> flags (lower p) = F"
  shows "stays (\<lambda>b. flags (br_page b) = F) (andThen (page_set raise) (\<lambda>u. afterwards c (on_page lower)))"
  using toggled [OF assms] by (simp add: stays_def)

lemma guarded_stays:
  assumes "stays (\<lambda>b. flags (br_page b) = G) c"
    and "\<And>p. flags p = F \<Longrightarrow> flags (raise p) = G" and "\<And>p. flags p = G \<Longrightarrow> flags (lower p) = F"
  shows "stays (\<lambda>b. flags (br_page b) = F) (guarded kit fallback raise lower c)"
proof -
  have "stays (\<lambda>b. flags (br_page b) = G) (catch c (\<lambda>e. show_toast ToastError (error_text kit e fallback)))"
    by (intro stays_catch assms(1) blind_stays blind)
  from toggled_stays [OF this assms(2,3)] show ?thesis by (simp add: guarded_def page_set_def)
qed

lemma flags_free [simp]:
  "flags (p\<lparr>ap_account := x1\<rparr>) = flags p" "flags (p\<lparr>ap_tab := x2\<rparr>) = flags p"
  "flags (p\<lparr>ap_depositAmount := x3\<rparr>) = flags p" "flags (p\<lparr>ap_withdrawAmount := x3\<rparr>) = flags p"
  "flags (p\<lparr>ap_newOperator := x3\<rparr>) = flags p" "flags (p\<lparr>ap_newPerTxLimit := x3\<rparr>) = flags p"
  "flags (p\<lparr>ap_fundingOperator := x4\<rparr>) = flags p" "flags (p\<lparr>ap_fundSolAmount := x3\<rparr>) = flags p"
  "flags (p\<lparr>ap_showCloseConfirm := x5\<rparr>) = flags p" "flags (p\<lparr>ap_balances := x6\<rparr>) = flags p"
  by (simp_all add: flags_def)

lemma page_set_stays: "(\<And>p. flags (f p) = flags p) \<Longrightarrow> stays (\<lambda>b. flags (br_page b) = F) (page_set f)"
  by (rule stays_page_set) simp

lemma read_balances_stays: "stays (\<lambda>b. flags (br_page b) = F) (read_balances kit rpc ks acc)"
proof (induction ks arbitrary: acc)
  case Nil
  then show ?case by (simp add: stays)
next
  case (Cons k ks)
  then show ?case
    by (auto intro!: stays_andThen stays_ret page_set_stays blind_stays [OF blind_calls(7)] split: option.split)
qed

lemma fetch_balances_stays:
  assumes "F = (xs, r, a, b', c, False)"
  shows "stays (\<lambda>b. flags (br_page b) = F) (fetchMultipleBalances kit rpc ks)"
  unfolding fetchMultipleBalances_def
proof (rule toggled_stays [where G = "(xs, r, a, b', c, True)"])
  show "stays (\<lambda>b. flags (br_page b) = (xs, r, a, b', c, True))
      (andThen (read_balances kit rpc ks []) (\<lambda>bs. page_set (\<lambda>p. p\<lparr>ap_balances := spread (ap_balances p) bs\<rparr>)))"
    by (intro stays_andThen read_balances_stays page_set_stays) simp
qed (simp_all add: flags_def assms)

text \<open>Loading the account lowers \<open>ap_loading\<close>, whatever it was.\<close>

lemma load_lowers:
  assumes "flags (br_page b) = ((l, a1, a2, a3, a4), r, a, b', c, False)"
  shows "flags (br_page (snd (loadAccount kit (Some k) rpc b))) = ((False, a1, a2, a3, a4), r, a, b', c, False)"
  unfolding loadAccount_def option.case
proof (rule toggled [OF _ _ _ assms, where G = "((True, a1, a2, a3, a4), r, a, b', c, False)"])
  let ?G = "((True, a1, a2, a3, a4), r, a, b', c, False)"
  show "stays (\<lambda>b. flags (br_page b) = ?G)
      (catch (andThen (fetch_account kit (wk_account_pda kit k)) (\<lambda>data. andThen (page_set (\<lambda>p. p\<lparr>ap_account := Some data\<rparr>)) (\<lambda>v.
          if ab_operators data \<noteq> [] then fetchMultipleBalances kit rpc (map (fst \<circ> snd) (ab_operators data)) else ret ())))
        (\<lambda>e. page_set (\<lambda>p. p\<lparr>ap_account := None\<rparr>)))"
    by (auto intro!: stays_andThen stays_catch page_set_stays stays_ret fetch_balances_stays blind_stays [OF blind_calls(9)])
qed (simp_all add: flags_def)

lemma load_stays:
  assumes "F = ((False, a1, a2, a3, a4), r, a, b', c, False)"
  shows "stays (\<lambda>b. flags (br_page b) = F) (reload kit b0)"
  using load_lowers [where l = False] by (cases "br_wallet b0") (auto simp: reload_def stays_def assms loadAccount_def ret_def)

lemma tail_stays:
  assumes "F = ((False, a1, a2, a3, a4), r, a, b', c, False)" and "\<And>p. flags (f p) = flags p"
  shows "stays (\<lambda>b. flags (br_page b) = F) (andThen (page_set f) (\<lambda>v. reload kit b0))"
  by (intro stays_andThen page_set_stays load_stays [OF assms(1)]) (simp add: assms(2))

lemma blind_flags: "page_blind c \<Longrightarrow> stays (\<lambda>b. flags (br_page b) = F) c"
  by (rule blind_stays)

lemmas call_stays = blind_base(1,3) [THEN blind_flags] blind_calls [THEN blind_flags]

lemma settle_stays:
  assumes "stays (\<lambda>b. flags (br_page b) = F) rest"
  shows "stays (\<lambda>b. flags (br_page b) = F) (build_settle kit path body message rest)"
  unfolding build_settle_def by (intro stays_andThen assms blind_stays blind)

text \<open>Every handler leaves an idle page idle, however its requests end.\<close>

lemma guarded_idle:
  assumes "stays (\<lambda>b. flags (br_page b) = G) c"
    and "\<And>p. idle p \<Longrightarrow> flags (raise p) = G" and "\<And>p. flags p = G \<Longrightarrow> idle (lower p)" and "idle (br_page b)"
  shows "idle (br_page (snd (guarded kit fallback raise lower c b)))"
  using guarded_stays [OF assms(1), of _ raise lower kit fallback] assms(2-4) unfolding idle_def stays_def by blast

definition only :: "nat \<Rightarrow> flag_values" where
  "only i = ((False, i = 1, i = 2, i = 3, i = 4), (None, i = 5, i = 6, i = 7, False))"

lemma only_stays:
  "stays (\<lambda>b. flags (br_page b) = only i) (reload kit b0)"
  "(\<And>p. flags (f p) = flags p) \<Longrightarrow> stays (\<lambda>b. flags (br_page b) = only i) (andThen (page_set f) (\<lambda>v. reload kit b0))"
  by (simp_all add: only_def load_stays tail_stays)

lemma show_toast_idle: "idle (br_page b) \<Longrightarrow> idle (br_page (snd (show_toast k m b)))"
  by (simp add: show_toast_def change_def)

lemma page_set_idle: "(\<And>p. flags (f p) = flags p) \<Longrightarrow> idle (br_page b) \<Longrightarrow> idle (br_page (snd (page_set f b)))"
  by (simp add: page_set_def change_def on_page_def idle_def)

lemma pushed_stays: "stays (\<lambda>b. flags (br_page b) = F) (change (\<lambda>b. b\<lparr>br_pushed := br_pushed b @ [x]\<rparr>))"
  by (rule stays_change) simp

lemma handlers_idle:
  assumes "idle (br_page b)"
  shows "idle (br_page (snd (dash_handler kit ev b)))"
proof (cases ev)
  note guarded = guarded_idle [OF _ _ _ assms]
  note steps = stays_andThen settle_stays only_stays call_stays page_set_stays pushed_stays
  note [simp] = ret_def assms show_toast_idle page_set_idle
  {
    case Mounted
    have "flags (br_page b) = only 0" using assms by (simp add: idle_def only_def)
    then have "flags (br_page (snd (reload kit b b))) = only 0" using only_stays(1) [of 0 kit b] unfolding stays_def by blast
    then show ?thesis by (simp add: Mounted idle_def only_def)
  next
    case ClickFaucet
    show ?thesis unfolding ClickFaucet dash_handler.simps handleGetUsdc_def
      by (auto intro!: guarded [where G = "only 2"] steps) (simp_all add: flags_def idle_def only_def)
  next
    case ClickDeposit
    show ?thesis unfolding ClickDeposit dash_handler.simps handleDeposit_def Let_def
      by (auto intro!: guarded [where G = "only 1"] steps split: option.split) (simp_all add: flags_def idle_def only_def)
  next
    case ClickWithdraw
    show ?thesis unfolding ClickWithdraw dash_handler.simps handleWithdraw_def Let_def
      by (auto intro!: guarded [where G = "only 3"] steps split: option.split) (simp_all add: flags_def idle_def only_def)
  next
    case ClickAddOperator
    show ?thesis unfolding ClickAddOperator dash_handler.simps handleAddOperator_def Let_def
      by (auto intro!: guarded [where G = "only 4"] steps split: option.split) (simp_all add: flags_def idle_def only_def)
  next
    case (ClickFund k)
    show ?thesis unfolding ClickFund dash_handler.simps handleFundOperator_def Let_def
      by (auto intro!: guarded [where G = "only 5"] steps split: option.split) (simp_all add: flags_def idle_def only_def)
  next
    case ClickPause
    show ?thesis unfolding ClickPause dash_handler.simps handleTogglePause_def
      by (auto intro!: guarded [where G = "only 6"] steps split: option.split) (simp_all add: flags_def idle_def only_def)
  next
    case ClickClose
    show ?thesis unfolding ClickClose dash_handler.simps handleCloseAccount_def
      by (auto intro!: guarded [where G = "only 7"] steps split: option.split) (simp_all add: flags_def idle_def only_def)
  next
    case (ClickRemove k)
    show ?thesis unfolding ClickRemove dash_handler.simps handleRemoveOperator_def
      by (auto intro!: guarded [where G = "((False, False, False, False, False), (Some k, False, False, False, False))"] load_stays steps
          split: option.split) (simp_all add: flags_def idle_def only_def)
  }
qed (simp_all add: page_set_idle assms)

lemma run_idle: "idle (br_page b) \<Longrightarrow> idle (br_page (dash_run kit evs b))"
  by (induction evs arbitrary: b) (simp_all add: dash_run_def dash_event_def handlers_idle)

lemma mounted_idle:
  assumes "br_page b = initial_dashboard" and "br_wallet b = Some k" and "br_status b = Connected"
  shows "idle (br_page (dash_event kit Mounted b))"
proof -
  have "flags (br_page b) = ((True, False, False, False, False), None, False, False, False, False)"
    by (simp add: assms(1) initial_dashboard_def flags_def)
  from load_lowers [OF this] show ?thesis by (simp add: dash_event_def reload_def assms idle_def)
qed
text \<open>C28. The account dashboard never stays locked. Started with a connected wallet, in any
  sequence of the events the page offers, whatever the server, the wallet and the RPC node answer or
  throw, every flag that disables a button or hides the page is lowered again when the handlers have
  run: \<^verbatim>\<open>finally\<close> covers every exit.\<close>

theorem dashboard_settles:
  assumes "br_page b = initial_dashboard" and "br_wallet b = Some k" and "br_status b = Connected"
  shows "idle (br_page (dash_run kit (Mounted # evs) b))"
  using run_idle [OF mounted_idle [OF assms], of kit evs kit] by (simp add: dash_run_def)

definition sample_account_json :: json where
  "sample_account_json =
     JsObj [(''pda'', JsText ''P''), (''owner'', JsText ''O''), (''mint'', JsText ''M''), (''mintDecimals'', JsNum (Fin 6)),
       (''isPaused'', JsBool False), (''balance'', JsNum (Fin 0)), (''operators'', JsArr []), (''driftUser'', JsNull),
       (''principalBalance'', JsText ''0'')]"

definition sample_web_server :: "http_request \<Rightarrow> unit \<Rightarrow> (axios_failure + json) \<times> unit" where
  "sample_web_server r s =
     (Inr (if rq_method r = ''GET'' then JsObj [(''data'', sample_account_json)]
           else JsObj [(''data'', JsObj [(''transaction'', JsText ''T''), (''accountPda'', JsText ''P''), (''txid'', JsText ''S'')])]), s)"

definition sample_web_kit :: "unit web_kit" where
  "sample_web_kit =
     \<lparr>wk_send = sample_web_server, wk_env = (\<lambda>k. None), wk_window = True, wk_is_error = (\<lambda>e. True), wk_is_key = (\<lambda>s. True),
      wk_account_pda = (\<lambda>k. ''P''), wk_can_sign = True, wk_sign = (\<lambda>t. Inr (t @ ''!'')), wk_sign_sol = (\<lambda>t. Inr ''R''),
      wk_transfer_ix = (\<lambda>a b n. Inr ()), wk_blockhash = (\<lambda>u s. (Inr ''B'', s)), wk_send_raw = (\<lambda>u t s. (Inr ''S'', s)),
      wk_confirm = (\<lambda>u t s. (Inr (), s)), wk_balance = (\<lambda>u k s. (Inr (Fin 0), s)), wk_number = (\<lambda>s. parseFloat s)\<rparr>"

definition sample_tab :: "'p \<Rightarrow> ('p, unit) browser" where
  "sample_tab p =
     \<lparr>br_page = p, br_cluster = ''devnet'', br_storage = Some ''devnet'', br_clients = [], br_wallet = Some ''W'',
      br_status = Connected, br_walletBalance = None, br_balanceLoading = False, br_transfers = Some (JsArr []),
      br_transfersLoading = False, br_toasts = [], br_pushed = [], br_server = (), br_sent = []\<rparr>"

lemmas sample_web = sample_web_kit_def sample_web_server_def sample_tab_def sample_account_json_def

lemmas read_simps = read_detail_def body_of_json_def detail_slots_def text_field_def nat_field_def num_field_def bool_field_def
  as_text_def as_list_def jget_def member_def

lemmas web_run = andThen_def catch_def afterwards_def change_def ret_def lift_def on_page_def page_set_def
  web_request_def getApi_def Let_def

lemma sample_loaded:
  "ap_account (br_page (dash_event sample_web_kit Mounted (sample_tab initial_dashboard))) \<noteq> None"
  by (simp add: dash_event_def reload_def loadAccount_def fetch_account_def api_get_def sample_web web_run read_simps
      resolveApiUrl_def cluster_api_url_def read_cluster_def or_text_def truthy_string_def request_of_def)

theorem dashboard_settles_witness:
  "idle (br_page (dash_run sample_web_kit [Mounted, TypeDeposit ''5'', ClickDeposit] (sample_tab initial_dashboard)))"
  by (rule dashboard_settles [where k = "''W''"]) (simp_all add: sample_tab_def)

end
