(* ===== verification/WebSetup.thy ===== *)
theory WebSetup
  imports WebAccount "HOL-Library.Sublist"
begin

text \<open>
  The set-up wizard of the web application (\<^verbatim>\<open>app/account/setup/page.tsx\<close>): its four steps, the
  handlers that create and fund an account, and the events the rendered step offers. \<open>sp_agent\<close> is the
  \<^verbatim>\<open>agent\<close> parameter of the location, which does not change while the page is shown; \<open>sp_mounted\<close> tells that
  the effect without dependencies has run: it runs once, when the page is mounted. (Neither the
  page nor a provider around it has a key, so a switch of the network does not mount it again.)
\<close>

section \<open>The page\<close>

datatype step = Connect | Configure | Fund | Done

record wizard_page =
  sp_agent :: "string option"
  sp_step :: step
  sp_perTxLimit :: string
  sp_solFundingAmount :: string
  sp_depositAmount :: string
  sp_accountPda :: string
  sp_usdcMint :: string
  sp_isCreating :: bool
  sp_isFunding :: bool
  sp_isFundingSol :: bool
  sp_isAirdropping :: bool
  sp_isFauceting :: bool
  sp_didFund :: bool
  sp_mounted :: bool

definition initial_setup :: "string option \<Rightarrow> wizard_page" where
  "initial_setup agent =
     \<lparr>sp_agent = agent, sp_step = Connect, sp_perTxLimit = ''5'', sp_solFundingAmount = ''0.1'', sp_depositAmount = ''5'',
      sp_accountPda = [], sp_usdcMint = [], sp_isCreating = False, sp_isFunding = False, sp_isFundingSol = False,
      sp_isAirdropping = False, sp_isFauceting = False, sp_didFund = False, sp_mounted = False\<rparr>"

type_synonym 'w wizard = "(wizard_page, 'w) browser"
type_synonym 'w setup_handler = "(wizard_page, 'w, unit) web"

definition setup_set :: "(wizard_page \<Rightarrow> wizard_page) \<Rightarrow> 'w setup_handler" where
  "setup_set f = change (on_page f)"

definition truncate_key :: "string option \<Rightarrow> string" where
  "truncate_key s =
     (case truthy_string s of
        None \<Rightarrow> []
      | Some t \<Rightarrow> if 12 < length t then take 6 t @ ''...'' @ slice_last 4 t else t)"

text \<open>The parameter of the agent; without one, or with an empty one, the wizard creates an account that has no operator.\<close>

definition agent_of :: "wizard_page \<Rightarrow> string option" where
  "agent_of p = truthy_string (sp_agent p)"

definition agentValid :: "'w web_kit \<Rightarrow> wizard_page \<Rightarrow> bool" where
  "agentValid kit p = (case agent_of p of None \<Rightarrow> True | Some a \<Rightarrow> wk_is_key kit a)"

section \<open>The mint\<close>

text \<open>\<open>tokens.find(t => t.symbol === 'USDC')\<close>; an element that is \<open>null\<close> throws, an answer that is no
  array has no \<open>find\<close>.\<close>

fun usdc_of_tokens :: "json list \<Rightarrow> json option result" where
  "usdc_of_tokens [] = Inr None"
| "usdc_of_tokens (t # ts) =
     bind_result (member (Some t) ''symbol'') (\<lambda>s. if s = Some (JsText ''USDC'') then Inr (Some t) else usdc_of_tokens ts)"

text \<open>The effect that runs once, when the page is mounted. An error is ignored.\<close>

definition load_mint :: "'w web_kit \<Rightarrow> 'w setup_handler" where
  "load_mint kit =
     catch
       (andThen (api_get kit ''/api/tokens'') (\<lambda>d.
        andThen (lift (data_member d ''tokens'')) (\<lambda>tokens.
        andThen (lift (case as_list tokens of None \<Rightarrow> Inl type_error | Some ts \<Rightarrow> usdc_of_tokens ts)) (\<lambda>usdc.
          case usdc of
            None \<Rightarrow> ret ()
          | Some t \<Rightarrow> setup_set (\<lambda>p. p\<lparr>sp_usdcMint := (case as_text (jget t ''mint'') of None \<Rightarrow> [] | Some m \<Rightarrow> m)\<rparr>)))))
       (\<lambda>e. ret ())"

section \<open>Creating the account\<close>

definition create_account_body :: "string \<Rightarrow> string \<Rightarrow> (string \<times> double) option \<Rightarrow> json" where
  "create_account_body owner mint agent =
     JsObj ([(''owner'', JsText owner), (''mint'', JsText mint)]
       @ (case agent of None \<Rightarrow> [] | Some (a, limit) \<Rightarrow> [(''operator'', JsText a), (''perTxLimit'', JsNum limit)]))"

text \<open>Building, approving and submitting; a missing \<open>accountPda\<close> is kept as the empty text, which the page
  treats alike.\<close>

definition create_and_submit :: "'w web_kit \<Rightarrow> json \<Rightarrow> (wizard_page, 'w, string) web" where
  "create_and_submit kit body =
     andThen (api_post kit ''/api/account/create'' body) (\<lambda>d.
     andThen (lift (data_member d ''transaction'')) (\<lambda>tx.
     andThen (lift (data_member d ''accountPda'')) (\<lambda>pda.
     andThen (approve_and_submit kit tx) (\<lambda>txid.
     andThen (tx_toast kit ''Account created! TX: '' txid) (\<lambda>u.
       ret (case as_text pda of None \<Rightarrow> [] | Some a \<Rightarrow> a))))))"

definition usdc_units :: "double \<Rightarrow> double" where
  "usdc_units n = d_mul n (num_of_int 1000000)"

text \<open>Without an agent an error leads back to the first step.\<close>

definition handleCreateWithoutAgent :: "'w web_kit \<Rightarrow> 'w setup_handler" where
  "handleCreateWithoutAgent kit b =
     (let p0 = br_page b in
      if walletAddress b = [] \<or> sp_usdcMint p0 = [] then ret ()
      else andThen (setup_set (\<lambda>p. p\<lparr>sp_isCreating := True\<rparr>)) (\<lambda>u.
        afterwards
          (catch
             (andThen (create_and_submit kit (create_account_body (walletAddress b) (sp_usdcMint p0) None)) (\<lambda>pda.
                setup_set (\<lambda>p. p\<lparr>sp_accountPda := pda, sp_step := Fund\<rparr>)))
             (\<lambda>e. andThen (show_toast ToastError (error_text kit e ''Failed to create account''))
                   (\<lambda>v. setup_set (\<lambda>p. p\<lparr>sp_step := Connect\<rparr>))))
          (on_page (\<lambda>p. p\<lparr>sp_isCreating := False\<rparr>)))) b"

text \<open>Funding the agent with SOL: a failure is a warning, the account exists.\<close>

definition fund_agent :: "'w web_kit \<Rightarrow> string \<Rightarrow> string \<Rightarrow> string \<Rightarrow> double \<Rightarrow> 'w setup_handler" where
  "fund_agent kit rpc wallet agent n =
     andThen (setup_set (\<lambda>p. p\<lparr>sp_isFundingSol := True\<rparr>)) (\<lambda>u.
       afterwards
         (catch
            (andThen (web_transferSol kit rpc wallet agent n) (\<lambda>txid.
               tx_toast kit (''Agent funded with '' @ sol_sign @ num_to_string n @ '' SOL! TX: '') (Some (JsText txid))))
            (\<lambda>e. show_toast ToastWarn (''Account created but SOL funding failed: '' @ error_text kit e ''SOL transfer failed'')))
         (on_page (\<lambda>p. p\<lparr>sp_isFundingSol := False\<rparr>)))"

definition handleCreate :: "'w web_kit \<Rightarrow> 'w setup_handler" where
  "handleCreate kit b =
     (let p0 = br_page b; limitNum = float_or_zero (sp_perTxLimit p0); solNum = float_or_zero (sp_solFundingAmount p0) in
      case agent_of p0 of
        None \<Rightarrow> ret ()
      | Some agent \<Rightarrow>
          if walletAddress b = [] \<or> sp_usdcMint p0 = [] then ret ()
          else guarded kit ''Failed to create account''
                 (\<lambda>p. p\<lparr>sp_isCreating := True\<rparr>) (\<lambda>p. p\<lparr>sp_isCreating := False\<rparr>)
                 (andThen (create_and_submit kit
                             (create_account_body (walletAddress b) (sp_usdcMint p0) (Some (agent, usdc_units limitNum)))) (\<lambda>pda.
                  andThen (setup_set (\<lambda>p. p\<lparr>sp_accountPda := pda\<rparr>)) (\<lambda>u.
                  andThen (if d_less (Fin 0) solNum
                           then fund_agent kit (rpc_url kit (br_cluster b)) (walletAddress b) agent solNum else ret ()) (\<lambda>v.
                    setup_set (\<lambda>p. p\<lparr>sp_step := Fund\<rparr>)))))) b"

section \<open>Funding it\<close>

definition setupGetUsdc :: "'w web_kit \<Rightarrow> 'w setup_handler" where
  "setupGetUsdc kit b =
     (if walletAddress b = [] then ret ()
      else guarded kit ''Faucet request failed''
             (\<lambda>p. p\<lparr>sp_isFauceting := True\<rparr>) (\<lambda>p. p\<lparr>sp_isFauceting := False\<rparr>)
             (andThen (requestFaucet kit (walletAddress b) ''usdc'') (\<lambda>d. show_toast ToastSuccess ''Devnet USDC received!''))) b"

definition handleFund :: "'w web_kit \<Rightarrow> 'w setup_handler" where
  "handleFund kit b =
     (let p0 = br_page b; depositNum = float_or_zero (sp_depositAmount p0) in
      if walletAddress b = [] \<or> sp_accountPda p0 = [] then ret ()
      else guarded kit ''Failed to fund account''
             (\<lambda>p. p\<lparr>sp_isFunding := True\<rparr>) (\<lambda>p. p\<lparr>sp_isFunding := False\<rparr>)
             (andThen (build_and_submit kit ''/api/account/deposit''
                         (deposit_body (walletAddress b) (sp_accountPda p0) (usdc_units depositNum)) ''Account funded! TX: '') (\<lambda>u.
                setup_set (\<lambda>p. p\<lparr>sp_didFund := True, sp_step := Done\<rparr>)))) b"

definition handleAirdropSol :: "'w web_kit \<Rightarrow> 'w setup_handler" where
  "handleAirdropSol kit b =
     (case agent_of (br_page b) of
        None \<Rightarrow> ret ()
      | Some agent \<Rightarrow>
          guarded kit ''Airdrop failed''
            (\<lambda>p. p\<lparr>sp_isAirdropping := True\<rparr>) (\<lambda>p. p\<lparr>sp_isAirdropping := False\<rparr>)
            (andThen (requestFaucet kit agent ''sol'') (\<lambda>d. show_toast ToastSuccess ''SOL airdropped to agent!''))) b"

section \<open>The events\<close>

datatype setup_event =
    LoadMint
  | WalletReports bool bool "string option"
  | AutoAdvance
  | PickCluster string
  | EditLimit string
  | EditSol string
  | EditDeposit string
  | ClickCreatePlain
  | ClickCreate
  | ClickFaucet
  | ClickSkip
  | ClickFund
  | ClickAirdrop

text \<open>Effects of React run when their inputs change, header and wallet may act at any time; a control
  acts when its step is drawn and it is not disabled.\<close>

fun setup_offered :: "setup_event \<Rightarrow> 'w wizard \<Rightarrow> bool" where
  "setup_offered LoadMint b \<longleftrightarrow> \<not> sp_mounted (br_page b)"
| "setup_offered (WalletReports c u k) b \<longleftrightarrow> True"
| "setup_offered AutoAdvance b \<longleftrightarrow> sp_step (br_page b) = Connect \<and> br_status b = Connected \<and> agent_of (br_page b) \<noteq> None"
| "setup_offered (PickCluster c) b \<longleftrightarrow> is_cluster (Some c)"
| "setup_offered (EditLimit s) b \<longleftrightarrow> sp_step (br_page b) = Configure \<and> agent_of (br_page b) \<noteq> None"
| "setup_offered (EditSol s) b \<longleftrightarrow> sp_step (br_page b) = Configure \<and> agent_of (br_page b) \<noteq> None"
| "setup_offered (EditDeposit s) b \<longleftrightarrow> sp_step (br_page b) = Fund"
| "setup_offered ClickCreatePlain b \<longleftrightarrow> sp_step (br_page b) = Connect \<and> agent_of (br_page b) = None
     \<and> br_status b = Connected \<and> \<not> sp_isCreating (br_page b) \<and> sp_usdcMint (br_page b) \<noteq> []"
| "setup_offered ClickCreate b \<longleftrightarrow> sp_step (br_page b) = Configure \<and> agent_of (br_page b) \<noteq> None
     \<and> \<not> sp_isCreating (br_page b) \<and> \<not> sp_isFundingSol (br_page b) \<and> sp_usdcMint (br_page b) \<noteq> []
     \<and> \<not> d_le (float_or_zero (sp_perTxLimit (br_page b))) (Fin 0)"
| "setup_offered ClickFaucet b \<longleftrightarrow> sp_step (br_page b) = Fund \<and> br_cluster b = ''devnet'' \<and> \<not> sp_isFauceting (br_page b)"
| "setup_offered ClickSkip b \<longleftrightarrow> sp_step (br_page b) = Fund \<and> \<not> sp_isFunding (br_page b)"
| "setup_offered ClickFund b \<longleftrightarrow> sp_step (br_page b) = Fund \<and> \<not> sp_isFunding (br_page b)
     \<and> \<not> d_le (float_or_zero (sp_depositAmount (br_page b))) (Fin 0)"
| "setup_offered ClickAirdrop b \<longleftrightarrow> sp_step (br_page b) = Fund \<and> br_cluster b = ''devnet'' \<and> \<not> sp_isAirdropping (br_page b)"

fun setup_handler :: "'w web_kit \<Rightarrow> setup_event \<Rightarrow> 'w setup_handler" where
  "setup_handler kit LoadMint b = andThen (setup_set (\<lambda>p. p\<lparr>sp_mounted := True\<rparr>)) (\<lambda>u. load_mint kit) b"
| "setup_handler kit (WalletReports c u k) b = wallet_effect kit c u k b"
| "setup_handler kit AutoAdvance b = setup_set (\<lambda>p. p\<lparr>sp_step := Configure\<rparr>) b"
| "setup_handler kit (PickCluster c) b = change (setCluster c) b"
| "setup_handler kit (EditLimit s) b = setup_set (\<lambda>p. p\<lparr>sp_perTxLimit := s\<rparr>) b"
| "setup_handler kit (EditSol s) b = setup_set (\<lambda>p. p\<lparr>sp_solFundingAmount := s\<rparr>) b"
| "setup_handler kit (EditDeposit s) b = setup_set (\<lambda>p. p\<lparr>sp_depositAmount := s\<rparr>) b"
| "setup_handler kit ClickCreatePlain b = handleCreateWithoutAgent kit b"
| "setup_handler kit ClickCreate b = handleCreate kit b"
| "setup_handler kit ClickFaucet b = setupGetUsdc kit b"
| "setup_handler kit ClickSkip b = setup_set (\<lambda>p. p\<lparr>sp_step := Done\<rparr>) b"
| "setup_handler kit ClickFund b = handleFund kit b"
| "setup_handler kit ClickAirdrop b = handleAirdropSol kit b"

text \<open>An agent that is no public key shows the explainer instead of the wizard: then only the effects
  before that return, the header and the wallet act.\<close>

definition wizard_drawn :: "'w web_kit \<Rightarrow> setup_event \<Rightarrow> 'w wizard \<Rightarrow> bool" where
  "wizard_drawn kit ev b \<longleftrightarrow>
     agentValid kit (br_page b) \<or> (case ev of LoadMint \<Rightarrow> True | WalletReports c u k \<Rightarrow> True | PickCluster c \<Rightarrow> True | _ \<Rightarrow> False)"

definition setup_event :: "'w web_kit \<Rightarrow> setup_event \<Rightarrow> 'w wizard \<Rightarrow> 'w wizard" where
  "setup_event kit ev b =
     (if wizard_drawn kit ev b \<and> setup_offered ev b then snd (setup_handler kit ev b) else b)"

definition setup_run :: "'w web_kit \<Rightarrow> setup_event list \<Rightarrow> 'w wizard \<Rightarrow> 'w wizard" where
  "setup_run kit evs b = foldl (\<lambda>b ev. setup_event kit ev b) b evs"

section \<open>What the wizard has done\<close>

text \<open>An account was created for the agent: a request built it with an owner, a mint and, given an agent, a
  positive limit for it, and its transaction was submitted. It was funded: after that a deposit was
  built and submitted.\<close>

definition creates :: "string option \<Rightarrow> http_request \<Rightarrow> bool" where
  "creates agent r \<longleftrightarrow> rq_path r = ''/api/account/create'' \<and>
     (\<exists>owner mint n. owner \<noteq> [] \<and> mint \<noteq> [] \<and> \<not> d_le n (Fin 0) \<and>
        rq_body r = json_stored (create_account_body owner mint (map_option (\<lambda>a. (a, usdc_units n)) agent)))"

definition agent_account_created :: "string option \<Rightarrow> http_request list \<Rightarrow> bool" where
  "agent_account_created agent rs \<longleftrightarrow> (\<exists>r1 r2. subseq [r1, r2] rs \<and> creates agent r1 \<and> rq_path r2 = ''/api/tx/submit'')"

definition funded_by :: "string option \<Rightarrow> http_request list \<Rightarrow> bool" where
  "funded_by agent rs \<longleftrightarrow> (\<exists>r1 r2 r3 r4. subseq [r1, r2, r3, r4] rs \<and> creates agent r1 \<and> rq_path r2 = ''/api/tx/submit''
     \<and> rq_path r3 = ''/api/account/deposit'' \<and> rq_path r4 = ''/api/tx/submit'')"

definition wizard_inv :: "string option \<Rightarrow> 'w wizard \<Rightarrow> bool" where
  "wizard_inv agent b \<longleftrightarrow>
     agent_of (br_page b) = agent
     \<and> (sp_step (br_page b) = Configure \<longrightarrow> agent \<noteq> None)
     \<and> (sp_step (br_page b) = Fund \<or> sp_step (br_page b) = Done \<longrightarrow> agent_account_created agent (br_sent b))
     \<and> (sp_didFund (br_page b) \<longrightarrow> sp_step (br_page b) = Done \<and> funded_by agent (br_sent b))"

lemma done_mono: "prefix rs rs' \<Longrightarrow> agent_account_created agent rs \<Longrightarrow> agent_account_created agent rs'"
  "prefix rs rs' \<Longrightarrow> funded_by agent rs \<Longrightarrow> funded_by agent rs'"
  unfolding agent_account_created_def funded_by_def by (blast intro: subseq_order.trans prefix_imp_subseq)+

text \<open>What a page shows that the invariant depends on.\<close>

definition progress :: "wizard_page \<Rightarrow> string option \<times> step \<times> bool" where
  "progress p = (sp_agent p, sp_step p, sp_didFund p)"

lemma inv_mono:
  assumes "wizard_inv agent b" and "progress (br_page b') = progress (br_page b)" and "prefix (br_sent b) (br_sent b')"
  shows "wizard_inv agent b'"
  using assms done_mono [OF assms(3)] by (simp add: wizard_inv_def progress_def agent_of_def)

section \<open>Requests only accumulate\<close>

lemma grows_base [stays]:
  "stays (\<lambda>b. prefix rs (br_sent b)) (show_toast k m)" "stays (\<lambda>b. prefix rs (br_sent b)) (outside f)"
  "stays (\<lambda>b. prefix rs (br_sent b)) (tx_toast kit label txid)" "stays (\<lambda>b. prefix rs (br_sent b)) (web_request kit meth path body)"
  "stays (\<lambda>b. prefix rs (br_sent b)) (setup_set g)"
  by (auto intro!: staysI simp: show_toast_def change_def outside_def tx_toast_def web_request_def getApi_def andThen_def Let_def
      setup_set_def on_page_def split: prod.splits option.splits sum.splits)

lemma grows_calls [stays]:
  "stays (\<lambda>b. prefix rs (br_sent b)) (api_get kit path)" "stays (\<lambda>b. prefix rs (br_sent b)) (api_post kit path body)"
  "stays (\<lambda>b. prefix rs (br_sent b)) (post_for kit path body k)" "stays (\<lambda>b. prefix rs (br_sent b)) (approve_and_submit kit tx)"
  "stays (\<lambda>b. prefix rs (br_sent b)) (web_transferSol kit rpc source target n)"
  "stays (\<lambda>b. prefix rs (br_sent b)) (requestFaucet kit wallet token)"
  "stays (\<lambda>b. prefix rs (br_sent b)) (create_and_submit kit body)"
  "stays (\<lambda>b. prefix rs (br_sent b)) (build_and_submit kit path body label)"
  by (auto intro!: stays split: option.split simp: api_get_def api_post_def post_for_def approve_and_submit_def signAndSubmit_def
      web_transferSol_def requestFaucet_def create_and_submit_def build_and_submit_def Let_def)

lemma grows: "stays (\<lambda>b. prefix (br_sent b0) (br_sent b)) c \<Longrightarrow> prefix (br_sent b0) (br_sent (snd (c b0)))"
  by (simp add: stays_def)

section \<open>What a successful build sends\<close>

definition appended :: "('p, 'w) browser \<Rightarrow> (http_request \<Rightarrow> bool) list \<Rightarrow> ('p, 'w) browser \<Rightarrow> bool" where
  "appended b Ps b' \<longleftrightarrow> br_page b' = br_page b \<and> (\<exists>rs. br_sent b' = br_sent b @ rs \<and> list_all2 (\<lambda>P r. P r) Ps rs)"

lemma appended_trans: "appended b Ps b1 \<Longrightarrow> appended b1 Qs b2 \<Longrightarrow> appended b (Ps @ Qs) b2"
  by (auto simp: appended_def intro!: list_all2_appendI)

lemma request_appends:
  assumes "web_request kit meth path body b = (Inr d, b')"
  shows "appended b [\<lambda>r. rq_path r = path \<and> rq_body r = json_stored body] b'"
  using assms by (auto simp: web_request_def andThen_def getApi_def Let_def appended_def request_of_def
      split: prod.splits sum.splits option.splits)

lemma nothing_appends:
  "show_toast k m b = (Inr u, b') \<Longrightarrow> appended b [] b'" "tx_toast kit label txid b = (Inr u, b') \<Longrightarrow> appended b [] b'"
  by (auto simp: appended_def show_toast_def change_def tx_toast_def split: option.splits)

lemma post_appends:
  "post_for kit path body k b = (Inr x, b') \<Longrightarrow> appended b [\<lambda>r. rq_path r = path \<and> rq_body r = json_stored body] b'"
  by (auto simp: post_for_def api_post_def andThen_Inr dest: request_appends)

lemma submit_appends:
  assumes "approve_and_submit kit tx b = (Inr x, b')"
  shows "appended b [\<lambda>r. rq_path r = ''/api/tx/submit''] b'"
proof -
  obtain b1 signed where b1: "appended b [] b1" and s: "post_for kit ''/api/tx/submit'' (JsObj [(''signedTx'', JsText signed)]) ''txid'' b1 = (Inr x, b')"
    using assms by (auto simp: approve_and_submit_def signAndSubmit_def andThen_Inr dest: nothing_appends split: if_splits)
  from appended_trans [OF b1 post_appends [OF s]] show ?thesis by (auto simp: appended_def list_all2_Cons1)
qed

lemma create_appends:
  assumes "create_and_submit kit body b = (Inr pda, b')"
  shows "appended b [\<lambda>r. rq_path r = ''/api/account/create'' \<and> rq_body r = json_stored body, \<lambda>r. rq_path r = ''/api/tx/submit''] b'"
proof -
  from assms obtain d tx txid b1 b2 where "web_request kit ''POST'' ''/api/account/create'' body b = (Inr d, b1)"
      and "approve_and_submit kit tx b1 = (Inr txid, b2)" and "appended b2 [] b'"
    by (auto simp: create_and_submit_def api_post_def andThen_Inr dest: nothing_appends)
  then have "appended b ([\<lambda>r. rq_path r = ''/api/account/create'' \<and> rq_body r = json_stored body] @ [\<lambda>r. rq_path r = ''/api/tx/submit''] @ []) b'"
    by (blast intro: appended_trans request_appends submit_appends)
  then show ?thesis by simp
qed


lemma createsI:
  assumes "rq_path r = ''/api/account/create''" and "owner \<noteq> []" and "mint \<noteq> []" and "\<not> d_le n (Fin 0)"
    and "rq_body r = json_stored (create_account_body owner mint (map_option (\<lambda>a. (a, usdc_units n)) agent))"
  shows "creates agent r"
  using assms unfolding creates_def by blast

lemma pay_appends:
  assumes "build_and_submit kit path body label b = (Inr u, b')"
  shows "appended b [\<lambda>r. rq_path r = path \<and> rq_body r = json_stored body, \<lambda>r. rq_path r = ''/api/tx/submit''] b'"
proof -
  from assms obtain tx txid b1 b2 where "post_for kit path body ''transaction'' b = (Inr tx, b1)"
      and "approve_and_submit kit tx b1 = (Inr txid, b2)" and "appended b2 [] b'"
    by (auto simp: build_and_submit_def andThen_Inr dest: nothing_appends)
  then have "appended b ([\<lambda>r. rq_path r = path \<and> rq_body r = json_stored body] @ [\<lambda>r. rq_path r = ''/api/tx/submit''] @ []) b'"
    by (blast intro: appended_trans post_appends submit_appends)
  then show ?thesis by simp
qed

lemma blind_create [blind]: "page_blind (create_and_submit kit body)"
  by (auto intro!: blind split: option.split simp: create_and_submit_def)

lemma blind_page: "page_blind c \<Longrightarrow> br_page (snd (c b)) = br_page b"
  by (simp add: page_blind_def stays_def)

lemma after_catch:
  "snd (andThen (change f) (\<lambda>u. afterwards (catch body h) g) b)
     = g (case body (f b) of (Inl e, b1) \<Rightarrow> snd (h e b1) | (Inr x, b1) \<Rightarrow> b1)"
  by (simp add: andThen_def change_def snd_afterwards catch_def split: prod.split sum.split)

lemma created_appended: "creates agent r1 \<Longrightarrow> rq_path r2 = ''/api/tx/submit'' \<Longrightarrow> agent_account_created agent (rs @ [r1, r2])"
  unfolding agent_account_created_def by (rule exI [of _ r1], rule exI [of _ r2]) (simp add: list_emb_append2)

lemma funded_appended:
  assumes "agent_account_created agent rs" and "rq_path r3 = ''/api/account/deposit''" and "rq_path r4 = ''/api/tx/submit''"
  shows "funded_by agent (rs @ [r3, r4])"
proof -
  obtain r1 r2 where "subseq [r1, r2] rs" and c: "creates agent r1" "rq_path r2 = ''/api/tx/submit''"
    using assms(1) unfolding agent_account_created_def by blast
  then have "subseq ([r1, r2] @ [r3, r4]) (rs @ [r3, r4])" by (intro list_emb_append_mono) auto
  then show ?thesis using c assms(2,3) unfolding funded_by_def by auto
qed

lemma create_plain_inv:
  assumes "wizard_inv agent b" and "setup_offered ClickCreatePlain b"
  shows "wizard_inv agent (snd (handleCreateWithoutAgent kit b))"
proof (cases "walletAddress b = [] \<or> sp_usdcMint (br_page b) = []")
  case True
  then show ?thesis using assms(1) by (simp add: handleCreateWithoutAgent_def ret_def Let_def)
next
  case False
  let ?body = "create_account_body (walletAddress b) (sp_usdcMint (br_page b)) None"
  let ?b0 = "on_page (\<lambda>p. p\<lparr>sp_isCreating := True\<rparr>) b"
  obtain r b1 where run: "create_and_submit kit ?body ?b0 = (r, b1)" by force
  have page: "br_page b1 = br_page ?b0" using blind_page [OF blind_create, of kit ?body ?b0] run by simp
  have sent: "prefix (br_sent ?b0) (br_sent b1)" using grows [OF grows_calls(7), of ?b0 kit ?body] run by simp
  have agent: "agent = None" "sp_didFund (br_page b) = False" "sp_step (br_page b) = Connect" "agent_of (br_page b) = None"
    using assms by (auto simp: wizard_inv_def)
  note step = handleCreateWithoutAgent_def [of kit b, unfolded Let_def if_not_P [OF False] setup_set_def, THEN arg_cong [of _ _ snd], unfolded after_catch]
  show ?thesis
  proof (cases r)
    case (Inl e)
    with run page agent show ?thesis
      unfolding step by (simp add: andThen_def show_toast_def change_def on_page_def wizard_inv_def agent_of_def)
  next
    case (Inr pda)
    with run have "appended ?b0 [\<lambda>r. rq_path r = ''/api/account/create'' \<and> rq_body r = json_stored ?body, \<lambda>r. rq_path r = ''/api/tx/submit''] b1"
      using create_appends by blast
    then obtain r1 r2 where s: "br_sent b1 = br_sent b @ [r1, r2]" "rq_path r1 = ''/api/account/create''" "rq_body r1 = json_stored ?body"
        "rq_path r2 = ''/api/tx/submit''"
      by (auto simp: appended_def list_all2_Cons1 on_page_def)
    have "agent_account_created None (br_sent b1)"
      unfolding s(1) using False s
      by (intro created_appended createsI [of r1 "walletAddress b" "sp_usdcMint (br_page b)" "Fin 1"]) (simp_all add: d_le_def d_less_def)
    with run Inr page agent show ?thesis
      unfolding step by (simp add: andThen_def change_def on_page_def wizard_inv_def agent_of_def)
  qed
qed


text \<open>With an agent, what follows the submission cannot fail.\<close>

lemma fund_agent_runs: "\<exists>b'. fund_agent kit rpc wallet agent n b = (Inr (), b') \<and> progress (br_page b') = progress (br_page b)
    \<and> prefix (br_sent b) (br_sent b')"
proof -
  let ?f = "on_page (\<lambda>p. p\<lparr>sp_isFundingSol := True\<rparr>)"
  let ?body = "andThen (web_transferSol kit rpc wallet agent n) (\<lambda>txid.
               tx_toast kit (''Agent funded with '' @ sol_sign @ num_to_string n @ '' SOL! TX: '') (Some (JsText txid)))"
  let ?c = "catch ?body (\<lambda>e. show_toast ToastWarn (''Account created but SOL funding failed: '' @ error_text kit e ''SOL transfer failed''))"
  obtain r b1 where run: "?c (?f b) = (r, b1)" by force
  have "page_blind ?c" by (intro blind)
  then have page: "br_page b1 = br_page (?f b)" using blind_page [of ?c "?f b"] run by simp
  have "stays (\<lambda>x. prefix (br_sent (?f b)) (br_sent x)) ?c" by (intro stays)
  then have sent: "prefix (br_sent b) (br_sent b1)" using grows [of "?f b" ?c] run by (simp add: on_page_def)
  have "r = Inr ()" using run by (auto simp: catch_def show_toast_def change_def split: prod.splits sum.splits)
  then have "fund_agent kit rpc wallet agent n b = (Inr (), on_page (\<lambda>p. p\<lparr>sp_isFundingSol := False\<rparr>) b1)"
    using run by (simp add: fund_agent_def setup_set_def change_run afterwards_def)
  then show ?thesis using page sent by (simp add: on_page_def progress_def)
qed

lemma create_agent_inv:
  assumes "wizard_inv agent b" and "setup_offered ClickCreate b"
  shows "wizard_inv agent (snd (handleCreate kit b))"
proof (cases "walletAddress b = [] \<or> sp_usdcMint (br_page b) = []")
  case True
  then show ?thesis using assms(1) by (simp add: handleCreate_def ret_def Let_def split: option.split)
next
  case False
  obtain k where k: "agent = Some k" "agent_of (br_page b) = Some k" and st: "sp_step (br_page b) = Configure" "\<not> sp_didFund (br_page b)"
    using assms by (auto simp: wizard_inv_def)
  let ?n = "float_or_zero (sp_perTxLimit (br_page b))"
  let ?body = "create_account_body (walletAddress b) (sp_usdcMint (br_page b)) (Some (k, usdc_units ?n))"
  let ?b0 = "on_page (\<lambda>p. p\<lparr>sp_isCreating := True\<rparr>) b"
  let ?low = "on_page (\<lambda>p. p\<lparr>sp_isCreating := False\<rparr>)"
  obtain r b1 where run: "create_and_submit kit ?body ?b0 = (r, b1)" by force
  have page: "br_page b1 = br_page ?b0" using blind_page [OF blind_create, of kit ?body ?b0] run by simp
  have sent: "prefix (br_sent ?b0) (br_sent b1)" using grows [OF grows_calls(7), of ?b0 kit ?body] run by simp
  note step = handleCreate_def [of kit b, unfolded Let_def k(2) option.case if_not_P [OF False] guarded_def setup_set_def,
    THEN arg_cong [of _ _ snd], unfolded after_catch]
  show ?thesis
  proof (cases r)
    case (Inl e)
    with run have "snd (handleCreate kit b) = ?low (snd (show_toast ToastError (error_text kit e ''Failed to create account'') b1))"
      unfolding step by (simp add: andThen_def)
    then show ?thesis
      using page sent by (intro inv_mono [OF assms(1)]) (simp_all add: show_toast_def change_def on_page_def progress_def)
  next
    case (Inr pda)
    with run have "appended ?b0 [\<lambda>r. rq_path r = ''/api/account/create'' \<and> rq_body r = json_stored ?body, \<lambda>r. rq_path r = ''/api/tx/submit''] b1"
      using create_appends by blast
    then obtain r1 r2 where s: "br_sent b1 = br_sent b @ [r1, r2]" "rq_path r1 = ''/api/account/create''" "rq_body r1 = json_stored ?body"
        "rq_path r2 = ''/api/tx/submit''"
      by (auto simp: appended_def list_all2_Cons1 on_page_def)
    have "\<not> d_le ?n (Fin 0)" using assms(2) by simp
    then have "creates agent r1" using False s k by (intro createsI [of r1 "walletAddress b" "sp_usdcMint (br_page b)" ?n]) simp_all
    then have made: "agent_account_created agent (br_sent b1)"
      unfolding s(1) using s(4) by (rule created_appended)
    let ?b2 = "on_page (\<lambda>p. p\<lparr>sp_accountPda := pda\<rparr>) b1"
    let ?c = "if d_less (Fin 0) (float_or_zero (sp_solFundingAmount (br_page b)))
              then fund_agent kit (rpc_url kit (br_cluster b)) (walletAddress b) k (float_or_zero (sp_solFundingAmount (br_page b))) else ret ()"
    obtain b3 where b3: "?c ?b2 = (Inr (), b3)" "progress (br_page b3) = progress (br_page ?b2)" "prefix (br_sent ?b2) (br_sent b3)"
      using fund_agent_runs [of kit "rpc_url kit (br_cluster b)" "walletAddress b" k "float_or_zero (sp_solFundingAmount (br_page b))" ?b2]
      by (cases "d_less (Fin 0) (float_or_zero (sp_solFundingAmount (br_page b)))") (auto simp: ret_def)
    have r1: "andThen (create_and_submit kit ?body) F ?b0 = F pda b1" for F :: "string \<Rightarrow> 'a setup_handler"
      using run Inr by (simp add: andThen_def)
    have r2: "andThen ?c G ?b2 = G () b3" for G :: "unit \<Rightarrow> 'a setup_handler"
      by (simp only: andThen_def b3(1) prod.case sum.case)
    have "snd (handleCreate kit b) = ?low (on_page (\<lambda>p. p\<lparr>sp_step := Fund\<rparr>) b3)"
      unfolding step r1 change_run r2 by (simp add: change_def)
    moreover have "agent_account_created agent (br_sent b3)" using b3(3) made by (auto simp: on_page_def intro: done_mono(1))
    ultimately show ?thesis
      using b3(2) page st k by (simp add: wizard_inv_def on_page_def progress_def agent_of_def)
  qed
qed


lemma fund_inv:
  assumes "wizard_inv agent b" and "setup_offered ClickFund b"
  shows "wizard_inv agent (snd (handleFund kit b))"
proof (cases "walletAddress b = [] \<or> sp_accountPda (br_page b) = []")
  case True
  then show ?thesis using assms(1) by (simp add: handleFund_def ret_def Let_def)
next
  case False
  let ?n = "float_or_zero (sp_depositAmount (br_page b))"
  let ?body = "deposit_body (walletAddress b) (sp_accountPda (br_page b)) (usdc_units ?n)"
  let ?b0 = "on_page (\<lambda>p. p\<lparr>sp_isFunding := True\<rparr>) b"
  let ?pay = "build_and_submit kit ''/api/account/deposit'' ?body ''Account funded! TX: '' :: (wizard_page, 'a, unit) web"
  have made: "agent_account_created agent (br_sent b)" and st: "sp_step (br_page b) = Fund" "\<not> sp_didFund (br_page b)" and agent: "agent_of (br_page b) = agent"
    using assms by (auto simp: wizard_inv_def)
  obtain r b1 where run: "?pay ?b0 = (r, b1)" by force
  have "page_blind ?pay" by (intro blind)
  then have page: "br_page b1 = br_page ?b0" using blind_page [of ?pay ?b0] run by simp
  have "stays (\<lambda>x. prefix (br_sent ?b0) (br_sent x)) ?pay" by (intro stays)
  then have sent: "prefix (br_sent ?b0) (br_sent b1)" using grows [of ?b0 ?pay] run by simp
  note step = handleFund_def [of kit b, unfolded Let_def if_not_P [OF False] guarded_def setup_set_def,
    THEN arg_cong [of _ _ snd], unfolded after_catch]
  show ?thesis
  proof (cases r)
    case (Inl e)
    with run show ?thesis
      unfolding step using page sent
      by (intro inv_mono [OF assms(1)]) (simp_all add: andThen_fail show_toast_def change_def on_page_def progress_def)
  next
    case (Inr u)
    from pay_appends [OF run [unfolded Inr]]
    obtain r3 r4 where s: "br_sent b1 = br_sent b @ [r3, r4]" "rq_path r3 = ''/api/account/deposit''" "rq_path r4 = ''/api/tx/submit''"
      by (auto simp: appended_def list_all2_Cons1 on_page_def)
    have "funded_by agent (br_sent b1)" unfolding s(1) using made s(2,3) by (rule funded_appended)
    moreover have "agent_account_created agent (br_sent b1)" using made unfolding s(1) by (rule done_mono(1) [rotated]) simp
    ultimately show ?thesis
      unfolding step andThen_run [where c = ?pay, OF run [unfolded Inr]] using page agent
      by (simp add: change_def on_page_def wizard_inv_def agent_of_def)
  qed
qed


section \<open>The invariant\<close>

lemma balance_blind: "page_blind (wallet_effect kit c u k)" "stays (\<lambda>b. prefix rs (br_sent b)) (wallet_effect kit c u k)"
proof -
  have 1: "page_blind (change f)" if "\<And>b. br_page (f b) = br_page b" for f :: "('x, 'y) browser \<Rightarrow> ('x, 'y) browser"
    by (rule page_blindI) (simp add: change_def that)
  have 2: "page_blind (afterwards c' f)" if "page_blind c'" "\<And>b. br_page (f b) = br_page b" for c' :: "('x, 'y, unit) web" and f
    using that by (simp add: page_blind_def stays_def snd_afterwards)
  show "page_blind (wallet_effect kit c u k)"
    unfolding wallet_effect_def fetch_wallet_balance_def by (auto intro!: blind 1 2 split: option.split)
  show "stays (\<lambda>b. prefix rs (br_sent b)) (wallet_effect kit c u k)"
    unfolding wallet_effect_def fetch_wallet_balance_def by (auto intro!: stays stays_change stays_afterwards split: option.split)
qed

lemma mint_progress:
  "progress (br_page (snd (load_mint kit b))) = progress (br_page b)" "prefix (br_sent b) (br_sent (snd (load_mint kit b)))"
proof -
  have "stays (\<lambda>x. progress (br_page x) = progress (br_page b)) (setup_set (\<lambda>p. p\<lparr>sp_usdcMint := m\<rparr>))" for m
    unfolding setup_set_def by (rule stays_change) (simp add: on_page_def progress_def)
  then have "stays (\<lambda>x. progress (br_page x) = progress (br_page b)) (load_mint kit)"
    unfolding load_mint_def
    by (auto intro!: stays_catch stays_andThen stays_lift stays_ret blind_stays [OF blind_calls(1)] split: option.split)
  then show "progress (br_page (snd (load_mint kit b))) = progress (br_page b)" by (simp add: stays_def)
  have "stays (\<lambda>x. prefix (br_sent b) (br_sent x)) (load_mint kit)"
    unfolding load_mint_def by (auto intro!: stays split: option.split)
  then show "prefix (br_sent b) (br_sent (snd (load_mint kit b)))" by (rule grows)
qed

lemma guarded_progress:
  assumes "page_blind c" and "stays (\<lambda>x. prefix (br_sent b) (br_sent x)) c" and "\<And>p. progress (raise p) = progress p" and "\<And>p. progress (lower p) = progress p"
  shows "progress (br_page (snd (guarded kit fallback raise lower c b))) = progress (br_page b)"
    and "prefix (br_sent b) (br_sent (snd (guarded kit fallback raise lower c b)))"
proof -
  have "stays (\<lambda>x. progress (br_page x) = progress (br_page b)) (guarded kit fallback raise lower c)"
    unfolding guarded_def
    by (intro stays_andThen stays_change stays_afterwards stays_catch blind_stays [OF assms(1)] blind_stays [OF blind_base(1)])
      (simp_all add: on_page_def assms)
  then show "progress (br_page (snd (guarded kit fallback raise lower c b))) = progress (br_page b)" by (simp add: stays_def)
  have "stays (\<lambda>x. prefix (br_sent b) (br_sent x)) (guarded kit fallback raise lower c)"
    unfolding guarded_def by (intro stays_andThen stays_change stays_afterwards stays_catch assms(2) grows_base) (simp_all add: on_page_def)
  then show "prefix (br_sent b) (br_sent (snd (guarded kit fallback raise lower c b)))" by (rule grows)
qed

lemma side_inv:
  assumes "wizard_inv agent b"
  shows "wizard_inv agent (snd (setupGetUsdc kit b))" and "wizard_inv agent (snd (handleAirdropSol kit b))"
proof -
  show "wizard_inv agent (snd (setupGetUsdc kit b))"
    unfolding setupGetUsdc_def
    by (auto intro!: inv_mono [OF assms] guarded_progress blind stays simp: ret_def progress_def)
  show "wizard_inv agent (snd (handleAirdropSol kit b))"
    unfolding handleAirdropSol_def
    by (auto intro!: inv_mono [OF assms] guarded_progress blind stays simp: ret_def progress_def split: option.split)
qed

lemma event_inv:
  assumes "wizard_inv agent b"
  shows "wizard_inv agent (setup_event kit ev b)"
proof (cases "wizard_drawn kit ev b \<and> setup_offered ev b")
  case False
  then show ?thesis using assms by (auto simp: setup_event_def)
next
  case True
  have "wizard_inv agent (snd (setup_handler kit ev b))"
  proof (cases ev)
    case LoadMint
    let ?b = "on_page (\<lambda>p. p\<lparr>sp_mounted := True\<rparr>) b"
    have "wizard_inv agent ?b" using assms by (simp add: wizard_inv_def on_page_def agent_of_def)
    from inv_mono [OF this mint_progress] show ?thesis using LoadMint by (simp add: andThen_def setup_set_def change_def)
  next
    case (WalletReports c u k)
    have "progress (br_page (snd (wallet_effect kit c u k b))) = progress (br_page b)" by (simp add: blind_page balance_blind(1))
    then show ?thesis using inv_mono [OF assms _ grows [OF balance_blind(2)]] WalletReports by simp
  next
    case ClickCreatePlain
    then show ?thesis using create_plain_inv [OF assms] True by simp
  next
    case ClickCreate
    then show ?thesis using create_agent_inv [OF assms] True by simp
  next
    case ClickFund
    then show ?thesis using fund_inv [OF assms] True by simp
  next
    case ClickFaucet
    then show ?thesis using side_inv(1) [OF assms] by simp
  next
    case ClickAirdrop
    then show ?thesis using side_inv(2) [OF assms] by simp
  qed (use assms True in \<open>auto simp: setCluster_def setup_set_def change_def on_page_def wizard_inv_def agent_of_def\<close>)
  then show ?thesis using True by (simp add: setup_event_def)
qed

lemma run_inv: "wizard_inv agent b \<Longrightarrow> wizard_inv agent (setup_run kit evs b)"
  by (induction evs arbitrary: b) (simp_all add: setup_run_def event_inv)

text \<open>C18. What the set-up wizard claims is backed by requests. Whatever the user does, the wallet reports and the
  server answers: it asks for a policy only when there is an agent; it says that the account is
  created only after a create request, naming the agent with a positive limit exactly when there is one, was built and
  its transaction submitted; and it says that the account is funded only in the last step and after a
  later deposit was built and submitted.\<close>

theorem wizard_sound:
  assumes "br_page b = initial_setup agent"
  shows "(sp_step (br_page (setup_run kit evs b)) = Configure \<longrightarrow> truthy_string agent \<noteq> None)
    \<and> (sp_step (br_page (setup_run kit evs b)) = Fund \<or> sp_step (br_page (setup_run kit evs b)) = Done
         \<longrightarrow> agent_account_created (truthy_string agent) (br_sent (setup_run kit evs b)))
    \<and> (sp_didFund (br_page (setup_run kit evs b))
         \<longrightarrow> sp_step (br_page (setup_run kit evs b)) = Done \<and> funded_by (truthy_string agent) (br_sent (setup_run kit evs b)))"
proof -
  have "wizard_inv (truthy_string agent) b" using assms by (simp add: wizard_inv_def initial_setup_def agent_of_def)
  then show ?thesis using run_inv [of "truthy_string agent" b kit evs] unfolding wizard_inv_def by blast
qed

definition token_server :: "http_request \<Rightarrow> unit \<Rightarrow> (axios_failure + json) \<times> unit" where
  "token_server r s =
     (if rq_path r = ''/api/tokens''
      then (Inr (JsObj [(''data'', JsObj [(''tokens'', JsArr [JsObj [(''symbol'', JsText ''USDC''), (''mint'', JsText ''M'')]])])]), s)
      else sample_web_server r s)"

definition token_kit :: "unit web_kit" where
  "token_kit = sample_web_kit\<lparr>wk_send := token_server\<rparr>"

lemmas wizard_run = setup_event_def wizard_drawn_def agentValid_def agent_of_def truthy_string_def setup_set_def sample_web web_run
  token_kit_def token_server_def request_of_def data_member_def member_def jget_def as_list_def as_text_def walletAddress_def
  resolveApiUrl_def cluster_api_url_def read_cluster_def or_text_def api_get_def api_post_def post_for_def

lemma five: "\<not> d_le (float_or_zero ''5'') (Fin 0)"
  by code_simp

lemma sample_funded: "sp_didFund (br_page (setup_run token_kit [LoadMint, ClickCreatePlain, ClickFund] (sample_tab (initial_setup None))))"
  by (simp add: setup_run_def wizard_run load_mint_def initial_setup_def five handleCreateWithoutAgent_def create_and_submit_def
      approve_and_submit_def signAndSubmit_def show_toast_def tx_toast_def handleFund_def guarded_def build_and_submit_def)

theorem wizard_sound_witness:
  "sp_didFund (br_page (setup_run token_kit [LoadMint, ClickCreatePlain, ClickFund] (sample_tab (initial_setup None))))
     \<and> funded_by None (br_sent (setup_run token_kit [LoadMint, ClickCreatePlain, ClickFund] (sample_tab (initial_setup None))))"
  using wizard_sound [of "sample_tab (initial_setup None)" None token_kit "[LoadMint, ClickCreatePlain, ClickFund]"] sample_funded
  by (simp add: sample_tab_def truthy_string_def)

section \<open>Switching the network\<close>

text \<open>The client cache holds under each URL the client of that URL.\<close>

definition clients_ok :: "('p, 'w) browser \<Rightarrow> bool" where
  "clients_ok b \<longleftrightarrow> (\<forall>url c. map_of (br_clients b) url = Some c \<longrightarrow> c = createHttpClient (Some url) None)"

lemma getApi_client:
  assumes "clients_ok b"
  shows "\<exists>b'. getApi kit b = (Inr (createHttpClient (Some (resolveApiUrl kit (read_cluster kit b))) None), b') \<and> clients_ok b'
    \<and> br_sent b' = br_sent b \<and> br_server b' = br_server b \<and> br_page b' = br_page b"
  using assms by (auto simp: getApi_def clients_ok_def Let_def split: option.split)

lemma first_request:
  assumes "clients_ok b"
  shows "br_sent (snd (web_request kit meth path body b))
    = br_sent b @ [request_of (createHttpClient (Some (resolveApiUrl kit (read_cluster kit b))) None) meth path (json_stored body)]"
  using getApi_client [OF assms, of kit] by (auto simp: web_request_def andThen_def Let_def split: prod.split sum.split)

lemma snd_andThen_prefix:
  assumes "\<And>x b1. c b = (Inr x, b1) \<Longrightarrow> prefix (br_sent b1) (br_sent (snd (f x b1)))"
  shows "prefix (br_sent (snd (c b))) (br_sent (snd (andThen c f b)))"
  using assms by (simp add: andThen_def split: prod.split sum.split)

lemma create_first:
  assumes "clients_ok b"
  shows "prefix (br_sent b @ [request_of (createHttpClient (Some (resolveApiUrl kit (read_cluster kit b))) None) ''POST''
      ''/api/account/create'' (json_stored body)]) (br_sent (snd (create_and_submit kit body b)))"
  unfolding first_request [OF assms, symmetric] create_and_submit_def api_post_def
  by (rule snd_andThen_prefix) (rule grows, intro stays)

lemma clients_stay [stays]:
  "stays clients_ok (show_toast k m)" "stays clients_ok (outside f)" "stays clients_ok (tx_toast kit label txid)"
  "stays clients_ok (web_request kit meth path body)" "stays clients_ok (setup_set g)"
  by (auto intro!: staysI simp: clients_ok_def show_toast_def change_def outside_def tx_toast_def web_request_def getApi_def andThen_def Let_def
      setup_set_def on_page_def split: prod.splits option.splits sum.splits if_splits)

lemma clients_stay_calls [stays]:
  "stays clients_ok (api_get kit path)" "stays clients_ok (api_post kit path body)" "stays clients_ok (post_for kit path body k)"
  "stays clients_ok (approve_and_submit kit tx)" "stays clients_ok (web_transferSol kit rpc source target n)"
  "stays clients_ok (requestFaucet kit wallet token)" "stays clients_ok (create_and_submit kit body)"
  "stays clients_ok (build_and_submit kit path body label)"
  by (auto intro!: stays split: option.split simp: api_get_def api_post_def post_for_def approve_and_submit_def signAndSubmit_def
      web_transferSol_def requestFaucet_def create_and_submit_def build_and_submit_def Let_def)

lemma clients_stay_wallet: "stays clients_ok (wallet_effect kit c u k)"
  unfolding wallet_effect_def fetch_wallet_balance_def
  by (auto intro!: stays stays_change stays_afterwards split: option.split) (simp_all add: clients_ok_def)

lemma clients_stay_guarded: "stays clients_ok c \<Longrightarrow> stays clients_ok (guarded kit fallback raise lower c)"
  unfolding guarded_def
  by (intro stays_andThen stays_change stays_afterwards stays_catch clients_stay) (simp_all add: on_page_def clients_ok_def)

text \<open>What the page knows of the mint, and that only mounting sets it.\<close>

definition mint_state :: "wizard_page \<Rightarrow> bool \<times> string" where
  "mint_state p = (sp_mounted p, sp_usdcMint p)"

lemma mint_state_updates [simp]:
  "mint_state (p\<lparr>sp_isCreating := v\<rparr>) = mint_state p" "mint_state (p\<lparr>sp_isFunding := v\<rparr>) = mint_state p"
  "mint_state (p\<lparr>sp_isFundingSol := v\<rparr>) = mint_state p" "mint_state (p\<lparr>sp_isAirdropping := v\<rparr>) = mint_state p"
  "mint_state (p\<lparr>sp_isFauceting := v\<rparr>) = mint_state p" "mint_state (p\<lparr>sp_step := st\<rparr>) = mint_state p"
  "mint_state (p\<lparr>sp_accountPda := a\<rparr>) = mint_state p" "mint_state (p\<lparr>sp_didFund := v\<rparr>) = mint_state p"
  "mint_state (p\<lparr>sp_perTxLimit := a\<rparr>) = mint_state p" "mint_state (p\<lparr>sp_solFundingAmount := a\<rparr>) = mint_state p"
  "mint_state (p\<lparr>sp_depositAmount := a\<rparr>) = mint_state p"
  by (simp_all add: mint_state_def)

lemma mint_set: "(\<And>p. mint_state (f p) = mint_state p) \<Longrightarrow> stays (\<lambda>b. mint_state (br_page b) = x) (setup_set f)"
  unfolding setup_set_def by (rule stays_change) (simp add: on_page_def)

lemma mint_guarded:
  assumes "stays (\<lambda>b. mint_state (br_page b) = x) c" and "\<And>p. mint_state (raise p) = mint_state p" and "\<And>p. mint_state (lower p) = mint_state p"
  shows "stays (\<lambda>b. mint_state (br_page b) = x) (guarded kit fallback raise lower c)"
  unfolding guarded_def
  by (intro stays_andThen stays_change stays_afterwards stays_catch assms(1) blind_stays [OF blind_base(1)]) (simp_all add: on_page_def assms)

definition kept_mint :: "string \<Rightarrow> 'w wizard \<Rightarrow> bool" where
  "kept_mint m b \<longleftrightarrow> clients_ok b \<and> mint_state (br_page b) = (True, m)"

lemma kept_mintI: "stays clients_ok c \<Longrightarrow> (\<And>x. stays (\<lambda>b. mint_state (br_page b) = x) c) \<Longrightarrow> kept_mint m b \<Longrightarrow> kept_mint m (snd (c b))"
  by (simp add: kept_mint_def stays_def)

lemma blind_mint: "page_blind c \<Longrightarrow> stays (\<lambda>b. mint_state (br_page b) = x) c"
  by (rule blind_stays)

lemmas mint_stays = stays_lift stays_ret stays_andThen stays_catch stays_afterwards clients_stay clients_stay_calls clients_stay_guarded
  mint_guarded mint_set blind_base [THEN blind_mint] blind_calls(1-8) [THEN blind_mint] blind_create [THEN blind_mint]

lemma clients_ok_on_page [simp]: "clients_ok (on_page f b) \<longleftrightarrow> clients_ok b" "br_page (on_page f b) = f (br_page b)"
  by (simp_all add: clients_ok_def on_page_def)

lemma clients_ok_cluster: "clients_ok (setCluster c b) \<longleftrightarrow> clients_ok b" "br_page (setCluster c b) = br_page b"
  by (simp_all add: clients_ok_def setCluster_def)

lemma kept_creates:
  assumes "kept_mint m b"
  shows "kept_mint m (snd (handleCreateWithoutAgent kit b))" and "kept_mint m (snd (handleCreate kit b))"
proof -
  show "kept_mint m (snd (handleCreateWithoutAgent kit b))"
    unfolding handleCreateWithoutAgent_def Let_def
    by (rule kept_mintI [OF _ _ assms]; simp; intro conjI impI mint_stays; simp)
  show "kept_mint m (snd (handleCreate kit b))"
    unfolding handleCreate_def Let_def fund_agent_def
    by (rule kept_mintI [OF _ _ assms]; simp split: option.split; intro conjI impI allI mint_stays; simp)
qed

lemma kept_others:
  assumes "kept_mint m b"
  shows "kept_mint m (snd (setupGetUsdc kit b))" and "kept_mint m (snd (handleFund kit b))" and "kept_mint m (snd (handleAirdropSol kit b))"
  unfolding setupGetUsdc_def handleFund_def handleAirdropSol_def Let_def
  by (rule kept_mintI [OF _ _ assms]; simp split: option.split; intro conjI impI allI mint_stays; simp)+

lemma kept_event:
  assumes "kept_mint m b"
  shows "kept_mint m (setup_event kit ev b)"
proof (cases "wizard_drawn kit ev b \<and> setup_offered ev b")
  case False
  then show ?thesis using assms by (auto simp: setup_event_def)
next
  case True
  have "kept_mint m (snd (setup_handler kit ev b))"
  proof (cases ev)
    case LoadMint
    then show ?thesis using assms True by (simp add: kept_mint_def mint_state_def)
  next
    case (WalletReports c u k)
    then show ?thesis
      using kept_mintI [OF clients_stay_wallet blind_mint [OF balance_blind(1)] assms] by simp
  qed (use assms kept_creates [OF assms, of kit] kept_others [OF assms, of kit] in
      \<open>simp_all add: clients_ok_cluster setup_set_def change_def kept_mint_def\<close>)
  then show ?thesis using True by (simp add: setup_event_def)
qed

lemma kept_run: "kept_mint m b \<Longrightarrow> kept_mint m (setup_run kit evs b)"
  by (induction evs arbitrary: b) (simp_all add: setup_run_def kept_event)

lemma grows_guarded [stays]:
  "stays (\<lambda>b. prefix rs (br_sent b)) c \<Longrightarrow> stays (\<lambda>b. prefix rs (br_sent b)) (guarded kit fallback raise lower c)"
  unfolding guarded_def by (intro stays_andThen stays_change stays_afterwards stays_catch grows_base) (simp_all add: on_page_def)

lemma grows_page [simp]: "br_sent (on_page f b) = br_sent b" "br_sent (setCluster c b) = br_sent b"
  by (simp_all add: on_page_def setCluster_def)

lemmas grow_stays = stays_lift stays_ret stays_andThen stays_catch stays_afterwards grows_base grows_calls grows_guarded

lemma grows_handlers:
  "prefix (br_sent b) (br_sent (snd (handleCreateWithoutAgent kit b)))" "prefix (br_sent b) (br_sent (snd (handleCreate kit b)))"
  "prefix (br_sent b) (br_sent (snd (setupGetUsdc kit b)))" "prefix (br_sent b) (br_sent (snd (handleFund kit b)))"
  "prefix (br_sent b) (br_sent (snd (handleAirdropSol kit b)))"
  unfolding handleCreateWithoutAgent_def handleCreate_def fund_agent_def setupGetUsdc_def handleFund_def handleAirdropSol_def Let_def
  by (rule grows; simp split: option.split; intro conjI impI allI grow_stays; simp)+

lemma grows_event: "prefix (br_sent b) (br_sent (setup_event kit ev b))"
proof -
  have "prefix (br_sent b) (br_sent (snd (setup_handler kit ev b)))"
  proof (cases ev)
    case LoadMint
    have "prefix (br_sent b) (br_sent (snd (load_mint kit (on_page (\<lambda>p. p\<lparr>sp_mounted := True\<rparr>) b))))"
      using mint_progress(2) [of "on_page (\<lambda>p. p\<lparr>sp_mounted := True\<rparr>) b" kit] by simp
    then show ?thesis using LoadMint by (simp add: andThen_def setup_set_def change_def)
  next
    case (WalletReports c u k)
    then show ?thesis using grows [OF balance_blind(2)] by simp
  qed (simp_all add: grows_handlers setup_set_def change_def)
  then show ?thesis by (simp add: setup_event_def)
qed

lemma grows_run: "prefix (br_sent b) (br_sent (setup_run kit evs b))"
proof (induction evs arbitrary: b)
  case (Cons ev evs)
  then show ?case using grows_event [of b kit ev] unfolding setup_run_def by (simp add: prefix_order.trans)
qed (simp add: setup_run_def)

text \<open>The request of a network's backend for its tokens, and of the account of an owner without an agent.\<close>

definition tokens_request :: "'w web_kit \<Rightarrow> string \<Rightarrow> http_request" where
  "tokens_request kit network = request_of (createHttpClient (Some (resolveApiUrl kit network)) None) ''GET'' ''/api/tokens'' JsNull"

definition create_request :: "'w web_kit \<Rightarrow> string \<Rightarrow> string \<Rightarrow> string \<Rightarrow> http_request" where
  "create_request kit network owner mint =
     request_of (createHttpClient (Some (resolveApiUrl kit network)) None) ''POST'' ''/api/account/create''
       (JsObj [(''owner'', JsText owner), (''mint'', JsText mint)])"

lemma load_mint_run:
  assumes "clients_ok b" and "wk_send kit (tokens_request kit (read_cluster kit b)) (br_server b) = (Inr d, s)"
    and "data_member d ''tokens'' = Inr (Some (JsArr ts))" and "usdc_of_tokens ts = Inr (Some t)" and "as_text (jget t ''mint'') = Some m"
  shows "sp_usdcMint (br_page (snd (load_mint kit b))) = m \<and> clients_ok (snd (load_mint kit b))
    \<and> sp_mounted (br_page (snd (load_mint kit b))) = sp_mounted (br_page b)
    \<and> br_sent (snd (load_mint kit b)) = br_sent b @ [tokens_request kit (read_cluster kit b)]"
proof -
  obtain b1 where g: "getApi kit b = (Inr (createHttpClient (Some (resolveApiUrl kit (read_cluster kit b))) None), b1)" "clients_ok b1"
      "br_sent b1 = br_sent b" "br_server b1 = br_server b" "br_page b1 = br_page b"
    using getApi_client [OF assms(1), of kit] by blast
  have "api_get kit ''/api/tokens'' b = (Inr d, b1\<lparr>br_server := s, br_sent := br_sent b1 @ [tokens_request kit (read_cluster kit b)]\<rparr>)"
    using assms(2) g by (simp add: api_get_def web_request_def andThen_def tokens_request_def Let_def)
  then show ?thesis using assms(3-5) g
    by (simp add: load_mint_def catch_def andThen_def lift_def as_list_def setup_set_def change_def)
      (simp add: clients_ok_def on_page_def)
qed


text \<open>Two networks with different mints, opened on the one and created on the other.\<close>

definition two_networks :: "unit web_kit" where
  "two_networks = sample_web_kit\<lparr>wk_send := \<lambda>r s.
     if rq_path r = ''/api/tokens''
     then (Inr (JsObj [(''data'', JsObj [(''tokens'', JsArr [JsObj [(''symbol'', JsText ''USDC''),
             (''mint'', JsText (if rq_base r = ''https://api.silkyway.ai'' then ''MainnetMint'' else ''DevnetMint''))]])])]), s)
     else sample_web_server r s\<rparr>"

definition mainnet_tab :: "(wizard_page, unit) browser" where
  "mainnet_tab = (sample_tab (initial_setup None))\<lparr>br_cluster := ''mainnet-beta'', br_storage := None\<rparr>"

lemma mainnet_loaded:
  "setup_run two_networks [LoadMint, PickCluster ''devnet''] mainnet_tab = (sample_tab ((initial_setup None)\<lparr>sp_usdcMint := ''MainnetMint'', sp_mounted := True\<rparr>))
     \<lparr>br_clients := [(''https://api.silkyway.ai'', createHttpClient (Some ''https://api.silkyway.ai'') None)], br_sent := [tokens_request two_networks ''mainnet-beta'']\<rparr>"
  by (simp add: setup_run_def wizard_run load_mint_def initial_setup_def two_networks_def mainnet_tab_def createHttpClient_def
      tokens_request_def is_cluster_def setCluster_def)



end
