(* ===== verification/WebTransfers.thy ===== *)
theory WebTransfers
  imports WebAccount
begin

text \<open>
  The pages about escrow transfers: sending one (\<^verbatim>\<open>app/send/page.tsx\<close>), the list
  (\<^verbatim>\<open>app/transfers/page.tsx\<close>) and the page of one transfer (\<^verbatim>\<open>app/transfers/[pda]/page.tsx\<close>), which
  offers to claim or cancel it. A transfer is the JSON object that the backend sent.
\<close>

section \<open>Sending\<close>

record send_page =
  sn_tokens :: "json list"
  sn_recipient :: string
  sn_amount :: string
  sn_selectedToken :: string
  sn_memo :: string
  sn_isSubmitting :: bool

definition initial_send :: send_page where
  "initial_send =
     \<lparr>sn_tokens = [], sn_recipient = [], sn_amount = [], sn_selectedToken = [], sn_memo = [], sn_isSubmitting = False\<rparr>"

definition send_set :: "(send_page \<Rightarrow> send_page) \<Rightarrow> (send_page, 'w, unit) web" where
  "send_set f = change (on_page f)"

text \<open>The effect that runs when the network changes: the tokens, and the first one selected.\<close>

definition load_tokens :: "'w web_kit \<Rightarrow> (send_page, 'w, unit) web" where
  "load_tokens kit =
     catch
       (andThen (api_get kit ''/api/tokens'') (\<lambda>d.
        andThen (lift (data_member d ''tokens'')) (\<lambda>tokens.
          case as_list tokens of
            None \<Rightarrow> lift (Inl type_error)
          | Some ts \<Rightarrow>
              andThen (send_set (\<lambda>p. p\<lparr>sn_tokens := ts\<rparr>)) (\<lambda>u.
                case ts of
                  [] \<Rightarrow> ret ()
                | t # rest \<Rightarrow>
                    andThen (lift (member (Some t) ''symbol'')) (\<lambda>s.
                      send_set (\<lambda>p. p\<lparr>sn_selectedToken := (case as_text s of None \<Rightarrow> [] | Some x \<Rightarrow> x)\<rparr>))))))
       (\<lambda>e. ret ())"

definition optional_field :: "string \<Rightarrow> string \<Rightarrow> (string \<times> json) list" where
  "optional_field k v = (if v = [] then [] else [(k, JsText v)])"

definition send_body :: "string \<Rightarrow> send_page \<Rightarrow> json" where
  "send_body sender p =
     JsObj ([(''sender'', JsText sender), (''recipient'', JsText (sn_recipient p)), (''amount'', JsNum (parseFloat (sn_amount p)))]
       @ optional_field ''token'' (sn_selectedToken p) @ optional_field ''memo'' (sn_memo p))"

definition push_path :: "string \<Rightarrow> ('p, 'w, unit) web" where
  "push_path path = change (\<lambda>b. b\<lparr>br_pushed := br_pushed b @ [path]\<rparr>)"

definition handleSubmit :: "'w web_kit \<Rightarrow> (send_page, 'w, unit) web" where
  "handleSubmit kit b =
     (let p0 = br_page b in
      case br_wallet b of
        None \<Rightarrow> ret ()
      | Some sender \<Rightarrow>
          if sn_recipient p0 = [] \<or> sn_amount p0 = [] then ret ()
          else guarded kit ''Failed to create transfer''
                 (\<lambda>p. p\<lparr>sn_isSubmitting := True\<rparr>) (\<lambda>p. p\<lparr>sn_isSubmitting := False\<rparr>)
                 (andThen (api_post kit ''/api/tx/create-transfer'' (send_body sender p0)) (\<lambda>d.
                  andThen (lift (data_member d ''transaction'')) (\<lambda>tx.
                  andThen (lift (data_member d ''transferPda'')) (\<lambda>pda.
                  andThen (approve_and_submit kit tx) (\<lambda>txid.
                  andThen (tx_toast kit ''Transfer created! TX: '' txid) (\<lambda>u.
                    push_path (''/transfers/'' @ text_of_json pda))))))) ) b"

section \<open>One transfer\<close>

datatype transfer_action = Claiming | Cancelling

record detail_page =
  dt_pda :: string
  dt_transfer :: "json option"
  dt_isLoading :: bool
  dt_action :: "transfer_action option"

definition initial_detail :: "string \<Rightarrow> detail_page" where
  "initial_detail pda = \<lparr>dt_pda = pda, dt_transfer = None, dt_isLoading = True, dt_action = None\<rparr>"

definition detail_set :: "(detail_page \<Rightarrow> detail_page) \<Rightarrow> (detail_page, 'w, unit) web" where
  "detail_set f = change (on_page f)"

text \<open>\<open>null\<close> and an absent member are kept alike: the page asks only for truth.\<close>

definition load_transfer :: "'w web_kit \<Rightarrow> string \<Rightarrow> (detail_page, 'w, unit) web" where
  "load_transfer kit pda =
     afterwards
       (catch
          (andThen (api_get kit (''/api/transfers/'' @ pda)) (\<lambda>d.
           andThen (lift (data_member d ''transfer'')) (\<lambda>t.
             detail_set (\<lambda>p. p\<lparr>dt_transfer := (if j_truthy t then t else None)\<rparr>))))
          (\<lambda>e. show_toast ToastError ''Transfer not found''))
       (on_page (\<lambda>p. p\<lparr>dt_isLoading := False\<rparr>))"

text \<open>Claiming and cancelling differ in route, role and texts. The page is fetched again without
  waiting for it; nothing of it throws.\<close>

definition settle_action ::
    "'w web_kit \<Rightarrow> transfer_action \<Rightarrow> string \<Rightarrow> string \<Rightarrow> string \<Rightarrow> string \<Rightarrow> (detail_page, 'w, unit) web" where
  "settle_action kit action path role label fallback b =
     (let p0 = br_page b in
      case (br_wallet b, dt_transfer p0) of
        (Some wallet, Some t) \<Rightarrow>
          guarded kit fallback
            (\<lambda>p. p\<lparr>dt_action := Some action\<rparr>) (\<lambda>p. p\<lparr>dt_action := None\<rparr>)
            (andThen (lift (member (Some t) ''transferPda'')) (\<lambda>pda.
             andThen (build_and_submit kit path
                 (JsObj ([(role, JsText wallet)] @ (case pda of None \<Rightarrow> [] | Some j \<Rightarrow> [(''transferPda'', j)]))) label) (\<lambda>u.
               load_transfer kit (dt_pda p0))))
      | _ \<Rightarrow> ret ()) b"

definition handleClaim :: "'w web_kit \<Rightarrow> (detail_page, 'w, unit) web" where
  "handleClaim kit = settle_action kit Claiming ''/api/tx/claim-transfer'' ''claimer'' ''Transfer claimed! TX: '' ''Failed to claim transfer''"

definition handleCancel :: "'w web_kit \<Rightarrow> (detail_page, 'w, unit) web" where
  "handleCancel kit = settle_action kit Cancelling ''/api/tx/cancel-transfer'' ''canceller'' ''Transfer cancelled! TX: '' ''Failed to cancel transfer''"

section \<open>What the pages show\<close>

definition is_party :: "string \<Rightarrow> json \<Rightarrow> string option \<Rightarrow> bool" where
  "is_party role t wallet \<longleftrightarrow> jget t role = map_option JsText wallet"

definition isActive :: "json \<Rightarrow> bool" where
  "isActive t \<longleftrightarrow> jget t ''status'' = Some (JsText ''ACTIVE'')"

definition claim_offered :: "(detail_page, 'w) browser \<Rightarrow> bool" where
  "claim_offered b \<longleftrightarrow> br_status b = Connected \<and> dt_action (br_page b) = None \<and>
     (case dt_transfer (br_page b) of None \<Rightarrow> False | Some t \<Rightarrow> is_party ''recipient'' t (br_wallet b) \<and> isActive t)"

definition cancel_offered :: "(detail_page, 'w) browser \<Rightarrow> bool" where
  "cancel_offered b \<longleftrightarrow> br_status b = Connected \<and> dt_action (br_page b) = None \<and>
     (case dt_transfer (br_page b) of None \<Rightarrow> False | Some t \<Rightarrow> is_party ''sender'' t (br_wallet b) \<and> isActive t)"

definition detail_title :: "json \<Rightarrow> string option \<Rightarrow> string" where
  "detail_title t wallet =
     (if is_party ''sender'' t wallet then ''Sent Transfer''
      else if is_party ''recipient'' t wallet then ''Received Transfer'' else ''Transfer Detail'')"

definition apostrophe :: string where
  "apostrophe = [CHR 39]"

definition instruction_banner :: "bool \<Rightarrow> bool \<Rightarrow> bool \<Rightarrow> bool \<Rightarrow> string option" where
  "instruction_banner isConnected isSender isRecipient active =
     (if \<not> active then None
      else if \<not> isConnected then Some ''Connect your wallet to claim or manage this transfer.''
      else if isRecipient then Some ''This payment is for you. Claim it below.''
      else if isSender then Some (''You sent this payment. You can cancel it if it hasn'' @ apostrophe @ ''t been claimed.'')
      else Some (''You'' @ apostrophe @ ''re viewing a transfer between other parties.''))"

definition share_url :: "'w web_kit \<Rightarrow> string \<Rightarrow> string \<Rightarrow> string \<Rightarrow> string" where
  "share_url kit origin pda cluster =
     (if wk_window kit
      then origin @ ''/transfers/'' @ pda @ (if cluster \<noteq> ''mainnet-beta'' then ''?cluster='' @ cluster else [])
      else [])"

text \<open>\<open>Number(raw)\<close> of the declared type \<^verbatim>\<open>string | number\<close>, and the amount with the token's symbol, as
  the list and the page of a transfer show it.\<close>

definition json_number :: "'w web_kit \<Rightarrow> json option \<Rightarrow> double" where
  "json_number kit x =
     (case x of Some (JsText s) \<Rightarrow> web_number kit s | Some (JsNum n) \<Rightarrow> n | _ \<Rightarrow> NaN)"

definition shown_transfer :: "'w web_kit \<Rightarrow> json \<Rightarrow> string" where
  "shown_transfer kit t =
     (let token = jget t ''token'';
          decimals = (case token of None \<Rightarrow> 0 | Some k \<Rightarrow> (case nat_field k ''decimals'' of None \<Rightarrow> 0 | Some d \<Rightarrow> d))
      in formatAmount (json_number kit (jget t ''amount'')) decimals @ '' '' @ text_of_json (opt_member token ''symbol''))"

text \<open>A row of the list: direction, the other party, and the memo or the start of the address.\<close>

definition list_row :: "'w web_kit \<Rightarrow> string option \<Rightarrow> json \<Rightarrow> string \<times> string \<times> string \<times> string" where
  "list_row kit wallet t =
     (let isSender = is_party ''sender'' t wallet;
          party = text_of_json (jget t (if isSender then ''recipient'' else ''sender''));
          memo = text_of_json (jget t ''memo'')
      in (if isSender then ''Sent'' else ''Received'',
          (if isSender then ''to '' else ''from '') @ take 4 party @ ''...'' @ slice_last 4 party,
          (if j_truthy (jget t ''memo'') then memo else take 12 (text_of_json (jget t ''transferPda'')) @ ''...''),
          shown_transfer kit t))"

end
