(* ===== verification/WebBackend.thy ===== *)
theory WebBackend
  imports EndToEnd WebSetup WebTransfers
begin

text \<open>
  The web application against the backend: the guard of the application (\<^verbatim>\<open>app.module.ts\<close> provides
  \<^verbatim>\<open>ApiKeyGuard\<close> for every route) in front of the routes, the public routes with what the content
  controller answers (\<^verbatim>\<open>content/content.controller.ts\<close>), and what the pages show of the rows and send
  of the amounts that the backend works with.
\<close>

section \<open>The public routes\<close>

text \<open>What the content controller answers to a page request: a file of the content directory, the landing
  page, or a redirection. The check against leaving the directory never fires on these names.\<close>

datatype content = Redirect nat string | Markdown string | LandingPage

definition content_pages :: "(string \<times> content) list" where
  "content_pages =
     [(''/agent'', Markdown ''index.md''), (''/human'', LandingPage), (''/humans'', Redirect 301 ''/human''),
      (''/llms.txt'', Markdown ''llms.txt''), (''/skill.md'', Markdown ''skill.md''), (''/nav.md'', Markdown ''nav.md''),
      (''/CHANGELOG.md'', Markdown ''CHANGELOG.md''), (''/examples/basic-escrow.md'', Markdown ''examples/basic-escrow.md'')]"

definition content_root :: "string option \<Rightarrow> bool \<Rightarrow> content" where
  "content_root accept_header wantsMd =
     (let accept = or_text accept_header []
      in if \<not> wantsMd \<and> str_includes accept ''text/html'' \<and> \<not> str_includes accept ''text/markdown''
         then Redirect 302 ''/human'' else Markdown ''index.md'')"

definition content_route :: "string \<Rightarrow> string option \<Rightarrow> bool \<Rightarrow> content option" where
  "content_route path accept_header wantsMd =
     (if path = ''/'' then Some (content_root accept_header wantsMd) else map_of content_pages path)"

text \<open>The controllers marked \<^verbatim>\<open>@Public()\<close>: content, authentication, agent card and chat.\<close>

definition public_path :: "string \<Rightarrow> bool" where
  "public_path path \<longleftrightarrow> content_route path None True \<noteq> None \<or> startsWith path ''/api/auth/''
     \<or> startsWith path ''/.well-known/'' \<or> path = ''/chat''"

text \<open>The guard of the application in front of every route, and the web application behind it.\<close>

definition guarded_api ::
    "auth_env \<Rightarrow> auth_state \<Rightarrow> (http_request \<Rightarrow> 'w \<Rightarrow> (axios_failure + json) \<times> 'w) \<Rightarrow> http_request \<Rightarrow> 'w
       \<Rightarrow> (axios_failure + json) \<times> 'w" where
  "guarded_api auth keys routes r s =
     (case canActivate auth (public_path (rq_path r)) (rq_authorization r) keys of
        Inl e \<Rightarrow> (Inl (failure_of e), s)
      | Inr agent \<Rightarrow> routes r s)"

definition behind ::
    "auth_env \<Rightarrow> auth_state \<Rightarrow> (http_request \<Rightarrow> 'w \<Rightarrow> (axios_failure + json) \<times> 'w) \<Rightarrow> 'w web_kit \<Rightarrow> 'w web_kit" where
  "behind auth keys routes kit = kit\<lparr>wk_send := guarded_api auth keys routes\<rparr>"

section \<open>The web application has no key\<close>

definition locked :: "'w \<Rightarrow> ('p, 'w) browser \<Rightarrow> bool" where
  "locked s b \<longleftrightarrow> clients_ok b \<and> br_server b = s"

text \<open>What the interceptor of the SDK makes of the guard's answer.\<close>

definition no_key_error :: js_error where
  "no_key_error = SdkError ''UNAUTHORIZED'' ''API key required or invalid. Run `silky auth register` to get an API key.''"

lemma refused:
  assumes "clients_ok b" and "\<not> public_path path"
  shows "\<exists>b'. web_request (behind auth keys routes kit) meth path body b = (Inl no_key_error, b')
    \<and> br_page b' = br_page b \<and> br_server b' = br_server b \<and> br_pushed b' = br_pushed b \<and> clients_ok b'"
proof -
  let ?kit = "behind auth keys routes kit"
  obtain b1 where g: "getApi ?kit b = (Inr (createHttpClient (Some (resolveApiUrl ?kit (read_cluster ?kit b))) None), b1)"
      and b1: "clients_ok b1" "br_server b1 = br_server b"
    using getApi_client [OF assms(1), of ?kit] by blast
  have page: "br_page b1 = br_page b" "br_pushed b1 = br_pushed b" using g by (auto simp: getApi_def Let_def split: option.splits)
  have "wk_send ?kit (request_of (createHttpClient u None) meth path j) s
      = (Inl (failure_of (Unauthorized ''MISSING_API_KEY'' ''Authorization: Bearer <api-key> header required'')), s)" for u j s
    using assms(2) by (simp add: behind_def guarded_api_def request_of_def createHttpClient_def truthy_string_def canActivate_def bearer_def)
  then show ?thesis
    using b1 page by (simp add: web_request_def andThen_def g Let_def intercept_def failure_of_def clients_ok_def no_key_error_def)
qed

lemma not_public [simp]:
  "\<not> public_path (''/api/account/'' @ p)" "\<not> public_path (''/api/tx/'' @ p)" "\<not> public_path (''/api/wallet/'' @ p)"
  "\<not> public_path (''/api/tokens'')" "\<not> public_path (''/api/transfers'' @ p)"
  by (simp_all add: public_path_def content_route_def content_pages_def)

lemma refused_calls:
  assumes "locked s b" and "\<not> public_path path"
  shows "\<exists>b'. api_get (behind auth keys routes kit) path b = (Inl no_key_error, b') \<and> br_page b' = br_page b \<and> locked s b'"
    and "\<exists>b'. api_post (behind auth keys routes kit) path j b = (Inl no_key_error, b') \<and> br_pushed b' = br_pushed b \<and> locked s b'"
  using refused [of b path auth keys routes kit "''GET''" JsNull] refused [of b path auth keys routes kit "''POST''" j] assms
  by (auto simp: api_get_def api_post_def locked_def)

lemma locked_page [simp]: "locked s (on_page f b) = locked s b"
  by (simp add: locked_def clients_ok_def on_page_def)

lemma locked_dashboard:
  assumes "locked s b" and "ap_account (br_page b) = None"
  shows "locked s (dash_event (behind auth keys routes kit) ev b) \<and> ap_account (br_page (dash_event (behind auth keys routes kit) ev b)) = None"
proof (cases "ev = Mounted \<and> br_status b = Connected")
  case False
  with assms(2) have "\<not> offered ev b" by (cases ev) (auto simp: drawn_def)
  then show ?thesis using assms by (simp add: dash_event_def)
next
  case True
  let ?kit = "behind auth keys routes kit"
  show ?thesis
  proof (cases "br_wallet b")
    case None
    then show ?thesis using True assms by (simp add: dash_event_def reload_def loadAccount_def ret_def)
  next
    case (Some k)
    have l: "locked s (on_page (\<lambda>p. p\<lparr>ap_loading := True\<rparr>) b)" using assms(1) by simp
    obtain b1 where a: "api_get ?kit (''/api/account/'' @ wk_account_pda ?kit k) (on_page (\<lambda>p. p\<lparr>ap_loading := True\<rparr>) b) = (Inl no_key_error, b1)"
        and b1: "locked s b1"
      using refused_calls(1) [OF l not_public(1)] by blast
    have "snd (reload ?kit b b) = on_page (\<lambda>p. p\<lparr>ap_loading := False\<rparr>) (on_page (\<lambda>p. p\<lparr>ap_account := None\<rparr>) b1)"
      using a by (simp add: reload_def loadAccount_def Some page_set_def andThen_def change_def snd_afterwards catch_def fetch_account_def)
    then show ?thesis using True b1 by (simp add: dash_event_def)
  qed
qed

lemma locked_run:
  assumes "locked s b" and "ap_account (br_page b) = None"
  shows "locked s (dash_run (behind auth keys routes kit) evs b) \<and> ap_account (br_page (dash_run (behind auth keys routes kit) evs b)) = None"
  using assms by (induction evs arbitrary: b) (simp_all add: dash_run_def locked_dashboard)

definition no_mint :: "wizard_page \<Rightarrow> bool" where
  "no_mint p \<longleftrightarrow> sp_usdcMint p = [] \<and> (sp_step p = Connect \<or> sp_step p = Configure)"

lemma locked_balance:
  assumes "locked s b"
  shows "locked s (snd (fetch_wallet_balance (behind auth keys routes kit) a b))"
proof -
  let ?kit = "behind auth keys routes kit" and ?b0 = "b\<lparr>br_balanceLoading := True\<rparr>"
  have l1: "locked s ?b0" using assms by (simp add: locked_def clients_ok_def)
  obtain b1 where r: "api_get ?kit (''/api/wallet/'' @ a @ ''/balance'') ?b0 = (Inl no_key_error, b1)" and b1: "locked s b1"
    using refused_calls(1) [OF l1 not_public(3)] by blast
  have "snd (fetch_wallet_balance ?kit a b) = b1\<lparr>br_walletBalance := None, br_balanceLoading := False\<rparr>"
    using r by (simp add: fetch_wallet_balance_def andThen_def change_def snd_afterwards catch_def)
  then show ?thesis using b1 by (simp add: locked_def clients_ok_def)
qed

lemma locked_wallet:
  assumes "locked s b"
  shows "locked s (snd (wallet_effect (behind auth keys routes kit) c u k b))"
  using assms
  by (auto simp: wallet_effect_def change_run locked_def clients_ok_def change_def
      intro!: locked_balance [unfolded locked_def clients_ok_def, THEN conjunct1] locked_balance [unfolded locked_def clients_ok_def, THEN conjunct2]
      split: option.split)

lemma locked_wizard:
  assumes "locked s b" and "no_mint (br_page b)"
  shows "locked s (setup_event (behind auth keys routes kit) ev b) \<and> no_mint (br_page (setup_event (behind auth keys routes kit) ev b))"
proof (cases "wizard_drawn (behind auth keys routes kit) ev b \<and> setup_offered ev b")
  case False
  then show ?thesis using assms by (auto simp: setup_event_def)
next
  case True
  let ?kit = "behind auth keys routes kit"
  have "locked s (snd (setup_handler ?kit ev b)) \<and> no_mint (br_page (snd (setup_handler ?kit ev b)))"
  proof (cases ev)
    case LoadMint
    let ?b = "on_page (\<lambda>p. p\<lparr>sp_mounted := True\<rparr>) b"
    have l: "locked s ?b" using assms(1) by (simp add: locked_def on_page_def clients_ok_def)
    obtain b1 where "api_get ?kit ''/api/tokens'' ?b = (Inl no_key_error, b1)" "br_page b1 = br_page ?b" "locked s b1"
      using refused_calls(1) [OF l not_public(4)] by blast
    then show ?thesis using LoadMint assms(2)
      by (simp add: load_mint_def catch_def andThen_def ret_def setup_set_def change_def) (simp add: no_mint_def on_page_def)
  next
    case (WalletReports c u k)
    then show ?thesis using locked_wallet [OF assms(1)] assms(2) by (simp add: blind_page balance_blind)
  qed (use assms True in \<open>auto simp: no_mint_def setup_set_def change_def on_page_def setCluster_def locked_def clients_ok_def\<close>)
  then show ?thesis using True by (simp add: setup_event_def)
qed

lemma locked_setup_run:
  assumes "locked s b" and "no_mint (br_page b)"
  shows "locked s (setup_run (behind auth keys routes kit) evs b) \<and> no_mint (br_page (setup_run (behind auth keys routes kit) evs b))"
  using assms by (induction evs arbitrary: b) (simp_all add: setup_run_def locked_wizard)

lemma locked_send:
  assumes "locked s b"
  shows "locked s (snd (handleSubmit (behind auth keys routes kit) b))"
    and "br_pushed (snd (handleSubmit (behind auth keys routes kit) b)) = br_pushed b"
proof -
  let ?kit = "behind auth keys routes kit" and ?b0 = "on_page (\<lambda>p. p\<lparr>sn_isSubmitting := True\<rparr>) b"
  have "locked s (snd (handleSubmit ?kit b)) \<and> br_pushed (snd (handleSubmit ?kit b)) = br_pushed b"
  proof (cases "br_wallet b")
    case None
    then show ?thesis using assms by (simp add: handleSubmit_def ret_def Let_def)
  next
    case (Some sender)
    have l: "locked s ?b0" using assms by simp
    obtain b1 where r: "api_post ?kit ''/api/tx/create-transfer'' (send_body sender (br_page b)) ?b0 = (Inl no_key_error, b1)"
        and b1: "locked s b1" "br_pushed b1 = br_pushed b"
      using refused_calls(2) [OF l not_public(2) [of "''create-transfer''"]] by (fastforce simp: on_page_def)
    have "snd (handleSubmit ?kit b) = (if sn_recipient (br_page b) = [] \<or> sn_amount (br_page b) = [] then b
        else on_page (\<lambda>p. p\<lparr>sn_isSubmitting := False\<rparr>)
          (b1\<lparr>br_toasts := br_toasts b1 @ [Toast ToastError (error_text ?kit no_key_error ''Failed to create transfer'') None]\<rparr>))"
      using r by (simp add: handleSubmit_def Some guarded_def after_catch andThen_fail Let_def ret_def show_toast_def)
        (simp add: change_def)
    then show ?thesis using assms b1 by simp (simp add: locked_def clients_ok_def on_page_def)
  qed
  then show "locked s (snd (handleSubmit ?kit b))" "br_pushed (snd (handleSubmit ?kit b)) = br_pushed b" by blast+
qed

text \<open>C14. The web application is locked out of the backend it is served with. Every route it uses is
  behind the guard for API keys, and its client never has a key. So in every run of the account
  dashboard no account is ever loaded, in every run of the set-up wizard no mint is known and the wizard does not
  get past its configuration, and sending a payment leads nowhere; the server, and with it
  the chain, is never changed, whatever the routes behind the guard would do.\<close>

theorem web_app_locked_out:
  assumes "clients_ok d" and "clients_ok w" and "clients_ok m"
    and "br_page d = initial_dashboard" and "br_page w = initial_setup agent"
  shows "ap_account (br_page (dash_run (behind auth keys routes kit) evs d)) = None
    \<and> br_server (dash_run (behind auth keys routes kit) evs d) = br_server d
    \<and> sp_usdcMint (br_page (setup_run (behind auth keys routes kit) sevs w)) = []
    \<and> (sp_step (br_page (setup_run (behind auth keys routes kit) sevs w)) = Connect
         \<or> sp_step (br_page (setup_run (behind auth keys routes kit) sevs w)) = Configure)
    \<and> br_server (setup_run (behind auth keys routes kit) sevs w) = br_server w
    \<and> br_server (snd (handleSubmit (behind auth keys routes kit) m)) = br_server m
    \<and> br_pushed (snd (handleSubmit (behind auth keys routes kit) m)) = br_pushed m"
proof -
  have l: "locked (br_server d) d" "locked (br_server w) w" "locked (br_server m) m" using assms by (simp_all add: locked_def)
  have "ap_account (br_page d) = None" "no_mint (br_page w)"
    using assms by (simp_all add: initial_dashboard_def initial_setup_def no_mint_def)
  with locked_run [OF l(1)] locked_setup_run [OF l(2)] locked_send [OF l(3)] show ?thesis
    unfolding locked_def no_mint_def by blast
qed

lemma sample_tab_ok: "clients_ok (sample_tab p)" "br_page (sample_tab p) = p"
  by (simp_all add: clients_ok_def sample_tab_def)

theorem web_app_locked_out_witness:
  "ap_account (br_page (dash_run (behind sample_env sample_keys sample_web_server sample_web_kit) [Mounted, ClickDeposit]
      (sample_tab initial_dashboard))) = None
   \<and> ap_account (br_page (dash_event sample_web_kit Mounted (sample_tab initial_dashboard))) \<noteq> None"
  by (rule conjI [OF web_app_locked_out [OF sample_tab_ok(1) sample_tab_ok(1) [of "initial_setup None"] sample_tab_ok(1) [of initial_send]
        sample_tab_ok(2) sample_tab_ok(2), THEN conjunct1] sample_loaded])

section \<open>What the pages show of a transfer\<close>

fun transfer_status_text :: "transfer_status \<Rightarrow> string" where
  "transfer_status_text TPending = ''PENDING''"
| "transfer_status_text TActive = ''ACTIVE''"
| "transfer_status_text TClaimed = ''CLAIMED''"
| "transfer_status_text TCancelled = ''CANCELLED''"
| "transfer_status_text TRejected = ''REJECTED''"
| "transfer_status_text TExpired = ''EXPIRED''"
| "transfer_status_text TDeclined = ''DECLINED''"

text \<open>A row with its token, as the routes of \<^verbatim>\<open>transfer.controller.ts\<close> serialise it; the members that the modelled parts of the pages read.\<close>

definition transfer_json :: "token_row \<Rightarrow> transfer_row \<Rightarrow> json" where
  "transfer_json token r =
     JsObj [(''transferPda'', JsText (tr_pda r)), (''sender'', JsText (tr_sender r)), (''recipient'', JsText (tr_recipient r)),
        (''amount'', JsText (tr_amount r)), (''amountRaw'', JsText (tr_amountRaw r)), (''status'', JsText (transfer_status_text (tr_status r))),
        (''token'', JsObj [(''mint'', JsText (tok_mint token)), (''name'', JsText (tok_name token)), (''symbol'', JsText (tok_symbol token)),
            (''decimals'', JsNum (Fin (of_nat (tok_decimals token))))]),
        (''memo'', case tr_memo r of None \<Rightarrow> JsNull | Some m \<Rightarrow> JsText m)]"

lemma toFixed_zero: "0 \<le> x \<Longrightarrow> x < 1 / 200 \<Longrightarrow> toFixed 2 x = ''0.00''"
proof -
  assume x: "0 \<le> x" "x < 1 / 200"
  then have "\<lfloor>x * 10 ^ 2 + 1 / 2\<rfloor> = 0" by (intro floor_unique) simp_all
  then have "toFixed 2 x = nat_str 0 @ ''.'' @ padStart 2 (CHR ''0'') (nat_str 0)" using x by (simp add: toFixed_def Let_def)
  moreover have "nat_str 0 @ ''.'' @ padStart 2 (CHR ''0'') (nat_str 0) = ''0.00''" by code_simp
  ultimately show ?thesis by simp
qed

lemma formatAmount_zero:
  assumes "1 / 10 ^ d \<le> q" and "q * 10 ^ 6 \<le> 4999 * 10 ^ d" and "d \<le> 15"
  shows "formatAmount (Fin q) d = ''0.00''"
proof -
  let ?x = "q / 10 ^ d :: rat"
  have "(10 :: rat) ^ d \<le> 10 ^ 15" using assms(3) by (intro power_increasing) auto
  then have "(1 :: rat) / 10 ^ 15 \<le> 1 / 10 ^ d" by (simp add: frac_le)
  then have "(1 :: rat) / 10 ^ 15 * (1 / 10 ^ 15) \<le> 1 / 10 ^ d * (1 / 10 ^ d)" by (intro mult_mono) auto
  also have "\<dots> \<le> ?x" using divide_right_mono [OF assms(1), of "10 ^ d"] by simp
  finally have lo: "(1 :: rat) / 10 ^ 30 \<le> ?x" by simp
  have "(2 powi (- 1022) :: rat) \<le> 2 powi (-100)" by (rule power_int_increasing) auto
  moreover have "(2 powi (-100) :: rat) \<le> 1 / 10 ^ 30" by (simp add: power_int_minus)
  ultimately have lo': "2 powi (- 1022) \<le> ?x" using lo by linarith
  have hi: "?x \<le> 4999 / 10 ^ 6" using assms(2) by (simp add: divide_le_eq le_divide_eq field_simps)
  then have "?x < 2 ^ 1000" by (rule le_less_trans) simp
  then obtain y where y: "round64 ?x = Fin y" "0 \<le> y" "\<bar>y - ?x\<bar> \<le> ?x / 2 ^ 53" using round64_pos [OF lo'] by blast
  have "y < 1 / 200" if "\<bar>y - x\<bar> \<le> x / 2 ^ 53" "x \<le> 4999 / 10 ^ 6" for x :: rat
    using order_trans [OF abs_ge_self that(1)] that(2) by (simp add: field_simps)
  from this [OF y(3) hi] have "y < 1 / 200" .
  have "(10 :: int) ^ d \<le> 10 ^ 15" using assms(3) by (intro power_increasing) auto
  then have "num_of_int (10 ^ d) = Fin (of_int (10 ^ d))" by (intro num_of_int_exact) auto
  then have "d_div (Fin q) (num_of_int (10 ^ d)) = Fin y" using y(1) by (simp add: d_div_def)
  moreover have "\<bar>y\<bar> < 10 ^ 21" using y(2) \<open>y < 1 / 200\<close> by simp
  ultimately show ?thesis using toFixed_zero [OF y(2) \<open>y < 1 / 200\<close>] by (simp add: formatAmount_def)
qed

text \<open>C32. The web application shows a payment as nothing. A transfer keeps its amount in tokens, but the list
  and the page of a transfer divide it by the token's base again: whatever is paid
  from one base unit up to 4999 tokens of six decimals (and in proportion for other decimals), they
  show 0.00. (Given that \<^verbatim>\<open>Number\<close> reads the text of a number as that number.)\<close>

theorem transfer_shown_as_zero:
  assumes "cp_amount p = Fin q" and "web_number kit (num_to_string (Fin q)) = Fin q"
    and "1 / 10 ^ tok_decimals token \<le> q" and "q * 10 ^ 6 \<le> 4999 * 10 ^ tok_decimals token" and "tok_decimals token \<le> 15"
  shows "shown_transfer kit (transfer_json token (pending_row p pda raw token pool)) = ''0.00 '' @ tok_symbol token"
  using formatAmount_zero [OF assms(3-5)] assms(1,2)
  by (simp add: shown_transfer_def transfer_json_def jget_def nat_field_def json_number_def pending_row_def text_of_json_def opt_member_def)

definition five_tokens :: create_params where
  "five_tokens = sample_params\<lparr>cp_amount := Fin 5\<rparr>"

lemma five_text: "num_to_string (Fin 5) = ''5''"
proof -
  have e: "exponent 5 = 2" by code_simp
  have r: "round64 5 = Fin 5" "round64 6 = Fin 6" using num_of_int_exact [of 5] num_of_int_exact [of 6] by (simp_all add: num_of_int_def)
  have f: "\<lfloor>5 :: rat\<rfloor> = 5" by simp
  have "dec_exponent 5 = 1" by (simp add: dec_exponent_def e scale10_def Let_def)
  moreover have "digits_for 5 1 1 = [5]" by (simp add: digits_for_def Let_def scale10_def r)
  ultimately have "shortest 5 = (5, 1, 1)" by (simp add: shortest_def Let_def upt_rec)
  then show ?thesis by (simp add: num_to_string_def positive_string_def js_eval)
qed

theorem transfer_shown_as_zero_witness:
  "shown_transfer sample_web_kit (transfer_json sample_token (pending_row five_tokens ''pda'' 5000000 sample_token sample_pool)) = ''0.00 UNK''
   \<and> tr_amount (pending_row five_tokens ''pda'' 5000000 sample_token sample_pool) = ''5''"
proof -
  note t = five_text
  have "list_all is_digit ''5''" "nat_of_digits ''5'' = 5"
    by (simp_all add: js_eval is_digit_def nat_of_digits_def digit_val_def)
  then have n: "web_number sample_web_kit (num_to_string (Fin 5)) = Fin 5" by (simp add: t web_number_def num_of_int_exact)
  show ?thesis
    using transfer_shown_as_zero [of five_tokens 5 sample_web_kit sample_token "''pda''" 5000000 sample_pool] n t
    by (simp add: five_tokens_def sample_params_def sample_token_def pending_row_def)
qed

section \<open>What the dashboard sends of an amount\<close>


lemma near_half: "k < 2 ^ 50 \<Longrightarrow> (of_int k / 2 ^ 51 :: rat) < 1 / 2"
proof -
  assume "k < 2 ^ 50"
  then have "(of_int k :: rat) < of_int (2 ^ 50)" by (simp only: of_int_less_iff)
  then show ?thesis by simp
qed

lemma units_near:
  assumes "0 < k" and "k < 2 ^ 50" and "ab_mintDecimals a \<le> 15"
  shows "raw_units (round64 (of_int k / 10 ^ ab_mintDecimals a)) (ab_mintDecimals a) = Fin (of_int k)
    \<and> (\<exists>y. units_of (round64 (of_int k / 10 ^ ab_mintDecimals a)) a = Fin y \<and> \<bar>y - of_int k\<bar> \<le> of_int k / 2 ^ 51)"
proof -
  let ?d = "ab_mintDecimals a"
  obtain y where y: "raw_number (round64 (of_int k / 10 ^ ?d)) ?d = Fin y" "\<bar>y - of_int k\<bar> \<le> of_int k / 2 ^ 51"
    using raw_number_near [OF assms] by blast
  have "\<bar>y - of_int k\<bar> < 1 / 2" using y(2) near_half [OF assms(2)] by linarith
  then show ?thesis using y by (simp add: raw_units_def units_of_def raw_number_def math_round_near)
qed


text \<open>C38. The dashboard and the SDK send different amounts for the same text. For \<open>k\<close> base units below
  \<open>2^50\<close>, typed as a decimal number of tokens, the SDK rounds the product and sends exactly \<open>k\<close>; the
  dashboard sends the product as it is, off by at most \<open>k / 2^51\<close>, and so possibly no integer. The witness has
  1.001 tokens of six decimals, where the integer part of what the dashboard sends is one unit short.\<close>

theorem dashboard_amount_unrounded:
  assumes "0 < k" and "k < 2 ^ 50" and "ab_mintDecimals a \<le> 15"
  shows "raw_units (round64 (of_int k / 10 ^ ab_mintDecimals a)) (ab_mintDecimals a) = Fin (of_int k)
    \<and> (\<exists>y. units_of (round64 (of_int k / 10 ^ ab_mintDecimals a)) a = Fin y \<and> \<bar>y - of_int k\<bar> \<le> of_int k / 2 ^ 51)"
  using units_near [OF assms] .

definition usdc_body :: account_body where
  "usdc_body = \<lparr>ab_pda = ''P'', ab_owner = ''O'', ab_mint = ''M'', ab_mintDecimals = 6, ab_isPaused = False, ab_balance = Fin 0,
     ab_operators = [], ab_driftUser = None, ab_principalBalance = ''0''\<rparr>"

theorem dashboard_amount_unrounded_witness:
  "raw_units (round64 (1001 / 1000)) 6 = Fin 1001000
   \<and> (\<exists>y. units_of (round64 (1001 / 1000)) usdc_body = Fin y \<and> \<lfloor>y\<rfloor> = 1000999 \<and> \<bar>y - 1001000\<bar> \<le> 1001000 / 2 ^ 51)"
proof -
  obtain y where y: "raw_number (round64 (1001 / 1000)) 6 = Fin y" "\<lfloor>y\<rfloor> = 1000999" using one_unit_lost by blast
  then have "units_of (round64 (1001 / 1000)) usdc_body = Fin y" by (simp add: units_of_def raw_number_def usdc_body_def)
  then show ?thesis using dashboard_amount_unrounded [of 1001000 usdc_body] y(2) by (simp add: usdc_body_def)
qed

end
