(* ===== verification/AccountApi.thy ===== *)
theory AccountApi
  imports EndToEnd SdkAccount
begin

text \<open>
  The account routes of the backend as a server (\<^verbatim>\<open>account.controller.ts\<close>): requests are read at the members
  that the routes declare and answered with the bodies they send. The SDK's account commands run against
  it: what they read is typed, and what a failed balance does to later amounts.
\<close>

section \<open>The routes as a server\<close>

text \<open>The answer of \<open>GET :pda\<close>, member by member.\<close>

definition slot_json :: "nat \<times> string \<times> string \<Rightarrow> json" where
  "slot_json slot = (case slot of (i, k, l) \<Rightarrow>
     JsObj [(''index'', JsNum (Fin (of_nat i))), (''pubkey'', JsText k), (''perTxLimit'', JsText l)])"

definition nullable :: "string option \<Rightarrow> json" where
  "nullable x = (case x of None \<Rightarrow> JsNull | Some s \<Rightarrow> JsText s)"

definition account_answer :: "account_body \<Rightarrow> 16 word option \<Rightarrow> json" where
  "account_answer b market =
     json_stored (ok_data
       [(''pda'', JsText (ab_pda b)), (''owner'', JsText (ab_owner b)), (''mint'', JsText (ab_mint b)),
        (''mintDecimals'', JsNum (Fin (of_nat (ab_mintDecimals b)))), (''isPaused'', JsBool (ab_isPaused b)),
        (''balance'', JsNum (ab_balance b)), (''operators'', JsArr (map slot_json (ab_operators b))),
        (''driftUser'', nullable (ab_driftUser b)),
        (''driftMarketIndex'', (case market of None \<Rightarrow> JsNull | Some m \<Rightarrow> JsNum (Fin (of_nat (unat m))))),
        (''principalBalance'', JsText (ab_principalBalance b))])"

definition tx_answer :: "http_error + string \<Rightarrow> axios_failure + json" where
  "tx_answer r = (case r of Inl e \<Rightarrow> Inl (failure_of e) | Inr tx \<Rightarrow> Inr (ok_data [(''transaction'', JsText tx)]))"

definition account_post :: "silk_env \<Rightarrow> string \<Rightarrow> json \<Rightarrow> (axios_failure + json) option" where
  "account_post env route b =
     (let f = text_field b; n = num_field b in
      if route = ''create'' then
        Some (case account_create env (f ''owner'') (f ''mint'') (f ''operator'') (n ''perTxLimit'') of
            Inl e \<Rightarrow> Inl (failure_of e)
          | Inr (tx, pda) \<Rightarrow> Inr (ok_data [(''transaction'', JsText tx), (''accountPda'', JsText pda)]))
      else if route = ''deposit'' then Some (tx_answer (account_deposit env (f ''depositor'') (f ''accountPda'') (n ''amount'')))
      else if route = ''transfer'' then
        Some (tx_answer (account_transfer env (f ''signer'') (f ''accountPda'') (f ''recipient'') (n ''amount'')))
      else if route = ''pause'' then Some (tx_answer (account_pause env (f ''owner'') (f ''accountPda'')))
      else if route = ''add-operator'' then
        Some (tx_answer (account_add_operator env (f ''owner'') (f ''accountPda'') (f ''operator'') (n ''perTxLimit'')))
      else if route = ''remove-operator'' then
        Some (tx_answer (account_remove_operator env (f ''owner'') (f ''accountPda'') (f ''operator'')))
      else if route = ''close'' then Some (tx_answer (account_close env (f ''owner'') (f ''accountPda'')))
      else None)"

definition account_fetch :: "silk_env \<Rightarrow> string \<Rightarrow> axios_failure + json" where
  "account_fetch env pda =
     (case account_get env (Some pda) of Inl e \<Rightarrow> Inl (failure_of e) | Inr (b, market) \<Rightarrow> Inr (account_answer b market))"

text \<open>The reads with another path below \<^verbatim>\<open>api/account\<close>, and all other routes, are left to \<open>rest\<close>.\<close>

definition account_api ::
    "silk_env \<Rightarrow> (http_request \<Rightarrow> 'w \<Rightarrow> (axios_failure + json) \<times> 'w) \<Rightarrow> http_request \<Rightarrow> 'w \<Rightarrow> (axios_failure + json) \<times> 'w" where
  "account_api env rest r s =
     (let prefix = ''/api/account/''; route = drop (length prefix) (rq_path r) in
      if \<not> startsWith (rq_path r) prefix then rest r s
      else if rq_method r = ''POST'' then (case account_post env route (rq_body r) of Some a \<Rightarrow> (a, s) | None \<Rightarrow> rest r s)
      else if rq_method r = ''GET'' \<and> CHR ''/'' \<notin> set route \<and> CHR ''?'' \<notin> set route \<and> route \<noteq> ''list'' then (account_fetch env route, s)
      else rest r s)"

section \<open>Types of the answers\<close>

lemma slot_read: "slot_of_json (json_stored (slot_json slot)) = Some slot"
  by (cases slot) (simp add: slot_json_def slot_of_json_def nat_field_def text_field_def as_text_def jget_def)

lemma slots_read: "slots_of_json (map json_stored (map slot_json slots)) = Some slots"
  by (induction slots) (simp_all add: slot_read)

lemma answer_read:
  assumes "d_isFinite (ab_balance b)"
  shows "read_detail (account_answer b market) = Inr b"
  using assms
  by (cases b) (auto simp: account_answer_def ok_data_def read_detail_def member_def jget_def body_of_json_def text_field_def nat_field_def
      bool_field_def num_field_def as_text_def detail_slots_def as_list_def slots_read [simplified] nullable_def d_isFinite_def
      split: double.splits option.splits)


lemma answer_read_only:
  assumes "read_detail (account_answer b market) = Inr b'"
  shows "b' = b"
proof (cases "d_isFinite (ab_balance b)")
  case True
  then show ?thesis using answer_read assms by simp
next
  case False
  then have "read_detail (account_answer b market) = Inl type_error"
    by (cases b) (auto simp: account_answer_def ok_data_def read_detail_def member_def jget_def body_of_json_def text_field_def nat_field_def
        bool_field_def num_field_def as_text_def d_isFinite_def split: double.splits option.splits)
  then show ?thesis using assms by simp
qed

text \<open>Balances are 64-bit.\<close>

definition balances_fit :: "silk_env \<Rightarrow> bool" where
  "balances_fit env \<longleftrightarrow> (\<forall>k n d. sg_tokenBalance env k = Inr (n, d) \<longrightarrow> n < 2 ^ 64)
     \<and> (\<forall>k a. sg_fetch env k = Inr a \<longrightarrow> 0 \<le> sk_principalBalance a \<and> sk_principalBalance a < 2 ^ 64)"

lemma num_finite: "0 \<le> n \<Longrightarrow> n < 2 ^ 64 \<Longrightarrow> d_isFinite (num_of_int n)"
proof (cases "n = 0")
  case False
  assume n: "0 \<le> n" "n < 2 ^ 64"
  with False have "(1 :: rat) \<le> of_int n" by simp
  moreover have "(2 powi (- 1022) :: rat) \<le> 1" by (simp add: power_int_minus)
  ultimately have "(2 powi (- 1022) :: rat) \<le> of_int n" by linarith
  moreover have "(of_int n :: rat) < of_int (2 ^ 64)" using n(2) by (simp only: of_int_less_iff)
  then have "(of_int n :: rat) < 2 ^ 1000" by (rule less_trans) simp
  ultimately show ?thesis using round64_pos by (fastforce simp: num_of_int_def d_isFinite_def)
qed (simp add: num_of_int_def round64_def d_isFinite_def)

lemma account_get_iff:
  assumes "account_get env (Some pda) = Inr (b, market)"
  obtains v where "silk_getAccount env pda = Inr (Some v)" and "b = body_of v (numbered_slots 0 (sk_operators (av_account v)))"
    and "market = sk_driftMarketIndex (av_account v)"
  using assms by (auto simp: account_get_def http_bind_Inr_iff pubkey_field_def dest!: pubkey_field_Some [unfolded pubkey_field_def] split: option.splits)

lemma silk_getAccount_iff:
  assumes "silk_getAccount env pda = Inr (Some v)"
  obtains k a where "silk_key env pda = Inr k" and "sg_fetch env k = Inr a" and "av_account v = a" and "av_pda v = pda"
    and "av_mintDecimals v = (case sg_tokenBalance env (sg_ata env (sk_mint a) k) of Inr (n, d) \<Rightarrow> d | Inl e \<Rightarrow> 0)"
    and "av_balance v = (case sk_driftUser a of None \<Rightarrow>
           (case sg_tokenBalance env (sg_ata env (sk_mint a) k) of Inr (n, d) \<Rightarrow> num_of_int (int n) | Inl e \<Rightarrow> Fin 0)
         | Some u \<Rightarrow> num_of_int (sk_principalBalance a))"
  using assms
  by (auto simp: silk_getAccount_def bind_result_Inr_iff fetchAccount_def Let_def split: option.splits sum.splits prod.splits)


text \<open>C21. What the account route answers has the type its readers declare. When it answers at all, the SDK
  and the dashboard read the answer without an error, and what they read is the account that the program
  holds under that address: its owner, mint, pause flag and principal, every operator with its position
  and limit, and the asked address.\<close>

theorem account_answer_typed:
  assumes "account_fetch env pda = Inr j" and "balances_fit env"
  shows "\<exists>b k a. read_detail j = Inr b \<and> silk_key env pda = Inr k \<and> sg_fetch env k = Inr a
    \<and> ab_pda b = pda \<and> ab_owner b = sk_owner a \<and> ab_mint b = sk_mint a \<and> ab_isPaused b = sk_isPaused a
    \<and> ab_operators b = numbered_slots 0 (sk_operators a) \<and> ab_principalBalance b = int_str (sk_principalBalance a)"
proof -
  obtain b market where g: "account_get env (Some pda) = Inr (b, market)" and j: "j = account_answer b market"
    using assms(1) by (auto simp: account_fetch_def split: sum.splits)
  from g obtain v where v: "silk_getAccount env pda = Inr (Some v)" and b: "b = body_of v (numbered_slots 0 (sk_operators (av_account v)))"
    by (rule account_get_iff)
  from v obtain k a where k: "silk_key env pda = Inr k" "sg_fetch env k = Inr a" "av_account v = a" "av_pda v = pda"
      and bal: "av_balance v = (case sk_driftUser a of None \<Rightarrow>
           (case sg_tokenBalance env (sg_ata env (sk_mint a) k) of Inr (n, d) \<Rightarrow> num_of_int (int n) | Inl e \<Rightarrow> Fin 0)
         | Some u \<Rightarrow> num_of_int (sk_principalBalance a))"
    by (rule silk_getAccount_iff)
  have "d_isFinite (Fin 0)" by (simp add: d_isFinite_def)
  then have "d_isFinite (av_balance v)"
    using bal assms(2) k(2) num_finite unfolding balances_fit_def by (auto split: option.splits sum.splits)
  then have "d_isFinite (ab_balance b)" by (simp add: b body_of_def Let_def)
  then have "read_detail j = Inr b" unfolding j by (rule answer_read)
  then show ?thesis using k b by (auto simp: body_of_def Let_def)
qed

section \<open>An account synced_world while its balance cannot be read\<close>

lemma with_wallet_Inr:
  "with_wallet label f w = (Inr y, w') \<longleftrightarrow>
     (\<exists>wallet. getWallet (loadConfig (sw_config w)) label = Inr wallet \<and> f (loadConfig (sw_config w)) wallet w = (Inr y, w'))"
  by (auto simp: with_wallet_def get_config_def andThen_Inr)

lemma account_api_get:
  assumes "CHR ''/'' \<notin> set pda" and "CHR ''?'' \<notin> set pda" and "pda \<noteq> ''list''"
  shows "account_api env rest (request_of client ''GET'' (''/api/account/'' @ pda) b) s = (account_fetch env pda, s)"
  using assms by (simp add: account_api_def request_of_def)

lemma sync_stores:
  assumes "kt_send kit = account_api env rest" and "CHR ''/'' \<notin> set pda" and "CHR ''?'' \<notin> set pda" and "pda \<noteq> ''list''" and "pda \<noteq> []"
    and "accountSync kit before (Some pda) label w = (Inr rep, w')"
  shows "\<exists>c b market a. account_get env (Some pda) = Inr (b, market) \<and> sw_config w' = Some c \<and> cf_account c = Some a
    \<and> ac_pda a = pda \<and> ac_mintDecimals a = ab_mintDecimals b"
proof -
  let ?c = "loadConfig (sw_config w)"
  from assms(5,6) obtain wallet where "sync_one kit pda ?c wallet w = (Inr rep, w')"
    by (auto simp: accountSync_def with_wallet_Inr truthy_string_def)
  then obtain d acct i l w1 where sent: "exchanged kit (request_of (client_of kit ?c) ''GET'' (''/api/account/'' @ pda) JsNull) (Inr d) w w1"
      and r: "read_detail d = Inr acct" and w': "w' = w1\<lparr>sw_config := Some (?c\<lparr>cf_account := Some (info_of kit acct (i, l))\<rparr>)\<rparr>"
    by (auto simp: sync_one_def andThen_Inr http_get_def send_Inr put_config_def saveConfig_def split: option.splits)
  have "account_fetch env pda = Inr d"
    using exchangedD(4) [OF sent] unfolding assms(1) account_api_get [OF assms(2-4)] by simp
  then obtain b market where g: "account_get env (Some pda) = Inr (b, market)" and d: "d = account_answer b market"
    by (auto simp: account_fetch_def split: sum.splits)
  have "acct = b" using r unfolding d by (rule answer_read_only)
  moreover have "ab_pda b = pda" using g by (auto elim!: account_get_iff silk_getAccount_iff simp: body_of_def Let_def)
  ultimately show ?thesis using g w' by (auto simp: info_of_def)
qed

lemma deposit_request:
  assumes "accountDeposit kit amount label w = (Inr y, w')" and "cf_account (loadConfig (sw_config w)) = Some a"
  shows "\<exists>r. r \<in> set (sw_sent w') \<and> rq_path r = ''/api/account/deposit'' \<and> jget (rq_body r) ''accountPda'' = Some (JsText (ac_pda a))
    \<and> jget (rq_body r) ''amount'' = Some (JsNum (raw_units (parseFloat amount) (ac_mintDecimals a)))"
proof -
  let ?c = "loadConfig (sw_config w)"
  from assms obtain wallet :: wallet_entry and built w1 w2 t2 where
      sent: "exchanged kit (request_of (client_of kit ?c) ''POST'' ''/api/account/deposit''
         (JsObj [(''depositor'', JsText (wl_address wallet)), (''accountPda'', JsText (ac_pda a)),
            (''amount'', JsNum (raw_units (parseFloat amount) (ac_mintDecimals a)))])) (Inr built) w w1"
      and rest: "silky_submit kit (client_of kit ?c) t2 w1 = (Inr w2, w')"
    by (auto simp: accountDeposit_def with_account_def with_wallet_Inr andThen_Inr account_tx_def http_post_def send_Inr validateAmount_def
        Let_def split: if_splits)
  have "\<exists>xs. sw_sent w' = sw_sent w1 @ xs"
    using rest by (auto simp: silky_submit_def catch_def submit_tx_def http_post_def andThen_def send_request_def lift_def Let_def
        split: prod.splits sum.splits)
  then show ?thesis using exchangedD(1) [OF sent] by (auto simp: request_of_def jget_def)
qed

text \<open>C20. An RPC failure while an account is synced changes what amounts mean. When the account route
  cannot read the token balance it answers zero decimals; the SDK stores them with the account, and from
  then on, until the next sync, a deposit of \<open>k\<close> tokens is sent as a deposit of \<open>k\<close> base
  units, whatever the route would answer by then.\<close>

theorem sync_loses_decimals:
  assumes "kt_send kit = account_api env rest" and "\<And>key. \<exists>e. sg_tokenBalance env key = Inl e"
    and "CHR ''/'' \<notin> set pda" and "CHR ''?'' \<notin> set pda" and "pda \<noteq> ''list''" and "pda \<noteq> []"
    and "accountSync kit before (Some pda) label w = (Inr rep, w1)"
    and "accountDeposit later amount label2 w1 = (Inr y, w2)"
    and "parseFloat amount = Fin (of_int k)" and "0 < k" and "k < 2 ^ 53"
  shows "\<exists>r. r \<in> set (sw_sent w2) \<and> rq_path r = ''/api/account/deposit'' \<and> jget (rq_body r) ''accountPda'' = Some (JsText pda)
    \<and> jget (rq_body r) ''amount'' = Some (JsNum (Fin (of_int k)))"
proof -
  obtain c b market a where g: "account_get env (Some pda) = Inr (b, market)" and c: "sw_config w1 = Some c" "cf_account c = Some a"
      and a: "ac_pda a = pda" "ac_mintDecimals a = ab_mintDecimals b"
    using sync_stores [OF assms(1,3-7)] by blast
  from g obtain v where v: "silk_getAccount env pda = Inr (Some v)" and b: "b = body_of v (numbered_slots 0 (sk_operators (av_account v)))"
    by (rule account_get_iff)
  from v obtain key d where "av_mintDecimals v = (case sg_tokenBalance env key of Inr (n, d) \<Rightarrow> d | Inl e \<Rightarrow> 0)"
    by (rule silk_getAccount_iff)
  moreover obtain e where "sg_tokenBalance env key = Inl e" using assms(2) by blast
  ultimately have "ab_mintDecimals b = 0" by (simp add: b body_of_def Let_def)
  moreover have "num_of_int k = Fin (of_int k)" using assms(10,11) by (intro num_of_int_exact) auto
  then have "round64 (of_int k) = Fin (of_int k)" by (simp add: num_of_int_def)
  then have "raw_units (Fin (of_int k)) 0 = Fin (of_int k)"
    by (simp add: raw_units_def d_mul_def num_of_int_exact math_round_near)
  moreover have "cf_account (loadConfig (sw_config w1)) = Some a" using c by (simp add: loadConfig_def)
  ultimately show ?thesis using deposit_request [OF assms(8)] a assms(9) by auto
qed

definition down_env :: silk_env where
  "down_env = sample_silk_env\<lparr>sg_tokenBalance := (\<lambda>k. Inl (JsError ''RPC'')),
     sg_fetch := (\<lambda>k. Inr (sample_silk_data\<lparr>sk_operators := [(''W'', 5)]\<rparr>))\<rparr>"

definition down_kit :: "unit sdk_kit" where
  "down_kit = sample_kit\<lparr>kt_send := account_api down_env sample_server, kt_is_key := (\<lambda>s. True)\<rparr>"

definition down_pda :: string where
  "down_pda = key_text (CHR ''P'')"

definition down_body :: account_body where
  "down_body = \<lparr>ab_pda = down_pda, ab_owner = replicate 32 (CHR ''O''), ab_mint = ''M'', ab_mintDecimals = 0, ab_isPaused = False,
     ab_balance = Fin 0, ab_operators = [(0, ''W'', ''5'')], ab_driftUser = None, ab_principalBalance = ''0''\<rparr>"

lemma down_pda_plain: "CHR ''/'' \<notin> set down_pda" "CHR ''?'' \<notin> set down_pda" "down_pda \<noteq> ''list''" "down_pda \<noteq> []"
  by (simp_all add: down_pda_def key_text_def numeral_eq_Suc)

lemma down_fetch: "account_fetch down_env down_pda = Inr (account_answer down_body None)"
proof -
  have pk: "sg_pk down_env down_pda = Some down_pda" by (simp add: down_env_def sample_silk_env_def down_pda_def key_text_def)
  have "account_get down_env (Some down_pda) = Inr (down_body, None)"
    using pk down_pda_plain(4)
    by (simp add: account_get_def http_bind_def pubkey_field_def validatePubkey_def given_def uncaught_def silk_getAccount_def silk_key_def
        fetchAccount_def bind_result_def Let_def down_env_def sample_silk_env_def sample_silk_data_def body_of_def down_body_def
        int_str_def js_eval)
  then show ?thesis by (simp add: account_fetch_def)
qed

text \<open>The configuration after the sync, and both commands run.\<close>

definition synced_world :: "unit sdk_world" where
  "synced_world = snd (accountSync down_kit (\<lambda>a b. True) (Some down_pda) None (Payments.sample_world None))"

lemma down_kit_send: "kt_send down_kit = account_api down_env sample_server"
  by (simp add: down_kit_def)

lemma down_send:
  "\<exists>w'. http_get down_kit client (''/api/account/'' @ down_pda) w = (Inr (account_answer down_body None), w') \<and> sw_config w' = sw_config w"
proof -
  have "kt_send down_kit (request_of client ''GET'' (''/api/account/'' @ down_pda) JsNull) s = (Inr (account_answer down_body None), s)" for s
    unfolding down_kit_send account_api_get [OF down_pda_plain(1-3)] down_fetch ..
  then show ?thesis by (simp add: http_get_def send_request_def request_of_def [symmetric] Let_def)
qed

lemma down_sync:
  "\<exists>rep. accountSync down_kit (\<lambda>a b. True) (Some down_pda) None (Payments.sample_world None) = (Inr rep, synced_world)"
  "cf_account (loadConfig (sw_config synced_world)) = Some (info_of down_kit down_body (0, ''5''))"
  "getWallet (loadConfig (sw_config synced_world)) None = Inr \<lparr>wl_label = ''main'', wl_address = ''W'', wl_privateKey = ''K''\<rparr>"
proof -
  let ?w = "Payments.sample_world None" and ?wl = "\<lparr>wl_label = ''main'', wl_address = ''W'', wl_privateKey = ''K''\<rparr>"
  let ?c = "loadConfig (sw_config ?w)" and ?a = "info_of down_kit down_body (0, ''5'')"
  obtain w' where g: "http_get down_kit (client_of down_kit ?c) (''/api/account/'' @ down_pda) ?w = (Inr (account_answer down_body None), w')"
    using down_send by blast
  have "validateAddress down_kit down_pda ''account'' = Inr ()" by (simp add: validateAddress_def down_kit_def)
  moreover have "read_detail (account_answer down_body None) = Inr down_body"
    by (rule answer_read) (simp add: down_body_def d_isFinite_def)
  ultimately have "sync_one down_kit down_pda ?c ?wl ?w
      = (Inr (Some (report_of down_kit down_body (0, ''5'') [])), w'\<lparr>sw_config := Some (?c\<lparr>cf_account := Some ?a\<rparr>)\<rparr>)"
    using g by (simp add: sync_one_def andThen_def lift_def put_config_def saveConfig_def ret_def down_body_def)
  then have run: "accountSync down_kit (\<lambda>a b. True) (Some down_pda) None ?w
      = (Inr (Some (report_of down_kit down_body (0, ''5'') [])), w'\<lparr>sw_config := Some (?c\<lparr>cf_account := Some ?a\<rparr>)\<rparr>)"
    using down_pda_plain(4) sample_wallet [of None]
    by (simp add: accountSync_def with_wallet_def get_config_def andThen_def lift_def truthy_string_def)
  then have s: "synced_world = w'\<lparr>sw_config := Some (?c\<lparr>cf_account := Some ?a\<rparr>)\<rparr>" by (simp add: synced_world_def)
  show "\<exists>rep. accountSync down_kit (\<lambda>a b. True) (Some down_pda) None ?w = (Inr rep, synced_world)" unfolding s using run by blast
  show "cf_account (loadConfig (sw_config synced_world)) = Some ?a" by (simp add: s loadConfig_def)
  show "getWallet (loadConfig (sw_config synced_world)) None = Inr ?wl"
    using sample_wallet [of None] by (simp add: s loadConfig_def Payments.sample_world_def add_wallet_def defaultConfig_def getWallet_def find_wallet_def)
qed

lemma down_deposit: "\<exists>y w2. accountDeposit sample_kit ''1'' None synced_world = (Inr y, w2)"
proof -
  have n: "validateAmount ''1'' = Inr (Fin 1)" by (simp add: validateAmount_def parse_one d_less_def d_le_def)
  show ?thesis
    by (simp add: accountDeposit_def with_account_def with_wallet_def get_config_def andThen_def lift_def down_sync(2,3) n account_tx_def
        http_post_def sign_tx_def as_text_def silky_submit_def catch_def submit_tx_def ret_def Let_def)
qed

theorem sync_loses_decimals_witness:
  "\<exists>r. r \<in> set (sw_sent (snd (accountDeposit sample_kit ''1'' None synced_world))) \<and> rq_path r = ''/api/account/deposit''
     \<and> jget (rq_body r) ''amount'' = Some (JsNum (Fin 1))"
proof -
  obtain rep where s: "accountSync down_kit (\<lambda>a b. True) (Some down_pda) None (Payments.sample_world None) = (Inr rep, synced_world)"
    using down_sync(1) by blast
  obtain y w2 where d: "accountDeposit sample_kit ''1'' None synced_world = (Inr y, w2)" using down_deposit by blast
  have "\<exists>r. r \<in> set (sw_sent w2) \<and> rq_path r = ''/api/account/deposit'' \<and> jget (rq_body r) ''accountPda'' = Some (JsText down_pda)
    \<and> jget (rq_body r) ''amount'' = Some (JsNum (Fin (of_int 1)))"
    by (rule sync_loses_decimals [OF down_kit_send _ down_pda_plain s d]) (simp_all add: down_env_def parse_one)
  then show ?thesis using d by auto
qed

theorem account_answer_typed_witness:
  "\<exists>b. read_detail (account_answer down_body None) = Inr b \<and> ab_operators b = [(0, ''W'', ''5'')]"
proof -
  have "balances_fit down_env" by (simp add: balances_fit_def down_env_def sample_silk_data_def)
  from account_answer_typed [OF down_fetch this] show ?thesis
    by (auto simp: down_env_def sample_silk_data_def int_str_def js_eval)
qed
end
