(* ===== verification/CommandLine.thy ===== *)
theory CommandLine
  imports OrdersCli
begin

text \<open>
  The command line of the SDK (\<^verbatim>\<open>cli.ts\<close>): the table of commands with their arguments and options, what each
  runs, and what every sequence of command lines keeps in the SDK's three files. Splitting the words
  of a line into the command's path, its arguments and its options is left to the parser library;
  printing is not modelled.
\<close>

section \<open>The table of commands\<close>

datatype cli_line =
    LInit
  | LRegister "string option"
  | LAuthStatus
  | LRevoke
  | LCreateWallet string
  | LWallets
  | LFundWallet bool bool "string option"
  | LBalance "string option"
  | LPay string string "string option" "string option"
  | LClaim string "string option"
  | LCancelPay string "string option"
  | LPayments "string option"
  | LPayment string
  | LSetCluster string
  | LGetCluster
  | LResetCluster
  | LSync "string option" "string option"
  | LAccount "string option"
  | LEvents "string option" "string option"
  | LDeposit string "string option"
  | LWithdraw string "string option"
  | LSend string string "string option"
  | LAddContact string string
  | LRemoveContact string
  | LContacts
  | LContact string
  | LChat string
  | LOrder string create_options
  | LOrders "string option"
  | LOrderGet string
  | LOrderCancel string
  | LEvaluate bool "string option"

text \<open>A row: the path, how many arguments are required, and the line made of the arguments, the options with
  values (under the names the library gives them) and the flags.\<close>

type_synonym cli_row = "string list \<times> nat \<times> (string list \<Rightarrow> (string \<Rightarrow> string option) \<Rightarrow> (string \<Rightarrow> bool) \<Rightarrow> cli_line)"

definition setup_commands :: "cli_row list" where
  "setup_commands =
     [([''init''], 0, \<lambda>a v f. LInit),
      ([''auth'', ''register''], 0, \<lambda>a v f. LRegister (v ''wallet'')),
      ([''auth'', ''status''], 0, \<lambda>a v f. LAuthStatus),
      ([''auth'', ''revoke''], 0, \<lambda>a v f. LRevoke),
      ([''wallet'', ''create''], 0, \<lambda>a v f. LCreateWallet (case a of [] \<Rightarrow> ''main'' | label # rest \<Rightarrow> label)),
      ([''wallet'', ''list''], 0, \<lambda>a v f. LWallets),
      ([''wallet'', ''fund''], 0, \<lambda>a v f. LFundWallet (f ''sol'') (f ''usdc'') (v ''wallet'')),
      ([''balance''], 0, \<lambda>a v f. LBalance (v ''wallet''))]"

definition payment_commands :: "cli_row list" where
  "payment_commands =
     [([''pay''], 2, \<lambda>a v f. LPay (a ! 0) (a ! 1) (v ''memo'') (v ''wallet'')),
      ([''claim''], 1, \<lambda>a v f. LClaim (a ! 0) (v ''wallet'')),
      ([''cancel''], 1, \<lambda>a v f. LCancelPay (a ! 0) (v ''wallet'')),
      ([''payments'', ''list''], 0, \<lambda>a v f. LPayments (v ''wallet'')),
      ([''payments'', ''get''], 1, \<lambda>a v f. LPayment (a ! 0))]"

definition config_commands :: "cli_row list" where
  "config_commands =
     [([''config'', ''set-cluster''], 1, \<lambda>a v f. LSetCluster (a ! 0)),
      ([''config'', ''get-cluster''], 0, \<lambda>a v f. LGetCluster),
      ([''config'', ''reset-cluster''], 0, \<lambda>a v f. LResetCluster)]"

definition account_commands :: "cli_row list" where
  "account_commands =
     [([''account'', ''sync''], 0, \<lambda>a v f. LSync (v ''account'') (v ''wallet'')),
      ([''account'', ''status''], 0, \<lambda>a v f. LAccount (v ''wallet'')),
      ([''account'', ''events''], 0, \<lambda>a v f. LEvents (v ''type'') (v ''wallet'')),
      ([''account'', ''deposit''], 1, \<lambda>a v f. LDeposit (a ! 0) (v ''wallet'')),
      ([''account'', ''withdraw''], 1, \<lambda>a v f. LWithdraw (a ! 0) (v ''wallet'')),
      ([''account'', ''send''], 2, \<lambda>a v f. LSend (a ! 0) (a ! 1) (v ''wallet''))]"

definition contact_commands :: "cli_row list" where
  "contact_commands =
     [([''contacts'', ''add''], 2, \<lambda>a v f. LAddContact (a ! 0) (a ! 1)),
      ([''contacts'', ''remove''], 1, \<lambda>a v f. LRemoveContact (a ! 0)),
      ([''contacts'', ''list''], 0, \<lambda>a v f. LContacts),
      ([''contacts'', ''get''], 1, \<lambda>a v f. LContact (a ! 0)),
      ([''chat''], 1, \<lambda>a v f. LChat (a ! 0))]"

definition order_commands :: "cli_row list" where
  "order_commands =
     [([''orders'', ''create''], 1, \<lambda>a v f. LOrder (a ! 0)
         \<lparr>co_sell = v ''sell'', co_buy = v ''buy'', co_price = v ''price'', co_slippage = v ''slippage'', co_expires = v ''expires'',
          co_cooldown = v ''cooldown'', co_maxAttempts = v ''maxAttempts'', co_wallet = v ''wallet''\<rparr>),
      ([''orders'', ''list''], 0, \<lambda>a v f. LOrders (v ''status'')),
      ([''orders'', ''get''], 1, \<lambda>a v f. LOrderGet (a ! 0)),
      ([''orders'', ''cancel''], 1, \<lambda>a v f. LOrderCancel (a ! 0)),
      ([''orders'', ''evaluate''], 0, \<lambda>a v f. LEvaluate (f ''dryRun'') (v ''wallet''))]"

definition cli_table :: "cli_row list" where
  "cli_table = setup_commands @ payment_commands @ config_commands @ account_commands @ contact_commands @ order_commands"

definition read_line :: "string list \<Rightarrow> string list \<Rightarrow> (string \<Rightarrow> string option) \<Rightarrow> (string \<Rightarrow> bool) \<Rightarrow> cli_line option" where
  "read_line path args v f =
     (case map_of cli_table path of
        None \<Rightarrow> None
      | Some (required, line) \<Rightarrow> if length args < required then None else Some (line args v f))"

section \<open>What a line runs\<close>

definition quiet :: "('w, 'a) cmd \<Rightarrow> ('w, unit) cmd" where
  "quiet c = wrapCommand (andThen c (\<lambda>x. ret ()))"

definition on_config :: "(sdk_config option \<Rightarrow> 'a result \<times> sdk_config option) \<Rightarrow> ('w, 'a) cmd" where
  "on_config f w = (case f (sw_config w) of (r, file) \<Rightarrow> (r, w\<lparr>sw_config := file\<rparr>))"

definition on_contacts :: "(contacts_file \<Rightarrow> 'a result \<times> contacts_file) \<Rightarrow> ('w, 'a) cmd" where
  "on_contacts f w = (case f (sw_contacts w) of (r, file) \<Rightarrow> (r, w\<lparr>sw_contacts := file\<rparr>))"

definition on_orders :: "(orders_file \<Rightarrow> orders_file result) \<Rightarrow> ('w, unit) cmd" where
  "on_orders f w = (case f (sw_orders w) of Inl e \<Rightarrow> (Inl e, w) | Inr file \<Rightarrow> (Inr (), w\<lparr>sw_orders := file\<rparr>))"

definition init_files :: "'w sdk_kit \<Rightarrow> ('w, init_report) cmd" where
  "init_files kit w =
     (case sdk_init (kt_keypair kit) (kt_uuid kit) (sw_config w, sw_contacts w) of
        (report, cfg, contacts) \<Rightarrow> (Inr report, w\<lparr>sw_config := cfg, sw_contacts := contacts\<rparr>))"

text \<open>Evaluating orders is not an action (its pass may not end), and has a rule of its own below. The
  commands that only read and print run \<open>ret\<close>.\<close>

fun run_line :: "'w sdk_kit \<Rightarrow> (string \<Rightarrow> string \<Rightarrow> bool) \<Rightarrow> cli_line \<Rightarrow> ('w, unit) cmd option" where
  "run_line kit before LInit = Some (quiet (init_files kit))"
| "run_line kit before (LRegister label) = Some (quiet (authRegister kit label))"
| "run_line kit before LAuthStatus = Some (ret ())"
| "run_line kit before LRevoke = Some (quiet (authRevoke kit))"
| "run_line kit before (LCreateWallet label) = Some (quiet (on_config (walletCreate label (kt_keypair kit))))"
| "run_line kit before LWallets = Some (ret ())"
| "run_line kit before (LFundWallet sol usdc label) = Some (quiet (walletFund kit sol usdc label))"
| "run_line kit before (LBalance label) = Some (quiet (sdk_balance kit label))"
| "run_line kit before (LPay recipient amount memo label) = Some (quiet (pay kit recipient amount memo label))"
| "run_line kit before (LClaim pda label) = Some (quiet (claim kit pda label))"
| "run_line kit before (LCancelPay pda label) = Some (quiet (cancel kit pda label))"
| "run_line kit before (LPayments label) = Some (quiet (paymentsList kit label))"
| "run_line kit before (LPayment pda) = Some (quiet (paymentsGet kit pda))"
| "run_line kit before (LSetCluster cluster) = Some (quiet (on_config (configSetCluster (kt_envUrl kit) cluster)))"
| "run_line kit before LGetCluster = Some (ret ())"
| "run_line kit before LResetCluster =
     Some (quiet (on_config (\<lambda>file. case configResetCluster (kt_envUrl kit) file of (r, file') \<Rightarrow> (Inr r, file'))))"
| "run_line kit before (LSync account label) = Some (quiet (accountSync kit before account label))"
| "run_line kit before (LAccount label) = Some (quiet (accountStatus kit label))"
| "run_line kit before (LEvents kind label) = Some (quiet (accountEvents kit kind label))"
| "run_line kit before (LDeposit amount label) = Some (quiet (accountDeposit kit amount label))"
| "run_line kit before (LWithdraw amount label) = Some (quiet (accountWithdraw kit amount label))"
| "run_line kit before (LSend recipient amount label) = Some (quiet (accountSend kit recipient amount label))"
| "run_line kit before (LAddContact name address) = Some (quiet (on_contacts (contactsAdd (kt_is_key kit) name address)))"
| "run_line kit before (LRemoveContact name) = Some (quiet (on_contacts (contactsRemove name)))"
| "run_line kit before LContacts = Some (ret ())"
| "run_line kit before (LContact name) = Some (quiet (\<lambda>w. (contactsGet name (sw_contacts w), w)))"
| "run_line kit before (LChat message) = Some (quiet (sdk_chat kit message))"
| "run_line kit before (LOrder input opts) = Some (quiet (ordersCreate kit input opts))"
| "run_line kit before (LOrders status) = Some (quiet (ordersList status))"
| "run_line kit before (LOrderGet i) = Some (quiet (ordersGet i))"
| "run_line kit before (LOrderCancel i) = Some (quiet (on_orders (ordersCancel (kt_now kit) i)))"
| "run_line kit before (LEvaluate dry label) = None"

text \<open>One line of the command line, with any server, key pair, time and transaction library behind it; a line
  that is not in the table, or that lacks an argument, is refused by the parser. What an
  evaluation does to the server is left open.\<close>

inductive cli_step :: "(string \<Rightarrow> bool) \<Rightarrow> 'w sdk_world \<Rightarrow> 'w sdk_world \<Rightarrow> bool" for is_key :: "string \<Rightarrow> bool" where
  run: "read_line path args v f = Some line \<Longrightarrow> run_line kit before line = Some c \<Longrightarrow> kt_is_key kit = is_key
    \<Longrightarrow> c w = (r, w') \<Longrightarrow> cli_step is_key w w'"
| evaluate: "read_line path args v f = Some (LEvaluate dry label) \<Longrightarrow> ordersEvaluate fuel kit w3 dry label w = Some (r2, orders)
    \<Longrightarrow> sw_config w' = sw_config w \<Longrightarrow> sw_contacts w' = sw_contacts w \<Longrightarrow> sw_orders w' = orders \<Longrightarrow> cli_step is_key w w'"


section \<open>What a line keeps of the files\<close>

text \<open>Relative to the files of \<open>w0\<close>: the wallets are kept and well-formed, the address book stays
  well-formed, every order is still the order at its place and no swap order is filled.\<close>

definition sound_since :: "(string \<Rightarrow> bool) \<Rightarrow> 'w sdk_world \<Rightarrow> 'w sdk_world \<Rightarrow> bool" where
  "sound_since is_key w0 w \<longleftrightarrow>
     wallets_kept (sw_config w0) (sw_config w) \<and> wallets_wf (sw_config w) \<and> contacts_wf is_key (sw_contacts w)
     \<and> extends (sw_orders w0) (sw_orders w)
     \<and> (\<forall>k. unfilled k w0 \<longrightarrow> unfilled k w)"

text \<open>A command that leaves the address book and the orders alone and keeps the wallets.\<close>

definition leaves :: "contacts_file \<times> orders_file \<Rightarrow> ('w, 'a) cmd \<Rightarrow> bool" where
  "leaves F c \<longleftrightarrow> stays (\<lambda>w. (sw_contacts w, sw_orders w) = F) c"

named_theorems leaves \<open>commands that leave the address book and the orders alone\<close>

lemma leaves_andThen [leaves]: "leaves F c \<Longrightarrow> (\<And>x. leaves F (f x)) \<Longrightarrow> leaves F (andThen c f)"
  unfolding leaves_def by (rule stays_andThen)

lemma leaves_catch [leaves]: "leaves F c \<Longrightarrow> (\<And>e. leaves F (h e)) \<Longrightarrow> leaves F (catch c h)"
  unfolding leaves_def by (rule stays_catch)

lemma leaves_basic [leaves]:
  "leaves F (lift r)" "leaves F (ret x)" "leaves F get_config" "leaves F (put_config c)" "leaves F (on_config f)"
  by (simp_all add: leaves_def stays_def lift_def ret_def get_config_def put_config_def on_config_def split: prod.split)

lemma leaves_send [leaves]: "leaves F (send_request kit client m p b)"
  unfolding leaves_def by (rule staysI) (auto simp: send_request_def Let_def split: prod.splits sum.splits)

lemma leaves_http [leaves]: "leaves F (http_get kit client p)" "leaves F (http_post kit client p b)"
  by (simp_all add: http_get_def http_post_def leaves)

lemma leaves_with [leaves]:
  "(\<And>c wl. leaves F (f c wl)) \<Longrightarrow> leaves F (with_wallet label f)"
  "(\<And>c wl a. leaves F (g c wl a)) \<Longrightarrow> leaves F (with_account label g)"
  by (auto simp: with_wallet_def with_account_def leaves split: option.split)

lemma leaves_parts [leaves]:
  "leaves F (balance_guard kit client sender n)" "leaves F (validatePay kit client r am s)"
  "leaves F (submit_tx kit client t)" "leaves F (silky_submit kit client t)" "leaves F (account_tx kit c wl path b)"
  "leaves F (pay_from kit to am memo c wl)" "leaves F (fetch_transfer kit client p)"
  "leaves F (validateClaim kit client p a)" "leaves F (validateCancel kit client p a)"
  by (simp_all add: balance_guard_def validatePay_def submit_tx_def silky_submit_def account_tx_def pay_from_def Let_def
      fetch_transfer_def validateClaim_def validateCancel_def leaves)

lemma leaves_settle [leaves]: "(\<And>cl a. leaves F (check cl a)) \<Longrightarrow> leaves F (settle_transfer kit check path role p c wl)"
  by (simp add: settle_transfer_def Let_def leaves)

lemma leaves_commands [leaves]:
  "leaves F (claim kit p label)" "leaves F (cancel kit p label)" "leaves F (authRegister kit label)"
  "leaves F (authRevoke kit)" "leaves F (accountSync kit before account label)"
  "leaves F (accountDeposit kit amount label)" "leaves F (accountWithdraw kit amount label)"
  "leaves F (walletFund kit sol usdc label)" "leaves F (sdk_balance kit label)" "leaves F (paymentsList kit label)"
  "leaves F (paymentsGet kit p)" "leaves F (accountStatus kit label)" "leaves F (accountEvents kit kind label)"
  by (auto simp: claim_def cancel_def authRegister_def authRevoke_def accountSync_def sync_one_def sync_found_def
      accountDeposit_def accountWithdraw_def walletFund_def sdk_balance_def paymentsList_def paymentsGet_def accountStatus_def
      accountEvents_def Let_def leaves split: option.split list.split prod.split)

lemma keeps_reads [keeps]:
  "keeps_wallets V (walletFund kit sol usdc label)" "keeps_wallets V (sdk_balance kit label)" "keeps_wallets V (paymentsList kit label)"
  "keeps_wallets V (accountStatus kit label)" "keeps_wallets V (accountEvents kit kind label)"
  by (simp_all add: walletFund_def sdk_balance_def paymentsList_def accountStatus_def accountEvents_def Let_def
      keeps_with_wallet keeps_with_account keeps)

lemma keeps_payment: "keeps_wallets V (paymentsGet kit p)"
  unfolding paymentsGet_def by (intro keeps_config) (auto simp: keeps)

lemma leavesD: "leaves (sw_contacts w, sw_orders w) c \<Longrightarrow> c w = (r, w') \<Longrightarrow> sw_contacts w' = sw_contacts w \<and> sw_orders w' = sw_orders w"
  using staysD [of "\<lambda>v. (sw_contacts v, sw_orders v) = (sw_contacts w, sw_orders w)" c w r w'] by (simp add: leaves_def)


lemma sound_frame:
  assumes "sound_since is_key w0 w" and "wallet_view (sw_config w') = wallet_view (sw_config w)"
    and "sw_contacts w' = sw_contacts w" and "sw_orders w' = sw_orders w"
  shows "sound_since is_key w0 w'"
  using assms same_view [OF assms(2)] wallets_kept_trans [of "sw_config w0" "sw_config w" "sw_config w'"]
  by (simp add: sound_since_def unfilled_def)

lemma sound_config:
  assumes "sound_since is_key w0 w" and "sdk_step w (w\<lparr>sw_config := cfg, sw_contacts := cs\<rparr>)" and "contacts_wf is_key cs"
  shows "sound_since is_key w0 (w\<lparr>sw_config := cfg, sw_contacts := cs\<rparr>)"
  using assms(1,3) sdk_step_wallets [OF assms(2)] wallets_kept_trans [of "sw_config w0" "sw_config w" cfg]
  by (simp add: sound_since_def unfilled_def)

lemma stays_frame: "(\<And>V. keeps_wallets V c) \<Longrightarrow> (\<And>F. leaves F c) \<Longrightarrow> stays (sound_since is_key w0) c"
proof (rule staysI)
  fix w r w'
  assume k: "\<And>V. keeps_wallets V c" and l: "\<And>F. leaves F c" and s: "sound_since is_key w0 w" and run: "c w = (r, w')"
  show "sound_since is_key w0 w'" using sound_frame [OF s keepsD [OF k refl run]] leavesD [OF l run] by blast
qed

lemma stays_at: "(\<And>w. \<exists>d. c w = d w \<and> stays P d) \<Longrightarrow> stays P c"
  unfolding stays_def by metis

lemma stays_quiet: "stays P c \<Longrightarrow> stays P (quiet c)"
  unfolding quiet_def wrapCommand_def by (intro stays)

lemma stays_pay: "stays (sound_since is_key w0) (pay kit to amount memo label)"
proof (rule stays_at)
  fix w :: "'a sdk_world"
  let ?d = "with_wallet label (pay_from kit (resolveRecipient to (sw_contacts w)) amount memo)"
  have "stays (sound_since is_key w0) ?d" by (intro stays_frame keeps_with_wallet keeps leaves)
  then show "\<exists>d. pay kit to amount memo label w = d w \<and> stays (sound_since is_key w0) d" unfolding pay_def by blast
qed

lemma stays_send: "stays (sound_since is_key w0) (accountSend kit to amount label)"
proof (rule stays_at)
  fix w :: "'a sdk_world"
  let ?to = "resolveRecipient to (sw_contacts w)"
  let ?d = "with_account label (\<lambda>c wallet a. andThen (lift (validateAddress kit ?to ''recipient'')) (\<lambda>u.
        andThen (lift (validateAmount amount)) (\<lambda>n. andThen (account_tx kit c wallet ''/api/account/transfer''
            (transfer_body (wl_address wallet) (ac_pda a) ?to (raw_units n (ac_mintDecimals a)))) (\<lambda>txid. ret (txid, n, ?to)))))"
  have "stays (sound_since is_key w0) ?d" by (intro stays_frame keeps_with_account keeps leaves)
  moreover have "accountSend kit to amount label w = ?d w" by (simp add: accountSend_def Let_def)
  ultimately show "\<exists>d. accountSend kit to amount label w = d w \<and> stays (sound_since is_key w0) d" by blast
qed

lemma stays_chat: "stays (sound_since is_key w0) (sdk_chat kit message)"
proof (rule staysI)
  fix w r w'
  assume s: "sound_since is_key w0 w" and run: "sdk_chat kit message w = (r, w')"
  let ?c = "loadConfig (sw_config w)" and ?v = "w\<lparr>sw_config := snd (getAgentId (kt_uuid kit) (loadConfig (sw_config w)) (sw_config w))\<rparr>"
  have "leaves F (andThen (http_post kit client ''/chat'' b) (\<lambda>d. lift (data_member d ''message'')))" for F client b
    by (intro leaves)
  from leavesD [OF this, where w = ?v] run have "sw_contacts w' = sw_contacts w \<and> sw_orders w' = sw_orders w"
    by (auto simp: sdk_chat_def Let_def split: prod.splits)
  with sound_frame [OF s keeps_chat [OF run]] show "sound_since is_key w0 w'" by blast
qed

lemma contacts_kept_wf:
  "addContact is_key name address f = (r1, f1) \<Longrightarrow> contacts_wf is_key f \<Longrightarrow> contacts_wf is_key f1"
  "removeContact name f = (r2, f2) \<Longrightarrow> contacts_wf is_key f \<Longrightarrow> contacts_wf is_key f2"
  using contacts_refined [of is_key f name _ _ _ _ f2, OF _ prod.collapse [symmetric]]
    contacts_refined [OF _ _ prod.collapse [symmetric], of is_key f name address] by blast+

lemma stays_contacts:
  "stays (sound_since is_key w0) (on_contacts (contactsAdd is_key name address))"
  "stays (sound_since is_key w0) (on_contacts (contactsRemove name))"
  unfolding stays_def
  by (auto simp: on_contacts_def contactsAdd_def contactsRemove_def sound_since_def unfilled_def dest: contacts_kept_wf split: prod.split)

lemma stays_on_config:
  fixes w0 :: "'w sdk_world"
  assumes "\<And>w :: 'w sdk_world. sdk_step w (w\<lparr>sw_config := snd (f (sw_config w))\<rparr>)"
  shows "stays (sound_since is_key w0) (on_config f)"
proof (rule staysI)
  fix w :: "'w sdk_world" and r w'
  assume s: "sound_since is_key w0 w" and run: "on_config f w = (r, w')"
  have w': "w' = w\<lparr>sw_config := snd (f (sw_config w)), sw_contacts := sw_contacts w\<rparr>"
    using run by (cases w) (auto simp: on_config_def split: prod.splits)
  show "sound_since is_key w0 w'" unfolding w' using s assms [of w]
    by (intro sound_config) (cases w, auto simp: sound_since_def)
qed

lemma stays_config_commands:
  fixes w0 :: "'w sdk_world"
  shows
  "stays (sound_since is_key w0) (on_config (walletCreate label kp))"
  "stays (sound_since is_key w0) (on_config (configSetCluster url cluster))"
  "stays (sound_since is_key w0) (on_config (\<lambda>file. case configResetCluster url file of (r, file') \<Rightarrow> (Inr r, file')))"
proof -
  have "sdk_step w (w\<lparr>sw_config := snd (configResetCluster url (sw_config w))\<rparr>)" for w :: "'w sdk_world"
    by (rule sdk_step.reset_cluster, rule prod.collapse [symmetric])
  then show "stays (sound_since is_key w0) (on_config (\<lambda>file. case configResetCluster url file of (r, file') \<Rightarrow> (Inr r, file')))"
    by (intro stays_on_config) (simp add: split_beta)
qed (rule stays_on_config, rule sdk_step.create sdk_step.set_cluster, rule prod.collapse [symmetric])+

lemma stays_init: "stays (sound_since is_key w0) (init_files kit)"
proof (rule staysI)
  fix w r w'
  assume s: "sound_since is_key w0 w" and run: "init_files kit w = (r, w')"
  obtain rep cfg cs where i: "sdk_init (kt_keypair kit) (kt_uuid kit) (sw_config w, sw_contacts w) = (rep, cfg, cs)"
    by (metis prod_cases3)
  have "cs = snd (initContacts (sw_contacts w))" using i by (auto simp: sdk_init_def Let_def split: prod.splits)
  then have "contacts_wf is_key cs" using s by (auto simp: initContacts_def sound_since_def contacts_wf_def split: option.splits)
  from sound_config [OF s sdk_step.initialise [OF i] this] show "sound_since is_key w0 w'"
    using run i by (simp add: init_files_def)
qed


lemma stays_create: "stays (sound_since is_key w0) (ordersCreate kit input opts)"
proof (rule staysI)
  fix w r w'
  assume s: "sound_since is_key w0 w" and run: "ordersCreate kit input opts w = (r, w')"
  have same: "sw_config w' = sw_config w" "sw_contacts w' = sw_contacts w"
    using run by (auto simp: ordersCreate_def with_wallet_def andThen_def lift_def get_config_def put_order_def ret_def Let_def
        split: sum.splits prod.splits if_splits)
  have "extends (sw_orders w) (sw_orders w')"
    using ordersCreate_store [OF run] extends_refl extends_add by auto
  moreover have "unfilled k w \<Longrightarrow> unfilled k w'" for k
    using unfilled_step [OF cli_order_step.create [OF run]] by blast
  ultimately show "sound_since is_key w0 w'"
    using s same extends_trans [of "sw_orders w0" "sw_orders w"] by (auto simp: sound_since_def)
qed

lemma stays_cancel: "stays (sound_since is_key w0) (on_orders (ordersCancel now i))"
proof (rule staysI)
  fix w r w'
  assume s: "sound_since is_key w0 w" and run: "on_orders (ordersCancel now i) w = (r, w')"
  show "sound_since is_key w0 w'"
  proof (cases "ordersCancel now i (sw_orders w)")
    case (Inl e)
    then show ?thesis using run s by (simp add: on_orders_def)
  next
    case (Inr f)
    then have w': "w' = w\<lparr>sw_orders := f\<rparr>" using run by (simp add: on_orders_def)
    have "extends (sw_orders w) f" by (rule extends_cancel [OF Inr])
    moreover have "unfilled k w \<Longrightarrow> unfilled k w'" for k
      unfolding w' using unfilled_step [OF cli_order_step.cancel [OF Inr]] by blast
    ultimately show ?thesis using s extends_trans [of "sw_orders w0" "sw_orders w"] by (auto simp: sound_since_def w')
  qed
qed

lemma stays_reads:
  "stays P (\<lambda>w. (contactsGet name (sw_contacts w), w))" "stays P (ordersList status)" "stays P (ordersGet i)"
  by (simp_all add: stays_def ordersList_def ordersGet_def Let_def)

lemmas line_steps = stays_ret stays_quiet [OF stays_init] stays_quiet [OF stays_pay] stays_quiet [OF stays_send]
  stays_quiet [OF stays_chat] stays_config_commands [THEN stays_quiet] stays_contacts [THEN stays_quiet]
  stays_quiet [OF stays_create] stays_quiet [OF stays_cancel] stays_reads [THEN stays_quiet]

lemma stays_line:
  assumes "run_line kit before line = Some c" and "kt_is_key kit = is_key"
  shows "stays (sound_since is_key w0) c"
  using assms by (cases line) (auto simp: stays_quiet [OF stays_frame] keeps_commands keeps keeps_payment leaves line_steps)

lemma stays_step:
  assumes "cli_step is_key w w'" and "sound_since is_key w0 w"
  shows "sound_since is_key w0 w'"
  using assms(1)
proof cases
  case (run path args v f line kit before c r)
  then show ?thesis using staysD [OF stays_line assms(2)] by blast
next
  case (evaluate path args v f dry label fuel kit w3 r2 orders)
  have "extends (sw_orders w) orders"
    using evaluate(2) extends_evaluate extends_refl by (fastforce simp: ordersEvaluate_def Let_def split: sum.splits)
  moreover have "unfilled k w \<Longrightarrow> unfilled k w'" for k
    using unfilled_step [OF cli_order_step.evaluate [OF evaluate(2)]] evaluate(5) by blast
  ultimately show ?thesis using assms(2) evaluate(3-5) extends_trans [of "sw_orders w0" "sw_orders w"] by (auto simp: sound_since_def)
qed


text \<open>C26. Every sequence of command lines keeps the files of the SDK sound, whatever the server answers, the
  transaction library signs and the clock says: every wallet, by label or as the default, resolves to the same address and
  key as before; labels stay distinct; the address book keeps valid addresses under distinct lower-case
  names that are no addresses; every standing order stays at its place with its identity, intent, policy,
  slippage, wallet, creation time and history, which only grows, and never changes again once it is not
  pending; and no swap order becomes filled.\<close>

theorem command_lines_sound:
  assumes "(cli_step is_key)\<^sup>*\<^sup>* w w'" and "wallets_wf (sw_config w)" and "contacts_wf is_key (sw_contacts w)"
  shows "wallets_wf (sw_config w')
    \<and> (\<forall>label wl. getWallet (loadConfig (sw_config w)) label = Inr wl \<longrightarrow> getWallet (loadConfig (sw_config w')) label = Inr wl)
    \<and> contacts_wf is_key (sw_contacts w')
    \<and> length (loadOrders (sw_orders w)) \<le> length (loadOrders (sw_orders w'))
    \<and> (\<forall>k < length (loadOrders (sw_orders w)). preserved (loadOrders (sw_orders w) ! k) (loadOrders (sw_orders w') ! k))
    \<and> (\<forall>k. k < length (loadOrders (sw_orders w)) \<and> swap_intent (od_intent (loadOrders (sw_orders w) ! k))
          \<and> od_status (loadOrders (sw_orders w) ! k) \<noteq> Filled \<longrightarrow> od_status (loadOrders (sw_orders w') ! k) \<noteq> Filled)"
proof -
  have "sound_since is_key w w" using assms(2,3) by (simp add: sound_since_def wallets_kept_refl extends_refl)
  with assms(1) have "sound_since is_key w w'" by (induction rule: rtranclp_induct) (blast intro: stays_step)+
  then show ?thesis using getWallet_kept unfolding sound_since_def unfilled_def extends_def by blast
qed

lemma sample_lines:
  "read_line [''wallet'', ''create''] [''spare''] v f = Some (LCreateWallet ''spare'')"
  "read_line [''contacts'', ''add''] [''Bob'', ''AA''] v f = Some (LAddContact ''Bob'' ''AA'')"
  by (simp_all add: read_line_def cli_table_def setup_commands_def payment_commands_def config_commands_def account_commands_def
      contact_commands_def)

theorem command_lines_sound_witness:
  "\<exists>w'. (cli_step (kt_is_key sample_kit))\<^sup>*\<^sup>* (sample_world None) w'
      \<and> length (cf_wallets (loadConfig (sw_config w'))) = 2 \<and> contact_map (sw_contacts w') = [''bob'' \<mapsto> ''AA'']
      \<and> getWallet (loadConfig (sw_config w')) None = Inr \<lparr>wl_label = ''main'', wl_address = ''W'', wl_privateKey = ''K''\<rparr>"
proof -
  let ?w = "sample_world None :: unit sdk_world"
  let ?c1 = "quiet (on_config (walletCreate ''spare'' (kt_keypair sample_kit))) :: (unit, unit) cmd"
  let ?c2 = "quiet (on_contacts (contactsAdd (kt_is_key sample_kit) ''Bob'' ''AA'')) :: (unit, unit) cmd"
  define w1 where "w1 = snd (?c1 ?w)"
  define w2 where "w2 = snd (?c2 w1)"
  have "cli_step (kt_is_key sample_kit) ?w w1" unfolding w1_def
    by (rule cli_step.run [OF sample_lines(1), of sample_kit _ ?c1, OF _ refl prod.collapse [symmetric]]) simp
  moreover have "cli_step (kt_is_key sample_kit) w1 w2" unfolding w2_def
    by (rule cli_step.run [OF sample_lines(2), of sample_kit _ ?c2, OF _ refl prod.collapse [symmetric]]) simp
  ultimately have steps: "(cli_step (kt_is_key sample_kit))\<^sup>*\<^sup>* ?w w2" by (meson rtranclp.rtrancl_into_rtrancl rtranclp.rtrancl_refl)
  have wf: "wallets_wf (sw_config ?w)" "contacts_wf (kt_is_key sample_kit) (sw_contacts ?w)"
    by (simp_all add: sample_world_def wallets_wf_def loadConfig_def add_wallet_def defaultConfig_def find_wallet_def contacts_wf_def)
  have "length (cf_wallets (loadConfig (sw_config w2))) = 2 \<and> contact_map (sw_contacts w2) = [''bob'' \<mapsto> ''AA'']"
    by (simp add: w2_def w1_def sample_world_def quiet_def wrapCommand_def catch_def andThen_def ret_def on_config_def on_contacts_def
        walletCreate_def contactsAdd_def addContact_def sample_kit_def lower_Bob loadConfig_def add_wallet_def defaultConfig_def saveConfig_def
        find_wallet_def contact_map_def fun_eq_iff loadContacts_def saveContacts_def Let_def)
  then show ?thesis using command_lines_sound [OF steps wf] steps sample_wallet by blast
qed

end
