(* ===== verification/Deploy.thy ===== *)
theory Deploy
  imports Faucet Actions
begin

text \<open>
  Setting up a network and starting the backend on it: the scripts \<^verbatim>\<open>scripts/setup-devnet.ts\<close> and
  \<^verbatim>\<open>scripts/create-pool.ts\<close>, and \<^verbatim>\<open>onModuleInit\<close> of \<^verbatim>\<open>solana/solana.service.ts\<close> up to the token and pool
  sync of \<open>Faucet\<close>. A network keeps the instructions it was sent, whether or not it accepted them. A key
  pair is its public key; printing is left out.
\<close>

section \<open>Networks\<close>

datatype deploy_ix =
    CreateMintAccount string string nat
  | InitializeMint string nat string string
  | CreateTokenAccount string string string string
  | MintToChecked string string string int nat
  | ProgramCall string anchor_ix

record 'n network =
  nw_chain :: 'n
  nw_sent :: "(string \<times> deploy_ix list) list"

text \<open>
  \<open>dk_env\<close> is the environment, \<open>dk_join\<close> is \<^verbatim>\<open>path.join\<close>, \<open>dk_keypair\<close> the key pair in a file (reading, parsing
  and decoding it), \<open>dk_generate\<close> a new key pair, \<open>dk_named\<close> the public key made of the SHA-256 of a text,
  \<open>dk_pda\<close> is \<^verbatim>\<open>findProgramAddressSync\<close> with the program first, and \<open>dk_program_id\<close> the
  program that a client made of an IDL with that address talks to. The others are calls of the RPC node.
\<close>

record 'n deploy_kit =
  dk_env :: "string \<Rightarrow> string option"
  dk_home :: string
  dk_dir :: string
  dk_join :: "string list \<Rightarrow> string"
  dk_keypair :: "string \<Rightarrow> string result"
  dk_generate :: string
  dk_key :: "string \<Rightarrow> string result"
  dk_bytes :: "string \<Rightarrow> buffer"
  dk_named :: "string \<Rightarrow> string"
  dk_pda :: "string \<Rightarrow> buffer list \<Rightarrow> string"
  dk_ata :: "string \<Rightarrow> string \<Rightarrow> string \<Rightarrow> string"
  dk_program_id :: "string \<Rightarrow> string"
  dk_airdrop :: "string \<Rightarrow> 'n \<Rightarrow> unit result \<times> 'n"
  dk_balance :: "string \<Rightarrow> 'n \<Rightarrow> unit result"
  dk_mint :: "string \<Rightarrow> 'n \<Rightarrow> unit result"
  dk_rent :: "'n \<Rightarrow> nat result"
  dk_pool :: "string \<Rightarrow> string \<Rightarrow> 'n \<Rightarrow> bool result"
  dk_send :: "string \<Rightarrow> deploy_ix list \<Rightarrow> 'n \<Rightarrow> unit result \<times> 'n"

type_synonym ('n, 'a) deploy = "('n network, 'a) action"

definition ask_node :: "('n \<Rightarrow> 'a result) \<Rightarrow> ('n, 'a) deploy" where
  "ask_node f w = (f (nw_chain w), w)"

definition send_and_confirm :: "'n deploy_kit \<Rightarrow> string \<Rightarrow> deploy_ix list \<Rightarrow> ('n, unit) deploy" where
  "send_and_confirm kit signer ixs w =
     (case dk_send kit signer ixs (nw_chain w) of (r, n) \<Rightarrow> (r, w\<lparr>nw_chain := n, nw_sent := nw_sent w @ [(signer, ixs)]\<rparr>))"

definition request_airdrop :: "'n deploy_kit \<Rightarrow> string \<Rightarrow> ('n, unit) deploy" where
  "request_airdrop kit signer w = (case dk_airdrop kit signer (nw_chain w) of (r, n) \<Rightarrow> (r, w\<lparr>nw_chain := n\<rparr>))"

section \<open>The parts of the scripts\<close>

definition default_signer_path :: "'n deploy_kit \<Rightarrow> string" where
  "default_signer_path kit = dk_join kit [dk_home kit, ''.config'', ''solana'', ''id.json'']"

definition signer_path :: "'n deploy_kit \<Rightarrow> string" where
  "signer_path kit =
     (case given (dk_env kit ''SYSTEM_SIGNER_PRIVATE_KEY'') of Some p \<Rightarrow> p | None \<Rightarrow> default_signer_path kit)"

definition loadKeypairFromFile :: "'n deploy_kit \<Rightarrow> string \<Rightarrow> string result" where
  "loadKeypairFromFile kit filePath =
     dk_keypair kit (if startsWith filePath ''~'' then dk_join kit [dk_home kit, drop 1 filePath] else filePath)"

definition HANDSHAKE_IDL_ADDRESS :: string where
  "HANDSHAKE_IDL_ADDRESS = ''HANDu9uNdnraNbcueGfXhd3UPu6BXfQroKAsSxFhPXEQ''"

definition SILKYSIG_IDL_ADDRESS :: string where
  "SILKYSIG_IDL_ADDRESS = ''SiLKos3MCFggwLsjSeuRiCdcs2MLoJNwq59XwTvEwcS''"

definition pool_seeds :: "'n deploy_kit \<Rightarrow> string \<Rightarrow> buffer list" where
  "pool_seeds kit poolId = [utf8_bytes ''pool'', dk_bytes kit poolId]"

definition init_pool_ix :: "'n deploy_kit \<Rightarrow> string \<Rightarrow> string \<Rightarrow> string \<Rightarrow> string \<Rightarrow> deploy_ix" where
  "init_pool_ix kit signer mint poolId poolPda =
     ProgramCall (dk_program_id kit HANDSHAKE_IDL_ADDRESS)
       \<lparr>ax_method = ''initPool'', ax_args = [APub poolId, AInt 0],
        ax_accounts = [(''operator'', signer), (''mint'', mint), (''pool'', poolPda),
          (''poolTokenAccount'', dk_ata kit mint poolPda TOKEN_PROGRAM),
          (''tokenProgram'', TOKEN_PROGRAM), (''associatedTokenProgram'', ATA_PROGRAM),
          (''systemProgram'', SYSTEM_PROGRAM), (''rent'', SYSVAR_RENT)]\<rparr>"

text \<open>A pool that cannot be fetched is taken for one that does not exist.\<close>

definition ensure_pool :: "'n deploy_kit \<Rightarrow> string \<Rightarrow> string \<Rightarrow> string \<Rightarrow> string \<Rightarrow> ('n, unit) deploy" where
  "ensure_pool kit signer programId mint poolName =
     (let poolId = dk_named kit poolName; poolPda = dk_pda kit programId (pool_seeds kit poolId) in
      andThen (catch (ask_node (dk_pool kit (dk_program_id kit HANDSHAKE_IDL_ADDRESS) poolPda)) (\<lambda>e. ret False)) (\<lambda>there.
        if there then ret () else send_and_confirm kit signer [init_pool_ix kit signer mint poolId poolPda]))"

definition ensure_mint :: "'n deploy_kit \<Rightarrow> string \<Rightarrow> string \<Rightarrow> ('n, unit) deploy" where
  "ensure_mint kit signer mint =
     andThen (catch (andThen (ask_node (dk_mint kit mint)) (\<lambda>u. ret True)) (\<lambda>e. ret False)) (\<lambda>there.
       if there then ret ()
       else
         andThen (ask_node (dk_rent kit)) (\<lambda>rent.
           let ata = dk_ata kit mint signer TOKEN_PROGRAM in
           send_and_confirm kit signer
             [CreateMintAccount signer mint rent, InitializeMint mint 6 signer signer,
              CreateTokenAccount signer ata signer mint, MintToChecked mint ata signer 1000000000000000 6]))"

section \<open>The scripts\<close>

definition MINT_FILE :: string where
  "MINT_FILE = ''EdgRyTNhoroQnYhsyBYv1t22dZGcDPoywfcG68FpqmrS.json''"

definition setup_pool_name :: "'n deploy_kit \<Rightarrow> string" where
  "setup_pool_name kit = (case given (dk_env kit ''HANDSHAKE_POOL_NAME'') of Some n \<Rightarrow> n | None \<Rightarrow> ''usdc-devnet'')"

definition setup_program_id :: "'n deploy_kit \<Rightarrow> string" where
  "setup_program_id kit =
     (case given (dk_env kit ''HANDSHAKE_PROGRAM_ID'') of Some p \<Rightarrow> p | None \<Rightarrow> ''HZ8paEkYZ2hKBwHoVk23doSLEad9K5duASRTGaYogmfg'')"

text \<open>The environment that the script prints at its end: signer, mint and name of the pool.\<close>

definition setup_devnet :: "'n deploy_kit \<Rightarrow> ('n, string \<times> string \<times> string) deploy" where
  "setup_devnet kit =
     andThen (lift (loadKeypairFromFile kit (signer_path kit))) (\<lambda>signer.
     andThen (catch (request_airdrop kit signer) (\<lambda>e. ret ())) (\<lambda>a.
     andThen (ask_node (dk_balance kit signer)) (\<lambda>b.
     andThen (lift (loadKeypairFromFile kit (dk_join kit [dk_dir kit, ''mints'', MINT_FILE]))) (\<lambda>mint.
     andThen (ensure_mint kit signer mint) (\<lambda>c.
     andThen (lift (dk_key kit (setup_program_id kit))) (\<lambda>programId.
     andThen (ensure_pool kit signer programId mint (setup_pool_name kit)) (\<lambda>d.
       ret (signer_path kit, mint, setup_pool_name kit))))))))"

definition create_pool :: "'n deploy_kit \<Rightarrow> ('n, unit) deploy" where
  "create_pool kit =
     andThen (lift (loadKeypairFromFile kit (signer_path kit))) (\<lambda>signer.
     andThen (lift (dk_key kit ''HANDu9uNdnraNbcueGfXhd3UPu6BXfQroKAsSxFhPXEQ'')) (\<lambda>programId.
     andThen (lift (dk_key kit ''8zGuJQqwhZafTah7Uc7Z4tXRnguqkn5KLFAP8oV6PHe2'')) (\<lambda>mint.
       ensure_pool kit signer programId mint ''usdc-drift'')))"

section \<open>Starting the backend\<close>

text \<open>What the service keeps. The configured program ids are only logged: a client is made of its IDL.\<close>

record started =
  st_rpcUrl :: string
  st_signer :: string
  st_handshake :: string
  st_silkysig :: string
  st_mint :: "string option"
  st_logged :: "string \<times> string"

definition config_or :: "'n deploy_kit \<Rightarrow> string \<Rightarrow> string \<Rightarrow> string" where
  "config_or kit k d = (case dk_env kit k of None \<Rightarrow> d | Some v \<Rightarrow> v)"

definition start_solana :: "'n deploy_kit \<Rightarrow> started result" where
  "start_solana kit =
     bind_result (case given (dk_env kit ''USDC_MINT_ADDRESS'') of
         None \<Rightarrow> Inr None
       | Some m \<Rightarrow> bind_result (dk_key kit m) (\<lambda>k. Inr (Some k))) (\<lambda>mint.
     Inr \<lparr>st_rpcUrl = config_or kit ''RPC_URL'' ''https://api.devnet.solana.com'',
          st_signer = (case dk_keypair kit (signer_path kit) of Inr k \<Rightarrow> k | Inl e \<Rightarrow> dk_generate kit),
          st_handshake = dk_program_id kit HANDSHAKE_IDL_ADDRESS,
          st_silkysig = dk_program_id kit SILKYSIG_IDL_ADDRESS,
          st_mint = mint,
          st_logged = (config_or kit ''HANDSHAKE_PROGRAM_ID'' HANDSHAKE_IDL_ADDRESS, config_or kit ''SILKYSIG_PROGRAM_ID'' SILKYSIG_IDL_ADDRESS)\<rparr>)"

text \<open>The client of the Handshake program derives the addresses of its program.\<close>

definition started_world :: "'n deploy_kit \<Rightarrow> started \<Rightarrow> anchor_world \<Rightarrow> anchor_world" where
  "started_world kit st w = w\<lparr>aw_pda := dk_pda kit (st_handshake st), aw_key := dk_bytes kit\<rparr>"

definition onModuleInit :: "'n deploy_kit \<Rightarrow> tx_env \<Rightarrow> tx_db \<Rightarrow> started result \<times> tx_db" where
  "onModuleInit kit env db =
     (case start_solana kit of
        Inl e \<Rightarrow> (Inl e, db)
      | Inr st \<Rightarrow>
          (case syncTokenAndPool (env\<lparr>te_anchor := started_world kit st (te_anchor env)\<rparr>) (dk_named kit)
                  (dk_env kit ''USDC_MINT_ADDRESS'') (dk_env kit ''HANDSHAKE_POOL_NAME'') db of
             (r, db') \<Rightarrow> (bind_result r (\<lambda>u. Inr st), db')))"

section \<open>What the scripts ask the Handshake program for\<close>

definition pool_calls :: "'n network \<Rightarrow> deploy_ix set" where
  "pool_calls w = {ix. \<exists>signer ixs. (signer, ixs) \<in> set (nw_sent w) \<and> ix \<in> set ixs \<and> (\<exists>p a. ix = ProgramCall p a)}"

lemma asks_basic [stays]:
  "stays (\<lambda>w. pool_calls w \<subseteq> A) (ask_node f)" "stays (\<lambda>w. pool_calls w \<subseteq> A) (request_airdrop kit signer)"
  by (simp_all add: stays_def ask_node_def request_airdrop_def pool_calls_def split: prod.split)

lemma pool_calls_sent:
  "pool_calls (w\<lparr>nw_chain := n, nw_sent := nw_sent w @ [(signer, ixs)]\<rparr>) = pool_calls w \<union> {ix \<in> set ixs. \<exists>p a. ix = ProgramCall p a}"
  by (auto simp: pool_calls_def)

lemma asks_send: "{ix \<in> set ixs. \<exists>p a. ix = ProgramCall p a} \<subseteq> A \<Longrightarrow> stays (\<lambda>w. pool_calls w \<subseteq> A) (send_and_confirm kit signer ixs)"
  unfolding stays_def send_and_confirm_def by (auto simp: pool_calls_sent split: prod.split)

lemma asks_mint [stays]: "stays (\<lambda>w. pool_calls w \<subseteq> A) (ensure_mint kit signer mint)"
  unfolding ensure_mint_def Let_def by (auto intro!: stays asks_send)

lemma asks_pool:
  "init_pool_ix kit signer mint (dk_named kit poolName) (dk_pda kit programId (pool_seeds kit (dk_named kit poolName))) \<in> A
     \<Longrightarrow> stays (\<lambda>w. pool_calls w \<subseteq> A) (ensure_pool kit signer programId mint poolName)"
  unfolding ensure_pool_def Let_def by (auto intro!: stays asks_send)


lemma andThen_lift: "andThen (lift (Inr x)) f = f x"
  by (simp add: fun_eq_iff andThen_def lift_def)

lemma setup_calls:
  assumes "dk_key kit (setup_program_id kit) = Inr programId"
  shows "pool_calls (snd (setup_devnet kit w)) \<subseteq> pool_calls w \<union>
    {init_pool_ix kit signer mint (dk_named kit (setup_pool_name kit))
       (dk_pda kit programId (pool_seeds kit (dk_named kit (setup_pool_name kit)))) |signer mint. True}"
    (is "_ \<subseteq> ?A")
proof -
  have "stays (\<lambda>w. pool_calls w \<subseteq> ?A) (setup_devnet kit)"
    unfolding setup_devnet_def assms andThen_lift by (intro stays asks_pool) blast
  then show ?thesis unfolding stays_def by blast
qed


text \<open>The environment with the path of \<^verbatim>\<open>SETUP.md\<close> and without a program id, and the one of \<^verbatim>\<open>.env.sample\<close>.\<close>

definition sample_deploy :: "(string \<Rightarrow> string option) \<Rightarrow> unit deploy_kit" where
  "sample_deploy env = \<lparr>dk_env = env, dk_home = ''/home/u'', dk_dir = ''/scripts'',
     dk_join = concat, dk_keypair = (\<lambda>p. if p = ''~/.config/solana/id.json'' then Inl (JsError ''ENOENT'') else Inr p), dk_generate = ''fresh'',
     dk_key = Inr, dk_bytes = utf8_bytes, dk_named = (\<lambda>n. n), dk_pda = (\<lambda>p seeds. p), dk_ata = (\<lambda>m k p. k), dk_program_id = (\<lambda>a. a),
     dk_airdrop = (\<lambda>k n. (Inr (), n)), dk_balance = (\<lambda>k n. Inr ()), dk_mint = (\<lambda>k n. Inr ()), dk_rent = (\<lambda>n. Inr 0),
     dk_pool = (\<lambda>p k n. Inr False), dk_send = (\<lambda>k ixs n. (Inr (), n))\<rparr>"

definition empty_network :: "unit network" where
  "empty_network = \<lparr>nw_chain = (), nw_sent = []\<rparr>"

definition tilde_env :: "string \<Rightarrow> string option" where
  "tilde_env = [''SYSTEM_SIGNER_PRIVATE_KEY'' \<mapsto> ''~/.config/solana/id.json'']"

definition sample_env :: "string \<Rightarrow> string option" where
  "sample_env = [''HANDSHAKE_PROGRAM_ID'' \<mapsto> HANDSHAKE_IDL_ADDRESS, ''SYSTEM_SIGNER_PRIVATE_KEY'' \<mapsto> []]"

lemma sample_setup:
  assumes "env = tilde_env \<or> env = sample_env"
  shows "\<exists>ix st k. ix \<in> pool_calls (snd (setup_devnet (sample_deploy env) empty_network)) - pool_calls empty_network
    \<and> start_solana (sample_deploy env) = Inr st \<and> loadKeypairFromFile (sample_deploy env) (signer_path (sample_deploy env)) = Inr k"
  using assms
  by (auto simp: sample_deploy_def empty_network_def setup_devnet_def andThen_def lift_def catch_def ret_def request_airdrop_def
      ask_node_def ensure_mint_def ensure_pool_def send_and_confirm_def loadKeypairFromFile_def signer_path_def given_def
      setup_program_id_def init_pool_ix_def pool_calls_def start_solana_def tilde_env_def sample_env_def default_signer_path_def)

lemma sample_kit_fits:
  "dk_program_id (sample_deploy env) HANDSHAKE_IDL_ADDRESS = HANDSHAKE_IDL_ADDRESS"
  "dk_key (sample_deploy env) (setup_program_id (sample_deploy env)) = Inr (setup_program_id (sample_deploy env))"
  "p \<noteq> q \<Longrightarrow> dk_pda (sample_deploy env) p seeds \<noteq> dk_pda (sample_deploy env) q seeds"
  by (simp_all add: sample_deploy_def)


end
