(* ===== verification/Spec2Isabelle.thy ===== *)
theory Spec2Isabelle
  imports VerifyV1 Registries IntentV2 Orders Auth TransferIndex Builder Silkysig Faucet EndToEnd Chat WebBackend AccountApi CommandLine Deploy
begin

text \<open>
  A verification library for the handshake repository: escrow payments, Silkysig accounts and standing
  swap orders on Solana, driven by an SDK with a command line and served by a NestJS backend.

  \<^bold>\<open>The program and how its parts meet.\<close> The SDK (\<^verbatim>\<open>packages/sdk/src\<close>) keeps wallets, an account and an
  address book in files, asks the backend for unsigned transactions, signs what it is given and submits
  it. It also decodes transactions and verifies them against an intent, in two generations of code
  (\<^verbatim>\<open>verify/\<close>, \<^verbatim>\<open>intent/\<close>), and evaluates standing orders (\<^verbatim>\<open>orders/\<close>). The backend
  (\<^verbatim>\<open>apps/backend/src\<close>) authenticates requests with API keys, builds the transactions of the two
  on-chain programs, submits signed ones, and brings its tables up to date from the confirmed
  transaction. It analyses and builds transactions for intents with the SDK's own verifier, runs a
  faucet and a support chat. The web application (\<^verbatim>\<open>apps/app/src\<close>) uses the SDK's HTTP client and the same
  routes with a browser wallet: an account dashboard, a set-up wizard, and the pages of escrow transfers.

  \<^bold>\<open>Conventions.\<close> Strings are byte lists of their UTF-8 encoding, with ASCII case and blanks; objects keep
  insertion order and are looked up by own property (names of \<^verbatim>\<open>Object.prototype\<close>, such as \<^verbatim>\<open>constructor\<close>, as keys are
  outside the model); numbers are binary64 values (\<open>Doubles\<close>) where the
  code computes with \<open>number\<close>, integers where it uses \<open>bigint\<close> or \<open>BN\<close>; bytes are 8-bit words. A thrown
  error is the left side of a sum, an HTTP exception likewise, \<open>undefined\<close> is \<open>None\<close>. State is passed
  explicitly; where code awaits, the synchronous pieces are separate definitions and overlapping
  requests are runs of a step relation over them (\<open>Auth\<close>, \<open>Faucet\<close>, \<open>Chat\<close>). What is not under \<^verbatim>\<open>src\<close> is a
  parameter: web3.js, Anchor, the RPC node, the swap API, hashing and signatures, the language model
  (the records \<open>web3\<close>, \<open>sol_env\<close>, \<open>build_env\<close>, \<open>jup_env\<close>, \<open>anchor_world\<close>, \<open>tx_env\<close>, \<open>silk_env\<close>,
  \<open>faucet_env\<close>, \<open>deploy_kit\<close>, \<open>auth_env\<close>, \<open>sdk_kit\<close>, \<open>web_kit\<close>, \<open>backend_env\<close>, the
  function \<open>ask\<close> of \<open>Chat\<close>). A theorem that relies on documented behaviour of one of them says so in a
  hypothesis, and its witness instantiates it.

  \<^bold>\<open>Shared theories.\<close> \<open>Prelude\<close> (strings, digits, objects, the collections \<open>js_eval\<close> and \<open>obj_simps\<close>), \<open>Bytes\<close>
  (buffers and their readers), \<open>Doubles\<close> (binary64 with \<open>parseFloat\<close>, \<open>toString\<close>, \<open>toFixed\<close> and rounding
  bounds), \<open>Json\<close>, \<open>Tables\<close> (rows with unique columns; locale \<open>row_store\<close>, interpreted by every table of
  the backend), \<open>Http\<close> (the exceptions and checks of the controllers), \<open>Actions\<close> (programs over a state that may
  throw: \<open>andThen\<close>, \<open>lift\<close>, \<open>catch\<close>, \<open>afterwards\<close> for \<^verbatim>\<open>finally\<close>, and \<open>stays\<close> for what a program keeps),
  on which the commands of the SDK and the handlers of the web application are written.

  \<^bold>\<open>Decoding and verifying, the SDK.\<close>
  \<^item> \<open>Amounts\<close>: \<^verbatim>\<open>amount-utils.ts\<close> and the backend's \<^verbatim>\<open>amount.ts\<close>. Parsing, comparing, formatting and
    converting are exact on the rationals they denote.
  \<^item> \<open>Borsh\<close>, \<open>Decoders\<close>: \<^verbatim>\<open>verify/decoders/\<close>. The locales \<open>borsh_codec\<close> and \<open>borsh_pair\<close> are what a reader
    promises, \<open>instruction_decoder\<close> what a decoder promises; every reader and decoder interprets one.
    The lemmas are round trips with the Anchor encoding and the absence of exceptions.
  \<^item> \<open>TokenCache\<close>, \<open>Analyze\<close>: \<^verbatim>\<open>verify/registry.ts\<close>, \<^verbatim>\<open>rpc.ts\<close>, \<^verbatim>\<open>flags.ts\<close>, \<^verbatim>\<open>index.ts\<close>. One entry per
    instruction, and exactly when there are error flags.
  \<^item> \<open>VerifyV1\<close>: \<open>verifyIntent\<close> of \<^verbatim>\<open>verify/index.ts\<close>; what a verified intent says about the transaction, and
    what it does not.
  \<^item> \<open>Registries\<close>: chains and name registries (locale \<open>name_registry\<close>, three interpretations); the backend's
    copy agrees with the SDK's.
  \<^item> \<open>Matcher\<close>, \<open>IntentV2\<close>: \<^verbatim>\<open>intent/\<close>. Matching is the greedy assignment of instructions to actions, and
    its fields agree up to the tolerance; which intents can never match.

  \<^bold>\<open>The commands of the SDK.\<close>
  \<^item> \<open>SdkConfig\<close>, \<open>SdkClient\<close>: \<^verbatim>\<open>config.ts\<close>, \<^verbatim>\<open>contacts.ts\<close>, \<^verbatim>\<open>errors.ts\<close>, \<^verbatim>\<open>client.ts\<close>. A command is an
    action over the files, the server and the requests sent. The address book refines a partial map.
  \<^item> \<open>Payments\<close>, \<open>SdkAccount\<close>: \<^verbatim>\<open>validate.ts\<close> and \<^verbatim>\<open>commands/\<close>. What exactly a successful payment sends; no
    command loses a wallet (\<open>keeps_wallets\<close>, the step relation \<open>sdk_step\<close>); how program errors are
    misreported.
  \<^item> \<open>Orders\<close>, \<open>OrdersCli\<close>: \<^verbatim>\<open>orders/\<close> and \<^verbatim>\<open>commands/orders.ts\<close>. The loop visits orders pushed while it runs,
    so it has fuel; \<open>visits\<close> adds up the fuel that is enough for bounded recurrences, and an order that recurs
    without a limit exhausts any as long as its executions succeed. Life cycle, what exactly a pass appends (\<open>follows\<close>,
    \<open>repeats\<close>), history, approval before signing, and that a swap order is never filled.
  \<^item> \<open>CommandLine\<close>: \<^verbatim>\<open>cli.ts\<close>. The table of commands and what each line runs (\<open>run_line\<close>, the step relation
    \<open>cli_step\<close>); what every sequence of lines keeps of the three files.

  \<^bold>\<open>The backend.\<close>
  \<^item> \<open>Auth\<close>: \<^verbatim>\<open>api/auth/\<close>. The key table refines a map of active keys; challenges are single-use under any
    interleaving.
  \<^item> \<open>HandshakeClient\<close>, \<open>TransferIndex\<close>: \<^verbatim>\<open>solana/handshake-client.ts\<close>, \<^verbatim>\<open>tx.service.ts\<close>, \<^verbatim>\<open>transfer.service.ts\<close> and
    their controllers. Well-formed tables, what indexing a transaction does to a row (against a specification
    of its own: \<open>logs_say\<close>, \<open>escrow_says\<close>, \<open>row_with\<close>), what a create request stores, and the rounding of base-unit amounts.
  \<^item> \<open>AccountIndex\<close>, \<open>Silkysig\<close>: \<^verbatim>\<open>account.service.ts\<close>, \<^verbatim>\<open>silkysig-client.ts\<close>, \<^verbatim>\<open>account.controller.ts\<close>. The
    indexed operators follow the chain when a transaction changes one; every account route builds a
    transaction that the SDK decodes as the request.
  \<^item> \<open>Jupiter\<close>, \<open>Analyzer\<close>, \<open>Builder\<close>: \<^verbatim>\<open>services/\<close>. The verdict, which transfers escape the checks, the shape
    of a built transaction, that a built SOL transfer is accepted by the analysis, and that an instruction of
    the associated token program never is. A built transaction
    carries the message it serialises as a ghost field.
  \<^item> \<open>Faucet\<close>: \<^verbatim>\<open>solana.service.ts\<close>, \<^verbatim>\<open>wallet.service.ts\<close>. The rate limit and when it holds.
  \<^item> \<open>Deploy\<close>: \<^verbatim>\<open>scripts/setup-devnet.ts\<close>, \<^verbatim>\<open>scripts/create-pool.ts\<close> and \<^verbatim>\<open>onModuleInit\<close> of the Solana service; when
    the script and the service, run in the same environment, agree on the pool and the signer.
  \<^item> \<open>Chat\<close>: \<^verbatim>\<open>chat/\<close>. Sessions are a heap, because a call keeps its session while it waits, and calls of different
    sessions overlap (\<open>chat_reach\<close>). Conversations alternate as long as the calls of a session succeed and do not
    overlap; what one failed call, or two overlapping ones, lead to.

  \<^bold>\<open>The web application.\<close>
  \<^item> \<open>WebApp\<close>: \<^verbatim>\<open>lib/\<close>, \<^verbatim>\<open>contexts/\<close>, \<^verbatim>\<open>hooks/\<close>, \<^verbatim>\<open>_jotai/\<close>. One tab of a browser (\<open>browser\<close>: network, cached clients,
    wallet, toasts, requests, and the state of the page), and the actions the pages share.
  \<^item> \<open>WebAccount\<close>: \<^verbatim>\<open>app/account/page.tsx\<close>. The events that the page offers in a state (\<open>offered\<close>), a handler
    for each, and runs of them; no flag that disables a control stays raised.
  \<^item> \<open>WebSetup\<close>: \<^verbatim>\<open>app/account/setup/page.tsx\<close>. The wizard as such a machine; what it claims to have done
    is backed by requests, and it keeps the mint of the network it was opened on, whatever is switched later.
  \<^item> \<open>WebTransfers\<close>: \<^verbatim>\<open>app/send/\<close> and \<^verbatim>\<open>app/transfers/\<close>. Sending, the list, one transfer with its actions.
  Handlers run to their end before the next event; the delayed navigation after closing an account
  is recorded at once.

  \<^bold>\<open>Across the parts.\<close> \<open>EndToEnd\<close> runs the pay command of the SDK against the backend's own routes: the stored
  transfer, the signed transaction and the user's request agree. \<open>AccountApi\<close> puts the account routes behind
  the SDK's client: their answers are read as what the chain holds, and what a failed balance request does
  to later deposits. \<open>WebBackend\<close> puts the guard in front of the web application, which has no key, and compares
  what the pages show and send with what the backend stores and expects; it also has the content routes.

  \<^bold>\<open>Bounds and fuel.\<close> Recursions are structural or have a measure, except \<open>eval_loop\<close> of \<open>Orders\<close> (fuel, with
  the theorem above). Numeric bounds are those of the code: 64-bit amounts, the 50 messages and 10000
  characters of the chat, binary64 rounding.

  \<^bold>\<open>Not modelled.\<close> The markup of the web application beyond the conditions, disabled flags and handlers of
  its controls, and its presentational components; module wiring of the backend (\<^verbatim>\<open>main.ts\<close>, modules,
  migrations, entity declarations); the agent card, which is a constant; the splitting of a command line by
  the parser library, and printing (\<^verbatim>\<open>output.ts\<close> apart from \<open>wrapCommand\<close>): they hold no state or logic of
  their own beyond calls to libraries. The on-chain programs are in Rust; the library meets them through
  the instructions and accounts that the TypeScript code builds and reads. Overlapping handlers of one page, and
  overlapping commands of the SDK on the same files, are not modelled: they run one after the other.
\<close>

end
